(* ===== verification/Prelude.thy ===== *)
theory Prelude
  imports Main "HOL-Library.Char_ord" "HOL-Library.List_Lexorder" "HOL-Library.Product_Lexorder"
begin

text \<open>
  The shared ground of the development: the error values every component raises, the
  printing of Python integers, and the keyed tables that stand for the rows of an SQL
  table whose primary key is \<open>key\<close>. A \<^verbatim>\<open>SELECT ... WHERE key = k\<close> followed by
  \<^verbatim>\<open>fetchone()\<close> is \<open>row_of\<close>, an \<^verbatim>\<open>UPDATE ... WHERE key = k\<close> is \<open>upd_row\<close>, a
  \<^verbatim>\<open>DELETE ... WHERE key = k\<close> is \<open>del_row\<close> and an \<^verbatim>\<open>INSERT\<close> appends. The lemmas on
  them carry the proofs of every store.
\<close>

named_theorems table_simps
named_theorems codec_simps

section \<open>Errors\<close>

text \<open>
  The exceptions of the modelled code. \<open>ValueError\<close> carries the message of the source,
  \<open>InvalidInputError\<close> and \<open>RetryNotDueError\<close> are the port errors of
  \<^verbatim>\<open>packages/application/ports/errors.py\<close>, \<open>AssertionError\<close> a failed \<^verbatim>\<open>assert\<close>,
  \<open>IntegrityError\<close> a violated SQL constraint, \<open>OverflowError\<close> a date beyond the year 9999,
  \<open>FileNotFoundError\<close> a missing file.
\<close>

datatype py_error =
    ValueError string
  | KeyError string
  | AssertionError
  | InvalidInputError string
  | RetryNotDueError string
  | PermanentPortError string
  | IntegrityError string
  | OverflowError string
  | TypeError string
  | FileNotFoundError string

type_synonym 'a res = "py_error + 'a"

definition is_ok :: "('e + 'a) \<Rightarrow> bool" where
  "is_ok r = (case r of Inl _ \<Rightarrow> False | Inr _ \<Rightarrow> True)"

definition bind_res :: "('e + 'a) \<Rightarrow> ('a \<Rightarrow> 'e + 'b) \<Rightarrow> 'e + 'b" where
  "bind_res r f = (case r of Inl e \<Rightarrow> Inl e | Inr a \<Rightarrow> f a)"

text \<open>
  A validating constructor (\<^verbatim>\<open>__post_init__\<close>) is a sequence of guarded raises; the first
  one that fires is the error.
\<close>

fun first_error :: "(bool \<times> string) list \<Rightarrow> 'a \<Rightarrow> 'a res" where
  "first_error [] a = Inr a"
| "first_error ((b, msg) # gs) a = (if b then Inl (ValueError msg) else first_error gs a)"

lemma first_error_Inr_iff:
  "first_error gs a = Inr b \<longleftrightarrow> b = a \<and> list_all (\<lambda>g. \<not> fst g) gs"
  by (induction gs a rule: first_error.induct) auto

lemma first_error_ok_iff: "is_ok (first_error gs a) \<longleftrightarrow> list_all (\<lambda>g. \<not> fst g) gs"
  by (induction gs a rule: first_error.induct) (auto simp: is_ok_def)

lemma first_error_Inl:
  "first_error gs a = Inl e \<Longrightarrow> \<exists>msg. (True, msg) \<in> set gs \<and> e = ValueError msg"
  by (induction gs a rule: first_error.induct) (auto split: if_splits)

lemma bind_res_simps [simp]:
  "bind_res (Inl e) f = Inl e"
  "bind_res (Inr a) f = f a"
  by (simp_all add: bind_res_def)

lemma bind_res_Inr_iff:
  "bind_res r f = Inr b \<longleftrightarrow> (\<exists>a. r = Inr a \<and> f a = Inr b)"
  by (cases r) simp_all

lemma is_ok_simps [simp]: "\<not> is_ok (Inl e)" "is_ok (Inr a)"
  by (simp_all add: is_ok_def)

fun map_res :: "('a \<Rightarrow> 'b res) \<Rightarrow> 'a list \<Rightarrow> 'b list res" where
  "map_res f [] = Inr []"
| "map_res f (x # xs) = bind_res (f x) (\<lambda>y. bind_res (map_res f xs) (\<lambda>ys. Inr (y # ys)))"

lemma map_res_map:
  assumes "\<And>x. x \<in> set xs \<Longrightarrow> f (g x) = Inr (h x)"
  shows "map_res f (map g xs) = Inr (map h xs)"
  using assms by (induction xs) simp_all

section \<open>Printing integers\<close>

fun digits_of :: "nat \<Rightarrow> string" where
  "digits_of n =
     (if n < 10 then [char_of (48 + n)]
      else digits_of (n div 10) @ [char_of (48 + n mod 10)])"

declare digits_of.simps [simp del]

definition str_int :: "int \<Rightarrow> string" where
  "str_int i = (if i < 0 then ''-'' @ digits_of (nat (- i)) else digits_of (nat i))"

section \<open>Texts\<close>

text \<open>
  \<^verbatim>\<open>sep.join(texts)\<close>, \<^verbatim>\<open>repr\<close> of a string without quotes or escapes, and the text of a
  Python list of integers.
\<close>

fun join_texts :: "string \<Rightarrow> string list \<Rightarrow> string" where
  "join_texts sep [] = []"
| "join_texts sep [x] = x"
| "join_texts sep (x # xs) = x @ sep @ join_texts sep xs"

definition quote :: "string \<Rightarrow> string" where
  "quote s = [CHR 0x27] @ s @ [CHR 0x27]"

definition str_int_list :: "int list \<Rightarrow> string" where
  "str_int_list xs = ''['' @ join_texts '', '' (map str_int xs) @ '']''"

section \<open>Keyed tables\<close>

definition row_of :: "('r \<Rightarrow> 'k) \<Rightarrow> 'k \<Rightarrow> 'r list \<Rightarrow> 'r option" where
  "row_of key k rows = find (\<lambda>r. key r = k) rows"

definition upd_row :: "('r \<Rightarrow> 'k) \<Rightarrow> 'k \<Rightarrow> ('r \<Rightarrow> 'r) \<Rightarrow> 'r list \<Rightarrow> 'r list" where
  "upd_row key k f rows = map (\<lambda>r. if key r = k then f r else r) rows"

definition del_row :: "('r \<Rightarrow> 'k) \<Rightarrow> 'k \<Rightarrow> 'r list \<Rightarrow> 'r list" where
  "del_row key k rows = filter (\<lambda>r. key r \<noteq> k) rows"

lemma row_of_Nil [table_simps, simp]: "row_of key k [] = None"
  by (simp add: row_of_def)

lemma row_of_Cons [table_simps]:
  "row_of key k (r # rs) = (if key r = k then Some r else row_of key k rs)"
  by (simp add: row_of_def)

lemma row_of_None_iff: "row_of key k rows = None \<longleftrightarrow> k \<notin> key ` set rows"
  by (auto simp: row_of_def find_None_iff)

lemma row_of_SomeD:
  assumes "row_of key k rows = Some r"
  shows "r \<in> set rows" and "key r = k"
  using assms by (auto simp: row_of_def find_Some_iff)

lemma row_of_append [table_simps]:
  "row_of key k (xs @ ys) =
     (case row_of key k xs of Some r \<Rightarrow> Some r | None \<Rightarrow> row_of key k ys)"
  by (induction xs) (simp_all add: row_of_Cons)

lemma row_of_upd_row [table_simps]:
  assumes "\<And>r. key (f r) = key r"
  shows "row_of key k (upd_row key k' f rows) =
           (if k = k' then map_option f (row_of key k rows) else row_of key k rows)"
  using assms by (induction rows) (auto simp: upd_row_def row_of_Cons)

lemma row_of_del_row [table_simps]:
  "row_of key k (del_row key k' rows) = (if k = k' then None else row_of key k rows)"
  by (induction rows) (auto simp: del_row_def row_of_Cons)

lemma keys_upd_row [table_simps]:
  assumes "\<And>r. key (f r) = key r"
  shows "map key (upd_row key k f rows) = map key rows"
  using assms by (simp add: upd_row_def)

lemma row_of_map:
  assumes "\<And>r. key (f r) = key r"
  shows "row_of key k (map f rows) = map_option f (row_of key k rows)"
  using assms by (induction rows) (auto simp: row_of_Cons)

lemma keys_del_row [table_simps]:
  "map key (del_row key k rows) = filter (\<lambda>x. x \<noteq> k) (map key rows)"
  by (induction rows) (auto simp: del_row_def)

lemma set_del_row [table_simps]: "set (del_row key k rows) = {r \<in> set rows. key r \<noteq> k}"
  by (auto simp: del_row_def)

lemma set_upd_row:
  "set (upd_row key k f rows) = (\<lambda>r. if key r = k then f r else r) ` set rows"
  by (simp add: upd_row_def)

lemma row_of_distinct:
  assumes "distinct (map key rows)" and "r \<in> set rows"
  shows "row_of key (key r) rows = Some r"
  using assms by (induction rows) (auto simp: row_of_Cons image_iff)

lemma length_upd_row [simp]: "length (upd_row key k f rows) = length rows"
  by (simp add: upd_row_def)

lemma upd_row_absent: "k \<notin> key ` set rows \<Longrightarrow> upd_row key k f rows = rows"
  by (induction rows) (auto simp: upd_row_def)

lemma del_row_absent: "k \<notin> key ` set rows \<Longrightarrow> del_row key k rows = rows"
  by (induction rows) (auto simp: del_row_def)

section \<open>Sorting\<close>

lemma sort_key_Nil_iff [simp]: "sort_key f xs = [] \<longleftrightarrow> xs = []"
  by (metis length_0_conv length_sort)

lemma insort_key_snoc: "f a \<le> f d \<Longrightarrow> insort_key f a (ys @ [d]) = insort_key f a ys @ [d]"
  by (induction ys) simp_all

lemma sort_key_snoc:
  assumes "\<And>x. x \<in> set xs \<Longrightarrow> f x \<le> f d"
  shows "sort_key f (xs @ [d]) = sort_key f xs @ [d]"
  using assms by (induction xs) (simp_all add: insort_key_snoc)

section \<open>Counting\<close>

lemma list_all2_members:
  assumes "list_all2 P xs ys"
  shows "x \<in> set xs \<Longrightarrow> \<exists>y\<in>set ys. P x y" and "y \<in> set ys \<Longrightarrow> \<exists>x\<in>set xs. P x y"
  using assms by (induction rule: list_all2_induct) auto

lemma count_filter_snoc:
  "length (filter P (xs @ [x])) = length (filter P xs) + (if P x then 1 else 0)"
  by simp

lemma sum_list_mono_filter:
  fixes f :: "'a \<Rightarrow> nat"
  shows "sum_list (map f (filter P xs)) \<le> sum_list (map f xs)"
  by (induction xs) auto

end
