(* ===== verification/State_Base.thy ===== *)
theory State_Base
  imports Prelude
begin

text \<open>
  The common base of the domain state machines (\<^verbatim>\<open>packages/domain/state_base.py\<close>). Every
  machine of the domain is a table \<^verbatim>\<open>_TRANSITIONS\<close> from (state, event) to the next state,
  an initial state and a set of terminal states; \<^verbatim>\<open>transition\<close> looks the pair up and raises
  \<open>InvalidTransitionError\<close> on a miss. The locale \<open>lifecycle\<close> states what the machines
  promise (unambiguous table, exits from a terminal state only by manual events) and
  derives the facts the components use; \<open>closing_lifecycle\<close> adds that every live state
  has an exit that brings it closer to a terminal one.
\<close>

datatype ('s, 'e) invalid_transition = InvalidTransitionError (ite_current: 's) (ite_event: 'e)

definition is_terminal :: "'s \<Rightarrow> 's list \<Rightarrow> bool" where
  "is_terminal state terminal_states = (state \<in> set terminal_states)"

definition transition_of ::
    "(('s \<times> 'e) \<times> 's) list \<Rightarrow> 's \<Rightarrow> 'e \<Rightarrow> ('s, 'e) invalid_transition + 's" where
  "transition_of table s e =
     (case map_of table (s, e) of
        None \<Rightarrow> Inl (InvalidTransitionError s e)
      | Some s' \<Rightarrow> Inr s')"

text \<open>Applying a list of events stops at the first illegal one, as the exception does.\<close>

fun run_events ::
    "(('s \<times> 'e) \<times> 's) list \<Rightarrow> 's \<Rightarrow> 'e list \<Rightarrow> ('s, 'e) invalid_transition + 's" where
  "run_events table s [] = Inr s"
| "run_events table s (e # es) =
     (case transition_of table s e of Inl err \<Rightarrow> Inl err | Inr s' \<Rightarrow> run_events table s' es)"

lemma transition_of_Inr_iff:
  "transition_of table s e = Inr s' \<longleftrightarrow> map_of table (s, e) = Some s'"
  by (auto simp: transition_of_def split: option.splits)

lemma transition_of_Inl:
  "transition_of table s e = Inl err \<Longrightarrow>
     err = InvalidTransitionError s e \<and> (s, e) \<notin> fst ` set table"
  by (auto simp: transition_of_def map_of_eq_None_iff split: option.splits)

lemma run_events_append:
  "run_events table s (es @ fs) = bind_res (run_events table s es) (\<lambda>s'. run_events table s' fs)"
  by (induction es arbitrary: s) (auto split: sum.splits)

text \<open>\<open>path\<close>: one state leads to another by some sequence of events of the table.\<close>

inductive path :: "(('s \<times> 'e) \<times> 's) list \<Rightarrow> 's \<Rightarrow> 's \<Rightarrow> bool" for table where
  path_refl: "path table s s"
| path_step: "transition_of table s e = Inr s' \<Longrightarrow> path table s' t \<Longrightarrow> path table s t"

lemma path_iff_run: "path table s t \<longleftrightarrow> (\<exists>es. run_events table s es = Inr t)"
proof
  show "path table s t \<Longrightarrow> \<exists>es. run_events table s es = Inr t"
  proof (induction rule: path.induct)
    case (path_refl s)
    have "run_events table s [] = Inr s" by simp
    then show ?case ..
  next
    case (path_step s e s' t)
    then obtain es where "run_events table s' es = Inr t" by blast
    with path_step.hyps have "run_events table s (e # es) = Inr t" by simp
    then show ?case ..
  qed
next
  assume "\<exists>es. run_events table s es = Inr t"
  then obtain es where "run_events table s es = Inr t" ..
  then show "path table s t"
    by (induction es arbitrary: s)
       (auto intro: path.intros split: sum.splits)
qed

lemma path_trans: "path table s t \<Longrightarrow> path table t u \<Longrightarrow> path table s u"
  by (induction rule: path.induct) (auto intro: path.intros)

lemma path_event: "transition_of table s e = Inr s' \<Longrightarrow> path table s s'"
  by (rule path_step) (auto intro: path_refl)

locale lifecycle =
  fixes table :: "(('s \<times> 'e) \<times> 's) list"
    and initial :: 's
    and terminal :: "'s list"
    and manual :: "'e list"
  assumes unambiguous: "distinct (map fst table)"
    and terminal_exits: "((s, e), s') \<in> set table \<Longrightarrow> s \<in> set terminal \<Longrightarrow> e \<in> set manual"
    and initial_live: "\<not> is_terminal initial terminal"
begin

lemma transition_iff_table:
  "transition_of table s e = Inr s' \<longleftrightarrow> ((s, e), s') \<in> set table"
  using unambiguous by (simp add: transition_of_Inr_iff)

lemma terminal_rejects:
  assumes "is_terminal s terminal" and "e \<notin> set manual"
  shows "transition_of table s e = Inl (InvalidTransitionError s e)"
proof (cases "transition_of table s e")
  case (Inl err)
  then show ?thesis by (auto dest: transition_of_Inl)
next
  case (Inr s')
  then have "((s, e), s') \<in> set table" by (simp add: transition_iff_table)
  with assms show ?thesis by (auto simp: is_terminal_def dest: terminal_exits)
qed

lemma terminal_absorbing:
  assumes "is_terminal s terminal" and "set es \<inter> set manual = {}"
    and "run_events table s es = Inr t"
  shows "es = [] \<and> t = s"
  using assms by (cases es) (auto simp: terminal_rejects)

lemma automatic_run_ends_at_terminal:
  assumes "run_events table s (es @ fs) = Inr t" and "run_events table s es = Inr u"
    and "is_terminal u terminal" and "set fs \<inter> set manual = {}"
  shows "fs = [] \<and> t = u"
  using assms by (simp add: run_events_append terminal_absorbing)

text \<open>
  A gate: when every edge out of a region of states carries the event \<open>g\<close>, no run leaves
  the region without it.
\<close>

lemma gate_event_required:
  assumes edges: "\<And>u e v. ((u, e), v) \<in> set table \<Longrightarrow> u \<in> A \<Longrightarrow> v \<notin> A \<Longrightarrow> e = g"
    and "s \<in> A" and "run_events table s es = Inr t" and "t \<notin> A"
  shows "g \<in> set es"
  using assms(2-)
proof (induction es arbitrary: s)
  case Nil
  then show ?case by simp
next
  case (Cons e es)
  from Cons.prems obtain v where v: "transition_of table s e = Inr v"
    and rest: "run_events table v es = Inr t"
    by (auto split: sum.splits)
  show ?case
  proof (cases "v \<in> A")
    case True
    with Cons.IH rest Cons.prems(3) show ?thesis by simp
  next
    case False
    with v Cons.prems(1) have "e = g" by (intro edges) (simp_all add: transition_iff_table)
    then show ?thesis by simp
  qed
qed

end

locale closing_lifecycle = lifecycle +
  fixes rank :: "'s \<Rightarrow> nat"
  assumes closer: "\<not> is_terminal s terminal \<Longrightarrow>
    \<exists>e s'. transition_of table s e = Inr s' \<and> rank s' < rank s"
begin

lemma terminal_reachable: "\<exists>t. path table s t \<and> is_terminal t terminal"
proof (induction "rank s" arbitrary: s rule: less_induct)
  case less
  show ?case
  proof (cases "is_terminal s terminal")
    case True
    then show ?thesis by (blast intro: path_refl)
  next
    case False
    then obtain e s' where step: "transition_of table s e = Inr s'" and "rank s' < rank s"
      using closer by blast
    with less obtain t where "path table s' t" and "is_terminal t terminal" by blast
    with step show ?thesis by (blast intro: path_step)
  qed
qed

end

end
