(* ===== verification/Lifecycles.thy ===== *)
theory Lifecycles
  imports State_Base
begin

text \<open>
  The lifecycle tables of the control plane: \<^verbatim>\<open>ResearchRunState\<close> (\<^verbatim>\<open>run_state.py\<close>),
  \<^verbatim>\<open>PhaseRunState\<close> (\<^verbatim>\<open>phase_state.py\<close>), \<^verbatim>\<open>AgentSessionState\<close> and \<^verbatim>\<open>CancellationState\<close>
  (\<^verbatim>\<open>session_state.py\<close>), \<^verbatim>\<open>ResearchTaskState\<close> (\<^verbatim>\<open>task_state.py\<close>). A table is the list of
  the source's entries in the source's order; constructors carry a prefix per machine
  because several machines share state names. Each machine interprets \<open>lifecycle\<close>, and
  those from whose every state a terminal state can be reached also \<open>closing_lifecycle\<close>.
\<close>

section \<open>ResearchRun\<close>

datatype run_state =
    R_DRAFT | R_COMPILING | R_PREFLIGHT | R_READY | R_RUNNING | R_WAITING_FOR_APPROVAL
  | R_PAUSED | R_DEGRADED | R_SUCCEEDED | R_FAILED | R_CANCELLED

datatype run_event =
    RE_START_COMPILE | RE_COMPILE_OK | RE_PREFLIGHT_OK | RE_PREFLIGHT_FAILED | RE_START
  | RE_PAUSE | RE_RESUME | RE_REQUEST_APPROVAL | RE_APPROVAL_GRANTED
  | RE_APPROVAL_REJECTED | RE_DEGRADE | RE_SUCCEED | RE_FAIL | RE_CANCEL

definition run_transitions :: "((run_state \<times> run_event) \<times> run_state) list" where
  "run_transitions = [
    ((R_DRAFT, RE_START_COMPILE), R_COMPILING),
    ((R_COMPILING, RE_COMPILE_OK), R_PREFLIGHT),
    ((R_PREFLIGHT, RE_PREFLIGHT_OK), R_READY),
    ((R_PREFLIGHT, RE_PREFLIGHT_FAILED), R_FAILED),
    ((R_READY, RE_START), R_RUNNING),
    ((R_RUNNING, RE_PAUSE), R_PAUSED),
    ((R_PAUSED, RE_RESUME), R_RUNNING),
    ((R_RUNNING, RE_REQUEST_APPROVAL), R_WAITING_FOR_APPROVAL),
    ((R_WAITING_FOR_APPROVAL, RE_APPROVAL_GRANTED), R_RUNNING),
    ((R_WAITING_FOR_APPROVAL, RE_APPROVAL_REJECTED), R_FAILED),
    ((R_RUNNING, RE_DEGRADE), R_DEGRADED),
    ((R_DEGRADED, RE_RESUME), R_RUNNING),
    ((R_RUNNING, RE_SUCCEED), R_SUCCEEDED),
    ((R_DEGRADED, RE_SUCCEED), R_SUCCEEDED),
    ((R_DRAFT, RE_CANCEL), R_CANCELLED),
    ((R_COMPILING, RE_CANCEL), R_CANCELLED),
    ((R_PREFLIGHT, RE_CANCEL), R_CANCELLED),
    ((R_READY, RE_CANCEL), R_CANCELLED),
    ((R_RUNNING, RE_CANCEL), R_CANCELLED),
    ((R_PAUSED, RE_CANCEL), R_CANCELLED),
    ((R_WAITING_FOR_APPROVAL, RE_CANCEL), R_CANCELLED),
    ((R_DEGRADED, RE_CANCEL), R_CANCELLED),
    ((R_RUNNING, RE_FAIL), R_FAILED),
    ((R_DEGRADED, RE_FAIL), R_FAILED)]"

definition run_initial :: run_state where
  "run_initial = R_DRAFT"

definition run_terminal :: "run_state list" where
  "run_terminal = [R_SUCCEEDED, R_FAILED, R_CANCELLED]"

definition run_transition ::
    "run_state \<Rightarrow> run_event \<Rightarrow> (run_state, run_event) invalid_transition + run_state" where
  "run_transition current event = transition_of run_transitions current event"

section \<open>PhaseRun\<close>

datatype phase_state =
    P_PENDING | P_READY | P_RUNNING | P_WAITING | P_PAUSED | P_SUCCEEDED | P_FAILED
  | P_CANCELLED | P_SKIPPED

datatype phase_event =
    PE_ACTIVATE | PE_START | PE_WAIT | PE_PAUSE | PE_RESUME | PE_SUCCEED | PE_FAIL
  | PE_CANCEL | PE_SKIP

definition phase_transitions :: "((phase_state \<times> phase_event) \<times> phase_state) list" where
  "phase_transitions = [
    ((P_PENDING, PE_ACTIVATE), P_READY),
    ((P_READY, PE_START), P_RUNNING),
    ((P_RUNNING, PE_WAIT), P_WAITING),
    ((P_WAITING, PE_RESUME), P_RUNNING),
    ((P_RUNNING, PE_PAUSE), P_PAUSED),
    ((P_PAUSED, PE_RESUME), P_RUNNING),
    ((P_RUNNING, PE_SUCCEED), P_SUCCEEDED),
    ((P_RUNNING, PE_FAIL), P_FAILED),
    ((P_PENDING, PE_CANCEL), P_CANCELLED),
    ((P_READY, PE_CANCEL), P_CANCELLED),
    ((P_RUNNING, PE_CANCEL), P_CANCELLED),
    ((P_WAITING, PE_CANCEL), P_CANCELLED),
    ((P_PAUSED, PE_CANCEL), P_CANCELLED),
    ((P_PENDING, PE_SKIP), P_SKIPPED),
    ((P_READY, PE_SKIP), P_SKIPPED),
    ((P_WAITING, PE_FAIL), P_FAILED),
    ((P_PAUSED, PE_FAIL), P_FAILED)]"

definition phase_initial :: phase_state where
  "phase_initial = P_PENDING"

definition phase_terminal :: "phase_state list" where
  "phase_terminal = [P_SUCCEEDED, P_FAILED, P_CANCELLED, P_SKIPPED]"

definition phase_transition ::
    "phase_state \<Rightarrow> phase_event \<Rightarrow> (phase_state, phase_event) invalid_transition + phase_state" where
  "phase_transition current event = transition_of phase_transitions current event"

section \<open>AgentSession\<close>

datatype session_state =
    S_CREATED | S_INITIALIZING | S_RUNNING | S_WAITING_FOR_APPROVAL | S_PAUSED | S_STUCK
  | S_SUCCEEDED | S_FAILED | S_CANCELLED

datatype session_event =
    SE_INITIALIZE | SE_START | SE_REQUEST_APPROVAL | SE_APPROVAL_GRANTED
  | SE_APPROVAL_REJECTED | SE_PAUSE | SE_RESUME | SE_STUCK | SE_UNSTUCK | SE_SUCCEED
  | SE_FAIL | SE_CANCEL

definition session_transitions :: "((session_state \<times> session_event) \<times> session_state) list" where
  "session_transitions = [
    ((S_CREATED, SE_INITIALIZE), S_INITIALIZING),
    ((S_INITIALIZING, SE_START), S_RUNNING),
    ((S_RUNNING, SE_REQUEST_APPROVAL), S_WAITING_FOR_APPROVAL),
    ((S_WAITING_FOR_APPROVAL, SE_APPROVAL_GRANTED), S_RUNNING),
    ((S_WAITING_FOR_APPROVAL, SE_APPROVAL_REJECTED), S_FAILED),
    ((S_RUNNING, SE_PAUSE), S_PAUSED),
    ((S_PAUSED, SE_RESUME), S_RUNNING),
    ((S_RUNNING, SE_STUCK), S_STUCK),
    ((S_STUCK, SE_UNSTUCK), S_RUNNING),
    ((S_RUNNING, SE_SUCCEED), S_SUCCEEDED),
    ((S_INITIALIZING, SE_CANCEL), S_CANCELLED),
    ((S_RUNNING, SE_CANCEL), S_CANCELLED),
    ((S_WAITING_FOR_APPROVAL, SE_CANCEL), S_CANCELLED),
    ((S_PAUSED, SE_CANCEL), S_CANCELLED),
    ((S_STUCK, SE_CANCEL), S_CANCELLED),
    ((S_INITIALIZING, SE_FAIL), S_FAILED),
    ((S_RUNNING, SE_FAIL), S_FAILED),
    ((S_STUCK, SE_FAIL), S_FAILED)]"

definition session_initial :: session_state where
  "session_initial = S_CREATED"

definition session_terminal :: "session_state list" where
  "session_terminal = [S_SUCCEEDED, S_FAILED, S_CANCELLED]"

definition session_transition ::
    "session_state \<Rightarrow> session_event \<Rightarrow> (session_state, session_event) invalid_transition + session_state" where
  "session_transition current event = transition_of session_transitions current event"

section \<open>Cancellation\<close>

datatype cancellation_state =
    C_REQUESTED | C_COOPERATIVE | C_FORCED | C_COMPENSATING | C_CANCELLED

datatype cancellation_event =
    CE_ACCEPT | CE_ESCALATE | CE_COMPENSATE | CE_COMPLETE

definition cancellation_transitions :: "((cancellation_state \<times> cancellation_event) \<times> cancellation_state) list" where
  "cancellation_transitions = [
    ((C_REQUESTED, CE_ACCEPT), C_COOPERATIVE),
    ((C_REQUESTED, CE_ESCALATE), C_FORCED),
    ((C_FORCED, CE_COMPENSATE), C_COMPENSATING),
    ((C_COMPENSATING, CE_COMPLETE), C_CANCELLED)]"

definition cancellation_initial :: cancellation_state where
  "cancellation_initial = C_REQUESTED"

definition cancellation_terminal :: "cancellation_state list" where
  "cancellation_terminal = [C_CANCELLED]"

definition cancellation_transition ::
    "cancellation_state \<Rightarrow> cancellation_event \<Rightarrow> (cancellation_state, cancellation_event) invalid_transition + cancellation_state" where
  "cancellation_transition current event = transition_of cancellation_transitions current event"

section \<open>ResearchTask\<close>

datatype task_state =
    T_CREATED | T_QUEUED | T_LEASED | T_RUNNING | T_WAITING_FOR_TOOL
  | T_WAITING_FOR_APPROVAL | T_RETRY_SCHEDULED | T_SUCCEEDED | T_FAILED | T_DEAD_LETTER
  | T_CANCELLED

datatype task_event =
    TE_ENQUEUE | TE_LEASE | TE_START | TE_WAIT_FOR_TOOL | TE_TOOL_READY
  | TE_REQUEST_APPROVAL | TE_APPROVAL_GRANTED | TE_APPROVAL_REJECTED | TE_SCHEDULE_RETRY
  | TE_EXPIRE_LEASE | TE_SUCCEED | TE_FAIL | TE_DEAD_LETTER | TE_CANCEL | TE_REQUEUE

definition task_transitions :: "((task_state \<times> task_event) \<times> task_state) list" where
  "task_transitions = [
    ((T_CREATED, TE_ENQUEUE), T_QUEUED),
    ((T_QUEUED, TE_LEASE), T_LEASED),
    ((T_LEASED, TE_START), T_RUNNING),
    ((T_LEASED, TE_EXPIRE_LEASE), T_QUEUED),
    ((T_RUNNING, TE_WAIT_FOR_TOOL), T_WAITING_FOR_TOOL),
    ((T_WAITING_FOR_TOOL, TE_TOOL_READY), T_RUNNING),
    ((T_RUNNING, TE_REQUEST_APPROVAL), T_WAITING_FOR_APPROVAL),
    ((T_WAITING_FOR_APPROVAL, TE_APPROVAL_GRANTED), T_RUNNING),
    ((T_WAITING_FOR_APPROVAL, TE_APPROVAL_REJECTED), T_FAILED),
    ((T_RUNNING, TE_SCHEDULE_RETRY), T_RETRY_SCHEDULED),
    ((T_RETRY_SCHEDULED, TE_ENQUEUE), T_QUEUED),
    ((T_RUNNING, TE_SUCCEED), T_SUCCEEDED),
    ((T_RUNNING, TE_FAIL), T_FAILED),
    ((T_RETRY_SCHEDULED, TE_FAIL), T_FAILED),
    ((T_RETRY_SCHEDULED, TE_DEAD_LETTER), T_DEAD_LETTER),
    ((T_DEAD_LETTER, TE_REQUEUE), T_QUEUED),
    ((T_WAITING_FOR_APPROVAL, TE_FAIL), T_FAILED),
    ((T_CREATED, TE_CANCEL), T_CANCELLED),
    ((T_QUEUED, TE_CANCEL), T_CANCELLED),
    ((T_LEASED, TE_CANCEL), T_CANCELLED),
    ((T_RUNNING, TE_CANCEL), T_CANCELLED),
    ((T_WAITING_FOR_TOOL, TE_CANCEL), T_CANCELLED),
    ((T_WAITING_FOR_APPROVAL, TE_CANCEL), T_CANCELLED),
    ((T_RETRY_SCHEDULED, TE_CANCEL), T_CANCELLED)]"

definition task_initial :: task_state where
  "task_initial = T_CREATED"

definition task_terminal :: "task_state list" where
  "task_terminal = [T_SUCCEEDED, T_FAILED, T_DEAD_LETTER, T_CANCELLED]"

definition task_transition ::
    "task_state \<Rightarrow> task_event \<Rightarrow> (task_state, task_event) invalid_transition + task_state" where
  "task_transition current event = transition_of task_transitions current event"

section \<open>The tables as lifecycles\<close>

lemmas run_table_defs = run_transitions_def run_initial_def run_terminal_def is_terminal_def
lemmas phase_table_defs = phase_transitions_def phase_initial_def phase_terminal_def is_terminal_def
lemmas session_table_defs =
  session_transitions_def session_initial_def session_terminal_def is_terminal_def
lemmas cancellation_table_defs =
  cancellation_transitions_def cancellation_initial_def cancellation_terminal_def is_terminal_def
lemmas task_table_defs = task_transitions_def task_initial_def task_terminal_def is_terminal_def

text \<open>
  The rank of a state bounds the number of events to the nearest terminal state; it is the
  measure of \<open>closing_lifecycle\<close>.
\<close>

definition run_rank :: "run_state \<Rightarrow> nat" where
  "run_rank s = (if is_terminal s run_terminal then 0 else 1)"

definition phase_rank :: "phase_state \<Rightarrow> nat" where
  "phase_rank s = (if is_terminal s phase_terminal then 0 else 1)"

definition session_rank :: "session_state \<Rightarrow> nat" where
  "session_rank s =
     (if is_terminal s session_terminal then 0 else if s = S_CREATED then 2 else 1)"

definition task_rank :: "task_state \<Rightarrow> nat" where
  "task_rank s = (if is_terminal s task_terminal then 0 else 1)"

lemma run_closer:
  "\<not> is_terminal s run_terminal \<Longrightarrow>
     \<exists>e s'. transition_of run_transitions s e = Inr s' \<and> run_rank s' < run_rank s"
  by (cases s) (auto simp: run_table_defs run_rank_def transition_of_Inr_iff split: if_splits)

lemma phase_closer:
  "\<not> is_terminal s phase_terminal \<Longrightarrow>
     \<exists>e s'. transition_of phase_transitions s e = Inr s' \<and> phase_rank s' < phase_rank s"
  by (cases s) (auto simp: phase_table_defs phase_rank_def transition_of_Inr_iff split: if_splits)

lemma session_closer:
  "\<not> is_terminal s session_terminal \<Longrightarrow>
     \<exists>e s'. transition_of session_transitions s e = Inr s' \<and> session_rank s' < session_rank s"
  by (cases s) (auto simp: session_table_defs session_rank_def transition_of_Inr_iff split: if_splits)

lemma task_closer:
  "\<not> is_terminal s task_terminal \<Longrightarrow>
     \<exists>e s'. transition_of task_transitions s e = Inr s' \<and> task_rank s' < task_rank s"
  by (cases s) (auto simp: task_table_defs task_rank_def transition_of_Inr_iff split: if_splits)

interpretation run: closing_lifecycle run_transitions run_initial run_terminal "[]" run_rank
  by (unfold_locales, simp add: run_table_defs, force simp: run_table_defs,
      simp add: run_table_defs, erule run_closer)

interpretation phase: closing_lifecycle phase_transitions phase_initial phase_terminal "[]" phase_rank
  by (unfold_locales, simp add: phase_table_defs, force simp: phase_table_defs,
      simp add: phase_table_defs, erule phase_closer)

interpretation session: closing_lifecycle session_transitions session_initial session_terminal "[]" session_rank
  by (unfold_locales, simp add: session_table_defs, force simp: session_table_defs,
      simp add: session_table_defs, erule session_closer)

interpretation task: closing_lifecycle task_transitions task_initial task_terminal "[TE_REQUEUE]" task_rank
  by (unfold_locales, simp add: task_table_defs, force simp: task_table_defs,
      simp add: task_table_defs, erule task_closer)

interpretation cancellation: lifecycle
  cancellation_transitions cancellation_initial cancellation_terminal "[]"
  by unfold_locales (auto simp: cancellation_table_defs)

section \<open>Properties\<close>

lemma task_terminal_first_event:
  assumes "is_terminal s task_terminal" and "run_events task_transitions s es = Inr t" and "es \<noteq> []"
  shows "s = T_DEAD_LETTER \<and> (\<exists>rest. es = TE_REQUEUE # rest \<and>
           run_events task_transitions T_QUEUED rest = Inr t)"
proof -
  from assms(3) obtain e rest where es: "es = e # rest" by (cases es) auto
  with assms(2) obtain v where v: "transition_of task_transitions s e = Inr v"
    and rest: "run_events task_transitions v rest = Inr t" by (auto split: sum.splits)
  have "e = TE_REQUEUE" using v assms(1) task.terminal_rejects [of s e] by fastforce
  moreover have "s = T_DEAD_LETTER \<and> v = T_QUEUED"
    using v \<open>e = TE_REQUEUE\<close> by (cases s) (auto simp: transition_of_Inr_iff task_transitions_def)
  ultimately show ?thesis using es rest by simp
qed

lemma cancellation_cooperative_stuck:
  "run_events cancellation_transitions C_COOPERATIVE es = Inr t \<Longrightarrow> es = [] \<and> t = C_COOPERATIVE"
  by (cases es; cases "hd es") (auto simp: transition_of_def cancellation_transitions_def)

text \<open>
  C22: a terminal state is final. No event sequence leaves a terminal state of a run, a phase
  or an agent session; a terminal task is left only from \<open>DEAD_LETTER\<close>, only by the manual
  \<open>REQUEUE\<close> as the first event, and then the task is \<open>QUEUED\<close> again.
\<close>

theorem terminal_states_are_final:
  "(is_terminal r run_terminal \<and> run_events run_transitions r res = Inr r' \<longrightarrow> res = [] \<and> r' = r) \<and>
   (is_terminal p phase_terminal \<and> run_events phase_transitions p pes = Inr p' \<longrightarrow> pes = [] \<and> p' = p) \<and>
   (is_terminal s session_terminal \<and> run_events session_transitions s ses = Inr s' \<longrightarrow> ses = [] \<and> s' = s) \<and>
   (is_terminal t task_terminal \<and> run_events task_transitions t tes = Inr t' \<and> tes \<noteq> [] \<longrightarrow>
      t = T_DEAD_LETTER \<and> (\<exists>rest. tes = TE_REQUEUE # rest \<and>
        run_events task_transitions T_QUEUED rest = Inr t'))"
  using run.terminal_absorbing [of r res r'] phase.terminal_absorbing [of p pes p']
    session.terminal_absorbing [of s ses s'] task_terminal_first_event [of t tes t']
  by simp

theorem terminal_states_are_final_witness:
  "is_terminal R_FAILED run_terminal \<and> run_events run_transitions R_FAILED [] = Inr R_FAILED \<and>
   is_terminal T_DEAD_LETTER task_terminal \<and>
   (\<exists>rest. [TE_REQUEUE, TE_LEASE] = TE_REQUEUE # rest \<and>
      run_events task_transitions T_QUEUED rest = Inr T_LEASED)"
proof -
  have "is_terminal R_FAILED run_terminal" by (simp add: run_table_defs)
  moreover have "is_terminal T_DEAD_LETTER task_terminal"
    and "run_events task_transitions T_DEAD_LETTER [TE_REQUEUE, TE_LEASE] = Inr T_LEASED"
    by (simp_all add: task_table_defs transition_of_def)
  ultimately show ?thesis
    using terminal_states_are_final [of R_FAILED "[]" R_FAILED P_PENDING "[]" P_PENDING S_CREATED "[]" S_CREATED
        T_DEAD_LETTER "[TE_REQUEUE, TE_LEASE]" T_LEASED]
    by simp
qed

text \<open>
  No lifecycle is a trap. From every state of a run, a phase, a session or a task some
  sequence of its events ends in a terminal state. The cancellation machine is the exception:
  a cancellation that was accepted cooperatively accepts no event at all, so it never becomes
  \<open>CANCELLED\<close>.
\<close>

theorem terminal_states_are_reachable:
  "(\<exists>r' es. run_events run_transitions r es = Inr r' \<and> is_terminal r' run_terminal) \<and>
   (\<exists>p' es. run_events phase_transitions p es = Inr p' \<and> is_terminal p' phase_terminal) \<and>
   (\<exists>s' es. run_events session_transitions s es = Inr s' \<and> is_terminal s' session_terminal) \<and>
   (\<exists>t' es. run_events task_transitions t es = Inr t' \<and> is_terminal t' task_terminal) \<and>
   (\<nexists>es c. run_events cancellation_transitions C_COOPERATIVE es = Inr c \<and>
      is_terminal c cancellation_terminal)"
  using run.terminal_reachable [of r] phase.terminal_reachable [of p]
    session.terminal_reachable [of s] task.terminal_reachable [of t]
    cancellation_cooperative_stuck
  by (auto simp: path_iff_run cancellation_terminal_def is_terminal_def)

end
