(* ===== verification/Decimals.thy ===== *)
theory Decimals
  imports Prelude Complex_Main
begin

text \<open>
  Python's \<^verbatim>\<open>decimal.Decimal\<close> for finite values: a coefficient and a power of ten, compared
  exactly and added under the default context of 28 significant digits with
  \<^verbatim>\<open>ROUND_HALF_EVEN\<close>. \<open>dec_val\<close> is the number a decimal denotes; the comparisons are shown
  to be the order of the denoted numbers, and addition to be exact while the aligned
  coefficient fits the context.
\<close>

datatype decimal = Dec (coef: int) (expo: int)

definition dec_val :: "decimal \<Rightarrow> rat" where
  "dec_val d = of_int (coef d) * (if 0 \<le> expo d then 10 ^ nat (expo d) else 1 / 10 ^ nat (- expo d))"

definition dec_of_int :: "int \<Rightarrow> decimal" where
  "dec_of_int i = Dec i 0"

text \<open>The coefficients of two decimals brought to the smaller exponent.\<close>

definition dec_align :: "decimal \<Rightarrow> decimal \<Rightarrow> int \<times> int \<times> int" where
  "dec_align a b =
     (let m = min (expo a) (expo b)
      in (coef a * 10 ^ nat (expo a - m), coef b * 10 ^ nat (expo b - m), m))"

definition dec_less :: "decimal \<Rightarrow> decimal \<Rightarrow> bool" where
  "dec_less a b = (case dec_align a b of (x, y, _) \<Rightarrow> x < y)"

definition dec_le :: "decimal \<Rightarrow> decimal \<Rightarrow> bool" where
  "dec_le a b = (case dec_align a b of (x, y, _) \<Rightarrow> x \<le> y)"

definition dec_eq :: "decimal \<Rightarrow> decimal \<Rightarrow> bool" where
  "dec_eq a b = (case dec_align a b of (x, y, _) \<Rightarrow> x = y)"

text \<open>The context precision and the rounding of a coefficient to it.\<close>

definition dec_prec :: nat where
  "dec_prec = 28"

fun num_digits :: "nat \<Rightarrow> nat" where
  "num_digits n = (if n < 10 then 1 else Suc (num_digits (n div 10)))"

declare num_digits.simps [simp del]

definition round_half_even :: "int \<Rightarrow> int \<Rightarrow> int" where
  "round_half_even n d =
     (let q = \<bar>n\<bar> div d; r = \<bar>n\<bar> mod d;
          q' = (if 2 * r < d then q else if d < 2 * r then q + 1 else if even q then q else q + 1)
      in sgn n * q')"

definition dec_fix :: "decimal \<Rightarrow> decimal" where
  "dec_fix d =
     (let k = num_digits (nat \<bar>coef d\<bar>)
      in if k \<le> dec_prec then d
         else (let c = round_half_even (coef d) (10 ^ (k - dec_prec));
                   e = expo d + int (k - dec_prec)
               in if num_digits (nat \<bar>c\<bar>) \<le> dec_prec then Dec c e else Dec (c div 10) (e + 1)))"

definition dec_add :: "decimal \<Rightarrow> decimal \<Rightarrow> decimal" where
  "dec_add a b = (case dec_align a b of (x, y, m) \<Rightarrow> dec_fix (Dec (x + y) m))"

definition dec_sub :: "decimal \<Rightarrow> decimal \<Rightarrow> decimal" where
  "dec_sub a b = (case dec_align a b of (x, y, m) \<Rightarrow> dec_fix (Dec (x - y) m))"

lemma dec_val_align:
  assumes "m \<le> expo d"
  shows "dec_val d = dec_val (Dec (coef d * 10 ^ nat (expo d - m)) m)"
proof -
  obtain c e where d: "d = Dec c e" by (cases d)
  have split: "nat (e - m) + nat m = nat e" if "0 \<le> m"
    using assms that d by simp
  consider "0 \<le> m" | "m < 0" "0 \<le> e" | "e < 0" by linarith
  then show ?thesis
  proof cases
    case 1
    then show ?thesis
      using assms d split by (simp add: dec_val_def power_add [symmetric])
  next
    case 2
    then have "nat (e - m) = nat e + nat (- m)" using assms by simp
    with 2 d show ?thesis by (simp add: dec_val_def power_add)
  next
    case 3
    then have "nat (- m) = nat (e - m) + nat (- e)" using assms d by simp
    with 3 d assms show ?thesis by (simp add: dec_val_def power_add)
  qed
qed

lemma dec_align_val:
  assumes "dec_align a b = (x, y, m)"
  shows "dec_val a = dec_val (Dec x m)" and "dec_val b = dec_val (Dec y m)"
  using assms dec_val_align [of m a] dec_val_align [of m b]
  by (auto simp: dec_align_def Let_def)

lemma dec_val_mono:
  "(dec_val (Dec x m) < dec_val (Dec y m)) = (x < y)"
  "(dec_val (Dec x m) \<le> dec_val (Dec y m)) = (x \<le> y)"
  by (simp_all add: dec_val_def divide_less_cancel divide_le_cancel)

lemma dec_less_iff: "dec_less a b \<longleftrightarrow> dec_val a < dec_val b"
proof -
  obtain x y m where al: "dec_align a b = (x, y, m)" by (cases "dec_align a b") auto
  from dec_align_val [OF al] show ?thesis
    by (simp add: dec_less_def al dec_val_mono)
qed

lemma dec_le_iff: "dec_le a b \<longleftrightarrow> dec_val a \<le> dec_val b"
proof -
  obtain x y m where al: "dec_align a b = (x, y, m)" by (cases "dec_align a b") auto
  from dec_align_val [OF al] show ?thesis
    by (simp add: dec_le_def al dec_val_mono)
qed

lemma dec_eq_iff: "dec_eq a b \<longleftrightarrow> dec_val a = dec_val b"
proof -
  have "dec_eq a b \<longleftrightarrow> dec_le a b \<and> \<not> dec_less a b"
    by (auto simp: dec_eq_def dec_le_def dec_less_def split: prod.splits)
  then show ?thesis by (auto simp: dec_le_iff dec_less_iff)
qed

lemma dec_val_plus: "dec_val (Dec (x + y) m) = dec_val (Dec x m) + dec_val (Dec y m)"
  by (simp add: dec_val_def add_divide_distrib distrib_right)

lemma dec_val_minus: "dec_val (Dec (x - y) m) = dec_val (Dec x m) - dec_val (Dec y m)"
  by (simp add: dec_val_def diff_divide_distrib left_diff_distrib)

text \<open>Addition is exact while the aligned sum fits the context.\<close>

definition fits :: "decimal \<Rightarrow> bool" where
  "fits d = (num_digits (nat \<bar>coef d\<bar>) \<le> dec_prec)"

lemma dec_fix_fits: "fits d \<Longrightarrow> dec_fix d = d"
  by (simp add: fits_def dec_fix_def)

lemma dec_add_exact:
  assumes "dec_align a b = (x, y, m)" and "fits (Dec (x + y) m)"
  shows "dec_val (dec_add a b) = dec_val a + dec_val b"
  using assms dec_align_val [OF assms(1)]
  by (simp add: dec_add_def dec_fix_fits dec_val_plus)

lemma num_digits_bound: "n < 10 ^ k \<Longrightarrow> 0 < k \<Longrightarrow> num_digits n \<le> k"
proof (induction k arbitrary: n)
  case 0
  then show ?case by simp
next
  case (Suc k)
  show ?case
  proof (cases "n < 10")
    case True
    then show ?thesis by (simp add: num_digits.simps)
  next
    case False
    then have "0 < k" using Suc.prems by (cases k) auto
    moreover have "n div 10 < 10 ^ k" using Suc.prems(1) by (simp add: less_mult_imp_div_less mult.commute)
    ultimately have "num_digits (n div 10) \<le> k" by (intro Suc.IH)
    with False show ?thesis by (subst num_digits.simps) simp
  qed
qed

end
