(* ===== verification/Task_Contract.thy ===== *)
theory Task_Contract
  imports Lifecycles Decimals
begin

text \<open>
  Tasks and their contracts (\<^verbatim>\<open>packages/domain/tasks.py\<close>) and the failure policy a contract
  declares (\<^verbatim>\<open>packages/domain/failure_policy.py\<close>): the validating constructors, the
  disposition of a completion (succeed, retry, dead letter, fail), the exponential backoff
  and the view of the failure policy. Seconds and microseconds are unbounded integers;
  \<^verbatim>\<open>timedelta\<close> and \<^verbatim>\<open>datetime\<close> overflow where Python's do.
\<close>

section \<open>Enumerations\<close>

datatype failure_category =
    FC_CONFIGURATION | FC_MODEL_AUTH | FC_MODEL_RATE_LIMIT | FC_MODEL_TIMEOUT
  | FC_MODEL_RELAY_UNAVAILABLE | FC_MODEL_INCOMPATIBLE | FC_MODEL_DRIFT
  | FC_TOOL_UNAVAILABLE | FC_TOOL_SCHEMA_MISMATCH | FC_TOOL_TIMEOUT | FC_POLICY_DENIED
  | FC_APPROVAL_REJECTED | FC_WORKSPACE_FAILURE | FC_EXECUTION_FAILURE
  | FC_GPU_UNAVAILABLE | FC_GPU_OOM | FC_ARTIFACT_CORRUPTION | FC_VALIDATION_FAILURE
  | FC_BUDGET_EXHAUSTED | FC_WORKER_LOST | FC_SYSTEM_BUG | FC_SCIENTIFIC_NEGATIVE_RESULT

datatype failure_action = FA_RETRY | FA_DEAD_LETTER | FA_FAIL

datatype task_kind = AGENT_SESSION | EXECUTION

datatype comparison_operator = GT | GTE | EQ | LTE | LT

datatype criterion_type =
    SCHEMA_VALID | ARTIFACT_EXISTS | TEST_PASSES | METRIC_THRESHOLD | EVIDENCE_COVERAGE
  | REVIEW_SCORE | POLICY_COMPLIANT | HUMAN_APPROVAL | CUSTOM_EVALUATOR

section \<open>Records and their constructors\<close>

record failure_disposition =
  fd_status :: task_state
  fd_action :: failure_action
  fd_retrying :: bool

record retry_policy =
  max_attempts :: int
  retryable_categories :: "failure_category list"
  backoff_seconds :: "int option"
  max_backoff_seconds :: "int option"

definition retry_policy_post_init :: "retry_policy \<Rightarrow> retry_policy res" where
  "retry_policy_post_init p = first_error
     [(max_attempts p < 1, ''max_attempts must be >= 1''),
      (\<exists>b\<in>set_option (backoff_seconds p). b < 0, ''backoff_seconds must be >= 0''),
      (\<exists>m\<in>set_option (max_backoff_seconds p). m < 0, ''max_backoff_seconds must be >= 0''),
      (\<exists>b\<in>set_option (backoff_seconds p). \<exists>m\<in>set_option (max_backoff_seconds p). m < b,
        ''max_backoff_seconds must be >= backoff_seconds'')] p"

record acceptance_criterion =
  ac_type :: criterion_type
  ac_description :: string
  ac_target :: "string option"
  ac_artifact :: "string option"
  minimum_sources :: "int option"
  minimum_retrieved_sources :: "int option"
  minimum_tool_evidences :: "int option"
  ac_metric :: "string option"
  ac_operator :: "comparison_operator option"
  ac_threshold :: "decimal option"
  ac_evaluator :: "string option"

definition criterion_post_init :: "acceptance_criterion \<Rightarrow> acceptance_criterion res" where
  "criterion_post_init c = first_error
     [(\<exists>n\<in>set_option (minimum_sources c). n < 0, ''minimum_sources must be >= 0''),
      (\<exists>n\<in>set_option (minimum_retrieved_sources c). n < 0,
        ''minimum_retrieved_sources must be >= 0''),
      (\<exists>n\<in>set_option (minimum_tool_evidences c). n < 0,
        ''minimum_tool_evidences must be >= 0'')] c"

record experiment_spec =
  ex_script :: string
  ex_image :: string
  ex_command :: string
  ex_timeout_seconds :: int

definition experiment_post_init :: "experiment_spec \<Rightarrow> experiment_spec res" where
  "experiment_post_init s = first_error
     [(ex_command s = '''', ''experiment command must not be empty''),
      (ex_timeout_seconds s < 1, ''experiment timeout_seconds must be >= 1'')] s"

record report_spec =
  rs_declared :: bool
  rs_timeout_seconds :: "int option"

definition report_post_init :: "report_spec \<Rightarrow> report_spec res" where
  "report_post_init s = first_error
     [(\<not> rs_declared s, ''report assembly declaration must not be empty''),
      (\<exists>t\<in>set_option (rs_timeout_seconds s). t < 1,
        ''report assembly timeout_seconds must be >= 1'')] s"

text \<open>The values of the free-form failure policy dictionary of a contract.\<close>

datatype policy_value = PStr string | PBool bool | PInt int | PList "string list"

record task_contract =
  tc_id :: string
  tc_version :: string
  tc_purpose :: string
  tc_required_capabilities :: "string list"
  tc_input_schema :: "string option"
  tc_output_schema :: "string option"
  tc_required_artifacts :: "string list"
  tc_acceptance_criteria :: "acceptance_criterion list"
  tc_budget :: "(string \<times> decimal option) list"
  tc_timeout_seconds :: "int option"
  tc_retry_policy :: "retry_policy option"
  tc_failure_policy :: "(string \<times> policy_value) list"
  tc_idempotency_scope :: string
  tc_experiment :: "experiment_spec option"
  tc_report :: "report_spec option"

definition contract_post_init :: "task_contract \<Rightarrow> task_contract res" where
  "contract_post_init c = first_error
     [(tc_id c = '''', ''task contract id must not be empty''),
      (tc_version c = '''', ''task contract version must not be empty''),
      (tc_purpose c = '''', ''task contract purpose must not be empty''),
      (tc_acceptance_criteria c = [],
        ''task contract must declare at least one acceptance criterion''),
      (\<exists>t\<in>set_option (tc_timeout_seconds c). t < 1, ''timeout_seconds must be >= 1''),
      (tc_experiment c \<noteq> None \<and> tc_report c \<noteq> None,
        ''task contract must not declare both an experiment and a report assembly'')] c"

record research_task =
  rt_id :: string
  rt_run_id :: string
  rt_phase_run_id :: "string option"
  rt_contract_id :: "string option"
  rt_assigned_agent_id :: "string option"
  rt_status :: task_state
  rt_priority :: int
  rt_attempt :: int
  rt_idempotency_key :: "string option"
  rt_lease_id :: "string option"
  rt_kind :: task_kind
  rt_partition :: "int option"
  rt_required_capability :: "string option"

definition is_space :: "char \<Rightarrow> bool" where
  "is_space c = (c \<in> set [CHR '' '', CHR 0x09, CHR 0x0A, CHR 0x0B, CHR 0x0C, CHR 0x0D,
                          CHR 0x1C, CHR 0x1D, CHR 0x1E, CHR 0x1F])"

text \<open>\<^verbatim>\<open>str.strip\<close> on ASCII text.\<close>

definition strip :: "string \<Rightarrow> string" where
  "strip s = rev (dropWhile is_space (rev (dropWhile is_space s)))"

definition task_post_init :: "research_task \<Rightarrow> research_task res" where
  "task_post_init t = first_error
     [(rt_priority t < 0, ''priority must be non-negative''),
      (rt_attempt t < 1, ''attempt must be >= 1''),
      (1 < rt_attempt t \<and> rt_lease_id t = None, ''retried task must carry a lease_id''),
      (\<exists>p\<in>set_option (rt_partition t). p < 0, ''partition must be non-negative''),
      (\<exists>c\<in>set_option (rt_required_capability t). strip c = '''',
        ''required_capability must be non-empty when present'')] t"

section \<open>The failure policy view\<close>

definition FAIL_RUN :: string where "FAIL_RUN = ''FAIL_RUN''"

definition CONTINUE_RUN :: string where "CONTINUE_RUN = ''CONTINUE''"

definition COMPLETE_THEN_JUDGE :: string where
  "COMPLETE_THEN_JUDGE = ''COMPLETE_THEN_JUDGE''"

definition on_task_failure_values :: "string list" where
  "on_task_failure_values = [FAIL_RUN, CONTINUE_RUN]"

definition review_panel_values :: "string list" where
  "review_panel_values = [COMPLETE_THEN_JUDGE]"

definition KNOWN_KEYS :: "(string \<times> string list) list" where
  "KNOWN_KEYS =
     [(''on_task_failure'', on_task_failure_values), (''review_panel'', review_panel_values)]"

record policy_view =
  fpv_on_task_failure :: string
  fpv_review_panel :: string
  fpv_declared :: "string list"
  fpv_unhonored :: "string list"

definition tolerated :: "policy_view \<Rightarrow> bool" where
  "tolerated v = (fpv_on_task_failure v = CONTINUE_RUN)"

definition panel_completes_before_judging :: "policy_view \<Rightarrow> bool" where
  "panel_completes_before_judging v = (fpv_review_panel v = COMPLETE_THEN_JUDGE)"

text \<open>
  \<^verbatim>\<open>str(raw)\<close>; the text of a list is Python's, for items without quotes or escapes.
\<close>

fun py_str :: "policy_value \<Rightarrow> string" where
  "py_str (PStr s) = s"
| "py_str (PBool b) = (if b then ''True'' else ''False'')"
| "py_str (PInt i) = str_int i"
| "py_str (PList xs) = ''['' @ join_texts '', '' (map quote xs) @ '']''"

definition policy_key_value ::
    "(string \<times> policy_value) list \<Rightarrow> string \<Rightarrow> string list \<Rightarrow> string res" where
  "policy_key_value policy key values =
     (case map_of policy key of
        None \<Rightarrow> Inr ''''
      | Some raw \<Rightarrow>
          (let value = py_str raw
           in if value \<notin> set values
              then Inl (ValueError (''unsupported '' @ key @ '' value: '' @ quote value @
                     '' (allowed: '' @ join_texts '', '' (sort values) @ '')''))
              else Inr value))"

definition failure_policy_view ::
    "(string \<times> policy_value) list option \<Rightarrow> policy_view res" where
  "failure_policy_view policy =
     (let p = (case policy of None \<Rightarrow> [] | Some q \<Rightarrow> q);
          declared = sort (map fst p)
      in if p = [] then
           Inr \<lparr>fpv_on_task_failure = FAIL_RUN, fpv_review_panel = '''',
                fpv_declared = declared, fpv_unhonored = []\<rparr>
         else
           bind_res (policy_key_value p ''on_task_failure'' on_task_failure_values) (\<lambda>otf.
           bind_res (policy_key_value p ''review_panel'' review_panel_values) (\<lambda>rp.
             Inr \<lparr>fpv_on_task_failure = (if otf = '''' then FAIL_RUN else otf),
                  fpv_review_panel = rp, fpv_declared = declared,
                  fpv_unhonored =
                    sort (filter (\<lambda>key. key \<notin> fst ` set KNOWN_KEYS) declared)\<rparr>)))"

section \<open>Disposition and backoff\<close>

definition decide_failure :: "task_contract \<Rightarrow> int \<Rightarrow> failure_category option \<Rightarrow> failure_action" where
  "decide_failure c attempt category =
     (case tc_retry_policy c of
        None \<Rightarrow> FA_FAIL
      | Some policy \<Rightarrow>
          (case category of
             None \<Rightarrow> FA_FAIL
           | Some cat \<Rightarrow>
               if cat \<notin> set (retryable_categories policy) then FA_FAIL
               else if attempt < max_attempts policy then FA_RETRY
               else FA_DEAD_LETTER))"

definition failure_status :: "failure_action \<Rightarrow> task_state" where
  "failure_status a = (case a of FA_DEAD_LETTER \<Rightarrow> T_DEAD_LETTER | _ \<Rightarrow> T_FAILED)"

definition disposition ::
    "task_contract \<Rightarrow> string \<Rightarrow> int \<Rightarrow> failure_category option \<Rightarrow> failure_disposition" where
  "disposition c outcome attempt category =
     (if outcome = ''SUCCEEDED'' then
        \<lparr>fd_status = T_SUCCEEDED, fd_action = FA_FAIL, fd_retrying = False\<rparr>
      else
        (let action = decide_failure c attempt category
         in if action = FA_RETRY then
              \<lparr>fd_status = T_RETRY_SCHEDULED, fd_action = action, fd_retrying = True\<rparr>
            else
              \<lparr>fd_status = failure_status action, fd_action = action, fd_retrying = False\<rparr>))"

definition second_us :: int where "second_us = 1000000"

definition day_us :: int where
  "day_us = 86400 * second_us"

text \<open>\<^verbatim>\<open>timedelta(seconds=n)\<close>: at most 999999999 days.\<close>

definition timedelta_seconds :: "int \<Rightarrow> int res" where
  "timedelta_seconds n =
     (if 999999999 < n div 86400 \<or> n div 86400 < -999999999
      then Inl (OverflowError ''days out of range'')
      else Inr (n * second_us))"

definition retry_delay :: "task_contract \<Rightarrow> int \<Rightarrow> int res" where
  "retry_delay c attempt =
     (case tc_retry_policy c of
        None \<Rightarrow> Inr 0
      | Some policy \<Rightarrow>
          (case backoff_seconds policy of
             None \<Rightarrow> Inr 0
           | Some base \<Rightarrow>
               if base = 0 then Inr 0
               else if attempt < 1 then Inl (ValueError ''attempt must be >= 1'')
               else (let seconds = base * 2 ^ nat (attempt - 1);
                         capped = (case max_backoff_seconds policy of
                                     None \<Rightarrow> seconds | Some m \<Rightarrow> min seconds m)
                     in timedelta_seconds capped)))"

section \<open>Facts\<close>

lemma decide_failure_cases:
  "decide_failure c attempt category =
     (case (tc_retry_policy c, category) of
        (Some policy, Some cat) \<Rightarrow>
          (if cat \<in> set (retryable_categories policy)
           then if attempt < max_attempts policy then FA_RETRY else FA_DEAD_LETTER
           else FA_FAIL)
      | _ \<Rightarrow> FA_FAIL)"
  by (auto simp: decide_failure_def split: option.splits)

lemma decide_failure_retryD:
  assumes "decide_failure c attempt category = FA_RETRY"
  obtains policy cat where "tc_retry_policy c = Some policy" "category = Some cat"
    "cat \<in> set (retryable_categories policy)" "attempt < max_attempts policy"
  using assms by (auto simp: decide_failure_def split: option.splits if_splits)

lemma disposition_retrying_iff:
  "fd_retrying (disposition c outcome attempt category) \<longleftrightarrow>
     outcome \<noteq> ''SUCCEEDED'' \<and> decide_failure c attempt category = FA_RETRY"
  by (auto simp: disposition_def Let_def)

lemma disposition_status_iff:
  "fd_status (disposition c outcome attempt category) = T_RETRY_SCHEDULED \<longleftrightarrow>
     fd_retrying (disposition c outcome attempt category)"
  by (cases "decide_failure c attempt category")
     (auto simp: disposition_def failure_status_def Let_def)

lemma disposition_status_range:
  "fd_status (disposition c outcome attempt category)
     \<in> {T_SUCCEEDED, T_RETRY_SCHEDULED, T_DEAD_LETTER, T_FAILED}"
  by (cases "decide_failure c attempt category")
     (auto simp: disposition_def failure_status_def Let_def)

lemma valid_retry_policyD:
  assumes "retry_policy_post_init p = Inr p'"
  shows "1 \<le> max_attempts p"
    and "backoff_seconds p = Some b \<Longrightarrow> 0 \<le> b"
    and "backoff_seconds p = Some b \<Longrightarrow> max_backoff_seconds p = Some m \<Longrightarrow> b \<le> m"
  using assms by (auto simp: retry_policy_post_init_def split: if_splits)

end
