(* ===== verification/Task_Codec.thy ===== *)
theory Task_Codec
  imports Task_Contract
begin

text \<open>
  The persisted form of a task and its contract: the canonical JSON of
  \<^verbatim>\<open>packages/domain/serialization.py\<close> and the decoders of \<^verbatim>\<open>adapters/sqlite/serialization.py\<close>.
  A JSON text is its tree; the objects of dataclasses list their keys in the sorted order of
  the canonical encoding, dictionaries are sorted by \<open>sort_key\<close>. A \<^verbatim>\<open>Decimal\<close> is written as
  a string of digits without exponent: \<open>JDec\<close> is that string, holding the decimal it reads
  back as. The decoders run the validating constructors again, as the source does.
\<close>

datatype json =
    JNull | JBool bool | JInt int | JStr string | JDec decimal
  | JArr "json list" | JObj "(string \<times> json) list"

section \<open>Encoding\<close>

fun strip_zeros :: "nat \<Rightarrow> int \<Rightarrow> int \<Rightarrow> decimal" where
  "strip_zeros 0 c e = Dec c e"
| "strip_zeros (Suc k) c e = (if c mod 10 = 0 then strip_zeros k (c div 10) (e + 1) else Dec c e)"

text \<open>\<^verbatim>\<open>Decimal.normalize\<close>: round to the context, then drop trailing zeros.\<close>

definition dec_normalize :: "decimal \<Rightarrow> decimal" where
  "dec_normalize d =
     (let r = dec_fix d in strip_zeros (num_digits (nat \<bar>coef r\<bar>)) (coef r) (expo r))"

text \<open>\<^verbatim>\<open>format(value.normalize(), "f")\<close> read back: a positive exponent is written out as zeros.\<close>

definition encode_decimal :: "decimal \<Rightarrow> json" where
  "encode_decimal d =
     (if coef d = 0 then JDec (Dec 0 0)
      else (let n = dec_normalize d
            in if 0 < expo n then JDec (Dec (coef n * 10 ^ nat (expo n)) 0) else JDec n))"

definition encode_opt :: "('a \<Rightarrow> json) \<Rightarrow> 'a option \<Rightarrow> json" where
  "encode_opt f x = (case x of None \<Rightarrow> JNull | Some a \<Rightarrow> f a)"

definition encode_dict :: "('a \<Rightarrow> json) \<Rightarrow> (string \<times> 'a) list \<Rightarrow> json" where
  "encode_dict f kvs = JObj (sort_key fst (map (\<lambda>(k, v). (k, f v)) kvs))"

fun encode_policy_value :: "policy_value \<Rightarrow> json" where
  "encode_policy_value (PStr s) = JStr s"
| "encode_policy_value (PBool b) = JBool b"
| "encode_policy_value (PInt i) = JInt i"
| "encode_policy_value (PList xs) = JArr (map JStr xs)"

definition enum_text :: "(string \<times> 'a) list \<Rightarrow> 'a \<Rightarrow> string" where
  "enum_text names v = (case find (\<lambda>p. snd p = v) names of Some p \<Rightarrow> fst p | None \<Rightarrow> '''')"

definition enum_of :: "(string \<times> 'a) list \<Rightarrow> string \<Rightarrow> 'a res" where
  "enum_of names s =
     (case map_of names s of
        Some v \<Rightarrow> Inr v
      | None \<Rightarrow> Inl (ValueError (quote s @ '' is not a valid member'')))"

definition task_state_names :: "(string \<times> task_state) list" where
  "task_state_names =
     [(''CREATED'', T_CREATED), (''QUEUED'', T_QUEUED), (''LEASED'', T_LEASED),
      (''RUNNING'', T_RUNNING), (''WAITING_FOR_TOOL'', T_WAITING_FOR_TOOL),
      (''WAITING_FOR_APPROVAL'', T_WAITING_FOR_APPROVAL),
      (''RETRY_SCHEDULED'', T_RETRY_SCHEDULED), (''SUCCEEDED'', T_SUCCEEDED),
      (''FAILED'', T_FAILED), (''DEAD_LETTER'', T_DEAD_LETTER), (''CANCELLED'', T_CANCELLED)]"

definition task_kind_names :: "(string \<times> task_kind) list" where
  "task_kind_names = [(''AGENT_SESSION'', AGENT_SESSION), (''EXECUTION'', EXECUTION)]"

definition failure_category_names :: "(string \<times> failure_category) list" where
  "failure_category_names =
     [(''CONFIGURATION'', FC_CONFIGURATION), (''MODEL_AUTH'', FC_MODEL_AUTH),
      (''MODEL_RATE_LIMIT'', FC_MODEL_RATE_LIMIT), (''MODEL_TIMEOUT'', FC_MODEL_TIMEOUT),
      (''MODEL_RELAY_UNAVAILABLE'', FC_MODEL_RELAY_UNAVAILABLE),
      (''MODEL_INCOMPATIBLE'', FC_MODEL_INCOMPATIBLE), (''MODEL_DRIFT'', FC_MODEL_DRIFT),
      (''TOOL_UNAVAILABLE'', FC_TOOL_UNAVAILABLE),
      (''TOOL_SCHEMA_MISMATCH'', FC_TOOL_SCHEMA_MISMATCH), (''TOOL_TIMEOUT'', FC_TOOL_TIMEOUT),
      (''POLICY_DENIED'', FC_POLICY_DENIED), (''APPROVAL_REJECTED'', FC_APPROVAL_REJECTED),
      (''WORKSPACE_FAILURE'', FC_WORKSPACE_FAILURE),
      (''EXECUTION_FAILURE'', FC_EXECUTION_FAILURE), (''GPU_UNAVAILABLE'', FC_GPU_UNAVAILABLE),
      (''GPU_OOM'', FC_GPU_OOM), (''ARTIFACT_CORRUPTION'', FC_ARTIFACT_CORRUPTION),
      (''VALIDATION_FAILURE'', FC_VALIDATION_FAILURE),
      (''BUDGET_EXHAUSTED'', FC_BUDGET_EXHAUSTED), (''WORKER_LOST'', FC_WORKER_LOST),
      (''SYSTEM_BUG'', FC_SYSTEM_BUG),
      (''SCIENTIFIC_NEGATIVE_RESULT'', FC_SCIENTIFIC_NEGATIVE_RESULT)]"

definition criterion_type_names :: "(string \<times> criterion_type) list" where
  "criterion_type_names =
     [(''SCHEMA_VALID'', SCHEMA_VALID), (''ARTIFACT_EXISTS'', ARTIFACT_EXISTS),
      (''TEST_PASSES'', TEST_PASSES), (''METRIC_THRESHOLD'', METRIC_THRESHOLD),
      (''EVIDENCE_COVERAGE'', EVIDENCE_COVERAGE), (''REVIEW_SCORE'', REVIEW_SCORE),
      (''POLICY_COMPLIANT'', POLICY_COMPLIANT), (''HUMAN_APPROVAL'', HUMAN_APPROVAL),
      (''CUSTOM_EVALUATOR'', CUSTOM_EVALUATOR)]"

definition operator_names :: "(string \<times> comparison_operator) list" where
  "operator_names = [(''GT'', GT), (''GTE'', GTE), (''EQ'', EQ), (''LTE'', LTE), (''LT'', LT)]"

definition encode_criterion :: "acceptance_criterion \<Rightarrow> json" where
  "encode_criterion c = JObj
     [(''artifact'', encode_opt JStr (ac_artifact c)),
      (''description'', JStr (ac_description c)),
      (''evaluator'', encode_opt JStr (ac_evaluator c)),
      (''metric'', encode_opt JStr (ac_metric c)),
      (''minimum_retrieved_sources'', encode_opt JInt (minimum_retrieved_sources c)),
      (''minimum_sources'', encode_opt JInt (minimum_sources c)),
      (''minimum_tool_evidences'', encode_opt JInt (minimum_tool_evidences c)),
      (''operator'', encode_opt (JStr \<circ> enum_text operator_names) (ac_operator c)),
      (''target'', encode_opt JStr (ac_target c)),
      (''threshold'', encode_opt encode_decimal (ac_threshold c)),
      (''type'', JStr (enum_text criterion_type_names (ac_type c)))]"

definition encode_retry_policy :: "retry_policy \<Rightarrow> json" where
  "encode_retry_policy p = JObj
     [(''backoff_seconds'', encode_opt JInt (backoff_seconds p)),
      (''max_attempts'', JInt (max_attempts p)),
      (''max_backoff_seconds'', encode_opt JInt (max_backoff_seconds p)),
      (''retryable_categories'',
        JArr (map (JStr \<circ> enum_text failure_category_names) (retryable_categories p)))]"

definition encode_experiment :: "experiment_spec \<Rightarrow> json" where
  "encode_experiment s = JObj
     [(''command'', JStr (ex_command s)), (''image'', JStr (ex_image s)),
      (''script'', JStr (ex_script s)), (''timeout_seconds'', JInt (ex_timeout_seconds s))]"

definition encode_report :: "report_spec \<Rightarrow> json" where
  "encode_report s = JObj
     [(''declared'', JBool (rs_declared s)),
      (''timeout_seconds'', encode_opt JInt (rs_timeout_seconds s))]"

definition encode_contract :: "task_contract \<Rightarrow> json" where
  "encode_contract c = JObj
     [(''acceptance_criteria'', JArr (map encode_criterion (tc_acceptance_criteria c))),
      (''budget'', encode_dict (encode_opt encode_decimal) (tc_budget c)),
      (''experiment'', encode_opt encode_experiment (tc_experiment c)),
      (''failure_policy'', encode_dict encode_policy_value (tc_failure_policy c)),
      (''id'', JStr (tc_id c)),
      (''idempotency_scope'', JStr (tc_idempotency_scope c)),
      (''input_schema'', encode_opt JStr (tc_input_schema c)),
      (''output_schema'', encode_opt JStr (tc_output_schema c)),
      (''purpose'', JStr (tc_purpose c)),
      (''report'', encode_opt encode_report (tc_report c)),
      (''required_artifacts'', JArr (map JStr (tc_required_artifacts c))),
      (''required_capabilities'', JArr (map JStr (tc_required_capabilities c))),
      (''retry_policy'', encode_opt encode_retry_policy (tc_retry_policy c)),
      (''timeout_seconds'', encode_opt JInt (tc_timeout_seconds c)),
      (''version'', JStr (tc_version c))]"

definition encode_id :: "string \<Rightarrow> json" where
  "encode_id s = JObj [(''value'', JStr s)]"

definition encode_research_task :: "research_task \<Rightarrow> json" where
  "encode_research_task t = JObj
     [(''assigned_agent_id'', encode_opt JStr (rt_assigned_agent_id t)),
      (''attempt'', JInt (rt_attempt t)),
      (''contract_id'', encode_opt JStr (rt_contract_id t)),
      (''id'', encode_id (rt_id t)),
      (''idempotency_key'', encode_opt JStr (rt_idempotency_key t)),
      (''kind'', JStr (enum_text task_kind_names (rt_kind t))),
      (''lease_id'', encode_opt JStr (rt_lease_id t)),
      (''partition'', encode_opt JInt (rt_partition t)),
      (''phase_run_id'', encode_opt encode_id (rt_phase_run_id t)),
      (''priority'', JInt (rt_priority t)),
      (''required_capability'', encode_opt JStr (rt_required_capability t)),
      (''run_id'', encode_id (rt_run_id t)),
      (''status'', JStr (enum_text task_state_names (rt_status t)))]"

definition encode_task :: "research_task \<Rightarrow> task_contract \<Rightarrow> json \<times> json" where
  "encode_task t c = (encode_research_task t, encode_contract c)"

section \<open>Decoding\<close>

text \<open>
  \<^verbatim>\<open>payload.get(k)\<close> is \<open>j_get\<close>, which reads a JSON null as absent; \<^verbatim>\<open>payload[k]\<close> is
  \<open>j_key\<close>. A value of a type no encoder writes at that place is a \<open>TypeError\<close>.
\<close>

fun j_get :: "string \<Rightarrow> json \<Rightarrow> json option" where
  "j_get k (JObj kvs) = (case map_of kvs k of Some JNull \<Rightarrow> None | v \<Rightarrow> v)"
| "j_get k _ = None"

definition j_key :: "string \<Rightarrow> json \<Rightarrow> json res" where
  "j_key k j = (case j_get k j of Some v \<Rightarrow> Inr v | None \<Rightarrow> Inl (KeyError k))"

fun as_str :: "json \<Rightarrow> string res" where
  "as_str (JStr s) = Inr s"
| "as_str _ = Inl (TypeError ''str'')"

fun as_int :: "json \<Rightarrow> int res" where
  "as_int (JInt i) = Inr i"
| "as_int _ = Inl (TypeError ''int'')"

fun as_dec :: "json \<Rightarrow> decimal res" where
  "as_dec (JDec d) = Inr d"
| "as_dec _ = Inl (TypeError ''Decimal'')"

fun as_list :: "(json \<Rightarrow> 'a res) \<Rightarrow> json \<Rightarrow> 'a list res" where
  "as_list f (JArr xs) = map_res f xs"
| "as_list f _ = Inl (TypeError ''list'')"

fun as_dict :: "(json \<Rightarrow> 'a res) \<Rightarrow> json \<Rightarrow> (string \<times> 'a) list res" where
  "as_dict f (JObj kvs) = map_res (\<lambda>(k, v). bind_res (f v) (\<lambda>a. Inr (k, a))) kvs"
| "as_dict f _ = Inl (TypeError ''dict'')"

definition j_opt :: "(json \<Rightarrow> 'a res) \<Rightarrow> string \<Rightarrow> json \<Rightarrow> 'a option res" where
  "j_opt f k j = (case j_get k j of None \<Rightarrow> Inr None | Some v \<Rightarrow> bind_res (f v) (\<lambda>a. Inr (Some a)))"

definition j_dflt :: "(json \<Rightarrow> 'a res) \<Rightarrow> 'a \<Rightarrow> string \<Rightarrow> json \<Rightarrow> 'a res" where
  "j_dflt f d k j = (case j_get k j of None \<Rightarrow> Inr d | Some v \<Rightarrow> f v)"

fun decode_policy_value :: "json \<Rightarrow> policy_value res" where
  "decode_policy_value (JStr s) = Inr (PStr s)"
| "decode_policy_value (JBool b) = Inr (PBool b)"
| "decode_policy_value (JInt i) = Inr (PInt i)"
| "decode_policy_value (JArr xs) = bind_res (map_res as_str xs) (\<lambda>ys. Inr (PList ys))"
| "decode_policy_value _ = Inl (TypeError ''failure_policy'')"

definition as_opt :: "(json \<Rightarrow> 'a res) \<Rightarrow> json \<Rightarrow> 'a option res" where
  "as_opt f j = (if j = JNull then Inr None else bind_res (f j) (\<lambda>a. Inr (Some a)))"

text \<open>
  \<^verbatim>\<open>ID.__post_init__\<close> (\<^verbatim>\<open>packages/domain/core.py\<close>): the canonical lowercase text of a version 4
  UUID. The three rejections (unparsable, other version, not canonical) carry one message here.
\<close>

definition is_hex :: "char \<Rightarrow> bool" where
  "is_hex c = (c \<in> set ''0123456789abcdef'')"

definition is_uuid4 :: "string \<Rightarrow> bool" where
  "is_uuid4 s = (length s = 36 \<and>
     list_all (\<lambda>(i, c). if i \<in> {8, 13, 18, 23} then c = CHR ''-''
                        else if i = 14 then c = CHR ''4''
                        else if i = 19 then c \<in> set ''89ab''
                        else is_hex c) (zip [0..<36] s))"

definition id_post_init :: "string \<Rightarrow> string res" where
  "id_post_init s = first_error [(\<not> is_uuid4 s, ''ID must be a canonical UUID4'')] s"

definition decode_id :: "json \<Rightarrow> string res" where
  "decode_id j = bind_res (bind_res (j_key ''value'' j) as_str) id_post_init"

definition decode_criterion :: "json \<Rightarrow> acceptance_criterion res" where
  "decode_criterion j =
     bind_res (bind_res (bind_res (j_key ''type'' j) as_str) (enum_of criterion_type_names)) (\<lambda>ty.
     bind_res (j_dflt as_str '''' ''description'' j) (\<lambda>descr.
     bind_res (j_opt as_str ''target'' j) (\<lambda>target.
     bind_res (j_opt as_str ''artifact'' j) (\<lambda>artifact.
     bind_res (j_opt as_int ''minimum_sources'' j) (\<lambda>ms.
     bind_res (j_opt as_int ''minimum_retrieved_sources'' j) (\<lambda>mrs.
     bind_res (j_opt as_str ''metric'' j) (\<lambda>metric.
     bind_res (j_opt as_str ''operator'' j) (\<lambda>op_text.
     bind_res (case op_text of None \<Rightarrow> Inr None
               | Some s \<Rightarrow> if s = '''' then Inr None
                          else bind_res (enum_of operator_names s) (\<lambda>v. Inr (Some v))) (\<lambda>op.
     bind_res (j_opt as_dec ''threshold'' j) (\<lambda>threshold.
     bind_res (j_opt as_str ''evaluator'' j) (\<lambda>evaluator.
       criterion_post_init
         \<lparr>ac_type = ty, ac_description = descr, ac_target = target, ac_artifact = artifact,
          minimum_sources = ms, minimum_retrieved_sources = mrs, minimum_tool_evidences = None,
          ac_metric = metric, ac_operator = op, ac_threshold = threshold,
          ac_evaluator = evaluator\<rparr>)))))))))))"

definition decode_retry_policy :: "json \<Rightarrow> retry_policy res" where
  "decode_retry_policy j =
     bind_res (bind_res (j_key ''max_attempts'' j) as_int) (\<lambda>m.
     bind_res (j_dflt (as_list (\<lambda>x. bind_res (as_str x) (enum_of failure_category_names))) []
                 ''retryable_categories'' j) (\<lambda>cats.
     bind_res (j_opt as_int ''backoff_seconds'' j) (\<lambda>b.
     bind_res (j_opt as_int ''max_backoff_seconds'' j) (\<lambda>mb.
       retry_policy_post_init
         \<lparr>max_attempts = m, retryable_categories = cats, backoff_seconds = b,
          max_backoff_seconds = mb\<rparr>))))"

definition decode_experiment :: "json \<Rightarrow> experiment_spec res" where
  "decode_experiment j =
     bind_res (j_dflt as_str '''' ''script'' j) (\<lambda>script.
     bind_res (j_dflt as_str '''' ''image'' j) (\<lambda>image.
     bind_res (j_dflt as_str ''python experiment.py'' ''command'' j) (\<lambda>command.
     bind_res (j_dflt as_int 180 ''timeout_seconds'' j) (\<lambda>timeout.
       experiment_post_init
         \<lparr>ex_script = script, ex_image = image, ex_command = command,
          ex_timeout_seconds = timeout\<rparr>))))"

definition decode_report :: "json \<Rightarrow> report_spec res" where
  "decode_report j =
     bind_res (j_opt as_int ''timeout_seconds'' j) (\<lambda>timeout.
       report_post_init \<lparr>rs_declared = True, rs_timeout_seconds = timeout\<rparr>)"

definition decode_budget :: "json \<Rightarrow> (string \<times> decimal option) list res" where
  "decode_budget = as_dict (as_opt as_dec)"

text \<open>\<^verbatim>\<open>_decode_retry_policy(retry) if retry else None\<close>: an empty object is falsy.\<close>

definition j_truthy :: "(json \<Rightarrow> 'a res) \<Rightarrow> string \<Rightarrow> json \<Rightarrow> 'a option res" where
  "j_truthy f k j = (if j_get k j = Some (JObj []) then Inr None else j_opt f k j)"

definition decode_contract :: "json \<Rightarrow> task_contract res" where
  "decode_contract j =
     bind_res (bind_res (j_key ''id'' j) as_str) (\<lambda>cid.
     bind_res (bind_res (j_key ''version'' j) as_str) (\<lambda>version.
     bind_res (bind_res (j_key ''purpose'' j) as_str) (\<lambda>purpose.
     bind_res (j_dflt (as_list as_str) [] ''required_capabilities'' j) (\<lambda>caps.
     bind_res (j_opt as_str ''input_schema'' j) (\<lambda>ins.
     bind_res (j_opt as_str ''output_schema'' j) (\<lambda>outs.
     bind_res (j_dflt (as_list as_str) [] ''required_artifacts'' j) (\<lambda>arts.
     bind_res (j_dflt (as_list decode_criterion) [] ''acceptance_criteria'' j) (\<lambda>crits.
     bind_res (j_dflt decode_budget [] ''budget'' j) (\<lambda>budget.
     bind_res (j_opt as_int ''timeout_seconds'' j) (\<lambda>timeout.
     bind_res (j_truthy decode_retry_policy ''retry_policy'' j) (\<lambda>retry.
     bind_res (j_dflt (as_dict decode_policy_value) [] ''failure_policy'' j) (\<lambda>fp.
     bind_res (j_dflt as_str ''task'' ''idempotency_scope'' j) (\<lambda>scope.
     bind_res (j_opt decode_experiment ''experiment'' j) (\<lambda>experiment.
     bind_res (j_opt decode_report ''report'' j) (\<lambda>report.
       contract_post_init
         \<lparr>tc_id = cid, tc_version = version, tc_purpose = purpose,
          tc_required_capabilities = caps, tc_input_schema = ins, tc_output_schema = outs,
          tc_required_artifacts = arts, tc_acceptance_criteria = crits, tc_budget = budget,
          tc_timeout_seconds = timeout, tc_retry_policy = retry, tc_failure_policy = fp,
          tc_idempotency_scope = scope, tc_experiment = experiment,
          tc_report = report\<rparr>)))))))))))))))"

definition decode_research_task :: "json \<Rightarrow> research_task res" where
  "decode_research_task j =
     bind_res (bind_res (j_key ''id'' j) decode_id) (\<lambda>tid.
     bind_res (bind_res (j_key ''run_id'' j) decode_id) (\<lambda>run_id.
     bind_res (j_truthy decode_id ''phase_run_id'' j) (\<lambda>phase_run_id.
     bind_res (j_opt as_str ''contract_id'' j) (\<lambda>contract_id.
     bind_res (j_opt as_str ''assigned_agent_id'' j) (\<lambda>agent.
     bind_res (bind_res (bind_res (j_key ''status'' j) as_str) (enum_of task_state_names)) (\<lambda>status.
     bind_res (bind_res (j_key ''priority'' j) as_int) (\<lambda>priority.
     bind_res (bind_res (j_key ''attempt'' j) as_int) (\<lambda>attempt.
     bind_res (j_opt as_str ''idempotency_key'' j) (\<lambda>ikey.
     bind_res (j_opt as_str ''lease_id'' j) (\<lambda>lease_id.
     bind_res (bind_res (j_dflt as_str ''AGENT_SESSION'' ''kind'' j) (enum_of task_kind_names)) (\<lambda>kind.
     bind_res (j_opt as_int ''partition'' j) (\<lambda>part.
     bind_res (j_opt as_str ''required_capability'' j) (\<lambda>cap.
       task_post_init
         \<lparr>rt_id = tid, rt_run_id = run_id, rt_phase_run_id = phase_run_id,
          rt_contract_id = contract_id, rt_assigned_agent_id = agent, rt_status = status,
          rt_priority = priority, rt_attempt = attempt, rt_idempotency_key = ikey,
          rt_lease_id = lease_id, rt_kind = kind, rt_partition = part,
          rt_required_capability = cap\<rparr>)))))))))))))"

definition decode_task :: "json \<times> json \<Rightarrow> (research_task \<times> task_contract) res" where
  "decode_task p =
     bind_res (decode_research_task (fst p)) (\<lambda>t.
     bind_res (decode_contract (snd p)) (\<lambda>c. Inr (t, c)))"

section \<open>Valid values\<close>

definition valid_criterion :: "acceptance_criterion \<Rightarrow> bool" where
  "valid_criterion c = is_ok (criterion_post_init c)"

definition valid_contract :: "task_contract \<Rightarrow> bool" where
  "valid_contract c = (is_ok (contract_post_init c) \<and>
     list_all valid_criterion (tc_acceptance_criteria c) \<and>
     (case tc_retry_policy c of None \<Rightarrow> True | Some p \<Rightarrow> is_ok (retry_policy_post_init p)) \<and>
     (case tc_experiment c of None \<Rightarrow> True | Some s \<Rightarrow> is_ok (experiment_post_init s)) \<and>
     (case tc_report c of None \<Rightarrow> True | Some s \<Rightarrow> is_ok (report_post_init s)))"

definition valid_task :: "research_task \<Rightarrow> bool" where
  "valid_task t = (is_ok (task_post_init t) \<and> is_uuid4 (rt_id t) \<and> is_uuid4 (rt_run_id t) \<and>
     (case rt_phase_run_id t of None \<Rightarrow> True | Some p \<Rightarrow> is_uuid4 p))"

section \<open>Round trip\<close>

text \<open>What comes back of a decimal, a criterion and a contract.\<close>

definition read_back :: "decimal \<Rightarrow> decimal" where
  "read_back d = (case encode_decimal d of JDec r \<Rightarrow> r | _ \<Rightarrow> d)"

definition persisted_criterion :: "acceptance_criterion \<Rightarrow> acceptance_criterion" where
  "persisted_criterion c =
     c\<lparr>minimum_tool_evidences := None, ac_threshold := map_option read_back (ac_threshold c)\<rparr>"

definition persisted_contract :: "task_contract \<Rightarrow> task_contract" where
  "persisted_contract c =
     c\<lparr>tc_acceptance_criteria := map persisted_criterion (tc_acceptance_criteria c),
       tc_budget := map (\<lambda>(k, v). (k, map_option read_back v)) (sort_key fst (tc_budget c)),
       tc_failure_policy := sort_key fst (tc_failure_policy c)\<rparr>"

lemma task_state_round_trip [simp]: "enum_of task_state_names (enum_text task_state_names s) = Inr s"
  by (cases s) (simp_all add: enum_of_def enum_text_def task_state_names_def)

lemma task_kind_round_trip [simp]: "enum_of task_kind_names (enum_text task_kind_names k) = Inr k"
  by (cases k) (simp_all add: enum_of_def enum_text_def task_kind_names_def)

lemma failure_category_round_trip [simp]:
  "enum_of failure_category_names (enum_text failure_category_names f) = Inr f"
  by (cases f) (simp_all add: enum_of_def enum_text_def failure_category_names_def)

lemma criterion_type_round_trip [simp]:
  "enum_of criterion_type_names (enum_text criterion_type_names t) = Inr t"
  by (cases t) (simp_all add: enum_of_def enum_text_def criterion_type_names_def)

lemma operator_round_trip [simp]:
  "enum_of operator_names (enum_text operator_names p) = Inr p"
  "enum_text operator_names p \<noteq> ''''"
  by (cases p; simp add: enum_of_def enum_text_def operator_names_def)+

lemma insort_key_map: "insort_key f (g x) (map g xs) = map g (insort_key (\<lambda>y. f (g y)) x xs)"
  by (induction xs) simp_all

lemma sort_key_map: "sort_key f (map g xs) = map g (sort_key (\<lambda>y. f (g y)) xs)"
  by (induction xs) (simp_all add: insort_key_map)

lemma sort_key_dict:
  fixes kvs :: "('k::linorder \<times> 'v) list"
  shows "sort_key fst (map (\<lambda>(k, v). (k, f v)) kvs) = map (\<lambda>(k, v). (k, f v)) (sort_key fst kvs)"
proof -
  have "(\<lambda>y :: 'k \<times> 'v. fst (case y of (k, v) \<Rightarrow> (k, f v))) = fst" by auto
  then show ?thesis by (simp only: sort_key_map)
qed

lemma encode_decimal_JDec: "encode_decimal d = JDec (read_back d)"
  by (simp add: read_back_def encode_decimal_def Let_def)

lemma as_dec_encode [simp]: "as_dec (encode_decimal d) = Inr (read_back d)"
  by (simp add: encode_decimal_JDec)

lemma encode_decimal_not_null [simp]: "encode_decimal d \<noteq> JNull"
  by (simp add: encode_decimal_JDec)

lemma map_res_strs [simp]: "map_res as_str (map JStr xs) = Inr xs"
  using map_res_map [of xs as_str JStr "\<lambda>x. x"] by simp

lemma decode_policy_value_encode [simp]: "decode_policy_value (encode_policy_value v) = Inr v"
  by (cases v) auto

lemma as_opt_encode:
  assumes "\<And>a. x = Some a \<Longrightarrow> f (g a) = Inr (h a) \<and> g a \<noteq> JNull"
  shows "as_opt f (encode_opt g x) = Inr (map_option h x)"
  using assms by (cases x) (auto simp: as_opt_def encode_opt_def)

lemma as_opt_same:
  assumes "\<And>a. x = Some a \<Longrightarrow> f (g a) = Inr a" and "\<And>a. g a \<noteq> JNull"
  shows "as_opt f (encode_opt g x) = Inr x"
  using assms by (cases x) (auto simp: as_opt_def encode_opt_def)

lemma encode_objects [simp]:
  "encode_retry_policy p \<noteq> JNull" "encode_experiment e \<noteq> JNull" "encode_report r \<noteq> JNull"
  "encode_id s \<noteq> JNull" "encode_opt encode_retry_policy po \<noteq> JObj []" "encode_opt encode_id so \<noteq> JObj []"
  by (simp_all add: encode_retry_policy_def encode_experiment_def encode_report_def encode_id_def
      encode_opt_def split: option.splits)

lemma as_opt_scalars [simp]:
  "as_opt as_str (encode_opt JStr x) = Inr x"
  "as_opt as_int (encode_opt JInt i) = Inr i"
  "as_opt as_dec (encode_opt encode_decimal d) = Inr (map_option read_back d)"
  "as_opt as_str (encode_opt (JStr \<circ> en) e) = Inr (map_option en e)"
  by (simp_all add: as_opt_def encode_opt_def split: option.splits)

lemma j_access [simp]:
  "j_opt f k (JObj kvs) = (case map_of kvs k of None \<Rightarrow> Inr None | Some v \<Rightarrow> as_opt f v)"
  "j_dflt g d k (JObj kvs) =
     (case map_of kvs k of None \<Rightarrow> Inr d | Some v \<Rightarrow> if v = JNull then Inr d else g v)"
  "j_key k (JObj kvs) =
     (case map_of kvs k of None \<Rightarrow> Inl (KeyError k)
      | Some v \<Rightarrow> if v = JNull then Inl (KeyError k) else Inr v)"
  "j_truthy f k (JObj kvs) =
     (case map_of kvs k of None \<Rightarrow> Inr None
      | Some v \<Rightarrow> if v = JObj [] then Inr None else as_opt f v)"
  by (auto simp: j_opt_def j_dflt_def j_key_def j_truthy_def as_opt_def
      split: option.split json.split)

lemma decode_criterion_encode:
  assumes "valid_criterion c"
  shows "decode_criterion (encode_criterion c) = Inr (persisted_criterion c)"
proof -
  have "decode_criterion (encode_criterion c) = criterion_post_init (persisted_criterion c)"
    by (cases c; cases "ac_operator c") (simp_all add: decode_criterion_def encode_criterion_def persisted_criterion_def)
  also have "\<dots> = Inr (persisted_criterion c)"
    using assms
    by (auto simp: valid_criterion_def criterion_post_init_def persisted_criterion_def split: if_splits)
  finally show ?thesis .
qed

lemma decode_retry_policy_encode:
  assumes "is_ok (retry_policy_post_init p)"
  shows "decode_retry_policy (encode_retry_policy p) = Inr p"
proof -
  have cats: "map_res (\<lambda>x. bind_res (as_str x) (enum_of failure_category_names))
      (map (JStr \<circ> enum_text failure_category_names) xs) = Inr xs" for xs
    using map_res_map [of xs "\<lambda>x. bind_res (as_str x) (enum_of failure_category_names)"
        "JStr \<circ> enum_text failure_category_names" "\<lambda>x. x"] by simp
  have "decode_retry_policy (encode_retry_policy p) = retry_policy_post_init p"
    by (cases p) (simp add: decode_retry_policy_def encode_retry_policy_def cats)
  also have "\<dots> = Inr p"
    using assms by (auto simp: retry_policy_post_init_def split: if_splits)
  finally show ?thesis .
qed

lemma decode_experiment_encode:
  "is_ok (experiment_post_init s) \<Longrightarrow> decode_experiment (encode_experiment s) = Inr s"
  by (cases s) (auto simp: decode_experiment_def encode_experiment_def experiment_post_init_def split: if_splits)

lemma decode_report_encode:
  assumes "is_ok (report_post_init s)"
  shows "decode_report (encode_report s) = Inr s"
proof -
  have "rs_declared s" using assms by (auto simp: report_post_init_def split: if_splits)
  then have "s = \<lparr>rs_declared = True, rs_timeout_seconds = rs_timeout_seconds s\<rparr>" by (cases s) simp
  with assms show ?thesis
    by (auto simp: decode_report_def encode_report_def report_post_init_def split: if_splits)
qed

lemma decode_dict_encode:
  assumes "\<And>k v. (k, v) \<in> set kvs \<Longrightarrow> f (g v) = Inr (h v)"
  shows "as_dict f (encode_dict g kvs) = Inr (map (\<lambda>(k, v). (k, h v)) (sort_key fst kvs))"
  unfolding encode_dict_def sort_key_dict
  using assms by (auto intro!: map_res_map)

lemma encode_dict_not_null [simp]: "encode_dict g kvs \<noteq> JNull"
  by (simp add: encode_dict_def)

lemma decode_contract_encode:
  assumes "valid_contract c"
  shows "decode_contract (encode_contract c) = Inr (persisted_contract c)"
proof -
  have crits: "map_res decode_criterion (map encode_criterion (tc_acceptance_criteria c)) =
      Inr (map persisted_criterion (tc_acceptance_criteria c))"
    using assms by (intro map_res_map decode_criterion_encode) (auto simp: valid_contract_def list_all_iff)
  have budget: "decode_budget (encode_dict (encode_opt encode_decimal) (tc_budget c)) =
      Inr (map (\<lambda>(k, v). (k, map_option read_back v)) (sort_key fst (tc_budget c)))"
    unfolding decode_budget_def by (rule decode_dict_encode) simp
  have policy: "as_dict decode_policy_value (encode_dict encode_policy_value (tc_failure_policy c)) =
      Inr (sort_key fst (tc_failure_policy c))"
    using decode_dict_encode [of "tc_failure_policy c" decode_policy_value encode_policy_value "\<lambda>v. v"] by simp
  have retry: "as_opt decode_retry_policy (encode_opt encode_retry_policy (tc_retry_policy c)) = Inr (tc_retry_policy c)"
    using assms by (intro as_opt_same) (auto simp: valid_contract_def decode_retry_policy_encode)
  have expt: "as_opt decode_experiment (encode_opt encode_experiment (tc_experiment c)) = Inr (tc_experiment c)"
    using assms by (intro as_opt_same) (auto simp: valid_contract_def decode_experiment_encode)
  have report: "as_opt decode_report (encode_opt encode_report (tc_report c)) = Inr (tc_report c)"
    using assms by (intro as_opt_same) (auto simp: valid_contract_def decode_report_encode)
  have "decode_contract (encode_contract c) = contract_post_init (persisted_contract c)"
    by (simp add: decode_contract_def encode_contract_def crits budget policy retry expt report
        persisted_contract_def) (cases c, simp)
  also have "\<dots> = Inr (persisted_contract c)"
    using assms
    by (auto simp: valid_contract_def contract_post_init_def persisted_contract_def split: if_splits)
  finally show ?thesis .
qed

lemma decode_id_encode: "is_uuid4 s \<Longrightarrow> decode_id (encode_id s) = Inr s"
  by (simp add: decode_id_def encode_id_def id_post_init_def)

lemma task_post_init_valid: "is_ok (task_post_init t) \<Longrightarrow> task_post_init t = Inr t"
  by (auto simp: task_post_init_def split: if_splits)

lemma decode_research_task_encode:
  assumes "valid_task t"
  shows "decode_research_task (encode_research_task t) = Inr t"
proof -
  have ids: "decode_id (encode_id (rt_id t)) = Inr (rt_id t)"
    "decode_id (encode_id (rt_run_id t)) = Inr (rt_run_id t)"
    using assms by (simp_all add: valid_task_def decode_id_encode)
  have phase: "as_opt decode_id (encode_opt encode_id (rt_phase_run_id t)) = Inr (rt_phase_run_id t)"
    using assms by (intro as_opt_same) (auto simp: valid_task_def decode_id_encode)
  have "decode_research_task (encode_research_task t) = task_post_init t"
    by (simp add: decode_research_task_def encode_research_task_def ids phase) (cases t, simp)
  with assms show ?thesis by (simp add: valid_task_def task_post_init_valid)
qed

section \<open>Properties\<close>

lemma strip_zeros_val: "dec_val (strip_zeros k c e) = dec_val (Dec c e)"
proof (induction k c e rule: strip_zeros.induct)
  case (2 k c e)
  have "dec_val (Dec (c div 10) (e + 1)) = dec_val (Dec (c div 10 * 10) e)"
    using dec_val_align [of e "Dec (c div 10) (e + 1)"] by simp
  with 2 show ?case by auto
qed simp

lemma read_back_exact:
  assumes "fits d"
  shows "dec_val (read_back d) = dec_val d"
proof (cases "coef d = 0")
  case True
  then show ?thesis by (simp add: read_back_def encode_decimal_def dec_val_def)
next
  case False
  define n where "n = dec_normalize d"
  have n: "dec_val n = dec_val d"
    using assms by (cases d) (simp add: n_def dec_normalize_def dec_fix_fits strip_zeros_val Let_def)
  have "dec_val (Dec (coef n * 10 ^ nat (expo n)) 0) = dec_val n" if "0 < expo n"
    using that dec_val_align [of 0 n] by simp
  with False n show ?thesis by (simp add: read_back_def encode_decimal_def n_def [symmetric] Let_def)
qed

lemma persisted_criterion_other:
  "ac_type (persisted_criterion c) = ac_type c"
  "minimum_sources (persisted_criterion c) = minimum_sources c"
  "minimum_retrieved_sources (persisted_criterion c) = minimum_retrieved_sources c"
  "minimum_tool_evidences (persisted_criterion c) = None"
  by (simp_all add: persisted_criterion_def)

lemma map_of_sort_key:
  assumes "distinct (map fst kvs)"
  shows "map_of (sort_key fst kvs) k = map_of kvs k"
proof -
  have "map_of (sort_key fst kvs) = map_of kvs"
    using assms by (subst map_of_inject_set) (auto simp: distinct_map)
  then show ?thesis by simp
qed

lemma decode_task_encode:
  assumes "valid_task t" and "valid_contract c"
  shows "decode_task (encode_task t c) = Inr (t, persisted_contract c)"
  using assms by (simp add: decode_task_def encode_task_def decode_research_task_encode decode_contract_encode)

text \<open>
  C20: the persisted form loses nothing of a task, and of a contract only what the theorem
  names. Encoding a valid task with its contract and decoding the pair gives the same task,
  and a contract with the same identity, retry policy, execution declarations and failure
  policy entries, whose decimals denote the same numbers (up to the 28 digits of the decimal
  context). The one loss is \<open>minimum_tool_evidences\<close>: the decoder of a criterion does not read
  it, so every stored criterion comes back without that requirement.
\<close>

theorem persisted_task_round_trip:
  assumes "valid_task t" and "valid_contract c"
    and "distinct (map fst (tc_budget c))" and "distinct (map fst (tc_failure_policy c))"
  shows "\<exists>c'. decode_task (encode_task t c) = Inr (t, c') \<and>
    c' = c\<lparr>tc_acceptance_criteria := tc_acceptance_criteria c', tc_budget := tc_budget c',
           tc_failure_policy := tc_failure_policy c'\<rparr> \<and>
    map_of (tc_failure_policy c') = map_of (tc_failure_policy c) \<and>
    (\<forall>k. map_of (tc_budget c') k = map_option (map_option read_back) (map_of (tc_budget c) k)) \<and>
    list_all2 (\<lambda>b a. a = b\<lparr>minimum_tool_evidences := None,
                           ac_threshold := map_option read_back (ac_threshold b)\<rparr>)
      (tc_acceptance_criteria c) (tc_acceptance_criteria c') \<and>
    (\<forall>d. fits d \<longrightarrow> dec_val (read_back d) = dec_val d)"
proof (intro exI conjI)
  let ?c = "persisted_contract c"
  show "decode_task (encode_task t c) = Inr (t, ?c)" using assms by (simp add: decode_task_encode)
  show "?c = c\<lparr>tc_acceptance_criteria := tc_acceptance_criteria ?c, tc_budget := tc_budget ?c,
           tc_failure_policy := tc_failure_policy ?c\<rparr>"
    by (simp add: persisted_contract_def)
  show "map_of (tc_failure_policy ?c) = map_of (tc_failure_policy c)"
    using assms by (auto simp: persisted_contract_def map_of_sort_key)
  show "\<forall>k. map_of (tc_budget ?c) k = map_option (map_option read_back) (map_of (tc_budget c) k)"
    using assms by (simp add: persisted_contract_def map_of_map map_of_sort_key)
  show "list_all2 (\<lambda>b a. a = b\<lparr>minimum_tool_evidences := None,
                           ac_threshold := map_option read_back (ac_threshold b)\<rparr>)
      (tc_acceptance_criteria c) (tc_acceptance_criteria ?c)"
    by (simp add: persisted_contract_def list_all2_map2 persisted_criterion_def list_all2_same)
  show "\<forall>d. fits d \<longrightarrow> dec_val (read_back d) = dec_val d" by (simp add: read_back_exact)
qed

text \<open>A task and a contract to evaluate the codec and the engine on.\<close>

definition demo_criterion :: acceptance_criterion where
  "demo_criterion =
     \<lparr>ac_type = EVIDENCE_COVERAGE, ac_description = '''', ac_target = None, ac_artifact = None,
      minimum_sources = Some 1, minimum_retrieved_sources = None, minimum_tool_evidences = Some 2,
      ac_metric = None, ac_operator = Some GTE, ac_threshold = Some (Dec 50 (-2)),
      ac_evaluator = None\<rparr>"

definition demo_policy :: retry_policy where
  "demo_policy = \<lparr>max_attempts = 2, retryable_categories = [FC_TOOL_TIMEOUT],
     backoff_seconds = Some 5, max_backoff_seconds = Some 30\<rparr>"

definition demo_contract :: task_contract where
  "demo_contract =
     \<lparr>tc_id = ''collect'', tc_version = ''1'', tc_purpose = ''collect evidence'',
      tc_required_capabilities = [''search''], tc_input_schema = None, tc_output_schema = None,
      tc_required_artifacts = [], tc_acceptance_criteria = [demo_criterion],
      tc_budget = [(''usd'', Some (Dec 150 (-2))), (''tokens'', None)],
      tc_timeout_seconds = Some 60, tc_retry_policy = Some demo_policy,
      tc_failure_policy = [(''on_task_failure'', PStr ''CONTINUE'')],
      tc_idempotency_scope = ''task'', tc_experiment = None, tc_report = None\<rparr>"

definition demo_task :: research_task where
  "demo_task =
     \<lparr>rt_id = ''11111111-1111-4111-8111-111111111111'',
      rt_run_id = ''22222222-2222-4222-9222-222222222222'', rt_phase_run_id = None,
      rt_contract_id = Some ''collect'', rt_assigned_agent_id = Some ''agent-a'',
      rt_status = T_CREATED, rt_priority = 0, rt_attempt = 1,
      rt_idempotency_key = Some ''run:phase:agent-a'', rt_lease_id = None,
      rt_kind = EXECUTION, rt_partition = None, rt_required_capability = None\<rparr>"

lemma demo_ids:
  "is_uuid4 ''11111111-1111-4111-8111-111111111111''"
  "is_uuid4 ''22222222-2222-4222-9222-222222222222''"
  by code_simp+

lemma valid_demo_task: "valid_task demo_task"
  by (simp add: valid_task_def demo_task_def task_post_init_def demo_ids)

lemma valid_demo_contract: "valid_contract demo_contract"
  by (simp add: valid_contract_def demo_contract_def contract_post_init_def valid_criterion_def
      demo_criterion_def criterion_post_init_def demo_policy_def retry_policy_post_init_def)

theorem persisted_task_round_trip_witness:
  "\<exists>c'. decode_task (encode_task demo_task demo_contract) = Inr (demo_task, c') \<and>
     map minimum_tool_evidences (tc_acceptance_criteria c') = [None] \<and>
     map minimum_sources (tc_acceptance_criteria c') = [Some 1]"
proof -
  have "distinct (map fst (tc_budget demo_contract))" "distinct (map fst (tc_failure_policy demo_contract))"
    by (simp_all add: demo_contract_def)
  from persisted_task_round_trip [OF valid_demo_task valid_demo_contract this]
  obtain c' where c': "decode_task (encode_task demo_task demo_contract) = Inr (demo_task, c')"
    "list_all2 (\<lambda>b a. a = b\<lparr>minimum_tool_evidences := None,
        ac_threshold := map_option read_back (ac_threshold b)\<rparr>)
      (tc_acceptance_criteria demo_contract) (tc_acceptance_criteria c')"
    by blast
  from c'(2) have "\<exists>x. tc_acceptance_criteria c' = [x] \<and> minimum_tool_evidences x = None \<and> minimum_sources x = Some 1"
    by (auto simp: demo_contract_def demo_criterion_def list_all2_Cons1)
  with c'(1) show ?thesis by auto
qed

end
