(* ===== verification/Timestamps.thy ===== *)
theory Timestamps
  imports Task_Contract
begin

text \<open>
  Points in time and their stored text. A timestamp is the number of microseconds since
  0001-01-01T00:00:00Z. The SQLite adapters store the text of \<^verbatim>\<open>isoformat()\<close> with
  \<^verbatim>\<open>+00:00\<close> replaced by \<^verbatim>\<open>Z\<close> (\<^verbatim>\<open>adapters/sqlite/leases.py: iso\<close>,
  \<^verbatim>\<open>adapters/sqlite/db.py: now_iso\<close>) and let SQL and Python compare these texts. The text is
  a date and time of fixed width down to the second, whose order as text is the order in
  time, followed by a suffix: \<^verbatim>\<open>Z\<close> when the microseconds are zero, a point, six digits and
  \<^verbatim>\<open>Z\<close> otherwise. \<open>iso_key\<close> is that pair, and \<open>iso_less\<close> its order as text.
\<close>

section \<open>Clock arithmetic\<close>

text \<open>The last microsecond of the year 9999: \<^verbatim>\<open>datetime.max\<close>.\<close>

definition max_us :: int where
  "max_us = 315537897600 * second_us - 1"

definition time_plus :: "int \<Rightarrow> int \<Rightarrow> int res" where
  "time_plus t d =
     (if max_us < t + d \<or> t + d < 0 then Inl (OverflowError ''date value out of range'')
      else Inr (t + d))"

section \<open>The stored text\<close>

fun pad_digits :: "nat \<Rightarrow> nat \<Rightarrow> string" where
  "pad_digits 0 n = []"
| "pad_digits (Suc k) n = pad_digits k (n div 10) @ [char_of (48 + n mod 10)]"

definition iso_suffix :: "int \<Rightarrow> string" where
  "iso_suffix t =
     (if t mod second_us = 0 then ''Z'' else ''.'' @ pad_digits 6 (nat (t mod second_us)) @ ''Z'')"

definition iso_key :: "int \<Rightarrow> int \<times> string" where
  "iso_key t = (t div second_us, iso_suffix t)"

definition iso_less :: "int \<Rightarrow> int \<Rightarrow> bool" where
  "iso_less a b =
     (fst (iso_key a) < fst (iso_key b) \<or>
      fst (iso_key a) = fst (iso_key b) \<and> snd (iso_key a) < snd (iso_key b))"

definition iso_le :: "int \<Rightarrow> int \<Rightarrow> bool" where
  "iso_le a b = (\<not> iso_less b a)"

section \<open>Text order and time order\<close>

lemma list_less_append_same_length:
  fixes xs ys :: "'a::order list"
  assumes "length xs = length ys"
  shows "xs @ us < ys @ vs \<longleftrightarrow> xs < ys \<or> xs = ys \<and> us < vs"
  using assms by (induction xs ys rule: list_induct2) auto

lemma length_pad_digits [simp]: "length (pad_digits k n) = k"
  by (induction k n rule: pad_digits.induct) simp_all

lemma digit_char_less_iff:
  "m < 10 \<Longrightarrow> n < 10 \<Longrightarrow> (char_of (48 + m) :: char) < char_of (48 + n) \<longleftrightarrow> m < (n::nat)"
  by (simp add: less_char_def)

lemma digit_char_eq_iff:
  "m < 10 \<Longrightarrow> n < 10 \<Longrightarrow> (char_of (48 + m) :: char) = char_of (48 + n) \<longleftrightarrow> m = (n::nat)"
  by (metis digit_char_less_iff less_irrefl nat_neq_iff)

lemma pad_digits_inj:
  "m < 10 ^ k \<Longrightarrow> n < 10 ^ k \<Longrightarrow> pad_digits k m = pad_digits k n \<longleftrightarrow> m = n"
proof (induction k arbitrary: m n)
  case (Suc k)
  then have "m div 10 < 10 ^ k" "n div 10 < 10 ^ k" by (simp_all add: less_mult_imp_div_less mult.commute)
  with Suc.IH have "pad_digits k (m div 10) = pad_digits k (n div 10) \<longleftrightarrow> m div 10 = n div 10" by blast
  then show ?case by (auto simp: digit_char_eq_iff) (metis div_mult_mod_eq)
qed simp

lemma div_mod_less_iff:
  fixes m n d :: nat
  assumes "0 < d"
  shows "m < n \<longleftrightarrow> m div d < n div d \<or> m div d = n div d \<and> m mod d < n mod d"
proof -
  consider "m div d < n div d" | "m div d = n div d" | "n div d < m div d" by linarith
  then show ?thesis
  proof cases
    case 1
    then have "m < n" by (meson div_le_mono leD leI)
    with 1 show ?thesis by simp
  next
    case 2
    then have "m < n \<longleftrightarrow> m mod d < n mod d"
      by (metis div_mult_mod_eq nat_add_left_cancel_less)
    with 2 show ?thesis by simp
  next
    case 3
    then have "\<not> m < n" by (meson div_le_mono leD less_imp_le)
    with 3 show ?thesis by simp
  qed
qed

lemma pad_digits_less_iff:
  "m < 10 ^ k \<Longrightarrow> n < 10 ^ k \<Longrightarrow> pad_digits k m < pad_digits k n \<longleftrightarrow> m < n"
proof (induction k arbitrary: m n)
  case (Suc k)
  then have bounds: "m div 10 < 10 ^ k" "n div 10 < 10 ^ k"
    by (simp_all add: less_mult_imp_div_less mult.commute)
  have "pad_digits (Suc k) m < pad_digits (Suc k) n \<longleftrightarrow>
      m div 10 < n div 10 \<or> m div 10 = n div 10 \<and> m mod 10 < n mod 10"
    using bounds
    by (simp add: list_less_append_same_length Suc.IH pad_digits_inj digit_char_less_iff)
  also have "\<dots> \<longleftrightarrow> m < n" by (rule div_mod_less_iff [symmetric]) simp
  finally show ?case .
qed simp

lemma iso_suffix_less_iff:
  "iso_suffix a < iso_suffix b \<longleftrightarrow>
     a mod second_us \<noteq> 0 \<and> (b mod second_us = 0 \<or> a mod second_us < b mod second_us)"
proof -
  have point: "CHR ''.'' < CHR ''Z''" "\<not> CHR ''Z'' < CHR ''.''" by (simp_all add: less_char_def)
  have bound: "nat (x mod second_us) < 10 ^ 6" for x
    by (simp add: second_us_def nat_less_iff)
  have nn: "0 \<le> x mod second_us" for x by (simp add: second_us_def)
  show ?thesis
    using bound [of a] bound [of b] nn [of a] nn [of b]
    by (auto simp: iso_suffix_def point list_less_append_same_length pad_digits_less_iff nat_less_iff
        nat_less_eq_zless)
qed

text \<open>
  The order of the texts is the order in time, except between two points of the same second
  of which exactly one is a whole second: there the whole second comes last.
\<close>

lemma iso_less_iff:
  "iso_less a b \<longleftrightarrow>
     (if a div second_us = b div second_us \<and> (a mod second_us = 0) \<noteq> (b mod second_us = 0)
      then b < a else a < b)"
proof (cases "a div second_us = b div second_us")
  case True
  have "a < b \<longleftrightarrow> a mod second_us < b mod second_us"
    using True by (metis add_less_cancel_left mult_div_mod_eq)
  moreover have "b < a \<longleftrightarrow> b mod second_us < a mod second_us"
    using True by (metis add_less_cancel_left mult_div_mod_eq)
  moreover have "0 \<le> a mod second_us" "0 \<le> b mod second_us" by (simp_all add: second_us_def)
  ultimately show ?thesis using True by (auto simp: iso_less_def iso_key_def iso_suffix_less_iff)
next
  case False
  then have "a div second_us < b div second_us \<longleftrightarrow> a < b"
    using zdiv_mono1 [of a b second_us] zdiv_mono1 [of b a second_us]
    by (auto simp: second_us_def)
  with False show ?thesis by (simp add: iso_less_def iso_key_def)
qed

text \<open>Times on one grid: all whole seconds, or none.\<close>

definition same_grid :: "int \<Rightarrow> int \<Rightarrow> bool" where
  "same_grid a b = ((a mod second_us = 0) = (b mod second_us = 0))"

lemma iso_less_same_grid: "same_grid a b \<Longrightarrow> iso_less a b \<longleftrightarrow> a < b"
  by (auto simp: iso_less_iff same_grid_def)

lemma iso_less_second_apart: "a div second_us \<noteq> b div second_us \<Longrightarrow> iso_less a b \<longleftrightarrow> a < b"
  by (auto simp: iso_less_iff)

lemma iso_less_irrefl [simp]: "\<not> iso_less a a"
  by (simp add: iso_less_iff)

lemma iso_less_trans: "iso_less a b \<Longrightarrow> iso_less b c \<Longrightarrow> iso_less a c"
  unfolding iso_less_def using less_trans by fastforce

lemma iso_less_linear: "iso_less a b \<or> a = b \<or> iso_less b a"
  by (auto simp: iso_less_iff)

text \<open>The order of the texts is the order in time, but for a whole second among the times of that second.\<close>

lemma iso_key_le_time:
  assumes "iso_key a \<le> iso_key b"
  shows "a \<le> b \<or> b mod second_us = 0 \<and> a < b + second_us"
proof (rule ccontr)
  assume no: "\<not> ?thesis"
  have "\<not> iso_less b a" using assms by (auto simp: iso_less_def less_eq_prod_def)
  then have same: "a div second_us = b div second_us" and "(a mod second_us = 0) \<noteq> (b mod second_us = 0)"
    using no by (auto simp: iso_less_iff split: if_splits)
  moreover have "b mod second_us < a mod second_us"
    using no same by (metis add_less_cancel_left linorder_not_le mult_div_mod_eq)
  ultimately have "b mod second_us = 0" using pos_mod_sign [of second_us b] by (auto simp: second_us_def)
  moreover have "a < b + second_us"
    using same pos_mod_bound [of second_us a] pos_mod_sign [of second_us b]
      mult_div_mod_eq [of second_us a] mult_div_mod_eq [of second_us b] by (simp add: second_us_def)
  ultimately show False using no by simp
qed

lemma iso_le_refl [simp]: "iso_le a a"
  by (simp add: iso_le_def)

section \<open>The text with a numeric offset\<close>

text \<open>
  The program store writes \<^verbatim>\<open>isoformat()\<close> as it is, with the offset \<^verbatim>\<open>+00:00\<close>. The plus sign
  sorts before the point, so this text does sort in time order.
\<close>

definition offset_suffix :: "int \<Rightarrow> string" where
  "offset_suffix t =
     (if t mod second_us = 0 then ''+00:00''
      else ''.'' @ pad_digits 6 (nat (t mod second_us)) @ ''+00:00'')"

definition offset_key :: "int \<Rightarrow> int \<times> string" where
  "offset_key t = (t div second_us, offset_suffix t)"

lemma offset_suffix_less_iff:
  "offset_suffix a < offset_suffix b \<longleftrightarrow> a mod second_us < b mod second_us"
proof -
  have point: "CHR ''+'' < CHR ''.''" "\<not> CHR ''.'' < CHR ''+''" by (simp_all add: less_char_def)
  have bound: "nat (x mod second_us) < 10 ^ 6" for x
    by (simp add: second_us_def nat_less_iff)
  have nn: "0 \<le> x mod second_us" for x by (simp add: second_us_def)
  show ?thesis
    using bound [of a] bound [of b] nn [of a] nn [of b]
    by (auto simp: offset_suffix_def point list_less_append_same_length pad_digits_less_iff
        nat_less_eq_zless)
qed

lemma offset_key_less_iff: "offset_key a < offset_key b \<longleftrightarrow> a < b"
proof (cases "a div second_us = b div second_us")
  case True
  then have "a < b \<longleftrightarrow> a mod second_us < b mod second_us"
    by (metis add_less_cancel_left mult_div_mod_eq)
  with True show ?thesis by (simp add: offset_key_def offset_suffix_less_iff)
next
  case False
  then have "a div second_us < b div second_us \<longleftrightarrow> a < b"
    using zdiv_mono1 [of a b second_us] zdiv_mono1 [of b a second_us]
    by (auto simp: second_us_def)
  with False show ?thesis by (auto simp: offset_key_def)
qed

lemma offset_key_eq_iff [simp]: "offset_key a = offset_key b \<longleftrightarrow> a = b"
  by (metis less_irrefl linorder_neqE offset_key_less_iff)

end
