(* ===== verification/Adapter_Base.thy ===== *)
theory Adapter_Base
  imports Timestamps
begin

text \<open>
  The common base of the SQLite adapters (\<^verbatim>\<open>adapters/sqlite/base.py\<close>): the closed flag and
  the log of calls. The state of an adapter extends the record \<open>adapter_base\<close>; an operation
  takes a state and returns a result together with the next state, because a failing call
  still leaves its entry in the log. A \<^verbatim>\<open>with self._conn\<close> block is atomic: an exception in it
  leaves the tables as they were. Each reading of the clock in an operation is an argument
  \<open>clk i\<close>, the \<open>i\<close>-th reading of that call; each \<^verbatim>\<open>uuid4()\<close> is an argument \<open>uid i\<close>.
\<close>

record call_record =
  cr_method :: string
  cr_index :: nat
  cr_args :: string
  cr_result :: "string option"
  cr_error :: "string option"

record adapter_base =
  ab_closed :: bool
  ab_calls :: "call_record list"

definition closed_error :: py_error where
  "closed_error = PermanentPortError ''sqlite adapter is closed''"

definition log_call ::
    "string \<Rightarrow> string \<Rightarrow> string option \<Rightarrow> string option \<Rightarrow> 'a adapter_base_scheme \<Rightarrow> 'a adapter_base_scheme" where
  "log_call method args result error st =
     st\<lparr>ab_calls := ab_calls st @
          [\<lparr>cr_method = method, cr_index = length (ab_calls st), cr_args = args,
            cr_result = result, cr_error = error\<rparr>]\<rparr>"

definition log_ok :: "string \<Rightarrow> string \<Rightarrow> 'a adapter_base_scheme \<Rightarrow> 'a adapter_base_scheme" where
  "log_ok method args st = log_call method args None None st"

definition log_result :: "string \<Rightarrow> string \<Rightarrow> string \<Rightarrow> 'a adapter_base_scheme \<Rightarrow> 'a adapter_base_scheme" where
  "log_result method args result st = log_call method args (Some result) None st"

definition log_error :: "string \<Rightarrow> string \<Rightarrow> 'a adapter_base_scheme \<Rightarrow> 'a adapter_base_scheme" where
  "log_error method args st = log_call method args None (Some ''InvalidInputError'') st"

definition method_calls :: "string \<Rightarrow> 'a adapter_base_scheme \<Rightarrow> nat" where
  "method_calls method st = length (filter (\<lambda>c. cr_method c = method) (ab_calls st))"

lemmas log_defs = log_ok_def log_result_def log_error_def log_call_def

text \<open>The log numbers its entries consecutively.\<close>

definition calls_indexed :: "'a adapter_base_scheme \<Rightarrow> bool" where
  "calls_indexed st = (map cr_index (ab_calls st) = [0..<length (ab_calls st)])"

lemma calls_indexed_log: "calls_indexed st \<Longrightarrow> calls_indexed (log_call m a r e st)"
  by (simp add: calls_indexed_def log_call_def)

end
