(* ===== verification/Workers.thy ===== *)
theory Workers
  imports Adapter_Base
begin

text \<open>
  Workers of the execution plane: the lifecycle and the bounded registration value of
  \<^verbatim>\<open>packages/domain/workers.py\<close>, the SQLite registry \<^verbatim>\<open>adapters/sqlite/worker_registry.py\<close> and
  the reaper pass of \<^verbatim>\<open>services/api/scheduler.py: WorkerReaperScheduler\<close>. The registry cuts
  every clock reading to the whole second before it stores it, which makes the text order of
  its timestamps the order in time. A frozenset is a list without repetitions.
\<close>

section \<open>Lifecycle\<close>

datatype worker_state =
    W_REGISTERING | W_READY | W_BUSY | W_DRAINING | W_OFFLINE | W_LOST

datatype worker_event =
    WE_HANDSHAKE_OK | WE_HANDSHAKE_REJECTED | WE_CLAIM | WE_JOB_SETTLED
  | WE_DRAIN_REQUESTED | WE_OWNED_WORK_SETTLED | WE_HEARTBEAT_EXPIRED | WE_RE_REGISTER

definition worker_transitions :: "((worker_state \<times> worker_event) \<times> worker_state) list" where
  "worker_transitions = [
    ((W_REGISTERING, WE_HANDSHAKE_OK), W_READY),
    ((W_REGISTERING, WE_HANDSHAKE_REJECTED), W_OFFLINE),
    ((W_READY, WE_CLAIM), W_BUSY),
    ((W_BUSY, WE_JOB_SETTLED), W_READY),
    ((W_READY, WE_DRAIN_REQUESTED), W_DRAINING),
    ((W_BUSY, WE_DRAIN_REQUESTED), W_DRAINING),
    ((W_DRAINING, WE_OWNED_WORK_SETTLED), W_OFFLINE),
    ((W_READY, WE_HEARTBEAT_EXPIRED), W_LOST),
    ((W_BUSY, WE_HEARTBEAT_EXPIRED), W_LOST),
    ((W_DRAINING, WE_HEARTBEAT_EXPIRED), W_LOST),
    ((W_LOST, WE_RE_REGISTER), W_REGISTERING)]"

definition worker_initial :: worker_state where
  "worker_initial = W_REGISTERING"

definition worker_terminal :: "worker_state list" where
  "worker_terminal = [W_OFFLINE]"

definition worker_transition ::
    "worker_state \<Rightarrow> worker_event \<Rightarrow> (worker_state, worker_event) invalid_transition + worker_state" where
  "worker_transition current event = transition_of worker_transitions current event"

definition schedulable :: "worker_state list" where
  "schedulable = [W_READY]"

lemmas worker_table_defs =
  worker_transitions_def worker_initial_def worker_terminal_def is_terminal_def

definition worker_rank :: "worker_state \<Rightarrow> nat" where
  "worker_rank s = (if is_terminal s worker_terminal then 0
     else if s = W_BUSY \<or> s = W_READY \<or> s = W_LOST then 2 else 1)"

lemma worker_closer:
  "\<not> is_terminal s worker_terminal \<Longrightarrow>
     \<exists>e s'. transition_of worker_transitions s e = Inr s' \<and> worker_rank s' < worker_rank s"
  by (cases s) (auto simp: worker_table_defs worker_rank_def transition_of_Inr_iff split: if_splits)

interpretation worker: closing_lifecycle
  worker_transitions worker_initial worker_terminal "[]" worker_rank
  by (unfold_locales, simp add: worker_table_defs, force simp: worker_table_defs,
      simp add: worker_table_defs, erule worker_closer)

section \<open>Registration\<close>

definition PARTITION_COUNT :: int where "PARTITION_COUNT = 16"

record gpu_observation =
  gpu_device_name :: string
  gpu_device_count :: int
  gpu_driver_version :: string
  gpu_cuda_runtime_version :: string
  gpu_total_vram_bytes :: int
  gpu_framework :: string
  gpu_probed_at :: int
  gpu_probe_digest :: string

definition bad_text :: "string \<Rightarrow> nat \<Rightarrow> bool" where
  "bad_text v max_length = (v = '''' \<or> max_length < length v)"

definition gpu_post_init :: "gpu_observation \<Rightarrow> gpu_observation res" where
  "gpu_post_init g = first_error
     [(bad_text (gpu_device_name g) 128, ''device_name must be non-empty and <= 128 chars''),
      (\<not> (1 \<le> gpu_device_count g \<and> gpu_device_count g \<le> 64), ''device_count must be in [1, 64]''),
      (bad_text (gpu_driver_version g) 64, ''driver_version must be non-empty and <= 64 chars''),
      (bad_text (gpu_cuda_runtime_version g) 64,
        ''cuda_runtime_version must be non-empty and <= 64 chars''),
      (\<not> (1 \<le> gpu_total_vram_bytes g \<and> gpu_total_vram_bytes g \<le> 2 ^ 48),
        ''total_vram_bytes must be in [1, 281474976710656]''),
      (bad_text (gpu_framework g) 64, ''framework must be non-empty and <= 64 chars''),
      (bad_text (gpu_probe_digest g) 128, ''probe_digest must be non-empty and <= 128 chars'')] g"

record worker_registration =
  wg_worker_id :: string
  wg_protocol_version :: string
  wg_runtime_version :: string
  wg_capabilities :: "string list"
  wg_backend_kinds :: "string list"
  wg_platform :: string
  wg_partition_slots :: "int list"
  wg_max_concurrency :: int
  wg_generation :: int
  wg_state :: worker_state
  wg_last_heartbeat :: "int option"
  wg_drain_requested :: bool
  wg_gpu_observation :: "gpu_observation option"
  wg_gpu_observed_at :: "int option"

definition registration_post_init :: "worker_registration \<Rightarrow> worker_registration res" where
  "registration_post_init w = first_error
     [(bad_text (wg_worker_id w) 128, ''worker_id must be non-empty and <= 128 chars''),
      (bad_text (wg_protocol_version w) 64, ''protocol_version must be non-empty and <= 64 chars''),
      (bad_text (wg_runtime_version w) 64, ''runtime_version must be non-empty and <= 64 chars''),
      (bad_text (wg_platform w) 64, ''platform must be non-empty and <= 64 chars''),
      (32 < length (remdups (wg_capabilities w)), ''capabilities must contain <= 32 items''),
      (\<exists>c\<in>set (wg_capabilities w). bad_text c 64, ''capabilities must be non-empty and <= 64 chars''),
      (8 < length (remdups (wg_backend_kinds w)), ''backend_kinds must contain <= 8 items''),
      (\<exists>c\<in>set (wg_backend_kinds w). bad_text c 64, ''backend_kinds must be non-empty and <= 64 chars''),
      (wg_gpu_observation w = None \<and> wg_gpu_observed_at w \<noteq> None,
        ''gpu_observed_at requires gpu_observation''),
      (16 < length (remdups (wg_partition_slots w)), ''partition_slots must contain <= 16 items''),
      (\<exists>s\<in>set (wg_partition_slots w). \<not> (0 \<le> s \<and> s < PARTITION_COUNT),
        ''partition slot must be in [0, 16)''),
      (\<not> (1 \<le> wg_max_concurrency w \<and> wg_max_concurrency w \<le> 64),
        ''max_concurrency must be in [1, 64]''),
      (wg_generation w < 0, ''registration_generation must be >= 0'')] w"

section \<open>The registry\<close>

record worker_row =
  wr_worker_id :: string
  wr_protocol_version :: string
  wr_runtime_version :: string
  wr_platform :: string
  wr_capabilities :: "string list"
  wr_backend_kinds :: "string list"
  wr_partition_slots :: "int list"
  wr_max_concurrency :: int
  wr_generation :: int
  wr_state :: worker_state
  wr_last_heartbeat :: "int option"
  wr_drain_requested :: bool
  wr_session_token :: "string option"
  wr_gpu_observation :: "gpu_observation option"
  wr_gpu_observed_at :: "int option"
  wr_created_at :: int
  wr_updated_at :: int

record registry_state = adapter_base +
  rg_workers :: "worker_row list"

datatype registry_error =
    RegError py_error
  | RegTransition "(worker_state, worker_event) invalid_transition"

definition worker_state_text :: "worker_state \<Rightarrow> string" where
  "worker_state_text s =
     (case s of W_REGISTERING \<Rightarrow> ''REGISTERING'' | W_READY \<Rightarrow> ''READY'' | W_BUSY \<Rightarrow> ''BUSY''
      | W_DRAINING \<Rightarrow> ''DRAINING'' | W_OFFLINE \<Rightarrow> ''OFFLINE'' | W_LOST \<Rightarrow> ''LOST'')"

definition worker_event_text :: "worker_event \<Rightarrow> string" where
  "worker_event_text e =
     (case e of WE_HANDSHAKE_OK \<Rightarrow> ''HANDSHAKE_OK'' | WE_HANDSHAKE_REJECTED \<Rightarrow> ''HANDSHAKE_REJECTED''
      | WE_CLAIM \<Rightarrow> ''CLAIM'' | WE_JOB_SETTLED \<Rightarrow> ''JOB_SETTLED''
      | WE_DRAIN_REQUESTED \<Rightarrow> ''DRAIN_REQUESTED'' | WE_OWNED_WORK_SETTLED \<Rightarrow> ''OWNED_WORK_SETTLED''
      | WE_HEARTBEAT_EXPIRED \<Rightarrow> ''HEARTBEAT_EXPIRED'' | WE_RE_REGISTER \<Rightarrow> ''RE_REGISTER'')"

definition server_now :: "int \<Rightarrow> int" where
  "server_now t = t - t mod second_us"

definition row_to_registration :: "worker_row \<Rightarrow> worker_registration res" where
  "row_to_registration r =
     bind_res (case wr_gpu_observation r of
                 None \<Rightarrow> Inr None
               | Some g \<Rightarrow>
                   (case gpu_post_init g of
                      Inl _ \<Rightarrow> Inl (InvalidInputError ''corrupted gpu observation row'')
                    | Inr g' \<Rightarrow> Inr (Some g'))) (\<lambda>obs.
     registration_post_init
       \<lparr>wg_worker_id = wr_worker_id r, wg_protocol_version = wr_protocol_version r,
        wg_runtime_version = wr_runtime_version r, wg_capabilities = wr_capabilities r,
        wg_backend_kinds = wr_backend_kinds r, wg_platform = wr_platform r,
        wg_partition_slots = wr_partition_slots r, wg_max_concurrency = wr_max_concurrency r,
        wg_generation = wr_generation r, wg_state = wr_state r,
        wg_last_heartbeat = wr_last_heartbeat r, wg_drain_requested = wr_drain_requested r,
        wg_gpu_observation = obs, wg_gpu_observed_at = wr_gpu_observed_at r\<rparr>)"

definition rg_get :: "string \<Rightarrow> registry_state \<Rightarrow> worker_registration option res" where
  "rg_get worker_id rg =
     (if ab_closed rg then Inl closed_error
      else case row_of wr_worker_id worker_id (rg_workers rg) of
             None \<Rightarrow> Inr None
           | Some r \<Rightarrow> bind_res (row_to_registration r) (\<lambda>w. Inr (Some w)))"

text \<open>\<^verbatim>\<open>stored = self.get(worker_id); assert stored is not None; return stored\<close>\<close>

definition rg_stored :: "string \<Rightarrow> registry_state \<Rightarrow> registry_error + worker_registration" where
  "rg_stored worker_id rg =
     (case rg_get worker_id rg of
        Inl e \<Rightarrow> Inl (RegError e)
      | Inr None \<Rightarrow> Inl (RegError AssertionError)
      | Inr (Some w) \<Rightarrow> Inr w)"

definition rg_upsert :: "worker_row \<Rightarrow> worker_row list \<Rightarrow> worker_row list" where
  "rg_upsert r rows =
     (if row_of wr_worker_id (wr_worker_id r) rows = None then rows @ [r]
      else upd_row wr_worker_id (wr_worker_id r)
             (\<lambda>old. r\<lparr>wr_session_token := None, wr_drain_requested := False,
                      wr_created_at := wr_created_at old\<rparr>) rows)"

definition rg_register ::
    "worker_registration \<Rightarrow> int \<Rightarrow> registry_state \<Rightarrow>
     (registry_error + worker_registration) \<times> registry_state" where
  "rg_register w now rg =
     (if ab_closed rg then (Inl (RegError closed_error), rg)
      else
        (let ts = server_now now;
             next_gen = (case row_of wr_worker_id (wg_worker_id w) (rg_workers rg) of
                           None \<Rightarrow> 0 | Some r \<Rightarrow> wr_generation r) + 1;
             row = \<lparr>wr_worker_id = wg_worker_id w, wr_protocol_version = wg_protocol_version w,
                    wr_runtime_version = wg_runtime_version w, wr_platform = wg_platform w,
                    wr_capabilities = sort (remdups (wg_capabilities w)),
                    wr_backend_kinds = sort (remdups (wg_backend_kinds w)),
                    wr_partition_slots = sort (remdups (wg_partition_slots w)),
                    wr_max_concurrency = wg_max_concurrency w, wr_generation = next_gen,
                    wr_state = W_REGISTERING, wr_last_heartbeat = Some ts,
                    wr_drain_requested = False, wr_session_token = None,
                    wr_gpu_observation = wg_gpu_observation w,
                    wr_gpu_observed_at =
                      (if wg_gpu_observation w = None then None else Some ts),
                    wr_created_at = ts, wr_updated_at = ts\<rparr>;
             rg' = log_result ''register'' (wg_worker_id w) (''gen='' @ str_int next_gen)
                     (rg\<lparr>rg_workers := rg_upsert row (rg_workers rg)\<rparr>)
         in (rg_stored (wg_worker_id w) rg', rg')))"

definition iso_max :: "int \<Rightarrow> int \<Rightarrow> int" where
  "iso_max a b = (if iso_less a b then b else a)"

definition rg_heartbeat :: "string \<Rightarrow> int \<Rightarrow> int \<Rightarrow> registry_state \<Rightarrow> bool res \<times> registry_state" where
  "rg_heartbeat worker_id generation now rg =
     (if ab_closed rg then (Inl closed_error, rg)
      else
        (let ts = server_now now;
             accepted = (case row_of wr_worker_id worker_id (rg_workers rg) of
                           None \<Rightarrow> False | Some r \<Rightarrow> wr_generation r = generation);
             upd = (\<lambda>r. if wr_generation r = generation
                        then r\<lparr>wr_last_heartbeat :=
                                 Some (iso_max (case wr_last_heartbeat r of None \<Rightarrow> ts | Some t \<Rightarrow> t) ts),
                               wr_updated_at := ts\<rparr>
                        else r)
         in (Inr accepted,
             log_result ''heartbeat'' worker_id (if accepted then ''ok'' else ''rejected'')
               (rg\<lparr>rg_workers := upd_row wr_worker_id worker_id upd (rg_workers rg)\<rparr>))))"

text \<open>
  The three state changes share their shape: read the state, ask the table, write under the
  expected state. \<^verbatim>\<open>drain\<close> also raises the drain flag, \<^verbatim>\<open>mark_lost\<close> drops the session token.
\<close>

definition rg_change ::
    "string \<Rightarrow> string \<Rightarrow> worker_event \<Rightarrow> (worker_row \<Rightarrow> worker_row) \<Rightarrow> string \<Rightarrow> int \<Rightarrow> registry_state \<Rightarrow>
     (registry_error + worker_registration) \<times> registry_state" where
  "rg_change method log_args event extra worker_id now rg =
     (if ab_closed rg then (Inl (RegError closed_error), rg)
      else case row_of wr_worker_id worker_id (rg_workers rg) of
             None \<Rightarrow> (Inl (RegError (InvalidInputError (''unknown worker: '' @ worker_id))), rg)
           | Some cur \<Rightarrow>
               (case worker_transition (wr_state cur) event of
                  Inl err \<Rightarrow> (Inl (RegTransition err), rg)
                | Inr new_state \<Rightarrow>
                    (let upd = (\<lambda>r. if wr_state r = wr_state cur
                                    then extra (r\<lparr>wr_state := new_state,
                                                  wr_updated_at := server_now now\<rparr>)
                                    else r);
                         rg' = log_result method log_args (worker_state_text new_state)
                                 (rg\<lparr>rg_workers := upd_row wr_worker_id worker_id upd (rg_workers rg)\<rparr>)
                     in (rg_stored worker_id rg', rg'))))"

definition rg_transition ::
    "string \<Rightarrow> worker_event \<Rightarrow> int \<Rightarrow> registry_state \<Rightarrow>
     (registry_error + worker_registration) \<times> registry_state" where
  "rg_transition worker_id event now rg =
     rg_change ''transition'' (worker_id @ '':'' @ worker_event_text event) event (\<lambda>r. r) worker_id now rg"

definition rg_drain ::
    "string \<Rightarrow> int \<Rightarrow> registry_state \<Rightarrow> (registry_error + worker_registration) \<times> registry_state" where
  "rg_drain worker_id now rg =
     rg_change ''drain'' worker_id WE_DRAIN_REQUESTED (\<lambda>r. r\<lparr>wr_drain_requested := True\<rparr>)
       worker_id now rg"

definition rg_mark_lost ::
    "string \<Rightarrow> int \<Rightarrow> registry_state \<Rightarrow> (registry_error + worker_registration) \<times> registry_state" where
  "rg_mark_lost worker_id now rg =
     rg_change ''mark_lost'' worker_id WE_HEARTBEAT_EXPIRED (\<lambda>r. r\<lparr>wr_session_token := None\<rparr>)
       worker_id now rg"

definition rg_set_session_token ::
    "string \<Rightarrow> int \<Rightarrow> string \<Rightarrow> int \<Rightarrow> registry_state \<Rightarrow> bool res \<times> registry_state" where
  "rg_set_session_token worker_id generation token now rg =
     (if ab_closed rg then (Inl closed_error, rg)
      else
        (let bound = (case row_of wr_worker_id worker_id (rg_workers rg) of
                        None \<Rightarrow> False | Some r \<Rightarrow> wr_generation r = generation);
             upd = (\<lambda>r. if wr_generation r = generation
                        then r\<lparr>wr_session_token := Some token, wr_updated_at := server_now now\<rparr>
                        else r)
         in (Inr bound,
             log_result ''set_session_token'' worker_id (if bound then ''ok'' else ''rejected'')
               (rg\<lparr>rg_workers := upd_row wr_worker_id worker_id upd (rg_workers rg)\<rparr>))))"

definition rg_authenticate :: "string \<Rightarrow> registry_state \<Rightarrow> worker_registration option res" where
  "rg_authenticate token rg =
     (if ab_closed rg then Inl closed_error
      else case find (\<lambda>r. wr_session_token r = Some token) (rg_workers rg) of
             None \<Rightarrow> Inr None
           | Some r \<Rightarrow> bind_res (row_to_registration r) (\<lambda>w. Inr (Some w)))"

definition active_states :: "worker_state list" where
  "active_states = [W_REGISTERING, W_READY, W_BUSY, W_DRAINING]"

definition is_stale :: "int \<Rightarrow> worker_row \<Rightarrow> bool" where
  "is_stale cutoff r = (wr_state r \<in> set active_states \<and>
     (case wr_last_heartbeat r of None \<Rightarrow> False | Some t \<Rightarrow> iso_less t cutoff))"

definition rg_list_stale :: "int \<Rightarrow> int \<Rightarrow> registry_state \<Rightarrow> string list res \<times> registry_state" where
  "rg_list_stale stale_us now rg =
     (if ab_closed rg then (Inl closed_error, rg)
      else case time_plus (server_now now) (- stale_us) of
             Inl e \<Rightarrow> (Inl e, rg)
           | Inr cutoff \<Rightarrow>
               (let ids = sort (map wr_worker_id (filter (is_stale cutoff) (rg_workers rg)))
                in (Inr ids, log_result ''list_stale'' '''' (str_int (int (length ids))) rg)))"

definition rg_list_workers :: "registry_state \<Rightarrow> worker_registration list res" where
  "rg_list_workers rg =
     (if ab_closed rg then Inl closed_error
      else map_res row_to_registration (sort_key wr_worker_id (rg_workers rg)))"

section \<open>The reaper\<close>

text \<open>One pass: every stale worker is marked lost; an exception of one is skipped, the count is of all.\<close>

fun reap_all :: "string list \<Rightarrow> int \<Rightarrow> registry_state \<Rightarrow> registry_state" where
  "reap_all [] now rg = rg"
| "reap_all (w # ws) now rg = reap_all ws now (snd (rg_mark_lost w now rg))"

definition reaper_pass :: "int \<Rightarrow> int \<Rightarrow> registry_state \<Rightarrow> nat res \<times> registry_state" where
  "reaper_pass stale_us now rg =
     (case rg_list_stale stale_us now rg of
        (Inl e, rg') \<Rightarrow> (Inl e, rg')
      | (Inr lost, rg') \<Rightarrow> (Inr (length lost), reap_all lost now rg'))"

end
