(* ===== verification/Workflow_Store.thy ===== *)
theory Workflow_Store
  imports Task_Codec Workers
begin

text \<open>
  The data of the workflow engine: the port values of
  \<^verbatim>\<open>packages/application/ports/workflow_engine.py\<close>, the rows of the SQLite tables
  (\<^verbatim>\<open>adapters/sqlite/db.py\<close>), the outbox writer (\<^verbatim>\<open>outbox.py\<close>), the lease constructors
  (\<^verbatim>\<open>leases.py\<close>) and the helpers of the claim path (\<^verbatim>\<open>workflow_claim.py\<close>). A table is the list
  of its rows in insertion order; a timestamp column holds the time its text stands for and is
  compared by \<open>iso_less\<close>. \<^verbatim>\<open>ORDER BY\<close> is a stable sort, so rows that tie come in insertion
  order.
\<close>

section \<open>Port values\<close>

record task_lease =
  tl_lease_id :: string
  tl_task_id :: string
  tl_agent_id :: "string option"
  tl_expires_at :: "int option"
  tl_heartbeat_at :: "int option"
  tl_worker_id :: "string option"
  tl_fence :: int

definition lease_post_init :: "task_lease \<Rightarrow> task_lease res" where
  "lease_post_init l = first_error
     [(tl_lease_id l = '''', ''lease_id must not be empty''),
      (tl_task_id l = '''', ''task_id must not be empty''),
      (tl_fence l < 0, ''fence must be non-negative'')] l"

record claim_request =
  cq_worker_id :: string
  cq_capabilities :: "string list"
  cq_partitions :: "int list"
  cq_relax_partitions :: bool

definition claim_request_post_init :: "claim_request \<Rightarrow> claim_request res" where
  "claim_request_post_init q = first_error
     [(cq_worker_id q = '''', ''worker_id must not be empty'')] q"

record task_completion =
  cm_task_id :: string
  cm_outcome :: string
  cm_message :: string
  cm_failure_category :: "failure_category option"

definition completion_post_init :: "task_completion \<Rightarrow> task_completion res" where
  "completion_post_init c = first_error
     [(cm_task_id c = '''', ''task_id must not be empty''),
      (cm_outcome c = '''', ''outcome must not be empty'')] c"

section \<open>Tables\<close>

record task_row =
  tr_task_id :: string
  tr_run_id :: string
  tr_idempotency_key :: "string option"
  tr_attempt :: int
  tr_status :: task_state
  tr_assigned_agent_id :: "string option"
  tr_task_json :: json
  tr_contract_json :: json
  tr_cancelled :: bool
  tr_created_at :: int
  tr_kind :: task_kind
  tr_partition :: "int option"
  tr_required_capability :: "string option"
  tr_fence_seq :: int
  tr_retry_at :: "int option"

record lease_row =
  lr_task_id :: string
  lr_lease_id :: string
  lr_agent_id :: "string option"
  lr_expires_at :: int
  lr_heartbeat_at :: int
  lr_worker_id :: "string option"
  lr_fence :: int

record idem_row =
  ir_operation_key :: string
  ir_task_id :: string
  ir_request_digest :: string
  ir_created_at :: int

datatype event_type = TASK_LEASED | TASK_RETRY_SCHEDULED | TASK_COMPLETED | TASK_CANCELLED

datatype event_payload =
    LeasedPayload string string int
  | LeaseExpiredPayload string
  | FailureRetryPayload string int "failure_category option" "int option"
  | ManualRequeuePayload string task_state
  | CompletedPayload string string failure_action task_state
  | CancelledPayload string

record outbox_event =
  oe_event_id :: string
  oe_event_type :: event_type
  oe_payload :: event_payload
  oe_occurred_at :: int
  oe_scope :: string
  oe_run_id :: string
  oe_task_id :: string
  oe_created_at :: int
  oe_published_at :: "int option"

record wf_state = adapter_base +
  wf_lease_ttl :: int
  wf_tasks :: "task_row list"
  wf_leases :: "lease_row list"
  wf_idem :: "idem_row list"
  wf_outbox :: "outbox_event list"
  wf_runs :: "(string \<times> run_state) list"
  wf_workers :: "worker_row list"

definition task_of :: "string \<Rightarrow> wf_state \<Rightarrow> task_row option" where
  "task_of task_id st = row_of tr_task_id task_id (wf_tasks st)"

definition lease_of :: "string \<Rightarrow> wf_state \<Rightarrow> lease_row option" where
  "lease_of task_id st = row_of lr_task_id task_id (wf_leases st)"

definition upd_task :: "string \<Rightarrow> (task_row \<Rightarrow> task_row) \<Rightarrow> wf_state \<Rightarrow> wf_state" where
  "upd_task task_id f st = st\<lparr>wf_tasks := upd_row tr_task_id task_id f (wf_tasks st)\<rparr>"

definition del_lease :: "string \<Rightarrow> wf_state \<Rightarrow> wf_state" where
  "del_lease task_id st = st\<lparr>wf_leases := del_row lr_task_id task_id (wf_leases st)\<rparr>"

section \<open>Outbox\<close>

text \<open>
  \<^verbatim>\<open>OutboxWriter.publish\<close>; \<open>occurred\<close> and \<open>created\<close> are its two readings of the clock, the
  payload digest is a function of the payload and left out.
\<close>

definition publish ::
    "event_type \<Rightarrow> event_payload \<Rightarrow> string \<Rightarrow> string \<Rightarrow> string \<Rightarrow> int \<Rightarrow> int \<Rightarrow> wf_state \<Rightarrow> wf_state" where
  "publish ty payload run_id task_id event_id occurred created st =
     (if row_of oe_event_id event_id (wf_outbox st) \<noteq> None then st
      else st\<lparr>wf_outbox := wf_outbox st @
             [\<lparr>oe_event_id = event_id, oe_event_type = ty, oe_payload = payload,
               oe_occurred_at = occurred, oe_scope = ''run:'' @ run_id @ '' task:'' @ task_id,
               oe_run_id = run_id, oe_task_id = task_id, oe_created_at = created,
               oe_published_at = None\<rparr>]\<rparr>)"

section \<open>Leases\<close>

definition new_lease ::
    "string \<Rightarrow> string option \<Rightarrow> int \<Rightarrow> int \<Rightarrow> string option \<Rightarrow> int \<Rightarrow> string \<Rightarrow> task_lease res" where
  "new_lease task_id agent_id ttl now worker_id fence uuid =
     bind_res (time_plus now ttl) (\<lambda>expires.
     lease_post_init
       \<lparr>tl_lease_id = uuid, tl_task_id = task_id, tl_agent_id = agent_id,
        tl_expires_at = Some expires, tl_heartbeat_at = Some now, tl_worker_id = worker_id,
        tl_fence = fence\<rparr>)"

definition lease_from_row :: "lease_row \<Rightarrow> task_lease res" where
  "lease_from_row r = lease_post_init
     \<lparr>tl_lease_id = lr_lease_id r, tl_task_id = lr_task_id r, tl_agent_id = lr_agent_id r,
      tl_expires_at = Some (lr_expires_at r), tl_heartbeat_at = Some (lr_heartbeat_at r),
      tl_worker_id = (if lr_worker_id r = Some '''' then None else lr_worker_id r),
      tl_fence = lr_fence r\<rparr>"

section \<open>The claim path\<close>

definition CLAIMABLE_STATUSES :: "task_state list" where
  "CLAIMABLE_STATUSES = [T_QUEUED, T_RETRY_SCHEDULED]"

definition retry_due :: "int \<Rightarrow> task_row \<Rightarrow> bool" where
  "retry_due now r = (case tr_retry_at r of None \<Rightarrow> True | Some t \<Rightarrow> iso_le t now)"

definition claim_matches :: "claim_request \<Rightarrow> task_row \<Rightarrow> bool" where
  "claim_matches q r =
     ((case tr_required_capability r of None \<Rightarrow> True | Some c \<Rightarrow> c \<in> set (cq_capabilities q)) \<and>
      (cq_relax_partitions q \<or>
       (case tr_partition r of None \<Rightarrow> True | Some p \<Rightarrow> p \<in> set (cq_partitions q))))"

definition first_matching_candidate :: "task_row list \<Rightarrow> claim_request \<Rightarrow> task_row option" where
  "first_matching_candidate candidates q = find (claim_matches q) candidates"

definition claimable :: "int \<Rightarrow> wf_state \<Rightarrow> task_row \<Rightarrow> bool" where
  "claimable now st r =
     (tr_kind r = EXECUTION \<and> tr_status r \<in> set CLAIMABLE_STATUSES \<and> \<not> tr_cancelled r \<and>
      retry_due now r \<and> (tr_run_id r, R_PAUSED) \<notin> set (wf_runs st))"

definition claim_candidates :: "int \<Rightarrow> wf_state \<Rightarrow> task_row list" where
  "claim_candidates now st =
     sort_key (iso_key \<circ> tr_created_at) (filter (claimable now st) (wf_tasks st))"

definition with_attempt :: "json \<Rightarrow> json \<Rightarrow> task_lease \<Rightarrow> json res" where
  "with_attempt task_json contract_json l =
     bind_res (decode_task (task_json, contract_json)) (\<lambda>(t, c).
     bind_res (task_post_init (t\<lparr>rt_attempt := tl_fence l, rt_lease_id := Some (tl_lease_id l)\<rparr>))
       (\<lambda>t'. Inr (fst (encode_task t' c))))"

definition persist_new_lease ::
    "task_lease \<Rightarrow> string \<Rightarrow> string \<Rightarrow> int \<Rightarrow> int \<Rightarrow> wf_state \<Rightarrow> wf_state res" where
  "persist_new_lease l run_id event_id occurred created st =
     (case (tl_expires_at l, tl_heartbeat_at l) of
        (Some expires, Some heartbeat) \<Rightarrow>
          (case task_of (tl_task_id l) st of
             None \<Rightarrow> Inl (TypeError ''NoneType'')
           | Some row \<Rightarrow>
               bind_res (with_attempt (tr_task_json row) (tr_contract_json row) l) (\<lambda>task_json.
               if lease_of (tl_task_id l) st \<noteq> None
               then Inl (IntegrityError ''UNIQUE constraint failed: leases.task_id'')
               else
                 (let st1 = st\<lparr>wf_leases := wf_leases st @
                        [\<lparr>lr_task_id = tl_task_id l, lr_lease_id = tl_lease_id l,
                          lr_agent_id = tl_agent_id l, lr_expires_at = expires,
                          lr_heartbeat_at = heartbeat, lr_worker_id = tl_worker_id l,
                          lr_fence = tl_fence l\<rparr>]\<rparr>;
                      st2 = upd_task (tl_task_id l)
                        (\<lambda>r. r\<lparr>tr_status := T_LEASED, tr_fence_seq := tl_fence l,
                               tr_attempt := tl_fence l, tr_retry_at := None,
                               tr_task_json := task_json\<rparr>) st1
                  in Inr (publish TASK_LEASED
                       (LeasedPayload (tl_task_id l) (tl_lease_id l) (tl_fence l))
                       run_id (tl_task_id l) event_id occurred created st2))))
      | _ \<Rightarrow> Inl AssertionError)"

end
