(* ===== verification/Workflow_Engine.thy ===== *)
theory Workflow_Engine
  imports Workflow_Store
begin

text \<open>
  The write path of the SQLite workflow engine: \<^verbatim>\<open>submit\<close>, \<^verbatim>\<open>acquire_lease\<close>, \<^verbatim>\<open>claim_next\<close>,
  \<^verbatim>\<open>heartbeat\<close>, \<^verbatim>\<open>renew_lease\<close>, \<^verbatim>\<open>complete\<close> and \<^verbatim>\<open>recover_expired_leases\<close> of \<^verbatim>\<open>workflow_ops.py\<close>,
  \<^verbatim>\<open>cancel\<close> and \<^verbatim>\<open>cancel_run\<close> (\<^verbatim>\<open>cancel_run.py\<close>), \<^verbatim>\<open>requeue\<close> (\<^verbatim>\<open>requeue.py\<close>), the events of a
  completion (\<^verbatim>\<open>completion.py\<close>). Every operation returns its result or the exception and the
  next state. \<open>clk i\<close> is the reading of the clock at the \<open>i\<close>-th place of the operation that
  reads it. Telemetry is left out. Dates interpolated into messages are left out of them.
\<close>

type_synonym 'a op = "wf_state \<Rightarrow> 'a res \<times> wf_state"

definition task_state_text :: "task_state \<Rightarrow> string" where
  "task_state_text s = enum_text task_state_names s"

definition action_text :: "failure_action \<Rightarrow> string" where
  "action_text a = (case a of FA_RETRY \<Rightarrow> ''RETRY'' | FA_DEAD_LETTER \<Rightarrow> ''DEAD_LETTER'' | FA_FAIL \<Rightarrow> ''FAIL'')"

section \<open>Submit\<close>

definition task_exists :: "research_task \<Rightarrow> wf_state \<Rightarrow> bool" where
  "task_exists t st = (task_of (rt_id t) st \<noteq> None)"

definition idempotency_exists :: "research_task \<Rightarrow> wf_state \<Rightarrow> bool" where
  "idempotency_exists t st =
     (case rt_idempotency_key t of
        None \<Rightarrow> False
      | Some k \<Rightarrow> row_of ir_operation_key k (wf_idem st) \<noteq> None)"

text \<open>The request digest is the SHA-256 of the canonical JSON, a parameter here.\<close>

definition submit ::
    "(json \<times> json \<Rightarrow> string) \<Rightarrow> research_task \<Rightarrow> task_contract \<Rightarrow> (nat \<Rightarrow> int) \<Rightarrow> unit op" where
  "submit request_digest t c clk st =
     (if ab_closed st then (Inl closed_error, st)
      else if task_exists t st \<or> idempotency_exists t st
      then (Inr (), log_result ''submit'' (rt_id t) ''deduped'' st)
      else if rt_idempotency_key t \<noteq> None \<and>
              rt_idempotency_key t \<in> tr_idempotency_key ` set (wf_tasks st)
      then (Inl (IntegrityError ''UNIQUE constraint failed: tasks.idempotency_key''), st)
      else
        (let row = \<lparr>tr_task_id = rt_id t, tr_run_id = rt_run_id t,
                    tr_idempotency_key = rt_idempotency_key t, tr_attempt = rt_attempt t,
                    tr_status = rt_status t, tr_assigned_agent_id = rt_assigned_agent_id t,
                    tr_task_json = fst (encode_task t c), tr_contract_json = snd (encode_task t c),
                    tr_cancelled = False, tr_created_at = clk 0, tr_kind = rt_kind t,
                    tr_partition = rt_partition t,
                    tr_required_capability = rt_required_capability t,
                    tr_fence_seq = 0, tr_retry_at = None\<rparr>;
             st1 = st\<lparr>wf_tasks := wf_tasks st @ [row]\<rparr>;
             st2 = (case rt_idempotency_key t of
                      None \<Rightarrow> st1
                    | Some k \<Rightarrow> st1\<lparr>wf_idem := wf_idem st1 @
                        [\<lparr>ir_operation_key = k, ir_task_id = rt_id t,
                          ir_request_digest = request_digest (encode_task t c),
                          ir_created_at = clk 1\<rparr>]\<rparr>)
         in (Inr (), log_ok ''submit'' (rt_id t) st2)))"

section \<open>Delivery\<close>

definition before_retry_deadline :: "task_row \<Rightarrow> int \<Rightarrow> bool" where
  "before_retry_deadline row now =
     (case tr_retry_at row of None \<Rightarrow> False | Some t \<Rightarrow> iso_less now t)"

definition acquire_lease :: "string \<Rightarrow> (nat \<Rightarrow> int) \<Rightarrow> (nat \<Rightarrow> string) \<Rightarrow> task_lease op" where
  "acquire_lease task_id clk uid st =
     (if ab_closed st then (Inl closed_error, st)
      else case task_of task_id st of
        None \<Rightarrow> (Inl (InvalidInputError (''unknown task: '' @ task_id)),
                 log_error ''acquire_lease'' task_id st)
      | Some row \<Rightarrow>
          if is_terminal (tr_status row) task_terminal
          then (Inl (InvalidInputError (''task '' @ task_id @ '' is terminal ('' @
                  task_state_text (tr_status row) @ ''); cannot acquire lease'')),
                log_error ''acquire_lease'' task_id st)
          else case lease_of task_id st of
            Some existing \<Rightarrow>
              (lease_from_row existing, log_result ''acquire_lease'' task_id ''deduped'' st)
          | None \<Rightarrow>
              if before_retry_deadline row (clk 0)
              then (Inl (RetryNotDueError (''task '' @ task_id @
                      '' is waiting for its retry backoff'')),
                    log_error ''acquire_lease'' task_id st)
              else case new_lease task_id (tr_assigned_agent_id row) (wf_lease_ttl st) (clk 1)
                          None (tr_fence_seq row + 1) (uid 0) of
                Inl e \<Rightarrow> (Inl e, st)
              | Inr l \<Rightarrow>
                  (case persist_new_lease l (tr_run_id row) (uid 1) (clk 2) (clk 3) st of
                     Inl e \<Rightarrow> (Inl e, st)
                   | Inr st' \<Rightarrow>
                       (Inr l, log_result ''acquire_lease'' task_id (tl_lease_id l) st')))"

definition claim_next :: "claim_request \<Rightarrow> (nat \<Rightarrow> int) \<Rightarrow> (nat \<Rightarrow> string) \<Rightarrow> task_lease option op" where
  "claim_next q clk uid st =
     (if ab_closed st then (Inl closed_error, st)
      else case first_matching_candidate (claim_candidates (clk 0) st) q of
        None \<Rightarrow> (Inr None, log_result ''claim_next'' (cq_worker_id q) ''none'' st)
      | Some chosen \<Rightarrow>
          (case new_lease (tr_task_id chosen) (tr_assigned_agent_id chosen) (wf_lease_ttl st)
                  (clk 1) (Some (cq_worker_id q)) (tr_fence_seq chosen + 1) (uid 0) of
             Inl e \<Rightarrow> (Inl e, st)
           | Inr l \<Rightarrow>
               (case task_of (tr_task_id chosen) st of
                  None \<Rightarrow> (Inr None, log_result ''claim_next'' (cq_worker_id q) ''contended'' st)
                | Some fresh \<Rightarrow>
                    if tr_status fresh \<notin> set CLAIMABLE_STATUSES
                    then (Inr None, log_result ''claim_next'' (cq_worker_id q) ''contended'' st)
                    else case persist_new_lease l (tr_run_id chosen) (uid 1) (clk 2) (clk 3) st of
                           Inl e \<Rightarrow> (Inl e, st)
                         | Inr st' \<Rightarrow>
                             (Inr (Some l),
                              log_result ''claim_next'' (cq_worker_id q)
                                (tr_task_id chosen @ ''@fence='' @
                                 str_int (tr_fence_seq chosen + 1)) st'))))"

section \<open>Keeping a lease\<close>

definition heartbeat :: "task_lease \<Rightarrow> (nat \<Rightarrow> int) \<Rightarrow> (nat \<Rightarrow> string) \<Rightarrow> task_lease op" where
  "heartbeat l clk uid st =
     (if ab_closed st then (Inl closed_error, st)
      else
        (let refused = (Inl (InvalidInputError (''no matching lease for task: '' @ tl_task_id l)),
                        log_error ''heartbeat'' (tl_task_id l) st)
         in case lease_of (tl_task_id l) st of
              None \<Rightarrow> refused
            | Some row \<Rightarrow>
                if lr_lease_id row \<noteq> tl_lease_id l then refused
                else case new_lease (tl_task_id l) (tl_agent_id l) (wf_lease_ttl st) (clk 0)
                            (tl_worker_id l) (tl_fence l) (uid 0) of
                       Inl e \<Rightarrow> (Inl e, st)
                     | Inr renewed \<Rightarrow>
                         (case (tl_expires_at renewed, tl_heartbeat_at renewed) of
                            (Some expires, Some beat) \<Rightarrow>
                              (Inr renewed,
                               log_ok ''heartbeat'' (tl_task_id l)
                                 (st\<lparr>wf_leases := upd_row lr_task_id (tl_task_id l)
                                   (\<lambda>r. r\<lparr>lr_lease_id := tl_lease_id renewed,
                                          lr_expires_at := expires, lr_heartbeat_at := beat,
                                          lr_worker_id := tl_worker_id renewed,
                                          lr_fence := tl_fence renewed\<rparr>) (wf_leases st)\<rparr>))
                          | _ \<Rightarrow> (Inl AssertionError, st))))"

definition lease_matches :: "string \<Rightarrow> string \<Rightarrow> int \<Rightarrow> string \<Rightarrow> lease_row \<Rightarrow> bool" where
  "lease_matches task_id lease_id fence worker_id r =
     (lr_task_id r = task_id \<and> lr_lease_id r = lease_id \<and> lr_fence r = fence \<and>
      lr_worker_id r = Some worker_id)"

definition renew_lease :: "string \<Rightarrow> string \<Rightarrow> int \<Rightarrow> string \<Rightarrow> (nat \<Rightarrow> int) \<Rightarrow> (nat \<Rightarrow> string) \<Rightarrow> unit op" where
  "renew_lease task_id lease_id fence worker_id clk uid st =
     (if ab_closed st then (Inl closed_error, st)
      else case new_lease task_id None (wf_lease_ttl st) (clk 0) (Some worker_id) fence (uid 0) of
             Inl e \<Rightarrow> (Inl e, st)
           | Inr probe \<Rightarrow>
               (case tl_expires_at probe of
                  None \<Rightarrow> (Inl AssertionError, st)
                | Some expires \<Rightarrow>
                    if list_ex (lease_matches task_id lease_id fence worker_id) (wf_leases st)
                    then (Inr (),
                          log_result ''renew_lease'' task_id ''extended''
                            (st\<lparr>wf_leases := map (\<lambda>r.
                               if lease_matches task_id lease_id fence worker_id r
                               then r\<lparr>lr_expires_at := expires, lr_heartbeat_at := expires\<rparr>
                               else r) (wf_leases st)\<rparr>))
                    else (Inl (InvalidInputError (''no active lease to renew for task: '' @ task_id)),
                          log_error ''renew_lease'' task_id st)))"

section \<open>Completion\<close>

definition COMPLETION_ALREADY_APPLIED :: "task_state list" where
  "COMPLETION_ALREADY_APPLIED = [T_SUCCEEDED, T_FAILED, T_DEAD_LETTER, T_RETRY_SCHEDULED]"

definition require_current_lease :: "task_lease \<Rightarrow> wf_state \<Rightarrow> unit res" where
  "require_current_lease l st =
     (case lease_of (tl_task_id l) st of
        None \<Rightarrow> Inl (InvalidInputError (''no matching lease for task: '' @ tl_task_id l))
      | Some row \<Rightarrow>
          if lr_lease_id row \<noteq> tl_lease_id l
          then Inl (InvalidInputError (''no matching lease for task: '' @ tl_task_id l))
          else if lr_fence row \<noteq> tl_fence l
          then Inl (InvalidInputError (''stale fence for task '' @ tl_task_id l @
                 '': lease generation superseded''))
          else Inr ())"

definition write_disposition ::
    "task_lease \<Rightarrow> failure_disposition \<Rightarrow> task_contract \<Rightarrow> int \<Rightarrow> int \<Rightarrow> wf_state \<Rightarrow>
     (int option \<times> wf_state) res" where
  "write_disposition l plan c attempt now st =
     bind_res (if fd_retrying plan then retry_delay c attempt else Inr 0) (\<lambda>delay.
     bind_res (if fd_retrying plan \<and> delay \<noteq> 0
               then bind_res (time_plus now delay) (\<lambda>t. Inr (Some t)) else Inr None) (\<lambda>retry_at.
     Inr (retry_at, upd_task (tl_task_id l)
                      (\<lambda>r. r\<lparr>tr_status := fd_status plan, tr_retry_at := retry_at\<rparr>) st)))"

record retry_notice =
  rn_next_attempt :: int
  rn_retry_at :: "int option"

definition publish_completion_outcome ::
    "failure_disposition \<Rightarrow> string \<Rightarrow> task_completion \<Rightarrow> retry_notice \<Rightarrow> string \<Rightarrow> int \<Rightarrow> int \<Rightarrow>
     wf_state \<Rightarrow> wf_state" where
  "publish_completion_outcome plan run_id cm retry event_id occurred created st =
     (if fd_retrying plan
      then publish TASK_RETRY_SCHEDULED
             (FailureRetryPayload (cm_task_id cm) (rn_next_attempt retry)
                (cm_failure_category cm) (rn_retry_at retry))
             run_id (cm_task_id cm) event_id occurred created st
      else publish TASK_COMPLETED
             (CompletedPayload (cm_task_id cm) (cm_outcome cm) (fd_action plan) (fd_status plan))
             run_id (cm_task_id cm) event_id occurred created st)"

definition complete :: "task_lease \<Rightarrow> task_completion \<Rightarrow> (nat \<Rightarrow> int) \<Rightarrow> (nat \<Rightarrow> string) \<Rightarrow> unit op" where
  "complete l cm clk uid st =
     (if ab_closed st then (Inl closed_error, st)
      else case task_of (tl_task_id l) st of
        None \<Rightarrow> (Inl (InvalidInputError (''unknown task: '' @ tl_task_id l)),
                 log_error ''complete'' (tl_task_id l) st)
      | Some row \<Rightarrow>
          if tr_status row \<in> set COMPLETION_ALREADY_APPLIED
          then (Inr (), log_result ''complete'' (tl_task_id l) ''deduped'' st)
          else case require_current_lease l st of
            Inl e \<Rightarrow> (Inl e, log_error ''complete'' (tl_task_id l) st)
          | Inr _ \<Rightarrow>
              (let attempt = (if tr_attempt row = 0 then 1 else tr_attempt row)
               in case decode_contract (tr_contract_json row) of
                    Inl e \<Rightarrow> (Inl e, st)
                  | Inr c \<Rightarrow>
                      (let plan = disposition c (cm_outcome cm) attempt (cm_failure_category cm)
                       in case write_disposition l plan c attempt (clk 0)
                                 (del_lease (tl_task_id l) st) of
                            Inl e \<Rightarrow> (Inl e, st)
                          | Inr (retry_at, st1) \<Rightarrow>
                              (Inr (),
                               log_result ''complete'' (tl_task_id l) (action_text (fd_action plan))
                                 (publish_completion_outcome plan (tr_run_id row) cm
                                    \<lparr>rn_next_attempt = attempt + 1, rn_retry_at = retry_at\<rparr>
                                    (uid 0) (clk 1) (clk 2) st1)))))"

section \<open>Cancellation\<close>

definition cancel_row :: "string \<Rightarrow> string \<Rightarrow> string \<Rightarrow> int \<Rightarrow> int \<Rightarrow> wf_state \<Rightarrow> wf_state" where
  "cancel_row task_id run_id event_id occurred created st =
     publish TASK_CANCELLED (CancelledPayload task_id) run_id task_id event_id occurred created
       (del_lease task_id
         (upd_task task_id (\<lambda>r. r\<lparr>tr_cancelled := True, tr_status := T_CANCELLED\<rparr>) st))"

definition cancel_task ::
    "string \<Rightarrow> (nat \<Rightarrow> int) \<Rightarrow> (nat \<Rightarrow> string) \<Rightarrow> wf_state \<Rightarrow> string option \<times> wf_state" where
  "cancel_task task_id clk uid st =
     (case task_of task_id st of
        None \<Rightarrow> (None, st)
      | Some row \<Rightarrow>
          if tr_cancelled row then (Some ''deduped'', st)
          else if is_terminal (tr_status row) task_terminal then (Some ''terminal_noop'', st)
          else (None, cancel_row task_id (tr_run_id row) (uid 0) (clk 0) (clk 1) st))"

definition cancel :: "string \<Rightarrow> (nat \<Rightarrow> int) \<Rightarrow> (nat \<Rightarrow> string) \<Rightarrow> unit op" where
  "cancel task_id clk uid st =
     (if ab_closed st then (Inl closed_error, st)
      else case cancel_task task_id clk uid st of
             (outcome, st') \<Rightarrow> (Inr (), log_call ''cancel'' task_id outcome None st'))"

fun cancel_rows ::
    "task_row list \<Rightarrow> string \<Rightarrow> nat \<Rightarrow> (nat \<Rightarrow> int) \<Rightarrow> (nat \<Rightarrow> string) \<Rightarrow> wf_state \<Rightarrow> nat \<times> wf_state" where
  "cancel_rows [] run_id i clk uid st = (i, st)"
| "cancel_rows (row # rows) run_id i clk uid st =
     (if tr_cancelled row \<or> is_terminal (tr_status row) task_terminal
      then cancel_rows rows run_id i clk uid st
      else cancel_rows rows run_id (Suc i) clk uid
             (cancel_row (tr_task_id row) run_id (uid i) (clk (2 * i)) (clk (2 * i + 1)) st))"

definition cancel_run_tasks ::
    "string \<Rightarrow> (nat \<Rightarrow> int) \<Rightarrow> (nat \<Rightarrow> string) \<Rightarrow> wf_state \<Rightarrow> nat \<times> wf_state" where
  "cancel_run_tasks run_id clk uid st =
     cancel_rows (filter (\<lambda>r. tr_run_id r = run_id) (wf_tasks st)) run_id 0 clk uid st"

definition cancel_run :: "string \<Rightarrow> (nat \<Rightarrow> int) \<Rightarrow> (nat \<Rightarrow> string) \<Rightarrow> nat op" where
  "cancel_run run_id clk uid st =
     (if ab_closed st then (Inl closed_error, st)
      else case cancel_run_tasks run_id clk uid st of
             (n, st') \<Rightarrow>
               (Inr n, log_result ''cancel_run'' run_id (str_int (int n) @ '' cancelled'') st'))"

section \<open>Recovery\<close>

definition lost_workers :: "wf_state \<Rightarrow> string set" where
  "lost_workers st = wr_worker_id ` {w \<in> set (wf_workers st). wr_state w = W_LOST}"

definition held_by_lost :: "wf_state \<Rightarrow> lease_row \<Rightarrow> bool" where
  "held_by_lost st r = (case lr_worker_id r of None \<Rightarrow> False | Some w \<Rightarrow> w \<in> lost_workers st)"

definition recoverable :: "int \<Rightarrow> wf_state \<Rightarrow> lease_row \<Rightarrow> bool" where
  "recoverable now st r = (iso_less (lr_expires_at r) now \<or> held_by_lost st r)"

definition recover_one :: "string \<Rightarrow> string \<Rightarrow> string \<Rightarrow> int \<Rightarrow> int \<Rightarrow> wf_state \<Rightarrow> wf_state" where
  "recover_one task_id run_id event_id occurred created st =
     publish TASK_RETRY_SCHEDULED (LeaseExpiredPayload task_id) run_id task_id
       event_id occurred created
       (upd_task task_id (\<lambda>r. r\<lparr>tr_status := T_QUEUED\<rparr>) (del_lease task_id st))"

fun recover_rows ::
    "lease_row list \<Rightarrow> nat \<Rightarrow> (nat \<Rightarrow> int) \<Rightarrow> (nat \<Rightarrow> string) \<Rightarrow> wf_state \<Rightarrow> nat res \<times> wf_state" where
  "recover_rows [] i clk uid st = (Inr i, st)"
| "recover_rows (r # rs) i clk uid st =
     (case task_of (lr_task_id r) st of
        None \<Rightarrow> (Inl (TypeError ''NoneType''), st)
      | Some row \<Rightarrow>
          recover_rows rs (Suc i) clk uid
            (recover_one (lr_task_id r) (tr_run_id row) (uid i) (clk (2 * i + 1)) (clk (2 * i + 2)) st))"

definition recover_expired_leases :: "(nat \<Rightarrow> int) \<Rightarrow> (nat \<Rightarrow> string) \<Rightarrow> nat op" where
  "recover_expired_leases clk uid st =
     (if ab_closed st then (Inl closed_error, st)
      else case recover_rows (filter (recoverable (clk 0) st) (wf_leases st)) 0 clk uid st of
             (Inl e, st') \<Rightarrow> (Inl e, st')
           | (Inr n, st') \<Rightarrow>
               (Inr n, log_ok ''recover_expired_leases'' (str_int (int n) @ '' recovered'') st'))"

section \<open>Manual requeue\<close>

definition queued_task_json :: "json \<Rightarrow> json \<Rightarrow> json res" where
  "queued_task_json task_json contract_json =
     bind_res (decode_task (task_json, contract_json)) (\<lambda>(t, c).
     bind_res (task_post_init (t\<lparr>rt_status := T_QUEUED\<rparr>)) (\<lambda>t'. Inr (fst (encode_task t' c))))"

definition requeue_task ::
    "string \<Rightarrow> (nat \<Rightarrow> int) \<Rightarrow> (nat \<Rightarrow> string) \<Rightarrow> wf_state \<Rightarrow> string res \<times> wf_state" where
  "requeue_task task_id clk uid st =
     (case task_of task_id st of
        None \<Rightarrow> (Inl (InvalidInputError (''unknown task: '' @ task_id)), st)
      | Some row \<Rightarrow>
          (case task_transition (tr_status row) TE_REQUEUE of
             Inl _ \<Rightarrow> (Inl (InvalidInputError (''task '' @ task_id @ '' is in state '' @
                        task_state_text (tr_status row) @ ''; only DEAD_LETTER can be requeued'')), st)
           | Inr target \<Rightarrow>
               (case queued_task_json (tr_task_json row) (tr_contract_json row) of
                  Inl e \<Rightarrow> (Inl e, st)
                | Inr task_json \<Rightarrow>
                    (Inr ''restored'',
                     publish TASK_RETRY_SCHEDULED (ManualRequeuePayload task_id (tr_status row))
                       (tr_run_id row) task_id (uid 0) (clk 0) (clk 1)
                       (del_lease task_id
                         (upd_task task_id
                           (\<lambda>r. r\<lparr>tr_status := target, tr_retry_at := None,
                                  tr_task_json := task_json\<rparr>) st))))))"

definition requeue :: "string \<Rightarrow> (nat \<Rightarrow> int) \<Rightarrow> (nat \<Rightarrow> string) \<Rightarrow> string op" where
  "requeue task_id clk uid st =
     (if ab_closed st then (Inl closed_error, st)
      else case requeue_task task_id clk uid st of
             (Inl (InvalidInputError m), st') \<Rightarrow>
               (Inl (InvalidInputError m), log_error ''requeue'' task_id st')
           | (Inl e, st') \<Rightarrow> (Inl e, st')
           | (Inr outcome, st') \<Rightarrow> (Inr outcome, log_result ''requeue'' task_id outcome st'))"

section \<open>Outbox delivery marks\<close>

text \<open>\<^verbatim>\<open>mark_outbox_published\<close> (\<^verbatim>\<open>projections.py\<close>): one update per event id, each with its own time.\<close>

fun mark_rows :: "string list \<Rightarrow> nat \<Rightarrow> (nat \<Rightarrow> int) \<Rightarrow> outbox_event list \<Rightarrow> outbox_event list" where
  "mark_rows [] i clk rows = rows"
| "mark_rows (eid # eids) i clk rows =
     mark_rows eids (Suc i) clk
       (upd_row oe_event_id eid (\<lambda>e. e\<lparr>oe_published_at := Some (clk i)\<rparr>) rows)"

definition mark_outbox_published :: "string list \<Rightarrow> (nat \<Rightarrow> int) \<Rightarrow> wf_state \<Rightarrow> wf_state" where
  "mark_outbox_published event_ids clk st =
     (if event_ids = [] then st
      else st\<lparr>wf_outbox := mark_rows event_ids 0 clk (wf_outbox st)\<rparr>)"

end
