(* ===== verification/Workflow_Invariants.thy ===== *)
theory Workflow_Invariants
  imports Workflow_Engine
begin

text \<open>
  The invariant of the workflow store and what every operation does to the tables. \<open>rows_inv\<close>
  ties task rows to lease rows (a task is \<open>LEASED\<close> exactly while a lease row exists, of its
  current fence generation), \<open>issued_inv\<close> ties the lease values handed out to the lease rows,
  \<open>events_inv\<close> the outbox to the task rows, \<open>idem_inv\<close> the idempotency records to the tasks.
  Two state changes carry all proofs: \<open>deliver\<close> starts a lease, \<open>settle\<close> ends one; the
  \<open>_effect\<close> lemmas show that every operation leaves the tables alone or is one of them.
\<close>

section \<open>Lookups after updates\<close>

lemma log_fields [simp]:
  "wf_tasks (log_call m a r e st) = wf_tasks st" "wf_leases (log_call m a r e st) = wf_leases st"
  "wf_idem (log_call m a r e st) = wf_idem st" "wf_outbox (log_call m a r e st) = wf_outbox st"
  "wf_runs (log_call m a r e st) = wf_runs st" "wf_workers (log_call m a r e st) = wf_workers st"
  "wf_lease_ttl (log_call m a r e st) = wf_lease_ttl st" "ab_closed (log_call m a r e st) = ab_closed st"
  by (simp_all add: log_call_def)

definition db :: "wf_state \<Rightarrow> task_row list \<times> lease_row list \<times> idem_row list \<times> outbox_event list" where
  "db st = (wf_tasks st, wf_leases st, wf_idem st, wf_outbox st)"

lemma db_log [simp]:
  "db (log_call m a r e st) = db st" "db (log_ok m a st) = db st"
  "db (log_result m a x st) = db st" "db (log_error m a st) = db st"
  by (simp_all add: db_def log_defs)

lemma task_of_db: "db st = db st' \<Longrightarrow> task_of tid st = task_of tid st'"
  by (simp add: db_def task_of_def)

lemma lease_of_db: "db st = db st' \<Longrightarrow> lease_of tid st = lease_of tid st'"
  by (simp add: db_def lease_of_def)

lemma store_simps [simp]:
  "wf_tasks (del_lease t st) = wf_tasks st" "wf_idem (del_lease t st) = wf_idem st"
  "wf_outbox (del_lease t st) = wf_outbox st"
  "wf_leases (upd_task t f st) = wf_leases st" "wf_idem (upd_task t f st) = wf_idem st"
  "wf_outbox (upd_task t f st) = wf_outbox st"
  "wf_tasks (upd_task t f st) = upd_row tr_task_id t f (wf_tasks st)"
  "wf_leases (del_lease t st) = del_row lr_task_id t (wf_leases st)"
  "wf_tasks (publish ty p r t' e o' c st) = wf_tasks st"
  "wf_leases (publish ty p r t' e o' c st) = wf_leases st"
  "wf_idem (publish ty p r t' e o' c st) = wf_idem st"
  by (simp_all add: del_lease_def upd_task_def publish_def)

lemma task_of_simps [simp]:
  "task_of x (del_lease t st) = task_of x st"
  "task_of x (publish ty p r t' e o' c st) = task_of x st"
  "task_of x (log_call m a res err st) = task_of x st"
  by (simp_all add: task_of_def)

lemma lease_of_simps [simp]:
  "lease_of x (upd_task t f st) = lease_of x st"
  "lease_of x (publish ty p r t' e o' c st) = lease_of x st"
  "lease_of x (log_call m a res err st) = lease_of x st"
  "lease_of x (del_lease t st) = (if x = t then None else lease_of x st)"
  by (simp_all add: lease_of_def row_of_del_row)

lemma task_of_upd_task:
  assumes "\<And>r. tr_task_id (f r) = tr_task_id r"
  shows "task_of x (upd_task t f st) = (if x = t then map_option f (task_of x st) else task_of x st)"
  using assms by (simp add: task_of_def upd_task_def row_of_upd_row)

lemma task_of_key: "task_of tid st = Some r \<Longrightarrow> tr_task_id r = tid"
  by (auto simp: task_of_def dest: row_of_SomeD)

lemma lease_of_key: "lease_of tid st = Some l \<Longrightarrow> lr_task_id l = tid"
  by (auto simp: lease_of_def dest: row_of_SomeD)

lemma task_of_in: "distinct (map tr_task_id (wf_tasks st)) \<Longrightarrow> r \<in> set (wf_tasks st) \<longleftrightarrow> task_of (tr_task_id r) st = Some r"
  by (auto simp: task_of_def row_of_distinct dest: row_of_SomeD)

lemma lease_of_in: "distinct (map lr_task_id (wf_leases st)) \<Longrightarrow> r \<in> set (wf_leases st) \<longleftrightarrow> lease_of (lr_task_id r) st = Some r"
  by (auto simp: lease_of_def row_of_distinct dest: row_of_SomeD)

section \<open>The row invariant\<close>

definition engine_statuses :: "task_state list" where
  "engine_statuses = [T_CREATED, T_QUEUED, T_LEASED, T_RETRY_SCHEDULED,
     T_SUCCEEDED, T_FAILED, T_DEAD_LETTER, T_CANCELLED]"

definition stored_ok :: "task_row \<Rightarrow> bool" where
  "stored_ok r = (\<exists>t c. tr_task_json r = encode_research_task t \<and> valid_task t \<and>
     tr_contract_json r = encode_contract c \<and> valid_contract c)"

definition row_ok :: "lease_row option \<Rightarrow> task_row \<Rightarrow> bool" where
  "row_ok lo r =
     ((lo \<noteq> None) = (tr_status r = T_LEASED) \<and>
      (\<forall>l. lo = Some l \<longrightarrow> lr_fence l = tr_fence_seq r) \<and>
      tr_cancelled r = (tr_status r = T_CANCELLED) \<and>
      tr_status r \<in> set engine_statuses \<and>
      0 \<le> tr_fence_seq r \<and>
      (0 < tr_fence_seq r \<longrightarrow> tr_attempt r = tr_fence_seq r) \<and>
      (tr_fence_seq r = 0 \<longrightarrow> tr_status r \<in> {T_CREATED, T_QUEUED, T_CANCELLED} \<and> tr_attempt r = 1) \<and>
      (tr_retry_at r \<noteq> None \<longrightarrow> tr_status r \<in> {T_RETRY_SCHEDULED, T_CANCELLED}) \<and>
      tr_task_id r \<noteq> '''' \<and> stored_ok r)"

definition rows_inv :: "wf_state \<Rightarrow> bool" where
  "rows_inv st =
     (distinct (map tr_task_id (wf_tasks st)) \<and> distinct (map lr_task_id (wf_leases st)) \<and>
      (\<forall>tid. lease_of tid st \<noteq> None \<longrightarrow> task_of tid st \<noteq> None) \<and>
      (\<forall>tid r. task_of tid st = Some r \<longrightarrow> row_ok (lease_of tid st) r))"

lemma rows_inv_db: "db st = db st' \<Longrightarrow> rows_inv st \<Longrightarrow> rows_inv st'"
  by (simp add: rows_inv_def task_of_db [of st st'] lease_of_db [of st st'] db_def)

lemma rows_invD:
  assumes "rows_inv st" and "task_of tid st = Some r"
  shows "row_ok (lease_of tid st) r" "(lease_of tid st \<noteq> None) = (tr_status r = T_LEASED)"
    "tr_cancelled r = (tr_status r = T_CANCELLED)" "tr_status r \<in> set engine_statuses"
    "0 \<le> tr_fence_seq r" "stored_ok r"
    "lease_of tid st = Some l \<Longrightarrow> lr_fence l = tr_fence_seq r"
  using assms by (auto simp: rows_inv_def row_ok_def)

text \<open>A change that ends a lease: the lease row goes, the task row changes, one event is written.\<close>

definition settle ::
    "string \<Rightarrow> (task_row \<Rightarrow> task_row) \<Rightarrow> event_type \<Rightarrow> event_payload \<Rightarrow> string \<Rightarrow> string \<Rightarrow> int \<Rightarrow> int \<Rightarrow>
     wf_state \<Rightarrow> wf_state" where
  "settle tid g ty p run eid oc cr st = publish ty p run tid eid oc cr (del_lease tid (upd_task tid g st))"

lemma del_upd_commute: "upd_task t f (del_lease t' st) = del_lease t' (upd_task t f st)"
  by (simp add: upd_task_def del_lease_def)

lemma task_of_settle:
  assumes "\<And>r. tr_task_id (g r) = tr_task_id r"
  shows "task_of x (settle tid g ty p run eid oc cr st) =
     (if x = tid then map_option g (task_of x st) else task_of x st)"
  using assms by (simp add: settle_def task_of_upd_task)

lemma lease_of_settle [simp]:
  "lease_of x (settle tid g ty p run eid oc cr st) = (if x = tid then None else lease_of x st)"
  by (simp add: settle_def)

lemma rows_inv_settle:
  assumes inv: "rows_inv st" and row: "task_of tid st = Some row"
    and key: "\<And>r. tr_task_id (g r) = tr_task_id r"
    and ok: "row_ok None (g row)"
  shows "rows_inv (settle tid g ty p run eid oc cr st)"
proof -
  have keys: "map tr_task_id (upd_row tr_task_id tid g (wf_tasks st)) = map tr_task_id (wf_tasks st)"
    using key by (rule keys_upd_row)
  have "map tr_task_id (wf_tasks (settle tid g ty p run eid oc cr st)) = map tr_task_id (wf_tasks st)"
    "map lr_task_id (wf_leases (settle tid g ty p run eid oc cr st)) =
       filter (\<lambda>x. x \<noteq> tid) (map lr_task_id (wf_leases st))"
    by (simp_all add: settle_def keys keys_del_row)
  with inv row ok show ?thesis
    by (simp only: rows_inv_def task_of_settle [OF key] lease_of_settle) (auto split: if_splits)
qed

section \<open>Leases handed out\<close>

text \<open>
  \<open>issued\<close> collects every lease value an operation has returned so far. The invariant ties
  the lease rows to them: a lease value with the identifier of a row is of the task and the
  fence generation of that row.
\<close>

definition issued_inv :: "task_lease list \<Rightarrow> wf_state \<Rightarrow> bool" where
  "issued_inv issued st =
     ((\<forall>tid l. lease_of tid st = Some l \<longrightarrow>
         lr_lease_id l \<in> tl_lease_id ` set issued \<and>
         (\<forall>i\<in>set issued. tl_lease_id i = lr_lease_id l \<longrightarrow> tl_task_id i = tid \<and> tl_fence i = lr_fence l)) \<and>
      (\<forall>i\<in>set issued. \<exists>r. task_of (tl_task_id i) st = Some r \<and> 1 \<le> tl_fence i \<and> tl_fence i \<le> tr_fence_seq r))"

lemma issued_inv_db: "db st = db st' \<Longrightarrow> issued_inv issued st \<Longrightarrow> issued_inv issued st'"
  by (simp add: issued_inv_def task_of_db [of st st'] lease_of_db [of st st'])

lemma issued_inv_settle:
  assumes inv: "issued_inv issued st"
    and key: "\<And>r. tr_task_id (g r) = tr_task_id r" "\<And>r. tr_fence_seq (g r) = tr_fence_seq r"
  shows "issued_inv issued (settle tid g ty p run eid oc cr st)"
  unfolding issued_inv_def
proof (intro conjI allI impI ballI)
  fix i assume "i \<in> set issued"
  with inv obtain r where "task_of (tl_task_id i) st = Some r" "1 \<le> tl_fence i" "tl_fence i \<le> tr_fence_seq r"
    by (auto simp: issued_inv_def)
  then show "\<exists>r. task_of (tl_task_id i) (settle tid g ty p run eid oc cr st) = Some r \<and>
      1 \<le> tl_fence i \<and> tl_fence i \<le> tr_fence_seq r"
    by (auto simp: task_of_settle key)
qed (use inv in \<open>auto simp: issued_inv_def split: if_splits\<close>)

section \<open>Events\<close>

fun leased_event :: "string \<Rightarrow> event_payload \<Rightarrow> bool" where
  "leased_event tid (LeasedPayload t _ _) = (t = tid)"
| "leased_event tid _ = False"

fun retry_attempt :: "string \<Rightarrow> event_payload \<Rightarrow> int list" where
  "retry_attempt tid (FailureRetryPayload t a _ _) = (if t = tid then [a] else [])"
| "retry_attempt tid _ = []"

definition deliveries_of :: "string \<Rightarrow> wf_state \<Rightarrow> nat" where
  "deliveries_of tid st = length (filter (leased_event tid \<circ> oe_payload) (wf_outbox st))"

definition retries_of :: "string \<Rightarrow> wf_state \<Rightarrow> int list" where
  "retries_of tid st = concat (map (retry_attempt tid \<circ> oe_payload) (wf_outbox st))"

definition max_attempts_of :: "task_row \<Rightarrow> int" where
  "max_attempts_of r =
     (case decode_contract (tr_contract_json r) of
        Inl _ \<Rightarrow> 0
      | Inr c \<Rightarrow> (case tc_retry_policy c of None \<Rightarrow> 0 | Some p \<Rightarrow> max_attempts p))"

definition row_events_ok :: "nat \<Rightarrow> int list \<Rightarrow> task_row \<Rightarrow> bool" where
  "row_events_ok n retries r =
     (int n = tr_fence_seq r \<and> distinct retries \<and>
      (\<forall>a\<in>set retries. 2 \<le> a \<and> a \<le> max_attempts_of r \<and> a \<le> tr_fence_seq r + 1 \<and>
         (tr_status r = T_LEASED \<longrightarrow> a \<le> tr_fence_seq r)))"

fun events_ok :: "task_row option \<Rightarrow> nat \<Rightarrow> int list \<Rightarrow> bool" where
  "events_ok None n retries = (n = 0 \<and> retries = [])"
| "events_ok (Some r) n retries = row_events_ok n retries r"

definition events_inv :: "wf_state \<Rightarrow> bool" where
  "events_inv st = (\<forall>tid. events_ok (task_of tid st) (deliveries_of tid st) (retries_of tid st))"

lemma events_of_db:
  "db st = db st' \<Longrightarrow> deliveries_of tid st = deliveries_of tid st'"
  "db st = db st' \<Longrightarrow> retries_of tid st = retries_of tid st'"
  by (simp_all add: db_def deliveries_of_def retries_of_def)

lemma events_inv_db: "db st = db st' \<Longrightarrow> events_inv st \<Longrightarrow> events_inv st'"
  by (simp add: events_inv_def task_of_db [of st st'] events_of_db [of st st'])

definition new_event :: "string \<Rightarrow> wf_state \<Rightarrow> bool" where
  "new_event eid st = (eid \<notin> oe_event_id ` set (wf_outbox st))"

lemma events_publish:
  assumes "new_event eid st"
  shows "deliveries_of tid (publish ty p run t eid oc cr st) =
           deliveries_of tid st + (if leased_event tid p then 1 else 0)"
    and "retries_of tid (publish ty p run t eid oc cr st) = retries_of tid st @ retry_attempt tid p"
  using assms
  by (simp_all add: publish_def new_event_def row_of_None_iff deliveries_of_def retries_of_def)

lemma events_unchanged [simp]:
  "deliveries_of tid (upd_task t f st) = deliveries_of tid st"
  "deliveries_of tid (del_lease t st) = deliveries_of tid st"
  "retries_of tid (upd_task t f st) = retries_of tid st"
  "retries_of tid (del_lease t st) = retries_of tid st"
  "new_event e (upd_task t f st) = new_event e st"
  "new_event e (del_lease t st) = new_event e st"
  by (simp_all add: deliveries_of_def retries_of_def new_event_def)

lemma events_inv_settle:
  assumes inv: "events_inv st" and row: "task_of tid st = Some row" and new: "new_event eid st"
    and key: "\<And>r. tr_task_id (g r) = tr_task_id r" "\<And>r. tr_fence_seq (g r) = tr_fence_seq r"
      "\<And>r. tr_contract_json (g r) = tr_contract_json r"
    and status: "tr_status (g row) \<noteq> T_LEASED"
    and payload: "\<And>x. \<not> leased_event x p"
      "(\<forall>x. retry_attempt x p = []) \<or>
       (\<exists>cat ra. p = FailureRetryPayload tid (tr_fence_seq row + 1) cat ra \<and> 1 \<le> tr_fence_seq row \<and>
          tr_fence_seq row + 1 \<le> max_attempts_of row \<and> tr_status row = T_LEASED)"
  shows "events_inv (settle tid g ty p run eid oc cr st)"
proof -
  have max: "max_attempts_of (g row) = max_attempts_of row"
    by (simp add: max_attempts_of_def key)
  have old: "row_events_ok (deliveries_of tid st) (retries_of tid st) row"
    using inv row unfolding events_inv_def by (metis events_ok.simps(2))
  have count: "deliveries_of x (settle tid g ty p run eid oc cr st) = deliveries_of x st"
    and retries: "retries_of x (settle tid g ty p run eid oc cr st) = retries_of x st @ retry_attempt x p" for x
    using new payload(1) by (simp_all add: settle_def events_publish)
  have here: "row_events_ok (deliveries_of tid st) (retries_of tid st @ retry_attempt tid p) (g row)"
    using payload(2)
  proof
    assume "\<forall>x. retry_attempt x p = []"
    with old status show ?thesis by (auto simp: row_events_ok_def key max)
  next
    assume "\<exists>cat ra. p = FailureRetryPayload tid (tr_fence_seq row + 1) cat ra \<and> 1 \<le> tr_fence_seq row \<and>
          tr_fence_seq row + 1 \<le> max_attempts_of row \<and> tr_status row = T_LEASED"
    with old status show ?thesis by (auto simp: row_events_ok_def key max)
  qed
  have other: "retry_attempt x p = []" if "x \<noteq> tid" for x
    using payload(2) that by auto
  show ?thesis
    unfolding events_inv_def
  proof
    fix x
    show "events_ok (task_of x (settle tid g ty p run eid oc cr st))
        (deliveries_of x (settle tid g ty p run eid oc cr st))
        (retries_of x (settle tid g ty p run eid oc cr st))"
      using inv row here other [of x]
      by (cases "x = tid") (simp_all add: task_of_settle key count retries events_inv_def)
  qed
qed

section \<open>Delivery\<close>

definition deliver ::
    "task_lease \<Rightarrow> int \<Rightarrow> int \<Rightarrow> json \<Rightarrow> string \<Rightarrow> string \<Rightarrow> int \<Rightarrow> int \<Rightarrow> wf_state \<Rightarrow> wf_state" where
  "deliver l expires beat tj run eid oc cr st =
     publish TASK_LEASED (LeasedPayload (tl_task_id l) (tl_lease_id l) (tl_fence l)) run (tl_task_id l) eid oc cr
       (upd_task (tl_task_id l)
         (\<lambda>r. r\<lparr>tr_status := T_LEASED, tr_fence_seq := tl_fence l, tr_attempt := tl_fence l,
                tr_retry_at := None, tr_task_json := tj\<rparr>)
         (st\<lparr>wf_leases := wf_leases st @
            [\<lparr>lr_task_id = tl_task_id l, lr_lease_id = tl_lease_id l, lr_agent_id = tl_agent_id l,
              lr_expires_at = expires, lr_heartbeat_at = beat, lr_worker_id = tl_worker_id l,
              lr_fence = tl_fence l\<rparr>]\<rparr>))"

lemma persist_new_lease_Inr:
  assumes "persist_new_lease l run eid oc cr st = Inr st'"
  obtains expires beat row tj where
    "tl_expires_at l = Some expires" "tl_heartbeat_at l = Some beat"
    "task_of (tl_task_id l) st = Some row" "lease_of (tl_task_id l) st = None"
    "with_attempt (tr_task_json row) (tr_contract_json row) l = Inr tj"
    "st' = deliver l expires beat tj run eid oc cr st"
  using assms
  by (auto simp: persist_new_lease_def deliver_def bind_res_Inr_iff Let_def split: option.splits if_splits)

lemma task_post_init_InrD: "task_post_init t = Inr t' \<Longrightarrow> t' = t"
  unfolding task_post_init_def first_error_Inr_iff by simp

lemma lease_post_init_InrD: "lease_post_init l = Inr l' \<Longrightarrow> l' = l \<and> tl_task_id l \<noteq> ''''"
  unfolding lease_post_init_def first_error_Inr_iff by simp

lemma with_attempt_stored:
  assumes "stored_ok row" and "with_attempt (tr_task_json row) (tr_contract_json row) l = Inr tj"
  shows "\<exists>t. tj = encode_research_task t \<and> valid_task t"
proof -
  from assms(1) obtain t c where t: "tr_task_json row = encode_research_task t" "valid_task t"
    and c: "tr_contract_json row = encode_contract c" "valid_contract c"
    by (auto simp: stored_ok_def)
  let ?t = "t\<lparr>rt_attempt := tl_fence l, rt_lease_id := Some (tl_lease_id l)\<rparr>"
  have "\<exists>t'. task_post_init ?t = Inr t' \<and> tj = encode_research_task t'"
    using assms(2) t c
    by (auto simp: with_attempt_def decode_task_def decode_research_task_encode decode_contract_encode
        bind_res_Inr_iff encode_task_def)
  then have "is_ok (task_post_init ?t)" and tj: "tj = encode_research_task ?t"
    by (auto dest: task_post_init_InrD)
  then have "valid_task ?t" using t(2) by (auto simp: valid_task_def)
  with tj show ?thesis by blast
qed

lemma task_of_deliver:
  "task_of x (deliver l ex be tj run eid oc cr st) =
     (if x = tl_task_id l
      then map_option (\<lambda>r. r\<lparr>tr_status := T_LEASED, tr_fence_seq := tl_fence l, tr_attempt := tl_fence l,
             tr_retry_at := None, tr_task_json := tj\<rparr>) (task_of x st)
      else task_of x st)"
  by (simp add: deliver_def task_of_upd_task) (simp add: task_of_def)

lemma lease_of_deliver:
  assumes "lease_of (tl_task_id l) st = None"
  shows "lease_of x (deliver l ex be tj run eid oc cr st) =
     (if x = tl_task_id l
      then Some \<lparr>lr_task_id = tl_task_id l, lr_lease_id = tl_lease_id l, lr_agent_id = tl_agent_id l,
              lr_expires_at = ex, lr_heartbeat_at = be, lr_worker_id = tl_worker_id l, lr_fence = tl_fence l\<rparr>
      else lease_of x st)"
  using assms
  by (simp add: deliver_def) (auto simp: lease_of_def row_of_append row_of_Cons split: option.splits)

lemma rows_inv_deliver:
  assumes inv: "rows_inv st" and row: "task_of (tl_task_id l) st = Some row"
    and free: "lease_of (tl_task_id l) st = None" and fence: "tl_fence l = tr_fence_seq row + 1"
    and json: "with_attempt (tr_task_json row) (tr_contract_json row) l = Inr tj"
    and live: "tr_status row \<noteq> T_CANCELLED"
  shows "rows_inv (deliver l ex be tj run eid oc cr st)"
proof -
  let ?f = "\<lambda>r. r\<lparr>tr_status := T_LEASED, tr_fence_seq := tl_fence l, tr_attempt := tl_fence l,
                tr_retry_at := None, tr_task_json := tj\<rparr>"
  have "map tr_task_id (wf_tasks (deliver l ex be tj run eid oc cr st)) = map tr_task_id (wf_tasks st)"
    by (simp add: deliver_def keys_upd_row)
  moreover have "map lr_task_id (wf_leases (deliver l ex be tj run eid oc cr st)) =
      map lr_task_id (wf_leases st) @ [tl_task_id l]"
    by (simp add: deliver_def)
  moreover have "tl_task_id l \<notin> lr_task_id ` set (wf_leases st)"
    using free by (simp add: lease_of_def row_of_None_iff)
  moreover have "row_ok (Some \<lparr>lr_task_id = tl_task_id l, lr_lease_id = tl_lease_id l,
      lr_agent_id = tl_agent_id l, lr_expires_at = ex, lr_heartbeat_at = be, lr_worker_id = tl_worker_id l,
      lr_fence = tl_fence l\<rparr>) (?f row)"
    using rows_invD [OF inv row] with_attempt_stored [OF _ json] fence live
    by (auto simp: row_ok_def engine_statuses_def stored_ok_def)
  ultimately show ?thesis
    using inv row
    by (simp only: rows_inv_def task_of_deliver lease_of_deliver [OF free]) (auto split: if_splits)
qed

lemma issued_inv_deliver:
  assumes inv: "issued_inv issued st" and row: "task_of (tl_task_id l) st = Some row"
    and free: "lease_of (tl_task_id l) st = None" and fence: "tl_fence l = tr_fence_seq row + 1"
    and nonneg: "0 \<le> tr_fence_seq row" and new: "tl_lease_id l \<notin> tl_lease_id ` set issued"
  shows "issued_inv (l # issued) (deliver l ex be tj run eid oc cr st)"
  unfolding issued_inv_def
proof (intro conjI allI impI ballI)
  let ?st = "deliver l ex be tj run eid oc cr st"
  fix i assume "i \<in> set (l # issued)"
  then show "\<exists>r. task_of (tl_task_id i) ?st = Some r \<and> 1 \<le> tl_fence i \<and> tl_fence i \<le> tr_fence_seq r"
    using inv row fence nonneg by (fastforce simp: issued_inv_def task_of_deliver)
next
  fix tid m assume m: "lease_of tid (deliver l ex be tj run eid oc cr st) = Some m"
  show "lr_lease_id m \<in> tl_lease_id ` set (l # issued)"
    using m inv by (auto simp: lease_of_deliver [OF free] issued_inv_def split: if_splits)
  fix i assume i: "i \<in> set (l # issued)" "tl_lease_id i = lr_lease_id m"
  have "tl_task_id i = tid \<and> tl_fence i = lr_fence m"
  proof (cases "tid = tl_task_id l")
    case True
    with m i new have "i = l" by (auto simp: lease_of_deliver [OF free] image_iff)
    with True m show ?thesis by (auto simp: lease_of_deliver [OF free])
  next
    case False
    with m have m': "lease_of tid st = Some m" by (simp add: lease_of_deliver [OF free])
    with inv new i have "i \<in> set issued" by (auto simp: issued_inv_def)
    with inv m' i show ?thesis by (auto simp: issued_inv_def)
  qed
  then show "tl_task_id i = tid" and "tl_fence i = lr_fence m" by auto
qed

lemma events_inv_deliver:
  assumes inv: "events_inv st" and row: "task_of (tl_task_id l) st = Some row"
    and fence: "tl_fence l = tr_fence_seq row + 1" and new: "new_event eid st"
  shows "events_inv (deliver l ex be tj run eid oc cr st)"
proof -
  let ?st = "deliver l ex be tj run eid oc cr st"
  have new': "new_event eid (upd_task t f (st\<lparr>wf_leases := ls\<rparr>))" for t f ls
    using new by (simp add: new_event_def)
  have count: "deliveries_of x ?st = deliveries_of x st + (if x = tl_task_id l then 1 else 0)"
    and retries: "retries_of x ?st = retries_of x st" for x
    unfolding deliver_def by (simp_all add: events_publish [OF new'])
      (simp_all add: deliveries_of_def retries_of_def)
  have "row_events_ok (deliveries_of (tl_task_id l) st) (retries_of (tl_task_id l) st) row"
    using inv row unfolding events_inv_def by (metis events_ok.simps(2))
  then have "row_events_ok (Suc (deliveries_of (tl_task_id l) st)) (retries_of (tl_task_id l) st)
      (row\<lparr>tr_status := T_LEASED, tr_fence_seq := tl_fence l, tr_attempt := tl_fence l,
           tr_retry_at := None, tr_task_json := tj\<rparr>)"
    using fence by (auto simp: row_events_ok_def max_attempts_of_def)
  with inv row show ?thesis
    by (auto simp: events_inv_def task_of_deliver count retries)
qed

section \<open>Idempotency keys\<close>

text \<open>The idempotency records are the keys of the tasks, in the same order.\<close>

definition idem_inv :: "wf_state \<Rightarrow> bool" where
  "idem_inv st =
     (List.map_filter tr_idempotency_key (wf_tasks st) = map ir_operation_key (wf_idem st) \<and>
      distinct (map ir_operation_key (wf_idem st)))"

lemma map_filter_upd_row:
  assumes "\<And>r. f (g r) = f r"
  shows "List.map_filter f (upd_row key k g rows) = List.map_filter f rows"
  using assms by (induction rows) (auto simp: upd_row_def List.map_filter_simps split: option.splits)

lemma set_map_filter_iff: "k \<in> set (List.map_filter f xs) \<longleftrightarrow> Some k \<in> f ` set xs"
  by (induction xs) (auto simp: List.map_filter_simps split: option.splits)

lemma idem_inv_db: "db st = db st' \<Longrightarrow> idem_inv st \<Longrightarrow> idem_inv st'"
  by (simp add: idem_inv_def db_def)

lemma idem_inv_settle:
  assumes "idem_inv st" and "\<And>r. tr_idempotency_key (g r) = tr_idempotency_key r"
  shows "idem_inv (settle tid g ty p run eid oc cr st)"
  using assms by (simp add: idem_inv_def settle_def map_filter_upd_row)

lemma idem_inv_deliver:
  "idem_inv st \<Longrightarrow> idem_inv (deliver l ex be tj run eid oc cr st)"
  by (simp add: idem_inv_def deliver_def map_filter_upd_row)

section \<open>The whole invariant\<close>

definition wf_inv :: "task_lease list \<Rightarrow> wf_state \<Rightarrow> bool" where
  "wf_inv issued st = (rows_inv st \<and> issued_inv issued st \<and> events_inv st \<and> idem_inv st)"

lemma wf_inv_db: "db st = db st' \<Longrightarrow> wf_inv issued st \<Longrightarrow> wf_inv issued st'"
  unfolding wf_inv_def using rows_inv_db issued_inv_db events_inv_db idem_inv_db by blast

lemma wf_inv_settle:
  assumes inv: "wf_inv issued st" and row: "task_of tid st = Some row" and new: "new_event eid st"
    and key: "\<And>r. tr_task_id (g r) = tr_task_id r" "\<And>r. tr_fence_seq (g r) = tr_fence_seq r"
      "\<And>r. tr_contract_json (g r) = tr_contract_json r"
      "\<And>r. tr_idempotency_key (g r) = tr_idempotency_key r"
    and ok: "row_ok None (g row)"
    and payload: "\<And>x. \<not> leased_event x p"
      "(\<forall>x. retry_attempt x p = []) \<or>
       (\<exists>cat ra. p = FailureRetryPayload tid (tr_fence_seq row + 1) cat ra \<and> 1 \<le> tr_fence_seq row \<and>
          tr_fence_seq row + 1 \<le> max_attempts_of row \<and> tr_status row = T_LEASED)"
  shows "wf_inv issued (settle tid g ty p run eid oc cr st)"
proof -
  have "tr_status (g row) \<noteq> T_LEASED" using ok by (auto simp: row_ok_def)
  then show ?thesis
    using inv row new key ok payload
    by (simp add: wf_inv_def rows_inv_settle issued_inv_settle events_inv_settle idem_inv_settle)
qed

lemma wf_inv_deliver:
  assumes "wf_inv issued st" and "task_of (tl_task_id l) st = Some row"
    and "lease_of (tl_task_id l) st = None" and "tl_fence l = tr_fence_seq row + 1"
    and "with_attempt (tr_task_json row) (tr_contract_json row) l = Inr tj"
    and "tr_status row \<noteq> T_CANCELLED" and "new_event eid st"
    and "tl_lease_id l \<notin> tl_lease_id ` set issued"
  shows "wf_inv (l # issued) (deliver l ex be tj run eid oc cr st)"
  using assms rows_invD(5) [of st "tl_task_id l" row]
  by (simp add: wf_inv_def rows_inv_deliver issued_inv_deliver events_inv_deliver idem_inv_deliver)

text \<open>Leases rewritten in place: the key stays, the fence of the row stays.\<close>

lemma lease_of_map:
  assumes "\<And>r. lr_task_id (f r) = lr_task_id r"
  shows "lease_of x (st\<lparr>wf_leases := map f (wf_leases st)\<rparr>) = map_option f (lease_of x st)"
  using assms by (simp add: lease_of_def row_of_map)

lemma wf_inv_lease_map:
  assumes inv: "wf_inv issued st" and key: "\<And>r. lr_task_id (f r) = lr_task_id r"
    and fence: "\<And>tid r. lease_of tid st = Some r \<Longrightarrow> lr_fence (f r) = lr_fence r"
    and issued: "issued_inv issued' (st\<lparr>wf_leases := map f (wf_leases st)\<rparr>)"
  shows "wf_inv issued' (st\<lparr>wf_leases := map f (wf_leases st)\<rparr>)"
proof -
  let ?st = "st\<lparr>wf_leases := map f (wf_leases st)\<rparr>"
  have t: "task_of x ?st = task_of x st" for x by (simp add: task_of_def)
  have ls: "map lr_task_id (map f (wf_leases st)) = map lr_task_id (wf_leases st)"
    using key by simp
  have ok: "row_ok (map_option f (lease_of tid st)) r" if "row_ok (lease_of tid st) r" for tid r
    using that fence [of tid] by (cases "lease_of tid st") (auto simp: row_ok_def)
  have "rows_inv ?st"
    using inv ok unfolding wf_inv_def rows_inv_def lease_of_map [OF key] t
    by (simp del: map_map add: ls)
  moreover have "events_inv ?st"
    using inv by (simp add: wf_inv_def events_inv_def t deliveries_of_def retries_of_def)
  moreover have "idem_inv ?st" using inv by (simp add: wf_inv_def idem_inv_def)
  ultimately show ?thesis using issued by (simp add: wf_inv_def)
qed

section \<open>What each operation does to the tables\<close>

lemma new_lease_InrD:
  assumes "new_lease tid agent ttl now w f u = Inr l"
  shows "l = \<lparr>tl_lease_id = u, tl_task_id = tid, tl_agent_id = agent, tl_expires_at = Some (now + ttl),
      tl_heartbeat_at = Some now, tl_worker_id = w, tl_fence = f\<rparr>" and "now + ttl \<le> max_us" and "0 \<le> f"
proof -
  from assms obtain ex where ex: "time_plus now ttl = Inr ex"
    and l: "lease_post_init \<lparr>tl_lease_id = u, tl_task_id = tid, tl_agent_id = agent,
      tl_expires_at = Some ex, tl_heartbeat_at = Some now, tl_worker_id = w, tl_fence = f\<rparr> = Inr l"
    by (auto simp: new_lease_def bind_res_Inr_iff)
  from ex have "ex = now + ttl" "ex \<le> max_us" by (auto simp: time_plus_def split: if_splits)
  with lease_post_init_InrD [OF l] l
  show "l = \<lparr>tl_lease_id = u, tl_task_id = tid, tl_agent_id = agent, tl_expires_at = Some (now + ttl),
      tl_heartbeat_at = Some now, tl_worker_id = w, tl_fence = f\<rparr>" "now + ttl \<le> max_us" "0 \<le> f"
    by (auto simp: lease_post_init_def split: if_splits)
qed

definition delivered ::
    "wf_state \<Rightarrow> task_row \<Rightarrow> task_lease \<Rightarrow> (nat \<Rightarrow> int) \<Rightarrow> (nat \<Rightarrow> string) \<Rightarrow> wf_state \<Rightarrow> bool" where
  "delivered st row l clk uid st' =
     (task_of (tl_task_id l) st = Some row \<and> lease_of (tl_task_id l) st = None \<and>
      tl_fence l = tr_fence_seq row + 1 \<and> tl_lease_id l = uid 0 \<and>
      tl_expires_at l = Some (clk 1 + wf_lease_ttl st) \<and> tl_heartbeat_at l = Some (clk 1) \<and>
      (\<exists>tj. with_attempt (tr_task_json row) (tr_contract_json row) l = Inr tj \<and>
        db st' = db (deliver l (clk 1 + wf_lease_ttl st) (clk 1) tj (tr_run_id row) (uid 1) (clk 2) (clk 3) st)))"

lemma deliveredI:
  assumes "new_lease tid agent (wf_lease_ttl st) (clk 1) w (tr_fence_seq row + 1) (uid 0) = Inr l"
    and "persist_new_lease l (tr_run_id row) (uid 1) (clk 2) (clk 3) st = Inr st1"
    and "task_of tid st = Some row" and "db st' = db st1"
  shows "delivered st row l clk uid st' \<and> tl_task_id l = tid \<and> tl_worker_id l = w"
proof -
  note l = new_lease_InrD(1) [OF assms(1)]
  from persist_new_lease_Inr [OF assms(2)] assms(3,4) l show ?thesis
    by (fastforce simp: delivered_def)
qed

lemma acquire_effect:
  assumes "acquire_lease tid clk uid st = (res, st')"
  obtains (same) "db st' = db st"
      "\<And>l. res = Inr l \<Longrightarrow> \<exists>r. lease_of tid st = Some r \<and> lease_from_row r = Inr l"
    | (new) row l where "res = Inr l" "tl_task_id l = tid" "tl_worker_id l = None"
      "\<not> is_terminal (tr_status row) task_terminal"
      "\<not> before_retry_deadline row (clk 0)" "delivered st row l clk uid st'"
proof (cases "\<exists>row l st1. task_of tid st = Some row \<and> \<not> is_terminal (tr_status row) task_terminal \<and>
    lease_of tid st = None \<and> \<not> before_retry_deadline row (clk 0) \<and>
    new_lease tid (tr_assigned_agent_id row) (wf_lease_ttl st) (clk 1) None (tr_fence_seq row + 1) (uid 0) = Inr l \<and>
    persist_new_lease l (tr_run_id row) (uid 1) (clk 2) (clk 3) st = Inr st1 \<and> \<not> ab_closed st")
  case True
  then obtain row l st1 where 1: "task_of tid st = Some row" "\<not> is_terminal (tr_status row) task_terminal"
    "lease_of tid st = None" "\<not> before_retry_deadline row (clk 0)"
    "new_lease tid (tr_assigned_agent_id row) (wf_lease_ttl st) (clk 1) None (tr_fence_seq row + 1) (uid 0) = Inr l"
    "persist_new_lease l (tr_run_id row) (uid 1) (clk 2) (clk 3) st = Inr st1" "\<not> ab_closed st" by blast
  then have "res = Inr l" "db st' = db st1" using assms by (auto simp: acquire_lease_def)
  then show ?thesis using new [of l row] 1 deliveredI [OF 1(5,6,1)] by simp
next
  case False
  then have "db st' = db st \<and> (\<forall>l. res = Inr l \<longrightarrow> (\<exists>r. lease_of tid st = Some r \<and> lease_from_row r = Inr l))"
    using assms by (auto simp: acquire_lease_def split: if_splits option.splits sum.splits)
  then show ?thesis using same by simp
qed

lemma first_candidate_claimable:
  assumes "first_matching_candidate (claim_candidates now st) q = Some r"
  shows "claimable now st r" "claim_matches q r" "r \<in> set (wf_tasks st)"
  using assms
  by (auto simp: first_matching_candidate_def claim_candidates_def find_Some_iff)
     (metis (no_types, lifting) mem_Collect_eq nth_mem set_filter set_sort length_sort)+

lemma claim_effect:
  assumes "claim_next q clk uid st = (res, st')" and dist: "distinct (map tr_task_id (wf_tasks st))"
  obtains (same) "db st' = db st" "\<And>l. res \<noteq> Inr (Some l)"
    | (new) row l where "res = Inr (Some l)" "tl_task_id l = tr_task_id row"
      "tl_worker_id l = Some (cq_worker_id q)"
      "first_matching_candidate (claim_candidates (clk 0) st) q = Some row"
      "claimable (clk 0) st row" "claim_matches q row" "delivered st row l clk uid st'"
proof (cases "\<exists>row l st1. \<not> ab_closed st \<and> first_matching_candidate (claim_candidates (clk 0) st) q = Some row \<and>
    new_lease (tr_task_id row) (tr_assigned_agent_id row) (wf_lease_ttl st) (clk 1) (Some (cq_worker_id q))
      (tr_fence_seq row + 1) (uid 0) = Inr l \<and>
    persist_new_lease l (tr_run_id row) (uid 1) (clk 2) (clk 3) st = Inr st1")
  case True
  then obtain row l st1 where 1: "\<not> ab_closed st"
    "first_matching_candidate (claim_candidates (clk 0) st) q = Some row"
    "new_lease (tr_task_id row) (tr_assigned_agent_id row) (wf_lease_ttl st) (clk 1) (Some (cq_worker_id q))
      (tr_fence_seq row + 1) (uid 0) = Inr l"
    "persist_new_lease l (tr_run_id row) (uid 1) (clk 2) (clk 3) st = Inr st1" by blast
  note ok = first_candidate_claimable [OF 1(2)]
  from ok(3) dist have row: "task_of (tr_task_id row) st = Some row" by (simp add: task_of_in)
  have "tr_status row \<in> set CLAIMABLE_STATUSES" using ok(1) by (simp add: claimable_def)
  with 1 row have "res = Inr (Some l)" "db st' = db st1" using assms(1) by (auto simp: claim_next_def)
  then show ?thesis using new [of l row] 1 ok deliveredI [OF 1(3,4) row] by simp
next
  case False
  then have "db st' = db st \<and> (\<forall>l. res \<noteq> Inr (Some l))"
    using assms(1) by (auto simp: claim_next_def split: if_splits option.splits sum.splits)
  then show ?thesis using same by simp
qed

lemma heartbeat_effect:
  assumes "heartbeat l clk uid st = (res, st')"
  obtains (same) "db st' = db st" "\<And>m. res \<noteq> Inr m"
    | (beat) r m where "res = Inr m" "lease_of (tl_task_id l) st = Some r" "lr_lease_id r = tl_lease_id l"
      "m = l\<lparr>tl_lease_id := uid 0, tl_expires_at := Some (clk 0 + wf_lease_ttl st), tl_heartbeat_at := Some (clk 0)\<rparr>"
      "db st' = db (st\<lparr>wf_leases := map (\<lambda>r. if lr_task_id r = tl_task_id l
          then r\<lparr>lr_lease_id := uid 0, lr_expires_at := clk 0 + wf_lease_ttl st, lr_heartbeat_at := clk 0,
                 lr_worker_id := tl_worker_id l, lr_fence := tl_fence l\<rparr> else r) (wf_leases st)\<rparr>)"
proof (cases "\<exists>r m. \<not> ab_closed st \<and> lease_of (tl_task_id l) st = Some r \<and> lr_lease_id r = tl_lease_id l \<and>
    new_lease (tl_task_id l) (tl_agent_id l) (wf_lease_ttl st) (clk 0) (tl_worker_id l) (tl_fence l) (uid 0) = Inr m")
  case True
  then obtain r m where 1: "\<not> ab_closed st" "lease_of (tl_task_id l) st = Some r" "lr_lease_id r = tl_lease_id l"
    "new_lease (tl_task_id l) (tl_agent_id l) (wf_lease_ttl st) (clk 0) (tl_worker_id l) (tl_fence l) (uid 0) = Inr m"
    by blast
  note m = new_lease_InrD(1) [OF 1(4)]
  then have "m = l\<lparr>tl_lease_id := uid 0, tl_expires_at := Some (clk 0 + wf_lease_ttl st), tl_heartbeat_at := Some (clk 0)\<rparr>"
    by simp
  moreover have "res = Inr m" using assms 1 m by (auto simp: heartbeat_def Let_def)
  moreover have "db st' = db (st\<lparr>wf_leases := map (\<lambda>r. if lr_task_id r = tl_task_id l
          then r\<lparr>lr_lease_id := uid 0, lr_expires_at := clk 0 + wf_lease_ttl st, lr_heartbeat_at := clk 0,
                 lr_worker_id := tl_worker_id l, lr_fence := tl_fence l\<rparr> else r) (wf_leases st)\<rparr>)"
    using assms 1 m by (auto simp: heartbeat_def Let_def upd_row_def)
  ultimately show ?thesis using beat 1 by blast
next
  case False
  then have "db st' = db st \<and> (\<forall>m. res \<noteq> Inr m)"
    using assms by (auto simp: heartbeat_def Let_def dest: new_lease_InrD(1) split: if_splits option.splits sum.splits)
  then show ?thesis using same by simp
qed

lemma renew_effect:
  assumes "renew_lease tid lid f w clk uid st = (res, st')"
  obtains (same) "db st' = db st" "res \<noteq> Inr ()"
    | (renewed) "res = Inr ()" "list_ex (lease_matches tid lid f w) (wf_leases st)"
      "db st' = db (st\<lparr>wf_leases := map (\<lambda>r. if lease_matches tid lid f w r
          then r\<lparr>lr_expires_at := clk 0 + wf_lease_ttl st, lr_heartbeat_at := clk 0 + wf_lease_ttl st\<rparr>
          else r) (wf_leases st)\<rparr>)"
proof (cases "new_lease tid None (wf_lease_ttl st) (clk 0) (Some w) f (uid 0)")
  case (Inl e)
  then have "db st' = db st \<and> res \<noteq> Inr ()" using assms by (auto simp: renew_lease_def split: if_splits)
  then show ?thesis using same by simp
next
  case (Inr m)
  note m = new_lease_InrD(1) [OF Inr]
  show ?thesis
    using assms Inr m same renewed
    by (cases "ab_closed st"; cases "list_ex (lease_matches tid lid f w) (wf_leases st)")
       (auto simp: renew_lease_def)
qed

text \<open>The event of an applied completion.\<close>

definition completion_payload :: "failure_disposition \<Rightarrow> task_completion \<Rightarrow> int \<Rightarrow> int option \<Rightarrow> event_payload" where
  "completion_payload plan cm attempt ra =
     (if fd_retrying plan then FailureRetryPayload (cm_task_id cm) (attempt + 1) (cm_failure_category cm) ra
      else CompletedPayload (cm_task_id cm) (cm_outcome cm) (fd_action plan) (fd_status plan))"

definition applied ::
    "wf_state \<Rightarrow> task_lease \<Rightarrow> task_completion \<Rightarrow> (nat \<Rightarrow> int) \<Rightarrow> (nat \<Rightarrow> string) \<Rightarrow>
     task_row \<Rightarrow> task_contract \<Rightarrow> int option \<Rightarrow> wf_state \<Rightarrow> bool" where
  "applied st l cm clk uid row c ra st' =
     (let attempt = (if tr_attempt row = 0 then 1 else tr_attempt row);
          plan = disposition c (cm_outcome cm) attempt (cm_failure_category cm)
      in (if fd_retrying plan
          then (\<exists>delay. retry_delay c attempt = Inr delay \<and>
                  ra = (if delay = 0 then None else Some (clk 0 + delay)) \<and> (delay \<noteq> 0 \<longrightarrow> clk 0 + delay \<le> max_us))
          else ra = None) \<and>
         db st' = db (settle (tl_task_id l) (\<lambda>r. r\<lparr>tr_status := fd_status plan, tr_retry_at := ra\<rparr>)
            (if fd_retrying plan then TASK_RETRY_SCHEDULED else TASK_COMPLETED)
            (completion_payload plan cm attempt ra) (tr_run_id row) (uid 0) (clk 1) (clk 2) st))"

lemma require_current_lease_Inr:
  "require_current_lease l st = Inr u \<longleftrightarrow>
     (\<exists>r. lease_of (tl_task_id l) st = Some r \<and> lr_lease_id r = tl_lease_id l \<and> lr_fence r = tl_fence l)"
  by (auto simp: require_current_lease_def split: option.splits)

lemma write_disposition_Inr:
  assumes "write_disposition l plan c attempt now st = Inr (ra, st')"
  shows "st' = upd_task (tl_task_id l) (\<lambda>r. r\<lparr>tr_status := fd_status plan, tr_retry_at := ra\<rparr>) st"
    and "\<not> fd_retrying plan \<Longrightarrow> ra = None"
    and "fd_retrying plan \<Longrightarrow> \<exists>delay. retry_delay c attempt = Inr delay \<and>
           ra = (if delay = 0 then None else Some (now + delay)) \<and> (delay \<noteq> 0 \<longrightarrow> now + delay \<le> max_us)"
proof -
  let ?d = "if fd_retrying plan then retry_delay c attempt else Inr 0"
  from assms obtain delay where d: "?d = Inr delay"
    and ra: "(if fd_retrying plan \<and> delay \<noteq> 0
               then bind_res (time_plus now delay) (\<lambda>t. Inr (Some t)) else Inr None) = Inr ra"
    and st': "st' = upd_task (tl_task_id l) (\<lambda>r. r\<lparr>tr_status := fd_status plan, tr_retry_at := ra\<rparr>) st"
    unfolding write_disposition_def bind_res_Inr_iff by auto
  show "st' = upd_task (tl_task_id l) (\<lambda>r. r\<lparr>tr_status := fd_status plan, tr_retry_at := ra\<rparr>) st" by (fact st')
  show "ra = None" if "\<not> fd_retrying plan" using ra that by simp
  show "\<exists>delay. retry_delay c attempt = Inr delay \<and>
           ra = (if delay = 0 then None else Some (now + delay)) \<and> (delay \<noteq> 0 \<longrightarrow> now + delay \<le> max_us)"
    if "fd_retrying plan"
    using d ra that by (auto simp: bind_res_Inr_iff time_plus_def split: if_splits)
qed

lemma complete_effect:
  assumes "complete l cm clk uid st = (res, st')" and tid: "cm_task_id cm = tl_task_id l"
  obtains (same) "db st' = db st"
      "res = Inr () \<Longrightarrow> \<exists>row. task_of (tl_task_id l) st = Some row \<and> tr_status row \<in> set COMPLETION_ALREADY_APPLIED"
    | (fin) row r c ra where "res = Inr ()" "task_of (tl_task_id l) st = Some row"
      "tr_status row \<notin> set COMPLETION_ALREADY_APPLIED" "lease_of (tl_task_id l) st = Some r"
      "lr_lease_id r = tl_lease_id l" "lr_fence r = tl_fence l"
      "decode_contract (tr_contract_json row) = Inr c" "applied st l cm clk uid row c ra st'"
proof -
  consider (noop) "db st' = db st" "res = Inr () \<Longrightarrow>
        \<exists>row. task_of (tl_task_id l) st = Some row \<and> tr_status row \<in> set COMPLETION_ALREADY_APPLIED"
    | (work) row c ra st1 where "\<not> ab_closed st" "task_of (tl_task_id l) st = Some row"
      "tr_status row \<notin> set COMPLETION_ALREADY_APPLIED" "require_current_lease l st = Inr ()"
      "decode_contract (tr_contract_json row) = Inr c"
      "write_disposition l (disposition c (cm_outcome cm) (if tr_attempt row = 0 then 1 else tr_attempt row)
           (cm_failure_category cm)) c (if tr_attempt row = 0 then 1 else tr_attempt row) (clk 0)
         (del_lease (tl_task_id l) st) = Inr (ra, st1)"
  proof (cases "require_current_lease l st")
    case (Inl e)
    then have "db st' = db st \<and> (res = Inr () \<longrightarrow>
        (\<exists>row. task_of (tl_task_id l) st = Some row \<and> tr_status row \<in> set COMPLETION_ALREADY_APPLIED))"
      using assms(1) by (auto simp: complete_def Let_def split: if_splits option.splits)
    with noop show ?thesis by blast
  next
    case (Inr u)
    with assms(1) noop work show ?thesis
      by (auto simp: complete_def Let_def split: if_splits option.splits sum.splits)
  qed
  then show ?thesis
  proof cases
    case noop
    then show ?thesis by (rule same)
  next
    case (work row c ra st1)
    let ?a = "if tr_attempt row = 0 then 1 else tr_attempt row"
    let ?plan = "disposition c (cm_outcome cm) ?a (cm_failure_category cm)"
    from work assms(1) have res: "res = Inr ()"
      and db: "db st' = db (publish_completion_outcome ?plan (tr_run_id row) cm
           \<lparr>rn_next_attempt = ?a + 1, rn_retry_at = ra\<rparr> (uid 0) (clk 1) (clk 2) st1)"
      by (auto simp: complete_def Let_def)
    note w = write_disposition_Inr [OF work(6)]
    have "applied st l cm clk uid row c ra st'"
      using w tid unfolding applied_def Let_def db
      by (simp add: publish_completion_outcome_def completion_payload_def settle_def del_upd_commute)
    with work res show ?thesis
      using fin [of row _ c ra] by (auto simp: require_current_lease_Inr)
  qed
qed

lemma cancel_row_settle:
  "cancel_row tid run eid oc cr st =
     settle tid (\<lambda>r. r\<lparr>tr_cancelled := True, tr_status := T_CANCELLED\<rparr>) TASK_CANCELLED (CancelledPayload tid) run eid oc cr st"
  by (simp add: cancel_row_def settle_def)

lemma recover_one_settle:
  "recover_one tid run eid oc cr st =
     settle tid (\<lambda>r. r\<lparr>tr_status := T_QUEUED\<rparr>) TASK_RETRY_SCHEDULED (LeaseExpiredPayload tid) run eid oc cr st"
  by (simp add: recover_one_def settle_def del_upd_commute)

lemma queued_task_json_stored:
  assumes "stored_ok row" and "queued_task_json (tr_task_json row) (tr_contract_json row) = Inr tj"
  shows "\<exists>t. tj = encode_research_task t \<and> valid_task t"
proof -
  from assms(1) obtain t c where t: "tr_task_json row = encode_research_task t" "valid_task t"
    and c: "tr_contract_json row = encode_contract c" "valid_contract c"
    by (auto simp: stored_ok_def)
  have "\<exists>t'. task_post_init (t\<lparr>rt_status := T_QUEUED\<rparr>) = Inr t' \<and> tj = encode_research_task t'"
    using assms(2) t c
    by (auto simp: queued_task_json_def decode_task_def decode_research_task_encode decode_contract_encode
        bind_res_Inr_iff encode_task_def)
  then have "is_ok (task_post_init (t\<lparr>rt_status := T_QUEUED\<rparr>))"
    and tj: "tj = encode_research_task (t\<lparr>rt_status := T_QUEUED\<rparr>)"
    by (auto dest: task_post_init_InrD)
  then have "valid_task (t\<lparr>rt_status := T_QUEUED\<rparr>)" using t(2) by (auto simp: valid_task_def)
  with tj show ?thesis by blast
qed

lemma requeue_transition:
  "task_transition s TE_REQUEUE = Inr s' \<longleftrightarrow> s = T_DEAD_LETTER \<and> s' = T_QUEUED"
  by (cases s) (auto simp: task_transition_def transition_of_def task_transitions_def)

lemma requeue_effect:
  assumes "requeue tid clk uid st = (res, st')"
  obtains (same) "db st' = db st" "\<And>x. res \<noteq> Inr x"
    | (restored) row tj where "res = Inr ''restored''" "task_of tid st = Some row" "tr_status row = T_DEAD_LETTER"
      "queued_task_json (tr_task_json row) (tr_contract_json row) = Inr tj"
      "db st' = db (settle tid (\<lambda>r. r\<lparr>tr_status := T_QUEUED, tr_retry_at := None, tr_task_json := tj\<rparr>)
         TASK_RETRY_SCHEDULED (ManualRequeuePayload tid T_DEAD_LETTER) (tr_run_id row) (uid 0) (clk 0) (clk 1) st)"
proof (cases "\<exists>row tj. \<not> ab_closed st \<and> task_of tid st = Some row \<and> tr_status row = T_DEAD_LETTER \<and>
    queued_task_json (tr_task_json row) (tr_contract_json row) = Inr tj")
  case True
  then obtain row tj where 1: "\<not> ab_closed st" "task_of tid st = Some row" "tr_status row = T_DEAD_LETTER"
    "queued_task_json (tr_task_json row) (tr_contract_json row) = Inr tj" by blast
  have "task_transition (tr_status row) TE_REQUEUE = Inr T_QUEUED" using 1 by (simp add: requeue_transition)
  with 1 assms show ?thesis
    using restored [of row tj] by (auto simp: requeue_def requeue_task_def settle_def)
next
  case False
  have "db st' = db st \<and> (\<forall>x. res \<noteq> Inr x)"
  proof (cases "task_of tid st")
    case None
    then show ?thesis using assms by (auto simp: requeue_def requeue_task_def split: if_splits)
  next
    case (Some row)
    with False assms show ?thesis
      by (cases "task_transition (tr_status row) TE_REQUEUE")
         (auto simp: requeue_def requeue_task_def requeue_transition split: if_splits sum.splits py_error.splits)
  qed
  then show ?thesis using same by simp
qed

definition inserted :: "(json \<times> json \<Rightarrow> string) \<Rightarrow> research_task \<Rightarrow> task_contract \<Rightarrow> (nat \<Rightarrow> int) \<Rightarrow> wf_state \<Rightarrow> wf_state" where
  "inserted dg t c clk st = st\<lparr>
     wf_tasks := wf_tasks st @
       [\<lparr>tr_task_id = rt_id t, tr_run_id = rt_run_id t, tr_idempotency_key = rt_idempotency_key t,
         tr_attempt = rt_attempt t, tr_status = rt_status t, tr_assigned_agent_id = rt_assigned_agent_id t,
         tr_task_json = encode_research_task t, tr_contract_json = encode_contract c,
         tr_cancelled = False, tr_created_at = clk 0, tr_kind = rt_kind t, tr_partition = rt_partition t,
         tr_required_capability = rt_required_capability t, tr_fence_seq = 0, tr_retry_at = None\<rparr>],
     wf_idem := wf_idem st @ (case rt_idempotency_key t of None \<Rightarrow> []
       | Some k \<Rightarrow> [\<lparr>ir_operation_key = k, ir_task_id = rt_id t, ir_request_digest = dg (encode_task t c),
                    ir_created_at = clk 1\<rparr>])\<rparr>"

lemma submit_effect:
  assumes "submit dg t c clk st = (res, st')" and "idem_inv st"
  obtains (same) "db st' = db st" "res = Inr () \<Longrightarrow> task_exists t st \<or> idempotency_exists t st"
      "ab_closed st \<or> task_exists t st \<or> idempotency_exists t st"
    | (new) "res = Inr ()" "task_of (rt_id t) st = None" "\<not> idempotency_exists t st"
      "db st' = db (inserted dg t c clk st)"
proof (cases "ab_closed st \<or> task_exists t st \<or> idempotency_exists t st")
  case True
  then have "db st' = db st" "res = Inr () \<Longrightarrow> task_exists t st \<or> idempotency_exists t st"
    using assms(1) by (auto simp: submit_def split: if_splits)
  then show ?thesis using same True by simp
next
  case False
  have "\<not> (rt_idempotency_key t \<noteq> None \<and> rt_idempotency_key t \<in> tr_idempotency_key ` set (wf_tasks st))"
  proof
    assume *: "rt_idempotency_key t \<noteq> None \<and> rt_idempotency_key t \<in> tr_idempotency_key ` set (wf_tasks st)"
    then obtain k where k: "rt_idempotency_key t = Some k" by auto
    with * have "k \<in> set (List.map_filter tr_idempotency_key (wf_tasks st))" by (simp add: set_map_filter_iff)
    then have "k \<in> ir_operation_key ` set (wf_idem st)" using assms(2) by (simp add: idem_inv_def)
    then have "idempotency_exists t st" using k by (simp add: idempotency_exists_def row_of_None_iff)
    with False show False by simp
  qed
  with False assms(1) show ?thesis
    using new
    by (auto simp: submit_def Let_def inserted_def task_exists_def encode_task_def db_def log_ok_def
        split: if_splits option.splits)
qed

end
