(* ===== verification/Workflow_System.thy ===== *)
theory Workflow_System
  imports Workflow_Invariants
begin

text \<open>
  Histories of the workflow engine: the commands its callers issue, what the callers
  guarantee, and the inductive set \<open>wf_reach\<close> of the systems (lease values handed out so far,
  store) that some interleaving of calls reaches from an empty store. \<open>wf_reach_inv\<close> shows
  the invariant of \<open>Workflow_Invariants\<close> in all of them.
\<close>

section \<open>Commands and histories\<close>

datatype wf_cmd =
    Submit research_task task_contract
  | Acquire string
  | Claim claim_request
  | Heartbeat task_lease
  | Renew string string int string
  | Complete task_lease task_completion
  | Cancel string
  | CancelRun string
  | Recover
  | Requeue string
  | MarkPublished "string list"

type_synonym sys = "task_lease list \<times> wf_state"

fun wf_exec ::
    "(json \<times> json \<Rightarrow> string) \<Rightarrow> wf_cmd \<Rightarrow> (nat \<Rightarrow> int) \<Rightarrow> (nat \<Rightarrow> string) \<Rightarrow> sys \<Rightarrow> sys" where
  "wf_exec dg (Submit t c) clk uid (issued, st) = (issued, snd (submit dg t c clk st))"
| "wf_exec dg (Acquire tid) clk uid (issued, st) =
     (case acquire_lease tid clk uid st of (Inr l, st') \<Rightarrow> (l # issued, st') | (Inl _, st') \<Rightarrow> (issued, st'))"
| "wf_exec dg (Claim q) clk uid (issued, st) =
     (case claim_next q clk uid st of (Inr (Some l), st') \<Rightarrow> (l # issued, st') | (_, st') \<Rightarrow> (issued, st'))"
| "wf_exec dg (Heartbeat l) clk uid (issued, st) =
     (case heartbeat l clk uid st of (Inr m, st') \<Rightarrow> (m # issued, st') | (Inl _, st') \<Rightarrow> (issued, st'))"
| "wf_exec dg (Renew tid lid f w) clk uid (issued, st) = (issued, snd (renew_lease tid lid f w clk uid st))"
| "wf_exec dg (Complete l cm) clk uid (issued, st) = (issued, snd (complete l cm clk uid st))"
| "wf_exec dg (Cancel tid) clk uid (issued, st) = (issued, snd (cancel tid clk uid st))"
| "wf_exec dg (CancelRun run) clk uid (issued, st) = (issued, snd (cancel_run run clk uid st))"
| "wf_exec dg Recover clk uid (issued, st) = (issued, snd (recover_expired_leases clk uid st))"
| "wf_exec dg (Requeue tid) clk uid (issued, st) = (issued, snd (requeue tid clk uid st))"
| "wf_exec dg (MarkPublished ids) clk uid (issued, st) = (issued, mark_outbox_published ids clk st)"

text \<open>
  What the callers guarantee: a submitted task and contract were built by their constructors,
  the task is new (first attempt, \<open>CREATED\<close> or \<open>QUEUED\<close>); a lease value that is presented was
  handed out by the engine; a completion names the task of its lease.
\<close>

fun cmd_ok :: "wf_cmd \<Rightarrow> sys \<Rightarrow> bool" where
  "cmd_ok (Submit t c) s =
     (valid_task t \<and> valid_contract c \<and> rt_status t \<in> {T_CREATED, T_QUEUED} \<and> rt_attempt t = 1)"
| "cmd_ok (Heartbeat l) s = (l \<in> set (fst s))"
| "cmd_ok (Complete l cm) s = (l \<in> set (fst s) \<and> cm_task_id cm = tl_task_id l)"
| "cmd_ok _ s = True"

text \<open>\<^verbatim>\<open>uuid4()\<close> gives identifiers that were not given before.\<close>

definition fresh_uids :: "(nat \<Rightarrow> string) \<Rightarrow> sys \<Rightarrow> bool" where
  "fresh_uids uid s =
     (inj uid \<and> (\<forall>i. uid i \<notin> tl_lease_id ` set (fst s) \<and> new_event (uid i) (snd s)))"

definition empty_store :: "wf_state \<Rightarrow> bool" where
  "empty_store st = (wf_tasks st = [] \<and> wf_leases st = [] \<and> wf_idem st = [] \<and> wf_outbox st = [])"

text \<open>
  A history: any sequence of engine calls, interleaved with changes of what the engine only
  reads (run states, worker rows, the closed flag, the lease duration) and does not own.
\<close>

inductive wf_reach :: "(json \<times> json \<Rightarrow> string) \<Rightarrow> sys \<Rightarrow> bool" for dg where
  reach_init: "empty_store st \<Longrightarrow> wf_reach dg ([], st)"
| reach_call: "wf_reach dg s \<Longrightarrow> cmd_ok cmd s \<Longrightarrow> fresh_uids uid s \<Longrightarrow> wf_reach dg (wf_exec dg cmd clk uid s)"
| reach_env: "wf_reach dg (issued, st) \<Longrightarrow> db st' = db st \<Longrightarrow> wf_reach dg (issued, st')"

section \<open>Every call preserves the invariant\<close>

lemma fresh_uidsD:
  assumes "fresh_uids uid (issued, st)"
  shows "uid i \<notin> tl_lease_id ` set issued" "new_event (uid i) st" "uid i = uid j \<longleftrightarrow> i = j"
  using assms by (auto simp: fresh_uids_def inj_eq)

lemma wf_inv_delivered:
  assumes "wf_inv issued st" and "delivered st row l clk uid st'" and "tr_status row \<noteq> T_CANCELLED"
    and "fresh_uids uid (issued, st)"
  shows "wf_inv (l # issued) st'"
proof -
  from assms(2) obtain tj where tj: "task_of (tl_task_id l) st = Some row" "lease_of (tl_task_id l) st = None"
      "tl_fence l = tr_fence_seq row + 1" "tl_lease_id l = uid 0"
      "with_attempt (tr_task_json row) (tr_contract_json row) l = Inr tj"
      "db st' = db (deliver l (clk 1 + wf_lease_ttl st) (clk 1) tj (tr_run_id row) (uid 1) (clk 2) (clk 3) st)"
    by (auto simp: delivered_def)
  have "wf_inv (l # issued) (deliver l (clk 1 + wf_lease_ttl st) (clk 1) tj (tr_run_id row) (uid 1) (clk 2) (clk 3) st)"
    using tj assms fresh_uidsD [OF assms(4)] by (intro wf_inv_deliver) auto
  with tj(6) show ?thesis by (metis wf_inv_db)
qed

lemma wf_inv_same_issued:
  assumes inv: "wf_inv issued st" and r: "lease_of tid st = Some r" "lease_from_row r = Inr l"
  shows "wf_inv (l # issued) st"
proof -
  from r(2) have l: "tl_lease_id l = lr_lease_id r" "tl_task_id l = lr_task_id r" "tl_fence l = lr_fence r"
    by (auto simp: lease_from_row_def dest!: lease_post_init_InrD)
  have key: "lr_task_id r = tid" using r(1) by (rule lease_of_key)
  from inv r obtain row where row: "task_of tid st = Some row" by (auto simp: wf_inv_def rows_inv_def)
  obtain i where i: "i \<in> set issued" "tl_lease_id i = lr_lease_id r" "tl_task_id i = tid" "tl_fence i = lr_fence r"
    using inv r by (fastforce simp: wf_inv_def issued_inv_def)
  have "issued_inv (l # issued) st"
    using inv l key i unfolding wf_inv_def issued_inv_def by auto
  with inv show ?thesis by (simp add: wf_inv_def)
qed

lemma wf_inv_heartbeat:
  assumes inv: "wf_inv issued st" and l: "l \<in> set issued" and r: "lease_of (tl_task_id l) st = Some r"
    "lr_lease_id r = tl_lease_id l" and new: "u \<notin> tl_lease_id ` set issued"
  shows "wf_inv (l\<lparr>tl_lease_id := u, tl_expires_at := e, tl_heartbeat_at := h\<rparr> # issued)
    (st\<lparr>wf_leases := map (\<lambda>r. if lr_task_id r = tl_task_id l
        then r\<lparr>lr_lease_id := u, lr_expires_at := ex, lr_heartbeat_at := he,
               lr_worker_id := w, lr_fence := tl_fence l\<rparr> else r) (wf_leases st)\<rparr>)"
proof (rule wf_inv_lease_map [OF inv])
  let ?f = "\<lambda>r. if lr_task_id r = tl_task_id l
        then r\<lparr>lr_lease_id := u, lr_expires_at := ex, lr_heartbeat_at := he,
               lr_worker_id := w, lr_fence := tl_fence l\<rparr> else r"
  let ?st = "st\<lparr>wf_leases := map ?f (wf_leases st)\<rparr>"
  show key: "lr_task_id (?f r) = lr_task_id r" for r by simp
  have fence: "lr_fence r = tl_fence l" using inv l r by (auto simp: wf_inv_def issued_inv_def)
  show "lr_fence (?f q) = lr_fence q" if "lease_of tid st = Some q" for tid q
    using that lease_of_key [OF that] r fence by auto
  have t: "task_of x ?st = task_of x st" for x by (simp add: task_of_def)
  have ls: "lease_of x ?st = map_option ?f (lease_of x st)" for x by (rule lease_of_map) simp
  have issued: "issued_inv issued st" using inv by (simp add: wf_inv_def)
  show "issued_inv (l\<lparr>tl_lease_id := u, tl_expires_at := e, tl_heartbeat_at := h\<rparr> # issued) ?st"
    unfolding issued_inv_def t ls
  proof (intro conjI allI impI ballI)
    fix i assume "i \<in> set (l\<lparr>tl_lease_id := u, tl_expires_at := e, tl_heartbeat_at := h\<rparr> # issued)"
    then show "\<exists>r. task_of (tl_task_id i) st = Some r \<and> 1 \<le> tl_fence i \<and> tl_fence i \<le> tr_fence_seq r"
      using issued l by (auto simp: issued_inv_def)
  next
    fix tid m assume "map_option ?f (lease_of tid st) = Some m"
    then obtain q where q: "lease_of tid st = Some q" "m = ?f q" by auto
    note qk = lease_of_key [OF q(1)]
    show "lr_lease_id m \<in> tl_lease_id ` set (l\<lparr>tl_lease_id := u, tl_expires_at := e, tl_heartbeat_at := h\<rparr> # issued)"
      using q qk issued by (auto simp: issued_inv_def)
    fix i assume i: "i \<in> set (l\<lparr>tl_lease_id := u, tl_expires_at := e, tl_heartbeat_at := h\<rparr> # issued)"
      "tl_lease_id i = lr_lease_id m"
    have "tl_task_id i = tid \<and> tl_fence i = lr_fence m"
    proof (cases "tid = tl_task_id l")
      case True
      with q qk have "lr_lease_id m = u" "lr_fence m = tl_fence l" by auto
      with i new have "i = l\<lparr>tl_lease_id := u, tl_expires_at := e, tl_heartbeat_at := h\<rparr>" by (auto simp: image_iff)
      with True \<open>lr_fence m = tl_fence l\<close> show ?thesis by simp
    next
      case False
      with q qk have "m = q" by auto
      moreover have "lr_lease_id q \<in> tl_lease_id ` set issued" using issued q by (auto simp: issued_inv_def)
      ultimately have "i \<in> set issued" using i new by (auto simp: image_iff)
      with i issued q \<open>m = q\<close> show ?thesis by (auto simp: issued_inv_def)
    qed
    then show "tl_task_id i = tid" "tl_fence i = lr_fence m" by auto
  qed
qed

lemma wf_inv_renew:
  assumes inv: "wf_inv issued st"
  shows "wf_inv issued (st\<lparr>wf_leases := map (\<lambda>r. if lease_matches tid lid f w r
      then r\<lparr>lr_expires_at := e, lr_heartbeat_at := h\<rparr> else r) (wf_leases st)\<rparr>)"
proof (rule wf_inv_lease_map [OF inv])
  let ?f = "\<lambda>r. if lease_matches tid lid f w r then r\<lparr>lr_expires_at := e, lr_heartbeat_at := h\<rparr> else r"
  have ls: "lease_of x (st\<lparr>wf_leases := map ?f (wf_leases st)\<rparr>) = map_option ?f (lease_of x st)" for x
    by (rule lease_of_map) simp
  have t: "task_of x (st\<lparr>wf_leases := map ?f (wf_leases st)\<rparr>) = task_of x st" for x by (simp add: task_of_def)
  show "issued_inv issued (st\<lparr>wf_leases := map ?f (wf_leases st)\<rparr>)"
    using inv unfolding wf_inv_def issued_inv_def ls t by fastforce
qed auto

lemma new_event_settle:
  "new_event e st \<Longrightarrow> e \<noteq> eid \<Longrightarrow> new_event e (settle tid g ty p run eid oc cr st)"
  by (auto simp: settle_def publish_def new_event_def)

lemma wf_inv_cancel_row:
  assumes inv: "wf_inv issued st" and row: "task_of tid st = Some row" and new: "new_event eid st"
  shows "wf_inv issued (cancel_row tid run eid oc cr st)"
proof -
  have "row_ok (lease_of tid st) row" using inv row by (auto simp: wf_inv_def rows_inv_def)
  then have "row_ok None (row\<lparr>tr_cancelled := True, tr_status := T_CANCELLED\<rparr>)"
    by (auto simp: row_ok_def engine_statuses_def stored_ok_def)
  then show ?thesis
    unfolding cancel_row_settle by (intro wf_inv_settle [OF inv row new]) auto
qed

lemma wf_inv_recover_one:
  assumes inv: "wf_inv issued st" and row: "task_of tid st = Some row" and new: "new_event eid st"
    and lease: "lease_of tid st \<noteq> None"
  shows "wf_inv issued (recover_one tid run eid oc cr st)"
proof -
  have "row_ok (lease_of tid st) row" using inv row by (auto simp: wf_inv_def rows_inv_def)
  then have "row_ok None (row\<lparr>tr_status := T_QUEUED\<rparr>)"
    using lease by (auto simp: row_ok_def engine_statuses_def stored_ok_def)
  then show ?thesis
    unfolding recover_one_settle by (intro wf_inv_settle [OF inv row new]) auto
qed

lemma wf_inv_requeue:
  assumes inv: "wf_inv issued st" and row: "task_of tid st = Some row" and new: "new_event eid st"
    and dead: "tr_status row = T_DEAD_LETTER"
    and tj: "queued_task_json (tr_task_json row) (tr_contract_json row) = Inr tj"
  shows "wf_inv issued (settle tid (\<lambda>r. r\<lparr>tr_status := T_QUEUED, tr_retry_at := None, tr_task_json := tj\<rparr>)
         TASK_RETRY_SCHEDULED (ManualRequeuePayload tid s) run eid oc cr st)"
proof -
  have ok: "row_ok (lease_of tid st) row" using inv row by (auto simp: wf_inv_def rows_inv_def)
  with queued_task_json_stored [OF _ tj] dead
  have "row_ok None (row\<lparr>tr_status := T_QUEUED, tr_retry_at := None, tr_task_json := tj\<rparr>)"
    by (auto simp: row_ok_def engine_statuses_def stored_ok_def)
  then show ?thesis by (intro wf_inv_settle [OF inv row new]) auto
qed

lemma disposition_status_engine: "fd_status (disposition c outcome a cat) \<in> set engine_statuses"
  "fd_status (disposition c outcome a cat) \<noteq> T_LEASED" "fd_status (disposition c outcome a cat) \<noteq> T_CANCELLED"
  using disposition_status_range [of c outcome a cat] by (auto simp: engine_statuses_def)

lemma retrying_attempt:
  assumes "decode_contract (tr_contract_json row) = Inr c"
    and "fd_retrying (disposition c outcome a cat)"
  shows "a < max_attempts_of row"
  using assms
  by (auto simp: disposition_retrying_iff max_attempts_of_def elim!: decide_failure_retryD)

lemma wf_inv_applied:
  assumes inv: "wf_inv issued st" and row: "task_of (tl_task_id l) st = Some row" and new: "new_event (uid 0) st"
    and lease: "lease_of (tl_task_id l) st = Some r" and c: "decode_contract (tr_contract_json row) = Inr c"
    and app: "applied st l cm clk uid row c ra st'" and tid: "cm_task_id cm = tl_task_id l"
  shows "wf_inv issued st'"
proof -
  have ok: "row_ok (Some r) row" using inv row lease rows_invD(1) [of st "tl_task_id l" row] by (simp add: wf_inv_def)
  then have a: "tr_attempt row = tr_fence_seq row" "1 \<le> tr_fence_seq row" "tr_status row = T_LEASED"
    by (auto simp: row_ok_def)
  let ?plan = "disposition c (cm_outcome cm) (tr_attempt row) (cm_failure_category cm)"
  have att: "(if tr_attempt row = 0 then 1 else tr_attempt row) = tr_attempt row" using a by simp
  from app have db: "db st' = db (settle (tl_task_id l) (\<lambda>r. r\<lparr>tr_status := fd_status ?plan, tr_retry_at := ra\<rparr>)
            (if fd_retrying ?plan then TASK_RETRY_SCHEDULED else TASK_COMPLETED)
            (completion_payload ?plan cm (tr_attempt row) ra) (tr_run_id row) (uid 0) (clk 1) (clk 2) st)"
    and ra: "ra \<noteq> None \<Longrightarrow> fd_retrying ?plan"
    by (auto simp: applied_def Let_def att split: if_splits)
  have ok1: "row_ok None (row\<lparr>tr_status := fd_status ?plan, tr_retry_at := ra\<rparr>)"
    using ok ra disposition_status_engine [of c "cm_outcome cm" "tr_attempt row" "cm_failure_category cm"] a
      disposition_status_iff [of c "cm_outcome cm" "tr_attempt row" "cm_failure_category cm"]
    by (auto simp: row_ok_def stored_ok_def)
  have p1: "\<not> leased_event x (completion_payload ?plan cm (tr_attempt row) ra)" for x
    by (simp add: completion_payload_def)
  have p2: "(\<forall>x. retry_attempt x (completion_payload ?plan cm (tr_attempt row) ra) = []) \<or>
      (\<exists>cat ra'. completion_payload ?plan cm (tr_attempt row) ra =
           FailureRetryPayload (tl_task_id l) (tr_fence_seq row + 1) cat ra' \<and> 1 \<le> tr_fence_seq row \<and>
         tr_fence_seq row + 1 \<le> max_attempts_of row \<and> tr_status row = T_LEASED)"
    using retrying_attempt [OF c, of "cm_outcome cm" "tr_attempt row" "cm_failure_category cm"] a tid
    by (cases "fd_retrying ?plan") (auto simp: completion_payload_def)
  have "wf_inv issued (settle (tl_task_id l) (\<lambda>r. r\<lparr>tr_status := fd_status ?plan, tr_retry_at := ra\<rparr>)
            (if fd_retrying ?plan then TASK_RETRY_SCHEDULED else TASK_COMPLETED)
            (completion_payload ?plan cm (tr_attempt row) ra) (tr_run_id row) (uid 0) (clk 1) (clk 2) st)"
    by (rule wf_inv_settle [OF inv row new]; (rule ok1 p1 p2)?) simp_all
  then show ?thesis by (rule wf_inv_db [OF db [symmetric]])
qed

lemma wf_inv_inserted:
  assumes inv: "wf_inv issued st" and absent: "task_of (rt_id t) st = None"
    and key: "\<not> idempotency_exists t st" and ok: "cmd_ok (Submit t c) s"
  shows "wf_inv issued (inserted dg t c clk st)"
proof -
  let ?st = "inserted dg t c clk st"
  let ?row = "\<lparr>tr_task_id = rt_id t, tr_run_id = rt_run_id t, tr_idempotency_key = rt_idempotency_key t,
         tr_attempt = rt_attempt t, tr_status = rt_status t, tr_assigned_agent_id = rt_assigned_agent_id t,
         tr_task_json = encode_research_task t, tr_contract_json = encode_contract c,
         tr_cancelled = False, tr_created_at = clk 0, tr_kind = rt_kind t, tr_partition = rt_partition t,
         tr_required_capability = rt_required_capability t, tr_fence_seq = 0, tr_retry_at = None\<rparr>"
  have "is_uuid4 (rt_id t)" using ok by (simp add: valid_task_def)
  then have "rt_id t \<noteq> ''''" by (auto simp: is_uuid4_def)
  have t: "task_of x ?st = (if x = rt_id t then Some ?row else task_of x st)" for x
    using absent by (auto simp: inserted_def task_of_def row_of_append row_of_Cons split: option.splits)
  have l: "lease_of x ?st = lease_of x st" for x by (simp add: inserted_def lease_of_def)
  have e: "deliveries_of x ?st = deliveries_of x st" "retries_of x ?st = retries_of x st" for x
    by (simp_all add: inserted_def deliveries_of_def retries_of_def)
  have free: "lease_of (rt_id t) st = None" using inv absent by (auto simp: wf_inv_def rows_inv_def)
  have "row_ok None ?row"
    using ok \<open>rt_id t \<noteq> ''''\<close> by (auto simp: row_ok_def engine_statuses_def stored_ok_def)
  moreover have "rt_id t \<notin> tr_task_id ` set (wf_tasks st)"
    using absent by (simp add: task_of_def row_of_None_iff)
  ultimately have "rows_inv ?st"
    using inv free unfolding wf_inv_def rows_inv_def t l by (auto simp: inserted_def)
  moreover have "issued_inv issued ?st"
    using inv absent unfolding wf_inv_def issued_inv_def t l by fastforce
  moreover have "events_inv ?st"
  proof -
    have ev: "events_inv st" using inv by (simp add: wf_inv_def)
    then have "deliveries_of (rt_id t) st = 0 \<and> retries_of (rt_id t) st = []"
      using absent unfolding events_inv_def by (metis events_ok.simps(1))
    with ev show ?thesis unfolding events_inv_def t e by (auto simp: row_events_ok_def)
  qed
  moreover have "idem_inv ?st"
    using inv key
    by (auto simp: wf_inv_def idem_inv_def inserted_def List.map_filter_simps List.map_filter_def
        idempotency_exists_def row_of_None_iff split: option.splits)
  ultimately show ?thesis by (simp add: wf_inv_def)
qed

section \<open>The loops\<close>

definition live_row :: "task_row \<Rightarrow> bool" where
  "live_row r = (\<not> tr_cancelled r \<and> \<not> is_terminal (tr_status r) task_terminal)"

lemma task_of_cancel_row:
  "task_of x (cancel_row tid run eid oc cr st) =
     (if x = tid then map_option (\<lambda>r. r\<lparr>tr_cancelled := True, tr_status := T_CANCELLED\<rparr>) (task_of x st)
      else task_of x st)"
  "lease_of x (cancel_row tid run eid oc cr st) = (if x = tid then None else lease_of x st)"
  by (simp_all add: cancel_row_settle task_of_settle)

lemma task_of_recover_one:
  "task_of x (recover_one tid run eid oc cr st) =
     (if x = tid then map_option (\<lambda>r. r\<lparr>tr_status := T_QUEUED\<rparr>) (task_of x st) else task_of x st)"
  "lease_of x (recover_one tid run eid oc cr st) = (if x = tid then None else lease_of x st)"
  by (simp_all add: recover_one_settle task_of_settle)

lemma cancel_rows_result:
  assumes "cancel_rows rows run i clk uid st = (n, st')"
  shows "n = i + length (filter live_row rows)"
    and "task_of x st' = (if x \<in> tr_task_id ` set (filter live_row rows)
           then map_option (\<lambda>r. r\<lparr>tr_cancelled := True, tr_status := T_CANCELLED\<rparr>) (task_of x st)
           else task_of x st)"
    and "lease_of x st' = (if x \<in> tr_task_id ` set (filter live_row rows) then None else lease_of x st)"
  using assms
proof (induction rows arbitrary: i st)
  case (Cons row rows)
  { case 1
    show ?case
    proof (cases "live_row row")
      case True
      with 1 have "cancel_rows rows run (Suc i) clk uid
          (cancel_row (tr_task_id row) run (uid i) (clk (2 * i)) (clk (2 * i + 1)) st) = (n, st')"
        by (simp add: live_row_def)
      from Cons.IH(1) [OF this] True show ?thesis by simp
    next
      case False
      with 1 have "cancel_rows rows run i clk uid st = (n, st')" by (auto simp: live_row_def split: if_splits)
      from Cons.IH(1) [OF this] False show ?thesis by simp
    qed }
  { case 2
    show ?case
    proof (cases "live_row row")
      case True
      with 2 have "cancel_rows rows run (Suc i) clk uid
          (cancel_row (tr_task_id row) run (uid i) (clk (2 * i)) (clk (2 * i + 1)) st) = (n, st')"
        by (simp add: live_row_def)
      from Cons.IH(2) [OF this] True show ?thesis
        by (cases "task_of x st") (auto simp: task_of_cancel_row)
    next
      case False
      with 2 have "cancel_rows rows run i clk uid st = (n, st')" by (auto simp: live_row_def split: if_splits)
      from Cons.IH(2) [OF this] False show ?thesis by simp
    qed }
  { case 3
    show ?case
    proof (cases "live_row row")
      case True
      with 3 have "cancel_rows rows run (Suc i) clk uid
          (cancel_row (tr_task_id row) run (uid i) (clk (2 * i)) (clk (2 * i + 1)) st) = (n, st')"
        by (simp add: live_row_def)
      from Cons.IH(3) [OF this] True show ?thesis by (auto simp: task_of_cancel_row)
    next
      case False
      with 3 have "cancel_rows rows run i clk uid st = (n, st')" by (auto simp: live_row_def split: if_splits)
      from Cons.IH(3) [OF this] False show ?thesis by simp
    qed }
qed simp_all

lemma cancel_rows_inv:
  assumes "cancel_rows rows run i clk uid st = (n, st')" and "wf_inv issued st"
    and "\<And>r. r \<in> set rows \<Longrightarrow> task_of (tr_task_id r) st \<noteq> None"
    and "\<And>j. i \<le> j \<Longrightarrow> new_event (uid j) st" and "inj uid"
  shows "wf_inv issued st'"
  using assms
proof (induction rows arbitrary: i st)
  case (Cons row rows)
  show ?case
  proof (cases "live_row row")
    case True
    let ?st = "cancel_row (tr_task_id row) run (uid i) (clk (2 * i)) (clk (2 * i + 1)) st"
    from Cons.prems(3) [of row] obtain r where r: "task_of (tr_task_id row) st = Some r" by auto
    have "wf_inv issued ?st"
      by (rule wf_inv_cancel_row [OF Cons.prems(2) r]) (use Cons.prems(4) in simp)
    moreover have "cancel_rows rows run (Suc i) clk uid ?st = (n, st')"
      using Cons.prems(1) True by (simp add: live_row_def)
    moreover have "new_event (uid j) ?st" if "Suc i \<le> j" for j
      using Cons.prems(4) [of j] that inj_eq [OF Cons.prems(5), of j i] by (simp add: cancel_row_settle new_event_settle)
    moreover have "task_of (tr_task_id q) ?st \<noteq> None" if "q \<in> set rows" for q
      using Cons.prems(3) [of q] that by (auto simp: task_of_cancel_row)
    ultimately show ?thesis using Cons.IH [of "Suc i" ?st] Cons.prems(5) by blast
  next
    case False
    then have "cancel_rows rows run i clk uid st = (n, st')"
      using Cons.prems(1) by (auto simp: live_row_def split: if_splits)
    with Cons show ?thesis by auto
  qed
qed simp

lemma recover_rows_result:
  assumes "\<And>r. r \<in> set rs \<Longrightarrow> task_of (lr_task_id r) st \<noteq> None"
    and "recover_rows rs i clk uid st = (res, st')"
  shows "res = Inr (i + length rs)"
    and "task_of x st' = (if x \<in> lr_task_id ` set rs
           then map_option (\<lambda>r. r\<lparr>tr_status := T_QUEUED\<rparr>) (task_of x st) else task_of x st)"
    and "lease_of x st' = (if x \<in> lr_task_id ` set rs then None else lease_of x st)"
  using assms
proof (induction rs arbitrary: i st)
  case (Cons r rs)
  { case 1
    then obtain row where row: "task_of (lr_task_id r) st = Some row" by fastforce
    let ?st = "recover_one (lr_task_id r) (tr_run_id row) (uid i) (clk (2 * i + 1)) (clk (2 * i + 2)) st"
    have "task_of (lr_task_id q) ?st \<noteq> None" if "q \<in> set rs" for q
      using 1(1) [of q] that by (auto simp: task_of_recover_one)
    from Cons.IH(1) [OF this, of "Suc i"] 1(2) row show ?case by simp }
  { case 2
    then obtain row where row: "task_of (lr_task_id r) st = Some row" by fastforce
    let ?st = "recover_one (lr_task_id r) (tr_run_id row) (uid i) (clk (2 * i + 1)) (clk (2 * i + 2)) st"
    have "task_of (lr_task_id q) ?st \<noteq> None" if "q \<in> set rs" for q
      using 2(1) [of q] that by (auto simp: task_of_recover_one)
    from Cons.IH(2) [OF this] 2(2) row show ?case
      by (cases "task_of x st") (auto simp: task_of_recover_one) }
  { case 3
    then obtain row where row: "task_of (lr_task_id r) st = Some row" by fastforce
    let ?st = "recover_one (lr_task_id r) (tr_run_id row) (uid i) (clk (2 * i + 1)) (clk (2 * i + 2)) st"
    have "task_of (lr_task_id q) ?st \<noteq> None" if "q \<in> set rs" for q
      using 3(1) [of q] that by (auto simp: task_of_recover_one)
    from Cons.IH(3) [OF this] 3(2) row show ?case by (auto simp: task_of_recover_one) }
qed simp_all

lemma recover_rows_inv:
  assumes "recover_rows rs i clk uid st = (res, st')" and "wf_inv issued st"
    and "\<And>r. r \<in> set rs \<Longrightarrow> lease_of (lr_task_id r) st = Some r" and "distinct (map lr_task_id rs)"
    and "\<And>j. i \<le> j \<Longrightarrow> new_event (uid j) st" and "inj uid"
  shows "wf_inv issued st'"
  using assms
proof (induction rs arbitrary: i st)
  case (Cons r rs)
  from Cons.prems(3) [of r] Cons.prems(2) obtain row where row: "task_of (lr_task_id r) st = Some row"
    by (auto simp: wf_inv_def rows_inv_def)
  let ?st = "recover_one (lr_task_id r) (tr_run_id row) (uid i) (clk (2 * i + 1)) (clk (2 * i + 2)) st"
  have "wf_inv issued ?st"
    by (rule wf_inv_recover_one [OF Cons.prems(2) row]) (use Cons.prems(3,5) in auto)
  moreover have "recover_rows rs (Suc i) clk uid ?st = (res, st')" using Cons.prems(1) row by simp
  moreover have "new_event (uid j) ?st" if "Suc i \<le> j" for j
    using Cons.prems(5) [of j] that inj_eq [OF Cons.prems(6), of j i] by (simp add: recover_one_settle new_event_settle)
  moreover have "lease_of (lr_task_id q) ?st = Some q" if "q \<in> set rs" for q
    using Cons.prems(3) [of q] Cons.prems(4) that by (auto simp: task_of_recover_one image_iff)
  ultimately show ?case using Cons.IH [of "Suc i" ?st] Cons.prems(4,6) by simp
qed simp

lemma mark_rows_events:
  "map oe_payload (mark_rows ids i clk rows) = map oe_payload rows"
  "map oe_event_id (mark_rows ids i clk rows) = map oe_event_id rows"
  by (induction ids i clk rows rule: mark_rows.induct) (auto simp: upd_row_def)

lemma mark_outbox_simps:
  "task_of x (mark_outbox_published ids clk st) = task_of x st"
  "lease_of x (mark_outbox_published ids clk st) = lease_of x st"
  "deliveries_of x (mark_outbox_published ids clk st) = deliveries_of x st"
  "retries_of x (mark_outbox_published ids clk st) = retries_of x st"
proof -
  show "task_of x (mark_outbox_published ids clk st) = task_of x st"
    "lease_of x (mark_outbox_published ids clk st) = lease_of x st"
    by (simp_all add: mark_outbox_published_def task_of_def lease_of_def)
  have same: "map oe_payload (wf_outbox (mark_outbox_published ids clk st)) = map oe_payload (wf_outbox st)"
    by (simp add: mark_outbox_published_def mark_rows_events)
  have "deliveries_of x s = length (filter (leased_event x) (map oe_payload (wf_outbox s)))"
    "retries_of x s = concat (map (retry_attempt x) (map oe_payload (wf_outbox s)))" for s
    by (simp_all add: deliveries_of_def retries_of_def filter_map)
  with same show "deliveries_of x (mark_outbox_published ids clk st) = deliveries_of x st"
    "retries_of x (mark_outbox_published ids clk st) = retries_of x st"
    by metis+
qed

lemma wf_inv_mark:
  assumes "wf_inv issued st"
  shows "wf_inv issued (mark_outbox_published ids clk st)"
  using assms unfolding wf_inv_def rows_inv_def issued_inv_def events_inv_def mark_outbox_simps
  by (simp add: mark_outbox_published_def idem_inv_def)

section \<open>Reachable stores\<close>

lemma wf_inv_exec:
  assumes inv: "wf_inv issued st" and ok: "cmd_ok cmd (issued, st)" and fresh: "fresh_uids uid (issued, st)"
    and exec: "wf_exec dg cmd clk uid (issued, st) = (issued', st')"
  shows "wf_inv issued' st'"
proof (cases cmd)
  case (Submit t c)
  obtain res s where s: "submit dg t c clk st = (res, s)" by fastforce
  with exec Submit have eq: "issued' = issued" "st' = s" by auto
  have "idem_inv st" using inv by (simp add: wf_inv_def)
  with s show ?thesis
  proof (cases rule: submit_effect)
    case same
    with inv eq show ?thesis by (auto intro: wf_inv_db [OF sym])
  next
    case new
    have "wf_inv issued (inserted dg t c clk st)"
      using wf_inv_inserted [OF inv new(2,3)] ok Submit by simp
    then show ?thesis using eq by (auto intro: wf_inv_db [OF new(4) [symmetric]])
  qed
next
  case (Acquire tid)
  obtain res s where s: "acquire_lease tid clk uid st = (res, s)" by fastforce
  from s show ?thesis
  proof (cases rule: acquire_effect)
    case same
    show ?thesis
    proof (cases res)
      case (Inl e)
      with s exec Acquire same inv show ?thesis by (auto intro: wf_inv_db [OF sym])
    next
      case (Inr l)
      then obtain r where "lease_of tid st = Some r" "lease_from_row r = Inr l" using same by blast
      then have "wf_inv (l # issued) st" by (rule wf_inv_same_issued [OF inv])
      with Inr s exec Acquire same show ?thesis by (auto intro: wf_inv_db [OF sym])
    qed
  next
    case (new row l)
    have "tr_status row \<noteq> T_CANCELLED" using new by (auto simp: task_terminal_def is_terminal_def)
    with wf_inv_delivered [OF inv _ _ fresh] new s exec Acquire show ?thesis by auto
  qed
next
  case (Claim q)
  obtain res s where s: "claim_next q clk uid st = (res, s)" by fastforce
  have dist: "distinct (map tr_task_id (wf_tasks st))" using inv by (simp add: wf_inv_def rows_inv_def)
  from s dist show ?thesis
  proof (cases rule: claim_effect)
    case same
    with s exec Claim inv show ?thesis
      by (cases res) (auto intro: wf_inv_db [OF sym] split: option.splits)
  next
    case (new row l)
    have "tr_status row \<noteq> T_CANCELLED" using new by (auto simp: claimable_def CLAIMABLE_STATUSES_def)
    with wf_inv_delivered [OF inv _ _ fresh] new s exec Claim show ?thesis by auto
  qed
next
  case (Heartbeat l)
  obtain res s where s: "heartbeat l clk uid st = (res, s)" by fastforce
  from s show ?thesis
  proof (cases rule: heartbeat_effect)
    case same
    with s exec Heartbeat inv show ?thesis by (cases res) (auto intro: wf_inv_db [OF sym])
  next
    case (beat r m)
    have "l \<in> set issued" using ok Heartbeat by simp
    from wf_inv_heartbeat [OF inv this beat(2,3) fresh_uidsD(1) [OF fresh, of 0]]
    have "wf_inv (m # issued) s" unfolding beat(4) by (rule wf_inv_db [OF beat(5) [symmetric]])
    with beat(1) s exec Heartbeat show ?thesis by simp
  qed
next
  case (Renew tid lid f w)
  obtain res s where s: "renew_lease tid lid f w clk uid st = (res, s)" by fastforce
  with exec Renew have eq: "issued' = issued" "st' = s" by auto
  from s show ?thesis
    by (cases rule: renew_effect) (use eq inv wf_inv_renew [OF inv] in \<open>auto intro: wf_inv_db [OF sym]\<close>)
next
  case (Complete l cm)
  obtain res s where s: "complete l cm clk uid st = (res, s)" by fastforce
  with exec Complete have eq: "issued' = issued" "st' = s" by auto
  have tid: "cm_task_id cm = tl_task_id l" using ok Complete by simp
  from s tid show ?thesis
  proof (cases rule: complete_effect)
    case same
    with eq inv show ?thesis by (auto intro: wf_inv_db [OF sym])
  next
    case (fin row r c ra)
    with wf_inv_applied [OF inv fin(2) fresh_uidsD(2) [OF fresh] fin(4,7,8) tid] eq show ?thesis by simp
  qed
next
  case (Cancel tid)
  show ?thesis
  proof (cases "\<exists>row. task_of tid st = Some row \<and> live_row row \<and> \<not> ab_closed st")
    case True
    then obtain row where row: "task_of tid st = Some row" "live_row row" "\<not> ab_closed st" by blast
    have "wf_inv issued (cancel_row tid (tr_run_id row) (uid 0) (clk 0) (clk 1) st)"
      using wf_inv_cancel_row [OF inv row(1) fresh_uidsD(2) [OF fresh]] .
    with row exec Cancel show ?thesis
      by (auto simp: cancel_def cancel_task_def live_row_def intro: wf_inv_db [OF sym, OF db_log(1)])
  next
    case False
    then have "db st' = db st" "issued' = issued"
      using exec Cancel by (auto simp: cancel_def cancel_task_def live_row_def split: option.splits if_splits)
    with inv show ?thesis by (auto intro: wf_inv_db [OF sym])
  qed
next
  case (CancelRun run)
  obtain n s where s: "cancel_run_tasks run clk uid st = (n, s)" by fastforce
  have "task_of (tr_task_id r) st \<noteq> None" if "r \<in> set (filter (\<lambda>r. tr_run_id r = run) (wf_tasks st))" for r
    using that inv task_of_in [of st r] by (auto simp: wf_inv_def rows_inv_def)
  from cancel_rows_inv [OF s [unfolded cancel_run_tasks_def] inv this] fresh
  have "wf_inv issued s" by (auto simp: fresh_uids_def)
  with inv s exec CancelRun show ?thesis
    by (auto simp: cancel_run_def split: if_splits intro: wf_inv_db [OF sym, OF db_log(3)])
next
  case Recover
  let ?rs = "filter (recoverable (clk 0) st) (wf_leases st)"
  obtain res s where s: "recover_rows ?rs 0 clk uid st = (res, s)" by fastforce
  have dist: "distinct (map lr_task_id (wf_leases st))" using inv by (simp add: wf_inv_def rows_inv_def)
  then have "lease_of (lr_task_id r) st = Some r" if "r \<in> set ?rs" for r
    using that lease_of_in [of st r] by auto
  moreover have "distinct (map lr_task_id ?rs)" using dist by (rule distinct_map_filter)
  ultimately have "wf_inv issued s"
    using recover_rows_inv [OF s inv] fresh by (auto simp: fresh_uids_def)
  with inv s exec Recover show ?thesis
    by (cases res) (auto simp: recover_expired_leases_def split: if_splits intro: wf_inv_db [OF sym, OF db_log(2)])
next
  case (Requeue tid)
  obtain res s where s: "requeue tid clk uid st = (res, s)" by fastforce
  with exec Requeue have eq: "issued' = issued" "st' = s" by auto
  from s show ?thesis
  proof (cases rule: requeue_effect)
    case same
    with eq inv show ?thesis by (auto intro: wf_inv_db [OF sym])
  next
    case (restored row tj)
    from wf_inv_requeue [OF inv restored(2) fresh_uidsD(2) [OF fresh] restored(3,4)] eq
    show ?thesis by (auto intro: wf_inv_db [OF restored(5) [symmetric]])
  qed
next
  case (MarkPublished ids)
  with exec wf_inv_mark [OF inv] show ?thesis by auto
qed

lemma wf_inv_empty: "empty_store st \<Longrightarrow> wf_inv [] st"
  by (simp add: empty_store_def wf_inv_def rows_inv_def issued_inv_def events_inv_def idem_inv_def
      task_of_def lease_of_def deliveries_of_def retries_of_def List.map_filter_simps)

lemma wf_reach_inv: "wf_reach dg s \<Longrightarrow> wf_inv (fst s) (snd s)"
proof (induction rule: wf_reach.induct)
  case (reach_call s cmd uid clk)
  obtain issued st where s: "s = (issued, st)" by (cases s)
  obtain issued' st' where e: "wf_exec dg cmd clk uid s = (issued', st')" by fastforce
  show ?case using wf_inv_exec [of issued st cmd uid dg clk issued' st'] reach_call e by (simp add: s)
qed (auto simp: wf_inv_empty intro: wf_inv_db [OF sym])

end
