(* ===== verification/Workflow_History.thy ===== *)
theory Workflow_History
  imports Workflow_System
begin

text \<open>
  How the rows of the engine evolve along a history: the state of a task moves along paths of
  the domain table of \<^verbatim>\<open>task_state.py\<close>, the fence generation never goes back, the identity of
  a row never changes and a terminal row is frozen except under a manual requeue. The second
  part is a concrete history on which the properties of the engine are evaluated.
\<close>

lemma distinct_filter_key:
  "distinct (map key xs) \<Longrightarrow> length (filter (\<lambda>x. key x = k) xs) \<le> 1"
proof (induction xs)
  case (Cons x xs)
  then show ?case
    by (cases "key x = k") (auto simp: filter_empty_conv image_iff)
qed simp

section \<open>How task rows evolve\<close>

definition same_identity :: "task_row \<Rightarrow> task_row \<Rightarrow> bool" where
  "same_identity r r' =
     (tr_task_id r' = tr_task_id r \<and> tr_run_id r' = tr_run_id r \<and>
      tr_idempotency_key r' = tr_idempotency_key r \<and> tr_contract_json r' = tr_contract_json r \<and>
      tr_created_at r' = tr_created_at r \<and> tr_kind r' = tr_kind r)"

definition row_evolves :: "bool \<Rightarrow> task_row \<Rightarrow> task_row \<Rightarrow> bool" where
  "row_evolves manual r r' =
     (path task_transitions (tr_status r) (tr_status r') \<and> tr_fence_seq r \<le> tr_fence_seq r' \<and>
      same_identity r r' \<and> (is_terminal (tr_status r) task_terminal \<longrightarrow> manual \<or> r' = r))"

definition rows_evolve :: "bool \<Rightarrow> wf_state \<Rightarrow> wf_state \<Rightarrow> bool" where
  "rows_evolve manual st st' =
     (\<forall>tid r. task_of tid st = Some r \<longrightarrow> (\<exists>r'. task_of tid st' = Some r' \<and> row_evolves manual r r'))"

lemma row_evolves_refl [simp]: "row_evolves m r r"
  by (simp add: row_evolves_def same_identity_def path_refl)

lemma rows_evolve_db: "db st' = db st \<Longrightarrow> rows_evolve m st st'"
  by (auto simp: rows_evolve_def task_of_db [of st' st])

lemma rows_evolve_one:
  assumes "\<And>x. task_of x st' = (if x = tid then map_option g (task_of x st) else task_of x st)"
    and "\<And>r. task_of tid st = Some r \<Longrightarrow> row_evolves m r (g r)"
  shows "rows_evolve m st st'"
  using assms by (auto simp: rows_evolve_def)

lemma task_paths:
  "path task_transitions T_CREATED T_LEASED" "path task_transitions T_QUEUED T_LEASED"
  "path task_transitions T_RETRY_SCHEDULED T_LEASED"
  "path task_transitions T_LEASED T_SUCCEEDED" "path task_transitions T_LEASED T_FAILED"
  "path task_transitions T_LEASED T_DEAD_LETTER" "path task_transitions T_LEASED T_RETRY_SCHEDULED"
  "path task_transitions T_LEASED T_QUEUED" "path task_transitions T_DEAD_LETTER T_QUEUED"
  "path task_transitions T_CREATED T_CANCELLED" "path task_transitions T_QUEUED T_CANCELLED"
  "path task_transitions T_LEASED T_CANCELLED" "path task_transitions T_RETRY_SCHEDULED T_CANCELLED"
proof -
  note run = path_iff_run [THEN iffD2, OF exI]
  show "path task_transitions T_CREATED T_LEASED" by (rule run [of _ _ "[TE_ENQUEUE, TE_LEASE]"]) code_simp
  show "path task_transitions T_QUEUED T_LEASED" by (rule run [of _ _ "[TE_LEASE]"]) code_simp
  show "path task_transitions T_RETRY_SCHEDULED T_LEASED"
    by (rule run [of _ _ "[TE_ENQUEUE, TE_LEASE]"]) code_simp
  show "path task_transitions T_LEASED T_SUCCEEDED" by (rule run [of _ _ "[TE_START, TE_SUCCEED]"]) code_simp
  show "path task_transitions T_LEASED T_FAILED" by (rule run [of _ _ "[TE_START, TE_FAIL]"]) code_simp
  show "path task_transitions T_LEASED T_DEAD_LETTER"
    by (rule run [of _ _ "[TE_START, TE_SCHEDULE_RETRY, TE_DEAD_LETTER]"]) code_simp
  show "path task_transitions T_LEASED T_RETRY_SCHEDULED"
    by (rule run [of _ _ "[TE_START, TE_SCHEDULE_RETRY]"]) code_simp
  show "path task_transitions T_LEASED T_QUEUED" by (rule run [of _ _ "[TE_EXPIRE_LEASE]"]) code_simp
  show "path task_transitions T_DEAD_LETTER T_QUEUED" by (rule run [of _ _ "[TE_REQUEUE]"]) code_simp
  show "path task_transitions T_CREATED T_CANCELLED" "path task_transitions T_QUEUED T_CANCELLED"
    "path task_transitions T_LEASED T_CANCELLED" "path task_transitions T_RETRY_SCHEDULED T_CANCELLED"
    by (rule run [of _ _ "[TE_CANCEL]"], code_simp)+
qed

lemma row_evolves_deliver:
  assumes inv: "wf_inv issued st" and "task_of tid st = Some row" and "lease_of tid st = None"
    and live: "\<not> is_terminal (tr_status row) task_terminal" and "f = tr_fence_seq row + 1"
  shows "row_evolves m row (row\<lparr>tr_status := T_LEASED, tr_fence_seq := f, tr_attempt := f,
      tr_retry_at := None, tr_task_json := tj\<rparr>)"
proof -
  have "row_ok None row" using assms(1-3) rows_invD(1) [of st tid row] by (simp add: wf_inv_def)
  then have "tr_status row \<in> {T_CREATED, T_QUEUED, T_RETRY_SCHEDULED}"
    using live by (auto simp: row_ok_def engine_statuses_def is_terminal_def task_terminal_def)
  then show ?thesis
    using assms(5) live task_paths by (auto simp: row_evolves_def same_identity_def)
qed

lemma row_evolves_cancel:
  assumes "wf_inv issued st" and "task_of tid st = Some row" and "live_row row"
  shows "row_evolves m row (row\<lparr>tr_cancelled := True, tr_status := T_CANCELLED\<rparr>)"
proof -
  have "row_ok (lease_of tid st) row" using assms by (auto simp: wf_inv_def rows_inv_def)
  then have "tr_status row \<in> {T_CREATED, T_QUEUED, T_LEASED, T_RETRY_SCHEDULED}"
    using assms(3) by (auto simp: live_row_def row_ok_def engine_statuses_def is_terminal_def task_terminal_def)
  then show ?thesis
    using assms(3) task_paths by (auto simp: row_evolves_def same_identity_def live_row_def)
qed

lemma row_evolves_leased:
  assumes "tr_status row = T_LEASED" and "s \<in> {T_SUCCEEDED, T_FAILED, T_DEAD_LETTER, T_RETRY_SCHEDULED, T_QUEUED}"
    and "tr_status (g row) = s" and "tr_fence_seq (g row) = tr_fence_seq row" and "same_identity row (g row)"
  shows "row_evolves m row (g row)"
  using assms task_paths by (auto simp: row_evolves_def is_terminal_def task_terminal_def)

lemma rows_evolve_delivered:
  assumes inv: "wf_inv issued st" and del: "delivered st row l clk uid st'"
    and live: "\<not> is_terminal (tr_status row) task_terminal"
  shows "rows_evolve m st st'"
proof -
  from del obtain tj where tj: "task_of (tl_task_id l) st = Some row" "lease_of (tl_task_id l) st = None"
      "tl_fence l = tr_fence_seq row + 1"
      "db st' = db (deliver l (clk 1 + wf_lease_ttl st) (clk 1) tj (tr_run_id row) (uid 1) (clk 2) (clk 3) st)"
    by (auto simp: delivered_def)
  show ?thesis
    by (rule rows_evolve_one [OF trans [OF task_of_db [OF tj(4)] task_of_deliver]])
       (use tj row_evolves_deliver [OF inv tj(1,2) live tj(3)] in auto)
qed

lemma task_of_inserted: "task_of x st = Some r \<Longrightarrow> task_of x (inserted dg t c clk st) = Some r"
  by (simp add: inserted_def task_of_def row_of_append)

lemma rows_evolve_submit:
  assumes inv: "wf_inv issued st" and ok: "cmd_ok (Submit t c) (issued, st)"
    and exec: "wf_exec dg (Submit t c) clk uid (issued, st) = (issued', st')"
  shows "rows_evolve False st st'"
proof -
  obtain res s where s: "submit dg t c clk st = (res, s)" by fastforce
  with exec have eq: "st' = s" by auto
  have "idem_inv st" using inv by (simp add: wf_inv_def)
  with s show ?thesis
  proof (cases rule: submit_effect)
    case same
    then show ?thesis using eq by (simp add: rows_evolve_db)
  next
    case new
    have t: "task_of x s = task_of x (inserted dg t c clk st)" for x by (rule task_of_db [OF new(4)])
    show ?thesis unfolding rows_evolve_def eq t using task_of_inserted row_evolves_refl by blast
  qed
qed

lemma rows_evolve_acquire:
  assumes inv: "wf_inv issued st" and ok: "cmd_ok (Acquire tid) (issued, st)"
    and exec: "wf_exec dg (Acquire tid) clk uid (issued, st) = (issued', st')"
  shows "rows_evolve False st st'"
proof -
  obtain res s where s: "acquire_lease tid clk uid st = (res, s)" by fastforce
  with exec have eq: "st' = s" by (auto split: sum.splits)
  from s show ?thesis
    by (cases rule: acquire_effect) (use eq rows_evolve_delivered [OF inv] in \<open>auto simp: rows_evolve_db\<close>)
qed

lemma rows_evolve_claim:
  assumes inv: "wf_inv issued st" and ok: "cmd_ok (Claim q) (issued, st)"
    and exec: "wf_exec dg (Claim q) clk uid (issued, st) = (issued', st')"
  shows "rows_evolve False st st'"
proof -
  obtain res s where s: "claim_next q clk uid st = (res, s)" by fastforce
  with exec have eq: "st' = s" by (auto split: sum.splits option.splits)
  have dist: "distinct (map tr_task_id (wf_tasks st))" using inv by (simp add: wf_inv_def rows_inv_def)
  from s dist show ?thesis
  proof (cases rule: claim_effect)
    case same
    then show ?thesis using eq by (simp add: rows_evolve_db)
  next
    case (new row l)
    then have "\<not> is_terminal (tr_status row) task_terminal"
      by (auto simp: claimable_def CLAIMABLE_STATUSES_def is_terminal_def task_terminal_def)
    then show ?thesis using rows_evolve_delivered [OF inv new(7)] eq by simp
  qed
qed

lemma rows_evolve_heartbeat:
  assumes inv: "wf_inv issued st" and ok: "cmd_ok (Heartbeat l) (issued, st)"
    and exec: "wf_exec dg (Heartbeat l) clk uid (issued, st) = (issued', st')"
  shows "rows_evolve False st st'"
proof -
  obtain res s where s: "heartbeat l clk uid st = (res, s)" by fastforce
  with exec have eq: "st' = s" by (auto split: sum.splits)
  from s show ?thesis
    by (cases rule: heartbeat_effect)
       (use eq in \<open>auto simp: rows_evolve_def db_def task_of_def\<close>)
qed

lemma rows_evolve_renew:
  assumes inv: "wf_inv issued st" and ok: "cmd_ok (Renew tid lid f w) (issued, st)"
    and exec: "wf_exec dg (Renew tid lid f w) clk uid (issued, st) = (issued', st')"
  shows "rows_evolve False st st'"
proof -
  obtain res s where s: "renew_lease tid lid f w clk uid st = (res, s)" by fastforce
  with exec have eq: "st' = s" by auto
  from s show ?thesis
    by (cases rule: renew_effect) (use eq in \<open>auto simp: rows_evolve_def db_def task_of_def\<close>)
qed

lemma rows_evolve_complete:
  assumes inv: "wf_inv issued st" and ok: "cmd_ok (Complete l cm) (issued, st)"
    and exec: "wf_exec dg (Complete l cm) clk uid (issued, st) = (issued', st')"
  shows "rows_evolve False st st'"
proof -
  obtain res s where s: "complete l cm clk uid st = (res, s)" by fastforce
  with exec have eq: "st' = s" by auto
  have tid: "cm_task_id cm = tl_task_id l" using ok by simp
  from s tid show ?thesis
  proof (cases rule: complete_effect)
    case same
    then show ?thesis using eq by (simp add: rows_evolve_db)
  next
    case (fin row r c ra)
    let ?plan = "disposition c (cm_outcome cm) (if tr_attempt row = 0 then 1 else tr_attempt row) (cm_failure_category cm)"
    have "tr_status row = T_LEASED" using inv fin(2,4) rows_invD(2) [of st _ row] by (auto simp: wf_inv_def)
    moreover have "task_of x s = (if x = tl_task_id l
        then map_option (\<lambda>r. r\<lparr>tr_status := fd_status ?plan, tr_retry_at := ra\<rparr>) (task_of x st) else task_of x st)" for x
      using fin(8) task_of_db [of s] by (simp add: applied_def Let_def task_of_settle)
    moreover have "fd_status ?plan \<in> {T_SUCCEEDED, T_FAILED, T_DEAD_LETTER, T_RETRY_SCHEDULED, T_QUEUED}"
      using disposition_status_range [of c "cm_outcome cm" _ "cm_failure_category cm"] by blast
    ultimately show ?thesis
      using fin(2) eq
      by (auto intro!: rows_evolve_one [of s "tl_task_id l" _ st] row_evolves_leased simp: same_identity_def)
  qed
qed

lemma rows_evolve_cancel:
  assumes inv: "wf_inv issued st" and ok: "cmd_ok (Cancel tid) (issued, st)"
    and exec: "wf_exec dg (Cancel tid) clk uid (issued, st) = (issued', st')"
  shows "rows_evolve False st st'"
proof -
  show ?thesis
  proof (cases "\<exists>row. task_of tid st = Some row \<and> live_row row \<and> \<not> ab_closed st")
    case True
    then obtain row where row: "task_of tid st = Some row" "live_row row" "\<not> ab_closed st" by blast
    with exec have "task_of x st' = task_of x (cancel_row tid (tr_run_id row) (uid 0) (clk 0) (clk 1) st)" for x
      by (auto simp: cancel_def cancel_task_def live_row_def)
    then show ?thesis
      using row row_evolves_cancel [OF inv row(1,2)]
      by (auto intro!: rows_evolve_one [of st' tid _ st] simp: task_of_cancel_row)
  next
    case False
    then have "db st' = db st"
      using exec by (auto simp: cancel_def cancel_task_def live_row_def split: option.splits if_splits)
    then show ?thesis by (rule rows_evolve_db)
  qed
qed

lemma rows_evolve_cancelrun:
  assumes inv: "wf_inv issued st" and ok: "cmd_ok (CancelRun run) (issued, st)"
    and exec: "wf_exec dg (CancelRun run) clk uid (issued, st) = (issued', st')"
  shows "rows_evolve False st st'"
proof -
  let ?rows = "filter (\<lambda>r. tr_run_id r = run) (wf_tasks st)"
  obtain n s where s: "cancel_rows ?rows run 0 clk uid st = (n, s)" by fastforce
  have t: "task_of x st' = (if ab_closed st then task_of x st else task_of x s)" for x
    using exec s by (auto simp: cancel_run_def cancel_run_tasks_def log_defs task_of_def)
  have in_rows: "r \<in> set (wf_tasks st) \<longleftrightarrow> task_of (tr_task_id r) st = Some r" for r
    using inv by (intro task_of_in) (simp add: wf_inv_def rows_inv_def)
  have step: "\<exists>r'. task_of tid s = Some r' \<and> row_evolves False r r'" if r: "task_of tid st = Some r" for tid r
  proof (cases "tid \<in> tr_task_id ` set (filter live_row ?rows)")
    case True
    then obtain q where q: "q \<in> set (wf_tasks st)" "live_row q" "tid = tr_task_id q" by auto
    with in_rows [of q] r have "q = r" by simp
    with q row_evolves_cancel [OF inv r] True r show ?thesis by (simp add: cancel_rows_result(2) [OF s])
  next
    case False
    then show ?thesis using r by (simp only: cancel_rows_result(2) [OF s]) simp
  qed
  then show ?thesis unfolding rows_evolve_def t by simp
qed

lemma rows_evolve_recover:
  assumes inv: "wf_inv issued st" and ok: "cmd_ok (Recover) (issued, st)"
    and exec: "wf_exec dg (Recover) clk uid (issued, st) = (issued', st')"
  shows "rows_evolve False st st'"
proof -
  let ?rs = "filter (recoverable (clk 0) st) (wf_leases st)"
  obtain res s where s: "recover_rows ?rs 0 clk uid st = (res, s)" by fastforce
  have t: "task_of x st' = (if ab_closed st then task_of x st else task_of x s)" for x
    using exec s by (cases res) (auto simp: recover_expired_leases_def log_defs task_of_def)
  have leases: "lease_of (lr_task_id r) st = Some r" if "r \<in> set (wf_leases st)" for r
    using that inv lease_of_in [of st r] by (simp add: wf_inv_def rows_inv_def)
  have tasks: "task_of (lr_task_id r) st \<noteq> None" if "r \<in> set ?rs" for r
    using leases [of r] that inv by (auto simp: wf_inv_def rows_inv_def)
  have leased: "tr_status row = T_LEASED" if "r \<in> set ?rs" "task_of (lr_task_id r) st = Some row" for r row
    using leases [of r] that inv rows_invD(2) [of st _ row] by (auto simp: wf_inv_def)
  have step: "\<exists>r'. task_of tid s = Some r' \<and> row_evolves False r r'" if r: "task_of tid st = Some r" for tid r
  proof (cases "tid \<in> lr_task_id ` set ?rs")
    case True
    then obtain q where q: "q \<in> set ?rs" "tid = lr_task_id q" by blast
    with r leased have "tr_status r = T_LEASED" by blast
    then have "row_evolves False r (r\<lparr>tr_status := T_QUEUED\<rparr>)"
      by (intro row_evolves_leased [where s = T_QUEUED]) (simp_all add: same_identity_def)
    with True r show ?thesis by (simp only: recover_rows_result(2) [OF tasks s]) simp
  next
    case False
    then show ?thesis using r by (simp only: recover_rows_result(2) [OF tasks s]) simp
  qed
  then show ?thesis unfolding rows_evolve_def t by simp
qed

lemma rows_evolve_requeue:
  assumes inv: "wf_inv issued st" and ok: "cmd_ok (Requeue tid) (issued, st)"
    and exec: "wf_exec dg (Requeue tid) clk uid (issued, st) = (issued', st')"
  shows "rows_evolve True st st'"
proof -
  obtain res s where s: "requeue tid clk uid st = (res, s)" by fastforce
  with exec have eq: "st' = s" by auto
  from s show ?thesis
  proof (cases rule: requeue_effect)
    case same
    then show ?thesis using eq by (simp add: rows_evolve_db)
  next
    case (restored row tj)
    have "row_evolves True row (row\<lparr>tr_status := T_QUEUED, tr_retry_at := None, tr_task_json := tj\<rparr>)"
      using restored(3) task_paths by (simp add: row_evolves_def same_identity_def)
    moreover have "task_of x s = (if x = tid
        then map_option (\<lambda>r. r\<lparr>tr_status := T_QUEUED, tr_retry_at := None, tr_task_json := tj\<rparr>) (task_of x st)
        else task_of x st)" for x
      using task_of_db [OF restored(5)] by (simp add: task_of_settle)
    ultimately show ?thesis
      using restored(2) eq by (auto intro!: rows_evolve_one [of s tid _ st])
  qed
qed

lemma rows_evolve_markpublished:
  assumes inv: "wf_inv issued st" and ok: "cmd_ok (MarkPublished ids) (issued, st)"
    and exec: "wf_exec dg (MarkPublished ids) clk uid (issued, st) = (issued', st')"
  shows "rows_evolve False st st'"
proof -
  from exec show ?thesis by (auto simp: rows_evolve_def mark_outbox_simps)
qed

lemma rows_evolve_exec:
  assumes "wf_inv issued st" and "cmd_ok cmd (issued, st)"
    and "wf_exec dg cmd clk uid (issued, st) = (issued', st')"
  shows "rows_evolve (\<exists>tid. cmd = Requeue tid) st st'"
proof (cases cmd)
  case (Submit t c)
  with assms rows_evolve_submit show ?thesis by auto
next
  case (Acquire tid)
  with assms rows_evolve_acquire show ?thesis by auto
next
  case (Claim q)
  with assms rows_evolve_claim show ?thesis by auto
next
  case (Heartbeat l)
  with assms rows_evolve_heartbeat show ?thesis by auto
next
  case (Renew tid lid f w)
  with assms rows_evolve_renew show ?thesis by auto
next
  case (Complete l cm)
  with assms rows_evolve_complete show ?thesis by auto
next
  case (Cancel tid)
  with assms rows_evolve_cancel show ?thesis by auto
next
  case (CancelRun run)
  with assms rows_evolve_cancelrun show ?thesis by auto
next
  case Recover
  with assms rows_evolve_recover show ?thesis by auto
next
  case (Requeue tid)
  with assms rows_evolve_requeue show ?thesis by auto
next
  case (MarkPublished ids)
  with assms rows_evolve_markpublished show ?thesis by auto
qed

section \<open>A concrete history\<close>

definition demo_store :: wf_state where
  "demo_store = \<lparr>ab_closed = False, ab_calls = [], wf_lease_ttl = 300 * second_us, wf_tasks = [],
     wf_leases = [], wf_idem = [], wf_outbox = [], wf_runs = [], wf_workers = []\<rparr>"

definition demo_uid :: "nat \<Rightarrow> nat \<Rightarrow> string" where
  "demo_uid k i = replicate (Suc (k + i)) (CHR ''u'')"

definition demo_digest :: "json \<times> json \<Rightarrow> string" where
  "demo_digest p = ''digest''"

definition demo_clock :: "int \<Rightarrow> nat \<Rightarrow> int" where
  "demo_clock now i = now * second_us"

definition demo_exec :: "wf_cmd \<Rightarrow> int \<Rightarrow> nat \<Rightarrow> sys \<Rightarrow> sys" where
  "demo_exec cmd now k s = wf_exec demo_digest cmd (demo_clock now) (demo_uid k) s"

definition demo_id :: string where "demo_id = rt_id demo_task"

definition demo_failed :: task_completion where
  "demo_failed = \<lparr>cm_task_id = demo_id, cm_outcome = ''FAILED'', cm_message = '''',
     cm_failure_category = Some FC_TOOL_TIMEOUT\<rparr>"

text \<open>
  Submitted at second 1, leased at 2, failed with a retryable category at 3 (backoff 5
  seconds), leased again at 100, failed at 101: the second and last attempt goes to the dead
  letters; requeued by hand at 102.
\<close>

definition sys1 :: sys where "sys1 = demo_exec (Submit demo_task demo_contract) 1 0 ([], demo_store)"

definition sys2 :: sys where "sys2 = demo_exec (Acquire demo_id) 2 0 sys1"

definition demo_lease1 :: task_lease where
  "demo_lease1 = \<lparr>tl_lease_id = demo_uid 0 0, tl_task_id = demo_id, tl_agent_id = Some ''agent-a'',
     tl_expires_at = Some (302 * second_us), tl_heartbeat_at = Some (2 * second_us),
     tl_worker_id = None, tl_fence = 1\<rparr>"

definition demo_lease2 :: task_lease where
  "demo_lease2 = \<lparr>tl_lease_id = demo_uid 20 0, tl_task_id = demo_id, tl_agent_id = Some ''agent-a'',
     tl_expires_at = Some (400 * second_us), tl_heartbeat_at = Some (100 * second_us),
     tl_worker_id = None, tl_fence = 2\<rparr>"

definition sys3 :: sys where "sys3 = demo_exec (Complete demo_lease1 demo_failed) 3 10 sys2"

definition sys4 :: sys where "sys4 = demo_exec (Acquire demo_id) 100 20 sys3"

definition sys5 :: sys where "sys5 = demo_exec (Complete demo_lease2 demo_failed) 101 30 sys4"

definition sys6 :: sys where "sys6 = demo_exec (Requeue demo_id) 102 40 sys5"

text \<open>What the examples look at, evaluated once per system.\<close>

definition demo_view ::
    "sys \<Rightarrow> task_lease list \<times> nat list \<times> (task_state \<times> int \<times> int option \<times> int) option \<times>
      (string \<times> int) option \<times> int list \<times> bool" where
  "demo_view s =
     (fst s, map (length \<circ> oe_event_id) (wf_outbox (snd s)),
      map_option (\<lambda>r. (tr_status r, tr_fence_seq r, tr_retry_at r, max_attempts_of r)) (task_of demo_id (snd s)),
      map_option (\<lambda>l. (lr_lease_id l, lr_fence l)) (lease_of demo_id (snd s)),
      retries_of demo_id (snd s), ab_closed (snd s))"

lemma demo_view1: "demo_view sys1 = ([], [], Some (T_CREATED, 0, None, 2), None, [], False)"
  by code_simp

lemma demo_view2:
  "demo_view sys2 = ([demo_lease1], [2], Some (T_LEASED, 1, None, 2), Some (demo_uid 0 0, 1), [], False)"
  by code_simp

lemma demo_view3:
  "demo_view sys3 = ([demo_lease1], [2, 11], Some (T_RETRY_SCHEDULED, 1, Some (8 * second_us), 2), None, [2], False)"
  by code_simp

lemma demo_view4:
  "demo_view sys4 = ([demo_lease2, demo_lease1], [2, 11, 22], Some (T_LEASED, 2, None, 2),
     Some (demo_uid 20 0, 2), [2], False)"
  by code_simp

lemma demo_view5:
  "demo_view sys5 = ([demo_lease2, demo_lease1], [2, 11, 22, 31], Some (T_DEAD_LETTER, 2, None, 2), None, [2], False)"
  by code_simp

lemma demo_viewD:
  assumes "demo_view s = (ls, ns, Some (x, f, ra, mx), lo, rs, b)"
  shows "fst s = ls" "map (length \<circ> oe_event_id) (wf_outbox (snd s)) = ns"
    "\<exists>r. task_of demo_id (snd s) = Some r \<and> tr_status r = x \<and> tr_fence_seq r = f \<and> tr_retry_at r = ra \<and>
       max_attempts_of r = mx"
    "retries_of demo_id (snd s) = rs" "ab_closed (snd s) = b"
    "map_option (\<lambda>l. (lr_lease_id l, lr_fence l)) (lease_of demo_id (snd s)) = lo"
  using assms by (auto simp: demo_view_def)

lemma length_demo_uid [simp]: "length (demo_uid k i) = Suc (k + i)"
  by (simp add: demo_uid_def)

lemma fresh_demo:
  assumes "list_all (\<lambda>l. length (tl_lease_id l) \<le> k) (fst s)"
    and "list_all (\<lambda>n. n \<le> k) (map (length \<circ> oe_event_id) (wf_outbox (snd s)))"
  shows "fresh_uids (demo_uid k) s"
  unfolding fresh_uids_def new_event_def
proof (intro conjI allI)
  show "inj (demo_uid k)" by (rule injI) (auto simp: demo_uid_def dest: arg_cong [of _ _ length])
  fix i
  show "demo_uid k i \<notin> tl_lease_id ` set (fst s)" "demo_uid k i \<notin> oe_event_id ` set (wf_outbox (snd s))"
    using assms length_demo_uid [of k i] by (auto simp: list_all_iff simp del: length_demo_uid)
qed

lemma demo_step:
  assumes "wf_reach demo_digest s" and "cmd_ok cmd s"
    and "list_all (\<lambda>l. length (tl_lease_id l) \<le> k) (fst s)"
    and "list_all (\<lambda>n. n \<le> k) (map (length \<circ> oe_event_id) (wf_outbox (snd s)))"
  shows "wf_reach demo_digest (demo_exec cmd now k s)"
  unfolding demo_exec_def by (rule reach_call [OF assms(1,2) fresh_demo [OF assms(3,4)]])

lemma demo_reach1: "wf_reach demo_digest sys1"
  unfolding sys1_def
proof (rule demo_step)
  show "wf_reach demo_digest ([], demo_store)" by (rule reach_init) (simp add: empty_store_def demo_store_def)
  show "cmd_ok (Submit demo_task demo_contract) ([], demo_store)"
    by (simp add: valid_demo_task valid_demo_contract) (simp add: demo_task_def)
qed (simp_all add: demo_store_def)

lemmas demo_lease_defs = demo_lease1_def demo_lease2_def demo_failed_def

lemma demo_reach2: "wf_reach demo_digest sys2"
  unfolding sys2_def
  by (rule demo_step [OF demo_reach1]) (simp_all add: demo_viewD(1,2) [OF demo_view1] del: map_map)

lemma demo_reach3: "wf_reach demo_digest sys3"
  unfolding sys3_def
  by (rule demo_step [OF demo_reach2])
     (simp_all add: demo_viewD(1,2) [OF demo_view2] demo_lease_defs)

lemma demo_reach4: "wf_reach demo_digest sys4"
  unfolding sys4_def
  by (rule demo_step [OF demo_reach3])
     (simp_all add: demo_viewD(1,2) [OF demo_view3] demo_lease_defs)

lemma demo_reach5: "wf_reach demo_digest sys5"
  unfolding sys5_def
  by (rule demo_step [OF demo_reach4])
     (simp_all add: demo_viewD(1,2) [OF demo_view4] demo_lease_defs)

end
