(* ===== verification/Workflow_Properties.thy ===== *)
theory Workflow_Properties
  imports Workflow_History
begin

text \<open>
  What the workflow engine guarantees over whole histories of calls, \<open>wf_reach\<close>: agreement of
  the lease and task tables, fencing, refinement of the task machine, the retry budget,
  idempotent completion, exact recovery, the order of claims and the backoff. Each theorem is
  applied to a concrete history afterwards.
\<close>

section \<open>Properties\<close>

text \<open>
  C1: the lease table and the task table never disagree. In every store that calls of the
  engine can reach, a task is \<open>LEASED\<close> exactly while it has a lease row, it has at most one,
  of the current fence generation; the generation is the number of deliveries published in
  the outbox and, once delivered, the attempt number; the cancelled flag is the state
  \<open>CANCELLED\<close>; a deadline is only kept while a retry is scheduled (or the task was
  cancelled meanwhile).
\<close>

theorem lease_and_task_tables_agree:
  assumes "wf_reach dg (issued, st)" and "task_of tid st = Some r"
  shows "(lease_of tid st \<noteq> None) = (tr_status r = T_LEASED) \<and>
    length (filter (\<lambda>l. lr_task_id l = tid) (wf_leases st)) \<le> 1 \<and>
    (\<forall>l. lease_of tid st = Some l \<longrightarrow> lr_fence l = tr_fence_seq r) \<and>
    int (deliveries_of tid st) = tr_fence_seq r \<and>
    (0 < tr_fence_seq r \<longrightarrow> tr_attempt r = tr_fence_seq r) \<and>
    tr_cancelled r = (tr_status r = T_CANCELLED) \<and>
    (tr_retry_at r \<noteq> None \<longrightarrow> tr_status r \<in> {T_RETRY_SCHEDULED, T_CANCELLED})"
proof -
  have inv: "wf_inv issued st" using wf_reach_inv [OF assms(1)] by simp
  then have "row_ok (lease_of tid st) r" using assms(2) rows_invD(1) by (auto simp: wf_inv_def)
  moreover have "int (deliveries_of tid st) = tr_fence_seq r"
    using inv assms(2) unfolding wf_inv_def events_inv_def
    by (metis events_ok.simps(2) row_events_ok_def)
  moreover have "length (filter (\<lambda>l. lr_task_id l = tid) (wf_leases st)) \<le> 1"
    using inv distinct_filter_key [of lr_task_id "wf_leases st" tid] by (simp add: wf_inv_def rows_inv_def)
  ultimately show ?thesis by (simp add: row_ok_def)
qed

theorem lease_and_task_tables_agree_witness:
  "\<exists>r. task_of demo_id (snd sys4) = Some r \<and> tr_status r = T_LEASED \<and>
     int (deliveries_of demo_id (snd sys4)) = tr_fence_seq r"
proof -
  have reach: "wf_reach demo_digest (fst sys4, snd sys4)" using demo_reach4 by simp
  obtain r where r: "task_of demo_id (snd sys4) = Some r" "tr_status r = T_LEASED"
    using demo_viewD(3) [OF demo_view4] by auto
  with lease_and_task_tables_agree [OF reach r(1)] show ?thesis by auto
qed

lemma stale_lease_row:
  assumes "wf_inv issued st" and "l \<in> set issued" and "task_of (tl_task_id l) st = Some r"
    and "tl_fence l \<noteq> tr_fence_seq r" and "lease_of (tl_task_id l) st = Some row"
  shows "lr_lease_id row \<noteq> tl_lease_id l"
proof
  assume eq: "lr_lease_id row = tl_lease_id l"
  have "issued_inv issued st" and "rows_inv st" using assms(1) by (simp_all add: wf_inv_def)
  then have "tl_fence l = lr_fence row" using assms(2,5) eq by (simp add: issued_inv_def)
  moreover have "lr_fence row = tr_fence_seq r" using rows_invD(7) [OF \<open>rows_inv st\<close> assms(3,5)] .
  ultimately show False using assms(4) by simp
qed

text \<open>
  C2: fencing. A lease value of a superseded generation is powerless. Whatever a holder of
  such a lease reports, \<^verbatim>\<open>complete\<close> changes no table (it is refused unless the task is already
  settled, when it is the idempotent no-op), and \<^verbatim>\<open>heartbeat\<close> and \<^verbatim>\<open>renew_lease\<close> are refused
  without effect.
\<close>

theorem stale_lease_is_powerless:
  assumes "wf_reach dg (issued, st)" and "l \<in> set issued" and "task_of (tl_task_id l) st = Some r"
    and "tl_fence l \<noteq> tr_fence_seq r" and "cm_task_id cm = tl_task_id l"
  shows "db (snd (complete l cm clk uid st)) = db st \<and>
    (tr_status r \<notin> set COMPLETION_ALREADY_APPLIED \<longrightarrow> \<not> is_ok (fst (complete l cm clk uid st))) \<and>
    db (snd (heartbeat l clk uid st)) = db st \<and> \<not> is_ok (fst (heartbeat l clk uid st)) \<and>
    db (snd (renew_lease (tl_task_id l) (tl_lease_id l) (tl_fence l) w clk uid st)) = db st \<and>
    \<not> is_ok (fst (renew_lease (tl_task_id l) (tl_lease_id l) (tl_fence l) w clk uid st))"
proof (intro conjI impI)
  have inv: "wf_inv issued st" using wf_reach_inv [OF assms(1)] by simp
  note stale = stale_lease_row [OF inv assms(2-4)]
  obtain res st' where c: "complete l cm clk uid st = (res, st')" by fastforce
  from c assms(5) have "db st' = db st \<and> (tr_status r \<notin> set COMPLETION_ALREADY_APPLIED \<longrightarrow> \<not> is_ok res)"
    by (cases rule: complete_effect; cases res) (use stale assms(3) in auto)
  then show "db (snd (complete l cm clk uid st)) = db st"
    "tr_status r \<notin> set COMPLETION_ALREADY_APPLIED \<Longrightarrow> \<not> is_ok (fst (complete l cm clk uid st))"
    using c by auto
  obtain hres hst where h: "heartbeat l clk uid st = (hres, hst)" by fastforce
  then have "db hst = db st \<and> \<not> is_ok hres"
    by (cases rule: heartbeat_effect; cases hres) (use stale in auto)
  then show "db (snd (heartbeat l clk uid st)) = db st" "\<not> is_ok (fst (heartbeat l clk uid st))"
    using h by auto
  obtain rres rst where n: "renew_lease (tl_task_id l) (tl_lease_id l) (tl_fence l) w clk uid st = (rres, rst)"
    by fastforce
  have none: "\<not> list_ex (lease_matches (tl_task_id l) (tl_lease_id l) (tl_fence l) w) (wf_leases st)"
  proof
    assume "list_ex (lease_matches (tl_task_id l) (tl_lease_id l) (tl_fence l) w) (wf_leases st)"
    then obtain row where "row \<in> set (wf_leases st)" "lr_task_id row = tl_task_id l" "lr_lease_id row = tl_lease_id l"
      by (auto simp: list_ex_iff lease_matches_def)
    with stale [of row] inv lease_of_in [of st row] show False by (auto simp: wf_inv_def rows_inv_def)
  qed
  then show "\<not> is_ok (fst (renew_lease (tl_task_id l) (tl_lease_id l) (tl_fence l) w clk uid st))"
    by (simp add: renew_lease_def split: sum.split option.split)
  from n none have "db rst = db st" by (cases rule: renew_effect) auto
  then show "db (snd (renew_lease (tl_task_id l) (tl_lease_id l) (tl_fence l) w clk uid st)) = db st"
    using n by simp
qed

theorem stale_lease_is_powerless_witness:
  "db (snd (complete demo_lease1 demo_failed (demo_clock 101) (demo_uid 30) (snd sys4))) = db (snd sys4) \<and>
   \<not> is_ok (fst (complete demo_lease1 demo_failed (demo_clock 101) (demo_uid 30) (snd sys4)))"
proof -
  have reach: "wf_reach demo_digest (fst sys4, snd sys4)" using demo_reach4 by simp
  have issued: "demo_lease1 \<in> set (fst sys4)" using demo_viewD(1) [OF demo_view4] by simp
  obtain r where r: "task_of (tl_task_id demo_lease1) (snd sys4) = Some r" "tr_status r = T_LEASED" "tr_fence_seq r = 2"
    using demo_viewD(3) [OF demo_view4] by (auto simp: demo_lease_defs)
  have "tl_fence demo_lease1 \<noteq> tr_fence_seq r" "cm_task_id demo_failed = tl_task_id demo_lease1"
    using r by (simp_all add: demo_lease_defs)
  from stale_lease_is_powerless [OF reach issued r(1) this] r(2)
  show ?thesis by (simp add: COMPLETION_ALREADY_APPLIED_def)
qed

lemma distinct_int_bound:
  fixes xs :: "int list"
  assumes "distinct xs" and "\<And>a. a \<in> set xs \<Longrightarrow> 2 \<le> a \<and> a \<le> m"
  shows "int (length xs) \<le> max 0 (m - 1)"
proof -
  have "set xs \<subseteq> {2..m}" using assms(2) by auto
  then have "card (set xs) \<le> card {2..m}" by (intro card_mono) auto
  then show ?thesis using distinct_card [OF assms(1)] by auto
qed

text \<open>
  C9: the retry budget is never exceeded. However deliveries, lease expiries, recoveries and
  manual requeues interleave, the engine schedules at most \<open>max_attempts - 1\<close> failure retries
  for a task (the \<open>failure_retry\<close> events in the outbox), each for another attempt number
  between 2 and \<open>max_attempts\<close>. A manual requeue does not add to the budget.
\<close>

theorem retry_budget_is_respected:
  assumes "wf_reach dg (issued, st)" and "task_of tid st = Some r"
  shows "int (length (retries_of tid st)) \<le> max 0 (max_attempts_of r - 1) \<and>
    distinct (retries_of tid st) \<and> set (retries_of tid st) \<subseteq> {2..max_attempts_of r}"
proof -
  have "wf_inv issued st" using wf_reach_inv [OF assms(1)] by simp
  then have "row_events_ok (deliveries_of tid st) (retries_of tid st) r"
    using assms(2) unfolding wf_inv_def events_inv_def by (metis events_ok.simps(2))
  then have "distinct (retries_of tid st)" "\<And>a. a \<in> set (retries_of tid st) \<Longrightarrow> 2 \<le> a \<and> a \<le> max_attempts_of r"
    by (auto simp: row_events_ok_def)
  then show ?thesis using distinct_int_bound by auto
qed

theorem retry_budget_is_respected_witness:
  "\<exists>r. task_of demo_id (snd sys5) = Some r \<and> tr_status r = T_DEAD_LETTER \<and>
     retries_of demo_id (snd sys5) = [2] \<and>
     int (length (retries_of demo_id (snd sys5))) \<le> max 0 (max_attempts_of r - 1)"
proof -
  have reach: "wf_reach demo_digest (fst sys5, snd sys5)" using demo_reach5 by simp
  obtain r where r: "task_of demo_id (snd sys5) = Some r" "tr_status r = T_DEAD_LETTER"
    using demo_viewD(3) [OF demo_view5] by auto
  with retry_budget_is_respected [OF reach r(1)] demo_viewD(4) [OF demo_view5] show ?thesis by auto
qed

text \<open>
  C3: the engine refines the domain state machine. Every call takes every existing task along
  a path of the transition table of \<^verbatim>\<open>task_state.py\<close>, never lowers its fence generation and
  never changes its identity (run, idempotency key, contract, kind, creation time); no call
  but the manual requeue changes the row of a terminal task in any way.
\<close>

theorem engine_refines_task_lifecycle:
  assumes "wf_reach dg (issued, st)" and "cmd_ok cmd (issued, st)" and "task_of tid st = Some r"
  shows "\<exists>r'. task_of tid (snd (wf_exec dg cmd clk uid (issued, st))) = Some r' \<and>
    path task_transitions (tr_status r) (tr_status r') \<and> tr_fence_seq r \<le> tr_fence_seq r' \<and>
    same_identity r r' \<and>
    (is_terminal (tr_status r) task_terminal \<and> (\<nexists>x. cmd = Requeue x) \<longrightarrow> r' = r)"
proof -
  have inv: "wf_inv issued st" using wf_reach_inv [OF assms(1)] by simp
  obtain issued' st' where e: "wf_exec dg cmd clk uid (issued, st) = (issued', st')" by fastforce
  from rows_evolve_exec [OF inv assms(2) e] assms(3) obtain r' where
    "task_of tid st' = Some r'" "row_evolves (\<exists>x. cmd = Requeue x) r r'"
    unfolding rows_evolve_def by blast
  then show ?thesis using e by (auto simp: row_evolves_def)
qed

theorem engine_refines_task_lifecycle_witness:
  "\<exists>r'. task_of demo_id (snd (wf_exec demo_digest (Cancel demo_id) (demo_clock 9) (demo_uid 40) sys5)) = Some r' \<and>
     tr_status r' = T_DEAD_LETTER"
proof -
  have reach: "wf_reach demo_digest (fst sys5, snd sys5)" using demo_reach5 by simp
  obtain r where r: "task_of demo_id (snd sys5) = Some r" "tr_status r = T_DEAD_LETTER"
    using demo_viewD(3) [OF demo_view5] by auto
  from engine_refines_task_lifecycle [OF reach _ r(1), of "Cancel demo_id" "demo_clock 9" "demo_uid 40"] r(2)
  show ?thesis by (auto simp: is_terminal_def task_terminal_def)
qed

text \<open>
  C10: completion is idempotent. After a completion was accepted, presenting the lease again,
  with any report, is accepted and changes nothing but the call log: no second event, no
  second disposition.
\<close>

theorem completion_is_idempotent:
  assumes "complete l cm clk uid st = (Inr (), st1)" and "cm_task_id cm = tl_task_id l" and "\<not> ab_closed st1"
  shows "complete l cm' clk' uid' st1 = (Inr (), log_result ''complete'' (tl_task_id l) ''deduped'' st1)"
proof -
  have "\<exists>row. task_of (tl_task_id l) st1 = Some row \<and> tr_status row \<in> set COMPLETION_ALREADY_APPLIED"
    using assms(1,2)
  proof (cases rule: complete_effect)
    case same
    then show ?thesis using task_of_db [OF same(1)] by auto
  next
    case (fin row r c ra)
    let ?plan = "disposition c (cm_outcome cm) (if tr_attempt row = 0 then 1 else tr_attempt row) (cm_failure_category cm)"
    have "task_of (tl_task_id l) st1 = Some (row\<lparr>tr_status := fd_status ?plan, tr_retry_at := ra\<rparr>)"
      using fin(2,8) task_of_db [of st1] by (simp add: applied_def Let_def task_of_settle)
    moreover have "fd_status ?plan \<in> set COMPLETION_ALREADY_APPLIED"
      using disposition_status_range [of c "cm_outcome cm" _ "cm_failure_category cm"]
      by (auto simp: COMPLETION_ALREADY_APPLIED_def)
    ultimately show ?thesis by auto
  qed
  with assms(3) show ?thesis by (auto simp: complete_def)
qed

theorem completion_is_idempotent_witness:
  "complete demo_lease1 demo_failed (demo_clock 4) (demo_uid 30) (snd sys3) =
     (Inr (), log_result ''complete'' demo_id ''deduped'' (snd sys3))"
proof -
  obtain res st1 where c: "complete demo_lease1 demo_failed (demo_clock 3) (demo_uid 10) (snd sys2) = (res, st1)"
    by fastforce
  obtain i s where s2: "sys2 = (i, s)" by (cases sys2)
  have s3: "snd sys3 = st1" using c by (simp add: sys3_def demo_exec_def s2)
  have "is_ok (fst (complete demo_lease1 demo_failed (demo_clock 3) (demo_uid 10) (snd sys2)))" by code_simp
  then have "complete demo_lease1 demo_failed (demo_clock 3) (demo_uid 10) (snd sys2) = (Inr (), snd sys3)"
    using c s3 by (cases res) auto
  moreover have "cm_task_id demo_failed = tl_task_id demo_lease1" by (simp add: demo_lease_defs)
  moreover have "\<not> ab_closed (snd sys3)" using demo_viewD(5) [OF demo_view3] by simp
  ultimately show ?thesis
    using completion_is_idempotent [of demo_lease1 demo_failed "demo_clock 3" "demo_uid 10" "snd sys2" "snd sys3"]
    by (simp add: demo_lease_defs)
qed

lemma iso_less_close: "\<not> iso_less now t \<Longrightarrow> t < now + second_us"
proof -
  assume "\<not> iso_less now t"
  show ?thesis
  proof (cases "now div second_us = t div second_us")
    case True
    have "t mod second_us < second_us" "0 \<le> now mod second_us" by (simp_all add: second_us_def)
    moreover have "t = second_us * (t div second_us) + t mod second_us" by simp
    moreover have "now = second_us * (t div second_us) + now mod second_us"
      using True by (metis mult_div_mod_eq)
    ultimately show ?thesis by linarith
  next
    case False
    with \<open>\<not> iso_less now t\<close> have "t \<le> now" by (simp add: iso_less_second_apart)
    then show ?thesis by (simp add: second_us_def)
  qed
qed

text \<open>
  C13: backoff. A task whose retry deadline is stored as \<open>t\<close> is delivered, by \<^verbatim>\<open>acquire_lease\<close>
  or by \<^verbatim>\<open>claim_next\<close>, at \<open>t\<close> or later whenever the clock and the deadline are both whole
  seconds or both are not; in the remaining case the comparison of the stored texts can let it
  through early, by less than one second. A retry one second overdue is never held back.
\<close>

theorem delivery_waits_for_backoff:
  assumes "distinct (map tr_task_id (wf_tasks st))" and "task_of tid st = Some r" and "lease_of tid st = None"
    and "tr_retry_at r = Some t"
    and "(\<exists>l st'. acquire_lease tid clk uid st = (Inr l, st')) \<or>
         (\<exists>q l st'. claim_next q clk uid st = (Inr (Some l), st') \<and> tl_task_id l = tid)"
  shows "t < clk 0 + second_us \<and> (same_grid (clk 0) t \<longrightarrow> t \<le> clk 0) \<and>
    (\<forall>now. t + second_us \<le> now \<longrightarrow> \<not> before_retry_deadline r now)"
proof -
  have late: "\<not> iso_less (clk 0) t"
    using assms(5)
  proof
    assume "\<exists>l st'. acquire_lease tid clk uid st = (Inr l, st')"
    then obtain l st' where "acquire_lease tid clk uid st = (Inr l, st')" by blast
    then show ?thesis
    proof (cases rule: acquire_effect)
      case (new row m)
      then have "row = r" using assms(2) by (simp add: delivered_def)
      with new assms(4) show ?thesis by (simp add: before_retry_deadline_def)
    qed (use assms(3) in auto)
  next
    assume "\<exists>q l st'. claim_next q clk uid st = (Inr (Some l), st') \<and> tl_task_id l = tid"
    then obtain q l st' where "claim_next q clk uid st = (Inr (Some l), st')" "tl_task_id l = tid" by blast
    from this(1) assms(1) show ?thesis
    proof (cases rule: claim_effect)
      case (new row m)
      then have "row = r" using assms(2) \<open>tl_task_id l = tid\<close> by (simp add: delivered_def)
      with new assms(4) show ?thesis by (simp add: claimable_def retry_due_def iso_le_def)
    qed auto
  qed
  moreover have "\<not> iso_less now t" if "t + second_us \<le> now" for now
    using iso_less_close [of t now] iso_less_trans [of t now t] that by auto
  ultimately show ?thesis
    using assms(4) iso_less_close [OF late] iso_less_same_grid [of "clk 0" t] 
    by (auto simp: before_retry_deadline_def)
qed

theorem delivery_waits_for_backoff_witness:
  "8 * second_us < 100 * second_us + second_us \<and> \<not> is_ok (fst (acquire_lease demo_id (demo_clock 7) (demo_uid 20) (snd sys3)))"
proof -
  have inv: "wf_inv (fst sys3) (snd sys3)" using wf_reach_inv [OF demo_reach3] .
  then have dist: "distinct (map tr_task_id (wf_tasks (snd sys3)))" by (simp add: wf_inv_def rows_inv_def)
  obtain r where r: "task_of demo_id (snd sys3) = Some r" "tr_retry_at r = Some (8 * second_us)"
    using demo_viewD(3) [OF demo_view3] by auto
  have free: "lease_of demo_id (snd sys3) = None" using demo_viewD(6) [OF demo_view3] by simp
  have "is_ok (fst (acquire_lease demo_id (demo_clock 100) (demo_uid 20) (snd sys3)))" by code_simp
  then obtain l st' where "acquire_lease demo_id (demo_clock 100) (demo_uid 20) (snd sys3) = (Inr l, st')"
    by (cases "acquire_lease demo_id (demo_clock 100) (demo_uid 20) (snd sys3)";
        cases "fst (acquire_lease demo_id (demo_clock 100) (demo_uid 20) (snd sys3))") auto
  then have "8 * second_us < demo_clock 100 0 + second_us"
    using delivery_waits_for_backoff [OF dist r(1) free r(2)] by blast
  moreover have "\<not> is_ok (fst (acquire_lease demo_id (demo_clock 7) (demo_uid 20) (snd sys3)))" by code_simp
  ultimately show ?thesis by (simp add: demo_clock_def)
qed

lemma find_sort_key_min:
  assumes "find P (sort_key f xs) = Some r" and "x \<in> set xs" and "P x"
  shows "f r \<le> f x"
proof -
  let ?ys = "sort_key f xs"
  from assms(1) obtain i where i: "i < length ?ys" "r = ?ys ! i" "\<And>j. j < i \<Longrightarrow> \<not> P (?ys ! j)"
    by (auto simp: find_Some_iff)
  from assms(2) obtain j where j: "j < length ?ys" "x = ?ys ! j" by (metis in_set_conv_nth set_sort)
  with i assms(3) have "i \<le> j" by (meson not_less)
  then have "map f ?ys ! i \<le> map f ?ys ! j" using j(1) by (intro sorted_nth_mono) (simp_all add: sorted_sort_key)
  with i j show ?thesis by simp
qed

text \<open>
  C12: claiming is fair and filtered. A claim that returns a lease returns it for a task that
  is claimable at that moment (an execution task, queued or awaiting a due retry, not
  cancelled, of a run that is not paused) and matches the capabilities and partitions of the
  worker. No other claimable, matching task was created earlier, with one exception: the order is
  that of the text of the creation time, so a task created on a whole second can be passed over
  for one created later in that same second. A claim that returns nothing on an open engine found
  no claimable, matching task.
\<close>

theorem claim_takes_oldest_match:
  assumes "wf_reach dg (issued, st)" and "claim_next q clk uid st = (Inr res, st')"
  shows "case res of
      None \<Rightarrow> \<forall>r\<in>set (wf_tasks st). \<not> (claimable (clk 0) st r \<and> claim_matches q r)
    | Some l \<Rightarrow> \<exists>row\<in>set (wf_tasks st). tl_task_id l = tr_task_id row \<and>
        tl_worker_id l = Some (cq_worker_id q) \<and> tl_fence l = tr_fence_seq row + 1 \<and>
        claimable (clk 0) st row \<and> claim_matches q row \<and>
        (\<forall>r\<in>set (wf_tasks st). claimable (clk 0) st r \<and> claim_matches q r \<longrightarrow>
           tr_created_at row \<le> tr_created_at r \<or>
           tr_created_at r mod second_us = 0 \<and> tr_created_at row < tr_created_at r + second_us)"
proof -
  have inv: "wf_inv issued st" using wf_reach_inv [OF assms(1)] by simp
  then have dist: "distinct (map tr_task_id (wf_tasks st))" by (simp add: wf_inv_def rows_inv_def)
  show ?thesis
  proof (cases res)
    case None
    have "first_matching_candidate (claim_candidates (clk 0) st) q = None"
    proof (rule ccontr)
      assume "first_matching_candidate (claim_candidates (clk 0) st) q \<noteq> None"
      then obtain row where row: "first_matching_candidate (claim_candidates (clk 0) st) q = Some row" by auto
      note ok = first_candidate_claimable [OF row]
      then have "task_of (tr_task_id row) st = Some row" "tr_status row \<in> set CLAIMABLE_STATUSES"
        using dist by (simp_all add: task_of_in claimable_def)
      with row assms(2) None show False by (auto simp: claim_next_def split: if_splits sum.splits)
    qed
    then show ?thesis
      using None by (auto simp: first_matching_candidate_def find_None_iff claim_candidates_def)
  next
    case (Some l)
    from assms(2) [unfolded Some] dist show ?thesis
    proof (cases rule: claim_effect)
      case (new row m)
      have "row \<in> set (wf_tasks st)" using first_candidate_claimable(3) [OF new(4)] .
      moreover have "tr_created_at row \<le> tr_created_at r \<or>
          tr_created_at r mod second_us = 0 \<and> tr_created_at row < tr_created_at r + second_us"
        if "r \<in> set (wf_tasks st)" "claimable (clk 0) st r" "claim_matches q r" for r
        using find_sort_key_min [OF new(4) [unfolded first_matching_candidate_def claim_candidates_def], of r] that
        by (intro iso_key_le_time) simp
      ultimately show ?thesis using Some new by (auto simp: delivered_def)
    qed auto
  qed
qed

definition demo_request :: claim_request where
  "demo_request = \<lparr>cq_worker_id = ''w1'', cq_capabilities = [], cq_partitions = [], cq_relax_partitions = False\<rparr>"

theorem claim_takes_oldest_match_witness:
  "\<exists>l. fst (claim_next demo_request (demo_clock 100) (demo_uid 20) (snd sys3)) = Inr (Some l) \<and>
     tl_worker_id l = Some ''w1''"
proof -
  have reach: "wf_reach demo_digest (fst sys3, snd sys3)" using demo_reach3 by simp
  obtain res st' where c: "claim_next demo_request (demo_clock 100) (demo_uid 20) (snd sys3) = (res, st')" by fastforce
  have "(case fst (claim_next demo_request (demo_clock 100) (demo_uid 20) (snd sys3)) of
      Inr (Some l) \<Rightarrow> True | _ \<Rightarrow> False)" by code_simp
  then obtain l where "res = Inr (Some l)" using c by (auto split: sum.splits option.splits)
  with claim_takes_oldest_match [OF reach c [unfolded this]] c show ?thesis by (auto simp: demo_request_def)
qed

lemma recovery_effect:
  assumes "wf_inv issued st" and "\<not> ab_closed st" and "recover_expired_leases clk uid st = (res, st')"
  shows "res = Inr (length (filter (recoverable (clk 0) st) (wf_leases st))) \<and>
    (\<forall>tid. case lease_of tid st of
       None \<Rightarrow> lease_of tid st' = None \<and> task_of tid st' = task_of tid st
     | Some l \<Rightarrow>
         if recoverable (clk 0) st l
         then lease_of tid st' = None \<and> task_of tid st' = map_option (\<lambda>r. r\<lparr>tr_status := T_QUEUED\<rparr>) (task_of tid st)
         else lease_of tid st' = Some l \<and> task_of tid st' = task_of tid st)"
proof -
  let ?rs = "filter (recoverable (clk 0) st) (wf_leases st)"
  note inv = assms(1)
  have leases: "r \<in> set (wf_leases st) \<longleftrightarrow> lease_of (lr_task_id r) st = Some r" for r
    using inv lease_of_in [of st r] by (simp add: wf_inv_def rows_inv_def)
  have tasks: "task_of (lr_task_id r) st \<noteq> None" if "r \<in> set ?rs" for r
    using leases [of r] that inv by (auto simp: wf_inv_def rows_inv_def)
  obtain rr s where s: "recover_rows ?rs 0 clk uid st = (rr, s)" by fastforce
  note result = recover_rows_result [OF tasks s]
  have r: "res = Inr (length ?rs)" and t: "task_of x st' = task_of x s" and l: "lease_of x st' = lease_of x s" for x
    using assms(2,3) s result(1) by (auto simp: recover_expired_leases_def log_ok_def)
  have mem: "x \<in> lr_task_id ` set ?rs \<longleftrightarrow> (\<exists>l. lease_of x st = Some l \<and> recoverable (clk 0) st l)" for x
    using leases lease_of_key by (fastforce simp: image_iff)
  show ?thesis
  proof (intro conjI allI)
    fix tid
    have "task_of tid s = (if \<exists>l. lease_of tid st = Some l \<and> recoverable (clk 0) st l
        then map_option (\<lambda>r. r\<lparr>tr_status := T_QUEUED\<rparr>) (task_of tid st) else task_of tid st)"
      using result(2) [of tid] by (simp only: mem)
    moreover have "lease_of tid s = (if \<exists>l. lease_of tid st = Some l \<and> recoverable (clk 0) st l
        then None else lease_of tid st)"
      using result(3) [of tid] by (simp only: mem)
    ultimately show "case lease_of tid st of
       None \<Rightarrow> lease_of tid st' = None \<and> task_of tid st' = task_of tid st
     | Some l \<Rightarrow>
         if recoverable (clk 0) st l
         then lease_of tid st' = None \<and> task_of tid st' = map_option (\<lambda>r. r\<lparr>tr_status := T_QUEUED\<rparr>) (task_of tid st)
         else lease_of tid st' = Some l \<and> task_of tid st' = task_of tid st"
      by (cases "lease_of tid st") (simp_all add: t l)
  qed (fact r)
qed

text \<open>
  C11: recovery takes back exactly the dead leases. \<^verbatim>\<open>recover_expired_leases\<close> on an open engine
  returns the number of leases that are expired or held by a lost worker, removes exactly
  those, puts their tasks back to \<open>QUEUED\<close> (keeping generation and attempt) and changes no
  other task or lease.
\<close>

theorem recovery_is_exact:
  assumes "wf_reach dg (issued, st)" and "\<not> ab_closed st" and "recover_expired_leases clk uid st = (res, st')"
  shows "res = Inr (length (filter (recoverable (clk 0) st) (wf_leases st))) \<and>
    (\<forall>tid. case lease_of tid st of
       None \<Rightarrow> lease_of tid st' = None \<and> task_of tid st' = task_of tid st
     | Some l \<Rightarrow>
         if recoverable (clk 0) st l
         then lease_of tid st' = None \<and> task_of tid st' = map_option (\<lambda>r. r\<lparr>tr_status := T_QUEUED\<rparr>) (task_of tid st)
         else lease_of tid st' = Some l \<and> task_of tid st' = task_of tid st)"
  using recovery_effect [OF _ assms(2,3)] wf_reach_inv [OF assms(1)] by simp

theorem recovery_is_exact_witness:
  "is_ok (fst (recover_expired_leases (demo_clock 1000) (demo_uid 30) (snd sys4))) \<and>
   lease_of demo_id (snd (recover_expired_leases (demo_clock 1000) (demo_uid 30) (snd sys4))) = None"
proof -
  have reach: "wf_reach demo_digest (fst sys4, snd sys4)" using demo_reach4 by simp
  have opened: "\<not> ab_closed (snd sys4)" using demo_viewD(5) [OF demo_view4] by simp
  obtain res st' where c: "recover_expired_leases (demo_clock 1000) (demo_uid 30) (snd sys4) = (res, st')" by fastforce
  have dead: "case lease_of demo_id (snd sys4) of None \<Rightarrow> False
    | Some l \<Rightarrow> recoverable (demo_clock 1000 0) (snd sys4) l" by code_simp
  from recovery_is_exact [OF reach opened c] dead c show ?thesis
    by (auto split: option.splits dest!: spec [of _ demo_id])
qed

end
