(* ===== verification/Worker_Properties.thy ===== *)
theory Worker_Properties
  imports Workflow_Properties
begin

text \<open>
  What the worker registry guarantees over its histories: a session token is good for the
  generation it was issued for and for no other; what one pass of the reaper does; and that
  the work of a worker that went silent is taken back.
\<close>

section \<open>Histories of the registry\<close>

datatype rg_cmd =
    Rg_register worker_registration int
  | Rg_heartbeat string int int
  | Rg_transition string worker_event int
  | Rg_drain string int
  | Rg_mark_lost string int
  | Rg_token string int string int
  | Rg_reap int int

text \<open>The first component records the tokens that were bound: the token, its worker, its generation.\<close>

type_synonym rg_sys = "(string \<times> string \<times> int) list \<times> registry_state"

fun rg_exec :: "rg_cmd \<Rightarrow> rg_sys \<Rightarrow> rg_sys" where
  "rg_exec (Rg_register w now) (issued, rg) = (issued, snd (rg_register w now rg))"
| "rg_exec (Rg_heartbeat w g now) (issued, rg) = (issued, snd (rg_heartbeat w g now rg))"
| "rg_exec (Rg_transition w e now) (issued, rg) = (issued, snd (rg_transition w e now rg))"
| "rg_exec (Rg_drain w now) (issued, rg) = (issued, snd (rg_drain w now rg))"
| "rg_exec (Rg_mark_lost w now) (issued, rg) = (issued, snd (rg_mark_lost w now rg))"
| "rg_exec (Rg_token w g h now) (issued, rg) =
     (case rg_set_session_token w g h now rg of
        (Inr True, rg') \<Rightarrow> ((h, w, g) # issued, rg')
      | (_, rg') \<Rightarrow> (issued, rg'))"
| "rg_exec (Rg_reap stale now) (issued, rg) = (issued, snd (reaper_pass stale now rg))"

text \<open>Tokens are hashes of fresh random texts.\<close>

fun rg_cmd_ok :: "rg_cmd \<Rightarrow> rg_sys \<Rightarrow> bool" where
  "rg_cmd_ok (Rg_token w g h now) (issued, rg) = (h \<notin> fst ` set issued)"
| "rg_cmd_ok _ s = True"

inductive rg_reach :: "rg_sys \<Rightarrow> bool" where
  rg_reach_init: "rg_workers rg = [] \<Longrightarrow> rg_reach ([], rg)"
| rg_reach_step: "rg_reach s \<Longrightarrow> rg_cmd_ok cmd s \<Longrightarrow> rg_reach (rg_exec cmd s)"

definition sessions_inv :: "(string \<times> string \<times> int) list \<Rightarrow> worker_row list \<Rightarrow> bool" where
  "sessions_inv issued rows =
     (distinct (map wr_worker_id rows) \<and> distinct (map fst issued) \<and>
      (\<forall>r\<in>set rows. \<forall>h. wr_session_token r = Some h \<longrightarrow> (h, wr_worker_id r, wr_generation r) \<in> set issued) \<and>
      (\<forall>x\<in>set issued. \<exists>r\<in>set rows. wr_worker_id r = fst (snd x) \<and> snd (snd x) \<le> wr_generation r))"

lemma sessions_map:
  assumes "sessions_inv issued rows" and "distinct (map fst issued')"
    and keep: "\<And>r. r \<in> set rows \<Longrightarrow> wr_worker_id (g r) = wr_worker_id r \<and> wr_generation r \<le> wr_generation (g r)"
    and token: "\<And>r h. r \<in> set rows \<Longrightarrow> wr_session_token (g r) = Some h \<Longrightarrow> (h, wr_worker_id r, wr_generation (g r)) \<in> set issued'"
    and new: "\<And>x. x \<in> set issued' \<Longrightarrow> x \<notin> set issued \<Longrightarrow>
      \<exists>r\<in>set rows. wr_worker_id r = fst (snd x) \<and> snd (snd x) \<le> wr_generation (g r)"
  shows "sessions_inv issued' (map g rows)"
proof -
  have "map wr_worker_id (map g rows) = map wr_worker_id rows" using keep by simp
  then have "distinct (map wr_worker_id (map g rows))" using assms(1) by (simp only: sessions_inv_def)
  moreover have "\<exists>r\<in>set (map g rows). wr_worker_id r = fst (snd x) \<and> snd (snd x) \<le> wr_generation r" if "x \<in> set issued'" for x
  proof -
    have "\<exists>r\<in>set rows. wr_worker_id r = fst (snd x) \<and> snd (snd x) \<le> wr_generation (g r)"
    proof (cases "x \<in> set issued")
      case True
      with assms(1) obtain r where "r \<in> set rows" "wr_worker_id r = fst (snd x)" "snd (snd x) \<le> wr_generation r"
        unfolding sessions_inv_def by blast
      with keep [of r] show ?thesis by (intro bexI [of _ r]) auto
    qed (use new that in blast)
    then show ?thesis using keep by auto
  qed
  moreover have "\<forall>r\<in>set (map g rows). \<forall>h. wr_session_token r = Some h \<longrightarrow> (h, wr_worker_id r, wr_generation r) \<in> set issued'"
    using token keep by auto
  ultimately show ?thesis using assms(2) unfolding sessions_inv_def by blast
qed

lemma sessions_upd:
  assumes inv: "sessions_inv issued rows"
    and f: "\<And>r. wr_worker_id (f r) = wr_worker_id r" "\<And>r. wr_generation (f r) = wr_generation r"
      "\<And>r. wr_session_token (f r) = wr_session_token r \<or> wr_session_token (f r) = None"
  shows "sessions_inv issued (upd_row wr_worker_id k f rows)"
  unfolding upd_row_def
proof (rule sessions_map [OF inv])
  fix r h assume "r \<in> set rows" "wr_session_token (if wr_worker_id r = k then f r else r) = Some h"
  moreover from this have "wr_session_token r = Some h" using f(3) [of r] by (auto split: if_splits)
  ultimately show "(h, wr_worker_id r, wr_generation (if wr_worker_id r = k then f r else r)) \<in> set issued"
    using inv f(2) by (auto simp: sessions_inv_def)
qed (use inv f in \<open>simp_all add: sessions_inv_def\<close>)

lemma rg_change_rows:
  fixes rg :: registry_state
  obtains "rg_workers (snd (rg_change m0 a0 event extra w now rg)) = rg_workers rg"
  | s cur where "rg_workers (snd (rg_change m0 a0 event extra w now rg)) =
     upd_row wr_worker_id w (\<lambda>r. if wr_state r = cur
        then extra (r\<lparr>wr_state := s, wr_updated_at := server_now now\<rparr>) else r) (rg_workers rg)"
proof (cases "ab_closed rg")
  case False
  show thesis
  proof (cases "row_of wr_worker_id w (rg_workers rg)")
    case None
    then show thesis using False that(1) by (simp add: rg_change_def)
  next
    case (Some cur)
    show thesis
    proof (cases "worker_transition (wr_state cur) event")
      case (Inl err)
      then show thesis using False Some that(1) by (simp add: rg_change_def)
    next
      case (Inr s)
      then show thesis using False Some that(2) [of "wr_state cur" s] by (simp add: rg_change_def Let_def log_defs)
    qed
  qed
qed (simp add: that(1) rg_change_def)

lemma sessions_change:
  assumes inv: "sessions_inv issued (rg_workers rg)"
    and f: "\<And>r. wr_worker_id (extra r) = wr_worker_id r" "\<And>r. wr_generation (extra r) = wr_generation r"
      "\<And>r. wr_session_token (extra r) = wr_session_token r \<or> wr_session_token (extra r) = None"
  shows "sessions_inv issued (rg_workers (snd (rg_change m0 a0 event extra w now rg)))"
proof (cases rule: rg_change_rows [of m0 a0 event extra w now rg])
  case (2 s cur)
  show ?thesis unfolding 2
    using f(1,2) f(3) [of "r\<lparr>wr_state := s, wr_updated_at := server_now now\<rparr>" for r]
    by (intro sessions_upd [OF inv]) simp_all
qed (use inv in simp)

lemma sessions_register:
  assumes inv: "sessions_inv issued (rg_workers rg)"
  shows "sessions_inv issued (rg_workers (snd (rg_register w now rg)))"
proof (cases "ab_closed rg")
  case False
  let ?row = "row_of wr_worker_id (wg_worker_id w) (rg_workers rg)"
  let ?next = "(case ?row of None \<Rightarrow> 0 | Some r \<Rightarrow> wr_generation r) + 1"
  obtain new where new: "rg_workers (snd (rg_register w now rg)) = rg_upsert new (rg_workers rg)"
    "wr_worker_id new = wg_worker_id w" "wr_generation new = ?next" "wr_session_token new = None"
    using False by (simp add: rg_register_def Let_def log_defs)
  show ?thesis
  proof (cases ?row)
    case None
    then have "wg_worker_id w \<notin> wr_worker_id ` set (rg_workers rg)" by (simp add: row_of_None_iff)
    with None inv show ?thesis unfolding new(1)
      by (auto simp: rg_upsert_def new(2-4) sessions_inv_def)
  next
    case (Some old)
    have unique: "r = old" if "r \<in> set (rg_workers rg)" "wr_worker_id r = wg_worker_id w" for r
      using that Some inv row_of_distinct [of wr_worker_id "rg_workers rg" r] by (simp add: sessions_inv_def)
    have rows: "rg_upsert new (rg_workers rg) = map (\<lambda>r. if wr_worker_id r = wg_worker_id w
        then new\<lparr>wr_session_token := None, wr_drain_requested := False, wr_created_at := wr_created_at r\<rparr> else r) (rg_workers rg)"
      using Some by (simp add: rg_upsert_def new(2) upd_row_def)
    show ?thesis unfolding new(1) rows
      by (rule sessions_map [OF inv]) (use inv Some unique new in \<open>auto simp: sessions_inv_def split: if_splits\<close>)
  qed
qed (use assms in \<open>simp add: rg_register_def\<close>)

lemma sessions_token:
  assumes inv: "sessions_inv issued (rg_workers rg)" and "h \<notin> fst ` set issued"
    and "rg_exec (Rg_token w g h now) (issued, rg) = (issued', rg')"
  shows "sessions_inv issued' (rg_workers rg')"
proof (cases "ab_closed rg")
  case False
  let ?row = "row_of wr_worker_id w (rg_workers rg)"
  let ?f = "\<lambda>r. if wr_worker_id r = w then (if wr_generation r = g
    then r\<lparr>wr_session_token := Some h, wr_updated_at := server_now now\<rparr> else r) else r"
  have rows: "rg_workers rg' = map ?f (rg_workers rg)"
    and issued: "issued' = (if \<exists>r. ?row = Some r \<and> wr_generation r = g then (h, w, g) # issued else issued)"
    using assms(3) False
    by (auto simp: rg_set_session_token_def Let_def log_defs upd_row_def split: option.splits if_splits bool.splits)
  have found: "?row = Some r" if "r \<in> set (rg_workers rg)" "wr_worker_id r = w" for r
    using that inv row_of_distinct [of wr_worker_id "rg_workers rg" r] by (simp add: sessions_inv_def)
  have dist: "distinct (map fst issued')" using inv assms(2) by (auto simp: issued sessions_inv_def)
  show ?thesis unfolding rows
  proof (rule sessions_map [OF inv dist])
    fix r t assume r: "r \<in> set (rg_workers rg)" "wr_session_token (?f r) = Some t"
    then show "(t, wr_worker_id r, wr_generation (?f r)) \<in> set issued'"
      using inv found [OF r(1)] by (auto simp: issued sessions_inv_def split: if_splits)
  next
    fix x assume "x \<in> set issued'" "x \<notin> set issued"
    then obtain r where "?row = Some r" "wr_generation r = g" "x = (h, w, g)" by (auto simp: issued split: if_splits)
    then show "\<exists>r\<in>set (rg_workers rg). wr_worker_id r = fst (snd x) \<and> snd (snd x) \<le> wr_generation (?f r)"
      using row_of_SomeD [of wr_worker_id w "rg_workers rg" r] by (intro bexI [of _ r]) auto
  qed auto
qed (use assms in \<open>auto simp: rg_set_session_token_def\<close>)

lemma sessions_lost:
  "sessions_inv issued (rg_workers rg) \<Longrightarrow> sessions_inv issued (rg_workers (snd (rg_mark_lost w now rg)))"
  unfolding rg_mark_lost_def by (rule sessions_change) simp_all

lemma sessions_reap:
  "sessions_inv issued (rg_workers rg) \<Longrightarrow> sessions_inv issued (rg_workers (reap_all ws now rg))"
  by (induction ws arbitrary: rg) (auto intro: sessions_lost)

lemma sessions_reachable: "rg_reach s \<Longrightarrow> sessions_inv (fst s) (rg_workers (snd s))"
proof (induction rule: rg_reach.induct)
  case (rg_reach_step s cmd)
  obtain issued rg where s: "s = (issued, rg)" by fastforce
  have inv: "sessions_inv issued (rg_workers rg)" using rg_reach_step.IH by (simp add: s)
  show ?case
  proof (cases cmd)
    case (Rg_heartbeat w g now)
    show ?thesis using sessions_upd [OF inv] inv unfolding s Rg_heartbeat
      by (simp add: rg_heartbeat_def Let_def log_defs)
  next
    case (Rg_token w g h now)
    then have "h \<notin> fst ` set issued" using rg_reach_step.hyps(2) by (simp add: s)
    from sessions_token [OF inv this] show ?thesis unfolding s Rg_token by (metis prod.collapse)
  next
    case (Rg_reap stale now)
    show ?thesis using sessions_reap [of issued] inv unfolding s Rg_reap
      by (auto simp: reaper_pass_def rg_list_stale_def log_defs Let_def split: sum.split)
  qed (use inv in \<open>auto simp: s sessions_register sessions_lost rg_transition_def rg_drain_def intro!: sessions_change\<close>)
qed (simp add: sessions_inv_def)

section \<open>The reaper\<close>

definition lost_row :: "int \<Rightarrow> worker_row \<Rightarrow> worker_row" where
  "lost_row now r = r\<lparr>wr_state := W_LOST, wr_updated_at := server_now now, wr_session_token := None\<rparr>"

definition reaped :: "int \<Rightarrow> worker_row \<Rightarrow> bool" where
  "reaped cutoff r = (is_stale cutoff r \<and> wr_state r \<noteq> W_REGISTERING)"

lemma expires_to_lost:
  "worker_transition s WE_HEARTBEAT_EXPIRED =
     (if s \<in> {W_READY, W_BUSY, W_DRAINING} then Inr W_LOST
      else Inl (InvalidTransitionError s WE_HEARTBEAT_EXPIRED))"
  by (cases s) (simp_all add: worker_transition_def transition_of_def worker_transitions_def)

lemma mark_lost_rows:
  assumes "\<not> ab_closed rg" and "distinct (map wr_worker_id (rg_workers rg))"
  shows "rg_workers (snd (rg_mark_lost w now rg)) =
      map (\<lambda>r. if wr_worker_id r = w \<and> wr_state r \<in> {W_READY, W_BUSY, W_DRAINING} then lost_row now r else r) (rg_workers rg)"
proof -
  have unique: "r = r'" if "row_of wr_worker_id w (rg_workers rg) = Some r'" "r \<in> set (rg_workers rg)" "wr_worker_id r = w" for r r'
    using that row_of_distinct [OF assms(2), of r] by simp
  show "rg_workers (snd (rg_mark_lost w now rg)) =
      map (\<lambda>r. if wr_worker_id r = w \<and> wr_state r \<in> {W_READY, W_BUSY, W_DRAINING} then lost_row now r else r) (rg_workers rg)"
  proof (cases "row_of wr_worker_id w (rg_workers rg)")
    case None
    then have "rg_workers (snd (rg_mark_lost w now rg)) = rg_workers rg"
      using assms(1) by (simp add: rg_mark_lost_def rg_change_def)
    with None show ?thesis by (auto simp: row_of_None_iff intro!: map_idI [symmetric])
  next
    case (Some cur)
    show ?thesis
    proof (cases "wr_state cur \<in> {W_READY, W_BUSY, W_DRAINING}")
      case True
      then have "rg_workers (snd (rg_mark_lost w now rg)) = upd_row wr_worker_id w
          (\<lambda>r. if wr_state r = wr_state cur then lost_row now r else r) (rg_workers rg)"
        using assms(1) Some unfolding lost_row_def
        by (simp add: rg_mark_lost_def rg_change_def expires_to_lost Let_def log_defs del: insert_iff)
      then show ?thesis using True unique [OF Some] unfolding upd_row_def by (auto intro!: map_cong)
    next
      case False
      then have "rg_workers (snd (rg_mark_lost w now rg)) = rg_workers rg"
        using assms(1) Some by (simp add: rg_mark_lost_def rg_change_def expires_to_lost del: insert_iff)
      with False show ?thesis using unique [OF Some] by (auto intro!: map_idI [symmetric])
    qed
  qed
qed

lemma mark_lost_open: "ab_closed (snd (rg_mark_lost w now rg)) = ab_closed rg"
  by (auto simp: rg_mark_lost_def rg_change_def Let_def log_defs split: option.split sum.split)

lemma reap_all_rows:
  assumes "\<not> ab_closed rg" and "distinct (map wr_worker_id (rg_workers rg))"
  shows "rg_workers (reap_all ws now rg) =
      map (\<lambda>r. if wr_worker_id r \<in> set ws \<and> wr_state r \<in> {W_READY, W_BUSY, W_DRAINING} then lost_row now r else r) (rg_workers rg)"
  using assms
proof (induction ws arbitrary: rg)
  case (Cons w ws)
  note rows = mark_lost_rows [OF Cons.prems, of w now] mark_lost_open [of w now rg]
  have "map wr_worker_id (rg_workers (snd (rg_mark_lost w now rg))) = map wr_worker_id (rg_workers rg)"
    unfolding rows(1) by (simp add: lost_row_def)
  then have "distinct (map wr_worker_id (rg_workers (snd (rg_mark_lost w now rg))))"
    using Cons.prems(2) by simp
  from Cons.IH [OF _ this] Cons.prems(1) show ?case
    by (auto simp: rows lost_row_def)
qed simp

lemma reaper_pass_open: "ab_closed (snd (reaper_pass stale now rg)) = ab_closed rg"
proof -
  have "ab_closed (reap_all ws now rg) = ab_closed rg" for ws rg
    by (induction ws arbitrary: rg) (simp_all add: mark_lost_open)
  then show ?thesis by (auto simp: reaper_pass_def rg_list_stale_def Let_def log_defs split: sum.split)
qed

lemma reaper_pass_effect:
  assumes "\<not> ab_closed rg" and "distinct (map wr_worker_id (rg_workers rg))"
    and "time_plus (server_now now) (- stale) = Inr cutoff"
  shows "fst (reaper_pass stale now rg) = Inr (length (filter (is_stale cutoff) (rg_workers rg)))"
    and "rg_workers (snd (reaper_pass stale now rg)) = map (\<lambda>r. if reaped cutoff r then lost_row now r else r) (rg_workers rg)"
proof -
  let ?ids = "sort (map wr_worker_id (filter (is_stale cutoff) (rg_workers rg)))"
  have pass: "reaper_pass stale now rg =
      (Inr (length ?ids), reap_all ?ids now (log_result ''list_stale'' [] (str_int (int (length ?ids))) rg))"
    using assms(1,3) by (simp add: reaper_pass_def rg_list_stale_def Let_def)
  then show "fst (reaper_pass stale now rg) = Inr (length (filter (is_stale cutoff) (rg_workers rg)))" by simp
  have mem: "wr_worker_id r \<in> set ?ids \<longleftrightarrow> is_stale cutoff r" if "r \<in> set (rg_workers rg)" for r
    using that assms(2) by (auto simp: distinct_map inj_on_def)
  have logged: "rg_workers (log_result m a x rg) = rg_workers rg" "ab_closed (log_result m a x rg) = ab_closed rg" for m a x
    by (simp_all add: log_defs)
  have reaped: "reaped cutoff r \<longleftrightarrow> is_stale cutoff r \<and> wr_state r \<in> {W_READY, W_BUSY, W_DRAINING}" for r
    by (auto simp: reaped_def is_stale_def active_states_def)
  have "rg_workers (snd (reaper_pass stale now rg)) = map (\<lambda>r. if wr_worker_id r \<in> set ?ids \<and>
      wr_state r \<in> {W_READY, W_BUSY, W_DRAINING} then lost_row now r else r) (rg_workers rg)"
    unfolding pass snd_conv by (subst reap_all_rows) (use assms(1,2) in \<open>simp_all add: logged\<close>)
  also have "\<dots> = map (\<lambda>r. if reaped cutoff r then lost_row now r else r) (rg_workers rg)"
    by (intro map_cong refl) (simp only: mem reaped)
  finally show "rg_workers (snd (reaper_pass stale now rg)) = map (\<lambda>r. if reaped cutoff r then lost_row now r else r) (rg_workers rg)" .
qed

section \<open>Properties\<close>

lemma find_token:
  assumes "sessions_inv issued rows"
  shows "find (\<lambda>r. wr_session_token r = Some h) rows = Some r \<Longrightarrow>
    row_of wr_worker_id (wr_worker_id r) rows = Some r \<and> (h, wr_worker_id r, wr_generation r) \<in> set issued"
  using assms row_of_distinct [of wr_worker_id rows r]
  by (auto simp: find_Some_iff sessions_inv_def)

lemma registration_post_init_InrD: "registration_post_init w = Inr w' \<Longrightarrow> w' = w"
  unfolding registration_post_init_def by (simp only: first_error_Inr_iff)

lemma row_to_registration_keeps:
  "row_to_registration r = Inr w \<Longrightarrow> wg_worker_id w = wr_worker_id r \<and> wg_generation w = wr_generation r \<and>
     wg_state w = wr_state r"
  by (auto simp: row_to_registration_def bind_res_def dest!: registration_post_init_InrD split: sum.splits option.splits)

lemma rg_authenticate_SomeD:
  assumes "rg_authenticate h rg = Inr (Some w)"
  obtains r where "find (\<lambda>r. wr_session_token r = Some h) (rg_workers rg) = Some r" "row_to_registration r = Inr w"
  using assms by (auto simp: rg_authenticate_def bind_res_def split: if_splits option.splits sum.splits)

lemma issued_generation:
  assumes "sessions_inv issued rows" and "(h, w, g) \<in> set issued" and "row_of wr_worker_id w rows = Some r"
  shows "g \<le> wr_generation r"
proof -
  obtain r' where "r' \<in> set rows" "wr_worker_id r' = w" "g \<le> wr_generation r'"
    using assms(1,2) unfolding sessions_inv_def by fastforce
  moreover from this have "row_of wr_worker_id w rows = Some r'"
    using assms(1) row_of_distinct [of wr_worker_id rows r'] by (simp add: sessions_inv_def)
  ultimately show ?thesis using assms(3) by simp
qed

lemma row_of_upd_same:
  assumes "\<And>r. key (f r) = k"
  shows "row_of key k (upd_row key k f rows) = map_option f (row_of key k rows)"
  using assms by (induction rows) (auto simp: upd_row_def row_of_Cons)

lemma register_new_row:
  assumes "\<not> ab_closed rg" and "sessions_inv issued (rg_workers rg)" and "row_of wr_worker_id (wg_worker_id w) (rg_workers rg) = Some old"
  shows "\<exists>new. row_of wr_worker_id (wg_worker_id w) (rg_workers (snd (rg_register w now rg))) = Some new \<and>
    wr_generation new = wr_generation old + 1"
  using assms row_of_SomeD [OF assms(3)]
  by (simp add: rg_register_def rg_upsert_def Let_def log_defs row_of_upd_same)

text \<open>
  C31: a session token is good for one registration. In every history of the registry, a token
  that authenticates was issued, to the worker it authenticates as and for the generation of
  that worker's present registration, and every token issued to this worker before is of no
  later generation; a token nobody was issued authenticates nobody. As soon as the worker
  registers again, the token authenticates nobody, and no token of another generation than the
  present one does at any time.
\<close>

theorem session_token_is_fenced:
  assumes "rg_reach (issued, rg)" and "rg_authenticate h rg = Inr (Some w)"
  shows "(h, wg_worker_id w, wg_generation w) \<in> set issued \<and>
    (\<forall>(h', w', g')\<in>set issued. w' = wg_worker_id w \<longrightarrow>
       g' \<le> wg_generation w \<and> (g' \<noteq> wg_generation w \<longrightarrow> rg_authenticate h' rg = Inr None)) \<and>
    (\<forall>again now. wg_worker_id again = wg_worker_id w \<longrightarrow>
       rg_authenticate h (snd (rg_register again now rg)) = Inr None)"
proof -
  have inv: "sessions_inv issued (rg_workers rg)" using sessions_reachable [OF assms(1)] by simp
  have opened: "\<not> ab_closed rg" using assms(2) by (auto simp: rg_authenticate_def)
  obtain r where r: "find (\<lambda>r. wr_session_token r = Some h) (rg_workers rg) = Some r" "row_to_registration r = Inr w"
    using assms(2) by (rule rg_authenticate_SomeD)
  note found = find_token [OF inv r(1)] and same = row_to_registration_keeps [OF r(2)]
  have only: "rg_authenticate t rg' = Inr None"
    if "(t, v, g) \<in> set issued" "sessions_inv issued (rg_workers rg')" "row_of wr_worker_id v (rg_workers rg') = Some x"
      "wr_generation x \<noteq> g" "\<not> ab_closed rg'" for t v g x rg'
  proof (cases "find (\<lambda>r. wr_session_token r = Some t) (rg_workers rg')")
    case (Some y)
    from find_token [OF that(2) Some] have "(t, wr_worker_id y, wr_generation y) \<in> set issued"
      "row_of wr_worker_id (wr_worker_id y) (rg_workers rg') = Some y" by simp_all
    moreover from this(1) that(1,2) have "wr_worker_id y = v \<and> wr_generation y = g"
      unfolding sessions_inv_def by (metis eq_key_imp_eq_value prod.inject)
    ultimately show ?thesis using that(3,4) by simp
  qed (simp add: rg_authenticate_def that(5))
  have older: "g' \<le> wr_generation r \<and> (g' \<noteq> wr_generation r \<longrightarrow> rg_authenticate h' rg = Inr None)"
    if "(h', wr_worker_id r, g') \<in> set issued" for h' g'
    using issued_generation [OF inv that] found only [OF that inv, of r] opened by auto
  have again: "rg_authenticate h (snd (rg_register again now rg)) = Inr None"
    if id: "wg_worker_id again = wr_worker_id r" for again now
  proof -
    obtain new where "row_of wr_worker_id (wr_worker_id r) (rg_workers (snd (rg_register again now rg))) = Some new"
      "wr_generation new = wr_generation r + 1"
      using register_new_row [OF opened inv, of again r now] found unfolding id by blast
    moreover have "\<not> ab_closed (snd (rg_register again now rg))"
      using opened by (simp add: rg_register_def Let_def log_defs)
    ultimately show ?thesis
      using only [of h "wr_worker_id r" "wr_generation r" "snd (rg_register again now rg)" new] found
        sessions_register [OF inv] by simp
  qed
  have "\<forall>(h', w', g')\<in>set issued. w' = wr_worker_id r \<longrightarrow>
       g' \<le> wr_generation r \<and> (g' \<noteq> wr_generation r \<longrightarrow> rg_authenticate h' rg = Inr None)"
    by clarify (rule older)
  moreover have "\<forall>x now. wg_worker_id x = wr_worker_id r \<longrightarrow>
       rg_authenticate h (snd (rg_register x now rg)) = Inr None" using again by blast
  ultimately show ?thesis using found same by (simp only: simp_thms)
qed

lemma lost_workers_iff:
  assumes "distinct (map wr_worker_id (wf_workers st))" and "row_of wr_worker_id w (wf_workers st) = Some x"
  shows "w \<in> lost_workers st \<longleftrightarrow> wr_state x = W_LOST"
proof -
  have "y = x" if "y \<in> set (wf_workers st)" "wr_worker_id y = w" for y
    using row_of_distinct [OF assms(1) that(1)] that(2) assms(2) by simp
  then show ?thesis using row_of_SomeD [OF assms(2)] unfolding lost_workers_def by blast
qed

lemma issued_once:
  assumes "sessions_inv issued rows" and "(h, w, g) \<in> set issued" and "(h, w', g') \<in> set issued"
  shows "w' = w \<and> g' = g"
  using assms unfolding sessions_inv_def by (metis eq_key_imp_eq_value prod.inject)

text \<open>
  C32: a worker that falls silent loses its work, and only such a worker. A pass of the reaper
  reports how many active workers have a heartbeat older than the threshold and turns exactly
  those of them that had left \<open>REGISTERING\<close> into \<open>LOST\<close> ones without a session; no other row
  changes. The recovery that follows takes back exactly the leases of lost workers and the
  expired leases and queues their tasks again; the unexpired lease of a worker that is alive
  stays with its task as it was. The session token of a reaped worker authenticates nobody.
\<close>

theorem silent_worker_loses_its_work:
  assumes "rg_reach (toks, rg)" and "wf_reach dg (issued, st)" and "\<not> ab_closed rg" and "\<not> ab_closed st"
    and "time_plus (server_now now) (- stale) = Inr cutoff" and "reaper_pass stale now rg = (count, rg')"
    and "recover_expired_leases clk uid (st\<lparr>wf_workers := rg_workers rg'\<rparr>) = (res, st')"
    and "lease_of tid st = Some l" and "lr_worker_id l = Some w" and "row_of wr_worker_id w (rg_workers rg) = Some r"
  shows "count = Inr (length (filter (is_stale cutoff) (rg_workers rg))) \<and>
    rg_workers rg' = map (\<lambda>r. if reaped cutoff r then lost_row now r else r) (rg_workers rg) \<and>
    (if reaped cutoff r \<or> wr_state r = W_LOST \<or> iso_less (lr_expires_at l) (clk 0)
     then lease_of tid st' = None \<and> task_of tid st' = map_option (\<lambda>t. t\<lparr>tr_status := T_QUEUED\<rparr>) (task_of tid st)
     else lease_of tid st' = Some l \<and> task_of tid st' = task_of tid st) \<and>
    (\<forall>h. reaped cutoff r \<and> wr_session_token r = Some h \<longrightarrow> rg_authenticate h rg' = Inr None)"
proof -
  let ?st = "st\<lparr>wf_workers := rg_workers rg'\<rparr>" and ?f = "\<lambda>r. if reaped cutoff r then lost_row now r else r"
  have inv: "sessions_inv toks (rg_workers rg)" using sessions_reachable [OF assms(1)] by simp
  then have dist: "distinct (map wr_worker_id (rg_workers rg))" by (simp add: sessions_inv_def)
  note pass = reaper_pass_effect [OF assms(3) dist assms(5), unfolded assms(6) fst_conv snd_conv]
  have row: "row_of wr_worker_id w (rg_workers rg') = Some (?f r)"
    using row_of_map [of wr_worker_id ?f w "rg_workers rg"] assms(10) by (simp add: pass(2) lost_row_def)
  have dist': "distinct (map wr_worker_id (rg_workers rg'))"
    using sessions_reachable [OF rg_reach_step [OF assms(1), of "Rg_reap stale now"]] assms(6) by (simp add: sessions_inv_def)
  have "w \<in> lost_workers ?st \<longleftrightarrow> wr_state (?f r) = W_LOST"
    using lost_workers_iff [of ?st w] dist' row by simp
  then have rec: "recoverable (clk 0) ?st l \<longleftrightarrow> reaped cutoff r \<or> wr_state r = W_LOST \<or> iso_less (lr_expires_at l) (clk 0)"
    using assms(9) by (auto simp: recoverable_def held_by_lost_def lost_row_def)
  have reach: "wf_reach dg (issued, ?st)" using reach_env [OF assms(2), of ?st] by (simp add: db_def)
  have same: "lease_of tid ?st = lease_of tid st" "task_of tid ?st = task_of tid st"
    by (simp_all add: lease_of_def task_of_def)
  have revoked: "rg_authenticate h rg' = Inr None" if h: "reaped cutoff r" "wr_session_token r = Some h" for h
  proof (cases "find (\<lambda>r. wr_session_token r = Some h) (rg_workers rg')")
    case (Some y)
    have inv': "sessions_inv toks (rg_workers rg')"
      using sessions_reachable [OF rg_reach_step [OF assms(1), of "Rg_reap stale now"]] assms(6) by simp
    have "(h, w, wr_generation r) \<in> set toks" using inv h(2) row_of_SomeD [OF assms(10)] by (auto simp: sessions_inv_def)
    with find_token [OF inv' Some] issued_once [OF inv'] have "row_of wr_worker_id w (rg_workers rg') = Some y" by blast
    then have "wr_session_token y = None" using row h(1) by (auto simp: lost_row_def)
    then show ?thesis using Some by (auto simp: find_Some_iff)
  qed (use reaper_pass_open [of stale now rg] assms(3,6) in \<open>simp add: rg_authenticate_def\<close>)
  have effect: "if recoverable (clk 0) ?st l
     then lease_of tid st' = None \<and> task_of tid st' = map_option (\<lambda>t. t\<lparr>tr_status := T_QUEUED\<rparr>) (task_of tid st)
     else lease_of tid st' = Some l \<and> task_of tid st' = task_of tid st"
    using recovery_effect [OF wf_reach_inv [OF reach, unfolded fst_conv snd_conv] _ assms(7)] assms(4,8)
    by (auto simp: same split: option.splits dest!: spec [of _ tid])
  show ?thesis using pass revoked effect unfolding rec by blast
qed

section \<open>Instances\<close>

definition demo_registration :: worker_registration where
  "demo_registration =
     \<lparr>wg_worker_id = ''w1'', wg_protocol_version = ''1'', wg_runtime_version = ''1'', wg_capabilities = [],
      wg_backend_kinds = [], wg_platform = ''linux'', wg_partition_slots = [], wg_max_concurrency = 1,
      wg_generation = 0, wg_state = W_REGISTERING, wg_last_heartbeat = None, wg_drain_requested = False,
      wg_gpu_observation = None, wg_gpu_observed_at = None\<rparr>"

definition demo_registry :: registry_state where
  "demo_registry = \<lparr>ab_closed = False, ab_calls = [], rg_workers = []\<rparr>"

text \<open>A worker registers, gets its token and is ready.\<close>

definition rsys1 :: rg_sys where "rsys1 = rg_exec (Rg_register demo_registration 0) ([], demo_registry)"

definition rsys2 :: rg_sys where "rsys2 = rg_exec (Rg_token ''w1'' 1 ''h1'' 0) rsys1"

definition rsys3 :: rg_sys where "rsys3 = rg_exec (Rg_transition ''w1'' WE_HANDSHAKE_OK 0) rsys2"

lemma rsys_reach: "rg_reach rsys3"
proof -
  have "rg_reach ([], demo_registry)" by (rule rg_reach_init) (simp add: demo_registry_def)
  then have "rg_reach rsys1" unfolding rsys1_def by (rule rg_reach_step) simp
  moreover have "rg_cmd_ok (Rg_token ''w1'' 1 ''h1'' 0) rsys1" by code_simp
  ultimately have "rg_reach rsys2" unfolding rsys2_def by (rule rg_reach_step)
  then show ?thesis unfolding rsys3_def by (rule rg_reach_step) simp
qed

theorem session_token_is_fenced_witness:
  "rg_authenticate ''h1'' (snd rsys3) \<noteq> Inr None \<and>
   rg_authenticate ''h1'' (snd (rg_register demo_registration 5 (snd rsys3))) = Inr None"
proof -
  have "case rg_authenticate ''h1'' (snd rsys3) of Inr (Some w) \<Rightarrow> wg_worker_id w = ''w1'' | _ \<Rightarrow> False" by code_simp
  then obtain w where w: "rg_authenticate ''h1'' (snd rsys3) = Inr (Some w)" "wg_worker_id w = ''w1''"
    by (auto split: sum.splits option.splits)
  have "rg_reach (fst rsys3, snd rsys3)" using rsys_reach by simp
  from session_token_is_fenced [OF this w(1)] w show ?thesis by (simp add: demo_registration_def)
qed

text \<open>
  The worker holds the lease of a task it claimed at second 100; at second 300 its last
  heartbeat is 300 seconds old.
\<close>

definition claimed_sys :: sys where "claimed_sys = demo_exec (Claim demo_request) 100 20 sys3"

lemma claimed_reach: "wf_reach demo_digest claimed_sys"
  unfolding claimed_sys_def
  by (rule demo_step [OF demo_reach3]) (simp_all add: demo_viewD(1,2) [OF demo_view3] demo_lease_defs)

theorem silent_worker_loses_its_work_witness:
  "\<exists>rg' st' l. reaper_pass (60 * second_us) (300 * second_us) (snd rsys3) = (Inr 1, rg') \<and>
     lease_of demo_id (snd claimed_sys) = Some l \<and> lr_worker_id l = Some ''w1'' \<and>
     st' = snd (recover_expired_leases (demo_clock 101) (demo_uid 40) ((snd claimed_sys)\<lparr>wf_workers := rg_workers rg'\<rparr>)) \<and>
     lease_of demo_id st' = None \<and> rg_authenticate ''h1'' rg' = Inr None"
proof -
  have r: "case row_of wr_worker_id ''w1'' (rg_workers (snd rsys3)) of None \<Rightarrow> False
    | Some r \<Rightarrow> reaped (240 * second_us) r \<and> wr_session_token r = Some ''h1''" by code_simp
  have l: "case lease_of demo_id (snd claimed_sys) of None \<Rightarrow> False | Some l \<Rightarrow> lr_worker_id l = Some ''w1''" by code_simp
  have opened: "\<not> ab_closed (snd rsys3)" "\<not> ab_closed (snd claimed_sys)" by code_simp+
  have cut: "time_plus (server_now (300 * second_us)) (- (60 * second_us)) = Inr (240 * second_us)" by code_simp
  have one: "length (filter (is_stale (240 * second_us)) (rg_workers (snd rsys3))) = 1" by code_simp
  have reach: "rg_reach (fst rsys3, snd rsys3)" "wf_reach demo_digest (fst claimed_sys, snd claimed_sys)"
    using rsys_reach claimed_reach by simp_all
  obtain count rg' where pass: "reaper_pass (60 * second_us) (300 * second_us) (snd rsys3) = (count, rg')" by fastforce
  obtain res st' where rec: "recover_expired_leases (demo_clock 101) (demo_uid 40)
    ((snd claimed_sys)\<lparr>wf_workers := rg_workers rg'\<rparr>) = (res, st')" by fastforce
  obtain x where x: "row_of wr_worker_id ''w1'' (rg_workers (snd rsys3)) = Some x" "reaped (240 * second_us) x"
    "wr_session_token x = Some ''h1''" using r by (auto split: option.splits)
  obtain y where y: "lease_of demo_id (snd claimed_sys) = Some y" "lr_worker_id y = Some ''w1''"
    using l by (auto split: option.splits)
  from silent_worker_loses_its_work [OF reach opened cut pass rec y x(1)] x y pass rec one
  show ?thesis by auto
qed

end
