(* ===== verification/Research_Run.thy ===== *)
theory Research_Run
  imports Lifecycles
begin

text \<open>
  The \<^verbatim>\<open>ResearchRun\<close> entity (\<^verbatim>\<open>packages/domain/run.py\<close>): an immutable record whose state
  changes only through the run lifecycle, and which copies every frozen reference when it
  is rebuilt. Identifiers, digests and protocol sources are strings, timestamps are
  microseconds. \<^verbatim>\<open>Timestamp.now()\<close> is the argument \<open>now\<close>.
\<close>

record research_run =
  rr_id :: string
  rr_project_id :: string
  rr_protocol_id :: string
  rr_state :: run_state
  rr_manifest_digest :: "string option"
  rr_manifest_semantic_digest :: "string option"
  rr_pricing_version :: "string option"
  rr_pricing_digest :: "string option"
  rr_protocol_source :: "string option"
  rr_protocol_body :: "string option"
  rr_program_id :: "string option"
  rr_program_index :: "int option"
  rr_created_at :: int
  rr_updated_at :: int

definition run_post_init :: "research_run \<Rightarrow> research_run res" where
  "run_post_init r = first_error
     [(rr_project_id r = '''', ''project_id must not be empty''),
      (rr_protocol_id r = '''', ''protocol_id must not be empty''),
      ((rr_program_id r = None) \<noteq> (rr_program_index r = None),
        ''program_id and program_index must be set together''),
      (rr_program_id r = Some '''', ''program_id must not be empty when set''),
      (\<exists>i\<in>set_option (rr_program_index r). i < 1, ''program_index must be >= 1'')] r"

datatype run_error =
    RunValueError py_error
  | RunTransition "(run_state, run_event) invalid_transition"

text \<open>\<^verbatim>\<open>ResearchRun.transition\<close>: the state table decides, then the record is rebuilt field by field.\<close>

definition rr_transition :: "research_run \<Rightarrow> run_event \<Rightarrow> int \<Rightarrow> run_error + research_run" where
  "rr_transition r e now =
     (case run_transition (rr_state r) e of
        Inl err \<Rightarrow> Inl (RunTransition err)
      | Inr next_state \<Rightarrow>
          (case run_post_init
             \<lparr>rr_id = rr_id r, rr_project_id = rr_project_id r, rr_protocol_id = rr_protocol_id r,
              rr_state = next_state, rr_manifest_digest = rr_manifest_digest r,
              rr_manifest_semantic_digest = rr_manifest_semantic_digest r,
              rr_pricing_version = rr_pricing_version r, rr_pricing_digest = rr_pricing_digest r,
              rr_protocol_source = rr_protocol_source r, rr_protocol_body = rr_protocol_body r,
              rr_program_id = rr_program_id r, rr_program_index = rr_program_index r,
              rr_created_at = rr_created_at r, rr_updated_at = now\<rparr> of
             Inl err \<Rightarrow> Inl (RunValueError err)
           | Inr r' \<Rightarrow> Inr r'))"

definition with_manifest ::
    "research_run \<Rightarrow> string \<Rightarrow> string option \<Rightarrow> string option \<Rightarrow> string option \<Rightarrow> int \<Rightarrow>
     research_run res" where
  "with_manifest r digest semantic_digest pricing_version pricing_digest now =
     run_post_init
       (r\<lparr>rr_manifest_digest := Some digest,
          rr_manifest_semantic_digest := semantic_digest,
          rr_pricing_version :=
            (if pricing_version \<noteq> None then pricing_version else rr_pricing_version r),
          rr_pricing_digest :=
            (if pricing_digest \<noteq> None then pricing_digest else rr_pricing_digest r),
          rr_updated_at := now\<rparr>)"

definition with_protocol_source :: "research_run \<Rightarrow> string option \<Rightarrow> int \<Rightarrow> research_run res" where
  "with_protocol_source r source now =
     run_post_init
       (r\<lparr>rr_protocol_source := (if source \<noteq> None then source else rr_protocol_source r),
          rr_updated_at := now\<rparr>)"

definition rr_is_terminal :: "research_run \<Rightarrow> bool" where
  "rr_is_terminal r = is_terminal (rr_state r) run_terminal"

text \<open>A run as the constructor accepts it.\<close>

definition valid_run :: "research_run \<Rightarrow> bool" where
  "valid_run r = is_ok (run_post_init r)"

lemma valid_run_iff:
  "valid_run r \<longleftrightarrow>
     rr_project_id r \<noteq> '''' \<and> rr_protocol_id r \<noteq> '''' \<and>
     ((rr_program_id r = None) = (rr_program_index r = None)) \<and>
     rr_program_id r \<noteq> Some '''' \<and> (\<forall>i. rr_program_index r = Some i \<longrightarrow> 1 \<le> i)"
  by (cases "rr_program_index r") (auto simp: valid_run_def run_post_init_def)

lemma run_post_init_valid: "valid_run r \<Longrightarrow> run_post_init r = Inr r"
  by (auto simp: valid_run_def run_post_init_def split: if_splits)

text \<open>A life of the entity: transitions, manifests given to it and protocol sources, in any order.\<close>

datatype run_step =
    Step_event run_event int
  | Step_manifest string "string option" "string option" "string option" int
  | Step_source "string option" int

fun rr_step :: "research_run \<Rightarrow> run_step \<Rightarrow> run_error + research_run" where
  "rr_step r (Step_event e now) = rr_transition r e now"
| "rr_step r (Step_manifest digest semantic version pricing now) =
     (case with_manifest r digest semantic version pricing now of Inl e \<Rightarrow> Inl (RunValueError e) | Inr r' \<Rightarrow> Inr r')"
| "rr_step r (Step_source source now) =
     (case with_protocol_source r source now of Inl e \<Rightarrow> Inl (RunValueError e) | Inr r' \<Rightarrow> Inr r')"

fun rr_steps :: "research_run \<Rightarrow> run_step list \<Rightarrow> run_error + research_run" where
  "rr_steps r [] = Inr r"
| "rr_steps r (s # ss) = (case rr_step r s of Inl err \<Rightarrow> Inl err | Inr r' \<Rightarrow> rr_steps r' ss)"

fun step_events :: "run_step list \<Rightarrow> run_event list" where
  "step_events [] = []"
| "step_events (Step_event e now # ss) = e # step_events ss"
| "step_events (s # ss) = step_events ss"

definition is_manifest :: "run_step \<Rightarrow> bool" where
  "is_manifest s = (case s of Step_manifest _ _ _ _ _ \<Rightarrow> True | _ \<Rightarrow> False)"

definition rr_identity :: "research_run \<Rightarrow> (string \<times> string \<times> string) \<times> string option \<times> string option \<times> int option \<times> int" where
  "rr_identity r = ((rr_id r, rr_project_id r, rr_protocol_id r), rr_protocol_body r, rr_program_id r,
     rr_program_index r, rr_created_at r)"

definition rr_frozen :: "research_run \<Rightarrow> string option \<times> string option \<times> string option \<times> string option" where
  "rr_frozen r = (rr_manifest_digest r, rr_manifest_semantic_digest r, rr_pricing_version r, rr_pricing_digest r)"

lemma rr_transition_eq:
  assumes "valid_run r"
  shows "rr_transition r e now =
     (case run_transition (rr_state r) e of
        Inl err \<Rightarrow> Inl (RunTransition err)
      | Inr s \<Rightarrow> Inr (r\<lparr>rr_state := s, rr_updated_at := now\<rparr>))"
proof (cases "run_transition (rr_state r) e")
  case (Inr s)
  then show ?thesis
    using assms
    by (cases r) (simp add: rr_transition_def run_post_init_valid valid_run_iff)
qed (simp add: rr_transition_def)

lemma rr_step_frame:
  assumes "valid_run r" and "rr_step r s = Inr r'"
  shows "valid_run r' \<and> rr_identity r' = rr_identity r \<and> (\<not> is_manifest s \<longrightarrow> rr_frozen r' = rr_frozen r) \<and>
    run_events run_transitions (rr_state r) (step_events [s]) = Inr (rr_state r')"
proof (cases s)
  case (Step_event e now)
  with assms obtain t where t: "run_transition (rr_state r) e = Inr t" "r' = r\<lparr>rr_state := t, rr_updated_at := now\<rparr>"
    by (auto simp: rr_transition_eq split: sum.splits)
  then show ?thesis
    using assms(1) Step_event by (simp add: valid_run_iff rr_identity_def rr_frozen_def run_transition_def)
next
  case (Step_manifest digest semantic version pricing now)
  then have "r' = r\<lparr>rr_manifest_digest := Some digest, rr_manifest_semantic_digest := semantic,
      rr_pricing_version := (if version \<noteq> None then version else rr_pricing_version r),
      rr_pricing_digest := (if pricing \<noteq> None then pricing else rr_pricing_digest r), rr_updated_at := now\<rparr>"
    using assms(2) by (auto simp: with_manifest_def run_post_init_def split: sum.splits if_splits)
  then show ?thesis using assms(1) Step_manifest by (simp add: valid_run_iff rr_identity_def is_manifest_def)
next
  case (Step_source source now)
  then have "r' = r\<lparr>rr_protocol_source := (if source \<noteq> None then source else rr_protocol_source r), rr_updated_at := now\<rparr>"
    using assms(2) by (auto simp: with_protocol_source_def run_post_init_def split: sum.splits if_splits)
  then show ?thesis using assms(1) Step_source by (simp add: valid_run_iff rr_identity_def rr_frozen_def)
qed

lemma step_events_Cons: "step_events (s # ss) = step_events [s] @ step_events ss"
  by (cases s) simp_all

lemma rr_steps_frame:
  assumes "valid_run r" and "rr_steps r ss = Inr r'"
  shows "valid_run r' \<and> rr_identity r' = rr_identity r \<and> (list_all (\<lambda>s. \<not> is_manifest s) ss \<longrightarrow> rr_frozen r' = rr_frozen r) \<and>
    run_events run_transitions (rr_state r) (step_events ss) = Inr (rr_state r')"
  using assms
proof (induction ss arbitrary: r)
  case (Cons s ss)
  then obtain r1 where r1: "rr_step r s = Inr r1" "rr_steps r1 ss = Inr r'" by (auto split: sum.splits)
  note step = rr_step_frame [OF Cons.prems(1) r1(1)]
  have "run_events run_transitions (rr_state r) (step_events [s] @ step_events ss) =
      run_events run_transitions (rr_state r1) (step_events ss)"
    using step by (cases s) (auto split: sum.splits)
  with step Cons.IH [OF _ r1(2)] show ?case unfolding step_events_Cons [of s ss] by simp
qed simp

lemma rr_steps_append:
  "rr_steps r (xs @ ys) = (case rr_steps r xs of Inl e \<Rightarrow> Inl e | Inr r1 \<Rightarrow> rr_steps r1 ys)"
  by (induction xs arbitrary: r) (auto split: sum.split)

lemma last_manifest_frozen:
  assumes "valid_run r" and "rr_steps r (before @ Step_manifest digest semantic version pricing now # after) = Inr r'"
    and "list_all (\<lambda>s. \<not> is_manifest s) after"
  shows "rr_manifest_digest r' = Some digest \<and> rr_manifest_semantic_digest r' = semantic \<and>
    (version \<noteq> None \<longrightarrow> rr_pricing_version r' = version) \<and> (pricing \<noteq> None \<longrightarrow> rr_pricing_digest r' = pricing)"
proof -
  obtain r1 r2 where r1: "rr_steps r before = Inr r1" and r2: "with_manifest r1 digest semantic version pricing now = Inr r2"
    and rest: "rr_steps r2 after = Inr r'"
    using assms(2) by (auto simp: rr_steps_append split: sum.splits)
  have valid: "valid_run r1" using rr_steps_frame [OF assms(1) r1] by simp
  have "rr_step r1 (Step_manifest digest semantic version pricing now) = Inr r2" using r2 by simp
  from rr_step_frame [OF valid this] have "valid_run r2" by simp
  from rr_steps_frame [OF this rest] assms(3) have "rr_frozen r' = rr_frozen r2" by simp
  then show ?thesis using r2 by (auto simp: with_manifest_def run_post_init_def rr_frozen_def split: if_splits)
qed

section \<open>Properties\<close>

lemma run_gates_prefix:
  assumes "run_events run_transitions R_DRAFT es = Inr s"
    and "s \<notin> {R_DRAFT, R_COMPILING, R_PREFLIGHT, R_FAILED, R_CANCELLED}"
  shows "\<exists>rest. es = RE_START_COMPILE # RE_COMPILE_OK # RE_PREFLIGHT_OK # rest \<and>
           run_events run_transitions R_READY rest = Inr s"
proof -
  have draft: "e = RE_START_COMPILE \<and> v = R_COMPILING \<or> e = RE_CANCEL \<and> v = R_CANCELLED"
    if "transition_of run_transitions R_DRAFT e = Inr v" for e v
    using that by (auto simp: run.transition_iff_table) (auto simp: run_transitions_def)
  have compiling: "e = RE_COMPILE_OK \<and> v = R_PREFLIGHT \<or> e = RE_CANCEL \<and> v = R_CANCELLED"
    if "transition_of run_transitions R_COMPILING e = Inr v" for e v
    using that by (auto simp: run.transition_iff_table) (auto simp: run_transitions_def)
  have preflight: "e = RE_PREFLIGHT_OK \<and> v = R_READY \<or> v \<in> {R_FAILED, R_CANCELLED}"
    if "transition_of run_transitions R_PREFLIGHT e = Inr v" for e v
    using that by (auto simp: run.transition_iff_table) (auto simp: run_transitions_def)
  have dead: "u = v" if "run_events run_transitions v fs = Inr u" "v \<in> {R_FAILED, R_CANCELLED}" for u v fs
    using that run.terminal_absorbing [of v fs u] by (auto simp: run_terminal_def is_terminal_def)
  obtain e1 es1 v1 where 1: "es = e1 # es1" "transition_of run_transitions R_DRAFT e1 = Inr v1"
    "run_events run_transitions v1 es1 = Inr s"
    using assms by (cases es) (auto split: sum.splits)
  then have v1: "e1 = RE_START_COMPILE" "v1 = R_COMPILING" using draft dead assms(2) by blast+
  obtain e2 es2 v2 where 2: "es1 = e2 # es2" "transition_of run_transitions R_COMPILING e2 = Inr v2"
    "run_events run_transitions v2 es2 = Inr s"
    using 1 v1 assms(2) by (cases es1) (auto split: sum.splits)
  then have v2: "e2 = RE_COMPILE_OK" "v2 = R_PREFLIGHT" using compiling dead assms(2) by blast+
  obtain e3 es3 v3 where 3: "es2 = e3 # es3" "transition_of run_transitions R_PREFLIGHT e3 = Inr v3"
    "run_events run_transitions v3 es3 = Inr s"
    using 2 v2 assms(2) by (cases es2) (auto split: sum.splits)
  then have "e3 = RE_PREFLIGHT_OK" "v3 = R_READY" using preflight dead assms(2) by blast+
  with 1 2 3 v1 v2 show ?thesis by simp
qed


definition demo_run :: research_run where
  "demo_run = \<lparr>rr_id = ''run-1'', rr_project_id = ''proj'', rr_protocol_id = ''proto'',
     rr_state = R_DRAFT, rr_manifest_digest = None, rr_manifest_semantic_digest = None,
     rr_pricing_version = None, rr_pricing_digest = None, rr_protocol_source = None,
     rr_protocol_body = None, rr_program_id = Some ''prog'', rr_program_index = Some 1,
     rr_created_at = 10, rr_updated_at = 10\<rparr>"

definition demo_steps :: "run_step list" where
  "demo_steps =
     [Step_event RE_START_COMPILE 11, Step_event RE_COMPILE_OK 12, Step_event RE_PREFLIGHT_OK 13,
      Step_manifest ''digest'' (Some ''semantics'') (Some ''v1'') None 14, Step_event RE_START 15,
      Step_event RE_PAUSE 16, Step_event RE_RESUME 17]"


end
