(* ===== verification/Program_Domain.thy ===== *)
theory Program_Domain
  imports Research_Run
begin

text \<open>
  Research programs (\<^verbatim>\<open>packages/domain/program.py\<close>): a program is a project's declaration of
  several rounds of runs, with a bound on the rounds, a bound on the attempts per round, a
  rule that reads the verdicts of the last round, and at most one of four forms of human
  gate. Every advance of a program leaves a decision. The decision's reason is a formatted
  text of the source with interpolated values; it is a value of \<open>reason\<close> here, one
  constructor per format string with its values as arguments, and a cited fact is a value of
  \<open>cited_fact\<close> likewise.
\<close>

section \<open>Declarations\<close>

datatype decision_kind =
    START | CONTINUE | STOP_RULE | STOP_GUARDRAIL | WAIT | DEDUP | STOP_RUN_FAILED
  | STOP_CANCELLED | RETRY_FAILED_RUN | DEDUP_FAILED_RUN | WAIT_FOR_APPROVAL

record continue_rule =
  verdict_in :: "string list"

definition continue_rule_post_init :: "continue_rule \<Rightarrow> continue_rule res" where
  "continue_rule_post_init c = first_error
     [(verdict_in c = [], ''continue rule needs at least one verdict''),
      (\<exists>v\<in>set (verdict_in c). v = [], ''continue rule verdicts must not be empty'')] c"

record hybrid_gate =
  hg_at_indexes :: "int list"
  hg_on_verdicts :: "string list"

definition hybrid_gate_post_init :: "hybrid_gate \<Rightarrow> hybrid_gate res" where
  "hybrid_gate_post_init h = first_error
     [(hg_at_indexes h = [], ''hybrid gate at_indexes must name at least one index when declared''),
      (hg_on_verdicts h = [], ''hybrid gate on_verdicts must name at least one verdict when declared''),
      (\<exists>v\<in>set (hg_on_verdicts h). v = [], ''hybrid gate on_verdicts must not be empty strings'')] h"

record research_program =
  rp_id :: string
  rp_project_id :: string
  rp_protocol_id :: string
  rp_max_runs :: int
  rp_continue_rule :: continue_rule
  rp_max_attempts_per_index :: int
  rp_gate_at_index :: "int option"
  rp_gate_on_verdicts :: "string list option"
  rp_gate_at_indexes :: "int list option"
  rp_nudge_after_seconds :: "int option"
  rp_gate_hybrid :: "hybrid_gate option"
  rp_created_at :: int
  rp_updated_at :: int

section \<open>Validation\<close>

text \<open>
  Each \<open>validate\<close> function is the list of guarded raises of its namesake. The guards of an
  undeclared gate are empty, as the source returns early.
\<close>

definition in_rounds :: "research_program \<Rightarrow> int \<Rightarrow> bool" where
  "in_rounds p i = (1 \<le> i \<and> i \<le> rp_max_runs p)"

definition repeated_indexes :: "int list \<Rightarrow> int list" where
  "repeated_indexes xs = sort (remdups (filter (\<lambda>i. 1 < count_list xs i) xs))"

definition validate_single_point_gate :: "research_program \<Rightarrow> (bool \<times> string) list" where
  "validate_single_point_gate p =
     (case rp_gate_at_index p of
        None \<Rightarrow> []
      | Some i \<Rightarrow>
          [(\<not> in_rounds p i,
            ''human_gate_at_index must be within 1..max_runs when declared (got '' @ str_int i @
            '', max_runs='' @ str_int (rp_max_runs p) @ '')'')])"

definition validate_nudge_bound :: "research_program \<Rightarrow> (bool \<times> string) list" where
  "validate_nudge_bound p =
     (case rp_nudge_after_seconds p of
        None \<Rightarrow> []
      | Some b \<Rightarrow>
          [(b \<le> 0, ''gate_nudge_after_seconds must be a positive integer when declared (got '' @
                     str_int b @ '')'')])"

definition validate_condition_gate :: "research_program \<Rightarrow> (bool \<times> string) list" where
  "validate_condition_gate p =
     (case rp_gate_on_verdicts p of
        None \<Rightarrow> []
      | Some vs \<Rightarrow>
          [(vs = [], ''human_gate_on_verdicts must name at least one verdict when declared''),
           (\<exists>v\<in>set vs. v = [], ''human_gate_on_verdicts must not be empty strings'')])"

definition validate_multi_point_gate :: "research_program \<Rightarrow> (bool \<times> string) list" where
  "validate_multi_point_gate p =
     (case rp_gate_at_indexes p of
        None \<Rightarrow> []
      | Some xs \<Rightarrow>
          (let out_of_range = filter (\<lambda>i. \<not> in_rounds p i) xs;
               repeated = repeated_indexes xs
           in [(xs = [], ''human_gate_at_indexes must name at least one index when declared''),
               (out_of_range \<noteq> [],
                ''human_gate_at_indexes entries must be within 1..max_runs when declared (got '' @
                str_int_list out_of_range @ '', max_runs='' @ str_int (rp_max_runs p) @ '')''),
               (repeated \<noteq> [],
                ''human_gate_at_indexes must not repeat an index (got '' @ str_int_list repeated @ '')'')]))"

definition validate_hybrid_gate :: "research_program \<Rightarrow> (bool \<times> string) list" where
  "validate_hybrid_gate p =
     (case rp_gate_hybrid p of
        None \<Rightarrow> []
      | Some h \<Rightarrow>
          (let out_of_range = filter (\<lambda>i. \<not> in_rounds p i) (hg_at_indexes h);
               repeated = repeated_indexes (hg_at_indexes h)
           in [(out_of_range \<noteq> [],
                ''human_gate_hybrid at_indexes entries must be within 1..max_runs when declared (got '' @
                str_int_list out_of_range @ '', max_runs='' @ str_int (rp_max_runs p) @ '')''),
               (repeated \<noteq> [],
                ''human_gate_hybrid must not repeat an index (got '' @ str_int_list repeated @ '')'')]))"

definition declared_forms :: "research_program \<Rightarrow> string list" where
  "declared_forms p =
     (if rp_gate_at_index p \<noteq> None then [''human_gate_at_index''] else []) @
     (if rp_gate_on_verdicts p \<noteq> None then [''human_gate_on_verdicts''] else []) @
     (if rp_gate_at_indexes p \<noteq> None then [''human_gate_at_indexes''] else []) @
     (if rp_gate_hybrid p \<noteq> None then [''human_gate_hybrid''] else [])"

definition validate_gate_exclusivity :: "research_program \<Rightarrow> (bool \<times> string) list" where
  "validate_gate_exclusivity p =
     [(1 < length (declared_forms p),
       join_texts '' and '' (declared_forms p) @ '' are mutually exclusive (more than one gate '' @
       ''declaration would make '' @ quote ''why did it stop'' @ '' unreadable)'')]"

definition validate_gate_declarations :: "research_program \<Rightarrow> (bool \<times> string) list" where
  "validate_gate_declarations p =
     validate_single_point_gate p @ validate_nudge_bound p @ validate_condition_gate p @
     validate_multi_point_gate p @ validate_hybrid_gate p @ validate_gate_exclusivity p"

definition program_post_init :: "research_program \<Rightarrow> research_program res" where
  "program_post_init p = first_error
     ([(rp_id p = [], ''program id must not be empty''),
       (rp_project_id p = [], ''program project_id must not be empty''),
       (rp_protocol_id p = [], ''program protocol_id must not be empty''),
       (rp_max_runs p < 1, ''max_runs must be >= 1''),
       (rp_max_attempts_per_index p < 1, ''max_attempts_per_index must be >= 1'')] @
      validate_gate_declarations p) p"

definition condition_gate_hit :: "research_program \<Rightarrow> bool" where
  "condition_gate_hit p = (rp_gate_on_verdicts p \<noteq> None)"

definition multi_point_gate_hit :: "research_program \<Rightarrow> bool" where
  "multi_point_gate_hit p = (rp_gate_at_indexes p \<noteq> None)"

definition hybrid_gate_hit :: "research_program \<Rightarrow> bool" where
  "hybrid_gate_hit p = (rp_gate_hybrid p \<noteq> None)"

text \<open>A program that exists: its own constructor accepted it, and those of its parts.\<close>

definition valid_program :: "research_program \<Rightarrow> bool" where
  "valid_program p =
     (is_ok (program_post_init p) \<and> is_ok (continue_rule_post_init (rp_continue_rule p)) \<and>
      (\<forall>h\<in>set_option (rp_gate_hybrid p). is_ok (hybrid_gate_post_init h)))"

lemma program_post_init_ok:
  "is_ok (program_post_init p) \<Longrightarrow> program_post_init p = Inr p"
  unfolding program_post_init_def first_error_ok_iff by (simp add: first_error_Inr_iff)

lemma continue_rule_post_init_ok:
  "is_ok (continue_rule_post_init c) \<Longrightarrow> continue_rule_post_init c = Inr c"
  unfolding continue_rule_post_init_def first_error_ok_iff by (simp only: first_error_Inr_iff)

lemma hybrid_gate_post_init_ok:
  "is_ok (hybrid_gate_post_init h) \<Longrightarrow> hybrid_gate_post_init h = Inr h"
  unfolding hybrid_gate_post_init_def first_error_ok_iff by (simp only: first_error_Inr_iff)

lemma valid_program_bounds:
  assumes "valid_program p"
  shows "1 \<le> rp_max_runs p" and "1 \<le> rp_max_attempts_per_index p"
  using assms by (auto simp: valid_program_def program_post_init_def first_error_ok_iff
      simp del: first_error.simps)

lemma valid_program_one_form:
  assumes "valid_program p"
  shows "length (declared_forms p) \<le> 1"
  using assms
  by (auto simp: valid_program_def program_post_init_def first_error_ok_iff
      validate_gate_declarations_def validate_gate_exclusivity_def simp del: first_error.simps)

section \<open>Decisions\<close>

text \<open>The sentence that names the pending approval (\<^verbatim>\<open>pending_approval\<close>).\<close>

datatype pending_note =
    PN_no_face
  | PN_query_failed py_error
  | PN_none_pending
  | PN_pending "string list"

text \<open>The sentence that names why a declared gate triggered (\<^verbatim>\<open>declared_gate_trigger\<close>).\<close>

datatype gate_trigger =
    GT_at_index int int
  | GT_multi_point int "int list" "int list"
  | GT_condition int "string list" "string list"
  | GT_hybrid int hybrid_gate "int list" "string list"

text \<open>The suffix on the time waited (\<^verbatim>\<open>_elapsed_note\<close>): none, the seconds, or the seconds against the bound.\<close>

datatype elapsed_text =
    EN_silent
  | EN_waited int
  | EN_overdue int int
  | EN_within int int

datatype gate_note =
    GN_no_face gate_trigger
  | GN_query_failed gate_trigger py_error
  | GN_pending gate_trigger "string list" elapsed_text
  | GN_no_record gate_trigger elapsed_text

text \<open>The sentence on a failed registration (\<^verbatim>\<open>register_declared_gate\<close>).\<close>

datatype register_note =
    RN_no_face
  | RN_read_only
  | RN_query_failed py_error
  | RN_register_failed py_error

datatype nudge_note =
    NN_not_delivered string string
  | NN_delivered int int

datatype cited_fact =
    F_verdict string
  | F_state run_state
  | F_attempts int int
  | F_claimed string
  | F_pending pending_note
  | F_gate_at_index int
  | F_gate_at_indexes "int list"
  | F_gate_index int
  | F_gate_on_verdicts "string list"
  | F_approval string
  | F_nudge nudge_note

datatype reason =
    R_start int
  | R_not_terminal int run_state
  | R_human_gate int run_state pending_note
  | R_gate gate_note "register_note option"
  | R_rule_miss "string list" "string list"
  | R_cancelled int
  | R_retry int int int
  | R_failed_stop int int int
  | R_retry_claimed int string int int
  | R_guardrail string int
  | R_claimed int string
  | R_continue string int
  | R_no_start_face int
  | R_started reason string

record program_decision =
  pd_program_id :: string
  pd_after_index :: int
  pd_kind :: decision_kind
  pd_reason :: reason
  pd_cited_run_id :: "string option"
  pd_cited_facts :: "cited_fact list"
  pd_decided_at :: int

text \<open>A reason of the model is never the empty text, so that guard of the source never fires.\<close>

definition decision_post_init :: "program_decision \<Rightarrow> program_decision res" where
  "decision_post_init d = first_error
     [(pd_program_id d = [], ''decision program_id must not be empty''),
      (pd_after_index d < 0, ''after_index must be >= 0'')] d"

end
