(* ===== verification/Program_Store.thy ===== *)
theory Program_Store
  imports Program_Domain Task_Codec Adapter_Base
begin

text \<open>
  The stores a program's advance reads and writes: the programs and their append-only
  decisions (\<^verbatim>\<open>adapters/sqlite/program_store.py\<close>), the approvals
  (\<^verbatim>\<open>adapters/sqlite/approval_store.py\<close>, \<^verbatim>\<open>packages/application/ports/approval_store.py\<close>) and
  the query for the runs of a program (\<^verbatim>\<open>adapters/sqlite/run_store.py: for_program\<close>). The
  locale \<open>decision_log\<close> is what the advance relies on of the port \<^verbatim>\<open>ProgramStore\<close>; the SQLite
  store is an instance.
\<close>

section \<open>Programs\<close>

record program_row =
  pr_program_id :: string
  pr_project_id :: string
  pr_protocol_id :: string
  pr_max_runs :: int
  pr_max_attempts :: int
  pr_gate_at :: "int option"
  pr_conditions :: "json option"
  pr_gate_indexes :: "json option"
  pr_nudge :: "int option"
  pr_hybrid_indexes :: "json option"
  pr_hybrid_verdicts :: "json option"
  pr_rule :: json
  pr_created_at :: int
  pr_updated_at :: int

definition encode_rule :: "continue_rule \<Rightarrow> json" where
  "encode_rule c = JObj [(''verdict_in'', JArr (map JStr (verdict_in c)))]"

definition decode_rule :: "json \<Rightarrow> continue_rule res" where
  "decode_rule j =
     bind_res (bind_res (j_key ''verdict_in'' j) (as_list as_str))
       (\<lambda>vs. continue_rule_post_init \<lparr>verdict_in = vs\<rparr>)"

definition encode_index_list :: "int list option \<Rightarrow> json option" where
  "encode_index_list xs = map_option (\<lambda>is. JArr (map JInt is)) xs"

definition decode_index_list :: "json option \<Rightarrow> int list option res" where
  "decode_index_list raw =
     (case raw of None \<Rightarrow> Inr None | Some j \<Rightarrow> bind_res (as_list as_int j) (\<lambda>is. Inr (Some is)))"

definition encode_gate_conditions :: "string list option \<Rightarrow> json option" where
  "encode_gate_conditions vs = map_option (\<lambda>ts. JArr (map JStr ts)) vs"

definition decode_gate_conditions :: "json option \<Rightarrow> string list option res" where
  "decode_gate_conditions raw =
     (case raw of None \<Rightarrow> Inr None | Some j \<Rightarrow> bind_res (as_list as_str j) (\<lambda>ts. Inr (Some ts)))"

definition list_or_empty :: "(json \<Rightarrow> 'a res) \<Rightarrow> json \<Rightarrow> 'a list res" where
  "list_or_empty f j = (if j = JNull then Inr [] else as_list f j)"

definition decode_hybrid_gate :: "json option \<Rightarrow> json option \<Rightarrow> hybrid_gate option res" where
  "decode_hybrid_gate indexes verdicts =
     (case (indexes, verdicts) of
        (Some i, Some v) \<Rightarrow>
          bind_res (list_or_empty as_int i) (\<lambda>is. bind_res (list_or_empty as_str v) (\<lambda>vs.
          bind_res (hybrid_gate_post_init \<lparr>hg_at_indexes = is, hg_on_verdicts = vs\<rparr>) (\<lambda>h.
            Inr (Some h))))
      | _ \<Rightarrow> Inr None)"

definition encode_program :: "research_program \<Rightarrow> program_row" where
  "encode_program p =
     \<lparr>pr_program_id = rp_id p, pr_project_id = rp_project_id p, pr_protocol_id = rp_protocol_id p,
      pr_max_runs = rp_max_runs p, pr_max_attempts = rp_max_attempts_per_index p,
      pr_gate_at = rp_gate_at_index p,
      pr_conditions = encode_gate_conditions (rp_gate_on_verdicts p),
      pr_gate_indexes = encode_index_list (rp_gate_at_indexes p),
      pr_nudge = rp_nudge_after_seconds p,
      pr_hybrid_indexes = encode_index_list (map_option hg_at_indexes (rp_gate_hybrid p)),
      pr_hybrid_verdicts = encode_gate_conditions (map_option hg_on_verdicts (rp_gate_hybrid p)),
      pr_rule = encode_rule (rp_continue_rule p),
      pr_created_at = rp_created_at p, pr_updated_at = rp_updated_at p\<rparr>"

definition decode_program :: "program_row \<Rightarrow> research_program res" where
  "decode_program r =
     bind_res (decode_gate_conditions (pr_conditions r)) (\<lambda>conditions.
     bind_res (decode_index_list (pr_gate_indexes r)) (\<lambda>indexes.
     bind_res (decode_hybrid_gate (pr_hybrid_indexes r) (pr_hybrid_verdicts r)) (\<lambda>hybrid.
     bind_res (decode_rule (pr_rule r)) (\<lambda>rule.
       program_post_init
         \<lparr>rp_id = pr_program_id r, rp_project_id = pr_project_id r,
          rp_protocol_id = pr_protocol_id r, rp_max_runs = pr_max_runs r,
          rp_continue_rule = rule, rp_max_attempts_per_index = pr_max_attempts r,
          rp_gate_at_index = pr_gate_at r, rp_gate_on_verdicts = conditions,
          rp_gate_at_indexes = indexes, rp_nudge_after_seconds = pr_nudge r,
          rp_gate_hybrid = hybrid, rp_created_at = pr_created_at r,
          rp_updated_at = pr_updated_at r\<rparr>))))"

text \<open>
  A decision row holds the decision: its times are compared as their texts, which by
  \<open>offset_key_less_iff\<close> is the order in time, so the key and the order use the times.
\<close>

record program_store = adapter_base +
  ps_programs :: "program_row list"
  ps_decisions :: "program_decision list"

definition ps_create :: "research_program \<Rightarrow> program_store \<Rightarrow> unit res \<times> program_store" where
  "ps_create p st =
     (if ab_closed st then (Inl closed_error, st)
      else (let rows = (if rp_id p \<in> pr_program_id ` set (ps_programs st) then ps_programs st
                        else ps_programs st @ [encode_program p])
            in (Inr (), log_result ''create'' (rp_id p) ''ok'' (st\<lparr>ps_programs := rows\<rparr>))))"

definition ps_get :: "string \<Rightarrow> program_store \<Rightarrow> research_program res \<times> program_store" where
  "ps_get pid st =
     (if ab_closed st then (Inl closed_error, st)
      else (case row_of pr_program_id pid (ps_programs st) of
              None \<Rightarrow> (Inl (KeyError (''program not found: '' @ quote pid)),
                       log_call ''get'' pid None (Some ''KeyError'') st)
            | Some row \<Rightarrow> (decode_program row, log_result ''get'' pid pid st)))"

definition ps_for_project ::
    "string \<Rightarrow> program_store \<Rightarrow> research_program list res \<times> program_store" where
  "ps_for_project proj st =
     (if ab_closed st then (Inl closed_error, st)
      else (let rows = sort_key pr_program_id
                         (filter (\<lambda>r. pr_project_id r = proj) (ps_programs st))
            in (map_res decode_program rows,
                log_result ''for_project'' proj (str_int (int (length rows))) st)))"

definition decision_kind_text :: "decision_kind \<Rightarrow> string" where
  "decision_kind_text k =
     (case k of START \<Rightarrow> ''START'' | CONTINUE \<Rightarrow> ''CONTINUE'' | STOP_RULE \<Rightarrow> ''STOP_RULE''
      | STOP_GUARDRAIL \<Rightarrow> ''STOP_GUARDRAIL'' | WAIT \<Rightarrow> ''WAIT'' | DEDUP \<Rightarrow> ''DEDUP''
      | STOP_RUN_FAILED \<Rightarrow> ''STOP_RUN_FAILED'' | STOP_CANCELLED \<Rightarrow> ''STOP_CANCELLED''
      | RETRY_FAILED_RUN \<Rightarrow> ''RETRY_FAILED_RUN'' | DEDUP_FAILED_RUN \<Rightarrow> ''DEDUP_FAILED_RUN''
      | WAIT_FOR_APPROVAL \<Rightarrow> ''WAIT_FOR_APPROVAL'')"

definition decision_key :: "program_decision \<Rightarrow> string \<times> int \<times> int" where
  "decision_key d = (pd_program_id d, pd_after_index d, pd_decided_at d)"

definition insert_decision :: "program_decision \<Rightarrow> program_decision list \<Rightarrow> program_decision list" where
  "insert_decision d rows = (if decision_key d \<in> decision_key ` set rows then rows else rows @ [d])"

definition ordered_decisions :: "string \<Rightarrow> program_decision list \<Rightarrow> program_decision list" where
  "ordered_decisions pid rows =
     sort_key (\<lambda>d. (pd_decided_at d, pd_after_index d)) (filter (\<lambda>d. pd_program_id d = pid) rows)"

definition decisions_in :: "string \<Rightarrow> program_store \<Rightarrow> program_decision list" where
  "decisions_in pid st = ordered_decisions pid (ps_decisions st)"

definition put_decision :: "program_decision \<Rightarrow> program_store \<Rightarrow> program_store" where
  "put_decision d st = st\<lparr>ps_decisions := insert_decision d (ps_decisions st)\<rparr>"

definition ps_record_decision :: "program_decision \<Rightarrow> program_store \<Rightarrow> unit res \<times> program_store" where
  "ps_record_decision d st =
     (if ab_closed st then (Inl closed_error, st)
      else (Inr (), log_result ''record_decision'' (pd_program_id d) (decision_kind_text (pd_kind d))
              (put_decision d st)))"

definition ps_decisions_of :: "string \<Rightarrow> program_store \<Rightarrow> program_decision list res \<times> program_store" where
  "ps_decisions_of pid st =
     (if ab_closed st then (Inl closed_error, st)
      else (let rows = decisions_in pid st
            in (map_res decision_post_init rows,
                log_result ''decisions_of'' pid (str_int (int (length rows))) st)))"

section \<open>Approvals\<close>

record approval_spec =
  sp_run_id :: string
  sp_action :: string
  sp_risk :: string
  sp_context :: string
  sp_policy_source :: string
  sp_requested_event_id :: string

record approval_record =
  ar_id :: string
  ar_run_id :: string
  ar_action :: string
  ar_risk :: string
  ar_context :: string
  ar_policy_source :: string
  ar_requested_event_id :: string
  ar_status :: string
  ar_version :: string

definition PENDING :: string where "PENDING = ''PENDING''"

definition with_decision :: "approval_record \<Rightarrow> string \<Rightarrow> string \<Rightarrow> approval_record" where
  "with_decision a decision uid =
     a\<lparr>ar_status := (if decision = ''approve'' then ''APPROVED'' else ''DENIED''),
       ar_version := ''sha256:'' @ uid\<rparr>"

record approval_row =
  aw_approval :: approval_record
  aw_saved_at :: int

record approval_store = adapter_base +
  as_rows :: "approval_row list"

definition aw_id :: "approval_row \<Rightarrow> string" where
  "aw_id w = ar_id (aw_approval w)"

definition ap_replace :: "approval_record \<Rightarrow> int \<Rightarrow> approval_store \<Rightarrow> unit res \<times> approval_store" where
  "ap_replace a now st =
     (if ab_closed st then (Inl closed_error, st)
      else (Inr (), log_ok ''replace'' (ar_id a)
              (st\<lparr>as_rows := del_row aw_id (ar_id a) (as_rows st) @
                   [\<lparr>aw_approval = a, aw_saved_at = now\<rparr>]\<rparr>)))"

definition approval_of_spec :: "approval_spec \<Rightarrow> string \<Rightarrow> approval_record" where
  "approval_of_spec spec uid =
     \<lparr>ar_id = uid, ar_run_id = sp_run_id spec, ar_action = sp_action spec, ar_risk = sp_risk spec,
      ar_context = sp_context spec, ar_policy_source = sp_policy_source spec,
      ar_requested_event_id = sp_requested_event_id spec, ar_status = PENDING, ar_version = []\<rparr>"

definition ap_register ::
    "approval_spec \<Rightarrow> string \<Rightarrow> int \<Rightarrow> approval_store \<Rightarrow> approval_record res \<times> approval_store" where
  "ap_register spec uid now st =
     (case ap_replace (approval_of_spec spec uid) now st of
        (Inl e, st') \<Rightarrow> (Inl e, st')
      | (Inr _, st') \<Rightarrow> (Inr (approval_of_spec spec uid), st'))"

definition ordered_approvals :: "approval_row list \<Rightarrow> approval_record list" where
  "ordered_approvals rows = map aw_approval (sort_key (\<lambda>w. (iso_key (aw_saved_at w), aw_id w)) rows)"

definition ap_list_for_run :: "string \<Rightarrow> approval_store \<Rightarrow> approval_record list res \<times> approval_store" where
  "ap_list_for_run run_id st =
     (if ab_closed st then (Inl closed_error, st)
      else (let records = ordered_approvals
                   (filter (\<lambda>w. ar_run_id (aw_approval w) = run_id) (as_rows st))
            in (Inr records, log_result ''list_for_run'' run_id (str_int (int (length records))) st)))"

definition ap_list_pending :: "approval_store \<Rightarrow> approval_record list res \<times> approval_store" where
  "ap_list_pending st =
     (if ab_closed st then (Inl closed_error, st)
      else (let pending = filter (\<lambda>a. ar_status a = PENDING) (ordered_approvals (as_rows st))
            in (Inr pending, log_result ''list_pending'' [] (str_int (int (length pending))) st)))"

definition ap_get :: "string \<Rightarrow> approval_store \<Rightarrow> approval_record option res \<times> approval_store" where
  "ap_get aid st =
     (if ab_closed st then (Inl closed_error, st)
      else (case row_of aw_id aid (as_rows st) of
              None \<Rightarrow> (Inr None, log_result ''get'' aid ''None'' st)
            | Some w \<Rightarrow> (Inr (Some (aw_approval w)), log_result ''get'' aid aid st)))"

section \<open>Runs of a program\<close>

text \<open>\<^verbatim>\<open>ORDER BY program_index, run_id\<close>: a missing index is NULL, which SQLite sorts first.\<close>

definition run_order :: "research_run \<Rightarrow> int \<times> int \<times> string" where
  "run_order r =
     (case rr_program_index r of None \<Rightarrow> (0, 0, rr_id r) | Some i \<Rightarrow> (1, i, rr_id r))"

definition for_program :: "string \<Rightarrow> research_run list \<Rightarrow> research_run list" where
  "for_program pid runs = sort_key run_order (filter (\<lambda>r. rr_program_id r = Some pid) runs)"

section \<open>Round trip of a program\<close>

lemma list_columns [simp]:
  "decode_index_list (encode_index_list xs) = Inr xs"
  "decode_gate_conditions (encode_gate_conditions vs) = Inr vs"
  by (cases xs; cases vs; simp add: decode_index_list_def encode_index_list_def
      decode_gate_conditions_def encode_gate_conditions_def map_res_map [where h = id, simplified])+

lemma rule_column: "is_ok (continue_rule_post_init c) \<Longrightarrow> decode_rule (encode_rule c) = Inr c"
  using continue_rule_post_init_ok [of c]
  by (cases c) (simp add: decode_rule_def encode_rule_def j_key_def map_res_map [where h = id, simplified])

lemma hybrid_columns:
  assumes "\<And>h. g = Some h \<Longrightarrow> is_ok (hybrid_gate_post_init h)"
  shows "decode_hybrid_gate (encode_index_list (map_option hg_at_indexes g))
           (encode_gate_conditions (map_option hg_on_verdicts g)) = Inr g"
proof (cases g)
  case (Some h)
  with assms hybrid_gate_post_init_ok [of h] show ?thesis
    by (cases h) (simp add: decode_hybrid_gate_def encode_index_list_def encode_gate_conditions_def
        list_or_empty_def map_res_map [where h = id, simplified])
qed (simp add: decode_hybrid_gate_def encode_index_list_def)

lemma decode_encode_program:
  assumes "valid_program p"
  shows "decode_program (encode_program p) = Inr p"
proof -
  have "decode_rule (encode_rule (rp_continue_rule p)) = Inr (rp_continue_rule p)"
    using assms by (simp add: valid_program_def rule_column)
  moreover have "decode_hybrid_gate (encode_index_list (map_option hg_at_indexes (rp_gate_hybrid p)))
      (encode_gate_conditions (map_option hg_on_verdicts (rp_gate_hybrid p))) = Inr (rp_gate_hybrid p)"
    using assms by (intro hybrid_columns) (simp add: valid_program_def)
  moreover have "program_post_init p = Inr p"
    using assms by (simp add: valid_program_def program_post_init_ok)
  ultimately show ?thesis by (cases p) (simp add: decode_program_def encode_program_def)
qed

section \<open>The decision log\<close>

text \<open>
  \<^verbatim>\<open>_record\<close> (\<^verbatim>\<open>program_runner.py\<close>) moves a decision's time past the newest decision of its
  program, by one microsecond when the clock has not moved. The locale holds what it needs
  of the store, and shows that no decision is lost and their times increase.
\<close>

definition stamp_after :: "program_decision list \<Rightarrow> int \<Rightarrow> int res" where
  "stamp_after decisions now =
     (case map pd_decided_at decisions of
        [] \<Rightarrow> Inr now
      | ts \<Rightarrow> (if now \<le> Max (set ts) then time_plus (Max (set ts)) 1 else Inr now))"

lemma stamp_after_newer:
  assumes "stamp_after ds now = Inr t" and "d \<in> set ds"
  shows "pd_decided_at d < t"
proof -
  have "pd_decided_at d \<le> Max (pd_decided_at ` set ds)" using assms(2) by simp
  then show ?thesis
    using assms by (cases ds) (auto simp: stamp_after_def time_plus_def split: if_splits)
qed

locale decision_log =
  fixes decisions :: "string \<Rightarrow> 's \<Rightarrow> program_decision list"
    and record_decision :: "program_decision \<Rightarrow> 's \<Rightarrow> 's"
  assumes append_newer:
    "(\<And>d'. d' \<in> set (decisions (pd_program_id d) st) \<Longrightarrow> pd_decided_at d' < pd_decided_at d) \<Longrightarrow>
       decisions (pd_program_id d) (record_decision d st) = decisions (pd_program_id d) st @ [d]"
    and other_program:
    "pid \<noteq> pd_program_id d \<Longrightarrow> decisions pid (record_decision d st) = decisions pid st"
begin

lemma stamped_append:
  assumes "stamp_after (decisions (pd_program_id d) st) now = Inr t"
  shows "decisions (pd_program_id d) (record_decision (d\<lparr>pd_decided_at := t\<rparr>) st) =
           decisions (pd_program_id d) st @ [d\<lparr>pd_decided_at := t\<rparr>]"
  using append_newer [of "d\<lparr>pd_decided_at := t\<rparr>" st] stamp_after_newer [OF assms] by simp

lemma stamped_increasing:
  assumes "stamp_after (decisions (pd_program_id d) st) now = Inr t"
    and "sorted_wrt (<) (map pd_decided_at (decisions pid st))"
  shows "sorted_wrt (<) (map pd_decided_at (decisions pid (record_decision (d\<lparr>pd_decided_at := t\<rparr>) st)))"
  using assms(2) other_program [of pid "d\<lparr>pd_decided_at := t\<rparr>" st]
    stamped_append [OF assms(1)] stamp_after_newer [OF assms(1)]
  by (cases "pid = pd_program_id d") (auto simp: sorted_wrt_append)

end

lemma ordered_decisions_set: "set (ordered_decisions pid rows) = {d \<in> set rows. pd_program_id d = pid}"
  by (auto simp: ordered_decisions_def)

lemma ordered_decisions_insert_other:
  "pid \<noteq> pd_program_id d \<Longrightarrow> ordered_decisions pid (insert_decision d rows) = ordered_decisions pid rows"
  by (simp add: ordered_decisions_def insert_decision_def)

lemma ordered_decisions_insert_newer:
  assumes "\<And>d'. d' \<in> set (ordered_decisions (pd_program_id d) rows) \<Longrightarrow> pd_decided_at d' < pd_decided_at d"
  shows "ordered_decisions (pd_program_id d) (insert_decision d rows) =
           ordered_decisions (pd_program_id d) rows @ [d]"
proof -
  have "decision_key d \<notin> decision_key ` set rows"
    using assms by (force simp: decision_key_def ordered_decisions_set)
  then show ?thesis
    using assms unfolding ordered_decisions_set
    by (auto simp: insert_decision_def ordered_decisions_def intro!: sort_key_snoc less_imp_le)
qed

interpretation sqlite_decisions: decision_log decisions_in put_decision
  by unfold_locales
    (simp_all add: decisions_in_def put_decision_def ordered_decisions_insert_newer
      ordered_decisions_insert_other)


end
