(* ===== verification/Program_Gates.thy ===== *)
theory Program_Gates
  imports Program_Store
begin

text \<open>
  The human gates of a program: whether a declared gate triggers after a round and whether it
  still waits for a person (\<^verbatim>\<open>program_waiting.py\<close>), the registration of the pending approval
  (\<^verbatim>\<open>program_gate_registration.py\<close>) and their composition with the delivery of the overdue
  notice (\<^verbatim>\<open>program_gate_evaluation.py\<close>), all under
  \<^verbatim>\<open>packages/application/run_orchestration/\<close>. The approval face is absent, readable, or readable
  and writable; it is the SQLite approval store, whose calls fail once it is closed. The
  entries which reading calls leave in the log of the store are left out. The sink of overdue
  notices is an injected port: a function that returns the name and text of the exception it
  raises, if it raises one.
\<close>

section \<open>Faces\<close>

record approval_face =
  af_writable :: bool
  af_store :: approval_store

definition face_rows :: "string \<Rightarrow> approval_face \<Rightarrow> approval_record list res" where
  "face_rows run_id f = fst (ap_list_for_run run_id (af_store f))"

record gate_clock =
  gc_now :: int
  gc_waited_since :: int

record nudge_notice =
  nn_program_id :: string
  nn_run_id :: string
  nn_index :: int
  nn_waited_seconds :: int
  nn_bound_seconds :: int

type_synonym nudge_sink = "nudge_notice \<Rightarrow> (string \<times> string) option"

record nudge_delivery =
  nd_index :: int
  nd_clock :: "gate_clock option"
  nd_nudges :: "nudge_sink option"

definition index_or_0 :: "research_run \<Rightarrow> int" where
  "index_or_0 r = (case rr_program_index r of None \<Rightarrow> 0 | Some i \<Rightarrow> i)"

text \<open>
  \<^verbatim>\<open>int(delta.total_seconds())\<close>: truncation towards zero. The float is exact to the microsecond
  for waits below 272 years.
\<close>

definition whole_seconds :: "int \<Rightarrow> int" where
  "whole_seconds us = (if 0 \<le> us then us div second_us else - ((- us) div second_us))"

section \<open>Waiting\<close>

definition AWAITING_HUMAN :: "run_state list" where
  "AWAITING_HUMAN = [R_WAITING_FOR_APPROVAL, R_PAUSED]"

definition pending_ids :: "approval_record list \<Rightarrow> string list" where
  "pending_ids rows = map ar_id (filter (\<lambda>a. ar_status a = PENDING) rows)"

definition pending_approval :: "approval_face option \<Rightarrow> string \<Rightarrow> pending_note" where
  "pending_approval approvals run_id =
     (case approvals of
        None \<Rightarrow> PN_no_face
      | Some f \<Rightarrow>
          (case face_rows run_id f of
             Inl e \<Rightarrow> PN_query_failed e
           | Inr rows \<Rightarrow>
               (if pending_ids rows = [] then PN_none_pending else PN_pending (pending_ids rows))))"

definition multi_point_trigger :: "int list \<Rightarrow> int \<Rightarrow> gate_trigger option" where
  "multi_point_trigger at_indexes last_index =
     (let hits = filter (\<lambda>i. i = last_index) at_indexes
      in if hits = [] then None else Some (GT_multi_point last_index at_indexes hits))"

definition hybrid_trigger :: "hybrid_gate \<Rightarrow> int \<Rightarrow> string list \<Rightarrow> gate_trigger option" where
  "hybrid_trigger h last_index verdicts =
     (let hits_index = filter (\<lambda>i. i = last_index) (hg_at_indexes h);
          hits_verdict = filter (\<lambda>v. v \<in> set (hg_on_verdicts h)) verdicts
      in if hits_index = [] \<and> hits_verdict = [] then None
         else Some (GT_hybrid last_index h hits_index hits_verdict))"

definition declared_gate_trigger :: "research_program \<Rightarrow> int \<Rightarrow> string list \<Rightarrow> gate_trigger option" where
  "declared_gate_trigger p last_index verdicts =
     (case rp_gate_at_index p of
        Some d \<Rightarrow> (if d \<noteq> last_index then None else Some (GT_at_index last_index d))
      | None \<Rightarrow>
     (case rp_gate_at_indexes p of
        Some xs \<Rightarrow> multi_point_trigger xs last_index
      | None \<Rightarrow>
     (case rp_gate_hybrid p of
        Some h \<Rightarrow> hybrid_trigger h last_index verdicts
      | None \<Rightarrow>
     (case rp_gate_on_verdicts p of
        None \<Rightarrow> None
      | Some on \<Rightarrow>
          (let hit = filter (\<lambda>v. v \<in> set on) verdicts
           in if hit = [] then None else Some (GT_condition last_index on hit))))))"

definition elapsed_note :: "research_program \<Rightarrow> gate_clock option \<Rightarrow> elapsed_text" where
  "elapsed_note p clock =
     (case clock of
        None \<Rightarrow> EN_silent
      | Some c \<Rightarrow>
          (let seconds = whole_seconds (gc_now c - gc_waited_since c)
           in case rp_nudge_after_seconds p of
                None \<Rightarrow> EN_waited seconds
              | Some bound \<Rightarrow>
                  (if bound \<le> seconds then EN_overdue seconds bound else EN_within seconds bound)))"

definition declared_gate_pending ::
    "research_program \<Rightarrow> int \<Rightarrow> approval_face option \<Rightarrow> string \<Rightarrow> string list \<Rightarrow> gate_clock option \<Rightarrow>
     gate_note option" where
  "declared_gate_pending p last_index approvals run_id verdicts clock =
     (case declared_gate_trigger p last_index verdicts of
        None \<Rightarrow> None
      | Some trigger \<Rightarrow>
          (case approvals of
             None \<Rightarrow> Some (GN_no_face trigger)
           | Some f \<Rightarrow>
               (case face_rows run_id f of
                  Inl e \<Rightarrow> Some (GN_query_failed trigger e)
                | Inr rows \<Rightarrow>
                    (if pending_ids rows \<noteq> []
                     then Some (GN_pending trigger (pending_ids rows) (elapsed_note p clock))
                     else if filter (\<lambda>a. ar_status a \<noteq> PENDING) rows \<noteq> [] then None
                     else Some (GN_no_record trigger (elapsed_note p clock))))))"

definition gate_facts :: "research_program \<Rightarrow> research_run \<Rightarrow> string list \<Rightarrow> string option \<Rightarrow> cited_fact list" where
  "gate_facts p lst verdicts registered =
     [F_state (rr_state lst)] @
     (case rp_gate_at_index p of
        Some d \<Rightarrow> [F_gate_at_index d]
      | None \<Rightarrow>
          (case rp_gate_at_indexes p of
             Some xs \<Rightarrow>
               F_gate_at_indexes xs # map F_gate_index (filter (\<lambda>i. i = index_or_0 lst) xs)
           | None \<Rightarrow>
               (let on = (case rp_gate_on_verdicts p of None \<Rightarrow> [] | Some vs \<Rightarrow> vs)
                in F_gate_on_verdicts on # map F_verdict (filter (\<lambda>v. v \<in> set on) verdicts)))) @
     (case registered of None \<Rightarrow> [] | Some aid \<Rightarrow> [F_approval aid])"

definition declared_gate_verdict ::
    "research_program \<Rightarrow> research_run \<Rightarrow> approval_face option \<Rightarrow> string list \<Rightarrow> gate_clock option \<Rightarrow>
     string option \<times> register_note option \<Rightarrow> (decision_kind \<times> reason \<times> cited_fact list) option" where
  "declared_gate_verdict p lst approvals verdicts clock registration =
     (case declared_gate_pending p (index_or_0 lst) approvals (rr_id lst) verdicts clock of
        None \<Rightarrow> None
      | Some note \<Rightarrow>
          Some (WAIT_FOR_APPROVAL, R_gate note (snd registration),
                gate_facts p lst verdicts (fst registration)))"

definition waiting_round_decision ::
    "research_run \<Rightarrow> int \<Rightarrow> approval_face option \<Rightarrow> decision_kind \<times> reason \<times> cited_fact list" where
  "waiting_round_decision lst last_index approvals =
     (if rr_state lst \<notin> set AWAITING_HUMAN
      then (WAIT, R_not_terminal last_index (rr_state lst), [F_state (rr_state lst)])
      else (let fact = pending_approval approvals (rr_id lst)
            in (WAIT_FOR_APPROVAL, R_human_gate last_index (rr_state lst) fact,
                [F_state (rr_state lst), F_pending fact])))"

section \<open>Registration\<close>

definition PROGRAM_GATE_ACTION :: string where
  "PROGRAM_GATE_ACTION = ''program-gate:''"

definition gate_action :: "research_program \<Rightarrow> string" where
  "gate_action p = PROGRAM_GATE_ACTION @ rp_id p"

definition open_write_face ::
    "approval_face option \<Rightarrow> string \<Rightarrow> string \<Rightarrow> register_note + approval_face \<times> bool" where
  "open_write_face approvals run_id action =
     (case approvals of
        None \<Rightarrow> Inl RN_no_face
      | Some f \<Rightarrow>
          (if \<not> af_writable f then Inl RN_read_only
           else (case face_rows run_id f of
                   Inl e \<Rightarrow> Inl (RN_query_failed e)
                 | Inr rows \<Rightarrow> Inr (f, \<exists>a\<in>set rows. ar_action a = action))))"

definition gate_spec :: "research_program \<Rightarrow> int \<Rightarrow> string \<Rightarrow> approval_spec" where
  "gate_spec p last_index run_id =
     \<lparr>sp_run_id = run_id, sp_action = gate_action p, sp_risk = ''HUMAN_GATE'',
      sp_context = ''program-round:'' @ str_int last_index, sp_policy_source = ''program-gate'',
      sp_requested_event_id = []\<rparr>"

definition register_declared_gate ::
    "research_program \<Rightarrow> int \<Rightarrow> approval_face option \<Rightarrow> string \<Rightarrow> string list \<Rightarrow> string \<Rightarrow> int \<Rightarrow>
     (string option \<times> register_note option) \<times> approval_face option" where
  "register_declared_gate p last_index approvals run_id verdicts uid now =
     (case declared_gate_trigger p last_index verdicts of
        None \<Rightarrow> ((None, None), approvals)
      | Some _ \<Rightarrow>
          (case open_write_face approvals run_id (gate_action p) of
             Inl note \<Rightarrow> ((None, Some note), approvals)
           | Inr (f, already) \<Rightarrow>
               (if already then ((None, None), approvals)
                else (case ap_register (gate_spec p last_index run_id) uid now (af_store f) of
                        (Inl e, store') \<Rightarrow>
                          ((None, Some (RN_register_failed e)), Some (f\<lparr>af_store := store'\<rparr>))
                      | (Inr rec, store') \<Rightarrow>
                          ((if ar_id rec = [] then None else Some (ar_id rec), None),
                           Some (f\<lparr>af_store := store'\<rparr>))))))"

section \<open>Gate evaluation\<close>

definition deliver_nudge ::
    "research_program \<Rightarrow> research_run \<Rightarrow> nudge_delivery \<Rightarrow> nudge_note option \<times> nudge_notice list" where
  "deliver_nudge p lst delivery =
     (case (nd_clock delivery, rp_nudge_after_seconds p) of
        (Some c, Some bound) \<Rightarrow>
          (let seconds = whole_seconds (gc_now c - gc_waited_since c)
           in if seconds < bound then (None, [])
              else (case nd_nudges delivery of
                      None \<Rightarrow> (None, [])
                    | Some nudge \<Rightarrow>
                        (let notice = \<lparr>nn_program_id = rp_id p, nn_run_id = rr_id lst,
                               nn_index = nd_index delivery, nn_waited_seconds = seconds,
                               nn_bound_seconds = bound\<rparr>
                         in case nudge notice of
                              Some (name, msg) \<Rightarrow> (Some (NN_not_delivered name msg), [notice])
                            | None \<Rightarrow> (Some (NN_delivered seconds bound), [notice]))))
      | _ \<Rightarrow> (None, []))"

record gate_evaluation =
  ge_kind :: decision_kind
  ge_reason :: reason
  ge_cited_run_id :: "string option"
  ge_cited_facts :: "cited_fact list"
  ge_start_index :: "int option"

definition gate_result ::
    "research_run \<Rightarrow> decision_kind \<times> reason \<times> cited_fact list \<Rightarrow> research_program \<Rightarrow> nudge_delivery \<Rightarrow>
     gate_evaluation \<times> nudge_notice list" where
  "gate_result lst gate p delivery =
     (case gate of (kind, why, facts) \<Rightarrow>
        (let (note, sent) = deliver_nudge p lst delivery
         in (\<lparr>ge_kind = kind, ge_reason = why, ge_cited_run_id = Some (rr_id lst),
              ge_cited_facts = facts @ (case note of None \<Rightarrow> [] | Some n \<Rightarrow> [F_nudge n]),
              ge_start_index = None\<rparr>, sent)))"

text \<open>What an evaluation leaves behind: the approval face it wrote to and the notices it sent.\<close>

type_synonym gate_effects = "approval_face option \<times> nudge_notice list"

definition declared_gate_evaluation ::
    "research_program \<Rightarrow> research_run \<Rightarrow> approval_face option \<Rightarrow> string list \<Rightarrow> nudge_delivery option \<Rightarrow>
     string \<Rightarrow> int \<Rightarrow> gate_evaluation option \<times> gate_effects" where
  "declared_gate_evaluation p lst approvals verdicts delivery uid now =
     (let (registration, approvals') =
            register_declared_gate p (index_or_0 lst) approvals (rr_id lst) verdicts uid now;
          resolved = (case delivery of
                        None \<Rightarrow> \<lparr>nd_index = index_or_0 lst, nd_clock = None, nd_nudges = None\<rparr>
                      | Some d \<Rightarrow> d)
      in case declared_gate_verdict p lst approvals' verdicts (nd_clock resolved) registration of
           None \<Rightarrow> (None, approvals', [])
         | Some gate \<Rightarrow>
             (let (ev, sent) = gate_result lst gate p resolved in (Some ev, approvals', sent)))"

definition gate_outcome ::
    "research_program \<Rightarrow> research_run \<Rightarrow> approval_face option \<Rightarrow> string list \<Rightarrow> gate_clock option \<Rightarrow>
     nudge_sink option \<Rightarrow> string \<Rightarrow> int \<Rightarrow>
     (decision_kind \<times> reason \<times> cited_fact list) option \<times> gate_effects" where
  "gate_outcome p lst approvals verdicts clock nudges uid now =
     (case declared_gate_evaluation p lst approvals verdicts
             (Some \<lparr>nd_index = index_or_0 lst, nd_clock = clock, nd_nudges = nudges\<rparr>) uid now of
        (None, eff) \<Rightarrow> (None, eff)
      | (Some ev, eff) \<Rightarrow> (Some (ge_kind ev, ge_reason ev, ge_cited_facts ev), eff))"

end
