(* ===== verification/Program_Runner.thy ===== *)
theory Program_Runner
  imports Program_Gates
begin

text \<open>
  One advance of a program (\<^verbatim>\<open>packages/application/run_orchestration/program_runner.py\<close> and
  \<^verbatim>\<open>program_retry.py\<close>): read the stored facts, decide, record one decision and start the next
  round when the decision calls for it. The function that starts a run is injected by the
  composition root: it returns the new run's identifier or raises. \<^verbatim>\<open>Timestamp.now()\<close> of the
  decision is the argument \<open>now\<close>, the identifier of a registered approval \<open>uid\<close> and its time
  \<open>saved\<close>. The store's own reading calls may fail because it is closed; the error is the
  result then.
\<close>

section \<open>Retry accounting\<close>

definition RETRY_CLAIM_KINDS :: "decision_kind list" where
  "RETRY_CLAIM_KINDS = [RETRY_FAILED_RUN, DEDUP_FAILED_RUN]"

text \<open>\<^verbatim>\<open>str(cited) if cited else None\<close>: the empty text counts as absent.\<close>

definition claimed_id :: "program_decision \<Rightarrow> string option" where
  "claimed_id d = (case pd_cited_run_id d of Some [] \<Rightarrow> None | c \<Rightarrow> c)"

definition retry_step ::
    "int \<Rightarrow> string list \<Rightarrow> program_decision \<Rightarrow> int \<times> string option \<Rightarrow> int \<times> string option" where
  "retry_step index landed d acc =
     (case acc of (attempts, outstanding) \<Rightarrow>
        (if pd_after_index d \<noteq> index then (attempts, outstanding)
         else if pd_kind d \<notin> set RETRY_CLAIM_KINDS then (attempts, outstanding)
         else if pd_kind d = DEDUP_FAILED_RUN
              then (attempts + 1, case claimed_id d of Some c \<Rightarrow> Some c | None \<Rightarrow> outstanding)
         else (case claimed_id d of
                 Some c \<Rightarrow> (if c \<notin> set landed then (attempts + 1, Some c) else (attempts, outstanding))
               | None \<Rightarrow> (attempts, outstanding))))"

definition retry_face_state :: "program_decision list \<Rightarrow> int \<Rightarrow> string list \<Rightarrow> int \<times> string option" where
  "retry_face_state decisions index landed =
     fold (retry_step index landed) decisions (int (length (remdups landed)), None)"

fun missing_claim :: "program_decision list \<Rightarrow> int \<Rightarrow> string list \<Rightarrow> string option" where
  "missing_claim [] after_index known = None"
| "missing_claim (d # ds) after_index known =
     (if pd_after_index d \<noteq> after_index then missing_claim ds after_index known
      else (case claimed_id d of
              Some c \<Rightarrow> (if pd_kind d = CONTINUE then (if c \<in> set known then None else Some c) else None)
            | None \<Rightarrow> None))"

definition claimed_but_missing :: "program_decision list \<Rightarrow> int \<Rightarrow> string list \<Rightarrow> string option" where
  "claimed_but_missing decisions after_index known = missing_claim (rev decisions) after_index known"

section \<open>Evaluation\<close>

record finding_row =
  fr_id :: string
  fr_run_id :: string
  fr_verdict :: string

definition findings_for_run :: "string \<Rightarrow> finding_row list \<Rightarrow> finding_row list" where
  "findings_for_run run_id rows = sort_key fr_id (filter (\<lambda>f. fr_run_id f = run_id) rows)"

definition verdicts_of :: "finding_row list option \<Rightarrow> string \<Rightarrow> string list" where
  "verdicts_of findings run_id =
     (case findings of
        None \<Rightarrow> []
      | Some rows \<Rightarrow> rev (remdups (rev (map fr_verdict (findings_for_run run_id rows)))))"

record evaluation =
  ev_kind :: decision_kind
  ev_reason :: reason
  ev_cited_run_id :: "string option"
  ev_cited_facts :: "cited_fact list"
  ev_start_index :: "int option"

definition bounded_stop :: "research_run \<Rightarrow> int \<Rightarrow> int \<Rightarrow> int \<Rightarrow> cited_fact list \<Rightarrow> evaluation" where
  "bounded_stop lst last_index attempts allowed cited =
     \<lparr>ev_kind = STOP_RUN_FAILED, ev_reason = R_failed_stop last_index attempts allowed,
      ev_cited_run_id = Some (rr_id lst), ev_cited_facts = cited, ev_start_index = None\<rparr>"

definition returning_claim_stop :: "int \<Rightarrow> string \<Rightarrow> int \<Rightarrow> int \<Rightarrow> cited_fact list \<Rightarrow> evaluation" where
  "returning_claim_stop last_index outstanding attempts allowed cited =
     \<lparr>ev_kind = DEDUP_FAILED_RUN, ev_reason = R_retry_claimed last_index outstanding attempts allowed,
      ev_cited_run_id = Some outstanding, ev_cited_facts = cited @ [F_claimed outstanding],
      ev_start_index = None\<rparr>"

definition retry_facts :: "program_decision list \<Rightarrow> research_run list \<Rightarrow> int \<Rightarrow> int \<times> string option" where
  "retry_facts decisions existing last_index =
     retry_face_state decisions last_index
       (map rr_id (filter (\<lambda>r. index_or_0 r = last_index) existing))"

definition failed_round ::
    "research_program \<Rightarrow> research_run list \<Rightarrow> research_run \<Rightarrow> int \<Rightarrow> program_decision list \<Rightarrow> evaluation" where
  "failed_round p existing lst last_index decisions =
     (let allowed = rp_max_attempts_per_index p;
          (attempts, outstanding) = retry_facts decisions existing last_index;
          cited = [F_state (rr_state lst), F_attempts attempts allowed]
      in if allowed \<le> attempts then bounded_stop lst last_index attempts allowed cited
         else (case outstanding of
                 Some c \<Rightarrow> returning_claim_stop last_index c attempts allowed cited
               | None \<Rightarrow>
                   \<lparr>ev_kind = RETRY_FAILED_RUN, ev_reason = R_retry last_index attempts allowed,
                    ev_cited_run_id = Some (rr_id lst), ev_cited_facts = cited,
                    ev_start_index = Some last_index\<rparr>))"

definition non_success_terminal ::
    "research_program \<Rightarrow> research_run list \<Rightarrow> research_run \<Rightarrow> program_decision list res \<Rightarrow> evaluation res" where
  "non_success_terminal p existing lst decisions =
     (if rr_state lst = R_CANCELLED then
        Inr \<lparr>ev_kind = STOP_CANCELLED, ev_reason = R_cancelled (index_or_0 lst),
             ev_cited_run_id = Some (rr_id lst), ev_cited_facts = [F_state (rr_state lst)],
             ev_start_index = None\<rparr>
      else bind_res decisions (\<lambda>ds. Inr (failed_round p existing lst (index_or_0 lst) ds)))"

definition after_hit ::
    "research_program \<Rightarrow> research_run list \<Rightarrow> research_run \<Rightarrow> string list \<Rightarrow> program_decision list res \<Rightarrow>
     evaluation res" where
  "after_hit p existing lst hit decisions =
     (let last_index = index_or_0 lst; cited = map F_verdict hit
      in if rp_max_runs p \<le> last_index then
           Inr \<lparr>ev_kind = STOP_GUARDRAIL, ev_reason = R_guardrail (hd hit) (rp_max_runs p),
                ev_cited_run_id = Some (rr_id lst), ev_cited_facts = cited, ev_start_index = None\<rparr>
         else bind_res decisions (\<lambda>ds.
           (case claimed_but_missing ds last_index (map rr_id existing) of
              Some claimed \<Rightarrow>
                Inr \<lparr>ev_kind = DEDUP, ev_reason = R_claimed (last_index + 1) claimed,
                     ev_cited_run_id = Some claimed, ev_cited_facts = [F_claimed claimed],
                     ev_start_index = None\<rparr>
            | None \<Rightarrow>
                Inr \<lparr>ev_kind = CONTINUE, ev_reason = R_continue (hd hit) (last_index + 1),
                     ev_cited_run_id = Some (rr_id lst), ev_cited_facts = cited,
                     ev_start_index = Some (last_index + 1)\<rparr>)))"

definition gated_outcome ::
    "research_program \<Rightarrow> research_run \<Rightarrow> approval_face option \<Rightarrow> string list \<Rightarrow> gate_clock option \<Rightarrow>
     nudge_sink option \<Rightarrow> string \<Rightarrow> int \<Rightarrow> evaluation option \<times> gate_effects" where
  "gated_outcome p lst approvals verdicts clock nudges uid saved =
     (case gate_outcome p lst approvals verdicts clock nudges uid saved of
        (None, eff) \<Rightarrow> (None, eff)
      | (Some (kind, why, facts), eff) \<Rightarrow>
          (Some \<lparr>ev_kind = kind, ev_reason = why, ev_cited_run_id = Some (rr_id lst),
                 ev_cited_facts = facts, ev_start_index = None\<rparr>, eff))"

definition conclude ::
    "research_program \<Rightarrow> research_run list \<Rightarrow> research_run \<Rightarrow> string list \<Rightarrow> program_decision list res \<Rightarrow>
     evaluation res" where
  "conclude p existing lst verdicts decisions =
     (if rr_state lst \<noteq> R_SUCCEEDED then non_success_terminal p existing lst decisions
      else (let hit = filter (\<lambda>v. v \<in> set (verdict_in (rp_continue_rule p))) verdicts
            in if hit = [] then
                 Inr \<lparr>ev_kind = STOP_RULE,
                      ev_reason = R_rule_miss verdicts (verdict_in (rp_continue_rule p)),
                      ev_cited_run_id = Some (rr_id lst),
                      ev_cited_facts = map F_verdict verdicts, ev_start_index = None\<rparr>
               else after_hit p existing lst hit decisions))"

definition evaluate ::
    "research_program \<Rightarrow> research_run list \<Rightarrow> finding_row list option \<Rightarrow> program_decision list res \<Rightarrow>
     approval_face option \<Rightarrow> gate_clock option \<Rightarrow> nudge_sink option \<Rightarrow> string \<Rightarrow> int \<Rightarrow>
     evaluation res \<times> gate_effects" where
  "evaluate p existing findings decisions approvals clock nudges uid saved =
     (if existing = [] then
        (Inr \<lparr>ev_kind = START, ev_reason = R_start (rp_max_runs p), ev_cited_run_id = None,
              ev_cited_facts = [], ev_start_index = Some 1\<rparr>, approvals, [])
      else
        (let last_run = last existing
         in if \<not> rr_is_terminal last_run then
              (case waiting_round_decision last_run (index_or_0 last_run) approvals of
                 (kind, why, facts) \<Rightarrow>
                   (Inr \<lparr>ev_kind = kind, ev_reason = why, ev_cited_run_id = Some (rr_id last_run),
                         ev_cited_facts = facts, ev_start_index = None\<rparr>, approvals, []))
            else
              (let verdicts = verdicts_of findings (rr_id last_run)
               in case gated_outcome p last_run approvals verdicts clock nudges uid saved of
                    (Some gated, eff) \<Rightarrow> (Inr gated, eff)
                  | (None, eff) \<Rightarrow> (conclude p existing last_run verdicts decisions, eff))))"

section \<open>The advance\<close>

record program_advance =
  pa_program_id :: string
  pa_decision :: program_decision
  pa_started_run_id :: "string option"
  pa_run_count :: int

text \<open>The stores of one advance; \<open>w_sent\<close> are the overdue notices handed to the sink.\<close>

record world =
  w_programs :: program_store
  w_approvals :: "approval_face option"
  w_sent :: "nudge_notice list"

definition record_program_decision ::
    "program_decision \<Rightarrow> program_store \<Rightarrow> program_decision res \<times> program_store" where
  "record_program_decision d st =
     (case ps_decisions_of (pd_program_id d) st of
        (Inl e, st1) \<Rightarrow> (Inl e, st1)
      | (Inr decisions, st1) \<Rightarrow>
          (case bind_res (stamp_after decisions (pd_decided_at d))
                  (\<lambda>t. decision_post_init (d\<lparr>pd_decided_at := t\<rparr>)) of
             Inl e \<Rightarrow> (Inl e, st1)
           | Inr stamped \<Rightarrow>
               (case ps_record_decision stamped st1 of
                  (Inl e, st2) \<Rightarrow> (Inl e, st2)
                | (Inr _, st2) \<Rightarrow> (Inr stamped, st2))))"

record start_intent =
  si_index :: int
  si_after_index :: int
  si_kind :: decision_kind
  si_reason :: reason
  si_cited_facts :: "cited_fact list"

definition start_round ::
    "research_program \<Rightarrow> (int \<Rightarrow> string res) option \<Rightarrow> start_intent \<Rightarrow> int \<Rightarrow> program_store \<Rightarrow>
     program_advance res \<times> program_store" where
  "start_round p start_run intent now st =
     (case start_run of
        None \<Rightarrow>
          (case record_program_decision
                  \<lparr>pd_program_id = rp_id p, pd_after_index = si_after_index intent, pd_kind = WAIT,
                   pd_reason = R_no_start_face (si_index intent), pd_cited_run_id = None,
                   pd_cited_facts = si_cited_facts intent, pd_decided_at = now\<rparr> st of
             (Inl e, st') \<Rightarrow> (Inl e, st')
           | (Inr d, st') \<Rightarrow>
               (Inr \<lparr>pa_program_id = rp_id p, pa_decision = d, pa_started_run_id = None,
                     pa_run_count = si_after_index intent\<rparr>, st'))
      | Some start \<Rightarrow>
          (case start (si_index intent) of
             Inl e \<Rightarrow> (Inl e, st)
           | Inr started \<Rightarrow>
               (case record_program_decision
                       \<lparr>pd_program_id = rp_id p, pd_after_index = si_after_index intent,
                        pd_kind = si_kind intent, pd_reason = R_started (si_reason intent) started,
                        pd_cited_run_id = Some started, pd_cited_facts = si_cited_facts intent,
                        pd_decided_at = now\<rparr> st of
                  (Inl e, st') \<Rightarrow> (Inl e, st')
                | (Inr d, st') \<Rightarrow>
                    (Inr \<lparr>pa_program_id = rp_id p, pa_decision = d,
                          pa_started_run_id = Some started,
                          pa_run_count = si_after_index intent + 1\<rparr>, st'))))"

definition after_index_of :: "research_run list \<Rightarrow> int" where
  "after_index_of existing = (if existing = [] then 0 else index_or_0 (last existing))"

definition advance_program ::
    "research_program \<Rightarrow> research_run list \<Rightarrow> finding_row list option \<Rightarrow> (int \<Rightarrow> string res) option \<Rightarrow>
     gate_clock option \<Rightarrow> nudge_sink option \<Rightarrow> string \<Rightarrow> int \<Rightarrow> int \<Rightarrow> world \<Rightarrow>
     program_advance res \<times> world" where
  "advance_program p runs findings start_run clock nudges uid saved now w =
     (let existing = for_program (rp_id p) runs;
          (decisions, st) = ps_decisions_of (rp_id p) (w_programs w);
          (outcome, approvals', sent) =
            evaluate p existing findings decisions (w_approvals w) clock nudges uid saved;
          w1 = w\<lparr>w_approvals := approvals', w_sent := w_sent w @ sent\<rparr>
      in case outcome of
           Inl e \<Rightarrow> (Inl e, w1)
         | Inr ev \<Rightarrow>
             (case ev_start_index ev of
                Some index \<Rightarrow>
                  (case start_round p start_run
                          \<lparr>si_index = index, si_after_index = after_index_of existing,
                           si_kind = ev_kind ev, si_reason = ev_reason ev,
                           si_cited_facts = ev_cited_facts ev\<rparr> now (w_programs w) of
                     (result, st') \<Rightarrow> (result, w1\<lparr>w_programs := st'\<rparr>))
              | None \<Rightarrow>
                  (case record_program_decision
                          \<lparr>pd_program_id = rp_id p, pd_after_index = after_index_of existing,
                           pd_kind = ev_kind ev, pd_reason = ev_reason ev,
                           pd_cited_run_id = ev_cited_run_id ev,
                           pd_cited_facts = ev_cited_facts ev, pd_decided_at = now\<rparr> (w_programs w) of
                     (Inl e, st') \<Rightarrow> (Inl e, w1\<lparr>w_programs := st'\<rparr>)
                   | (Inr d, st') \<Rightarrow>
                       (Inr \<lparr>pa_program_id = rp_id p, pa_decision = d, pa_started_run_id = None,
                             pa_run_count = int (length existing)\<rparr>,
                        w1\<lparr>w_programs := st'\<rparr>))))"

end
