(* ===== verification/Program_Lemmas.thy ===== *)
theory Program_Lemmas
  imports Program_Runner
begin

text \<open>
  The library of facts on the advance of a program: recording a decision through the decision
  log, the accounting of retries, the case analysis of an evaluation and what an advance leaves
  in the store.
\<close>

section \<open>Recording a decision\<close>

definition store_ok :: "program_store \<Rightarrow> bool" where
  "store_ok st =
     (\<not> ab_closed st \<and>
      (\<forall>d\<in>set (ps_decisions st). is_ok (decision_post_init d) \<and> pd_decided_at d < max_us))"

lemma decision_ok_iff: "is_ok (decision_post_init d) \<longleftrightarrow> pd_program_id d \<noteq> [] \<and> 0 \<le> pd_after_index d"
  unfolding decision_post_init_def first_error_ok_iff by auto

lemma decision_post_init_ok: "is_ok (decision_post_init d) \<Longrightarrow> decision_post_init d = Inr d"
  unfolding decision_post_init_def first_error_ok_iff by (simp only: first_error_Inr_iff)

lemma map_res_id: "(\<And>x. x \<in> set xs \<Longrightarrow> f x = Inr x) \<Longrightarrow> map_res f xs = Inr xs"
  by (induction xs) simp_all

lemma decisions_in_set: "set (decisions_in pid st) \<subseteq> set (ps_decisions st)"
  by (auto simp: decisions_in_def ordered_decisions_set)

lemma read_decisions:
  assumes "store_ok st"
  shows "ps_decisions_of pid st =
    (Inr (decisions_in pid st),
     log_result ''decisions_of'' pid (str_int (int (length (decisions_in pid st)))) st)"
proof -
  have "map_res decision_post_init (decisions_in pid st) = Inr (decisions_in pid st)"
    using assms decisions_in_set
    by (intro map_res_id decision_post_init_ok) (auto simp: store_ok_def)
  then show ?thesis using assms by (simp add: ps_decisions_of_def store_ok_def Let_def)
qed

lemma stamp_ok:
  assumes "\<And>d. d \<in> set ds \<Longrightarrow> pd_decided_at d < max_us" and "0 \<le> now" and "now \<le> max_us"
  shows "\<exists>t. stamp_after ds now = Inr t"
proof (cases ds)
  case (Cons d rest)
  let ?m = "Max (set (map pd_decided_at ds))"
  have "?m < max_us" using assms(1) Cons by simp
  moreover have "stamp_after ds now = (if now \<le> ?m then time_plus ?m 1 else Inr now)"
    using Cons by (simp add: stamp_after_def)
  ultimately show ?thesis using assms(2) by (auto simp: time_plus_def)
qed (simp add: stamp_after_def)

lemma decisions_in_log [simp]: "decisions_in pid (log_result m a r st) = decisions_in pid st"
  by (simp add: decisions_in_def log_defs)

lemma decisions_in_put_log [simp]:
  "decisions_in pid (put_decision d (log_result m a r st)) = decisions_in pid (put_decision d st)"
  by (simp add: decisions_in_def put_decision_def log_defs)

lemma record_program_decision_ok:
  assumes "store_ok st" and "is_ok (decision_post_init d)" and "0 \<le> pd_decided_at d" and "pd_decided_at d \<le> max_us"
  obtains t st' where
    "record_program_decision d st = (Inr (d\<lparr>pd_decided_at := t\<rparr>), st')"
    "decisions_in (pd_program_id d) st' = decisions_in (pd_program_id d) st @ [d\<lparr>pd_decided_at := t\<rparr>]"
    "\<And>pid. pid \<noteq> pd_program_id d \<Longrightarrow> decisions_in pid st' = decisions_in pid st"
    "\<And>pid. sorted_wrt (<) (map pd_decided_at (decisions_in pid st)) \<Longrightarrow>
       sorted_wrt (<) (map pd_decided_at (decisions_in pid st'))"
    "ps_programs st' = ps_programs st"
proof -
  obtain t where t: "stamp_after (decisions_in (pd_program_id d) st) (pd_decided_at d) = Inr t"
    using stamp_ok [of "decisions_in (pd_program_id d) st" "pd_decided_at d"] assms decisions_in_set
    by (force simp: store_ok_def)
  let ?d = "d\<lparr>pd_decided_at := t\<rparr>"
  have stamped: "decision_post_init ?d = Inr ?d"
    using assms(2) by (intro decision_post_init_ok) (simp add: decision_ok_iff)
  define st' where "st' = snd (ps_record_decision ?d (snd (ps_decisions_of (pd_program_id d) st)))"
  have rec: "record_program_decision d st = (Inr ?d, st')"
    using assms(1) t stamped
    by (simp add: record_program_decision_def read_decisions st'_def ps_record_decision_def
        store_ok_def log_defs)
  have st': "decisions_in pid st' = decisions_in pid (put_decision ?d st)" for pid
    using assms(1) by (simp add: st'_def read_decisions ps_record_decision_def store_ok_def)
      (simp add: log_defs decisions_in_def put_decision_def)
  show ?thesis
  proof (rule that [of t st'])
    show "ps_programs st' = ps_programs st"
      using assms(1)
      by (simp add: st'_def read_decisions ps_record_decision_def store_ok_def log_defs put_decision_def)
  qed (use rec st' t sqlite_decisions.stamped_append sqlite_decisions.stamped_increasing
        sqlite_decisions.other_program [of _ ?d st] in auto)
qed


section \<open>Retry accounting\<close>

definition retry_claims :: "int \<Rightarrow> program_decision list \<Rightarrow> string list" where
  "retry_claims i ds =
     map (the \<circ> pd_cited_run_id)
       (filter (\<lambda>d. pd_after_index d = i \<and> pd_kind d = RETRY_FAILED_RUN) ds)"

definition retry_turns :: "int \<Rightarrow> program_decision list \<Rightarrow> nat" where
  "retry_turns i ds =
     length (filter (\<lambda>d. pd_after_index d = i \<and> pd_kind d \<in> set RETRY_CLAIM_KINDS) ds)"

definition dedup_turns :: "int \<Rightarrow> program_decision list \<Rightarrow> nat" where
  "dedup_turns i ds =
     length (filter (\<lambda>d. pd_after_index d = i \<and> pd_kind d = DEDUP_FAILED_RUN) ds)"

definition claims_named :: "program_decision list \<Rightarrow> bool" where
  "claims_named ds =
     (\<forall>d\<in>set ds. pd_kind d = RETRY_FAILED_RUN \<longrightarrow> (\<exists>c. pd_cited_run_id d = Some c \<and> c \<noteq> []))"

lemma retry_turns_split: "retry_turns i ds = length (retry_claims i ds) + dedup_turns i ds"
  by (induction ds) (auto simp: retry_turns_def retry_claims_def dedup_turns_def RETRY_CLAIM_KINDS_def)

lemma claimed_id_Some: "pd_cited_run_id d = Some c \<Longrightarrow> c \<noteq> [] \<Longrightarrow> claimed_id d = Some c"
  by (cases c) (simp_all add: claimed_id_def)

lemma fold_retry_step:
  assumes "claims_named ds"
  shows "fst (fold (retry_step i landed) ds acc) =
    fst acc + int (dedup_turns i ds) +
    int (length (filter (\<lambda>c. c \<notin> set landed) (retry_claims i ds)))"
  using assms
proof (induction ds arbitrary: acc)
  case (Cons d ds)
  obtain a out where acc: "acc = (a, out)" by (cases acc)
  have "claims_named ds" using Cons.prems by (simp add: claims_named_def)
  note IH = Cons.IH [OF this, of "retry_step i landed d acc"]
  show ?case
  proof (cases "pd_after_index d = i \<and> pd_kind d = RETRY_FAILED_RUN")
    case True
    then obtain c where "pd_cited_run_id d = Some c" "c \<noteq> []"
      using Cons.prems by (auto simp: claims_named_def)
    with True acc IH show ?thesis
      by (auto simp: retry_step_def RETRY_CLAIM_KINDS_def claimed_id_Some retry_claims_def dedup_turns_def)
  next
    case False
    with acc IH show ?thesis
      by (auto simp: retry_step_def RETRY_CLAIM_KINDS_def retry_claims_def dedup_turns_def)
  qed
qed (simp add: dedup_turns_def retry_claims_def)

lemma attempts_cover_turns:
  assumes "claims_named ds" and "distinct (retry_claims i ds)"
  shows "int (retry_turns i ds) \<le> fst (retry_face_state ds i landed)"
proof -
  let ?in = "filter (\<lambda>c. c \<in> set landed) (retry_claims i ds)"
  have "length ?in = card (set ?in)" using assms(2) distinct_card [of ?in] by simp
  also have "\<dots> \<le> card (set landed)" by (rule card_mono) auto
  also have "\<dots> = length (remdups landed)" by (simp add: length_remdups_card_conv)
  finally have "length ?in \<le> length (remdups landed)" .
  moreover have "length (retry_claims i ds) =
      length ?in + length (filter (\<lambda>c. c \<notin> set landed) (retry_claims i ds))"
    by (rule sum_length_filter_compl [symmetric])
  ultimately show ?thesis
    using fold_retry_step [OF assms(1), of i landed "(int (length (remdups landed)), None)"]
    by (simp add: retry_face_state_def retry_turns_split)
qed

section \<open>What an evaluation decides\<close>

lemma gated_outcome_no_start:
  "gated_outcome p lst approvals verdicts clock nudges uid saved = (Some g, eff) \<Longrightarrow>
     ev_start_index g = None \<and> ev_kind g = WAIT_FOR_APPROVAL"
  by (auto simp: gated_outcome_def gate_outcome_def declared_gate_evaluation_def gate_result_def
      declared_gate_verdict_def Let_def split: option.splits prod.splits)

lemma failed_round_kinds:
  assumes "failed_round p existing lst i ds = ev"
  shows "ev_kind ev \<in> {STOP_RUN_FAILED, DEDUP_FAILED_RUN, RETRY_FAILED_RUN}"
    and "ev_kind ev \<in> set RETRY_CLAIM_KINDS \<Longrightarrow> fst (retry_facts ds existing i) < rp_max_attempts_per_index p"
    and "ev_start_index ev = (if ev_kind ev = RETRY_FAILED_RUN then Some i else None)"
  using assms
  by (auto simp: failed_round_def bounded_stop_def returning_claim_stop_def RETRY_CLAIM_KINDS_def Let_def
      split: prod.splits if_splits option.splits)

lemma conclude_cases:
  assumes "conclude p existing lst verdicts (Inr ds) = Inr ev"
  shows "ev_kind ev = STOP_CANCELLED \<and> rr_state lst = R_CANCELLED \<and> ev_start_index ev = None \<or>
    rr_state lst \<notin> {R_SUCCEEDED, R_CANCELLED} \<and> ev = failed_round p existing lst (index_or_0 lst) ds \<or>
    rr_state lst = R_SUCCEEDED \<and> ev_kind ev \<in> {STOP_RULE, STOP_GUARDRAIL, DEDUP} \<and> ev_start_index ev = None \<or>
    rr_state lst = R_SUCCEEDED \<and> ev_kind ev = CONTINUE \<and> ev_start_index ev = Some (index_or_0 lst + 1) \<and>
      index_or_0 lst < rp_max_runs p \<and> set verdicts \<inter> set (verdict_in (rp_continue_rule p)) \<noteq> {}"
  using assms
  by (auto simp: conclude_def non_success_terminal_def after_hit_def Let_def filter_empty_conv
      split: if_splits option.splits)

lemma conclude_total: "\<exists>ev. conclude p existing lst verdicts (Inr ds) = Inr ev"
  by (auto simp: conclude_def non_success_terminal_def after_hit_def Let_def split: option.splits)

lemma evaluate_total: "\<exists>ev eff. evaluate p existing findings (Inr ds) approvals clock nudges uid saved = (Inr ev, eff)"
  using conclude_total by (fastforce simp: evaluate_def Let_def split: prod.splits option.splits)

lemma waiting_kinds:
  "waiting_round_decision lst i approvals = (k, why, facts) \<Longrightarrow> k \<in> {WAIT, WAIT_FOR_APPROVAL}"
  by (auto simp: waiting_round_decision_def Let_def split: if_splits)

lemma evaluate_cases:
  assumes "evaluate p existing findings (Inr ds) approvals clock nudges uid saved = (Inr ev, eff)"
  obtains (start) "existing = []" "ev_kind ev = START" "ev_start_index ev = Some 1"
  | (wait) "existing \<noteq> []" "\<not> rr_is_terminal (last existing)" "ev_kind ev \<in> {WAIT, WAIT_FOR_APPROVAL}"
      "ev_start_index ev = None"
  | (gated) "existing \<noteq> []" "rr_is_terminal (last existing)" "ev_kind ev = WAIT_FOR_APPROVAL"
      "ev_start_index ev = None"
      "gated_outcome p (last existing) approvals (verdicts_of findings (rr_id (last existing))) clock
         nudges uid saved = (Some ev, eff)"
  | (open_gate) "existing \<noteq> []" "rr_is_terminal (last existing)"
      "gated_outcome p (last existing) approvals (verdicts_of findings (rr_id (last existing))) clock
         nudges uid saved = (None, eff)"
      "conclude p existing (last existing) (verdicts_of findings (rr_id (last existing))) (Inr ds) = Inr ev"
proof (cases "existing = []")
  case True
  with assms show ?thesis by (intro start) (auto simp: evaluate_def)
next
  case False
  show ?thesis
  proof (cases "rr_is_terminal (last existing)")
    case fin: False
    with assms False waiting_kinds [of "last existing"] show ?thesis
      by (intro wait) (fastforce simp: evaluate_def Let_def split: prod.splits)+
  next
    case fin: True
    obtain g eff' where g: "gated_outcome p (last existing) approvals
        (verdicts_of findings (rr_id (last existing))) clock nudges uid saved = (g, eff')"
      by (cases "gated_outcome p (last existing) approvals
        (verdicts_of findings (rr_id (last existing))) clock nudges uid saved")
    show ?thesis
    proof (cases g)
      case None
      with assms False fin g show ?thesis by (intro open_gate) (auto simp: evaluate_def Let_def)
    next
      case (Some gv)
      with assms False fin g have "gv = ev" "eff' = eff" by (auto simp: evaluate_def Let_def)
      with Some False fin g gated_outcome_no_start show ?thesis by (intro gated) blast+
    qed
  qed
qed


section \<open>What an advance leaves\<close>

definition runs_ok :: "research_run list \<Rightarrow> bool" where
  "runs_ok runs = (\<forall>r\<in>set runs. valid_run r)"

definition starts_ok :: "(int \<Rightarrow> string res) option \<Rightarrow> bool" where
  "starts_ok start_run = (\<forall>f\<in>set_option start_run. \<forall>i. is_ok (f i))"

lemma set_for_program: "set (for_program pid runs) = {r \<in> set runs. rr_program_id r = Some pid}"
  by (auto simp: for_program_def)

lemma after_index_nonneg:
  assumes "runs_ok runs"
  shows "0 \<le> after_index_of (for_program pid runs)"
proof (cases "for_program pid runs = []")
  case False
  then have "last (for_program pid runs) \<in> set runs"
    using last_in_set set_for_program by blast
  then have "valid_run (last (for_program pid runs))" using assms by (simp add: runs_ok_def)
  then show ?thesis by (auto simp: after_index_of_def index_or_0_def valid_run_iff split: option.splits)
qed (simp add: after_index_of_def)

text \<open>
  The decision an evaluation turns into: a round that cannot be started for want of a
  starting face is a \<open>WAIT\<close>.
\<close>

definition decision_of ::
    "research_program \<Rightarrow> (int \<Rightarrow> string res) option \<Rightarrow> int \<Rightarrow> evaluation \<Rightarrow> int \<Rightarrow> program_decision" where
  "decision_of p start_run after ev t =
     (case (ev_start_index ev, start_run) of
        (Some i, None) \<Rightarrow>
          \<lparr>pd_program_id = rp_id p, pd_after_index = after, pd_kind = WAIT, pd_reason = R_no_start_face i,
           pd_cited_run_id = None, pd_cited_facts = ev_cited_facts ev, pd_decided_at = t\<rparr>
      | (Some i, Some f) \<Rightarrow>
          \<lparr>pd_program_id = rp_id p, pd_after_index = after, pd_kind = ev_kind ev,
           pd_reason = R_started (ev_reason ev) (projr (f i)), pd_cited_run_id = Some (projr (f i)),
           pd_cited_facts = ev_cited_facts ev, pd_decided_at = t\<rparr>
      | (None, _) \<Rightarrow>
          \<lparr>pd_program_id = rp_id p, pd_after_index = after, pd_kind = ev_kind ev, pd_reason = ev_reason ev,
           pd_cited_run_id = ev_cited_run_id ev, pd_cited_facts = ev_cited_facts ev, pd_decided_at = t\<rparr>)"

definition started_by :: "(int \<Rightarrow> string res) option \<Rightarrow> evaluation \<Rightarrow> string option" where
  "started_by start_run ev =
     (case (ev_start_index ev, start_run) of
        (Some i, Some f) \<Rightarrow> Some (projr (f i))
      | _ \<Rightarrow> None)"

lemma decision_of_simps [simp]:
  "pd_program_id (decision_of p start_run after ev t) = rp_id p"
  "pd_after_index (decision_of p start_run after ev t) = after"
  "pd_decided_at (decision_of p start_run after ev t) = t"
  "(decision_of p start_run after ev t)\<lparr>pd_decided_at := t'\<rparr> = decision_of p start_run after ev t'"
  by (auto simp: decision_of_def split: option.splits)

lemma advance_reduces:
  assumes "store_ok (w_programs w)"
    and starts: "\<forall>i f. ev_start_index ev = Some i \<longrightarrow> start_run = Some f \<longrightarrow> is_ok (f i)"
    and "evaluate p (for_program (rp_id p) runs) findings (Inr (decisions_in (rp_id p) (w_programs w)))
           (w_approvals w) clock nudges uid saved = (Inr ev, approvals', sent)"
    and "record_program_decision
           (decision_of p start_run (after_index_of (for_program (rp_id p) runs)) ev now) (w_programs w) =
           (Inr d, st')"
  shows "\<exists>a. advance_program p runs findings start_run clock nudges uid saved now w =
      (Inr a, w\<lparr>w_approvals := approvals', w_sent := w_sent w @ sent, w_programs := st'\<rparr>) \<and>
      pa_decision a = d \<and> pa_started_run_id a = started_by start_run ev"
proof (cases "ev_start_index ev")
  case None
  with assms show ?thesis
    by (simp add: advance_program_def read_decisions decision_of_def started_by_def Let_def)
next
  case (Some i)
  show ?thesis
  proof (cases start_run)
    case none: None
    with Some assms show ?thesis
      by (simp add: advance_program_def read_decisions decision_of_def started_by_def start_round_def Let_def)
  next
    case (Some f)
    then obtain c where "f i = Inr c" using starts \<open>ev_start_index ev = Some i\<close> by (cases "f i") auto
    with Some \<open>ev_start_index ev = Some i\<close> assms(1,3,4) show ?thesis
      by (simp add: advance_program_def read_decisions decision_of_def started_by_def start_round_def Let_def)
  qed
qed

lemma advance_records_of:
  assumes "store_ok (w_programs w)" and "rp_id p \<noteq> []" and "runs_ok runs"
    and "0 \<le> now" and "now \<le> max_us"
    and ev: "evaluate p (for_program (rp_id p) runs) findings (Inr (decisions_in (rp_id p) (w_programs w)))
       (w_approvals w) clock nudges uid saved = (Inr ev, approvals', sent)"
    and starts: "\<forall>i f. ev_start_index ev = Some i \<longrightarrow> start_run = Some f \<longrightarrow> is_ok (f i)"
  obtains t a w' where
    "advance_program p runs findings start_run clock nudges uid saved now w = (Inr a, w')"
    "pa_decision a = decision_of p start_run (after_index_of (for_program (rp_id p) runs)) ev t"
    "pa_started_run_id a = started_by start_run ev"
    "decisions_in (rp_id p) (w_programs w') = decisions_in (rp_id p) (w_programs w) @ [pa_decision a]"
    "\<And>pid. pid \<noteq> rp_id p \<Longrightarrow> decisions_in pid (w_programs w') = decisions_in pid (w_programs w)"
    "\<And>pid. sorted_wrt (<) (map pd_decided_at (decisions_in pid (w_programs w))) \<Longrightarrow>
       sorted_wrt (<) (map pd_decided_at (decisions_in pid (w_programs w')))"
    "w_approvals w' = approvals'"
proof -
  let ?after = "after_index_of (for_program (rp_id p) runs)"
  have ok: "is_ok (decision_post_init (decision_of p start_run ?after ev now))"
    using assms(2,3) by (simp add: decision_ok_iff after_index_nonneg)
  obtain t st' where rec: "record_program_decision (decision_of p start_run ?after ev now) (w_programs w) =
      (Inr (decision_of p start_run ?after ev t), st')"
    and st': "decisions_in (rp_id p) st' =
      decisions_in (rp_id p) (w_programs w) @ [decision_of p start_run ?after ev t]"
      "\<And>pid. pid \<noteq> rp_id p \<Longrightarrow> decisions_in pid st' = decisions_in pid (w_programs w)"
      "\<And>pid. sorted_wrt (<) (map pd_decided_at (decisions_in pid (w_programs w))) \<Longrightarrow>
         sorted_wrt (<) (map pd_decided_at (decisions_in pid st'))"
    using record_program_decision_ok [OF assms(1) ok] assms(4,5) by simp metis
  from advance_reduces [OF assms(1) starts ev rec] obtain a where
    "advance_program p runs findings start_run clock nudges uid saved now w =
      (Inr a, w\<lparr>w_approvals := approvals', w_sent := w_sent w @ sent, w_programs := st'\<rparr>)"
    "pa_decision a = decision_of p start_run ?after ev t" "pa_started_run_id a = started_by start_run ev"
    by blast
  with st' show ?thesis
    by (intro that [of a "w\<lparr>w_approvals := approvals', w_sent := w_sent w @ sent, w_programs := st'\<rparr>" t]) simp_all
qed

text \<open>A start that raises leaves through the advance before anything is recorded.\<close>

lemma advance_raises:
  assumes "store_ok (w_programs w)"
    and "evaluate p (for_program (rp_id p) runs) findings (Inr (decisions_in (rp_id p) (w_programs w)))
       (w_approvals w) clock nudges uid saved = (Inr ev, approvals', sent)"
    and "ev_start_index ev = Some i" and "start_run = Some f" and "f i = Inl e"
  shows "advance_program p runs findings start_run clock nudges uid saved now w =
    (Inl e, w\<lparr>w_approvals := approvals', w_sent := w_sent w @ sent\<rparr>)"
  using assms by (simp add: advance_program_def read_decisions start_round_def Let_def)

lemma advance_records:
  assumes "store_ok (w_programs w)" and "rp_id p \<noteq> []" and "runs_ok runs" and "starts_ok start_run"
    and "0 \<le> now" and "now \<le> max_us"
  obtains ev eff t a w' where
    "evaluate p (for_program (rp_id p) runs) findings (Inr (decisions_in (rp_id p) (w_programs w)))
       (w_approvals w) clock nudges uid saved = (Inr ev, eff)"
    "advance_program p runs findings start_run clock nudges uid saved now w = (Inr a, w')"
    "pa_decision a = decision_of p start_run (after_index_of (for_program (rp_id p) runs)) ev t"
    "pa_started_run_id a = started_by start_run ev"
    "decisions_in (rp_id p) (w_programs w') = decisions_in (rp_id p) (w_programs w) @ [pa_decision a]"
    "\<And>pid. pid \<noteq> rp_id p \<Longrightarrow> decisions_in pid (w_programs w') = decisions_in pid (w_programs w)"
    "\<And>pid. sorted_wrt (<) (map pd_decided_at (decisions_in pid (w_programs w))) \<Longrightarrow>
       sorted_wrt (<) (map pd_decided_at (decisions_in pid (w_programs w')))"
    "w_approvals w' = fst eff"
proof -
  obtain ev approvals' sent where ev: "evaluate p (for_program (rp_id p) runs) findings
      (Inr (decisions_in (rp_id p) (w_programs w))) (w_approvals w) clock nudges uid saved =
      (Inr ev, approvals', sent)"
    using evaluate_total by (metis surj_pair)
  have "\<forall>i f. ev_start_index ev = Some i \<longrightarrow> start_run = Some f \<longrightarrow> is_ok (f i)"
    using assms(4) by (simp add: starts_ok_def)
  from advance_records_of [OF assms(1-3,5,6) ev this] that [OF ev] show thesis by simp metis
qed

end
