(* ===== verification/Program_Properties.thy ===== *)
theory Program_Properties
  imports Program_Lemmas
begin

text \<open>
  What the advance of a program guarantees: its retries are bounded, its human gates hold, every
  advance leaves exactly one decision, rounds start for a cause and within the bound, a program
  is stored faithfully; and three behaviours that differ from the description in the source.
\<close>

section \<open>Retries\<close>

definition claimed_ids :: "program_decision list \<Rightarrow> string set" where
  "claimed_ids ds = {c. \<exists>d\<in>set ds. pd_cited_run_id d = Some c}"

definition starts_fresh :: "(int \<Rightarrow> string res) option \<Rightarrow> program_decision list \<Rightarrow> bool" where
  "starts_fresh start_run ds =
     (\<forall>f\<in>set_option start_run. \<forall>i. \<exists>c. f i = Inr c \<and> c \<noteq> [] \<and> c \<notin> claimed_ids ds)"

text \<open>
  The histories of one program: between two advances the runs, findings, approvals and the
  rest of the store may change in any way, only the program's own decisions are left alone;
  a started run gets an identifier that no decision has cited yet, and may or may not land
  in the run store afterwards.
\<close>

inductive program_history :: "research_program \<Rightarrow> world \<Rightarrow> bool" for p where
  fresh: "decisions_in (rp_id p) (w_programs w) = [] \<Longrightarrow> program_history p w"
| advance: "program_history p w \<Longrightarrow> store_ok (w_programs w) \<Longrightarrow> runs_ok runs \<Longrightarrow>
    starts_fresh start_run (decisions_in (rp_id p) (w_programs w)) \<Longrightarrow> 0 \<le> now \<Longrightarrow> now \<le> max_us \<Longrightarrow>
    advance_program p runs findings start_run clock nudges uid saved now w = (Inr a, w') \<Longrightarrow>
    program_history p w'"
| elsewhere: "program_history p w \<Longrightarrow>
    decisions_in (rp_id p) (w_programs w') = decisions_in (rp_id p) (w_programs w) \<Longrightarrow>
    program_history p w'"

definition retries_inv :: "research_program \<Rightarrow> program_decision list \<Rightarrow> bool" where
  "retries_inv p ds =
     (claims_named ds \<and>
      (\<forall>i. distinct (retry_claims i ds) \<and> int (retry_turns i ds) \<le> rp_max_attempts_per_index p))"

lemma starts_fresh_ok: "starts_fresh start_run ds \<Longrightarrow> starts_ok start_run"
  unfolding starts_fresh_def starts_ok_def by (metis is_ok_simps(2))

lemma retries_inv_snoc_other:
  assumes "retries_inv p ds" and "pd_kind d \<notin> set RETRY_CLAIM_KINDS"
  shows "retries_inv p (ds @ [d])"
  using assms
  by (auto simp: retries_inv_def claims_named_def retry_claims_def retry_turns_def RETRY_CLAIM_KINDS_def)

lemma retry_claims_snoc:
  "retry_claims i (ds @ [d]) = retry_claims i ds @
     (if pd_after_index d = i \<and> pd_kind d = RETRY_FAILED_RUN then [the (pd_cited_run_id d)] else [])"
  by (simp add: retry_claims_def)

lemma retries_inv_snoc_turn:
  assumes "retries_inv p ds" and "pd_kind d \<in> set RETRY_CLAIM_KINDS"
    and "int (retry_turns (pd_after_index d) ds) < rp_max_attempts_per_index p"
    and "pd_kind d = RETRY_FAILED_RUN \<Longrightarrow>
           \<exists>c. pd_cited_run_id d = Some c \<and> c \<noteq> [] \<and> c \<notin> claimed_ids ds"
  shows "retries_inv p (ds @ [d])"
proof -
  have fresh: "c \<notin> set (retry_claims i ds)" if "c \<notin> claimed_ids ds" for c i
    using that assms(1) by (force simp: claimed_ids_def retry_claims_def retries_inv_def claims_named_def)
  have "claims_named (ds @ [d])" using assms(1,4) by (auto simp: retries_inv_def claims_named_def)
  moreover have "distinct (retry_claims i (ds @ [d]))" for i
    using assms(1,4) fresh by (auto simp: retries_inv_def retry_claims_snoc)
  moreover have "int (retry_turns i (ds @ [d])) \<le> rp_max_attempts_per_index p" for i
    using assms(1,3) by (auto simp: retries_inv_def retry_turns_def)
  ultimately show ?thesis by (simp add: retries_inv_def)
qed

lemma retry_decision_has_room:
  assumes "evaluate p existing findings (Inr ds) approvals clock nudges uid saved = (Inr ev, eff)"
    and "ev_kind ev \<in> set RETRY_CLAIM_KINDS" and "retries_inv p ds"
  shows "int (retry_turns (after_index_of existing) ds) < rp_max_attempts_per_index p \<and>
    (ev_start_index ev = None) = (ev_kind ev = DEDUP_FAILED_RUN)"
  using assms(1)
proof (cases rule: evaluate_cases)
  case open_gate
  from conclude_cases [OF open_gate(4)] assms(2) have ev:
    "ev = failed_round p existing (last existing) (index_or_0 (last existing)) ds"
    by (auto simp: RETRY_CLAIM_KINDS_def)
  have "int (retry_turns (index_or_0 (last existing)) ds) \<le>
      fst (retry_facts ds existing (index_or_0 (last existing)))"
    unfolding retry_facts_def using assms(3) by (intro attempts_cover_turns) (simp_all add: retries_inv_def)
  with open_gate(1) failed_round_kinds [OF ev [symmetric]] assms(2) show ?thesis
    by (auto simp: after_index_of_def RETRY_CLAIM_KINDS_def)
qed (use assms(2) in \<open>auto simp: RETRY_CLAIM_KINDS_def\<close>)

lemma decision_of_kind:
  "pd_kind (decision_of p start_run after ev t) \<in> set RETRY_CLAIM_KINDS \<Longrightarrow>
     pd_kind (decision_of p start_run after ev t) = ev_kind ev"
  by (auto simp: decision_of_def RETRY_CLAIM_KINDS_def split: option.splits)

lemma decision_of_cited:
  assumes "pd_kind (decision_of p start_run after ev t) = RETRY_FAILED_RUN" and "ev_start_index ev \<noteq> None"
    and "starts_fresh start_run ds"
  shows "\<exists>c. pd_cited_run_id (decision_of p start_run after ev t) = Some c \<and> c \<noteq> [] \<and> c \<notin> claimed_ids ds"
proof -
  obtain i f where "ev_start_index ev = Some i" "start_run = Some f"
    using assms(1,2) by (auto simp: decision_of_def split: option.splits)
  with assms(3) show ?thesis by (auto simp: decision_of_def starts_fresh_def dest!: spec [of _ i])
qed

lemma retries_inv_step:
  assumes "store_ok (w_programs w)" and "rp_id p \<noteq> []" and "runs_ok runs"
    and "starts_fresh start_run (decisions_in (rp_id p) (w_programs w))" and "0 \<le> now" and "now \<le> max_us"
    and "advance_program p runs findings start_run clock nudges uid saved now w = (Inr a, w')"
    and inv: "retries_inv p (decisions_in (rp_id p) (w_programs w))"
  shows "retries_inv p (decisions_in (rp_id p) (w_programs w'))"
proof -
  let ?ds = "decisions_in (rp_id p) (w_programs w)"
  from advance_records [OF assms(1-3) starts_fresh_ok [OF assms(4)] assms(5,6)] assms(7)
  obtain ev eff t where
    ev: "evaluate p (for_program (rp_id p) runs) findings (Inr ?ds) (w_approvals w) clock nudges uid saved =
      (Inr ev, eff)"
    and d: "pa_decision a = decision_of p start_run (after_index_of (for_program (rp_id p) runs)) ev t"
    and app: "decisions_in (rp_id p) (w_programs w') = ?ds @ [pa_decision a]"
    by (metis Inr_inject prod.inject)
  show ?thesis
  proof (cases "pd_kind (pa_decision a) \<in> set RETRY_CLAIM_KINDS")
    case False
    with inv app show ?thesis by (simp add: retries_inv_snoc_other)
  next
    case True
    then have kind: "pd_kind (pa_decision a) = ev_kind ev" using d decision_of_kind by simp
    with True retry_decision_has_room [OF ev _ inv]
    have "int (retry_turns (pd_after_index (pa_decision a)) ?ds) < rp_max_attempts_per_index p"
      and start: "(ev_start_index ev = None) = (ev_kind ev = DEDUP_FAILED_RUN)"
      using d by simp_all
    with inv True show ?thesis unfolding app
      by (intro retries_inv_snoc_turn) (use kind start d decision_of_cited [OF _ _ assms(4)] in auto)
  qed
qed

text \<open>
  C16: retries of a failed round are bounded under every crash pattern. In every history of a
  program, whatever lands in the run store and whenever an advance is repeated, the decisions
  that retry a given round or find its claim outstanding are at most
  \<open>max_attempts_per_index\<close> many, and no two retries claim the same run.
\<close>

theorem retries_are_bounded:
  assumes "valid_program p" and "program_history p w"
  shows "int (length (filter (\<lambda>d. pd_after_index d = i \<and> pd_kind d \<in> set RETRY_CLAIM_KINDS)
            (decisions_in (rp_id p) (w_programs w)))) \<le> rp_max_attempts_per_index p \<and>
         distinct (retry_claims i (decisions_in (rp_id p) (w_programs w)))"
proof -
  have id: "rp_id p \<noteq> []"
    using assms(1) by (auto simp: valid_program_def program_post_init_def first_error_ok_iff
        simp del: first_error.simps)
  have "retries_inv p (decisions_in (rp_id p) (w_programs w))"
    using assms(2)
  proof induction
    case (fresh w)
    then show ?case using valid_program_bounds [OF assms(1)]
      by (simp add: retries_inv_def claims_named_def retry_claims_def retry_turns_def)
  next
    case (advance w runs start_run now findings clock nudges uid saved a w')
    then show ?case using retries_inv_step id by blast
  qed simp
  then show ?thesis by (simp add: retries_inv_def retry_turns_def)
qed

section \<open>Human gates\<close>

definition face_open :: "approval_face \<Rightarrow> bool" where
  "face_open f = (\<not> ab_closed (af_store f))"

definition run_approvals :: "string \<Rightarrow> approval_face \<Rightarrow> approval_record list" where
  "run_approvals run_id f =
     ordered_approvals (filter (\<lambda>w. ar_run_id (aw_approval w) = run_id) (as_rows (af_store f)))"

text \<open>
  When a triggered gate lets the program on: the run has an approval record, none is pending,
  and, if the advance can register the gate's own record, that record is there already.
\<close>

definition gate_open :: "research_program \<Rightarrow> approval_face option \<Rightarrow> string \<Rightarrow> bool" where
  "gate_open p approvals run_id =
     (case approvals of
        None \<Rightarrow> False
      | Some f \<Rightarrow>
          face_open f \<and> run_approvals run_id f \<noteq> [] \<and>
          (\<forall>a\<in>set (run_approvals run_id f). ar_status a \<noteq> PENDING) \<and>
          (af_writable f \<longrightarrow> (\<exists>a\<in>set (run_approvals run_id f). ar_action a = gate_action p)))"

lemma face_rows_eq:
  "face_rows run_id f = (if face_open f then Inr (run_approvals run_id f) else Inl closed_error)"
  by (simp add: face_rows_def ap_list_for_run_def face_open_def run_approvals_def Let_def)

lemma set_run_approvals:
  "set (run_approvals run_id f) = {a \<in> aw_approval ` set (as_rows (af_store f)). ar_run_id a = run_id}"
  by (auto simp: run_approvals_def ordered_approvals_def)

lemma pending_ids_Nil: "pending_ids rows = [] \<longleftrightarrow> (\<forall>a\<in>set rows. ar_status a \<noteq> PENDING)"
  by (simp add: pending_ids_def filter_empty_conv)

definition gate_registers :: "research_program \<Rightarrow> approval_face \<Rightarrow> string \<Rightarrow> bool" where
  "gate_registers p f run_id =
     (af_writable f \<and> face_open f \<and> (\<forall>a\<in>set (run_approvals run_id f). ar_action a \<noteq> gate_action p))"

lemma register_declared_gate_eq:
  assumes "declared_gate_trigger p i verdicts \<noteq> None"
  shows "register_declared_gate p i (Some f) run_id verdicts uid now =
    (if gate_registers p f run_id
     then ((if uid = [] then None else Some uid, None),
           Some (f\<lparr>af_store := snd (ap_register (gate_spec p i run_id) uid now (af_store f))\<rparr>))
     else ((None, if \<not> af_writable f then Some RN_read_only
                  else if \<not> face_open f then Some (RN_query_failed closed_error) else None), Some f))"
  using assms
  by (auto simp: register_declared_gate_def open_write_face_def face_rows_eq gate_registers_def
      ap_register_def ap_replace_def face_open_def approval_of_spec_def)

lemma registered_approvals:
  assumes "face_open f" and "uid \<notin> aw_id ` set (as_rows (af_store f))" and "sp_run_id spec = run_id"
    and f': "f' = f\<lparr>af_store := snd (ap_register spec uid now (af_store f))\<rparr>"
  shows "face_open f'" and "af_writable f' = af_writable f"
    and "set (run_approvals run_id f') = insert (approval_of_spec spec uid) (set (run_approvals run_id f))"
proof -
  have reg: "snd (ap_register spec uid now (af_store f)) =
      log_ok ''replace'' uid ((af_store f)\<lparr>as_rows := as_rows (af_store f) @
        [\<lparr>aw_approval = approval_of_spec spec uid, aw_saved_at = now\<rparr>]\<rparr>)"
    using assms(1,2)
    by (simp add: ap_register_def ap_replace_def face_open_def approval_of_spec_def del_row_absent)
  show "face_open f'" "af_writable f' = af_writable f"
    using assms(1) by (simp_all add: f' reg face_open_def log_defs)
  show "set (run_approvals run_id f') = insert (approval_of_spec spec uid) (set (run_approvals run_id f))"
    using assms(3) by (auto simp: set_run_approvals f' reg log_defs approval_of_spec_def)
qed

definition approvals_fresh :: "string \<Rightarrow> approval_face option \<Rightarrow> bool" where
  "approvals_fresh uid approvals = (\<forall>f\<in>set_option approvals. uid \<notin> aw_id ` set (as_rows (af_store f)))"

lemma pending_after_registration:
  assumes "declared_gate_trigger p (index_or_0 lst) verdicts \<noteq> None" and "approvals_fresh uid approvals"
  shows "(declared_gate_pending p (index_or_0 lst)
            (snd (register_declared_gate p (index_or_0 lst) approvals (rr_id lst) verdicts uid now))
            (rr_id lst) verdicts clock = None) = gate_open p approvals (rr_id lst)"
proof (cases approvals)
  case None
  with assms(1) show ?thesis
    by (auto simp: register_declared_gate_def open_write_face_def declared_gate_pending_def gate_open_def)
next
  case (Some f)
  have verdict: "(declared_gate_pending p (index_or_0 lst) (Some g) (rr_id lst) verdicts clock = None) =
      (face_open g \<and> run_approvals (rr_id lst) g \<noteq> [] \<and>
       (\<forall>a\<in>set (run_approvals (rr_id lst) g). ar_status a \<noteq> PENDING))" for g
    using assms(1)
    by (auto simp: declared_gate_pending_def face_rows_eq pending_ids_Nil filter_empty_conv
        split: option.splits)
  show ?thesis
  proof (cases "gate_registers p f (rr_id lst)")
    case True
    have "uid \<notin> aw_id ` set (as_rows (af_store f))" using assms(2) Some by (simp add: approvals_fresh_def)
    from registered_approvals [OF _ this _ refl, of "gate_spec p (index_or_0 lst) (rr_id lst)" "rr_id lst" now]
    show ?thesis using True Some assms(1)
      by (auto simp: register_declared_gate_eq verdict gate_open_def gate_registers_def gate_spec_def
          approval_of_spec_def)
  next
    case False
    with Some assms(1) show ?thesis
      by (auto simp: register_declared_gate_eq verdict gate_open_def gate_registers_def)
  qed
qed

lemma gated_outcome_eq:
  "gated_outcome p lst approvals verdicts clock nudges uid saved =
     (let (registration, approvals') =
            register_declared_gate p (index_or_0 lst) approvals (rr_id lst) verdicts uid saved;
          delivery = \<lparr>nd_index = index_or_0 lst, nd_clock = clock, nd_nudges = nudges\<rparr>
      in case declared_gate_pending p (index_or_0 lst) approvals' (rr_id lst) verdicts clock of
           None \<Rightarrow> (None, approvals', [])
         | Some note \<Rightarrow>
             (let (nudge, sent) = deliver_nudge p lst delivery
              in (Some \<lparr>ev_kind = WAIT_FOR_APPROVAL, ev_reason = R_gate note (snd registration),
                     ev_cited_run_id = Some (rr_id lst),
                     ev_cited_facts = gate_facts p lst verdicts (fst registration) @
                       (case nudge of None \<Rightarrow> [] | Some n \<Rightarrow> [F_nudge n]),
                     ev_start_index = None\<rparr>, approvals', sent)))"
  by (simp add: gated_outcome_def gate_outcome_def declared_gate_evaluation_def gate_result_def
      declared_gate_verdict_def Let_def split: prod.splits option.splits)

definition gate_records :: "research_program \<Rightarrow> string \<Rightarrow> approval_face \<Rightarrow> approval_record set" where
  "gate_records p run_id f = {a \<in> set (run_approvals run_id f). ar_action a = gate_action p}"

lemma human_gate_is_exact_lemma:
  assumes "existing \<noteq> []" and "rr_is_terminal (last existing)" and "approvals_fresh uid approvals"
    and "verdicts = verdicts_of findings (rr_id (last existing))"
    and "declared_gate_trigger p (index_or_0 (last existing)) verdicts \<noteq> None"
    and "evaluate p existing findings decisions approvals clock nudges uid saved = (outcome, approvals', sent)"
  shows "(if gate_open p approvals (rr_id (last existing))
          then outcome = conclude p existing (last existing) verdicts decisions \<and> approvals' = approvals
          else \<exists>ev. outcome = Inr ev \<and> ev_kind ev = WAIT_FOR_APPROVAL \<and> ev_start_index ev = None) \<and>
    (\<forall>f. approvals = Some f \<and> af_writable f \<and> face_open f \<longrightarrow>
       (\<exists>f'. approvals' = Some f' \<and>
          gate_records p (rr_id (last existing)) f' =
            (if gate_records p (rr_id (last existing)) f = {}
             then {approval_of_spec (gate_spec p (index_or_0 (last existing)) (rr_id (last existing))) uid}
             else gate_records p (rr_id (last existing)) f)))"
proof -
  let ?l = "last existing"
  let ?reg = "register_declared_gate p (index_or_0 ?l) approvals (rr_id ?l) verdicts uid saved"
  let ?note = "declared_gate_pending p (index_or_0 ?l) (snd ?reg) (rr_id ?l) verdicts clock"
  have lifted: "(?note = None) = gate_open p approvals (rr_id ?l)"
    using assms(5,3) by (rule pending_after_registration)
  have approvals': "approvals' = snd ?reg"
    using assms(1,2,4,6) by (auto simp: evaluate_def gated_outcome_eq Let_def split: prod.splits option.splits)
  have same: "snd ?reg = approvals" if "gate_open p approvals (rr_id ?l)"
    using that assms(5) register_declared_gate_eq [OF assms(5)]
    by (cases approvals) (auto simp: gate_open_def gate_registers_def)
  have blocked: "\<exists>ev. outcome = Inr ev \<and> ev_kind ev = WAIT_FOR_APPROVAL \<and> ev_start_index ev = None"
    if "?note \<noteq> None"
    using that assms(1,2,4,6)
    by (auto simp: evaluate_def gated_outcome_eq Let_def split: prod.splits option.splits)
  have passed: "outcome = conclude p existing ?l verdicts decisions" if "?note = None"
    using that assms(1,2,4,6)
    by (auto simp: evaluate_def gated_outcome_eq Let_def split: prod.splits option.splits)
  have records: "\<exists>f'. approvals' = Some f' \<and> gate_records p (rr_id ?l) f' =
      (if gate_records p (rr_id ?l) f = {}
       then {approval_of_spec (gate_spec p (index_or_0 ?l) (rr_id ?l)) uid} else gate_records p (rr_id ?l) f)"
    if f: "approvals = Some f" "af_writable f" "face_open f" for f
  proof -
    have "uid \<notin> aw_id ` set (as_rows (af_store f))" using assms(3) f(1) by (simp add: approvals_fresh_def)
    note new = registered_approvals(3) [OF f(3) this _ refl, of "gate_spec p (index_or_0 ?l) (rr_id ?l)" "rr_id ?l" saved]
    show ?thesis
      using f new approvals' register_declared_gate_eq [OF assms(5), of f "rr_id ?l" uid saved]
      by (auto simp: gate_registers_def gate_records_def gate_spec_def approval_of_spec_def)
  qed
  show ?thesis using lifted same blocked passed records approvals' by auto
qed

text \<open>
  C17: a declared human gate holds the program exactly until a person has decided. After a
  finished round on which a declared gate triggers, the evaluation is a \<open>WAIT_FOR_APPROVAL\<close>
  that starts nothing unless the gate is open; when it is, the conclusion of the round is what
  it is without a gate. With a writable approval face the gate has its own pending record
  afterwards: the evaluation registers one if there was none and never a second.
\<close>

theorem human_gate_is_exact:
  assumes "existing \<noteq> []" and "rr_is_terminal (last existing)" and "approvals_fresh uid approvals"
    and "verdicts = verdicts_of findings (rr_id (last existing))"
    and "declared_gate_trigger p (index_or_0 (last existing)) verdicts \<noteq> None"
    and "evaluate p existing findings decisions approvals clock nudges uid saved = (outcome, approvals', sent)"
  shows "(if gate_open p approvals (rr_id (last existing))
          then outcome = conclude p existing (last existing) verdicts decisions \<and> approvals' = approvals
          else \<exists>ev. outcome = Inr ev \<and> ev_kind ev = WAIT_FOR_APPROVAL \<and> ev_start_index ev = None) \<and>
    (\<forall>f. approvals = Some f \<and> af_writable f \<and> face_open f \<longrightarrow>
       (\<exists>f'. approvals' = Some f' \<and>
          gate_records p (rr_id (last existing)) f' =
            (if gate_records p (rr_id (last existing)) f = {}
             then {approval_of_spec (gate_spec p (index_or_0 (last existing)) (rr_id (last existing))) uid}
             else gate_records p (rr_id (last existing)) f)))"
  using assms by (rule human_gate_is_exact_lemma)

section \<open>Decisions and rounds\<close>

lemma valid_program_id: "valid_program p \<Longrightarrow> rp_id p \<noteq> []"
  by (auto simp: valid_program_def program_post_init_def first_error_ok_iff simp del: first_error.simps)

lemma valid_last_run:
  assumes "runs_ok runs" and "for_program pid runs \<noteq> []"
  shows "1 \<le> index_or_0 (last (for_program pid runs))" and "last (for_program pid runs) \<in> set runs"
proof -
  have l: "last (for_program pid runs) \<in> set runs" "rr_program_id (last (for_program pid runs)) = Some pid"
    using last_in_set [OF assms(2)] set_for_program by blast+
  then have "valid_run (last (for_program pid runs))" using assms(1) by (simp add: runs_ok_def)
  with l show "1 \<le> index_or_0 (last (for_program pid runs))" "last (for_program pid runs) \<in> set runs"
    by (auto simp: valid_run_iff index_or_0_def split: option.splits)
qed

text \<open>
  C18: every advance leaves exactly one decision, unless the start it asks for raises. On an open
  store an advance of a valid program at a time the store can write either returns, appends its
  decision after all earlier ones of the program, loses and changes none of them, leaves the
  decisions of other programs alone, and keeps the times of the decisions strictly increasing, even
  when the clock stands still or runs backwards; or it comes to a round to start, the starting face
  raises for that round, the advance raises the same error, and the store of the programs is as it
  was: no decision tells of the attempt.
\<close>

theorem every_advance_leaves_one_decision:
  assumes "valid_program p" and "store_ok (w_programs w)" and "runs_ok runs" and "0 \<le> now" and "now \<le> max_us"
  shows "(\<exists>a w'. advance_program p runs findings start_run clock nudges uid saved now w = (Inr a, w') \<and>
      decisions_in (rp_id p) (w_programs w') = decisions_in (rp_id p) (w_programs w) @ [pa_decision a] \<and>
      (\<forall>pid. pid \<noteq> rp_id p \<longrightarrow> decisions_in pid (w_programs w') = decisions_in pid (w_programs w)) \<and>
      (\<forall>pid. sorted_wrt (<) (map pd_decided_at (decisions_in pid (w_programs w))) \<longrightarrow>
         sorted_wrt (<) (map pd_decided_at (decisions_in pid (w_programs w'))))) \<or>
    (\<exists>f i e w'. start_run = Some f \<and> f i = Inl e \<and>
      advance_program p runs findings start_run clock nudges uid saved now w = (Inl e, w') \<and>
      w_programs w' = w_programs w)"
proof -
  obtain ev approvals' sent where ev: "evaluate p (for_program (rp_id p) runs) findings
      (Inr (decisions_in (rp_id p) (w_programs w))) (w_approvals w) clock nudges uid saved =
      (Inr ev, approvals', sent)"
    using evaluate_total by (metis surj_pair)
  show ?thesis
  proof (cases "\<exists>i f e. ev_start_index ev = Some i \<and> start_run = Some f \<and> f i = Inl e")
    case True
    then obtain i f e where "ev_start_index ev = Some i" "start_run = Some f" "f i = Inl e" by blast
    with advance_raises [OF assms(2) ev this] show ?thesis by (intro disjI2) auto
  next
    case False
    then have "\<forall>i f. ev_start_index ev = Some i \<longrightarrow> start_run = Some f \<longrightarrow> is_ok (f i)"
      by (metis is_ok_simps(2) old.sum.exhaust)
    from advance_records_of [OF assms(2) valid_program_id [OF assms(1)] assms(3-5) ev this]
    show ?thesis by (intro disjI1) metis
  qed
qed

lemma evaluate_start_causes:
  assumes "evaluate p existing findings (Inr ds) approvals clock nudges uid saved = (Inr ev, eff)"
    and "ev_start_index ev = Some i"
    and "\<forall>r\<in>set existing. index_or_0 r \<le> rp_max_runs p" and "1 \<le> rp_max_runs p"
    and "existing \<noteq> [] \<Longrightarrow> 1 \<le> index_or_0 (last existing)"
  shows "1 \<le> i \<and> i \<le> rp_max_runs p \<and>
    (existing = [] \<and> ev_kind ev = START \<and> i = 1 \<or>
     existing \<noteq> [] \<and> ev_kind ev = RETRY_FAILED_RUN \<and> rr_state (last existing) = R_FAILED \<and>
       i = index_or_0 (last existing) \<or>
     existing \<noteq> [] \<and> ev_kind ev = CONTINUE \<and> rr_state (last existing) = R_SUCCEEDED \<and>
       i = index_or_0 (last existing) + 1 \<and>
       set (verdicts_of findings (rr_id (last existing))) \<inter> set (verdict_in (rp_continue_rule p)) \<noteq> {})"
  using assms(1)
proof (cases rule: evaluate_cases)
  case open_gate
  have "rr_state (last existing) \<in> {R_SUCCEEDED, R_FAILED, R_CANCELLED}"
    using open_gate(2) by (auto simp: rr_is_terminal_def run_terminal_def is_terminal_def)
  then consider "rr_state (last existing) = R_SUCCEEDED" | "rr_state (last existing) = R_FAILED"
    | "rr_state (last existing) = R_CANCELLED" by blast
  then show ?thesis
  proof cases
    case 2
    with conclude_cases [OF open_gate(4)] have
      "ev = failed_round p existing (last existing) (index_or_0 (last existing)) ds" by auto
    from failed_round_kinds(3) [OF this [symmetric]] show ?thesis
      using open_gate(1) assms(2,3,5) 2 by (auto split: if_splits)
  qed (use conclude_cases [OF open_gate(4)] open_gate(1) assms(2,5) in auto)
qed (use assms in auto)

text \<open>
  C19: a round starts only for a cause, and never beyond the bound. When an advance starts a
  run, the starting face was called with one index between 1 and \<open>max_runs\<close>: the first round
  of a program without runs, the same round again after a failure, or the next round after a
  success whose recorded verdicts meet the rule. The decision cites the started run.
\<close>

theorem rounds_start_only_for_cause:
  assumes "valid_program p" and "store_ok (w_programs w)" and "runs_ok runs" and "starts_ok start_run"
    and "0 \<le> now" and "now \<le> max_us" and "existing = for_program (rp_id p) runs"
    and "\<forall>r\<in>set existing. index_or_0 r \<le> rp_max_runs p"
    and "advance_program p runs findings start_run clock nudges uid saved now w = (Inr a, w')"
    and "pa_started_run_id a = Some c"
  shows "\<exists>f i. start_run = Some f \<and> f i = Inr c \<and> 1 \<le> i \<and> i \<le> rp_max_runs p \<and>
    pd_cited_run_id (pa_decision a) = Some c \<and>
    (existing = [] \<and> pd_kind (pa_decision a) = START \<and> i = 1 \<or>
     existing \<noteq> [] \<and> pd_kind (pa_decision a) = RETRY_FAILED_RUN \<and> rr_state (last existing) = R_FAILED \<and>
       i = index_or_0 (last existing) \<or>
     existing \<noteq> [] \<and> pd_kind (pa_decision a) = CONTINUE \<and> rr_state (last existing) = R_SUCCEEDED \<and>
       i = index_or_0 (last existing) + 1 \<and>
       set (verdicts_of findings (rr_id (last existing))) \<inter> set (verdict_in (rp_continue_rule p)) \<noteq> {})"
proof -
  from advance_records [OF assms(2) valid_program_id [OF assms(1)] assms(3-6)] assms(9) obtain ev eff t where
    ev: "evaluate p existing findings (Inr (decisions_in (rp_id p) (w_programs w))) (w_approvals w) clock
           nudges uid saved = (Inr ev, eff)"
    and d: "pa_decision a = decision_of p start_run (after_index_of existing) ev t"
    and s: "pa_started_run_id a = started_by start_run ev"
    unfolding assms(7) by (metis Inr_inject prod.inject)
  from s assms(10) obtain f i where fi: "start_run = Some f" "ev_start_index ev = Some i" "c = projr (f i)"
    by (auto simp: started_by_def split: option.splits)
  moreover have "is_ok (f i)" using assms(4) fi(1) by (simp add: starts_ok_def)
  ultimately have "f i = Inr c" by (cases "f i") auto
  moreover have "existing \<noteq> [] \<Longrightarrow> 1 \<le> index_or_0 (last existing)"
    using valid_last_run(1) [OF assms(3)] assms(7) by blast
  note evaluate_start_causes [OF ev fi(2) assms(8) valid_program_bounds(1) [OF assms(1)] this]
  ultimately show ?thesis using fi d by (auto simp: decision_of_def)
qed

section \<open>Where the advance departs from its description\<close>

text \<open>
  A denial lifts the gate. When the gate's own record is the run's only approval record
  and a person has decided it, the evaluation goes on to the conclusion of the round, whether
  the decision was to approve or to deny.
\<close>

theorem denied_gate_lets_the_program_on:
  assumes "existing \<noteq> []" and "rr_is_terminal (last existing)" and "approvals_fresh uid (Some f)"
    and "face_open f"
    and "run_approvals (rr_id (last existing)) f = [with_decision rec verdict_given v]"
    and "ar_action rec = gate_action p"
    and "declared_gate_trigger p (index_or_0 (last existing))
           (verdicts_of findings (rr_id (last existing))) \<noteq> None"
  shows "fst (evaluate p existing findings decisions (Some f) clock nudges uid saved) =
    conclude p existing (last existing) (verdicts_of findings (rr_id (last existing))) decisions"
proof -
  have "gate_open p (Some f) (rr_id (last existing))"
    using assms(4-6) by (auto simp: gate_open_def with_decision_def PENDING_def)
  with human_gate_is_exact_lemma [OF assms(1-3) refl assms(7)] show ?thesis by (metis prod.collapse)
qed

text \<open>
  The protection against a lost claim holds for one advance. When the newest decision
  after a successful round is a \<open>CONTINUE\<close> whose run has not landed, the next evaluation is a
  \<open>DEDUP\<close> that starts nothing; but once that \<open>DEDUP\<close> is recorded, the evaluation after it is a
  \<open>CONTINUE\<close> again and asks for a second run of the same index.
\<close>

theorem dedup_holds_for_one_advance:
  assumes "index_or_0 lst < rp_max_runs p" and "hit \<noteq> []"
    and "pd_kind d = CONTINUE" and "pd_after_index d = index_or_0 lst" and "pd_cited_run_id d = Some c"
    and "c \<noteq> []" and "c \<notin> rr_id ` set existing"
    and "pd_kind dd = DEDUP" and "pd_after_index dd = index_or_0 lst"
  shows "(\<exists>ev. after_hit p existing lst hit (Inr (ds @ [d])) = Inr ev \<and> ev_kind ev = DEDUP \<and>
            ev_start_index ev = None \<and> ev_cited_run_id ev = Some c) \<and>
         (\<exists>ev. after_hit p existing lst hit (Inr (ds @ [d, dd])) = Inr ev \<and> ev_kind ev = CONTINUE \<and>
            ev_start_index ev = Some (index_or_0 lst + 1))"
proof -
  have "claimed_id d = Some c" using assms(5,6) by (rule claimed_id_Some)
  then have "claimed_but_missing (ds @ [d]) (index_or_0 lst) (map rr_id existing) = Some c"
    using assms by (simp add: claimed_but_missing_def)
  moreover have "claimed_but_missing (ds @ [d, dd]) (index_or_0 lst) (map rr_id existing) = None"
    using assms by (simp add: claimed_but_missing_def split: option.splits)
  ultimately show ?thesis using assms(1) by (simp add: after_hit_def Let_def)
qed

lemma last_sort_key_max:
  assumes "x \<in> set xs" and "\<And>y. y \<in> set xs \<Longrightarrow> y \<noteq> x \<Longrightarrow> k y < (k x :: 'k::linorder)"
  shows "last (sort_key k xs) = x"
proof -
  obtain zs z where zs: "sort_key k xs = zs @ [z]"
    using assms(1) length_sort [of k xs] by (cases "sort_key k xs" rule: rev_cases) auto
  have mem: "set xs = insert z (set zs)" using set_sort [of k xs] unfolding zs by simp
  have "sorted (map k zs @ [k z])" using sorted_sort_key [of k xs] zs by simp
  then have "k x \<le> k z" using assms(1) mem by (auto simp: sorted_append)
  then have "z = x" using assms(2) [of z] mem by fastforce
  then show ?thesis unfolding zs by simp
qed

text \<open>
  Of several attempts of one round, the one judged is the one whose run identifier sorts
  last, not the one that ran last. When the failed attempt sorts after all others of the
  newest round, a successful retry of that round is ignored: the program never continues from
  it, whatever its verdicts are.
\<close>

theorem judged_attempt_is_the_last_by_identifier:
  assumes "failed \<in> set runs" and "rr_program_id failed = Some (rp_id p)" and "rr_state failed = R_FAILED"
    and "\<And>r. r \<in> set runs \<Longrightarrow> rr_program_id r = Some (rp_id p) \<Longrightarrow> r \<noteq> failed \<Longrightarrow> run_order r < run_order failed"
    and "evaluate p (for_program (rp_id p) runs) findings (Inr ds) approvals clock nudges uid saved = (Inr ev, eff)"
  shows "ev_kind ev \<in> {WAIT_FOR_APPROVAL, STOP_RUN_FAILED, DEDUP_FAILED_RUN, RETRY_FAILED_RUN}"
proof -
  have l: "last (for_program (rp_id p) runs) = failed"
    unfolding for_program_def using assms(1,2,4) by (intro last_sort_key_max) auto
  have ne: "for_program (rp_id p) runs \<noteq> []"
    using assms(1,2) set_for_program [of "rp_id p" runs] by (metis (mono_tags, lifting) empty_iff list.set(1) mem_Collect_eq)
  have fin: "rr_is_terminal failed" using assms(3) by (simp add: rr_is_terminal_def run_terminal_def is_terminal_def)
  from assms(5) show ?thesis
  proof (cases rule: evaluate_cases)
    case open_gate
    with conclude_cases [OF open_gate(4)] l assms(3) failed_round_kinds(1) [OF refl] show ?thesis by auto
  qed (use l ne fin in auto)
qed

section \<open>The program store\<close>

text \<open>
  A program is read back as it was declared, and a declaration is never overwritten.
  Creating a valid program in an open store without one of that identifier and getting it
  returns the very same program; a second creation under the same identifier changes nothing.
\<close>

theorem program_store_round_trip:
  assumes "valid_program p" and "\<not> ab_closed st" and "rp_id p \<notin> pr_program_id ` set (ps_programs st)"
    and "ps_create p st = (r, st1)" and "rp_id q = rp_id p" and "ps_create q st1 = (r', st2)"
  shows "r = Inr () \<and> fst (ps_get (rp_id p) st1) = Inr p \<and> r' = Inr () \<and>
    fst (ps_get (rp_id p) st2) = Inr p \<and> ps_programs st2 = ps_programs st1"
proof -
  have none: "row_of pr_program_id (rp_id p) (ps_programs st) = None"
    using assms(3) by (simp add: row_of_None_iff)
  have id: "pr_program_id (encode_program p) = rp_id p" by (simp add: encode_program_def)
  have st1: "ps_programs st1 = ps_programs st @ [encode_program p]" "\<not> ab_closed st1" "r = Inr ()"
    using assms(2-4) by (auto simp: ps_create_def log_defs Let_def)
  then have st2: "ps_programs st2 = ps_programs st1" "\<not> ab_closed st2" "r' = Inr ()"
    using assms(5,6) id by (auto simp: ps_create_def log_defs Let_def)
  have "row_of pr_program_id (rp_id p) (ps_programs st1) = Some (encode_program p)"
    using st1 none id by (simp add: row_of_append row_of_Cons)
  with st1 st2 show ?thesis by (simp add: ps_get_def decode_encode_program [OF assms(1)])
qed

section \<open>Witnesses\<close>

definition demo_program :: research_program where
  "demo_program = \<lparr>rp_id = ''prog'', rp_project_id = ''proj'', rp_protocol_id = ''proto'', rp_max_runs = 3,
     rp_continue_rule = \<lparr>verdict_in = [''PASS'']\<rparr>, rp_max_attempts_per_index = 2, rp_gate_at_index = Some 1,
     rp_gate_on_verdicts = None, rp_gate_at_indexes = None, rp_nudge_after_seconds = Some 60,
     rp_gate_hybrid = None, rp_created_at = 10, rp_updated_at = 10\<rparr>"

definition demo_ungated :: research_program where
  "demo_ungated = demo_program\<lparr>rp_gate_at_index := None\<rparr>"

definition demo_done :: research_run where
  "demo_done = demo_run\<lparr>rr_state := R_SUCCEEDED\<rparr>"

definition demo_broken :: research_run where
  "demo_broken = demo_run\<lparr>rr_state := R_FAILED\<rparr>"

definition demo_findings :: "finding_row list" where
  "demo_findings = [\<lparr>fr_id = ''f1'', fr_run_id = ''run-1'', fr_verdict = ''PASS''\<rparr>]"

definition demo_programs :: program_store where
  "demo_programs = \<lparr>ab_closed = False, ab_calls = [], ps_programs = [], ps_decisions = []\<rparr>"

definition demo_face :: approval_face where
  "demo_face = \<lparr>af_writable = True, af_store = \<lparr>ab_closed = False, ab_calls = [], as_rows = []\<rparr>\<rparr>"

definition demo_world :: world where
  "demo_world = \<lparr>w_programs = demo_programs, w_approvals = Some demo_face, w_sent = []\<rparr>"

definition demo_start :: "int \<Rightarrow> string res" where
  "demo_start i = Inr ''run-2''"

lemmas demo_program_defs = demo_program_def demo_ungated_def demo_done_def demo_broken_def demo_run_def
  demo_programs_def demo_face_def demo_world_def demo_start_def demo_findings_def

lemma valid_demo_program: "valid_program demo_program" "valid_program demo_ungated"
  by (simp_all add: demo_program_defs valid_program_def program_post_init_def validate_gate_declarations_def
      validate_single_point_gate_def validate_nudge_bound_def validate_condition_gate_def
      validate_multi_point_gate_def validate_hybrid_gate_def validate_gate_exclusivity_def declared_forms_def
      in_rounds_def continue_rule_post_init_def)

lemma demo_ready:
  "store_ok (w_programs demo_world)" "starts_ok (Some demo_start)" "runs_ok [demo_broken]" "runs_ok [demo_done]"
  "starts_fresh (Some demo_start) []" "decisions_in pid (w_programs demo_world) = []"
  by (simp_all add: demo_program_defs store_ok_def starts_ok_def runs_ok_def valid_run_iff starts_fresh_def
      claimed_ids_def decisions_in_def ordered_decisions_def)

lemma demo_for_program:
  "for_program ''prog'' [demo_broken] = [demo_broken]" "for_program ''prog'' [demo_done] = [demo_done]"
  "rp_id demo_program = ''prog''" "rp_id demo_ungated = ''prog''" "rr_id demo_done = ''run-1''"
  "index_or_0 demo_done = 1" "rr_is_terminal demo_done" "rr_state demo_done = R_SUCCEEDED"
  "rr_id demo_broken = ''run-1''" "index_or_0 demo_broken = 1" "rr_is_terminal demo_broken"
  by (simp_all add: for_program_def demo_program_defs index_or_0_def rr_is_terminal_def run_terminal_def
      is_terminal_def)

lemma demo_bounds: "rp_id demo_ungated \<noteq> []" "0 \<le> (7::int)" "7 \<le> max_us"
  by (simp_all add: demo_for_program max_us_def second_us_def)

lemma demo_verdicts: "verdicts_of (Some demo_findings) ''run-1'' = [''PASS'']"
  by (simp add: verdicts_of_def findings_for_run_def demo_findings_def)

theorem every_advance_leaves_one_decision_witness:
  "\<exists>a w'. advance_program demo_ungated [demo_done] (Some demo_findings) (Some demo_start) None None [] 0 7
     demo_world = (Inr a, w') \<and> decisions_in ''prog'' (w_programs w') = [pa_decision a]"
proof -
  obtain a w' where adv: "advance_program demo_ungated [demo_done] (Some demo_findings) (Some demo_start) None
      None [] 0 7 demo_world = (Inr a, w')"
    and dec: "decisions_in (rp_id demo_ungated) (w_programs w') =
      decisions_in (rp_id demo_ungated) (w_programs demo_world) @ [pa_decision a]"
    using every_advance_leaves_one_decision [OF valid_demo_program(2) demo_ready(1,4), of 7
        "Some demo_findings" "Some demo_start" None None "[]" 0] by (auto simp: max_us_def second_us_def demo_start_def)
  have "decisions_in ''prog'' (w_programs w') = [pa_decision a]"
    using dec by (simp only: demo_for_program demo_ready(6) append_Nil)
  with adv show ?thesis by blast
qed

lemma demo_continue:
  obtains a w' where "advance_program demo_ungated [demo_done] (Some demo_findings) (Some demo_start) None None [] 0 7
     demo_world = (Inr a, w')" "pa_started_run_id a = Some ''run-2''"
proof -
  obtain ev eff t a w' where
    ev: "evaluate demo_ungated (for_program (rp_id demo_ungated) [demo_done]) (Some demo_findings)
       (Inr (decisions_in (rp_id demo_ungated) (w_programs demo_world))) (w_approvals demo_world) None None [] 0 =
       (Inr ev, eff)"
    and adv: "advance_program demo_ungated [demo_done] (Some demo_findings) (Some demo_start) None None [] 0 7
       demo_world = (Inr a, w')"
    and st: "pa_started_run_id a = started_by (Some demo_start) ev"
    by (rule advance_records [OF demo_ready(1) demo_bounds(1) demo_ready(4,2) demo_bounds(2,3),
          of "Some demo_findings" None None "[]" 0]) blast
  have "ev_start_index ev = Some 2" using ev
    by (simp add: demo_for_program demo_ready evaluate_def demo_verdicts gated_outcome_eq
        register_declared_gate_def declared_gate_pending_def declared_gate_trigger_def)
      (auto simp: demo_ungated_def demo_program_def conclude_def after_hit_def claimed_but_missing_def
        demo_for_program)
  with adv st that show ?thesis by (simp add: started_by_def demo_start_def)
qed

theorem rounds_start_only_for_cause_witness:
  "\<exists>f i. Some demo_start = Some f \<and> f i = Inr ''run-2'' \<and> 1 \<le> i \<and> i \<le> 3 \<and> i = 2"
proof -
  obtain a w' where adv: "advance_program demo_ungated [demo_done] (Some demo_findings) (Some demo_start) None None
      [] 0 7 demo_world = (Inr a, w')" and s: "pa_started_run_id a = Some ''run-2''" by (rule demo_continue)
  from rounds_start_only_for_cause [OF valid_demo_program(2) demo_ready(1,4,2) _ _ refl _ adv s] show ?thesis
    by (auto simp: demo_for_program max_us_def second_us_def) (auto simp: demo_ungated_def demo_program_def)
qed

theorem retries_are_bounded_witness:
  "\<exists>w. program_history demo_ungated w \<and> decisions_in ''prog'' (w_programs w) \<noteq> [] \<and>
     int (length (filter (\<lambda>d. pd_after_index d = 1 \<and> pd_kind d \<in> set RETRY_CLAIM_KINDS)
        (decisions_in ''prog'' (w_programs w)))) \<le> 2"
proof -
  obtain a w' where adv: "advance_program demo_ungated [demo_broken] (Some demo_findings) (Some demo_start) None None
      [] 0 7 demo_world = (Inr a, w')"
    and dec: "decisions_in (rp_id demo_ungated) (w_programs w') =
      decisions_in (rp_id demo_ungated) (w_programs demo_world) @ [pa_decision a]"
    by (rule advance_records [OF demo_ready(1) demo_bounds(1) demo_ready(3,2) demo_bounds(2,3),
          of "Some demo_findings" None None "[]" 0]) blast
  have start: "program_history demo_ungated demo_world" by (rule program_history.fresh) (simp add: demo_ready)
  have "program_history demo_ungated w'"
    using program_history.advance [OF start demo_ready(1,3) _ _ _ adv] demo_ready
    by (simp add: max_us_def second_us_def)
  from retries_are_bounded [OF valid_demo_program(2) this, of 1] this dec show ?thesis
    by (auto simp: demo_for_program demo_ready)
qed

lemma demo_trigger: "declared_gate_trigger demo_program 1 vs = Some (GT_at_index 1 1)"
  by (simp add: declared_gate_trigger_def demo_program_def)

theorem human_gate_is_exact_witness:
  "\<exists>ev. fst (evaluate demo_program [demo_done] (Some demo_findings) (Inr []) (Some demo_face) None None ''u'' 5) =
     Inr ev \<and> ev_kind ev = WAIT_FOR_APPROVAL \<and> ev_start_index ev = None"
proof -
  obtain outcome approvals' sent where e: "evaluate demo_program [demo_done] (Some demo_findings) (Inr [])
      (Some demo_face) None None ''u'' 5 = (outcome, approvals', sent)" by (metis surj_pair)
  have closed: "\<not> gate_open demo_program (Some demo_face) ''run-1''"
    by (simp add: gate_open_def demo_face_def run_approvals_def ordered_approvals_def)
  from human_gate_is_exact [OF _ _ _ refl _ e] closed e show ?thesis
    by (auto simp: demo_for_program demo_trigger approvals_fresh_def) (auto simp: demo_face_def)
qed

definition demo_record :: approval_record where
  "demo_record = approval_of_spec (gate_spec demo_program 1 ''run-1'') ''u''"

definition demo_denied :: approval_face where
  "demo_denied = demo_face\<lparr>af_store := \<lparr>ab_closed = False, ab_calls = [],
     as_rows = [\<lparr>aw_approval = with_decision demo_record ''deny'' ''v'', aw_saved_at = 9\<rparr>]\<rparr>\<rparr>"

theorem denied_gate_lets_the_program_on_witness:
  "fst (evaluate demo_program [demo_done] (Some demo_findings) (Inr []) (Some demo_denied) None None ''w'' 11) =
     conclude demo_program [demo_done] demo_done [''PASS''] (Inr []) \<and>
   ar_status (with_decision demo_record ''deny'' ''v'') = ''DENIED''"
proof -
  have "run_approvals ''run-1'' demo_denied = [with_decision demo_record ''deny'' ''v'']"
    by (simp add: run_approvals_def ordered_approvals_def demo_denied_def demo_record_def with_decision_def
        approval_of_spec_def gate_spec_def)
  moreover have "face_open demo_denied" "approvals_fresh ''w'' (Some demo_denied)"
    by (simp_all add: face_open_def approvals_fresh_def demo_denied_def aw_id_def with_decision_def demo_record_def
        approval_of_spec_def)
  moreover have "ar_action demo_record = gate_action demo_program"
    by (simp add: demo_record_def approval_of_spec_def gate_spec_def)
  ultimately show ?thesis
    using denied_gate_lets_the_program_on [of "[demo_done]" "''w''" demo_denied demo_record "''deny''" "''v''" demo_program
        "Some demo_findings" "Inr []" None None 11]
    by (simp add: demo_for_program demo_trigger demo_verdicts) (simp add: with_decision_def)
qed

definition demo_claim :: "decision_kind \<Rightarrow> program_decision" where
  "demo_claim k = \<lparr>pd_program_id = ''prog'', pd_after_index = 1, pd_kind = k, pd_reason = R_start 3,
     pd_cited_run_id = Some ''run-2'', pd_cited_facts = [], pd_decided_at = 20\<rparr>"

theorem dedup_holds_for_one_advance_witness:
  "\<exists>ev. after_hit demo_program [demo_done] demo_done [''PASS''] (Inr [demo_claim CONTINUE, demo_claim DEDUP]) = Inr ev \<and>
     ev_kind ev = CONTINUE \<and> ev_start_index ev = Some 2"
  using dedup_holds_for_one_advance [of demo_done demo_program "[''PASS'']" "demo_claim CONTINUE" "''run-2''"
      "[demo_done]" "demo_claim DEDUP" "[]"]
  by (auto simp: demo_for_program demo_claim_def) (auto simp: demo_program_def)

theorem judged_attempt_is_the_last_by_identifier_witness:
  "\<exists>ev eff. evaluate demo_ungated (for_program ''prog'' [demo_broken, demo_done\<lparr>rr_id := ''run-0''\<rparr>])
      (Some [\<lparr>fr_id = ''f1'', fr_run_id = ''run-0'', fr_verdict = ''PASS''\<rparr>]) (Inr []) None None None [] 0 = (Inr ev, eff) \<and>
      ev_kind ev \<in> {WAIT_FOR_APPROVAL, STOP_RUN_FAILED, DEDUP_FAILED_RUN, RETRY_FAILED_RUN}"
proof -
  let ?runs = "[demo_broken, demo_done\<lparr>rr_id := ''run-0''\<rparr>]"
  let ?fs = "Some [\<lparr>fr_id = ''f1'', fr_run_id = ''run-0'', fr_verdict = ''PASS''\<rparr>]"
  obtain ev eff where e: "evaluate demo_ungated (for_program (rp_id demo_ungated) ?runs) ?fs (Inr []) None None None [] 0 =
      (Inr ev, eff)" using evaluate_total by blast
  have "run_order (demo_done\<lparr>rr_id := ''run-0''\<rparr>) < run_order demo_broken"
    by (simp add: run_order_def demo_program_defs less_char_def)
  then have "ev_kind ev \<in> {WAIT_FOR_APPROVAL, STOP_RUN_FAILED, DEDUP_FAILED_RUN, RETRY_FAILED_RUN}"
    by (intro judged_attempt_is_the_last_by_identifier [OF _ _ _ _ e, of demo_broken])
      (auto simp: demo_program_defs)
  with e show ?thesis by (auto simp: demo_for_program)
qed

theorem program_store_round_trip_witness:
  "fst (ps_get ''prog'' (snd (ps_create demo_program demo_programs))) = Inr demo_program"
  using program_store_round_trip [OF valid_demo_program(1), of demo_programs
      "fst (ps_create demo_program demo_programs)" "snd (ps_create demo_program demo_programs)" demo_ungated
      "fst (ps_create demo_ungated (snd (ps_create demo_program demo_programs)))"
      "snd (ps_create demo_ungated (snd (ps_create demo_program demo_programs)))"]
  by (simp add: demo_for_program) (simp add: demo_programs_def)

end
