(* ===== verification/Policy.thy ===== *)
theory Policy
  imports Prelude
begin

text \<open>
  Policies (\<^verbatim>\<open>packages/domain/policy.py\<close>), the request and the evaluation of the port
  \<^verbatim>\<open>packages/application/ports/policy_evaluator.py\<close> and the native evaluator
  (\<^verbatim>\<open>packages/application/policy/native.py\<close>). The constraints of a rule are an uninterpreted
  dictionary of texts. The locale \<open>policy_evaluator\<close> is what a client may rely on of the port:
  the classes of rules are consulted from the strictest to the most permissive.
\<close>

datatype policy_decision = ALLOW | DENY | REQUIRE_APPROVAL | ALLOW_WITH_CONSTRAINTS

record policy_rule =
  pl_capability :: "string option"
  pl_action :: "string option"
  pl_scope :: "string option"
  pl_constraints :: "(string \<times> string) list"

definition falsy :: "string option \<Rightarrow> bool" where
  "falsy x = (x = None \<or> x = Some [])"

definition policy_rule_post_init :: "policy_rule \<Rightarrow> policy_rule res" where
  "policy_rule_post_init r = first_error
     [(falsy (pl_capability r) \<and> falsy (pl_action r), ''policy rule must declare capability or action''),
      (pl_capability r = Some [], ''policy capability must not be empty''),
      (pl_action r = Some [], ''policy action must not be empty'')] r"

definition rule_matches :: "policy_rule \<Rightarrow> string \<Rightarrow> string option \<Rightarrow> string option \<Rightarrow> bool" where
  "rule_matches r capability action scope =
     ((pl_capability r = None \<or> pl_capability r = Some capability) \<and>
      (pl_action r = None \<or> pl_action r = action) \<and>
      (pl_scope r = None \<or> pl_scope r = scope))"

record policy_definition =
  po_id :: string
  po_version :: string
  po_default_effect :: policy_decision
  po_allow :: "policy_rule list"
  po_allow_with_constraints :: "policy_rule list"
  po_require_approval :: "policy_rule list"
  po_deny :: "policy_rule list"

definition policy_definition_post_init :: "policy_definition \<Rightarrow> policy_definition res" where
  "policy_definition_post_init p = first_error [(po_id p = [], ''policy id must not be empty'')] p"

record policy_request =
  pq_actor :: string
  pq_capability :: string
  pq_action :: "string option"
  pq_scope :: "string option"
  pq_resource :: "string option"

definition policy_request_post_init :: "policy_request \<Rightarrow> policy_request res" where
  "policy_request_post_init q = first_error
     [(pq_actor q = [], ''policy actor must not be empty''),
      (pq_capability q = [], ''policy capability must not be empty'')] q"

record policy_evaluation =
  pe_decision :: policy_decision
  pe_constraints :: "(string \<times> string) list"
  pe_reason :: string

definition matching :: "policy_rule list \<Rightarrow> policy_request \<Rightarrow> policy_rule option" where
  "matching rules q = find (\<lambda>r. rule_matches r (pq_capability q) (pq_action q) (pq_scope q)) rules"

definition policy_evaluate :: "policy_definition \<Rightarrow> policy_request \<Rightarrow> policy_evaluation" where
  "policy_evaluate p q =
     (case matching (po_deny p) q of
        Some _ \<Rightarrow> \<lparr>pe_decision = DENY, pe_constraints = [], pe_reason = ''matched deny rule''\<rparr>
      | None \<Rightarrow>
     (case matching (po_require_approval p) q of
        Some _ \<Rightarrow> \<lparr>pe_decision = REQUIRE_APPROVAL, pe_constraints = [], pe_reason = ''matched approval rule''\<rparr>
      | None \<Rightarrow>
     (case matching (po_allow_with_constraints p) q of
        Some r \<Rightarrow> \<lparr>pe_decision = ALLOW_WITH_CONSTRAINTS, pe_constraints = pl_constraints r,
                   pe_reason = ''matched constrained allow rule''\<rparr>
      | None \<Rightarrow>
     (case matching (po_allow p) q of
        Some _ \<Rightarrow> \<lparr>pe_decision = ALLOW, pe_constraints = [], pe_reason = ''matched allow rule''\<rparr>
      | None \<Rightarrow> \<lparr>pe_decision = po_default_effect p, pe_constraints = [],
                 pe_reason = ''used default policy effect''\<rparr>))))"

section \<open>The evaluator as an interface\<close>

text \<open>How permissive a decision is; a policy is tightened by adding rules to its stricter classes.\<close>

definition permissiveness :: "policy_decision \<Rightarrow> nat" where
  "permissiveness d =
     (case d of DENY \<Rightarrow> 0 | REQUIRE_APPROVAL \<Rightarrow> 1 | ALLOW_WITH_CONSTRAINTS \<Rightarrow> 2 | ALLOW \<Rightarrow> 3)"

definition permits :: "policy_decision \<Rightarrow> bool" where
  "permits d = (d = ALLOW \<or> d = ALLOW_WITH_CONSTRAINTS)"

definition some_match :: "policy_rule list \<Rightarrow> policy_request \<Rightarrow> bool" where
  "some_match rules q = (\<exists>r\<in>set rules. rule_matches r (pq_capability q) (pq_action q) (pq_scope q))"

definition class_of :: "policy_decision \<Rightarrow> policy_definition \<Rightarrow> policy_rule list" where
  "class_of d p =
     (case d of DENY \<Rightarrow> po_deny p | REQUIRE_APPROVAL \<Rightarrow> po_require_approval p
      | ALLOW_WITH_CONSTRAINTS \<Rightarrow> po_allow_with_constraints p | ALLOW \<Rightarrow> po_allow p)"

locale policy_evaluator =
  fixes decide :: "policy_definition \<Rightarrow> policy_request \<Rightarrow> policy_decision"
  assumes decides_strictest:
    "some_match (class_of d p) q \<Longrightarrow> permissiveness (decide p q) \<le> permissiveness d"
    and decides_matching: "decide p q = d \<Longrightarrow> some_match (class_of d p) q \<or> d = po_default_effect p"
    and decides_default: "(\<And>d. \<not> some_match (class_of d p) q) \<Longrightarrow> decide p q = po_default_effect p"
begin

lemma deny_wins: "some_match (po_deny p) q \<Longrightarrow> decide p q = DENY"
  using decides_strictest [of DENY p q]
  by (cases "decide p q") (simp_all add: class_of_def permissiveness_def)

lemma approval_blocks: "some_match (po_require_approval p) q \<Longrightarrow> \<not> permits (decide p q)"
  using decides_strictest [of REQUIRE_APPROVAL p q]
  by (cases "decide p q") (simp_all add: class_of_def permissiveness_def permits_def)

lemma permitted_only_by_rule_or_default:
  assumes "permits (decide p q)"
  shows "\<not> some_match (po_deny p) q \<and> \<not> some_match (po_require_approval p) q \<and>
    (some_match (po_allow p) q \<or> some_match (po_allow_with_constraints p) q \<or> permits (po_default_effect p))"
  using assms deny_wins [of p q] approval_blocks [of p q] decides_matching [of p q "decide p q"]
  by (auto simp: permits_def class_of_def)

end

lemma matching_None: "matching rules q = None \<longleftrightarrow> \<not> some_match rules q"
  by (auto simp: matching_def some_match_def find_None_iff)

lemma matching_Some: "matching rules q = Some r \<Longrightarrow> some_match rules q \<and> r \<in> set rules"
  by (auto simp: matching_def some_match_def find_Some_iff)

lemma matching_first:
  assumes "matching rules q = Some r"
  shows "\<exists>before after. rules = before @ r # after \<and>
    rule_matches r (pq_capability q) (pq_action q) (pq_scope q) \<and> \<not> some_match before q"
proof -
  obtain i where i: "i < length rules" "rules ! i = r" "rule_matches r (pq_capability q) (pq_action q) (pq_scope q)"
    and before: "\<forall>j<i. \<not> rule_matches (rules ! j) (pq_capability q) (pq_action q) (pq_scope q)"
    using assms by (auto simp: matching_def find_Some_iff)
  have "rules = take i rules @ r # drop (Suc i) rules" using i id_take_nth_drop [OF i(1)] by simp
  moreover have "\<not> some_match (take i rules) q" using before by (auto simp: some_match_def in_set_conv_nth)
  ultimately show ?thesis using i(3) by blast
qed

definition native_decide :: "policy_definition \<Rightarrow> policy_request \<Rightarrow> policy_decision" where
  "native_decide p q = pe_decision (policy_evaluate p q)"

lemma native_decide_eq:
  "native_decide p q =
     (if some_match (po_deny p) q then DENY
      else if some_match (po_require_approval p) q then REQUIRE_APPROVAL
      else if some_match (po_allow_with_constraints p) q then ALLOW_WITH_CONSTRAINTS
      else if some_match (po_allow p) q then ALLOW
      else po_default_effect p)"
  by (auto simp: native_decide_def policy_evaluate_def matching_None dest: matching_Some split: option.splits)

interpretation native: policy_evaluator native_decide
proof
  show "permissiveness (native_decide p q) \<le> permissiveness d" if "some_match (class_of d p) q" for d p q
    using that by (cases d) (auto simp: native_decide_eq class_of_def permissiveness_def)
  show "some_match (class_of d p) q \<or> d = po_default_effect p" if "native_decide p q = d" for d p q
    using that by (auto simp: native_decide_eq class_of_def split: if_splits)
  show "native_decide p q = po_default_effect p" if "\<And>d. \<not> some_match (class_of d p) q" for p q
    using that [of DENY] that [of REQUIRE_APPROVAL] that [of ALLOW_WITH_CONSTRAINTS] that [of ALLOW]
    by (simp add: native_decide_eq class_of_def)
qed

section \<open>Properties\<close>

definition tightened :: "policy_definition \<Rightarrow> policy_definition \<Rightarrow> bool" where
  "tightened p p' =
     (set (po_deny p) \<subseteq> set (po_deny p') \<and> set (po_require_approval p) \<subseteq> set (po_require_approval p') \<and>
      po_allow_with_constraints p' = po_allow_with_constraints p \<and> po_allow p' = po_allow p \<and>
      po_default_effect p' = po_default_effect p)"

lemma some_match_mono: "set rs \<subseteq> set rs' \<Longrightarrow> some_match rs q \<Longrightarrow> some_match rs' q"
  by (auto simp: some_match_def)

text \<open>
  C23: a permission is never granted over a stricter rule. The evaluator permits a request only
  if no rule that denies it or asks for approval matches, and only because a rule that allows
  it matches or the default does; constraints are attached only for a constrained allow that a
  rule grants, and a constrained allow carries exactly the constraints of the first rule of its
  class that matches the request; and adding denying or approval rules to a policy never turns a
  refusal into a permission.
\<close>

theorem policy_is_deny_overrides:
  "(permits (pe_decision (policy_evaluate p q)) \<longrightarrow>
      \<not> some_match (po_deny p) q \<and> \<not> some_match (po_require_approval p) q \<and>
      (some_match (po_allow p) q \<or> some_match (po_allow_with_constraints p) q \<or> permits (po_default_effect p))) \<and>
   (pe_constraints (policy_evaluate p q) \<noteq> [] \<longrightarrow>
      pe_decision (policy_evaluate p q) = ALLOW_WITH_CONSTRAINTS \<and> some_match (po_allow_with_constraints p) q) \<and>
   (pe_decision (policy_evaluate p q) = ALLOW_WITH_CONSTRAINTS \<and> some_match (po_allow_with_constraints p) q \<longrightarrow>
      (\<exists>before r after. po_allow_with_constraints p = before @ r # after \<and>
         rule_matches r (pq_capability q) (pq_action q) (pq_scope q) \<and> \<not> some_match before q \<and>
         pe_constraints (policy_evaluate p q) = pl_constraints r)) \<and>
   (tightened p p' \<and> permits (pe_decision (policy_evaluate p' q)) \<longrightarrow>
      permits (pe_decision (policy_evaluate p q)))"
proof (intro conjI impI)
  assume "permits (pe_decision (policy_evaluate p q))"
  then have "permits (native_decide p q)" by (simp add: native_decide_def)
  from native.permitted_only_by_rule_or_default [OF this]
  show "\<not> some_match (po_deny p) q" "\<not> some_match (po_require_approval p) q"
    "some_match (po_allow p) q \<or> some_match (po_allow_with_constraints p) q \<or> permits (po_default_effect p)"
    by simp_all
next
  assume "pe_constraints (policy_evaluate p q) \<noteq> []"
  then show "pe_decision (policy_evaluate p q) = ALLOW_WITH_CONSTRAINTS" "some_match (po_allow_with_constraints p) q"
    by (auto simp: policy_evaluate_def dest: matching_Some split: option.splits)
next
  assume awc: "pe_decision (policy_evaluate p q) = ALLOW_WITH_CONSTRAINTS \<and> some_match (po_allow_with_constraints p) q"
  then obtain r where r: "matching (po_allow_with_constraints p) q = Some r"
    by (cases "matching (po_allow_with_constraints p) q") (simp_all add: matching_None)
  with awc have "pe_constraints (policy_evaluate p q) = pl_constraints r"
    by (auto simp: policy_evaluate_def split: option.splits)
  with matching_first [OF r] show "\<exists>before r after. po_allow_with_constraints p = before @ r # after \<and>
         rule_matches r (pq_capability q) (pq_action q) (pq_scope q) \<and> \<not> some_match before q \<and>
         pe_constraints (policy_evaluate p q) = pl_constraints r"
    by blast
next
  assume "tightened p p' \<and> permits (pe_decision (policy_evaluate p' q))"
  then show "permits (pe_decision (policy_evaluate p q))"
    using some_match_mono [of "po_deny p" "po_deny p'" q]
      some_match_mono [of "po_require_approval p" "po_require_approval p'" q]
    by (auto simp flip: native_decide_def simp: native_decide_eq tightened_def permits_def split: if_splits)
qed

definition demo_policy_definition :: policy_definition where
  "demo_policy_definition = \<lparr>po_id = ''p'', po_version = ''1.0.0'', po_default_effect = DENY,
     po_allow = [\<lparr>pl_capability = Some ''web.search'', pl_action = None, pl_scope = None, pl_constraints = []\<rparr>],
     po_allow_with_constraints = [], po_require_approval = [], po_deny = []\<rparr>"

definition demo_search :: policy_request where
  "demo_search = \<lparr>pq_actor = ''agent'', pq_capability = ''web.search'', pq_action = None, pq_scope = None,
     pq_resource = None\<rparr>"

theorem policy_is_deny_overrides_witness:
  "permits (pe_decision (policy_evaluate demo_policy_definition demo_search)) \<and>
   \<not> some_match (po_deny demo_policy_definition) demo_search \<and>
   some_match (po_allow demo_policy_definition) demo_search"
proof -
  have "permits (pe_decision (policy_evaluate demo_policy_definition demo_search))"
    by (simp add: policy_evaluate_def matching_def rule_matches_def demo_policy_definition_def demo_search_def
        permits_def)
  with policy_is_deny_overrides [of demo_policy_definition demo_search demo_policy_definition] show ?thesis
    by (auto simp: some_match_def demo_policy_definition_def permits_def)
qed

end
