(* ===== verification/Acceptance.thy ===== *)
theory Acceptance
  imports Policy Task_Codec
begin

text \<open>
  The evaluation of acceptance criteria (\<^verbatim>\<open>packages/domain/acceptance.py\<close>). The facts are
  injected: a missing one is \<open>None\<close>. The schema check is a function the caller injects; it
  returns the violation, or \<open>None\<close>. A reason that quotes decimals is a value of
  \<open>verdict_reason\<close> with the decimals as arguments, every other reason is its text.
\<close>

section \<open>Evaluators\<close>

record criterion_inputs =
  ci_structured_output :: "json option"
  ci_artifacts :: "string list"
  ci_tests :: "(string \<times> bool) list"
  ci_metrics :: "(string \<times> decimal) list"
  ci_evidence_source_count :: "int option"
  ci_retrieved_source_count :: "int option"
  ci_tool_evidence_count :: "int option"
  ci_review_score :: "decimal option"
  ci_policy_decision :: "policy_decision option"
  ci_human_approved :: "bool option"

datatype verdict_reason =
    Txt string
  | Metric_compared string decimal comparison_operator decimal
  | Score_compared decimal comparison_operator decimal

record criterion_evaluation =
  ce_type :: criterion_type
  ce_passed :: bool
  ce_reason :: verdict_reason

type_synonym schema_check = "json \<Rightarrow> string option"

definition verdict :: "acceptance_criterion \<Rightarrow> bool \<Rightarrow> string \<Rightarrow> criterion_evaluation" where
  "verdict c passed why = \<lparr>ce_type = ac_type c, ce_passed = passed, ce_reason = Txt why\<rparr>"

definition evaluate_schema_valid ::
    "acceptance_criterion \<Rightarrow> criterion_inputs \<Rightarrow> schema_check option \<Rightarrow> criterion_evaluation" where
  "evaluate_schema_valid c inp check =
     (case ci_structured_output inp of
        None \<Rightarrow> verdict c False ''structured output missing''
      | Some out \<Rightarrow>
          (case check of
             None \<Rightarrow> verdict c False ''schema validator unavailable''
           | Some chk \<Rightarrow>
               (case chk out of
                  None \<Rightarrow> verdict c True ''structured output matches schema''
                | Some err \<Rightarrow> verdict c False (''schema violation: '' @ err))))"

text \<open>\<^verbatim>\<open>criterion.artifact or criterion.target\<close>: an empty text is skipped.\<close>

definition artifact_name :: "acceptance_criterion \<Rightarrow> string option" where
  "artifact_name c = (if falsy (ac_artifact c) then ac_target c else ac_artifact c)"

definition evaluate_artifact_exists :: "acceptance_criterion \<Rightarrow> criterion_inputs \<Rightarrow> criterion_evaluation" where
  "evaluate_artifact_exists c inp =
     (case artifact_name c of
        None \<Rightarrow> verdict c False ''artifact name not configured''
      | Some name \<Rightarrow>
          (if name = [] then verdict c False ''artifact name not configured''
           else if name \<in> set (ci_artifacts inp) then verdict c True (''artifact '' @ name @ '' exists'')
           else verdict c False (''artifact '' @ name @ '' missing'')))"

definition evaluate_test_passes :: "acceptance_criterion \<Rightarrow> criterion_inputs \<Rightarrow> criterion_evaluation" where
  "evaluate_test_passes c inp =
     (let failed = map fst (filter (\<lambda>t. \<not> snd t) (ci_tests inp))
      in if failed \<noteq> [] then verdict c False (''failing tests: '' @ join_texts '', '' failed)
         else if ci_tests inp = [] then verdict c False ''no test results provided''
         else verdict c True ''all tests pass'')"

definition compare_values :: "decimal \<Rightarrow> comparison_operator \<Rightarrow> decimal \<Rightarrow> bool" where
  "compare_values value operator threshold =
     (case operator of
        GT \<Rightarrow> dec_less threshold value
      | GTE \<Rightarrow> dec_le threshold value
      | EQ \<Rightarrow> dec_eq value threshold
      | LTE \<Rightarrow> dec_le value threshold
      | LT \<Rightarrow> dec_less value threshold)"

definition evaluate_metric_threshold :: "acceptance_criterion \<Rightarrow> criterion_inputs \<Rightarrow> criterion_evaluation" where
  "evaluate_metric_threshold c inp =
     (if falsy (ac_metric c) then verdict c False ''metric name not configured''
      else (case (ac_operator c, ac_threshold c) of
              (Some operator, Some threshold) \<Rightarrow>
                (let metric = the (ac_metric c)
                 in case map_of (ci_metrics inp) metric of
                      None \<Rightarrow> verdict c False (''metric '' @ metric @ '' missing'')
                    | Some value \<Rightarrow>
                        \<lparr>ce_type = ac_type c, ce_passed = compare_values value operator threshold,
                         ce_reason = Metric_compared metric value operator threshold\<rparr>)
            | _ \<Rightarrow> verdict c False ''operator/threshold not configured''))"

definition missing_dimension :: "acceptance_criterion \<Rightarrow> criterion_inputs \<Rightarrow> criterion_evaluation option" where
  "missing_dimension c inp =
     (if minimum_sources c = None then Some (verdict c False ''minimum_sources not configured'')
      else if ci_evidence_source_count inp = None then Some (verdict c False ''evidence source count unknown'')
      else if minimum_retrieved_sources c \<noteq> None \<and> ci_retrieved_source_count inp = None
           then Some (verdict c False ''retrieved source count unknown'')
      else if minimum_tool_evidences c \<noteq> None \<and> ci_tool_evidence_count inp = None
           then Some (verdict c False ''tool evidence count unknown'')
      else None)"

definition at_least :: "int \<Rightarrow> int \<Rightarrow> string \<Rightarrow> string" where
  "at_least have want what = str_int have @ '' >= '' @ str_int want @ what"

definition below :: "int \<Rightarrow> int \<Rightarrow> string \<Rightarrow> string" where
  "below have want what = str_int have @ '' < '' @ str_int want @ what"

definition dimension_failure :: "acceptance_criterion \<Rightarrow> criterion_inputs \<Rightarrow> criterion_evaluation option" where
  "dimension_failure c inp =
     (let count = the (ci_evidence_source_count inp); wanted = the (minimum_sources c);
          retrieved = the (ci_retrieved_source_count inp); tools = the (ci_tool_evidence_count inp)
      in if count < wanted then Some (verdict c False (below count wanted '' sources''))
         else if minimum_retrieved_sources c \<noteq> None \<and> retrieved < the (minimum_retrieved_sources c) then
           Some (verdict c False (below retrieved (the (minimum_retrieved_sources c)) '' retrieved sources ('' @
             at_least count wanted '' sources)''))
         else if minimum_tool_evidences c \<noteq> None \<and> tools < the (minimum_tool_evidences c) then
           Some (verdict c False (below tools (the (minimum_tool_evidences c))
             '' tool evidences owned by this task ('' @ at_least count wanted '' sources); '' @
             ''a cross-phase input is not a tool call''))
         else None)"

definition coverage_reason :: "acceptance_criterion \<Rightarrow> criterion_inputs \<Rightarrow> string" where
  "coverage_reason c inp = join_texts ''; ''
     ([at_least (the (ci_evidence_source_count inp)) (the (minimum_sources c)) '' sources''] @
      (case minimum_retrieved_sources c of
         None \<Rightarrow> [] | Some n \<Rightarrow> [at_least (the (ci_retrieved_source_count inp)) n '' retrieved'']) @
      (case minimum_tool_evidences c of
         None \<Rightarrow> [] | Some n \<Rightarrow> [at_least (the (ci_tool_evidence_count inp)) n '' tool evidences'']))"

definition evaluate_evidence_coverage :: "acceptance_criterion \<Rightarrow> criterion_inputs \<Rightarrow> criterion_evaluation" where
  "evaluate_evidence_coverage c inp =
     (case missing_dimension c inp of
        Some v \<Rightarrow> v
      | None \<Rightarrow>
          (case dimension_failure c inp of
             Some v \<Rightarrow> v
           | None \<Rightarrow> verdict c True (coverage_reason c inp)))"

definition evaluate_review_score :: "acceptance_criterion \<Rightarrow> criterion_inputs \<Rightarrow> criterion_evaluation" where
  "evaluate_review_score c inp =
     (case (ac_operator c, ac_threshold c) of
        (Some operator, Some threshold) \<Rightarrow>
          (case ci_review_score inp of
             None \<Rightarrow> verdict c False ''review score unknown''
           | Some score \<Rightarrow>
               \<lparr>ce_type = ac_type c, ce_passed = compare_values score operator threshold,
                ce_reason = Score_compared score operator threshold\<rparr>)
      | _ \<Rightarrow> verdict c False ''operator/threshold not configured'')"

definition decision_text :: "policy_decision \<Rightarrow> string" where
  "decision_text d =
     (case d of ALLOW \<Rightarrow> ''ALLOW'' | DENY \<Rightarrow> ''DENY'' | REQUIRE_APPROVAL \<Rightarrow> ''REQUIRE_APPROVAL''
      | ALLOW_WITH_CONSTRAINTS \<Rightarrow> ''ALLOW_WITH_CONSTRAINTS'')"

definition evaluate_policy_compliant :: "acceptance_criterion \<Rightarrow> criterion_inputs \<Rightarrow> criterion_evaluation" where
  "evaluate_policy_compliant c inp =
     (case ci_policy_decision inp of
        None \<Rightarrow> verdict c False ''policy decision unknown''
      | Some d \<Rightarrow>
          verdict c (d = ALLOW \<or> d = ALLOW_WITH_CONSTRAINTS) (''policy decision '' @ decision_text d))"

definition evaluate_human_approval :: "acceptance_criterion \<Rightarrow> criterion_inputs \<Rightarrow> criterion_evaluation" where
  "evaluate_human_approval c inp =
     (case ci_human_approved inp of
        None \<Rightarrow> verdict c False ''human approval unknown''
      | Some True \<Rightarrow> verdict c True ''human approved''
      | Some False \<Rightarrow> verdict c False ''human did not approve'')"

definition evaluate_custom_evaluator :: "acceptance_criterion \<Rightarrow> criterion_evaluation" where
  "evaluate_custom_evaluator c =
     (if falsy (ac_evaluator c) then verdict c False ''evaluator id not configured''
      else verdict c False (''custom evaluator '' @ the (ac_evaluator c) @
        '' must be executed by the orchestration layer''))"

definition evaluate_criterion ::
    "acceptance_criterion \<Rightarrow> criterion_inputs \<Rightarrow> schema_check option \<Rightarrow> criterion_evaluation" where
  "evaluate_criterion c inp check =
     (case ac_type c of
        SCHEMA_VALID \<Rightarrow> evaluate_schema_valid c inp check
      | ARTIFACT_EXISTS \<Rightarrow> evaluate_artifact_exists c inp
      | TEST_PASSES \<Rightarrow> evaluate_test_passes c inp
      | METRIC_THRESHOLD \<Rightarrow> evaluate_metric_threshold c inp
      | EVIDENCE_COVERAGE \<Rightarrow> evaluate_evidence_coverage c inp
      | REVIEW_SCORE \<Rightarrow> evaluate_review_score c inp
      | POLICY_COMPLIANT \<Rightarrow> evaluate_policy_compliant c inp
      | HUMAN_APPROVAL \<Rightarrow> evaluate_human_approval c inp
      | CUSTOM_EVALUATOR \<Rightarrow> evaluate_custom_evaluator c)"

definition evaluate_contract ::
    "acceptance_criterion list \<Rightarrow> criterion_inputs \<Rightarrow> schema_check option \<Rightarrow> criterion_evaluation list" where
  "evaluate_contract criteria inp check = map (\<lambda>c. evaluate_criterion c inp check) criteria"

definition contract_passes :: "criterion_evaluation list \<Rightarrow> bool" where
  "contract_passes verdicts = (verdicts \<noteq> [] \<and> list_all ce_passed verdicts)"

section \<open>What a criterion demands\<close>

text \<open>
  The specification of the evaluators: when a criterion is met by the known facts, in terms of
  the numbers the decimals stand for. A fact that is unknown meets nothing.
\<close>

fun number_compares :: "rat \<Rightarrow> comparison_operator \<Rightarrow> rat \<Rightarrow> bool" where
  "number_compares x GT y = (x > y)"
| "number_compares x GTE y = (x \<ge> y)"
| "number_compares x EQ y = (x = y)"
| "number_compares x LTE y = (x \<le> y)"
| "number_compares x LT y = (x < y)"

definition count_meets :: "int option \<Rightarrow> int option \<Rightarrow> bool" where
  "count_meets wanted known = (\<forall>n\<in>set_option wanted. \<exists>k\<in>set_option known. n \<le> k)"

definition threshold_met :: "acceptance_criterion \<Rightarrow> decimal option \<Rightarrow> bool" where
  "threshold_met c value =
     (\<exists>operator\<in>set_option (ac_operator c). \<exists>threshold\<in>set_option (ac_threshold c).
        \<exists>v\<in>set_option value. number_compares (dec_val v) operator (dec_val threshold))"

definition criterion_met :: "acceptance_criterion \<Rightarrow> criterion_inputs \<Rightarrow> schema_check option \<Rightarrow> bool" where
  "criterion_met c inp check =
     (case ac_type c of
        SCHEMA_VALID \<Rightarrow>
          \<exists>out\<in>set_option (ci_structured_output inp). \<exists>chk\<in>set_option check. chk out = None
      | ARTIFACT_EXISTS \<Rightarrow>
          \<exists>name\<in>set_option (artifact_name c). name \<noteq> [] \<and> name \<in> set (ci_artifacts inp)
      | TEST_PASSES \<Rightarrow> ci_tests inp \<noteq> [] \<and> (\<forall>t\<in>set (ci_tests inp). snd t)
      | METRIC_THRESHOLD \<Rightarrow>
          \<exists>m\<in>set_option (ac_metric c). m \<noteq> [] \<and> threshold_met c (map_of (ci_metrics inp) m)
      | EVIDENCE_COVERAGE \<Rightarrow>
          minimum_sources c \<noteq> None \<and> count_meets (minimum_sources c) (ci_evidence_source_count inp) \<and>
          count_meets (minimum_retrieved_sources c) (ci_retrieved_source_count inp) \<and>
          count_meets (minimum_tool_evidences c) (ci_tool_evidence_count inp)
      | REVIEW_SCORE \<Rightarrow> threshold_met c (ci_review_score inp)
      | POLICY_COMPLIANT \<Rightarrow> \<exists>d\<in>set_option (ci_policy_decision inp). permits d
      | HUMAN_APPROVAL \<Rightarrow> ci_human_approved inp = Some True
      | CUSTOM_EVALUATOR \<Rightarrow> False)"

lemma compare_values_iff: "compare_values v op t \<longleftrightarrow> number_compares (dec_val v) op (dec_val t)"
  by (cases op) (auto simp: compare_values_def dec_less_iff dec_le_iff dec_eq_iff)

lemma ce_passed_verdict [simp]: "ce_passed (verdict c b why) = b" "ce_type (verdict c b why) = ac_type c"
  by (simp_all add: verdict_def)

lemma coverage_iff:
  "ce_passed (evaluate_evidence_coverage c inp) \<longleftrightarrow>
     minimum_sources c \<noteq> None \<and> count_meets (minimum_sources c) (ci_evidence_source_count inp) \<and>
     count_meets (minimum_retrieved_sources c) (ci_retrieved_source_count inp) \<and>
     count_meets (minimum_tool_evidences c) (ci_tool_evidence_count inp)"
  by (auto simp: evaluate_evidence_coverage_def missing_dimension_def dimension_failure_def count_meets_def
      Let_def split: option.splits)

lemma evaluate_criterion_iff: "ce_passed (evaluate_criterion c inp check) \<longleftrightarrow> criterion_met c inp check"
proof (cases "ac_type c")
  case TEST_PASSES
  then show ?thesis
    by (auto simp: evaluate_criterion_def criterion_met_def evaluate_test_passes_def Let_def filter_empty_conv)
next
  case HUMAN_APPROVAL
  then show ?thesis
    by (auto simp: evaluate_criterion_def criterion_met_def evaluate_human_approval_def split: option.splits bool.splits)
qed (auto simp: evaluate_criterion_def criterion_met_def evaluate_schema_valid_def evaluate_artifact_exists_def
    evaluate_metric_threshold_def coverage_iff evaluate_review_score_def evaluate_policy_compliant_def
    evaluate_custom_evaluator_def compare_values_iff threshold_met_def permits_def falsy_def Let_def
    split: option.splits)

section \<open>Properties\<close>

text \<open>
  C24: acceptance is decided by the facts and closed against unknown ones. A contract passes
  exactly if it has criteria and each of them is met by known facts: decimals compared as
  numbers, counts that reach their minimum, a permitting policy decision, a granted approval.
  In particular a contract with a custom criterion never passes here, nor does one of which
  a fact is missing.
\<close>

theorem acceptance_is_fail_closed:
  "contract_passes (evaluate_contract criteria inp check) =
     (criteria \<noteq> [] \<and> (\<forall>c\<in>set criteria. criterion_met c inp check))"
  by (auto simp: contract_passes_def evaluate_contract_def list_all_iff evaluate_criterion_iff)

definition no_facts :: criterion_inputs where
  "no_facts = \<lparr>ci_structured_output = None, ci_artifacts = [], ci_tests = [], ci_metrics = [],
     ci_evidence_source_count = None, ci_retrieved_source_count = None, ci_tool_evidence_count = None,
     ci_review_score = None, ci_policy_decision = None, ci_human_approved = None\<rparr>"

theorem acceptance_is_fail_closed_witness:
  "\<not> contract_passes (evaluate_contract [demo_criterion] no_facts None) \<and> demo_criterion \<in> set [demo_criterion]"
  using acceptance_is_fail_closed [of "[demo_criterion]" no_facts None]
  by (cases "ac_type demo_criterion")
    (auto simp: criterion_met_def no_facts_def threshold_met_def count_meets_def)

text \<open>
  A task that a policy refuses cannot be accepted. If the policy decision of a request is
  fed to the acceptance of a contract with a \<open>POLICY_COMPLIANT\<close> criterion, and a rule that
  denies the request or demands approval for it matches, the contract does not pass, whatever
  the other facts are.
\<close>

theorem refused_request_is_not_accepted:
  assumes "some_match (po_deny p) q \<or> some_match (po_require_approval p) q"
    and "c \<in> set criteria" and "ac_type c = POLICY_COMPLIANT"
  shows "\<not> contract_passes
    (evaluate_contract criteria (inp\<lparr>ci_policy_decision := Some (pe_decision (policy_evaluate p q))\<rparr>) check)"
proof -
  have "\<not> permits (native_decide p q)"
    using assms(1) native.deny_wins [of p q] native.approval_blocks [of p q] by (auto simp: permits_def)
  then have "\<not> criterion_met c (inp\<lparr>ci_policy_decision := Some (pe_decision (policy_evaluate p q))\<rparr>) check"
    using assms(3) by (simp add: criterion_met_def native_decide_def)
  then have "\<not> ce_passed (evaluate_criterion c (inp\<lparr>ci_policy_decision := Some (pe_decision (policy_evaluate p q))\<rparr>) check)"
    by (simp add: evaluate_criterion_iff)
  with assms(2) show ?thesis by (auto simp: contract_passes_def evaluate_contract_def list_all_iff)
qed

definition demo_deny_all :: policy_definition where
  "demo_deny_all = demo_policy_definition\<lparr>po_deny := po_allow demo_policy_definition\<rparr>"

theorem refused_request_is_not_accepted_witness:
  "\<not> contract_passes (evaluate_contract [demo_criterion\<lparr>ac_type := POLICY_COMPLIANT\<rparr>]
     (no_facts\<lparr>ci_policy_decision := Some (pe_decision (policy_evaluate demo_deny_all demo_search))\<rparr>) None)"
  by (rule refused_request_is_not_accepted [of _ _ "demo_criterion\<lparr>ac_type := POLICY_COMPLIANT\<rparr>"])
    (simp_all add: some_match_def demo_deny_all_def demo_policy_definition_def demo_search_def rule_matches_def)

end
