(* ===== verification/Circuit_Breaker.thy ===== *)
theory Circuit_Breaker
  imports Timestamps
begin

text \<open>
  The circuit breaker of a model endpoint (\<^verbatim>\<open>packages/domain/circuit_breaker.py\<close>): three pure
  transitions on an immutable state. Times are microseconds; \<^verbatim>\<open>total_seconds()\<close> is compared with
  a whole number of seconds, which is exact for spans below 272 years. The source keeps the
  state's name as a text; \<open>br_state\<close> has the three names it uses.
\<close>

section \<open>The machine\<close>

datatype br_state = CLOSED | OPEN | HALF_OPEN

datatype br_event = SUCCESS | FAIL | TICK

record breaker_config =
  bc_failure_threshold :: int
  bc_open_timeout_seconds :: int
  bc_half_open_max_probes :: int

definition breaker_config_post_init :: "breaker_config \<Rightarrow> breaker_config res" where
  "breaker_config_post_init c = first_error
     [(bc_failure_threshold c < 1, ''failure_threshold must be >= 1''),
      (bc_open_timeout_seconds c < 1, ''open_timeout_seconds must be >= 1''),
      (bc_half_open_max_probes c < 1, ''half_open_max_probes must be >= 1'')] c"

record breaker =
  bk_state :: br_state
  bk_failures :: int
  bk_opened_at :: "int option"
  bk_probes :: int

datatype breaker_error = CircuitBreakerTransitionError br_state br_event

datatype endpoint_health = UNKNOWN | HEALTHY | DEGRADED | OPEN_CIRCUIT | DISABLED

definition is_open :: "breaker \<Rightarrow> bool" where
  "is_open s = (bk_state s = OPEN)"

definition is_half_open :: "breaker \<Rightarrow> bool" where
  "is_half_open s = (bk_state s = HALF_OPEN)"

definition to_endpoint_health :: "breaker \<Rightarrow> bool \<Rightarrow> endpoint_health" where
  "to_endpoint_health s enabled =
     (if \<not> enabled then DISABLED
      else if bk_state s = OPEN then OPEN_CIRCUIT
      else if bk_state s = HALF_OPEN \<or> 0 < bk_failures s then DEGRADED
      else HEALTHY)"

definition initial_breaker :: breaker where
  "initial_breaker = \<lparr>bk_state = CLOSED, bk_failures = 0, bk_opened_at = None, bk_probes = 0\<rparr>"

definition apply_success :: "breaker \<Rightarrow> breaker_config \<Rightarrow> breaker_error + breaker" where
  "apply_success s cfg =
     (case bk_state s of
        HALF_OPEN \<Rightarrow> Inr initial_breaker
      | CLOSED \<Rightarrow> Inr \<lparr>bk_state = CLOSED, bk_failures = 0, bk_opened_at = None, bk_probes = 0\<rparr>
      | OPEN \<Rightarrow> Inl (CircuitBreakerTransitionError OPEN SUCCESS))"

definition opened_or_old :: "int option \<Rightarrow> breaker \<Rightarrow> int option" where
  "opened_or_old now s = (case now of Some t \<Rightarrow> Some t | None \<Rightarrow> bk_opened_at s)"

definition apply_failure :: "breaker \<Rightarrow> breaker_config \<Rightarrow> int option \<Rightarrow> breaker_error + breaker" where
  "apply_failure s cfg now =
     (case bk_state s of
        HALF_OPEN \<Rightarrow>
          Inr \<lparr>bk_state = OPEN, bk_failures = bk_failures s + 1, bk_opened_at = opened_or_old now s, bk_probes = 0\<rparr>
      | CLOSED \<Rightarrow>
          (let failures = bk_failures s + 1
           in if bc_failure_threshold cfg \<le> failures
              then Inr \<lparr>bk_state = OPEN, bk_failures = failures, bk_opened_at = opened_or_old now s, bk_probes = 0\<rparr>
              else Inr \<lparr>bk_state = CLOSED, bk_failures = failures, bk_opened_at = None, bk_probes = 0\<rparr>)
      | OPEN \<Rightarrow> Inl (CircuitBreakerTransitionError OPEN FAIL))"

definition timeout_elapsed :: "breaker_config \<Rightarrow> int \<Rightarrow> int \<Rightarrow> bool" where
  "timeout_elapsed cfg opened now = (bc_open_timeout_seconds cfg * second_us \<le> now - opened)"

definition apply_tick :: "breaker \<Rightarrow> breaker_config \<Rightarrow> int \<Rightarrow> breaker_error + breaker" where
  "apply_tick s cfg now =
     (case bk_state s of
        OPEN \<Rightarrow>
          (case bk_opened_at s of
             Some opened \<Rightarrow>
               (if timeout_elapsed cfg opened now
                then Inr \<lparr>bk_state = HALF_OPEN, bk_failures = bk_failures s, bk_opened_at = bk_opened_at s,
                          bk_probes = 0\<rparr>
                else Inr s)
           | None \<Rightarrow> Inr s)
      | HALF_OPEN \<Rightarrow>
          (if bc_half_open_max_probes cfg \<le> bk_probes s
           then Inl (CircuitBreakerTransitionError HALF_OPEN TICK)
           else Inr \<lparr>bk_state = HALF_OPEN, bk_failures = bk_failures s, bk_opened_at = bk_opened_at s,
                     bk_probes = bk_probes s + 1\<rparr>)
      | CLOSED \<Rightarrow> Inr s)"

section \<open>Histories\<close>

datatype br_input = In_success | In_failure "int option" | In_tick int

fun br_apply :: "breaker_config \<Rightarrow> br_input \<Rightarrow> breaker \<Rightarrow> breaker_error + breaker" where
  "br_apply cfg In_success s = apply_success s cfg"
| "br_apply cfg (In_failure now) s = apply_failure s cfg now"
| "br_apply cfg (In_tick now) s = apply_tick s cfg now"

text \<open>The breaker after a sequence of inputs; a refused input leaves it as it was.\<close>

fun br_run :: "breaker_config \<Rightarrow> br_input list \<Rightarrow> breaker \<Rightarrow> breaker" where
  "br_run cfg [] s = s"
| "br_run cfg (i # is) s = br_run cfg is (case br_apply cfg i s of Inl _ \<Rightarrow> s | Inr s' \<Rightarrow> s')"

inductive br_reach :: "breaker_config \<Rightarrow> breaker \<Rightarrow> bool" for cfg where
  br_start: "br_reach cfg initial_breaker"
| br_step: "br_reach cfg s \<Longrightarrow> br_apply cfg i s = Inr s' \<Longrightarrow> br_reach cfg s'"

definition breaker_ok :: "breaker_config \<Rightarrow> breaker \<Rightarrow> bool" where
  "breaker_ok cfg s =
     (0 \<le> bk_failures s \<and> 0 \<le> bk_probes s \<and>
      (case bk_state s of
         CLOSED \<Rightarrow> bk_failures s < bc_failure_threshold cfg \<and> bk_opened_at s = None \<and> bk_probes s = 0
       | OPEN \<Rightarrow> bc_failure_threshold cfg \<le> bk_failures s \<and> bk_probes s = 0
       | HALF_OPEN \<Rightarrow> bc_failure_threshold cfg \<le> bk_failures s \<and> bk_opened_at s \<noteq> None \<and>
           bk_probes s \<le> bc_half_open_max_probes cfg))"

lemmas breaker_defs = apply_success_def apply_failure_def apply_tick_def breaker_ok_def initial_breaker_def

lemma breaker_ok_apply:
  assumes "is_ok (breaker_config_post_init cfg)" and "breaker_ok cfg s" and "br_apply cfg i s = Inr s'"
  shows "breaker_ok cfg s'"
proof -
  have cfg: "1 \<le> bc_failure_threshold cfg" "1 \<le> bc_half_open_max_probes cfg"
    using assms(1) unfolding breaker_config_post_init_def first_error_ok_iff by auto
  show ?thesis
    using assms(2,3) cfg
    by (cases i; cases "bk_state s")
      (auto simp: breaker_defs Let_def split: if_splits option.splits)
qed

lemma br_reach_ok: "br_reach cfg s \<Longrightarrow> is_ok (breaker_config_post_init cfg) \<Longrightarrow> breaker_ok cfg s"
proof (induction rule: br_reach.induct)
  case br_start
  then have "1 \<le> bc_failure_threshold cfg" unfolding breaker_config_post_init_def first_error_ok_iff by auto
  then show ?case by (simp add: breaker_defs)
next
  case (br_step s i s')
  then show ?case using breaker_ok_apply by blast
qed

lemma br_run_failures:
  assumes "bk_state s = CLOSED" and "bk_failures s + int (length ts) < bc_failure_threshold cfg"
  shows "bk_state (br_run cfg (map In_failure ts) s) = CLOSED \<and>
    bk_failures (br_run cfg (map In_failure ts) s) = bk_failures s + int (length ts)"
  using assms by (induction ts arbitrary: s) (auto simp: apply_failure_def Let_def)

section \<open>Properties\<close>

text \<open>
  The breaker opens on the configured number of consecutive failures and not before. From
  a success or the initial state, fewer failures than the threshold leave the breaker closed
  and counting them; the failure that reaches the threshold opens it at its own time.
\<close>

theorem breaker_opens_at_the_threshold:
  assumes "is_ok (breaker_config_post_init cfg)" and "int (length ts) < bc_failure_threshold cfg"
  shows "bk_state (br_run cfg (map In_failure ts) initial_breaker) = CLOSED \<and>
    bk_failures (br_run cfg (map In_failure ts) initial_breaker) = int (length ts) \<and>
    (int (length ts) + 1 = bc_failure_threshold cfg \<longrightarrow>
       apply_failure (br_run cfg (map In_failure ts) initial_breaker) cfg (Some now) =
         Inr \<lparr>bk_state = OPEN, bk_failures = bc_failure_threshold cfg, bk_opened_at = Some now, bk_probes = 0\<rparr>)"
proof -
  have "bk_state (br_run cfg (map In_failure ts) initial_breaker) = CLOSED \<and>
      bk_failures (br_run cfg (map In_failure ts) initial_breaker) = int (length ts)"
    using br_run_failures [of initial_breaker ts cfg] assms(2) by (simp add: initial_breaker_def)
  then show ?thesis by (auto simp: apply_failure_def opened_or_old_def)
qed

definition demo_breaker_config :: breaker_config where
  "demo_breaker_config = \<lparr>bc_failure_threshold = 3, bc_open_timeout_seconds = 60, bc_half_open_max_probes = 1\<rparr>"

lemma demo_breaker_config_ok: "is_ok (breaker_config_post_init demo_breaker_config)"
  by (simp add: breaker_config_post_init_def demo_breaker_config_def)

theorem breaker_opens_at_the_threshold_witness:
  "apply_failure (br_run demo_breaker_config (map In_failure [Some 1, None]) initial_breaker)
     demo_breaker_config (Some 5) =
     Inr \<lparr>bk_state = OPEN, bk_failures = 3, bk_opened_at = Some 5, bk_probes = 0\<rparr>"
  using breaker_opens_at_the_threshold [OF demo_breaker_config_ok, of "[Some 1, None]" 5]
  by (simp add: demo_breaker_config_def)

text \<open>
  A history with the argument of its last accepted failure: \<open>None\<close> before the first failure,
  \<open>Some None\<close> when that failure was reported without a time.
\<close>

inductive br_history :: "breaker_config \<Rightarrow> breaker \<Rightarrow> int option option \<Rightarrow> bool" for cfg where
  br_fresh: "br_history cfg initial_breaker None"
| br_input: "br_history cfg s f \<Longrightarrow> br_apply cfg i s = Inr s' \<Longrightarrow>
    br_history cfg s' (case i of In_failure now \<Rightarrow> Some now | _ \<Rightarrow> f)"

lemma br_history_reach: "br_history cfg s f \<Longrightarrow> br_reach cfg s"
  by (induction rule: br_history.induct) (auto intro: br_start br_step)

lemma br_history_opening:
  assumes "br_history cfg s f" and "bk_state s \<noteq> CLOSED"
  shows "f \<noteq> None \<and> (\<forall>t. f = Some (Some t) \<longrightarrow> bk_opened_at s = Some t)"
  using assms
proof (induction rule: br_history.induct)
  case (br_input s f i s')
  then show ?case
    by (cases i; cases "bk_state s")
      (auto simp: apply_success_def apply_failure_def apply_tick_def opened_or_old_def initial_breaker_def Let_def
        split: if_splits option.splits)
qed (simp add: initial_breaker_def)

text \<open>
  C25: an open breaker lets a probe through only after its timeout, and at most the configured
  number of probes. In every history, the breaker leaves \<open>OPEN\<close> only by a tick at least the
  timeout after the recorded opening, and that opening is the moment of the last failure when
  this was reported with its time, be it the failure that opened a closed breaker or a probe that
  failed, which starts the wait again (reported without a time, it leaves the earlier
  opening in place). Success and failure are refused while the breaker is open; a probe needs room
  below the maximum, a tick beyond it is refused; a failed probe opens the breaker again; only a
  success closes it and clears the count.
\<close>

theorem breaker_probes_only_after_timeout:
  assumes "is_ok (breaker_config_post_init cfg)" and "br_history cfg s f" and "br_apply cfg i s = Inr s'"
  shows "breaker_ok cfg s' \<and>
    (bk_state s = OPEN \<and> bk_state s' \<noteq> OPEN \<longrightarrow>
       bk_state s' = HALF_OPEN \<and> (\<exists>now opened. i = In_tick now \<and> bk_opened_at s = Some opened \<and>
         bc_open_timeout_seconds cfg * second_us \<le> now - opened \<and>
         f \<noteq> None \<and> (\<forall>failed. f = Some (Some failed) \<longrightarrow> opened = failed))) \<and>
    (bk_state s = OPEN \<longrightarrow> (\<exists>now. i = In_tick now)) \<and>
    (bk_state s = HALF_OPEN \<and> bk_state s' = HALF_OPEN \<longrightarrow>
       bk_probes s < bc_half_open_max_probes cfg \<and> bk_probes s' = bk_probes s + 1) \<and>
    (bk_state s = HALF_OPEN \<and> bk_state s' = OPEN \<longrightarrow>
       (\<exists>now. i = In_failure now \<and> bk_opened_at s' = (if now = None then bk_opened_at s else now))) \<and>
    (bk_state s \<noteq> CLOSED \<and> bk_state s' = CLOSED \<longrightarrow> i = In_success \<and> s' = initial_breaker)"
proof -
  have ok: "breaker_ok cfg s'"
    using breaker_ok_apply [OF assms(1) br_reach_ok [OF br_history_reach [OF assms(2)] assms(1)] assms(3)] .
  have since: "bk_state s = OPEN \<Longrightarrow> f \<noteq> None \<and> (\<forall>t. f = Some (Some t) \<longrightarrow> bk_opened_at s = Some t)"
    using br_history_opening [OF assms(2)] by simp
  show ?thesis
    using ok since assms(3)
    by (cases i; cases "bk_state s")
      (auto simp: apply_success_def apply_failure_def apply_tick_def timeout_elapsed_def initial_breaker_def
        opened_or_old_def Let_def split: if_splits option.splits)
qed

lemma demo_breaker_history:
  "br_history demo_breaker_config \<lparr>bk_state = OPEN, bk_failures = 4, bk_opened_at = Some 70000000, bk_probes = 0\<rparr>
     (Some (Some 70000000))"
proof -
  let ?c = "\<lambda>n. \<lparr>bk_state = CLOSED, bk_failures = n, bk_opened_at = None, bk_probes = 0\<rparr>"
  let ?s = "\<lambda>st n. \<lparr>bk_state = st, bk_failures = n, bk_opened_at = Some 5, bk_probes = 0\<rparr>"
  note step = br_input [where cfg = demo_breaker_config]
    and defs = apply_failure_def apply_tick_def timeout_elapsed_def demo_breaker_config_def opened_or_old_def second_us_def
  have "br_history demo_breaker_config (?c 0) None"
    using br_fresh [of demo_breaker_config] by (simp add: initial_breaker_def)
  from step [OF this, of "In_failure None" "?c 1"] have "br_history demo_breaker_config (?c 1) (Some None)"
    by (simp add: defs)
  from step [OF this, of "In_failure None" "?c 2"] have "br_history demo_breaker_config (?c 2) (Some None)"
    by (simp add: defs)
  from step [OF this, of "In_failure (Some 5)" "?s OPEN 3"] have "br_history demo_breaker_config (?s OPEN 3) (Some (Some 5))"
    by (simp add: defs)
  from step [OF this, of "In_tick 60000005" "?s HALF_OPEN 3"]
  have "br_history demo_breaker_config (?s HALF_OPEN 3) (Some (Some 5))" by (simp add: defs)
  from step [OF this, of "In_failure (Some 70000000)"] show ?thesis by (simp add: defs)
qed

theorem breaker_probes_only_after_timeout_witness:
  "apply_tick \<lparr>bk_state = OPEN, bk_failures = 4, bk_opened_at = Some 70000000, bk_probes = 0\<rparr> demo_breaker_config 130000000 =
     Inr \<lparr>bk_state = HALF_OPEN, bk_failures = 4, bk_opened_at = Some 70000000, bk_probes = 0\<rparr> \<and>
   bc_open_timeout_seconds demo_breaker_config * second_us \<le> 130000000 - 70000000"
proof -
  have tick: "apply_tick \<lparr>bk_state = OPEN, bk_failures = 4, bk_opened_at = Some 70000000, bk_probes = 0\<rparr>
      demo_breaker_config 130000000 =
     Inr \<lparr>bk_state = HALF_OPEN, bk_failures = 4, bk_opened_at = Some 70000000, bk_probes = 0\<rparr>"
    by (simp add: apply_tick_def timeout_elapsed_def demo_breaker_config_def second_us_def)
  from breaker_probes_only_after_timeout [OF demo_breaker_config_ok demo_breaker_history, of "In_tick 130000000"] tick
  show ?thesis by simp
qed

text \<open>
  Without a time the breaker can be stuck or reopen too early. A failure reported without
  a time opens a closed breaker with no opening time, and then no tick ever leads out of
  \<open>OPEN\<close>; a probe that fails without a time reopens the breaker with the time of the previous
  opening, so that the very next tick lets another probe through although no timeout has
  passed since the failure.
\<close>

theorem untimed_failure_defeats_the_timeout:
  "apply_failure \<lparr>bk_state = CLOSED, bk_failures = bc_failure_threshold cfg - 1, bk_opened_at = None,
       bk_probes = 0\<rparr> cfg None =
     Inr \<lparr>bk_state = OPEN, bk_failures = bc_failure_threshold cfg, bk_opened_at = None, bk_probes = 0\<rparr> \<and>
   br_run cfg is \<lparr>bk_state = OPEN, bk_failures = n, bk_opened_at = None, bk_probes = 0\<rparr> =
     \<lparr>bk_state = OPEN, bk_failures = n, bk_opened_at = None, bk_probes = 0\<rparr> \<and>
   (bk_state s = HALF_OPEN \<and> bk_opened_at s = Some opened \<and> timeout_elapsed cfg opened now \<longrightarrow>
      bk_state (br_run cfg [In_failure None, In_tick now] s) = HALF_OPEN)"
proof (intro conjI impI)
  show "br_run cfg is \<lparr>bk_state = OPEN, bk_failures = n, bk_opened_at = None, bk_probes = 0\<rparr> =
      \<lparr>bk_state = OPEN, bk_failures = n, bk_opened_at = None, bk_probes = 0\<rparr>"
  proof (induction "is")
    case (Cons i "is")
    then show ?case by (cases i) (simp_all add: apply_success_def apply_failure_def apply_tick_def)
  qed simp
qed (auto simp: apply_failure_def apply_tick_def opened_or_old_def)

theorem untimed_failure_defeats_the_timeout_witness:
  "bk_state (br_run demo_breaker_config [In_failure None, In_tick 60000006]
     \<lparr>bk_state = HALF_OPEN, bk_failures = 3, bk_opened_at = Some 5, bk_probes = 1\<rparr>) = HALF_OPEN"
  using untimed_failure_defeats_the_timeout [of demo_breaker_config "[]" 3
      "\<lparr>bk_state = HALF_OPEN, bk_failures = 3, bk_opened_at = Some 5, bk_probes = 1\<rparr>" 5 60000006]
  by (simp add: timeout_elapsed_def demo_breaker_config_def second_us_def)

end
