(* ===== verification/Experiments.thy ===== *)
theory Experiments
  imports Lifecycles Timestamps
begin

text \<open>
  The lifecycles of experiment plans, runs and queue entries
  (\<^verbatim>\<open>packages/domain/experiment_state.py\<close>), instances of the lifecycle locales, and the queue
  entry with its transitions (\<^verbatim>\<open>packages/domain/experiment_queue.py\<close>,
  \<^verbatim>\<open>packages/domain/protocol_source.py\<close>). Identifiers are texts, times microseconds.
\<close>

section \<open>State machines\<close>

datatype plan_state =
    EP_DRAFT | EP_PREREGISTERED | EP_ARCHIVED

datatype plan_event =
    EPE_PREREGISTER | EPE_ARCHIVE

definition plan_transitions :: "((plan_state \<times> plan_event) \<times> plan_state) list" where
  "plan_transitions = [
    ((EP_DRAFT, EPE_PREREGISTER), EP_PREREGISTERED),
    ((EP_DRAFT, EPE_ARCHIVE), EP_ARCHIVED),
    ((EP_PREREGISTERED, EPE_ARCHIVE), EP_ARCHIVED)]"

definition plan_initial :: plan_state where
  "plan_initial = EP_DRAFT"

definition plan_terminal :: "plan_state list" where
  "plan_terminal = [EP_ARCHIVED]"

definition plan_transition ::
    "plan_state \<Rightarrow> plan_event \<Rightarrow> (plan_state, plan_event) invalid_transition + plan_state" where
  "plan_transition current event = transition_of plan_transitions current event"

datatype exp_run_state =
    ER_PENDING | ER_RUNNING | ER_SUCCEEDED | ER_NEGATIVE_RESULT | ER_FAILED | ER_TIMED_OUT
  | ER_CANCELLED

datatype exp_run_event =
    ERE_START | ERE_COMPLETE_SUCCESS | ERE_COMPLETE_NEGATIVE | ERE_COMPLETE_FAILED
  | ERE_COMPLETE_TIMED_OUT | ERE_CANCEL

definition exp_run_transitions :: "((exp_run_state \<times> exp_run_event) \<times> exp_run_state) list" where
  "exp_run_transitions = [
    ((ER_PENDING, ERE_START), ER_RUNNING),
    ((ER_RUNNING, ERE_COMPLETE_SUCCESS), ER_SUCCEEDED),
    ((ER_RUNNING, ERE_COMPLETE_NEGATIVE), ER_NEGATIVE_RESULT),
    ((ER_RUNNING, ERE_COMPLETE_FAILED), ER_FAILED),
    ((ER_RUNNING, ERE_COMPLETE_TIMED_OUT), ER_TIMED_OUT),
    ((ER_PENDING, ERE_CANCEL), ER_CANCELLED),
    ((ER_RUNNING, ERE_CANCEL), ER_CANCELLED)]"

definition exp_run_initial :: exp_run_state where
  "exp_run_initial = ER_PENDING"

definition exp_run_terminal :: "exp_run_state list" where
  "exp_run_terminal = [ER_SUCCEEDED, ER_NEGATIVE_RESULT, ER_FAILED, ER_TIMED_OUT, ER_CANCELLED]"

definition exp_run_transition ::
    "exp_run_state \<Rightarrow> exp_run_event \<Rightarrow> (exp_run_state, exp_run_event) invalid_transition + exp_run_state" where
  "exp_run_transition current event = transition_of exp_run_transitions current event"

datatype exp_queue_state =
    EQ_QUEUED | EQ_DISPATCHING | EQ_DISPATCHED | EQ_FAILED | EQ_CANCELLED

datatype exp_queue_event =
    EQE_CLAIM | EQE_COMPLETE_DISPATCH | EQE_COMPLETE_FAILURE | EQE_CLAIM_EXPIRED
  | EQE_CANCEL

definition exp_queue_transitions :: "((exp_queue_state \<times> exp_queue_event) \<times> exp_queue_state) list" where
  "exp_queue_transitions = [
    ((EQ_QUEUED, EQE_CLAIM), EQ_DISPATCHING),
    ((EQ_DISPATCHING, EQE_COMPLETE_DISPATCH), EQ_DISPATCHED),
    ((EQ_DISPATCHING, EQE_COMPLETE_FAILURE), EQ_FAILED),
    ((EQ_DISPATCHING, EQE_CLAIM_EXPIRED), EQ_QUEUED),
    ((EQ_QUEUED, EQE_CANCEL), EQ_CANCELLED)]"

definition exp_queue_initial :: exp_queue_state where
  "exp_queue_initial = EQ_QUEUED"

definition exp_queue_terminal :: "exp_queue_state list" where
  "exp_queue_terminal = [EQ_DISPATCHED, EQ_FAILED, EQ_CANCELLED]"

definition exp_queue_transition ::
    "exp_queue_state \<Rightarrow> exp_queue_event \<Rightarrow> (exp_queue_state, exp_queue_event) invalid_transition + exp_queue_state" where
  "exp_queue_transition current event = transition_of exp_queue_transitions current event"

lemmas plan_table_defs = plan_transitions_def plan_initial_def plan_terminal_def is_terminal_def
lemmas exp_run_table_defs = exp_run_transitions_def exp_run_initial_def exp_run_terminal_def is_terminal_def
lemmas exp_queue_table_defs = exp_queue_transitions_def exp_queue_initial_def exp_queue_terminal_def is_terminal_def

definition plan_rank :: "plan_state \<Rightarrow> nat" where
  "plan_rank s = (if is_terminal s plan_terminal then 0 else 1)"

definition exp_run_rank :: "exp_run_state \<Rightarrow> nat" where
  "exp_run_rank s = (if is_terminal s exp_run_terminal then 0 else if s = ER_RUNNING then 1 else 2)"

definition exp_queue_rank :: "exp_queue_state \<Rightarrow> nat" where
  "exp_queue_rank s = (if is_terminal s exp_queue_terminal then 0 else 1)"

lemma plan_closer:
  "\<not> is_terminal s plan_terminal \<Longrightarrow>
     \<exists>e s'. transition_of plan_transitions s e = Inr s' \<and> plan_rank s' < plan_rank s"
  by (cases s) (auto simp: plan_table_defs plan_rank_def transition_of_Inr_iff split: if_splits)

lemma exp_run_closer:
  "\<not> is_terminal s exp_run_terminal \<Longrightarrow>
     \<exists>e s'. transition_of exp_run_transitions s e = Inr s' \<and> exp_run_rank s' < exp_run_rank s"
  by (cases s) (auto simp: exp_run_table_defs exp_run_rank_def transition_of_Inr_iff split: if_splits)

lemma exp_queue_closer:
  "\<not> is_terminal s exp_queue_terminal \<Longrightarrow>
     \<exists>e s'. transition_of exp_queue_transitions s e = Inr s' \<and> exp_queue_rank s' < exp_queue_rank s"
  by (cases s) (auto simp: exp_queue_table_defs exp_queue_rank_def transition_of_Inr_iff split: if_splits)

interpretation plan: closing_lifecycle plan_transitions plan_initial plan_terminal "[]" plan_rank
  by (unfold_locales, simp add: plan_table_defs, force simp: plan_table_defs,
      simp add: plan_table_defs, erule plan_closer)

interpretation exp_run: closing_lifecycle exp_run_transitions exp_run_initial exp_run_terminal "[]" exp_run_rank
  by (unfold_locales, simp add: exp_run_table_defs, force simp: exp_run_table_defs,
      simp add: exp_run_table_defs, erule exp_run_closer)

interpretation exp_queue: closing_lifecycle
  exp_queue_transitions exp_queue_initial exp_queue_terminal "[]" exp_queue_rank
  by (unfold_locales, simp add: exp_queue_table_defs, force simp: exp_queue_table_defs,
      simp add: exp_queue_table_defs, erule exp_queue_closer)

section \<open>Queue entries\<close>

record protocol_source =
  so_protocol_path :: "string option"
  so_draft_id :: "string option"
  so_draft_revision :: "int option"

definition protocol_source_post_init :: "protocol_source \<Rightarrow> protocol_source res" where
  "protocol_source_post_init s =
     (let has_path = (so_protocol_path s \<noteq> None);
          has_draft = (so_draft_id s \<noteq> None \<or> so_draft_revision s \<noteq> None)
      in first_error
        [(has_path = has_draft, ''exactly one protocol source required: protocol_path xor draft revision''),
         (so_protocol_path s = Some [], ''protocol_path must not be empty when provided''),
         (has_draft \<and> (so_draft_id s = None \<or> so_draft_id s = Some []),
          ''draft source requires a non-empty draft_id''),
         (has_draft \<and> (so_draft_revision s = None \<or> the (so_draft_revision s) < 1),
          ''draft source requires a positive draft_revision'')] s)"

definition draft_ref :: "protocol_source \<Rightarrow> (string \<times> int) option" where
  "draft_ref s =
     (case (so_draft_id s, so_draft_revision s) of (Some d, Some r) \<Rightarrow> Some (d, r) | _ \<Rightarrow> None)"

record queue_entry =
  qe_id :: string
  qe_project_id :: string
  qe_plan_id :: string
  qe_source :: protocol_source
  qe_not_before :: "int option"
  qe_state :: exp_queue_state
  qe_run_id :: "string option"
  qe_failure_reason :: "string option"
  qe_claimed_at :: "int option"
  qe_created_at :: int
  qe_updated_at :: int

datatype queue_error =
    QueueTransition "(exp_queue_state, exp_queue_event) invalid_transition"
  | RescheduleRefused exp_queue_state
  | QueueError py_error

definition queue_entry_post_init :: "queue_entry \<Rightarrow> queue_entry res" where
  "queue_entry_post_init e = first_error [(qe_project_id e = [], ''queue entry project_id must not be empty'')] e"

definition qe_is_terminal :: "queue_entry \<Rightarrow> bool" where
  "qe_is_terminal e = is_terminal (qe_state e) exp_queue_terminal"

definition is_due :: "queue_entry \<Rightarrow> int \<Rightarrow> bool" where
  "is_due e now =
     (qe_state e = EQ_QUEUED \<and> (case qe_not_before e of None \<Rightarrow> True | Some t \<Rightarrow> t \<le> now))"

text \<open>The state table decides; \<^verbatim>\<open>replace\<close> runs the constructor again.\<close>

definition moved :: "queue_entry \<Rightarrow> exp_queue_event \<Rightarrow> (exp_queue_state \<Rightarrow> queue_entry) \<Rightarrow> queue_error + queue_entry" where
  "moved e event build =
     (case exp_queue_transition (qe_state e) event of
        Inl err \<Rightarrow> Inl (QueueTransition err)
      | Inr s \<Rightarrow>
          (case queue_entry_post_init (build s) of Inl err \<Rightarrow> Inl (QueueError err) | Inr e' \<Rightarrow> Inr e'))"

definition qe_claim :: "queue_entry \<Rightarrow> int \<Rightarrow> queue_error + queue_entry" where
  "qe_claim e now =
     moved e EQE_CLAIM (\<lambda>s. e\<lparr>qe_state := s, qe_claimed_at := Some now, qe_updated_at := now\<rparr>)"

definition qe_requeue :: "queue_entry \<Rightarrow> int \<Rightarrow> queue_error + queue_entry" where
  "qe_requeue e now =
     moved e EQE_CLAIM_EXPIRED (\<lambda>s. e\<lparr>qe_state := s, qe_claimed_at := None, qe_failure_reason := None,
       qe_updated_at := now\<rparr>)"

definition mark_dispatched :: "queue_entry \<Rightarrow> string \<Rightarrow> int \<Rightarrow> queue_error + queue_entry" where
  "mark_dispatched e run_id now =
     (if run_id = [] then Inl (QueueError (ValueError ''dispatched entry requires a run id''))
      else moved e EQE_COMPLETE_DISPATCH
             (\<lambda>s. e\<lparr>qe_state := s, qe_run_id := Some run_id, qe_updated_at := now\<rparr>))"

definition mark_failed :: "queue_entry \<Rightarrow> string \<Rightarrow> int \<Rightarrow> queue_error + queue_entry" where
  "mark_failed e why now =
     (if why = [] then Inl (QueueError (ValueError ''failed entry requires a reason''))
      else moved e EQE_COMPLETE_FAILURE
             (\<lambda>s. e\<lparr>qe_state := s, qe_failure_reason := Some why, qe_updated_at := now\<rparr>))"

definition qe_cancel :: "queue_entry \<Rightarrow> int \<Rightarrow> queue_error + queue_entry" where
  "qe_cancel e now = moved e EQE_CANCEL (\<lambda>s. e\<lparr>qe_state := s, qe_updated_at := now\<rparr>)"

definition reschedule :: "queue_entry \<Rightarrow> int option \<Rightarrow> int \<Rightarrow> queue_error + queue_entry" where
  "reschedule e not_before now =
     (if qe_state e \<noteq> EQ_QUEUED then Inl (RescheduleRefused (qe_state e))
      else (case queue_entry_post_init (e\<lparr>qe_not_before := not_before, qe_updated_at := now\<rparr>) of
              Inl err \<Rightarrow> Inl (QueueError err) | Inr e' \<Rightarrow> Inr e'))"

lemma entry_post_init_Inr: "queue_entry_post_init e = Inr e' \<longleftrightarrow> e' = e \<and> qe_project_id e \<noteq> []"
  by (auto simp: queue_entry_post_init_def)

lemmas queue_moves = qe_claim_def qe_requeue_def mark_dispatched_def mark_failed_def qe_cancel_def moved_def
  exp_queue_transition_def

lemma qe_claim_eq:
  "qe_claim e now = Inr e' \<longleftrightarrow> qe_state e = EQ_QUEUED \<and> qe_project_id e \<noteq> [] \<and>
     e' = e\<lparr>qe_state := EQ_DISPATCHING, qe_claimed_at := Some now, qe_updated_at := now\<rparr>"
  by (cases "qe_state e")
    (auto simp: queue_moves transition_of_def exp_queue_transitions_def queue_entry_post_init_def)

lemma qe_requeue_eq:
  "qe_requeue e now = Inr e' \<longleftrightarrow> qe_state e = EQ_DISPATCHING \<and> qe_project_id e \<noteq> [] \<and>
     e' = e\<lparr>qe_state := EQ_QUEUED, qe_claimed_at := None, qe_failure_reason := None, qe_updated_at := now\<rparr>"
  by (cases "qe_state e")
    (auto simp: queue_moves transition_of_def exp_queue_transitions_def queue_entry_post_init_def)

lemma qe_cancel_eq:
  "qe_cancel e now = Inr e' \<longleftrightarrow> qe_state e = EQ_QUEUED \<and> qe_project_id e \<noteq> [] \<and>
     e' = e\<lparr>qe_state := EQ_CANCELLED, qe_updated_at := now\<rparr>"
  by (cases "qe_state e")
    (auto simp: queue_moves transition_of_def exp_queue_transitions_def queue_entry_post_init_def)

lemma mark_dispatched_eq:
  "mark_dispatched e run_id now = Inr e' \<longleftrightarrow> run_id \<noteq> [] \<and> qe_state e = EQ_DISPATCHING \<and> qe_project_id e \<noteq> [] \<and>
     e' = e\<lparr>qe_state := EQ_DISPATCHED, qe_run_id := Some run_id, qe_updated_at := now\<rparr>"
  by (cases "qe_state e")
    (auto simp: queue_moves transition_of_def exp_queue_transitions_def queue_entry_post_init_def)

lemma mark_failed_eq:
  "mark_failed e why now = Inr e' \<longleftrightarrow> why \<noteq> [] \<and> qe_state e = EQ_DISPATCHING \<and> qe_project_id e \<noteq> [] \<and>
     e' = e\<lparr>qe_state := EQ_FAILED, qe_failure_reason := Some why, qe_updated_at := now\<rparr>"
  by (cases "qe_state e")
    (auto simp: queue_moves transition_of_def exp_queue_transitions_def queue_entry_post_init_def)

end
