(* ===== verification/Experiment_Queue.thy ===== *)
theory Experiment_Queue
  imports Experiments Adapter_Base Task_Contract
begin

text \<open>
  The experiment queue: the table of
  \<^verbatim>\<open>adapters/sqlite/experiment_store.py\<close> with the claim (its choice and
  its conditional write apart), the return of expired claims, cancelling and rescheduling, and one
  pass of the dispatcher (\<^verbatim>\<open>services/api/experiment_queue.py\<close>). A row has
  the columns the queries use and the entry that is its JSON text. The time a claim may be held is
  given in microseconds. The telemetry of the dispatcher is left out. Starting a run is injected:
  a function from the entry to the run's identifier or an error; so is saving the started run,
  which may raise; the plans are the plan states the store knows.
\<close>

section \<open>The table\<close>

record queue_row =
  qr_entry_id :: string
  qr_project_id :: string
  qr_plan_id :: string
  qr_state :: exp_queue_state
  qr_not_before :: "int option"
  qr_claimed_at :: "int option"
  qr_entry :: queue_entry
  qr_created_at :: int
  qr_updated_at :: int

record queue_store = adapter_base +
  qs_rows :: "queue_row list"

definition queue_columns :: "queue_entry \<Rightarrow> queue_row" where
  "queue_columns e =
     \<lparr>qr_entry_id = qe_id e, qr_project_id = qe_project_id e, qr_plan_id = qe_plan_id e, qr_state = qe_state e,
      qr_not_before = qe_not_before e, qr_claimed_at = qe_claimed_at e, qr_entry = e,
      qr_created_at = qe_created_at e, qr_updated_at = qe_updated_at e\<rparr>"

text \<open>\<^verbatim>\<open>INSERT ... ON CONFLICT DO UPDATE\<close>: the creation column of an existing row stays.\<close>

definition upsert_queue :: "queue_entry \<Rightarrow> queue_row list \<Rightarrow> queue_row list" where
  "upsert_queue e rows =
     (if qe_id e \<in> qr_entry_id ` set rows
      then upd_row qr_entry_id (qe_id e) (\<lambda>r. (queue_columns e)\<lparr>qr_created_at := qr_created_at r\<rparr>) rows
      else rows @ [queue_columns e])"

definition conditional_write ::
    "queue_entry \<Rightarrow> exp_queue_state \<Rightarrow> queue_row list \<Rightarrow> bool \<times> queue_row list" where
  "conditional_write e from_state rows =
     (length (filter (\<lambda>r. qr_entry_id r = qe_id e \<and> qr_state r = from_state) rows) = 1,
      map (\<lambda>r. if qr_entry_id r = qe_id e \<and> qr_state r = from_state
               then r\<lparr>qr_state := qe_state e, qr_claimed_at := qe_claimed_at e, qr_entry := e,
                      qr_updated_at := qe_updated_at e\<rparr>
               else r) rows)"

definition save_queue_entry :: "queue_entry \<Rightarrow> queue_store \<Rightarrow> unit res \<times> queue_store" where
  "save_queue_entry e st =
     (if ab_closed st then (Inl closed_error, st)
      else (Inr (), log_ok ''save_queue_entry'' (qe_id e) (st\<lparr>qs_rows := upsert_queue e (qs_rows st)\<rparr>)))"

definition unknown_experiment :: "string \<Rightarrow> py_error" where
  "unknown_experiment key = InvalidInputError (''unknown experiment id: '' @ key)"

definition get_queue_entry :: "string \<Rightarrow> queue_store \<Rightarrow> queue_entry res \<times> queue_store" where
  "get_queue_entry eid st =
     (if ab_closed st then (Inl closed_error, st)
      else (case row_of qr_entry_id eid (qs_rows st) of
              None \<Rightarrow> (Inl (unknown_experiment eid), log_error ''get_queue_entry'' eid st)
            | Some r \<Rightarrow> (Inr (qr_entry r), log_ok ''get_queue_entry'' eid st)))"

definition list_queue_entries :: "string \<Rightarrow> queue_store \<Rightarrow> queue_entry list res \<times> queue_store" where
  "list_queue_entries proj st =
     (if ab_closed st then (Inl closed_error, st)
      else (Inr (map qr_entry (sort_key qr_created_at (filter (\<lambda>r. qr_project_id r = proj) (qs_rows st)))),
            log_ok ''list_queue_entries'' proj st))"

definition claim_expired :: "int \<Rightarrow> int \<Rightarrow> queue_entry \<Rightarrow> bool" where
  "claim_expired now ttl e =
     (case qe_claimed_at e of None \<Rightarrow> True | Some t \<Rightarrow> ttl \<le> now - t)"

text \<open>The loop over the rows selected before it starts.\<close>

fun requeue_loop :: "int \<Rightarrow> int \<Rightarrow> queue_row list \<Rightarrow> queue_row list \<Rightarrow> queue_error + queue_row list" where
  "requeue_loop now ttl [] rows = Inr rows"
| "requeue_loop now ttl (r # rs) rows =
     (if claim_expired now ttl (qr_entry r) then
        (case qe_requeue (qr_entry r) now of
           Inl err \<Rightarrow> Inl err
         | Inr e \<Rightarrow> requeue_loop now ttl rs (snd (conditional_write e (qe_state (qr_entry r)) rows)))
      else requeue_loop now ttl rs rows)"

definition requeue_expired :: "int \<Rightarrow> int \<Rightarrow> queue_row list \<Rightarrow> queue_error + queue_row list" where
  "requeue_expired now ttl rows = requeue_loop now ttl (filter (\<lambda>r. qr_state r = EQ_DISPATCHING) rows) rows"

definition due_order :: "queue_entry \<Rightarrow> int \<times> int" where
  "due_order e = (case qe_not_before e of Some t \<Rightarrow> t | None \<Rightarrow> qe_created_at e, qe_created_at e)"

text \<open>\<^verbatim>\<open>min(due, key=_due_order)\<close>: the first of the smallest.\<close>

definition next_due :: "int \<Rightarrow> queue_row list \<Rightarrow> queue_entry option" where
  "next_due now rows =
     (case filter (\<lambda>e. is_due e now) (map qr_entry (filter (\<lambda>r. qr_state r = EQ_QUEUED) rows)) of
        [] \<Rightarrow> None
      | due \<Rightarrow> Some (hd (sort_key due_order due)))"

text \<open>
  A claim reads (expired claims go back to the queue, then the first due entry) and then writes
  under the condition that the row is still in the state that was read. \<^verbatim>\<open>with self._conn\<close> takes no
  lock before the first write, so other connections may come between the two; \<open>claim_due_entry\<close>
  is the claim nobody interferes with.
\<close>

definition claim_choose ::
    "int \<Rightarrow> int \<Rightarrow> queue_row list \<Rightarrow> queue_error + queue_row list \<times> queue_entry option" where
  "claim_choose now ttl rows =
     (case requeue_expired now ttl rows of
        Inl err \<Rightarrow> Inl err
      | Inr rows' \<Rightarrow> Inr (rows', next_due now rows'))"

definition claim_write ::
    "int \<Rightarrow> queue_entry \<Rightarrow> queue_store \<Rightarrow> (queue_error + queue_entry option) \<times> queue_store" where
  "claim_write now e st =
     (case qe_claim e now of
        Inl err \<Rightarrow> (Inl err, st)
      | Inr claimed \<Rightarrow>
          (let (applied, rows') = conditional_write claimed (qe_state e) (qs_rows st)
           in (Inr (if applied then Some claimed else None),
               log_result ''claim_due_entry'' (qe_id claimed) (if applied then ''True'' else ''False'')
                 (st\<lparr>qs_rows := rows'\<rparr>))))"

definition claim_due_entry ::
    "int \<Rightarrow> int \<Rightarrow> queue_store \<Rightarrow> (queue_error + queue_entry option) \<times> queue_store" where
  "claim_due_entry now ttl st =
     (if ab_closed st then (Inl (QueueError closed_error), st)
      else (case claim_choose now ttl (qs_rows st) of
              Inl err \<Rightarrow> (Inl err, st)
            | Inr (rows, None) \<Rightarrow> (Inr None, log_result ''claim_due_entry'' [] ''none'' (st\<lparr>qs_rows := rows\<rparr>))
            | Inr (rows, Some e) \<Rightarrow>
                (case claim_write now e (st\<lparr>qs_rows := rows\<rparr>) of
                   (Inl err, _) \<Rightarrow> (Inl err, st)
                 | (Inr res, st') \<Rightarrow> (Inr res, st'))))"

definition conflict_message :: "string \<Rightarrow> string" where
  "conflict_message eid = ''queue entry '' @ eid @ '' is not QUEUED; the operation applies to QUEUED only''"

definition change_entry ::
    "string \<Rightarrow> string \<Rightarrow> (queue_entry \<Rightarrow> queue_error + queue_entry) \<Rightarrow> queue_store \<Rightarrow> queue_entry res \<times> queue_store" where
  "change_entry method eid change st =
     (if ab_closed st then (Inl closed_error, st)
      else (case row_of qr_entry_id eid (qs_rows st) of
              None \<Rightarrow> (Inl (InvalidInputError (''unknown queue entry id: '' @ eid)), st)
            | Some r \<Rightarrow>
                (case change (qr_entry r) of
                   Inl (QueueError err) \<Rightarrow> (Inl err, st)
                 | Inl _ \<Rightarrow> (Inl (InvalidInputError (conflict_message eid)), st)
                 | Inr e \<Rightarrow>
                     (let (applied, rows') = conditional_write e (qe_state (qr_entry r)) (qs_rows st)
                      in if applied then (Inr e, log_ok method eid (st\<lparr>qs_rows := rows'\<rparr>))
                         else (Inl (InvalidInputError (conflict_message eid)), st\<lparr>qs_rows := rows'\<rparr>)))))"

definition cancel_queue_entry :: "string \<Rightarrow> int \<Rightarrow> queue_store \<Rightarrow> queue_entry res \<times> queue_store" where
  "cancel_queue_entry eid now st = change_entry ''cancel_queue_entry'' eid (\<lambda>e. qe_cancel e now) st"

definition reschedule_queue_entry ::
    "string \<Rightarrow> int option \<Rightarrow> int \<Rightarrow> queue_store \<Rightarrow> queue_entry res \<times> queue_store" where
  "reschedule_queue_entry eid not_before now st =
     change_entry ''reschedule_queue_entry'' eid (\<lambda>e. reschedule e not_before now) st"

section \<open>The dispatcher\<close>

record dispatch_outcome =
  do_entry_id :: string
  do_dispatched :: bool
  do_run_id :: "string option"
  do_reason :: "string option"

definition blocking_reason :: "(string \<rightharpoonup> plan_state) \<Rightarrow> queue_entry \<Rightarrow> string option" where
  "blocking_reason plans e =
     (case plans (qe_plan_id e) of
        None \<Rightarrow> Some (''experiment plan '' @ qe_plan_id e @ '' no longer exists'')
      | Some EP_ARCHIVED \<Rightarrow> Some (''experiment plan '' @ qe_plan_id e @ '' is ARCHIVED; not dispatching'')
      | Some _ \<Rightarrow> None)"

definition short_reason :: "string \<Rightarrow> string \<Rightarrow> string" where
  "short_reason name msg =
     (let text = (if strip msg = [] then name else strip msg)
      in if length text \<le> 500 then text else take 497 text @ ''...'')"

text \<open>
  \<^verbatim>\<open>_fail\<close> writes the reason back; the outcome is returned even if the entry refused the event.
\<close>

definition fail_entry :: "queue_entry \<Rightarrow> string \<Rightarrow> int \<Rightarrow> queue_store \<Rightarrow> dispatch_outcome res \<times> queue_store" where
  "fail_entry e why now st =
     (let outcome = \<lparr>do_entry_id = qe_id e, do_dispatched = False, do_run_id = None, do_reason = Some why\<rparr>
      in case mark_failed e why now of
           Inl (QueueError err) \<Rightarrow> (Inl err, st)
         | Inl _ \<Rightarrow> (Inr outcome, st)
         | Inr failed \<Rightarrow>
             (case save_queue_entry failed st of
                (Inl err, st') \<Rightarrow> (Inl err, st')
              | (Inr _, st') \<Rightarrow> (Inr outcome, st')))"

text \<open>
  The started run is saved before the entry is written; an error of \<^verbatim>\<open>save_run\<close> leaves the pass, and
  the entry keeps its claim.
\<close>

definition dispatch_entry ::
    "(string \<rightharpoonup> plan_state) \<Rightarrow> (queue_entry \<Rightarrow> (string \<times> string) + string) \<Rightarrow> (string \<Rightarrow> unit res) \<Rightarrow> int \<Rightarrow>
     queue_entry \<Rightarrow> queue_store \<Rightarrow> (queue_error + dispatch_outcome) \<times> queue_store" where
  "dispatch_entry plans start_run save_run now e st =
     (case blocking_reason plans e of
        Some why \<Rightarrow> map_prod (map_sum QueueError id) id (fail_entry e why now st)
      | None \<Rightarrow>
          (case start_run e of
             Inl (name, msg) \<Rightarrow> map_prod (map_sum QueueError id) id (fail_entry e (short_reason name msg) now st)
           | Inr run_id \<Rightarrow>
               (case save_run run_id of
                  Inl err \<Rightarrow> (Inl (QueueError err), st)
                | Inr _ \<Rightarrow>
                    (case mark_dispatched e run_id now of
                       Inl err \<Rightarrow> (Inl err, st)
                     | Inr d \<Rightarrow>
                         (case save_queue_entry d st of
                            (Inl err, st') \<Rightarrow> (Inl (QueueError err), st')
                          | (Inr _, st') \<Rightarrow>
                              (Inr \<lparr>do_entry_id = qe_id e, do_dispatched = True, do_run_id = Some run_id,
                                    do_reason = None\<rparr>, st'))))))"

text \<open>One pass: a failing claim is logged and the pass does nothing; a failing dispatch leaves the pass.\<close>

definition run_once ::
    "(string \<rightharpoonup> plan_state) \<Rightarrow> (queue_entry \<Rightarrow> (string \<times> string) + string) \<Rightarrow> (string \<Rightarrow> unit res) \<Rightarrow> int \<Rightarrow> int \<Rightarrow>
     int \<Rightarrow> queue_store \<Rightarrow> (queue_error + dispatch_outcome list) \<times> queue_store" where
  "run_once plans start_run save_run now ttl later st =
     (case claim_due_entry now ttl st of
        (Inl _, st') \<Rightarrow> (Inr [], st')
      | (Inr None, st') \<Rightarrow> (Inr [], st')
      | (Inr (Some e), st') \<Rightarrow>
          (case dispatch_entry plans start_run save_run later e st' of
             (Inl err, st2) \<Rightarrow> (Inl err, st2)
           | (Inr outcome, st2) \<Rightarrow> (Inr [outcome], st2)))"

section \<open>The table's invariant\<close>

definition row_consistent :: "queue_row \<Rightarrow> bool" where
  "row_consistent r =
     (qr_entry_id r = qe_id (qr_entry r) \<and> qr_state r = qe_state (qr_entry r) \<and>
      qr_claimed_at r = qe_claimed_at (qr_entry r) \<and> qe_project_id (qr_entry r) \<noteq> [])"

definition queue_ok :: "queue_row list \<Rightarrow> bool" where
  "queue_ok rows = (distinct (map qr_entry_id rows) \<and> list_all row_consistent rows)"

lemma conditional_write_keys: "map qr_entry_id (snd (conditional_write e s rows)) = map qr_entry_id rows"
  by (simp add: conditional_write_def)

lemma queue_ok_conditional_write:
  assumes "queue_ok rows" and "qe_project_id e \<noteq> []"
  shows "queue_ok (snd (conditional_write e s rows))"
proof -
  have "distinct (map qr_entry_id (snd (conditional_write e s rows)))"
    using assms(1) by (simp add: conditional_write_keys queue_ok_def)
  moreover have "list_all row_consistent (snd (conditional_write e s rows))"
    using assms by (auto simp: conditional_write_def queue_ok_def list_all_iff row_consistent_def)
  ultimately show ?thesis by (simp add: queue_ok_def)
qed

lemma length_filter_key:
  assumes "distinct (map key rows)" and "r \<in> set rows" and "P r"
  shows "length (filter (\<lambda>x. key x = key r \<and> P x) rows) = 1"
  using assms
proof (induction rows)
  case (Cons x xs)
  show ?case
  proof (cases "r = x")
    case True
    with Cons.prems have "filter (\<lambda>y. key y = key r \<and> P y) xs = []" by (auto simp: filter_empty_conv image_iff)
    with True Cons.prems show ?thesis by simp
  next
    case False
    with Cons.prems have "key x \<noteq> key r" by auto
    with False Cons show ?thesis by simp
  qed
qed simp

text \<open>What the return of expired claims leaves of a row.\<close>

definition unexpired :: "int \<Rightarrow> int \<Rightarrow> queue_row \<Rightarrow> queue_row" where
  "unexpired now ttl r =
     (if qr_state r = EQ_DISPATCHING \<and> claim_expired now ttl (qr_entry r)
      then r\<lparr>qr_state := EQ_QUEUED, qr_claimed_at := None,
             qr_entry := (qr_entry r)\<lparr>qe_state := EQ_QUEUED, qe_claimed_at := None, qe_failure_reason := None,
                                     qe_updated_at := now\<rparr>,
             qr_updated_at := now\<rparr>
      else r)"

lemma unexpired_entry_id [simp]: "qr_entry_id (unexpired now ttl r) = qr_entry_id r"
  by (simp add: unexpired_def)

lemma requeue_loop_result:
  assumes "queue_ok rows" and "distinct (map qr_entry_id rs)"
    and "\<And>r. r \<in> set rs \<Longrightarrow> r \<in> set rows \<and> qr_state r = EQ_DISPATCHING"
  shows "requeue_loop now ttl rs rows =
    Inr (map (\<lambda>r. if qr_entry_id r \<in> qr_entry_id ` set rs then unexpired now ttl r else r) rows)"
  using assms
proof (induction rs arbitrary: rows)
  case (Cons x xs)
  have x: "x \<in> set rows" "qr_state x = EQ_DISPATCHING" "row_consistent x"
    using Cons.prems by (auto simp: queue_ok_def list_all_iff)
  have others: "qr_entry_id x \<notin> qr_entry_id ` set xs" using Cons.prems(2) by simp
  have unique: "r = x" if "r \<in> set rows" "qr_entry_id r = qr_entry_id x" for r
    using that x Cons.prems(1) by (metis queue_ok_def row_of_distinct option.inject)
  show ?case
  proof (cases "claim_expired now ttl (qr_entry x)")
    case True
    let ?e = "(qr_entry x)\<lparr>qe_state := EQ_QUEUED, qe_claimed_at := None, qe_failure_reason := None,
       qe_updated_at := now\<rparr>"
    let ?rows = "snd (conditional_write ?e EQ_DISPATCHING rows)"
    have req: "qe_requeue (qr_entry x) now = Inr ?e" using x by (simp add: qe_requeue_eq row_consistent_def)
    have rows': "?rows = map (\<lambda>r. if qr_entry_id r = qr_entry_id x then unexpired now ttl r else r) rows"
      using x True unique
      by (auto simp: conditional_write_def unexpired_def row_consistent_def)
    have "queue_ok ?rows" using queue_ok_conditional_write [OF Cons.prems(1), of ?e] x by (simp add: row_consistent_def)
    moreover have "r \<in> set ?rows \<and> qr_state r = EQ_DISPATCHING" if "r \<in> set xs" for r
      using that Cons.prems(3) others unfolding rows' by (auto simp: image_iff)
    ultimately have "requeue_loop now ttl xs ?rows =
        Inr (map (\<lambda>r. if qr_entry_id r \<in> qr_entry_id ` set xs then unexpired now ttl r else r) ?rows)"
      using Cons.prems(2) by (intro Cons.IH) auto
    with True req x others show ?thesis by (auto simp: rows' row_consistent_def)
  next
    case False
    then have "unexpired now ttl x = x" by (simp add: unexpired_def)
    then have same: "unexpired now ttl r = r" if "r \<in> set rows" "qr_entry_id r = qr_entry_id x" for r
      using unique [OF that] by simp
    have "requeue_loop now ttl (x # xs) rows =
        Inr (map (\<lambda>r. if qr_entry_id r \<in> qr_entry_id ` set xs then unexpired now ttl r else r) rows)"
      using False Cons.IH [OF Cons.prems(1)] Cons.prems(2,3) by simp
    also have "map (\<lambda>r. if qr_entry_id r \<in> qr_entry_id ` set xs then unexpired now ttl r else r) rows =
        map (\<lambda>r. if qr_entry_id r \<in> qr_entry_id ` set (x # xs) then unexpired now ttl r else r) rows"
      by (rule map_cong [OF refl]) (simp add: same)
    finally show ?thesis .
  qed
qed simp

lemma requeue_expired_result:
  assumes "queue_ok rows"
  shows "requeue_expired now ttl rows = Inr (map (unexpired now ttl) rows)"
proof -
  let ?rs = "filter (\<lambda>r. qr_state r = EQ_DISPATCHING) rows"
  have "distinct (map qr_entry_id ?rs)" using assms distinct_map_filter by (auto simp: queue_ok_def)
  then have "requeue_expired now ttl rows =
      Inr (map (\<lambda>r. if qr_entry_id r \<in> qr_entry_id ` set ?rs then unexpired now ttl r else r) rows)"
    unfolding requeue_expired_def by (intro requeue_loop_result [OF assms]) auto
  also have "map (\<lambda>r. if qr_entry_id r \<in> qr_entry_id ` set ?rs then unexpired now ttl r else r) rows =
      map (unexpired now ttl) rows"
    by (rule map_cong [OF refl]) (auto simp: unexpired_def)
  finally show ?thesis .
qed

lemma queue_ok_unexpired: "queue_ok rows \<Longrightarrow> queue_ok (map (unexpired now ttl) rows)"
  unfolding queue_ok_def list_all_iff by (simp add: comp_def) (auto simp: row_consistent_def unexpired_def)

lemma hd_sort_key:
  assumes "xs \<noteq> []"
  shows "hd (sort_key k xs) \<in> set xs" and "\<And>x. x \<in> set xs \<Longrightarrow> k (hd (sort_key k xs)) \<le> k x"
proof -
  obtain y ys where ys: "sort_key k xs = y # ys"
    using assms by (cases "sort_key k xs") auto
  have s: "set xs = insert y (set ys)" using set_sort [of k xs] unfolding ys by simp
  show "hd (sort_key k xs) \<in> set xs" using s ys by simp
  show "k (hd (sort_key k xs)) \<le> k x" if "x \<in> set xs" for x
    using that s sorted_sort_key [of k xs] unfolding ys by auto
qed

lemma next_due_Some:
  assumes "next_due now rows = Some e"
  shows "\<exists>r\<in>set rows. qr_state r = EQ_QUEUED \<and> qr_entry r = e \<and> is_due e now"
    and "\<And>r. r \<in> set rows \<Longrightarrow> qr_state r = EQ_QUEUED \<Longrightarrow> is_due (qr_entry r) now \<Longrightarrow>
           due_order e \<le> due_order (qr_entry r)"
proof -
  let ?due = "filter (\<lambda>e. is_due e now) (map qr_entry (filter (\<lambda>r. qr_state r = EQ_QUEUED) rows))"
  have e: "e = hd (sort_key due_order ?due)" "?due \<noteq> []"
    using assms by (auto simp: next_due_def split: list.splits)
  show "\<exists>r\<in>set rows. qr_state r = EQ_QUEUED \<and> qr_entry r = e \<and> is_due e now"
    using hd_sort_key(1) [OF e(2), of due_order] e(1) by auto
  show "due_order e \<le> due_order (qr_entry r)"
    if "r \<in> set rows" "qr_state r = EQ_QUEUED" "is_due (qr_entry r) now" for r
    using hd_sort_key(2) [OF e(2), of "qr_entry r" due_order] e(1) that by simp
qed

lemma next_due_None:
  "next_due now rows = None \<longleftrightarrow> (\<forall>r\<in>set rows. qr_state r = EQ_QUEUED \<longrightarrow> \<not> is_due (qr_entry r) now)"
proof -
  have "next_due now rows = None \<longleftrightarrow>
      filter (\<lambda>e. is_due e now) (map qr_entry (filter (\<lambda>r. qr_state r = EQ_QUEUED) rows)) = []"
    by (simp add: next_due_def split: list.splits)
  then show ?thesis by (auto simp: filter_empty_conv)
qed

section \<open>Claims\<close>

definition claimed_by :: "int \<Rightarrow> queue_entry \<Rightarrow> queue_entry" where
  "claimed_by now e = e\<lparr>qe_state := EQ_DISPATCHING, qe_claimed_at := Some now, qe_updated_at := now\<rparr>"

definition write_entry :: "queue_entry \<Rightarrow> queue_row \<Rightarrow> queue_row" where
  "write_entry e r =
     r\<lparr>qr_state := qe_state e, qr_claimed_at := qe_claimed_at e, qr_entry := e, qr_updated_at := qe_updated_at e\<rparr>"

lemma write_entry_id [simp]: "qr_entry_id (write_entry e r) = qr_entry_id r"
  by (simp add: write_entry_def)

lemma conditional_write_hit:
  assumes "queue_ok rows" and "r \<in> set rows" and "qr_entry_id r = qe_id e" and "qr_state r = s"
  shows "conditional_write e s rows = (True, upd_row qr_entry_id (qe_id e) (write_entry e) rows)"
proof -
  have unique: "x = r" if "x \<in> set rows" "qr_entry_id x = qr_entry_id r" for x
    using that assms(1,2) by (metis queue_ok_def row_of_distinct option.inject)
  have "length (filter (\<lambda>x. qr_entry_id x = qe_id e \<and> qr_state x = s) rows) = 1"
    using length_filter_key [of qr_entry_id rows r "\<lambda>x. qr_state x = s"] assms by (simp add: queue_ok_def)
  with unique assms(3,4) show ?thesis
    by (auto simp: conditional_write_def upd_row_def write_entry_def)
qed

lemma claim_result:
  assumes "\<not> ab_closed st" and "queue_ok (qs_rows st)" and "claim_due_entry now ttl st = (out, st')"
  defines "rows \<equiv> map (unexpired now ttl) (qs_rows st)"
  shows "next_due now rows = None \<Longrightarrow> out = Inr None \<and> qs_rows st' = rows"
    and "next_due now rows = Some e \<Longrightarrow> out = Inr (Some (claimed_by now e)) \<and>
      qs_rows st' = upd_row qr_entry_id (qe_id e) (write_entry (claimed_by now e)) rows"
    and "\<not> ab_closed st'" and "queue_ok (qs_rows st')"
proof -
  have ok: "queue_ok rows" unfolding rows_def using assms(2) by (rule queue_ok_unexpired)
  have req: "requeue_expired now ttl (qs_rows st) = Inr rows"
    unfolding rows_def using assms(2) by (rule requeue_expired_result)
  show none: "out = Inr None \<and> qs_rows st' = rows" if "next_due now rows = None"
    using that assms(1,3) req by (auto simp: claim_due_entry_def claim_choose_def log_defs)
  have some: "out = Inr (Some (claimed_by now e)) \<and>
      qs_rows st' = upd_row qr_entry_id (qe_id e) (write_entry (claimed_by now e)) rows \<and>
      \<not> ab_closed st' \<and> qe_project_id e \<noteq> []"
    if e: "next_due now rows = Some e" for e
  proof -
    obtain r where r: "r \<in> set rows" "qr_state r = EQ_QUEUED" "qr_entry r = e" "is_due e now"
      using next_due_Some(1) [OF e] by blast
    then have c: "row_consistent r" using ok by (simp add: queue_ok_def list_all_iff)
    then have cl: "qe_claim e now = Inr (claimed_by now e)"
      using r by (simp add: qe_claim_eq claimed_by_def row_consistent_def)
    have "conditional_write (claimed_by now e) EQ_QUEUED rows =
        (True, upd_row qr_entry_id (qe_id e) (write_entry (claimed_by now e)) rows)"
      using conditional_write_hit [OF ok r(1), of "claimed_by now e" EQ_QUEUED] r c
      by (simp add: claimed_by_def row_consistent_def)
    with cl assms(1,3) req e r c show ?thesis
      by (auto simp: claim_due_entry_def claim_choose_def claim_write_def log_defs row_consistent_def claimed_by_def)
  qed
  show "out = Inr (Some (claimed_by now e)) \<and>
      qs_rows st' = upd_row qr_entry_id (qe_id e) (write_entry (claimed_by now e)) rows"
    if "next_due now rows = Some e" using some [OF that] by blast
  show "\<not> ab_closed st'"
    using assms(1,3) req some by (cases "next_due now rows") (auto simp: claim_due_entry_def claim_choose_def log_defs)
  show "queue_ok (qs_rows st')"
  proof (cases "next_due now rows")
    case None
    with none ok show ?thesis by simp
  next
    case (Some e)
    have "list_all row_consistent (upd_row qr_entry_id (qe_id e) (write_entry (claimed_by now e)) rows)"
      using ok some [OF Some]
      by (auto simp: list_all_iff upd_row_def queue_ok_def write_entry_def row_consistent_def claimed_by_def)
    moreover have "map qr_entry_id (upd_row qr_entry_id (qe_id e) (write_entry (claimed_by now e)) rows) =
        map qr_entry_id rows" by (rule keys_upd_row) simp
    ultimately show ?thesis using ok some [OF Some] by (simp add: queue_ok_def)
  qed
qed

section \<open>The dispatcher's writes\<close>

lemma row_of_overwrite:
  assumes "\<And>r. key (f r) = k"
  shows "row_of key k' (upd_row key k f rows) =
    (if k' = k then map_option f (row_of key k rows) else row_of key k' rows)"
  by (induction rows) (auto simp: upd_row_def row_of_Cons assms)

lemma row_of_upsert:
  "row_of qr_entry_id k (upsert_queue e rows) =
     (if k = qe_id e
      then Some (case row_of qr_entry_id k rows of
                   None \<Rightarrow> queue_columns e | Some r \<Rightarrow> (queue_columns e)\<lparr>qr_created_at := qr_created_at r\<rparr>)
      else row_of qr_entry_id k rows)"
proof (cases "qe_id e \<in> qr_entry_id ` set rows")
  case True
  let ?f = "\<lambda>r. (queue_columns e)\<lparr>qr_created_at := qr_created_at r\<rparr>"
  obtain r where r: "row_of qr_entry_id (qe_id e) rows = Some r"
    using True by (cases "row_of qr_entry_id (qe_id e) rows") (auto simp: row_of_None_iff)
  have key: "qr_entry_id (?f x) = qe_id e" for x by (simp add: queue_columns_def)
  have "row_of qr_entry_id k (upd_row qr_entry_id (qe_id e) ?f rows) =
      (if k = qe_id e then map_option ?f (row_of qr_entry_id k rows) else row_of qr_entry_id k rows)"
    using row_of_overwrite [of qr_entry_id ?f, OF key, of k rows] by auto
  with True r show ?thesis by (simp add: upsert_queue_def)
next
  case False
  then have "row_of qr_entry_id (qe_id e) rows = None" by (simp add: row_of_None_iff)
  with False show ?thesis by (simp add: upsert_queue_def row_of_append row_of_Cons queue_columns_def split: option.splits)
qed

lemma short_reason_nonempty: "name \<noteq> [] \<Longrightarrow> short_reason name msg \<noteq> []"
  by (simp add: short_reason_def Let_def)

lemma save_entry_result:
  "\<not> ab_closed st \<Longrightarrow> save_queue_entry e st = (Inr (), snd (save_queue_entry e st)) \<and>
     qs_rows (snd (save_queue_entry e st)) = upsert_queue e (qs_rows st)"
  by (simp add: save_queue_entry_def log_defs)

lemma fail_entry_result:
  assumes "\<not> ab_closed st" and "qe_state e = EQ_DISPATCHING" and "qe_project_id e \<noteq> []" and "why \<noteq> []"
  shows "\<exists>st'. fail_entry e why now st =
      (Inr \<lparr>do_entry_id = qe_id e, do_dispatched = False, do_run_id = None, do_reason = Some why\<rparr>, st') \<and>
    qs_rows st' = upsert_queue (e\<lparr>qe_state := EQ_FAILED, qe_failure_reason := Some why, qe_updated_at := now\<rparr>) (qs_rows st)"
proof -
  let ?e = "e\<lparr>qe_state := EQ_FAILED, qe_failure_reason := Some why, qe_updated_at := now\<rparr>"
  have "mark_failed e why now = Inr ?e" using assms by (simp add: mark_failed_eq)
  then show ?thesis using assms(1) by (simp add: fail_entry_def save_queue_entry_def log_defs)
qed

lemma dispatch_entry_result:
  assumes "\<not> ab_closed st" and "qe_state e = EQ_DISPATCHING" and "qe_project_id e \<noteq> []"
    and "blocking_reason plans e = None" and "start_run e = Inr run" and "save_run run = Inr u" and "run \<noteq> []"
  shows "\<exists>st'. dispatch_entry plans start_run save_run now e st =
      (Inr \<lparr>do_entry_id = qe_id e, do_dispatched = True, do_run_id = Some run, do_reason = None\<rparr>, st') \<and>
    qs_rows st' = upsert_queue (e\<lparr>qe_state := EQ_DISPATCHED, qe_run_id := Some run, qe_updated_at := now\<rparr>) (qs_rows st)"
proof -
  let ?e = "e\<lparr>qe_state := EQ_DISPATCHED, qe_run_id := Some run, qe_updated_at := now\<rparr>"
  have "mark_dispatched e run now = Inr ?e" using assms by (simp add: mark_dispatched_eq)
  then show ?thesis using assms by (simp add: dispatch_entry_def save_queue_entry_def log_defs)
qed

lemma dispatch_entry_refused:
  assumes "\<not> ab_closed st" and "qe_state e = EQ_DISPATCHING" and "qe_project_id e \<noteq> []"
    and "\<And>n m. start_run e = Inl (n, m) \<Longrightarrow> n \<noteq> []" and "blocking_reason plans e \<noteq> None \<or> isl (start_run e)"
  shows "\<exists>why st'. dispatch_entry plans start_run save_run now e st =
      (Inr \<lparr>do_entry_id = qe_id e, do_dispatched = False, do_run_id = None, do_reason = Some why\<rparr>, st') \<and>
    qs_rows st' = upsert_queue (e\<lparr>qe_state := EQ_FAILED, qe_failure_reason := Some why, qe_updated_at := now\<rparr>) (qs_rows st)"
proof (cases "blocking_reason plans e")
  case (Some why)
  then have "why \<noteq> []" by (auto simp: blocking_reason_def split: option.splits plan_state.splits)
  from fail_entry_result [OF assms(1-3) this, of now] Some show ?thesis by (auto simp: dispatch_entry_def)
next
  case None
  with assms(5) obtain n m where s: "start_run e = Inl (n, m)" by (cases "start_run e") auto
  with assms(4) have "short_reason n m \<noteq> []" by (simp add: short_reason_nonempty)
  from fail_entry_result [OF assms(1-3) this, of now] None s show ?thesis by (auto simp: dispatch_entry_def)
qed

end
