(* ===== verification/Queue_Properties.thy ===== *)
theory Queue_Properties
  imports Experiment_Queue
begin

text \<open>
  The properties of the experiment queue. A claim on a queue nobody else touches takes the earliest
  due entry. Several dispatchers and the API share the table, and their reads and their conditional
  writes interleave: the steps of a history of such readers and writers are here, with the invariant
  that an entry handed out stays handed out. The last part is one dispatch of a claimed entry.
\<close>

section \<open>Properties\<close>

text \<open>
  A claim takes the earliest due entry and nothing else. On a consistent queue a claim
  first returns the entries whose claim has expired, and then, if no queued entry is due,
  changes nothing more; otherwise it hands out one entry that is due and comes first by its
  scheduled (or creation) time, whose row alone becomes \<open>DISPATCHING\<close> with the time of the
  claim. The queue stays consistent, with one row per entry.
\<close>

theorem claim_takes_the_earliest_due_entry:
  assumes "\<not> ab_closed st" and "queue_ok (qs_rows st)" and "claim_due_entry now ttl st = (out, st')"
    and "rows = map (unexpired now ttl) (qs_rows st)"
  shows "queue_ok (qs_rows st') \<and>
    (out = Inr None \<and> qs_rows st' = rows \<and>
       (\<forall>r\<in>set rows. qr_state r = EQ_QUEUED \<longrightarrow> \<not> is_due (qr_entry r) now) \<or>
     (\<exists>r\<in>set rows. qr_state r = EQ_QUEUED \<and> is_due (qr_entry r) now \<and>
       (\<forall>r'\<in>set rows. qr_state r' = EQ_QUEUED \<and> is_due (qr_entry r') now \<longrightarrow>
          due_order (qr_entry r) \<le> due_order (qr_entry r')) \<and>
       out = Inr (Some (claimed_by now (qr_entry r))) \<and>
       (\<forall>eid. row_of qr_entry_id eid (qs_rows st') =
          (if eid = qr_entry_id r then Some (write_entry (claimed_by now (qr_entry r)) r)
           else row_of qr_entry_id eid rows))))"
proof -
  note claim = claim_result [OF assms(1-3), folded assms(4)]
  have ok: "queue_ok rows" using queue_ok_unexpired [OF assms(2)] assms(4) by simp
  show ?thesis
  proof (cases "next_due now rows")
    case None
    with claim(1,4) show ?thesis by (simp add: next_due_None)
  next
    case (Some e)
    from next_due_Some(1) [OF Some] obtain r where r: "r \<in> set rows" "qr_state r = EQ_QUEUED" "qr_entry r = e"
      "is_due e now" by blast
    have id: "qe_id e = qr_entry_id r" using ok r by (auto simp: queue_ok_def list_all_iff row_consistent_def)
    have "row_of qr_entry_id (qr_entry_id r) rows = Some r"
      using ok r(1) by (intro row_of_distinct) (simp_all add: queue_ok_def)
    then have "row_of qr_entry_id eid (qs_rows st') =
        (if eid = qr_entry_id r then Some (write_entry (claimed_by now e) r) else row_of qr_entry_id eid rows)" for eid
      using claim(2) [OF Some] by (simp add: row_of_upd_row id)
    with r Some claim(2,4) next_due_Some(2) [OF Some] show ?thesis by (intro conjI disjI2 bexI [of _ r]) auto
  qed
qed

definition demo_entry :: "string \<Rightarrow> int \<Rightarrow> queue_entry" where
  "demo_entry eid created = \<lparr>qe_id = eid, qe_project_id = ''proj'', qe_plan_id = ''plan'',
     qe_source = \<lparr>so_protocol_path = Some ''p.yaml'', so_draft_id = None, so_draft_revision = None\<rparr>,
     qe_not_before = None, qe_state = EQ_QUEUED, qe_run_id = None, qe_failure_reason = None,
     qe_claimed_at = None, qe_created_at = created, qe_updated_at = created\<rparr>"

definition demo_queue :: queue_store where
  "demo_queue = \<lparr>ab_closed = False, ab_calls = [], qs_rows = [queue_columns (demo_entry ''b'' 2), queue_columns (demo_entry ''a'' 1)]\<rparr>"

lemma demo_queue_ok: "\<not> ab_closed demo_queue" "queue_ok (qs_rows demo_queue)"
  by (simp_all add: demo_queue_def queue_ok_def row_consistent_def queue_columns_def demo_entry_def)

lemma demo_claim_entry:
  "claim_due_entry 10 300 demo_queue =
     (Inr (Some (claimed_by 10 (demo_entry ''a'' 1))), snd (claim_due_entry 10 300 demo_queue))"
proof -
  have rows: "map (unexpired 10 300) (qs_rows demo_queue) = qs_rows demo_queue"
    by (simp add: demo_queue_def unexpired_def queue_columns_def demo_entry_def)
  have "next_due 10 (qs_rows demo_queue) = Some (demo_entry ''a'' 1)"
    by (simp add: next_due_def demo_queue_def queue_columns_def demo_entry_def is_due_def due_order_def)
  then have "fst (claim_due_entry 10 300 demo_queue) = Inr (Some (claimed_by 10 (demo_entry ''a'' 1)))"
    using claim_result(2) [OF demo_queue_ok, of 10 300 "fst (claim_due_entry 10 300 demo_queue)"
        "snd (claim_due_entry 10 300 demo_queue)" "demo_entry ''a'' 1"] by (simp add: rows)
  then show ?thesis by (metis prod.collapse)
qed

theorem claim_takes_the_earliest_due_entry_witness:
  "queue_ok (qs_rows (snd (claim_due_entry 10 300 demo_queue)))"
  using claim_takes_the_earliest_due_entry [OF demo_queue_ok demo_claim_entry refl] by blast

section \<open>Claims that interleave\<close>

text \<open>
  Every writer of the table reads first and writes later under a condition on the state it read.
  A world is the table with what each client (a number) has read and not yet acted on: the
  \<open>DISPATCHING\<close> rows of a claim's first query with the time of that claim, the due entry a claim
  has chosen, the entry a cancellation or a rescheduling has looked up. The return of expired claims
  is one step after its query, because the first write of a connection locks the others out.
\<close>

record claim_world =
  cw_store :: queue_store
  cw_read :: "nat \<Rightarrow> (int \<times> queue_row list) option"
  cw_chosen :: "nat \<Rightarrow> (int \<times> queue_entry) option"
  cw_entry :: "nat \<Rightarrow> queue_entry option"

datatype queue_step =
    ReadClaims nat int
  | ReturnExpired nat
  | ChooseDue nat int
  | WriteClaim nat
  | ReadEntry nat string
  | WriteCancel nat int
  | WriteMove nat "int option" int
  | Enqueue queue_entry
  | Settle queue_entry

abbreviation world_rows :: "claim_world \<Rightarrow> queue_row list" where
  "world_rows w \<equiv> qs_rows (cw_store w)"

definition set_rows :: "queue_row list \<Rightarrow> claim_world \<Rightarrow> claim_world" where
  "set_rows rows w = w\<lparr>cw_store := (cw_store w)\<lparr>qs_rows := rows\<rparr>\<rparr>"

definition write_change :: "nat \<Rightarrow> (queue_entry \<Rightarrow> queue_error + queue_entry) \<Rightarrow> claim_world \<Rightarrow> claim_world" where
  "write_change d change w =
     (case cw_entry w d of
        None \<Rightarrow> w
      | Some e \<Rightarrow>
          (let w' = w\<lparr>cw_entry := (cw_entry w)(d := None)\<rparr>
           in case change e of
                Inl _ \<Rightarrow> w'
              | Inr e' \<Rightarrow> set_rows (snd (conditional_write e' (qe_state e) (world_rows w))) w'))"

text \<open>A step, with the entry it hands out to a dispatcher.\<close>

fun do_step :: "int \<Rightarrow> queue_step \<Rightarrow> claim_world \<Rightarrow> queue_entry option \<times> claim_world" where
  "do_step ttl (ReadClaims d now) w =
     (None, w\<lparr>cw_read := (cw_read w)(d := Some (now, filter (\<lambda>r. qr_state r = EQ_DISPATCHING) (world_rows w)))\<rparr>)"
| "do_step ttl (ReturnExpired d) w =
     (None,
      (case cw_read w d of
         None \<Rightarrow> w
       | Some (now, rs) \<Rightarrow>
           (let w' = w\<lparr>cw_read := (cw_read w)(d := None)\<rparr>
            in case requeue_loop now ttl rs (world_rows w) of Inl _ \<Rightarrow> w' | Inr rows \<Rightarrow> set_rows rows w')))"
| "do_step ttl (ChooseDue d now) w =
     (None, w\<lparr>cw_chosen := (cw_chosen w)(d := map_option (Pair now) (next_due now (world_rows w)))\<rparr>)"
| "do_step ttl (WriteClaim d) w =
     (case cw_chosen w d of
        None \<Rightarrow> (None, w)
      | Some (now, e) \<Rightarrow>
          (let w' = w\<lparr>cw_chosen := (cw_chosen w)(d := None)\<rparr>
           in case claim_write now e (cw_store w) of
                (Inl _, _) \<Rightarrow> (None, w')
              | (Inr res, st) \<Rightarrow> (res, w'\<lparr>cw_store := st\<rparr>)))"
| "do_step ttl (ReadEntry d eid) w =
     (None, w\<lparr>cw_entry := (cw_entry w)(d := map_option qr_entry (row_of qr_entry_id eid (world_rows w)))\<rparr>)"
| "do_step ttl (WriteCancel d now) w = (None, write_change d (\<lambda>e. qe_cancel e now) w)"
| "do_step ttl (WriteMove d not_before now) w = (None, write_change d (\<lambda>e. reschedule e not_before now) w)"
| "do_step ttl (Enqueue e) w =
     (None,
      if qe_state e = EQ_QUEUED \<and> qe_project_id e \<noteq> [] \<and> qe_id e \<notin> qr_entry_id ` set (world_rows w)
      then w\<lparr>cw_store := snd (save_queue_entry e (cw_store w))\<rparr> else w)"
| "do_step ttl (Settle e) w =
     (None,
      if qe_state e \<in> {EQ_DISPATCHED, EQ_FAILED} \<and> qe_project_id e \<noteq> []
      then w\<lparr>cw_store := snd (save_queue_entry e (cw_store w))\<rparr> else w)"

fun do_steps :: "int \<Rightarrow> queue_step list \<Rightarrow> claim_world \<Rightarrow> claim_world" where
  "do_steps ttl [] w = w"
| "do_steps ttl (s # ss) w = do_steps ttl ss (snd (do_step ttl s w))"

definition idle_world :: "queue_store \<Rightarrow> claim_world" where
  "idle_world st = \<lparr>cw_store = st, cw_read = (\<lambda>_. None), cw_chosen = (\<lambda>_. None), cw_entry = (\<lambda>_. None)\<rparr>"

text \<open>No claim that is still between its two steps has seen \<open>eid\<close> with an expired claim.\<close>

definition no_stale_return :: "int \<Rightarrow> string \<Rightarrow> claim_world \<Rightarrow> bool" where
  "no_stale_return ttl eid w \<longleftrightarrow>
     (\<forall>d now rs. cw_read w d = Some (now, rs) \<longrightarrow>
        (\<forall>r\<in>set rs. qr_entry_id r = eid \<longrightarrow> \<not> claim_expired now ttl (qr_entry r)))"

text \<open>A claim begun by this step finds the claim of \<open>e\<close> unexpired.\<close>

fun within_claim :: "int \<Rightarrow> queue_entry \<Rightarrow> queue_step \<Rightarrow> bool" where
  "within_claim ttl e (ReadClaims d now) = (\<not> claim_expired now ttl e)"
| "within_claim ttl e s = True"

subsection \<open>What every step keeps\<close>

definition reads_ok :: "claim_world \<Rightarrow> bool" where
  "reads_ok w \<longleftrightarrow>
     (\<forall>d now rs. cw_read w d = Some (now, rs) \<longrightarrow> (\<forall>r\<in>set rs. row_consistent r \<and> qr_state r = EQ_DISPATCHING)) \<and>
     (\<forall>d now e. cw_chosen w d = Some (now, e) \<longrightarrow> qe_state e = EQ_QUEUED \<and> qe_project_id e \<noteq> []) \<and>
     (\<forall>d e. cw_entry w d = Some e \<longrightarrow> qe_project_id e \<noteq> [])"

definition world_ok :: "claim_world \<Rightarrow> bool" where
  "world_ok w \<longleftrightarrow> \<not> ab_closed (cw_store w) \<and> queue_ok (world_rows w) \<and> reads_ok w"

definition handed_out :: "queue_entry \<Rightarrow> queue_row list \<Rightarrow> bool" where
  "handed_out e rows \<longleftrightarrow>
     (\<exists>r. row_of qr_entry_id (qe_id e) rows = Some r \<and> qr_state r \<noteq> EQ_QUEUED \<and>
        (qr_state r = EQ_DISPATCHING \<longrightarrow> qr_entry r = e))"

lemma set_rows_simps [simp]:
  "world_rows (set_rows rows w) = rows" "ab_closed (cw_store (set_rows rows w)) = ab_closed (cw_store w)"
  "cw_read (set_rows rows w) = cw_read w" "cw_chosen (set_rows rows w) = cw_chosen w"
  "cw_entry (set_rows rows w) = cw_entry w"
  by (simp_all add: set_rows_def)

lemma reads_ok_set_rows [simp]: "reads_ok (set_rows rows w) = reads_ok w"
  by (simp add: reads_ok_def)

lemma row_of_conditional_write:
  "row_of qr_entry_id eid (snd (conditional_write e s rows)) =
     map_option (\<lambda>r. if eid = qe_id e \<and> qr_state r = s then write_entry e r else r) (row_of qr_entry_id eid rows)"
  by (induction rows) (auto simp: conditional_write_def row_of_Cons write_entry_def)

lemma conditional_write_missed:
  assumes "row_of qr_entry_id (qe_id e) rows = Some r" and "qr_state r \<noteq> s" and "distinct (map qr_entry_id rows)"
  shows "fst (conditional_write e s rows) = False"
proof -
  have "x = r" if "x \<in> set rows" "qr_entry_id x = qe_id e" for x
    using that assms(1,3) row_of_distinct [of qr_entry_id rows x] by simp
  with assms(2) have "filter (\<lambda>x. qr_entry_id x = qe_id e \<and> qr_state x = s) rows = []"
    by (auto simp: filter_empty_conv)
  then show ?thesis by (simp add: conditional_write_def)
qed

lemma queue_ok_upsert:
  assumes "queue_ok rows" and "qe_project_id e \<noteq> []"
  shows "queue_ok (upsert_queue e rows)"
proof (cases "qe_id e \<in> qr_entry_id ` set rows")
  case True
  have "map qr_entry_id (upsert_queue e rows) = map qr_entry_id rows"
    using True by (auto simp: upsert_queue_def upd_row_def queue_columns_def)
  moreover have "row_consistent r" if "r \<in> set (upsert_queue e rows)" for r
    using that True assms
    by (auto simp: upsert_queue_def upd_row_def queue_columns_def queue_ok_def list_all_iff row_consistent_def)
  ultimately show ?thesis using assms(1) by (simp add: queue_ok_def list_all_iff)
next
  case False
  with assms show ?thesis
    by (auto simp: upsert_queue_def queue_columns_def queue_ok_def list_all_iff row_consistent_def)
qed

lemma requeue_stale:
  assumes "queue_ok rows" and "\<And>r. r \<in> set rs \<Longrightarrow> row_consistent r \<and> qr_state r = EQ_DISPATCHING"
  shows "\<exists>rows'. requeue_loop now ttl rs rows = Inr rows' \<and> queue_ok rows' \<and>
    ((\<forall>r\<in>set rs. qr_entry_id r = eid \<longrightarrow> \<not> claim_expired now ttl (qr_entry r)) \<longrightarrow>
       row_of qr_entry_id eid rows' = row_of qr_entry_id eid rows)"
  using assms
proof (induction rs arbitrary: rows)
  case (Cons r rs)
  show ?case
  proof (cases "claim_expired now ttl (qr_entry r)")
    case True
    let ?e = "(qr_entry r)\<lparr>qe_state := EQ_QUEUED, qe_claimed_at := None, qe_failure_reason := None,
       qe_updated_at := now\<rparr>"
    let ?rows = "snd (conditional_write ?e EQ_DISPATCHING rows)"
    have r: "row_consistent r" "qr_state r = EQ_DISPATCHING" using Cons.prems(2) by simp_all
    then have req: "qe_requeue (qr_entry r) now = Inr ?e" by (simp add: qe_requeue_eq row_consistent_def)
    have "queue_ok ?rows"
      using queue_ok_conditional_write [OF Cons.prems(1), of ?e] r by (simp add: row_consistent_def)
    from Cons.IH [OF this] Cons.prems(2) obtain rows' where
      "requeue_loop now ttl rs ?rows = Inr rows'" "queue_ok rows'"
      "(\<forall>r\<in>set rs. qr_entry_id r = eid \<longrightarrow> \<not> claim_expired now ttl (qr_entry r)) \<longrightarrow>
         row_of qr_entry_id eid rows' = row_of qr_entry_id eid ?rows" by auto
    with True req r show ?thesis
      by (auto simp: row_of_conditional_write row_consistent_def option.map_ident)
  next
    case False
    with Cons.IH [OF Cons.prems(1)] Cons.prems(2) show ?thesis by auto
  qed
qed simp

lemma reschedule_eq:
  "reschedule e not_before now = Inr e' \<longleftrightarrow> qe_state e = EQ_QUEUED \<and> qe_project_id e \<noteq> [] \<and>
     e' = e\<lparr>qe_not_before := not_before, qe_updated_at := now\<rparr>"
  by (auto simp: reschedule_def queue_entry_post_init_def)

lemma write_change_ok:
  assumes w: "world_ok w"
    and change: "\<And>e e'. change e = Inr e' \<Longrightarrow> qe_state e = EQ_QUEUED \<and> qe_project_id e' \<noteq> []"
  shows "world_ok (write_change d change w)"
    and "handed_out e0 (world_rows w) \<Longrightarrow> handed_out e0 (world_rows (write_change d change w))"
    and "cw_read (write_change d change w) = cw_read w"
proof -
  show "cw_read (write_change d change w) = cw_read w"
    by (auto simp: write_change_def Let_def split: option.splits sum.splits)
  show "world_ok (write_change d change w)"
    using w change queue_ok_conditional_write
    by (fastforce simp: world_ok_def reads_ok_def write_change_def Let_def split: option.splits sum.splits)
  show "handed_out e0 (world_rows (write_change d change w))" if h: "handed_out e0 (world_rows w)"
  proof (cases "cw_entry w d")
    case (Some e)
    with h change [of e] show ?thesis
      by (cases "change e") (auto simp: write_change_def handed_out_def row_of_conditional_write Let_def)
  qed (use h in \<open>simp add: write_change_def\<close>)
qed

lemma claim_write_ok:
  assumes "world_ok w" and "cw_chosen w d = Some (now, c)"
  obtains applied st where "claim_write now c (cw_store w) = (Inr (if applied then Some (claimed_by now c) else None), st)"
    and "conditional_write (claimed_by now c) EQ_QUEUED (world_rows w) = (applied, qs_rows st)"
    and "\<not> ab_closed st"
proof -
  have c: "qe_claim c now = Inr (claimed_by now c)" "qe_state c = EQ_QUEUED"
    using assms by (auto simp: world_ok_def reads_ok_def qe_claim_eq claimed_by_def)
  obtain applied rows where "conditional_write (claimed_by now c) EQ_QUEUED (world_rows w) = (applied, rows)"
    by (cases "conditional_write (claimed_by now c) EQ_QUEUED (world_rows w)")
  with c assms(1) show thesis
    by (intro that [of applied "snd (claim_write now c (cw_store w))"])
      (auto simp: claim_write_def log_defs world_ok_def)
qed

lemma queue_ok_claim:
  assumes "world_ok w" and "cw_chosen w d = Some (now, c)"
  shows "queue_ok (snd (conditional_write (claimed_by now c) EQ_QUEUED (world_rows w)))"
  using assms by (intro queue_ok_conditional_write) (auto simp: world_ok_def reads_ok_def claimed_by_def)

lemma next_due_ok:
  assumes "queue_ok rows" and "next_due now rows = Some e"
  shows "qe_state e = EQ_QUEUED \<and> qe_project_id e \<noteq> []"
  using next_due_Some(1) [OF assms(2)] assms(1) by (auto simp: queue_ok_def list_all_iff row_consistent_def)

lemma return_expired_ok:
  assumes "world_ok w" and "cw_read w d = Some (now, rs)"
  obtains rows where "requeue_loop now ttl rs (world_rows w) = Inr rows" and "queue_ok rows"
    and "(\<forall>r\<in>set rs. qr_entry_id r = eid \<longrightarrow> \<not> claim_expired now ttl (qr_entry r)) \<Longrightarrow>
      row_of qr_entry_id eid rows = row_of qr_entry_id eid (world_rows w)"
  using requeue_stale [of "world_rows w" rs now ttl eid] assms by (force simp: world_ok_def reads_ok_def)

lemma save_queue_entry_world:
  "world_ok w \<Longrightarrow> qe_project_id e \<noteq> [] \<Longrightarrow>
     world_ok (w\<lparr>cw_store := snd (save_queue_entry e (cw_store w))\<rparr>) \<and>
     qs_rows (snd (save_queue_entry e (cw_store w))) = upsert_queue e (world_rows w)"
  using queue_ok_upsert by (auto simp: world_ok_def reads_ok_def save_queue_entry_def log_defs)

lemma step_keeps_ok:
  assumes w: "world_ok w"
  shows "world_ok (snd (do_step ttl s w))"
proof (cases s)
  case (ReadClaims d now)
  with w show ?thesis by (auto simp: world_ok_def reads_ok_def queue_ok_def list_all_iff)
next
  case (ReturnExpired d)
  show ?thesis
  proof (cases "cw_read w d")
    case (Some p)
    obtain now rs where p: "p = (now, rs)" by (cases p)
    from return_expired_ok [OF w, of d now rs ttl] Some p obtain rows where
      "requeue_loop now ttl rs (world_rows w) = Inr rows" "queue_ok rows" by metis
    with Some p w show ?thesis by (simp add: ReturnExpired world_ok_def reads_ok_def)
  qed (use w in \<open>simp add: ReturnExpired\<close>)
next
  case (ChooseDue d now)
  with w next_due_ok [of "world_rows w" now] show ?thesis by (auto simp: world_ok_def reads_ok_def)
next
  case (WriteClaim d)
  show ?thesis
  proof (cases "cw_chosen w d")
    case (Some p)
    obtain now c where p: "p = (now, c)" by (cases p)
    from claim_write_ok [OF w Some [unfolded p]] obtain applied st where
      "claim_write now c (cw_store w) = (Inr (if applied then Some (claimed_by now c) else None), st)"
      "conditional_write (claimed_by now c) EQ_QUEUED (world_rows w) = (applied, qs_rows st)" "\<not> ab_closed st" .
    with Some p w queue_ok_claim [OF w Some [unfolded p]] show ?thesis
      by (simp add: WriteClaim world_ok_def reads_ok_def)
  qed (use w in \<open>simp add: WriteClaim\<close>)
next
  case (ReadEntry d eid)
  have "qe_project_id (qr_entry r) \<noteq> []" if "row_of qr_entry_id eid (world_rows w) = Some r" for r
    using row_of_SomeD [OF that] w by (auto simp: world_ok_def queue_ok_def list_all_iff row_consistent_def)
  with ReadEntry w show ?thesis by (auto simp: world_ok_def reads_ok_def)
next
  case (WriteCancel d now)
  then show ?thesis using write_change_ok(1) [OF w, of "\<lambda>e. qe_cancel e now"] by (simp add: qe_cancel_eq)
next
  case (WriteMove d nb now)
  then show ?thesis using write_change_ok(1) [OF w, of "\<lambda>e. reschedule e nb now"]
    by (simp add: reschedule_eq)
next
  case (Enqueue e)
  with w save_queue_entry_world [OF w, of e] show ?thesis by simp
next
  case (Settle e)
  with w save_queue_entry_world [OF w, of e] show ?thesis by simp
qed

lemma step_keeps_claim:
  assumes w: "world_ok w" and h: "handed_out e (world_rows w)" and stale: "no_stale_return ttl (qe_id e) w"
    and "within_claim ttl e s"
  shows "handed_out e (world_rows (snd (do_step ttl s w))) \<and> no_stale_return ttl (qe_id e) (snd (do_step ttl s w))"
proof (cases s)
  case (ReadClaims d now)
  have "\<not> claim_expired now ttl (qr_entry r)"
    if "r \<in> set (world_rows w)" "qr_state r = EQ_DISPATCHING" "qr_entry_id r = qe_id e" for r
    using that w h assms(4) row_of_distinct [of qr_entry_id "world_rows w" r]
    by (auto simp: ReadClaims handed_out_def world_ok_def queue_ok_def)
  with ReadClaims h stale show ?thesis by (auto simp: no_stale_return_def)
next
  case (ReturnExpired d)
  show ?thesis
  proof (cases "cw_read w d")
    case (Some p)
    obtain now rs where p: "p = (now, rs)" by (cases p)
    have fresh: "\<forall>r\<in>set rs. qr_entry_id r = qe_id e \<longrightarrow> \<not> claim_expired now ttl (qr_entry r)"
      using stale Some p by (simp add: no_stale_return_def)
    from return_expired_ok [OF w, of d now rs ttl "qe_id e"] Some p fresh obtain rows where
      "requeue_loop now ttl rs (world_rows w) = Inr rows"
      "row_of qr_entry_id (qe_id e) rows = row_of qr_entry_id (qe_id e) (world_rows w)" by metis
    with Some p h stale show ?thesis by (simp add: ReturnExpired handed_out_def no_stale_return_def)
  qed (use h stale in \<open>simp add: ReturnExpired\<close>)
next
  case (WriteClaim d)
  show ?thesis
  proof (cases "cw_chosen w d")
    case (Some p)
    obtain now c where p: "p = (now, c)" by (cases p)
    from claim_write_ok [OF w Some [unfolded p]] obtain applied st where
      st: "claim_write now c (cw_store w) = (Inr (if applied then Some (claimed_by now c) else None), st)"
      "conditional_write (claimed_by now c) EQ_QUEUED (world_rows w) = (applied, qs_rows st)" .
    have "row_of qr_entry_id (qe_id e) (qs_rows st) = row_of qr_entry_id (qe_id e) (world_rows w)"
      using row_of_conditional_write [of "qe_id e" "claimed_by now c" EQ_QUEUED "world_rows w"] st(2) h
      by (auto simp: handed_out_def)
    with Some p st(1) h stale show ?thesis by (simp add: WriteClaim handed_out_def no_stale_return_def)
  qed (use h stale in \<open>simp add: WriteClaim\<close>)
next
  case (WriteCancel d now)
  then show ?thesis using write_change_ok [OF w, of "\<lambda>e. qe_cancel e now"] h stale
    by (simp add: qe_cancel_eq no_stale_return_def)
next
  case (WriteMove d nb now)
  then show ?thesis using write_change_ok [OF w, of "\<lambda>e. reschedule e nb now"] h stale
    by (simp add: reschedule_eq no_stale_return_def)
next
  case (Enqueue e')
  have "qe_id e \<in> qr_entry_id ` set (world_rows w)"
    using h row_of_None_iff [of qr_entry_id "qe_id e" "world_rows w"] by (auto simp: handed_out_def)
  with Enqueue w h stale save_queue_entry_world [OF w, of e'] show ?thesis
    by (auto simp: handed_out_def no_stale_return_def row_of_upsert)
next
  case (Settle e')
  with w h stale save_queue_entry_world [OF w, of e'] show ?thesis
    by (auto simp: handed_out_def no_stale_return_def row_of_upsert queue_columns_def split: option.splits)
qed (use h stale in \<open>auto simp: no_stale_return_def\<close>)

lemma steps_keep_ok: "world_ok w \<Longrightarrow> world_ok (do_steps ttl ss w)"
  by (induction ss arbitrary: w) (auto simp: step_keeps_ok)

lemma steps_keep_claim:
  assumes "world_ok w" and "handed_out e (world_rows w)" and "no_stale_return ttl (qe_id e) w"
    and "\<forall>s\<in>set ss. within_claim ttl e s"
  shows "handed_out e (world_rows (do_steps ttl ss w))"
  using assms by (induction ss arbitrary: w) (auto simp: step_keeps_ok step_keeps_claim)

lemma claim_hands_out:
  assumes w: "world_ok w" and "do_step ttl (WriteClaim d) w = (Some e, w')"
  shows "handed_out e (world_rows w')"
    and "\<exists>now. qe_claimed_at e = Some now" and "\<And>e0. handed_out e0 (world_rows w) \<Longrightarrow> qe_id e \<noteq> qe_id e0"
proof -
  obtain now c where c: "cw_chosen w d = Some (now, c)" using assms(2) by (auto split: option.splits)
  from claim_write_ok [OF w c] obtain applied st where
    st: "claim_write now c (cw_store w) = (Inr (if applied then Some (claimed_by now c) else None), st)"
    "conditional_write (claimed_by now c) EQ_QUEUED (world_rows w) = (applied, qs_rows st)" .
  with c assms(2) have applied: "applied" and e: "e = claimed_by now c" and w': "world_rows w' = qs_rows st"
    by (auto split: if_splits)
  let ?hits = "filter (\<lambda>r. qr_entry_id r = qe_id e \<and> qr_state r = EQ_QUEUED) (world_rows w)"
  have "length ?hits = 1" using st(2) applied by (simp add: conditional_write_def e)
  then have "?hits \<noteq> []" by (intro notI) simp
  then obtain r where r: "r \<in> set (world_rows w)" "qr_entry_id r = qe_id e" "qr_state r = EQ_QUEUED"
    by (auto simp: filter_empty_conv)
  have row: "row_of qr_entry_id (qe_id e) (world_rows w) = Some r"
    using row_of_distinct [of qr_entry_id "world_rows w" r] r w by (simp add: world_ok_def queue_ok_def)
  have "row_of qr_entry_id (qe_id e) (world_rows w') = Some (write_entry e r)"
    using row_of_conditional_write [of "qe_id e" e EQ_QUEUED "world_rows w"] st(2) row r w' by (simp add: e)
  then show "handed_out e (world_rows w')" by (simp add: handed_out_def write_entry_def e claimed_by_def)
  show "\<exists>now. qe_claimed_at e = Some now" by (simp add: e claimed_by_def)
  show "qe_id e \<noteq> qe_id e0" if "handed_out e0 (world_rows w)" for e0
    using that row r(3) by (auto simp: handed_out_def)
qed

text \<open>Without interference the steps of a claim are \<open>claim_due_entry\<close>.\<close>

lemma uninterrupted_claim:
  fixes d :: nat and now ttl :: int
  assumes w: "world_ok w"
  defines "w' \<equiv> do_steps ttl [ReadClaims d now, ReturnExpired d, ChooseDue d now] w"
  shows "\<exists>st. claim_due_entry now ttl (cw_store w) = (Inr (fst (do_step ttl (WriteClaim d) w')), st) \<and>
    world_rows (snd (do_step ttl (WriteClaim d) w')) = qs_rows st"
proof -
  let ?rows = "map (unexpired now ttl) (world_rows w)"
  have ok: "queue_ok (world_rows w)" "\<not> ab_closed (cw_store w)" using w by (simp_all add: world_ok_def)
  have req: "requeue_expired now ttl (world_rows w) = Inr ?rows" using requeue_expired_result [OF ok(1)] .
  then have loop: "requeue_loop now ttl (filter (\<lambda>r. qr_state r = EQ_DISPATCHING) (world_rows w)) (world_rows w) = Inr ?rows"
    by (simp add: requeue_expired_def)
  show ?thesis
  proof (cases "next_due now ?rows")
    case None
    with ok req loop show ?thesis
      by (simp add: w'_def claim_due_entry_def claim_choose_def log_defs)
  next
    case (Some e)
    with next_due_ok [OF queue_ok_unexpired [OF ok(1)]] have "qe_claim e now = Inr (claimed_by now e)"
      by (simp add: qe_claim_eq claimed_by_def)
    with Some ok req loop show ?thesis
      by (simp add: w'_def claim_due_entry_def claim_choose_def claim_write_def log_defs set_rows_def
          split: prod.splits)
  qed
qed

subsection \<open>A claim is exclusive\<close>

text \<open>
  C26: an entry handed out to a dispatcher is not handed out again while its claim is held, whatever
  other dispatchers and the API read and write in between. Take any history of such steps on a
  consistent queue in which a conditional write hands out \<open>e\<close>. If no claim that has read the table
  before and writes its returns later saw an expired claim of the same entry, and every claim begun
  afterwards finds the time of \<open>e\<close>'s claim not yet run out, then every later conditional write that
  hands out an entry hands out another one, also one whose dispatcher had chosen the entry before.
\<close>

theorem claim_is_exclusive:
  assumes "\<not> ab_closed st" and "queue_ok (qs_rows st)"
    and "do_step ttl (WriteClaim d) (do_steps ttl before (idle_world st)) = (Some e, w)"
    and "no_stale_return ttl (qe_id e) w" and "\<forall>s\<in>set between. within_claim ttl e s"
    and "do_step ttl (WriteClaim d2) (do_steps ttl between w) = (Some e2, w2)"
  shows "qe_id e2 \<noteq> qe_id e"
proof -
  have "world_ok (idle_world st)" using assms(1,2) by (simp add: world_ok_def idle_world_def reads_ok_def)
  then have before: "world_ok (do_steps ttl before (idle_world st))" by (rule steps_keep_ok)
  have "world_ok w" using step_keeps_ok [OF before, of ttl "WriteClaim d"] assms(3) by simp
  moreover from this have "handed_out e (world_rows (do_steps ttl between w))"
    using claim_hands_out(1) [OF before assms(3)] assms(4,5) by (intro steps_keep_claim)
  ultimately show ?thesis using claim_hands_out(3) [OF steps_keep_ok assms(6)] by blast
qed

text \<open>Two dispatchers choose the same entry; the second one's write misses, and its next claim takes another entry.\<close>

definition demo_race :: "queue_step list" where
  "demo_race = [ReadClaims 0 10, ReadClaims 1 11, ReturnExpired 0, ReturnExpired 1, ChooseDue 0 10, ChooseDue 1 11]"

definition demo_won :: "queue_entry option \<times> claim_world" where
  "demo_won = do_step 300 (WriteClaim 0) (do_steps 300 demo_race (idle_world demo_queue))"

definition demo_after :: "queue_step list" where
  "demo_after = [WriteClaim 1, ReadClaims 1 20, ReturnExpired 1, ChooseDue 1 20]"

lemma demo_race_outcome:
  "fst demo_won = Some (claimed_by 10 (demo_entry ''a'' 1))"
  "fst (do_step 300 (WriteClaim 1) (snd demo_won)) = None"
  "fst (do_step 300 (WriteClaim 1) (do_steps 300 demo_after (snd demo_won))) = Some (claimed_by 20 (demo_entry ''b'' 2))"
  "\<forall>s\<in>set demo_after. within_claim 300 (claimed_by 10 (demo_entry ''a'' 1)) s"
  by code_simp+

lemma reads_after_step:
  "cw_read (snd (do_step ttl s w)) =
     (case s of
        ReadClaims d now \<Rightarrow>
          (cw_read w)(d := Some (now, filter (\<lambda>r. qr_state r = EQ_DISPATCHING) (world_rows w)))
      | ReturnExpired d \<Rightarrow> (cw_read w)(d := None)
      | _ \<Rightarrow> cw_read w)"
  by (cases s) (auto simp: write_change_def Let_def fun_upd_idem split: option.splits sum.splits prod.splits)

lemma demo_race_reads: "no_stale_return 300 ''a'' (snd demo_won)"
proof -
  have "cw_read (snd demo_won) = (\<lambda>_. None)"
    unfolding demo_won_def demo_race_def by (simp add: reads_after_step idle_world_def fun_eq_iff del: do_step.simps)
  then show ?thesis by (simp add: no_stale_return_def)
qed

theorem claim_is_exclusive_witness:
  "fst demo_won = Some (claimed_by 10 (demo_entry ''a'' 1)) \<and>
   fst (do_step 300 (WriteClaim 1) (snd demo_won)) = None \<and>
   (\<exists>e2. fst (do_step 300 (WriteClaim 1) (do_steps 300 demo_after (snd demo_won))) = Some e2 \<and> qe_id e2 \<noteq> ''a'')"
proof -
  have a: "qe_id (claimed_by 10 (demo_entry ''a'' 1)) = ''a''" by (simp add: claimed_by_def demo_entry_def)
  have won: "do_step 300 (WriteClaim 0) (do_steps 300 demo_race (idle_world demo_queue)) =
      (Some (claimed_by 10 (demo_entry ''a'' 1)), snd demo_won)"
    using demo_race_outcome(1) by (metis demo_won_def prod.collapse)
  have again: "do_step 300 (WriteClaim 1) (do_steps 300 demo_after (snd demo_won)) =
      (Some (claimed_by 20 (demo_entry ''b'' 2)),
       snd (do_step 300 (WriteClaim 1) (do_steps 300 demo_after (snd demo_won))))"
    using demo_race_outcome(3) by (metis prod.collapse)
  from claim_is_exclusive [OF demo_queue_ok won _ demo_race_outcome(4) again] demo_race_outcome demo_race_reads a show ?thesis
    by auto
qed

text \<open>
  The condition on claims that read the table before is needed: the guard of the write compares the
  state, not the claim. Here dispatcher 1 reads the expired claim of \<open>a\<close>, dispatcher 0 returns it and
  claims it again, dispatcher 1 then writes its return over the new claim, and \<open>a\<close> is handed out a
  second time within a second of the claim.
\<close>

definition demo_stale :: "queue_step list" where
  "demo_stale =
     [ReadClaims 0 10, ReturnExpired 0, ChooseDue 0 10, WriteClaim 0, ReadClaims 1 400, ReadClaims 0 400,
      ReturnExpired 0, ChooseDue 0 400]"

lemma stale_return_hands_out_twice:
  defines "w \<equiv> do_steps 300 demo_stale (idle_world demo_queue)"
  shows "map_option qe_id (fst (do_step 300 (WriteClaim 0) w)) = Some ''a''"
    and "map_option qe_id (fst (do_step 300 (WriteClaim 1)
      (do_steps 300 [ReturnExpired 1, ChooseDue 1 400] (snd (do_step 300 (WriteClaim 0) w))))) = Some ''a''"
  unfolding w_def by code_simp+

section \<open>Dispatching a claimed entry\<close>

definition startable :: "(string \<rightharpoonup> plan_state) \<Rightarrow> (queue_entry \<Rightarrow> (string \<times> string) + string) \<Rightarrow> queue_entry \<Rightarrow> bool" where
  "startable plans start_run e \<longleftrightarrow>
     plans (qe_plan_id e) \<noteq> None \<and> plans (qe_plan_id e) \<noteq> Some EP_ARCHIVED \<and> \<not> isl (start_run e)"

text \<open>
  C27: what a dispatch does to the entry it claimed. The row of \<open>e\<close> is \<open>DISPATCHING\<close> and holds \<open>e\<close>.
  If the plan exists and is not archived, the run starts and saving the run raises, the pass ends
  with that error and the table is unchanged: the entry keeps its claim until it expires, though its
  run was started. In every other case the entry is settled: it is dispatched exactly when the plan
  exists, is not archived and the run starts; its row is then \<open>DISPATCHED\<close> with the run's identifier,
  and otherwise \<open>FAILED\<close> with a reason, which is also the reason of the outcome. No other row changes.
\<close>

theorem claimed_entry_is_settled:
  assumes "\<not> ab_closed st" and "queue_ok (qs_rows st)"
    and "row_of qr_entry_id (qe_id e) (qs_rows st) = Some held" and "qr_entry held = e" and "qr_state held = EQ_DISPATCHING"
    and "\<And>n m. start_run e = Inl (n, m) \<Longrightarrow> n \<noteq> []" and "\<And>run. start_run e = Inr run \<Longrightarrow> run \<noteq> []"
  shows "(\<exists>run err. startable plans start_run e \<and> start_run e = Inr run \<and> save_run run = Inl err \<and>
       dispatch_entry plans start_run save_run now e st = (Inl (QueueError err), st)) \<or>
    (\<exists>outcome st' r. dispatch_entry plans start_run save_run now e st = (Inr outcome, st') \<and>
      row_of qr_entry_id (qe_id e) (qs_rows st') = Some r \<and> (do_dispatched outcome = startable plans start_run e) \<and>
      (if do_dispatched outcome
       then qr_state r = EQ_DISPATCHED \<and> start_run e = Inr (the (qe_run_id (qr_entry r))) \<and>
            do_run_id outcome = qe_run_id (qr_entry r)
       else qr_state r = EQ_FAILED \<and> do_reason outcome = qe_failure_reason (qr_entry r) \<and>
            qe_failure_reason (qr_entry r) \<noteq> None) \<and>
      (\<forall>k. k \<noteq> qe_id e \<longrightarrow> row_of qr_entry_id k (qs_rows st') = row_of qr_entry_id k (qs_rows st)))"
proof -
  have e: "qe_state e = EQ_DISPATCHING" "qe_project_id e \<noteq> []"
    using row_of_SomeD [OF assms(3)] assms(2,4,5) by (auto simp: queue_ok_def list_all_iff row_consistent_def)
  have blocked: "startable plans start_run e \<longleftrightarrow> blocking_reason plans e = None \<and> \<not> isl (start_run e)"
    by (auto simp: startable_def blocking_reason_def split: option.splits plan_state.splits)
  show ?thesis
  proof (cases "startable plans start_run e")
    case True
    then obtain run where run: "blocking_reason plans e = None" "start_run e = Inr run"
      using blocked by (cases "start_run e") auto
    show ?thesis
    proof (cases "save_run run")
      case (Inl err)
      with run True show ?thesis by (simp add: dispatch_entry_def)
    next
      case (Inr u)
      from dispatch_entry_result [of st e plans start_run run save_run u now, OF assms(1) e run Inr assms(7) [OF run(2)]]
      obtain st' where
        "dispatch_entry plans start_run save_run now e st =
           (Inr \<lparr>do_entry_id = qe_id e, do_dispatched = True, do_run_id = Some run, do_reason = None\<rparr>, st')"
        "qs_rows st' = upsert_queue (e\<lparr>qe_state := EQ_DISPATCHED, qe_run_id := Some run, qe_updated_at := now\<rparr>) (qs_rows st)"
        by blast
      with True run assms(3) show ?thesis by (auto simp: row_of_upsert queue_columns_def)
    qed
  next
    case False
    then have "blocking_reason plans e \<noteq> None \<or> isl (start_run e)" using blocked by auto
    from dispatch_entry_refused [of st e start_run plans save_run now, OF assms(1) e _ this] assms(6)
    have "\<exists>why st'. dispatch_entry plans start_run save_run now e st =
        (Inr \<lparr>do_entry_id = qe_id e, do_dispatched = False, do_run_id = None, do_reason = Some why\<rparr>, st') \<and>
      qs_rows st' = upsert_queue (e\<lparr>qe_state := EQ_FAILED, qe_failure_reason := Some why, qe_updated_at := now\<rparr>) (qs_rows st)"
      by auto
    with False assms(3) show ?thesis by (auto simp: row_of_upsert queue_columns_def)
  qed
qed

definition demo_held :: queue_store where
  "demo_held = snd (claim_due_entry 10 300 demo_queue)"

lemma demo_held_row:
  "\<not> ab_closed demo_held" "queue_ok (qs_rows demo_held)"
  "row_of qr_entry_id ''a'' (qs_rows demo_held) =
     Some (write_entry (claimed_by 10 (demo_entry ''a'' 1)) (queue_columns (demo_entry ''a'' 1)))"
  by code_simp+

theorem claimed_entry_is_settled_witness:
  "\<exists>outcome st' r. dispatch_entry [''plan'' \<mapsto> EP_ARCHIVED] (\<lambda>_. Inr ''run'') (\<lambda>_. Inr ()) 20
      (claimed_by 10 (demo_entry ''a'' 1)) demo_held = (Inr outcome, st') \<and>
    row_of qr_entry_id ''a'' (qs_rows st') = Some r \<and> \<not> do_dispatched outcome \<and> qr_state r = EQ_FAILED"
proof -
  let ?e = "claimed_by 10 (demo_entry ''a'' 1)"
  have e: "qe_id ?e = ''a''" "qe_plan_id ?e = ''plan''" by (simp_all add: claimed_by_def demo_entry_def)
  have no: "\<not> startable [''plan'' \<mapsto> EP_ARCHIVED] (\<lambda>_. Inr ''run'') ?e" by (simp add: startable_def e)
  show ?thesis
    using claimed_entry_is_settled [of demo_held ?e "write_entry ?e (queue_columns (demo_entry ''a'' 1))"
        "\<lambda>_. Inr ''run''" "[''plan'' \<mapsto> EP_ARCHIVED]" "\<lambda>_. Inr ()" 20]
    by (simp add: demo_held_row e no write_entry_def) (auto simp: claimed_by_def)
qed

text \<open>
  A claim is held only for its time: after an error of \<^verbatim>\<open>save_run\<close> the next claim after the
  expiry hands the entry out again, and its run is started a second time.
\<close>

lemma unsaved_run_is_started_again:
  "fst (dispatch_entry [''plan'' \<mapsto> EP_PREREGISTERED] (\<lambda>_. Inr ''run'') (\<lambda>_. Inl (PermanentPortError ''disk'')) 20
      (claimed_by 10 (demo_entry ''a'' 1)) demo_held) = Inl (QueueError (PermanentPortError ''disk'')) \<and>
   map_sum id (map_option qe_id) (fst (claim_due_entry 310 300 (snd (dispatch_entry [''plan'' \<mapsto> EP_PREREGISTERED]
      (\<lambda>_. Inr ''run'') (\<lambda>_. Inl (PermanentPortError ''disk'')) 20 (claimed_by 10 (demo_entry ''a'' 1)) demo_held)))) =
     Inr (Some ''a'')"
  by code_simp

text \<open>
  The dispatcher's last write does not look at the row. A dispatcher that claimed an entry
  and finishes late, after its claim was returned to the queue and the entry cancelled, still
  turns the cancelled row into a \<open>DISPATCHED\<close> one.
\<close>

theorem late_dispatch_overwrites_a_cancelled_entry:
  assumes "\<not> ab_closed st" and "row_of qr_entry_id (qe_id e) (qs_rows st) = Some r" and "qr_state r = EQ_CANCELLED"
    and "qe_state e = EQ_DISPATCHING" and "qe_project_id e \<noteq> []" and "blocking_reason plans e = None"
    and "start_run e = Inr run" and "save_run run = Inr u" and "run \<noteq> []"
  shows "map_option qr_state (row_of qr_entry_id (qe_id e) (qs_rows (snd (dispatch_entry plans start_run save_run now e st)))) =
    Some EQ_DISPATCHED"
  using dispatch_entry_result [of st e plans start_run run save_run u now, OF assms(1,4-9)] assms(2)
  by (auto simp: row_of_upsert queue_columns_def)

text \<open>The steps that lead there: a claim, its expiry in the claim of an earlier entry, the cancellation.\<close>

definition demo_late :: queue_store where
  "demo_late =
     (let late = (demo_entry ''late'' 5);
          st0 = \<lparr>ab_closed = False, ab_calls = [], qs_rows = [queue_columns late]\<rparr>;
          st1 = snd (claim_due_entry 10 300 st0);
          st2 = snd (save_queue_entry (demo_entry ''urgent'' 1) st1);
          st3 = snd (claim_due_entry 400 300 st2)
      in snd (cancel_queue_entry ''late'' 401 st3))"

lemma demo_late_cancelled:
  "\<not> ab_closed demo_late" "map_option qr_state (row_of qr_entry_id ''late'' (qs_rows demo_late)) = Some EQ_CANCELLED"
  by code_simp+

theorem late_dispatch_overwrites_a_cancelled_entry_witness:
  "map_option qr_state (row_of qr_entry_id ''late'' (qs_rows demo_late)) = Some EQ_CANCELLED \<and>
   map_option qr_state (row_of qr_entry_id ''late'' (qs_rows (snd (dispatch_entry [''plan'' \<mapsto> EP_PREREGISTERED]
      (\<lambda>_. Inr ''run'') (\<lambda>_. Inr ()) 402 (claimed_by 10 (demo_entry ''late'' 5)) demo_late)))) = Some EQ_DISPATCHED"
proof -
  obtain r where r: "row_of qr_entry_id ''late'' (qs_rows demo_late) = Some r" "qr_state r = EQ_CANCELLED"
    using demo_late_cancelled(2) by auto
  have e: "qe_id (claimed_by 10 (demo_entry ''late'' 5)) = ''late''" by (simp add: claimed_by_def demo_entry_def)
  show ?thesis
    using late_dispatch_overwrites_a_cancelled_entry [of demo_late "claimed_by 10 (demo_entry ''late'' 5)" r
        "[''plan'' \<mapsto> EP_PREREGISTERED]" "\<lambda>_. Inr ''run''" "''run''" "\<lambda>_. Inr ()" "()" 402] r demo_late_cancelled
    by (simp add: e claimed_by_def demo_entry_def blocking_reason_def)
qed

end
