(* ===== verification/Texts.thy ===== *)
theory Texts
  imports Task_Contract
begin

text \<open>
  Python's \<^verbatim>\<open>int(text)\<close> on ASCII text (surrounding white space, a sign, digits with single
  underscores between them), \<^verbatim>\<open>str.startswith\<close>, \<^verbatim>\<open>str.lower\<close> and \<^verbatim>\<open>str.split(sep, 1)\<close> for
  one character. The limit on the digits of a number read from text is left out.
\<close>

definition is_digit :: "char \<Rightarrow> bool" where
  "is_digit c = (48 \<le> (of_char c :: nat) \<and> (of_char c :: nat) \<le> 57)"

fun int_digits :: "bool \<Rightarrow> int \<Rightarrow> string \<Rightarrow> int option" where
  "int_digits after n [] = (if after then Some n else None)"
| "int_digits after n (c # cs) =
     (if c = CHR ''_'' then (if after then int_digits False n cs else None)
      else if is_digit c then int_digits True (10 * n + int (of_char c) - 48) cs
      else None)"

definition py_int :: "string \<Rightarrow> int option" where
  "py_int s =
     (case strip s of
        [] \<Rightarrow> None
      | c # cs \<Rightarrow>
          (if c = CHR ''-'' then map_option uminus (int_digits False 0 cs)
           else if c = CHR ''+'' then int_digits False 0 cs
           else int_digits False 0 (c # cs)))"

definition starts_with :: "string \<Rightarrow> string \<Rightarrow> bool" where
  "starts_with p s = (take (length p) s = p)"

definition lower_char :: "char \<Rightarrow> char" where
  "lower_char c = (if 65 \<le> (of_char c :: nat) \<and> (of_char c :: nat) \<le> 90 then char_of (of_char c + (32 :: nat)) else c)"

definition lower :: "string \<Rightarrow> string" where
  "lower s = map lower_char s"

definition split_once :: "char \<Rightarrow> string \<Rightarrow> string list" where
  "split_once sep s =
     (if sep \<in> set s then [takeWhile (\<lambda>c. c \<noteq> sep) s, tl (dropWhile (\<lambda>c. c \<noteq> sep) s)] else [s])"

lemma starts_with_append [simp]: "starts_with p (p @ s)"
  by (simp add: starts_with_def)

lemma starts_with_iff: "starts_with p s \<longleftrightarrow> (\<exists>r. s = p @ r)"
  unfolding starts_with_def by (metis append_take_drop_id append_eq_conv_conj)

lemma digit_char: "d < 10 \<Longrightarrow> (of_char (char_of (48 + d :: nat)) :: nat) = 48 + d"
  by simp

lemma digit_char_props:
  assumes "d < (10 :: nat)"
  shows "is_digit (char_of (48 + d))" "char_of (48 + d) \<noteq> CHR ''_''" "char_of (48 + d) \<noteq> CHR ''-''"
    "char_of (48 + d) \<noteq> CHR ''+''" "\<not> is_space (char_of (48 + d))"
proof -
  have n: "(of_char (char_of (48 + d)) :: nat) = 48 + d" using assms by (rule digit_char)
  show "is_digit (char_of (48 + d))" using assms by (simp only: is_digit_def n) simp
  have ne: "char_of (48 + d) \<noteq> c" if "\<not> (48 \<le> (of_char c :: nat) \<and> (of_char c :: nat) < 58)" for c
    using that n assms by auto
  show "char_of (48 + d) \<noteq> CHR ''_''" "char_of (48 + d) \<noteq> CHR ''-''" "char_of (48 + d) \<noteq> CHR ''+''"
    by (rule ne, simp)+
  show "\<not> is_space (char_of (48 + d))"
    unfolding is_space_def by (simp, intro conjI) (rule ne, simp)+
qed

lemma digits_of_digits: "c \<in> set (digits_of n) \<Longrightarrow> \<exists>d < (10 :: nat). c = char_of (48 + d)"
proof (induction n rule: digits_of.induct)
  case (1 n)
  have "\<exists>d < (10 :: nat). c = char_of (48 + d)" if "c = char_of (48 + n mod 10)"
    using that by (intro exI [of _ "n mod 10"]) simp
  with 1 show ?case
    by (subst (asm) (2) digits_of.simps) (auto split: if_splits)
qed

lemma digits_of_nonempty: "digits_of n \<noteq> []"
  by (subst digits_of.simps) simp

lemma int_digits_of:
  "int_digits after 0 (digits_of n @ xs) = int_digits True (int n) xs"
proof (induction n arbitrary: xs rule: digits_of.induct)
  case (1 n)
  show ?case
  proof (cases "n < 10")
    case True
    then show ?thesis by (subst digits_of.simps) (simp add: digit_char_props)
  next
    case False
    have m: "n mod 10 < 10" by simp
    have "int_digits after 0 (digits_of n @ xs) =
        int_digits after 0 (digits_of (n div 10) @ char_of (48 + n mod 10) # xs)"
      using False by (subst digits_of.simps) simp
    also have "\<dots> = int_digits True (int (n div 10)) (char_of (48 + n mod 10) # xs)" using 1 False by simp
    also have "\<dots> = int_digits True (10 * int (n div 10) + int (n mod 10)) xs"
      using digit_char_props [OF m] digit_char [OF m] by simp
    also have "10 * int (n div 10) + int (n mod 10) = int n" by presburger
    finally show ?thesis .
  qed
qed

lemma strip_id:
  assumes "\<And>c. c \<in> set s \<Longrightarrow> \<not> is_space c"
  shows "strip s = s"
proof -
  have "dropWhile is_space s = s" "dropWhile is_space (rev s) = rev s"
    using assms by (auto simp: dropWhile_eq_self_iff hd_in_set hd_rev)
  then show ?thesis by (simp add: strip_def)
qed

lemma py_int_str_int: "py_int (str_int i) = Some i"
proof -
  have digits: "c \<in> set (digits_of n) \<Longrightarrow> \<not> is_space c \<and> c \<noteq> CHR ''-'' \<and> c \<noteq> CHR ''+''" for c n
    using digits_of_digits [of c n] digit_char_props by auto
  have "\<not> is_space CHR ''-''" by (simp add: is_space_def)
  then have "strip (str_int i) = str_int i"
    by (intro strip_id) (auto simp: str_int_def dest: digits split: if_splits)
  moreover obtain c cs where "digits_of (nat i) = c # cs" using digits_of_nonempty by (cases "digits_of (nat i)") auto
  ultimately show ?thesis
    using digits [of c "nat i"] int_digits_of [of False "nat (- i)" "[]"] int_digits_of [of False "nat i" "[]"]
    by (auto simp: py_int_def str_int_def)
qed

end
