(* ===== verification/Artifact_Store.thy ===== *)
theory Artifact_Store
  imports Texts Adapter_Base
begin

text \<open>
  Artifacts and their store: the entity, its retention policy and the check of a revision
  chain (\<^verbatim>\<open>packages/domain/artifacts.py\<close>), the content-addressed SQLite store with its blob
  directory (\<^verbatim>\<open>adapters/sqlite/artifact_store.py\<close>) and the retention scan
  (\<^verbatim>\<open>packages/application/artifacts/retention.py\<close>). Content is a text of bytes; a digest is its
  hexadecimal text; the hash function of \<^verbatim>\<open>Digest.of_bytes\<close> is the parameter \<open>dg\<close>, about which
  nothing is assumed. The blob directory is a map from digests to contents. \<^verbatim>\<open>is\<close> on the
  interned constants of a policy's kind is equality.
\<close>

section \<open>Artifacts\<close>

datatype artifact_state =
    AS_STAGED | AS_VERIFIED | AS_QUARANTINED | AS_ACTIVE | AS_ARCHIVED | AS_DELETED_TOMBSTONE

definition KEEP_FOREVER :: string where "KEEP_FOREVER = ''KEEP_FOREVER''"
definition LEGAL_HOLD :: string where "LEGAL_HOLD = ''LEGAL_HOLD''"
definition RETAIN_DAYS :: string where "RETAIN_DAYS = ''RETAIN_DAYS''"

record retention_policy =
  rk_kind :: string
  rk_days :: "int option"

definition retention_post_init :: "retention_policy \<Rightarrow> retention_policy res" where
  "retention_post_init p = first_error
     [(rk_kind p \<notin> set [KEEP_FOREVER, RETAIN_DAYS, LEGAL_HOLD],
        ''unknown retention policy kind: '' @ quote (rk_kind p)),
      (rk_kind p = RETAIN_DAYS \<and> (case rk_days p of None \<Rightarrow> True | Some d \<Rightarrow> d < 0),
        ''RETAIN_DAYS policy requires non-negative days''),
      (rk_kind p \<noteq> RETAIN_DAYS \<and> rk_days p \<noteq> None, rk_kind p @ '' policy must not carry days'')] p"

definition parse_policy :: "string \<Rightarrow> retention_policy res" where
  "parse_policy txt =
     (if txt = KEEP_FOREVER then retention_post_init \<lparr>rk_kind = KEEP_FOREVER, rk_days = None\<rparr>
      else if txt = LEGAL_HOLD then retention_post_init \<lparr>rk_kind = LEGAL_HOLD, rk_days = None\<rparr>
      else if starts_with (RETAIN_DAYS @ '':'') txt then
        (case py_int (drop (length (RETAIN_DAYS @ '':'')) txt) of
           None \<Rightarrow> Inl (ValueError (''invalid retention policy literal: '' @ quote txt))
         | Some d \<Rightarrow> retention_post_init \<lparr>rk_kind = RETAIN_DAYS, rk_days = Some d\<rparr>)
      else Inl (ValueError (''invalid retention policy literal: '' @ quote txt)))"

definition policy_str :: "retention_policy \<Rightarrow> string" where
  "policy_str p =
     (if rk_kind p = RETAIN_DAYS
      then RETAIN_DAYS @ '':'' @ (case rk_days p of None \<Rightarrow> ''None'' | Some d \<Rightarrow> str_int d)
      else rk_kind p)"

definition is_indefinite :: "retention_policy \<Rightarrow> bool" where
  "is_indefinite p = (rk_kind p \<in> set [KEEP_FOREVER, LEGAL_HOLD])"

record artifact =
  at_id :: string
  at_digest :: string
  at_size_bytes :: int
  at_media_type :: string
  at_storage_uri :: "string option"
  at_created_by :: "string option"
  at_source_refs :: "string list"
  at_classification :: "string option"
  at_retention_policy :: "retention_policy option"
  at_state :: artifact_state
  at_created_at :: "int option"
  at_supersedes :: "string option"

definition artifact_post_init :: "artifact \<Rightarrow> artifact res" where
  "artifact_post_init a = first_error
     [(at_id a = [], ''artifact id must not be empty''),
      (at_size_bytes a < 0, ''size_bytes must be non-negative''),
      (at_media_type a = [], ''media_type must not be empty''),
      (at_supersedes a = Some (at_id a), ''artifact '' @ at_id a @ '' cannot supersede itself'')] a"

definition valid_artifact :: "artifact \<Rightarrow> bool" where
  "valid_artifact a =
     (is_ok (artifact_post_init a) \<and>
      (case at_retention_policy a of None \<Rightarrow> True | Some p \<Rightarrow> is_ok (retention_post_init p)))"

definition verify_artifact_content :: "(string \<Rightarrow> string) \<Rightarrow> artifact \<Rightarrow> string \<Rightarrow> bool" where
  "verify_artifact_content dg a content = (dg content = at_digest a)"

section \<open>Revision chains\<close>

datatype supersedes_error =
    Supersedes_cycle "string list"
  | Supersedes_outside string string string
  | Supersedes_missing string string string

text \<open>
  The walk along the parents. The store's \<^verbatim>\<open>meta\<close> resolves an identifier; each step visits an
  identifier of the table that was not visited before, so the walk ends.
\<close>

lemma fewer_unvisited:
  assumes "target \<notin> set visited" and "row_of key target table = Some nxt"
  shows "card (key ` set table - set (visited @ [target])) < card (key ` set table - set visited)"
proof -
  have "key ` set table - set (visited @ [target]) \<subset> key ` set table - set visited"
    using assms by (auto dest: row_of_SomeD)
  then show ?thesis by (intro psubset_card_mono) auto
qed

function supersedes_walk ::
    "string \<Rightarrow> artifact list \<Rightarrow> string list \<Rightarrow> artifact \<Rightarrow> supersedes_error + unit" where
  "supersedes_walk run_id table visited current =
     (case at_supersedes current of
        None \<Rightarrow> Inr ()
      | Some target \<Rightarrow>
          (if target \<in> set visited then Inl (Supersedes_cycle (visited @ [target]))
           else if \<not> starts_with (run_id @ '':'') target
           then Inl (Supersedes_outside (at_id current) target run_id)
           else (case row_of at_id target table of
                   None \<Rightarrow> Inl (Supersedes_missing (at_id current) target run_id)
                 | Some nxt \<Rightarrow> supersedes_walk run_id table (visited @ [target]) nxt)))"
  by pat_completeness auto
termination
  by (relation "measure (\<lambda>(run_id, table, visited, current). card (at_id ` set table - set visited))")
    (simp, simp only: in_measure prod.case, rule fewer_unvisited)

declare supersedes_walk.simps [simp del]

definition validate_supersedes :: "string \<Rightarrow> artifact list \<Rightarrow> artifact \<Rightarrow> supersedes_error + unit" where
  "validate_supersedes run_id table a = supersedes_walk run_id table [at_id a] a"

section \<open>The store\<close>

definition artifact_transitions :: "artifact_state \<Rightarrow> artifact_state list" where
  "artifact_transitions s =
     (case s of
        AS_STAGED \<Rightarrow> [AS_VERIFIED, AS_QUARANTINED]
      | AS_VERIFIED \<Rightarrow> [AS_ACTIVE, AS_QUARANTINED]
      | AS_QUARANTINED \<Rightarrow> [AS_ACTIVE, AS_VERIFIED, AS_DELETED_TOMBSTONE]
      | AS_ACTIVE \<Rightarrow> [AS_ARCHIVED, AS_DELETED_TOMBSTONE]
      | AS_ARCHIVED \<Rightarrow> [AS_DELETED_TOMBSTONE]
      | AS_DELETED_TOMBSTONE \<Rightarrow> [])"

definition artifact_state_text :: "artifact_state \<Rightarrow> string" where
  "artifact_state_text s =
     (case s of
        AS_STAGED \<Rightarrow> ''STAGED'' | AS_VERIFIED \<Rightarrow> ''VERIFIED'' | AS_QUARANTINED \<Rightarrow> ''QUARANTINED''
      | AS_ACTIVE \<Rightarrow> ''ACTIVE'' | AS_ARCHIVED \<Rightarrow> ''ARCHIVED'' | AS_DELETED_TOMBSTONE \<Rightarrow> ''DELETED_TOMBSTONE'')"

record artifact_row =
  rw_id :: string
  rw_digest :: string
  rw_size_bytes :: int
  rw_media_type :: string
  rw_storage_uri :: "string option"
  rw_created_by :: "string option"
  rw_source_refs :: "string list"
  rw_classification :: "string option"
  rw_retention_policy :: "string option"
  rw_state :: artifact_state
  rw_created_at :: int
  rw_supersedes :: "string option"

record artifact_store = adapter_base +
  ar_rows :: "artifact_row list"
  ar_blobs :: "string \<rightharpoonup> string"

definition artifact_from_row :: "artifact_row \<Rightarrow> artifact res" where
  "artifact_from_row r =
     bind_res (case rw_retention_policy r of
                 None \<Rightarrow> Inr None
               | Some txt \<Rightarrow> bind_res (parse_policy txt) (\<lambda>p. Inr (Some p))) (\<lambda>policy.
       artifact_post_init
         \<lparr>at_id = rw_id r, at_digest = rw_digest r, at_size_bytes = rw_size_bytes r,
          at_media_type = rw_media_type r, at_storage_uri = rw_storage_uri r,
          at_created_by = rw_created_by r, at_source_refs = rw_source_refs r,
          at_classification = rw_classification r, at_retention_policy = policy,
          at_state = rw_state r, at_created_at = Some (rw_created_at r),
          at_supersedes = rw_supersedes r\<rparr>)"

definition created_at_text :: "artifact \<Rightarrow> int \<Rightarrow> int" where
  "created_at_text a now = (case at_created_at a of Some t \<Rightarrow> t | None \<Rightarrow> now)"

definition insert_metadata :: "artifact \<Rightarrow> int \<Rightarrow> artifact_row" where
  "insert_metadata a now =
     \<lparr>rw_id = at_id a, rw_digest = at_digest a, rw_size_bytes = at_size_bytes a,
      rw_media_type = at_media_type a, rw_storage_uri = at_storage_uri a,
      rw_created_by = at_created_by a, rw_source_refs = at_source_refs a,
      rw_classification = at_classification a,
      rw_retention_policy = map_option policy_str (at_retention_policy a),
      rw_state = at_state a, rw_created_at = created_at_text a now, rw_supersedes = at_supersedes a\<rparr>"

text \<open>The update of an existing row keeps its identifier and its creation time.\<close>

definition update_metadata :: "artifact \<Rightarrow> artifact_row \<Rightarrow> artifact_row" where
  "update_metadata a r = (insert_metadata a 0)\<lparr>rw_created_at := rw_created_at r, rw_id := rw_id r\<rparr>"

definition ar_put ::
    "(string \<Rightarrow> string) \<Rightarrow> artifact \<Rightarrow> string \<Rightarrow> int \<Rightarrow> artifact_store \<Rightarrow> unit res \<times> artifact_store" where
  "ar_put dg a content now st =
     (if ab_closed st then (Inl closed_error, st)
      else if \<not> verify_artifact_content dg a content then
        (Inl (InvalidInputError (''artifact content digest mismatch for '' @ at_id a)),
         log_error ''put'' (at_id a) st)
      else
        (let blobs = (if ar_blobs st (at_digest a) = None
                      then (ar_blobs st)(at_digest a \<mapsto> content) else ar_blobs st);
             rows = (if row_of rw_id (at_id a) (ar_rows st) = None
                     then ar_rows st @ [insert_metadata a now]
                     else upd_row rw_id (at_id a) (update_metadata a) (ar_rows st))
         in (Inr (),
             log_result ''put'' (at_id a @ ''/'' @ str_int (int (length content))) ''stored''
               (st\<lparr>ar_rows := rows, ar_blobs := blobs\<rparr>))))"

definition unknown_artifact :: "string \<Rightarrow> py_error" where
  "unknown_artifact aid = InvalidInputError (''unknown artifact id: '' @ aid)"

definition read_blob :: "string \<Rightarrow> artifact_store \<Rightarrow> string res" where
  "read_blob digest st =
     (case ar_blobs st digest of None \<Rightarrow> Inl (FileNotFoundError digest) | Some c \<Rightarrow> Inr c)"

definition ar_get :: "string \<Rightarrow> artifact_store \<Rightarrow> string res \<times> artifact_store" where
  "ar_get aid st =
     (if ab_closed st then (Inl closed_error, st)
      else case row_of rw_id aid (ar_rows st) of
             None \<Rightarrow> (Inl (unknown_artifact aid), log_error ''get'' aid st)
           | Some r \<Rightarrow>
               (if rw_state r = AS_DELETED_TOMBSTONE
                then (Inl (InvalidInputError (''artifact deleted: '' @ aid)), log_error ''get'' aid st)
                else case read_blob (rw_digest r) st of
                       Inl e \<Rightarrow> (Inl e, st)
                     | Inr c \<Rightarrow> (Inr c, log_result ''get'' aid (str_int (int (length c))) st)))"

definition ar_verify :: "(string \<Rightarrow> string) \<Rightarrow> string \<Rightarrow> artifact_store \<Rightarrow> bool res \<times> artifact_store" where
  "ar_verify dg aid st =
     (if ab_closed st then (Inl closed_error, st)
      else case row_of rw_id aid (ar_rows st) of
             None \<Rightarrow> (Inl (unknown_artifact aid), log_error ''verify'' aid st)
           | Some r \<Rightarrow>
               (if rw_state r = AS_DELETED_TOMBSTONE
                then (Inl (InvalidInputError (''artifact deleted: '' @ aid)), log_error ''verify'' aid st)
                else case bind_res (read_blob (rw_digest r) st)
                            (\<lambda>c. bind_res (artifact_from_row r) (\<lambda>a. Inr (verify_artifact_content dg a c))) of
                       Inl e \<Rightarrow> (Inl e, st)
                     | Inr ok \<Rightarrow> (Inr ok, log_result ''verify'' aid (if ok then ''True'' else ''False'') st)))"

definition ar_meta :: "string \<Rightarrow> artifact_store \<Rightarrow> artifact option res \<times> artifact_store" where
  "ar_meta aid st =
     (if ab_closed st then (Inl closed_error, st)
      else case row_of rw_id aid (ar_rows st) of
             None \<Rightarrow> (Inr None, log_result ''meta'' aid ''none'' st)
           | Some r \<Rightarrow>
               (case artifact_from_row r of
                  Inl e \<Rightarrow> (Inl e, st)
                | Inr a \<Rightarrow> (Inr (Some a), log_result ''meta'' aid ''found'' st)))"

definition illegal_transition :: "artifact_state \<Rightarrow> artifact_state \<Rightarrow> py_error" where
  "illegal_transition current state =
     InvalidInputError (''illegal artifact state transition '' @ artifact_state_text current @ '' -> '' @
       artifact_state_text state)"

definition set_artifact_state :: "string \<Rightarrow> artifact_state \<Rightarrow> artifact_store \<Rightarrow> artifact_store" where
  "set_artifact_state aid state st =
     st\<lparr>ar_rows := upd_row rw_id aid (\<lambda>r. r\<lparr>rw_state := state\<rparr>) (ar_rows st)\<rparr>"

definition ar_mark :: "string \<Rightarrow> artifact_state \<Rightarrow> artifact_store \<Rightarrow> unit res \<times> artifact_store" where
  "ar_mark aid state st =
     (if ab_closed st then (Inl closed_error, st)
      else case row_of rw_id aid (ar_rows st) of
             None \<Rightarrow> (Inl (unknown_artifact aid), log_error ''mark'' aid st)
           | Some r \<Rightarrow>
               (if state \<notin> set (artifact_transitions (rw_state r))
                then (Inl (illegal_transition (rw_state r) state), log_error ''mark'' aid st)
                else (Inr (), log_ok ''mark'' (aid @ ''/'' @ artifact_state_text state)
                        (set_artifact_state aid state st))))"

definition ar_list_refs :: "artifact_store \<Rightarrow> artifact list res \<times> artifact_store" where
  "ar_list_refs st =
     (if ab_closed st then (Inl closed_error, st)
      else (map_res artifact_from_row (sort_key (\<lambda>r. iso_key (rw_created_at r)) (ar_rows st)),
            log_ok ''list_refs'' [] st))"

definition ar_archive :: "string \<Rightarrow> artifact_store \<Rightarrow> unit res \<times> artifact_store" where
  "ar_archive aid st = ar_mark aid AS_ARCHIVED st"

definition digest_still_referenced :: "string \<Rightarrow> string \<Rightarrow> artifact_row list \<Rightarrow> bool" where
  "digest_still_referenced digest excluding rows =
     (\<exists>r\<in>set rows. rw_digest r = digest \<and> rw_id r \<noteq> excluding \<and> rw_state r \<noteq> AS_DELETED_TOMBSTONE)"

definition ar_delete :: "string \<Rightarrow> artifact_store \<Rightarrow> unit res \<times> artifact_store" where
  "ar_delete aid st =
     (if ab_closed st then (Inl closed_error, st)
      else case row_of rw_id aid (ar_rows st) of
             None \<Rightarrow> (Inl (unknown_artifact aid), log_error ''delete'' aid st)
           | Some r \<Rightarrow>
               (if AS_DELETED_TOMBSTONE \<notin> set (artifact_transitions (rw_state r))
                then (Inl (illegal_transition (rw_state r) AS_DELETED_TOMBSTONE), log_error ''delete'' aid st)
                else
                  (let st1 = set_artifact_state aid AS_DELETED_TOMBSTONE st;
                       blobs = (if digest_still_referenced (rw_digest r) aid (ar_rows st1) then ar_blobs st1
                                else (ar_blobs st1)(rw_digest r := None))
                   in (Inr (), log_ok ''delete'' aid (st1\<lparr>ar_blobs := blobs\<rparr>)))))"

section \<open>Retention\<close>

record retention_report =
  re_archived :: "string list"
  re_deleted :: "string list"
  re_skipped :: "string list"

text \<open>\<^verbatim>\<open>timedelta(days=n)\<close>\<close>

definition timedelta_days :: "int \<Rightarrow> int res" where
  "timedelta_days n = (if 999999999 < \<bar>n\<bar> then Inl (OverflowError ''days'') else Inr (n * day_us))"

definition policy_action :: "artifact \<Rightarrow> int \<Rightarrow> string res" where
  "policy_action a now =
     (case (at_retention_policy a, at_created_at a) of
        (Some p, Some t) \<Rightarrow>
          (if is_indefinite p then Inr ''keep''
           else (case rk_days p of
                   None \<Rightarrow> Inl AssertionError
                 | Some d \<Rightarrow>
                     if rk_kind p \<noteq> RETAIN_DAYS then Inl AssertionError
                     else bind_res (timedelta_days d)
                            (\<lambda>span. Inr (if span < now - t then ''archive'' else ''keep''))))
      | _ \<Rightarrow> Inr ''keep'')"

definition quarantine_action :: "artifact \<Rightarrow> int \<Rightarrow> int \<Rightarrow> string res" where
  "quarantine_action a now quarantine_days =
     (case at_created_at a of
        None \<Rightarrow> Inr ''keep''
      | Some t \<Rightarrow>
          bind_res (timedelta_days quarantine_days)
            (\<lambda>span. Inr (if span < now - t then ''delete'' else ''keep'')))"

definition skip_on_invalid ::
    "unit res \<times> artifact_store \<Rightarrow> (retention_report \<Rightarrow> retention_report) \<Rightarrow>
     (retention_report \<Rightarrow> retention_report) \<Rightarrow> retention_report \<Rightarrow> retention_report res \<times> artifact_store" where
  "skip_on_invalid result applied skipped rep =
     (case result of
        (Inr _, st) \<Rightarrow> (Inr (applied rep), st)
      | (Inl (InvalidInputError _), st) \<Rightarrow> (Inr (skipped rep), st)
      | (Inl e, st) \<Rightarrow> (Inl e, st))"

definition retain_one ::
    "int \<Rightarrow> int \<Rightarrow> artifact \<Rightarrow> retention_report \<Rightarrow> artifact_store \<Rightarrow> retention_report res \<times> artifact_store" where
  "retain_one now quarantine_days a rep st =
     (let skipped = (\<lambda>r. r\<lparr>re_skipped := re_skipped r @ [at_id a]\<rparr>)
      in if at_state a = AS_DELETED_TOMBSTONE then (Inr (skipped rep), st)
         else (case (if at_state a = AS_QUARANTINED then quarantine_action a now quarantine_days
                     else policy_action a now) of
                 Inl e \<Rightarrow> (Inl e, st)
               | Inr action \<Rightarrow>
                   if action = ''archive''
                   then skip_on_invalid (ar_archive (at_id a) st)
                          (\<lambda>r. r\<lparr>re_archived := re_archived r @ [at_id a]\<rparr>) skipped rep
                   else if action = ''delete''
                   then skip_on_invalid (ar_delete (at_id a) st)
                          (\<lambda>r. r\<lparr>re_deleted := re_deleted r @ [at_id a]\<rparr>) skipped rep
                   else (Inr (skipped rep), st)))"

fun retain_all ::
    "int \<Rightarrow> int \<Rightarrow> artifact list \<Rightarrow> retention_report \<Rightarrow> artifact_store \<Rightarrow> retention_report res \<times> artifact_store" where
  "retain_all now quarantine_days [] rep st = (Inr rep, st)"
| "retain_all now quarantine_days (a # as) rep st =
     (case retain_one now quarantine_days a rep st of
        (Inl e, st') \<Rightarrow> (Inl e, st')
      | (Inr rep', st') \<Rightarrow> retain_all now quarantine_days as rep' st')"

definition apply_retention :: "int \<Rightarrow> int \<Rightarrow> artifact_store \<Rightarrow> retention_report res \<times> artifact_store" where
  "apply_retention now quarantine_days st =
     (case ar_list_refs st of
        (Inl e, st') \<Rightarrow> (Inl e, st')
      | (Inr as, st') \<Rightarrow>
          retain_all now quarantine_days as \<lparr>re_archived = [], re_deleted = [], re_skipped = []\<rparr> st')"

end
