(* ===== verification/Artifact_Properties.thy ===== *)
theory Artifact_Properties
  imports Artifact_Store
begin

text \<open>
  What the artifact store guarantees over every history of its calls: content stays readable
  and verified until it is deleted, whatever happens to artifacts with the same content; what a
  retention scan does to each artifact; and when a chain of revisions is accepted.
\<close>

section \<open>Rows\<close>

lemma parse_policy_str:
  assumes "is_ok (retention_post_init p)"
  shows "parse_policy (policy_str p) = Inr p"
proof -
  have p: "retention_post_init p = Inr p"
    using assms by (auto simp: retention_post_init_def first_error_ok_iff first_error_Inr_iff simp del: first_error.simps)
  from assms consider "p = \<lparr>rk_kind = KEEP_FOREVER, rk_days = None\<rparr>" | "p = \<lparr>rk_kind = LEGAL_HOLD, rk_days = None\<rparr>"
    | d where "p = \<lparr>rk_kind = RETAIN_DAYS, rk_days = Some d\<rparr>"
    by (cases p) (auto simp: retention_post_init_def RETAIN_DAYS_def LEGAL_HOLD_def KEEP_FOREVER_def
        split: if_splits option.splits)
  then show ?thesis
  proof cases
    case (3 d)
    have "starts_with (RETAIN_DAYS @ '':'') (policy_str p)" "drop (length (RETAIN_DAYS @ '':'')) (policy_str p) = str_int d"
      using 3 by (simp_all add: policy_str_def starts_with_def)
    moreover have "policy_str p \<noteq> KEEP_FOREVER" "policy_str p \<noteq> LEGAL_HOLD"
      using 3 by (simp_all add: policy_str_def RETAIN_DAYS_def LEGAL_HOLD_def KEEP_FOREVER_def)
    ultimately show ?thesis using 3 p by (simp add: parse_policy_def py_int_str_int)
  qed (use p in \<open>auto simp: parse_policy_def policy_str_def RETAIN_DAYS_def LEGAL_HOLD_def KEEP_FOREVER_def\<close>)
qed

lemma artifact_post_init_Inr:
  "is_ok (artifact_post_init a) \<Longrightarrow> artifact_post_init a = Inr a"
  unfolding artifact_post_init_def first_error_ok_iff by (simp only: first_error_Inr_iff)

lemma artifact_post_init_frame [simp]:
  "is_ok (artifact_post_init (a\<lparr>at_state := s\<rparr>)) = is_ok (artifact_post_init a)"
  "is_ok (artifact_post_init (a\<lparr>at_created_at := t\<rparr>)) = is_ok (artifact_post_init a)"
  by (simp_all add: artifact_post_init_def first_error_ok_iff)

lemma artifact_from_row_insert:
  assumes "valid_artifact a"
  shows "artifact_from_row (insert_metadata a now) = Inr (a\<lparr>at_created_at := Some (created_at_text a now)\<rparr>)"
proof -
  let ?a = "a\<lparr>at_created_at := Some (created_at_text a now)\<rparr>"
  have "is_ok (artifact_post_init ?a)" using assms by (simp add: valid_artifact_def)
  then have "artifact_post_init ?a = Inr ?a" by (rule artifact_post_init_Inr)
  with assms show ?thesis
    by (cases a) (auto simp: artifact_from_row_def insert_metadata_def valid_artifact_def parse_policy_str
        split: option.splits)
qed

lemma artifact_from_row_state [simp]:
  "is_ok (artifact_from_row (r\<lparr>rw_state := s\<rparr>)) = is_ok (artifact_from_row r)"
  by (auto simp: artifact_from_row_def bind_res_def artifact_post_init_def first_error_ok_iff
      simp del: first_error.simps split: sum.splits option.splits)

lemma artifact_from_row_created [simp]:
  "is_ok (artifact_from_row (r\<lparr>rw_created_at := t\<rparr>)) = is_ok (artifact_from_row r)"
  by (auto simp: artifact_from_row_def bind_res_def artifact_post_init_def first_error_ok_iff
      simp del: first_error.simps split: sum.splits option.splits)

lemma update_metadata_simps [simp]:
  "rw_id (update_metadata a r) = rw_id r" "rw_digest (update_metadata a r) = at_digest a"
  "rw_id (insert_metadata a now) = at_id a" "rw_digest (insert_metadata a now) = at_digest a"
  by (simp_all add: update_metadata_def insert_metadata_def)

lemma artifact_from_row_update:
  assumes "valid_artifact a" and "rw_id r = at_id a"
  shows "is_ok (artifact_from_row (update_metadata a r))"
proof -
  have "update_metadata a r = (insert_metadata a 0)\<lparr>rw_created_at := rw_created_at r\<rparr>"
    using assms(2) by (simp add: update_metadata_def insert_metadata_def)
  then show ?thesis using artifact_from_row_insert [OF assms(1), of 0] by simp
qed

section \<open>The invariant\<close>

definition blobs_intact :: "(string \<Rightarrow> string) \<Rightarrow> artifact_store \<Rightarrow> bool" where
  "blobs_intact dg st =
     ((\<forall>r\<in>set (ar_rows st). rw_state r \<noteq> AS_DELETED_TOMBSTONE \<longrightarrow> ar_blobs st (rw_digest r) \<noteq> None) \<and>
      (\<forall>d c. ar_blobs st d = Some c \<longrightarrow> dg c = d))"

definition rows_intact :: "artifact_row list \<Rightarrow> bool" where
  "rows_intact rows = (distinct (map rw_id rows) \<and> (\<forall>r\<in>set rows. is_ok (artifact_from_row r)))"

definition store_intact :: "(string \<Rightarrow> string) \<Rightarrow> artifact_store \<Rightarrow> bool" where
  "store_intact dg st = (rows_intact (ar_rows st) \<and> blobs_intact dg st)"

lemma store_intact_log [simp]: "store_intact dg (log_call m a r e st) = store_intact dg st"
  by (simp add: store_intact_def blobs_intact_def log_call_def)

lemma rows_intact_state:
  "rows_intact rows \<Longrightarrow> rows_intact (upd_row rw_id aid (\<lambda>r. r\<lparr>rw_state := s\<rparr>) rows)"
  by (auto simp: rows_intact_def keys_upd_row set_upd_row)

lemma put_effect:
  assumes "\<not> ab_closed st" and "verify_artifact_content dg a content"
  shows "ar_rows (snd (ar_put dg a content now st)) =
      (if row_of rw_id (at_id a) (ar_rows st) = None then ar_rows st @ [insert_metadata a now]
       else upd_row rw_id (at_id a) (update_metadata a) (ar_rows st))"
    and "ar_blobs (snd (ar_put dg a content now st)) =
      (if ar_blobs st (at_digest a) = None then (ar_blobs st)(at_digest a \<mapsto> content) else ar_blobs st)"
    and "ab_closed (snd (ar_put dg a content now st)) = ab_closed st"
  using assms by (simp_all add: ar_put_def Let_def log_defs)

lemma put_intact:
  assumes "store_intact dg st" and "valid_artifact a"
  shows "store_intact dg (snd (ar_put dg a content now st))"
proof (cases "ab_closed st \<or> \<not> verify_artifact_content dg a content")
  case True
  then show ?thesis using assms(1) by (auto simp: ar_put_def log_error_def)
next
  case False
  then have ok: "\<not> ab_closed st" "verify_artifact_content dg a content" by auto
  have "rows_intact (ar_rows (snd (ar_put dg a content now st)))"
    unfolding put_effect [OF ok]
    using assms artifact_from_row_insert [OF assms(2), of now] artifact_from_row_update [OF assms(2)]
    by (auto simp: store_intact_def rows_intact_def keys_upd_row set_upd_row row_of_None_iff image_iff)
  moreover have "blobs_intact dg (snd (ar_put dg a content now st))"
    unfolding blobs_intact_def put_effect [OF ok] using assms(1) ok
    by (auto simp: store_intact_def blobs_intact_def set_upd_row verify_artifact_content_def)
  ultimately show ?thesis by (simp add: store_intact_def)
qed

lemma mark_intact:
  assumes "store_intact dg st"
  shows "store_intact dg (snd (ar_mark aid s st))"
proof (cases "ab_closed st \<or> row_of rw_id aid (ar_rows st) = None \<or>
    s \<notin> set (artifact_transitions (rw_state (the (row_of rw_id aid (ar_rows st)))))")
  case True
  then show ?thesis using assms by (auto simp: ar_mark_def log_error_def split: option.splits)
next
  case False
  then obtain r where r: "row_of rw_id aid (ar_rows st) = Some r" "s \<in> set (artifact_transitions (rw_state r))" by auto
  have live: "rw_state x \<noteq> AS_DELETED_TOMBSTONE" if "x \<in> set (ar_rows st)" "rw_id x = aid" for x
  proof -
    have "x = r" using that r(1) assms row_of_distinct [of rw_id "ar_rows st" x] by (simp add: store_intact_def rows_intact_def)
    with r(2) show ?thesis by (auto simp: artifact_transitions_def)
  qed
  have "store_intact dg (set_artifact_state aid s st)"
    using assms live rows_intact_state [of "ar_rows st" aid s]
    by (auto simp: store_intact_def blobs_intact_def set_artifact_state_def set_upd_row)
  then show ?thesis using False r by (simp add: ar_mark_def log_ok_def)
qed

lemma delete_effect:
  assumes "row_of rw_id aid (ar_rows st) = Some r" and "\<not> ab_closed st"
    and "AS_DELETED_TOMBSTONE \<in> set (artifact_transitions (rw_state r))"
  shows "ar_rows (snd (ar_delete aid st)) = upd_row rw_id aid (\<lambda>r. r\<lparr>rw_state := AS_DELETED_TOMBSTONE\<rparr>) (ar_rows st)"
    and "ar_blobs (snd (ar_delete aid st)) =
      (if digest_still_referenced (rw_digest r) aid (ar_rows st) then ar_blobs st else (ar_blobs st)(rw_digest r := None))"
    and "fst (ar_delete aid st) = Inr ()"
proof -
  have "digest_still_referenced d aid (ar_rows (set_artifact_state aid s st)) = digest_still_referenced d aid (ar_rows st)" for d s
    by (auto simp: digest_still_referenced_def set_artifact_state_def set_upd_row)
  then show "ar_rows (snd (ar_delete aid st)) = upd_row rw_id aid (\<lambda>r. r\<lparr>rw_state := AS_DELETED_TOMBSTONE\<rparr>) (ar_rows st)"
    and "ar_blobs (snd (ar_delete aid st)) =
      (if digest_still_referenced (rw_digest r) aid (ar_rows st) then ar_blobs st else (ar_blobs st)(rw_digest r := None))"
    and "fst (ar_delete aid st) = Inr ()"
    using assms by (simp_all add: ar_delete_def Let_def log_defs set_artifact_state_def)
qed

lemma delete_refused:
  assumes "ab_closed st \<or> row_of rw_id aid (ar_rows st) = None \<or>
    AS_DELETED_TOMBSTONE \<notin> set (artifact_transitions (rw_state (the (row_of rw_id aid (ar_rows st)))))"
  shows "\<exists>e. fst (ar_delete aid st) = Inl e \<and> ar_rows (snd (ar_delete aid st)) = ar_rows st \<and>
    ar_blobs (snd (ar_delete aid st)) = ar_blobs st \<and> (\<not> ab_closed st \<longrightarrow> (\<exists>m. e = InvalidInputError m))"
  using assms by (auto simp: ar_delete_def log_defs unknown_artifact_def illegal_transition_def split: option.splits)

lemma delete_intact:
  assumes "store_intact dg st"
  shows "store_intact dg (snd (ar_delete aid st))"
proof (cases "ab_closed st \<or> row_of rw_id aid (ar_rows st) = None \<or>
    AS_DELETED_TOMBSTONE \<notin> set (artifact_transitions (rw_state (the (row_of rw_id aid (ar_rows st)))))")
  case True
  from delete_refused [OF this] assms show ?thesis by (auto simp: store_intact_def blobs_intact_def)
next
  case False
  then obtain r where r: "row_of rw_id aid (ar_rows st) = Some r" "\<not> ab_closed st"
    "AS_DELETED_TOMBSTONE \<in> set (artifact_transitions (rw_state r))" by auto
  have "blobs_intact dg (snd (ar_delete aid st))"
    unfolding blobs_intact_def delete_effect [OF r] set_upd_row
    using assms by (auto simp: store_intact_def blobs_intact_def digest_still_referenced_def split: if_splits)
  then show ?thesis
    using assms rows_intact_state unfolding store_intact_def delete_effect [OF r] by blast
qed

lemma skip_on_invalid_snd [simp]: "snd (skip_on_invalid result f g rep) = snd result"
  by (auto simp: skip_on_invalid_def split: prod.splits sum.splits py_error.splits)

lemma retain_one_intact:
  "store_intact dg st \<Longrightarrow> store_intact dg (snd (retain_one now qd a rep st))"
  by (simp add: retain_one_def Let_def ar_archive_def mark_intact delete_intact split: sum.split)

lemma retain_all_intact:
  "store_intact dg st \<Longrightarrow> store_intact dg (snd (retain_all now qd as rep st))"
proof (induction as arbitrary: rep st)
  case (Cons a as)
  obtain res st' where one: "retain_one now qd a rep st = (res, st')" by fastforce
  with retain_one_intact [OF Cons.prems, of now qd a rep] have "store_intact dg st'" by simp
  with Cons.IH one show ?case by (cases res) simp_all
qed simp

lemma retention_intact:
  assumes "store_intact dg st"
  shows "store_intact dg (snd (apply_retention now qd st))"
proof -
  have "store_intact dg (snd (ar_list_refs st))" using assms by (simp add: ar_list_refs_def log_ok_def)
  then show ?thesis
    using retain_all_intact by (auto simp: apply_retention_def split: prod.splits sum.splits)
qed

section \<open>Histories\<close>

datatype ar_cmd =
    Ar_put artifact string int
  | Ar_mark string artifact_state
  | Ar_delete string
  | Ar_retain int int

fun ar_step :: "(string \<Rightarrow> string) \<Rightarrow> ar_cmd \<Rightarrow> artifact_store \<Rightarrow> artifact_store" where
  "ar_step dg (Ar_put a content now) st = snd (ar_put dg a content now st)"
| "ar_step dg (Ar_mark aid s) st = snd (ar_mark aid s st)"
| "ar_step dg (Ar_delete aid) st = snd (ar_delete aid st)"
| "ar_step dg (Ar_retain now qd) st = snd (apply_retention now qd st)"

fun ar_cmd_ok :: "ar_cmd \<Rightarrow> bool" where
  "ar_cmd_ok (Ar_put a content now) = valid_artifact a"
| "ar_cmd_ok _ = True"

inductive ar_reach :: "(string \<Rightarrow> string) \<Rightarrow> artifact_store \<Rightarrow> bool" for dg where
  ar_reach_empty: "ar_rows st = [] \<Longrightarrow> ar_blobs st = Map.empty \<Longrightarrow> ar_reach dg st"
| ar_reach_step: "ar_reach dg st \<Longrightarrow> ar_cmd_ok cmd \<Longrightarrow> ar_reach dg (ar_step dg cmd st)"

lemma ar_step_intact: "store_intact dg st \<Longrightarrow> ar_cmd_ok cmd \<Longrightarrow> store_intact dg (ar_step dg cmd st)"
  by (cases cmd) (simp_all add: put_intact mark_intact delete_intact retention_intact)

lemma ar_reach_intact: "ar_reach dg st \<Longrightarrow> store_intact dg st"
proof (induction rule: ar_reach.induct)
  case (ar_reach_empty st)
  then show ?case by (simp add: store_intact_def rows_intact_def blobs_intact_def)
qed (rule ar_step_intact)

text \<open>
  Only a put changes what a row says besides its state, and only a deletion, a mark as deleted or a
  scan makes an artifact a tombstone.
\<close>

fun ar_puts :: "string \<Rightarrow> ar_cmd \<Rightarrow> bool" where
  "ar_puts aid (Ar_put a content now) = (at_id a = aid)"
| "ar_puts aid _ = False"

fun ar_may_delete :: "string \<Rightarrow> ar_cmd \<Rightarrow> bool" where
  "ar_may_delete aid (Ar_put a content now) = False"
| "ar_may_delete aid (Ar_mark x s) = (x = aid \<and> s = AS_DELETED_TOMBSTONE)"
| "ar_may_delete aid (Ar_delete x) = (x = aid)"
| "ar_may_delete aid (Ar_retain now qd) = True"

definition states_only :: "artifact_store \<Rightarrow> artifact_store \<Rightarrow> bool" where
  "states_only st st' \<longleftrightarrow> ab_closed st' = ab_closed st \<and>
     (\<forall>aid. map_option rw_digest (row_of rw_id aid (ar_rows st')) = map_option rw_digest (row_of rw_id aid (ar_rows st)))"

lemma states_only_refl [simp]: "states_only st st"
  by (simp add: states_only_def)

lemma states_only_trans: "states_only a b \<Longrightarrow> states_only b c \<Longrightarrow> states_only a c"
  by (simp add: states_only_def)

lemma states_only_moves: "states_only st (snd (ar_mark aid s st))" "states_only st (snd (ar_delete aid st))"
  by (auto simp: states_only_def ar_mark_def ar_delete_def set_artifact_state_def log_defs Let_def row_of_upd_row
      option.map_comp comp_def split: option.split)

lemma retain_one_states: "states_only st (snd (retain_one now qd a rep st))"
  by (simp add: retain_one_def Let_def ar_archive_def states_only_moves split: sum.split)

lemma retain_all_states: "states_only st (snd (retain_all now qd as rep st))"
proof (induction as arbitrary: rep st)
  case (Cons a as)
  obtain res st' where one: "retain_one now qd a rep st = (res, st')" by fastforce
  with retain_one_states [of st now qd a rep] have "states_only st st'" by simp
  with Cons.IH one states_only_trans show ?case by (cases res) (simp, fastforce)
qed simp

lemma retention_states: "states_only st (snd (apply_retention now qd st))"
proof -
  have "states_only st (snd (ar_list_refs st))" by (simp add: ar_list_refs_def log_ok_def log_call_def states_only_def)
  then show ?thesis
    using retain_all_states states_only_trans
    by (auto simp: apply_retention_def split: prod.splits sum.splits)
qed

lemma put_other_row:
  "at_id a \<noteq> aid \<Longrightarrow> row_of rw_id aid (ar_rows (snd (ar_put dg a content now st))) = row_of rw_id aid (ar_rows st) \<and>
     ab_closed (snd (ar_put dg a content now st)) = ab_closed st"
  by (auto simp: ar_put_def Let_def log_defs row_of_upd_row row_of_append row_of_Cons split: option.splits)

lemma ar_step_digest:
  assumes "\<not> ar_puts aid cmd"
  shows "map_option rw_digest (row_of rw_id aid (ar_rows (ar_step dg cmd st))) =
      map_option rw_digest (row_of rw_id aid (ar_rows st))"
    and "ab_closed (ar_step dg cmd st) = ab_closed st"
  using assms put_other_row states_only_moves retention_states by (cases cmd; auto simp: states_only_def)+

definition tombstone :: "string \<Rightarrow> artifact_store \<Rightarrow> bool" where
  "tombstone aid st = (map_option rw_state (row_of rw_id aid (ar_rows st)) = Some AS_DELETED_TOMBSTONE)"

lemma ar_step_tombstone:
  assumes "\<not> ar_puts aid cmd" and "\<not> ar_may_delete aid cmd" and "tombstone aid (ar_step dg cmd st)"
  shows "tombstone aid st"
  using assms put_other_row
  by (cases cmd)
    (auto simp: tombstone_def ar_mark_def ar_delete_def set_artifact_state_def log_defs Let_def row_of_upd_row
      split: option.splits if_splits)

lemma ar_steps_content:
  assumes "list_all (\<lambda>c. ar_cmd_ok c \<and> \<not> ar_puts aid c) cmds" and "store_intact dg st"
  shows "map_option rw_digest (row_of rw_id aid (ar_rows (fold (ar_step dg) cmds st))) =
      map_option rw_digest (row_of rw_id aid (ar_rows st)) \<and>
    ab_closed (fold (ar_step dg) cmds st) = ab_closed st \<and> store_intact dg (fold (ar_step dg) cmds st) \<and>
    (tombstone aid (fold (ar_step dg) cmds st) \<longrightarrow> tombstone aid st \<or> (\<exists>c\<in>set cmds. ar_may_delete aid c))"
  using assms
proof (induction cmds arbitrary: st)
  case (Cons c cmds)
  then have c: "ar_cmd_ok c" "\<not> ar_puts aid c" by simp_all
  have "store_intact dg (ar_step dg c st)" by (rule ar_step_intact [OF Cons.prems(2) c(1)])
  with Cons.IH [of "ar_step dg c st"] Cons.prems(1) ar_step_digest [OF c(2)] ar_step_tombstone [OF c(2)]
  show ?case by auto
qed simp

lemma get_of_live:
  assumes "store_intact dg st" and "\<not> ab_closed st" and "row_of rw_id aid (ar_rows st) = Some r"
    and "rw_state r \<noteq> AS_DELETED_TOMBSTONE"
  shows "\<exists>c. fst (ar_get aid st) = Inr c \<and> dg c = rw_digest r \<and> fst (ar_verify dg aid st) = Inr True"
proof -
  have r: "r \<in> set (ar_rows st)" using row_of_SomeD [OF assms(3)] by simp
  then obtain c where c: "ar_blobs st (rw_digest r) = Some c" "dg c = rw_digest r"
    using assms(1,4) by (fastforce simp: store_intact_def blobs_intact_def)
  obtain a where a: "artifact_from_row r = Inr a"
    using r assms(1) by (cases "artifact_from_row r") (auto simp: store_intact_def rows_intact_def)
  then have "at_digest a = rw_digest r"
    by (auto simp: artifact_from_row_def bind_res_Inr_iff artifact_post_init_def first_error_Inr_iff simp del: first_error.simps)
  with a c assms show ?thesis by (simp add: ar_get_def ar_verify_def read_blob_def verify_artifact_content_def)
qed

lemma put_row:
  assumes "\<not> ab_closed st" and "verify_artifact_content dg a content"
  shows "\<exists>r. row_of rw_id (at_id a) (ar_rows (snd (ar_put dg a content now st))) = Some r \<and>
    rw_digest r = at_digest a \<and> rw_state r = at_state a \<and> rw_created_by r = at_created_by a"
proof (cases "row_of rw_id (at_id a) (ar_rows st)")
  case None
  then show ?thesis unfolding put_effect(1) [OF assms] by (simp add: row_of_append row_of_Cons insert_metadata_def)
next
  case (Some r)
  then have "row_of rw_id (at_id a) (upd_row rw_id (at_id a) (update_metadata a) (ar_rows st)) = Some (update_metadata a r)"
    by (simp add: row_of_upd_row)
  then show ?thesis unfolding put_effect(1) [OF assms] using Some by (simp add: update_metadata_def insert_metadata_def)
qed

section \<open>Retention\<close>

text \<open>What a scan makes of an artifact.\<close>

definition retention_fate :: "int \<Rightarrow> int \<Rightarrow> artifact \<Rightarrow> artifact_state" where
  "retention_fate now quarantine_days a =
     (let age = now - the (at_created_at a)
      in if at_state a = AS_QUARANTINED \<and> quarantine_days * day_us < age then AS_DELETED_TOMBSTONE
         else if at_state a = AS_ACTIVE \<and>
             (\<exists>d. at_retention_policy a = Some \<lparr>rk_kind = RETAIN_DAYS, rk_days = Some d\<rparr> \<and> d * day_us < age)
         then AS_ARCHIVED
         else at_state a)"

definition days_in_range :: "artifact \<Rightarrow> bool" where
  "days_in_range a =
     (case at_retention_policy a of
        None \<Rightarrow> True
      | Some p \<Rightarrow> is_ok (retention_post_init p) \<and> (case rk_days p of None \<Rightarrow> True | Some d \<Rightarrow> d \<le> 999999999))"

lemma policy_action_result:
  assumes "at_created_at a = Some t" and "days_in_range a"
  shows "policy_action a now =
    Inr (if \<exists>d. at_retention_policy a = Some \<lparr>rk_kind = RETAIN_DAYS, rk_days = Some d\<rparr> \<and> d * day_us < now - t
         then ''archive'' else ''keep'')"
proof (cases "at_retention_policy a")
  case (Some p)
  then consider "p = \<lparr>rk_kind = KEEP_FOREVER, rk_days = None\<rparr>" | "p = \<lparr>rk_kind = LEGAL_HOLD, rk_days = None\<rparr>"
    | d where "p = \<lparr>rk_kind = RETAIN_DAYS, rk_days = Some d\<rparr>" "0 \<le> d" "d \<le> 999999999"
    using assms(2)
    by (cases p) (auto simp: days_in_range_def retention_post_init_def RETAIN_DAYS_def LEGAL_HOLD_def KEEP_FOREVER_def
        split: if_splits option.splits)
  then show ?thesis
    using assms(1) Some
    by cases (auto simp: policy_action_def is_indefinite_def timedelta_days_def RETAIN_DAYS_def LEGAL_HOLD_def KEEP_FOREVER_def)
qed (use assms in \<open>simp add: policy_action_def\<close>)

definition settled :: "int \<Rightarrow> int \<Rightarrow> artifact_row \<Rightarrow> artifact_row" where
  "settled now qd r =
     (case artifact_from_row r of Inl _ \<Rightarrow> r | Inr a \<Rightarrow> r\<lparr>rw_state := retention_fate now qd a\<rparr>)"

lemma settled_id [simp]: "rw_id (settled now qd r) = rw_id r"
  by (simp add: settled_def split: sum.split)

definition report_add :: "int \<Rightarrow> int \<Rightarrow> artifact \<Rightarrow> retention_report \<Rightarrow> retention_report" where
  "report_add now qd a rep =
     (if retention_fate now qd a = at_state a then rep\<lparr>re_skipped := re_skipped rep @ [at_id a]\<rparr>
      else if retention_fate now qd a = AS_ARCHIVED then rep\<lparr>re_archived := re_archived rep @ [at_id a]\<rparr>
      else rep\<lparr>re_deleted := re_deleted rep @ [at_id a]\<rparr>)"

lemma artifact_from_row_fields:
  assumes "artifact_from_row r = Inr a"
  shows "at_id a = rw_id r" "at_state a = rw_state r" "at_created_at a = Some (rw_created_at r)"
  using assms
  by (auto simp: artifact_from_row_def bind_res_Inr_iff artifact_post_init_def first_error_Inr_iff simp del: first_error.simps)

lemma upd_row_id: "(\<And>r. r \<in> set rows \<Longrightarrow> key r = k \<Longrightarrow> f r = r) \<Longrightarrow> upd_row key k f rows = rows"
  unfolding upd_row_def by (rule map_idI) auto

lemma upd_row_cong:
  "(\<And>r. r \<in> set rows \<Longrightarrow> key r = k \<Longrightarrow> f r = g r) \<Longrightarrow> upd_row key k f rows = upd_row key k g rows"
  unfolding upd_row_def by (rule map_cong) auto

lemma retain_one_effect:
  assumes "rows_intact (ar_rows st)" and "\<not> ab_closed st" and "r \<in> set (ar_rows st)"
    and "artifact_from_row r = Inr a" and "days_in_range a" and "\<bar>qd\<bar> \<le> 999999999"
  shows "fst (retain_one now qd a rep st) = Inr (report_add now qd a rep) \<and>
    ar_rows (snd (retain_one now qd a rep st)) = upd_row rw_id (rw_id r) (settled now qd) (ar_rows st) \<and>
    \<not> ab_closed (snd (retain_one now qd a rep st))"
proof -
  note f = artifact_from_row_fields [OF assms(4)]
  have row: "row_of rw_id (rw_id r) (ar_rows st) = Some r"
    using assms(1,3) by (simp add: rows_intact_def row_of_distinct)
  have unique: "x = r" if "x \<in> set (ar_rows st)" "rw_id x = rw_id r" for x
    using that row assms(1) row_of_distinct [of rw_id "ar_rows st" x] by (simp add: rows_intact_def)
  have set_to: "upd_row rw_id (rw_id r) (settled now qd) (ar_rows st) =
      upd_row rw_id (rw_id r) (\<lambda>x. x\<lparr>rw_state := retention_fate now qd a\<rparr>) (ar_rows st)"
    by (rule upd_row_cong) (auto dest!: unique simp: settled_def assms(4))
  have same: "upd_row rw_id (rw_id r) (settled now qd) (ar_rows st) = ar_rows st"
    if "retention_fate now qd a = at_state a"
    by (rule upd_row_id) (auto dest!: unique simp: settled_def assms(4) that f)
  have pol: "policy_action a now = Inr (if \<exists>d. at_retention_policy a = Some \<lparr>rk_kind = RETAIN_DAYS, rk_days = Some d\<rparr> \<and>
      d * day_us < now - rw_created_at r then ''archive'' else ''keep'')"
    using policy_action_result [OF f(3) assms(5)] .
  have quar: "quarantine_action a now qd = Inr (if qd * day_us < now - rw_created_at r then ''delete'' else ''keep'')"
    using assms(6) f(3) by (simp add: quarantine_action_def timedelta_days_def)
  show ?thesis
  proof (cases "retention_fate now qd a = at_state a")
    case True
    have "retain_one now qd a rep st = (Inr (report_add now qd a rep), snd (retain_one now qd a rep st)) \<and>
        ar_rows (snd (retain_one now qd a rep st)) = ar_rows st \<and> \<not> ab_closed (snd (retain_one now qd a rep st))"
      using True assms(2) row f pol quar
      by (cases "at_state a")
        (auto simp: retain_one_def Let_def report_add_def retention_fate_def ar_archive_def ar_mark_def skip_on_invalid_def
          artifact_transitions_def illegal_transition_def log_defs split: if_splits)
    then show ?thesis using same [OF True] by (metis fst_conv)
  next
    case False
    then consider "at_state a = AS_QUARANTINED" "qd * day_us < now - rw_created_at r" "retention_fate now qd a = AS_DELETED_TOMBSTONE"
      | "at_state a = AS_ACTIVE" "retention_fate now qd a = AS_ARCHIVED" "policy_action a now = Inr ''archive''"
      using f pol by (auto simp: retention_fate_def Let_def split: if_splits)
    then show ?thesis
    proof cases
      case 1
      then have "AS_DELETED_TOMBSTONE \<in> set (artifact_transitions (rw_state r))" using f by (simp add: artifact_transitions_def)
      note del = delete_effect [OF row assms(2) this]
      have "ab_closed (snd (ar_delete (rw_id r) st)) = ab_closed st"
        by (simp add: ar_delete_def Let_def log_defs set_artifact_state_def split: option.split)
      with 1 del quar assms(2) f set_to show ?thesis
        by (cases "ar_delete (rw_id r) st") (auto simp: retain_one_def Let_def skip_on_invalid_def report_add_def)
    next
      case 2
      then have "ar_archive (at_id a) st = (Inr (), log_ok ''mark'' (rw_id r @ ''/ARCHIVED'') (set_artifact_state (rw_id r) AS_ARCHIVED st))"
        using row assms(2) f by (simp add: ar_archive_def ar_mark_def artifact_transitions_def artifact_state_text_def)
      with 2 assms(2) f set_to show ?thesis
        by (simp add: retain_one_def Let_def skip_on_invalid_def report_add_def set_artifact_state_def log_defs)
    qed
  qed
qed

lemma upd_settled_intact:
  "rows_intact rows \<Longrightarrow> rows_intact (upd_row rw_id k (settled now qd) rows)"
  by (fastforce simp: rows_intact_def keys_upd_row set_upd_row settled_def split: sum.split)

lemma retain_all_effect:
  assumes "rows_intact (ar_rows st)" and "\<not> ab_closed st" and "distinct (map at_id as)" and "\<bar>qd\<bar> \<le> 999999999"
    and "\<And>a. a \<in> set as \<Longrightarrow> days_in_range a \<and> (\<exists>r\<in>set (ar_rows st). artifact_from_row r = Inr a)"
  shows "fst (retain_all now qd as rep st) = Inr (fold (report_add now qd) as rep) \<and>
    ar_rows (snd (retain_all now qd as rep st)) =
      map (\<lambda>r. if rw_id r \<in> at_id ` set as then settled now qd r else r) (ar_rows st)"
  using assms
proof (induction as arbitrary: rep st)
  case (Cons a as)
  obtain r where r: "r \<in> set (ar_rows st)" "artifact_from_row r = Inr a" "days_in_range a"
    using Cons.prems(5) [of a] by auto
  note id = artifact_from_row_fields(1) [OF r(2)]
  obtain st1 where one: "retain_one now qd a rep st = (Inr (report_add now qd a rep), st1)"
    "ar_rows st1 = upd_row rw_id (rw_id r) (settled now qd) (ar_rows st)" "\<not> ab_closed st1"
    using retain_one_effect [OF Cons.prems(1,2) r Cons.prems(4), of now rep]
    by (cases "retain_one now qd a rep st") auto
  have "\<exists>x\<in>set (ar_rows st1). artifact_from_row x = Inr b" if "b \<in> set as" for b
  proof -
    obtain x where x: "x \<in> set (ar_rows st)" "artifact_from_row x = Inr b" using Cons.prems(5) [of b] \<open>b \<in> set as\<close> by auto
    have "rw_id x \<noteq> rw_id r"
      using artifact_from_row_fields(1) [OF x(2)] id Cons.prems(3) \<open>b \<in> set as\<close> by (auto simp: image_iff)
    then show ?thesis using x by (intro bexI [of _ x]) (auto simp: one(2) set_upd_row image_iff)
  qed
  with Cons.prems have "fst (retain_all now qd as (report_add now qd a rep) st1) = Inr (fold (report_add now qd) as (report_add now qd a rep)) \<and>
      ar_rows (snd (retain_all now qd as (report_add now qd a rep) st1)) =
        map (\<lambda>r. if rw_id r \<in> at_id ` set as then settled now qd r else r) (ar_rows st1)"
    by (intro Cons.IH) (auto simp: one upd_settled_intact)
  moreover have "map (\<lambda>r. if rw_id r \<in> at_id ` set as then settled now qd r else r) (ar_rows st1) =
      map (\<lambda>r. if rw_id r \<in> at_id ` set (a # as) then settled now qd r else r) (ar_rows st)"
    using Cons.prems(3) id by (auto simp: one(2) upd_row_def image_iff)
  ultimately show ?case using one(1) by simp
qed simp

lemma report_lists:
  "re_archived (fold (report_add now qd) as rep) =
     re_archived rep @ map at_id (filter (\<lambda>a. at_state a = AS_ACTIVE \<and> retention_fate now qd a = AS_ARCHIVED) as) \<and>
   re_deleted (fold (report_add now qd) as rep) =
     re_deleted rep @ map at_id (filter (\<lambda>a. at_state a = AS_QUARANTINED \<and> retention_fate now qd a = AS_DELETED_TOMBSTONE) as) \<and>
   re_skipped (fold (report_add now qd) as rep) =
     re_skipped rep @ map at_id (filter (\<lambda>a. retention_fate now qd a = at_state a) as)"
  by (induction as arbitrary: rep) (auto simp: report_add_def retention_fate_def Let_def)

lemma map_res_Inr_iff: "map_res f xs = Inr ys \<longleftrightarrow> list_all2 (\<lambda>x y. f x = Inr y) xs ys"
proof (induction xs arbitrary: ys)
  case (Cons x xs)
  show ?case by (cases ys) (auto simp: bind_res_Inr_iff Cons list_all2_Cons1)
qed auto

lemma map_res_ok: "(\<And>x. x \<in> set xs \<Longrightarrow> is_ok (f x)) \<Longrightarrow> \<exists>ys. map_res f xs = Inr ys"
proof (induction xs)
  case (Cons x xs)
  then have "is_ok (f x)" "\<exists>ys. map_res f xs = Inr ys" by simp_all
  then show ?case by (cases "f x") auto
qed simp

lemma list_refs_result:
  assumes "rows_intact (ar_rows st)" and "\<not> ab_closed st"
  shows "\<exists>as. ar_list_refs st = (Inr as, log_ok ''list_refs'' [] st) \<and> distinct (map at_id as) \<and>
    length as = length (ar_rows st) \<and> (\<forall>a\<in>set as. \<exists>r\<in>set (ar_rows st). artifact_from_row r = Inr a) \<and>
    (\<forall>r\<in>set (ar_rows st). \<exists>a\<in>set as. artifact_from_row r = Inr a)"
proof -
  let ?rows = "sort_key (\<lambda>r. iso_key (rw_created_at r)) (ar_rows st)"
  obtain as where as: "map_res artifact_from_row ?rows = Inr as"
    using map_res_ok [of ?rows artifact_from_row] assms(1) by (auto simp: rows_intact_def)
  then have two: "list_all2 (\<lambda>r a. artifact_from_row r = Inr a) ?rows as" by (simp add: map_res_Inr_iff)
  then have ids: "map at_id as = map rw_id ?rows"
    by (induction rule: list_all2_induct) (auto dest: artifact_from_row_fields(1))
  have "distinct (map rw_id ?rows)" using assms(1) by (simp add: rows_intact_def distinct_map inj_on_def)
  then have "distinct (map at_id as)" by (simp add: ids)
  with as assms(2) list_all2_members [OF two] list_all2_lengthD [OF two] show ?thesis
    by (intro exI [of _ as]) (simp add: ar_list_refs_def)
qed

lemma report_total:
  "length (re_archived (fold (report_add now qd) as rep)) + length (re_deleted (fold (report_add now qd) as rep)) +
   length (re_skipped (fold (report_add now qd) as rep)) =
     length (re_archived rep) + length (re_deleted rep) + length (re_skipped rep) + length as"
  by (induction as arbitrary: rep) (auto simp: report_add_def)

lemma apply_retention_result:
  assumes "rows_intact (ar_rows st)" and "\<not> ab_closed st" and "\<bar>qd\<bar> \<le> 999999999"
    and "\<And>r a. r \<in> set (ar_rows st) \<Longrightarrow> artifact_from_row r = Inr a \<Longrightarrow> days_in_range a"
  shows "\<exists>as. ar_list_refs st = (Inr as, log_ok ''list_refs'' [] st) \<and>
    fst (apply_retention now qd st) = Inr (fold (report_add now qd) as \<lparr>re_archived = [], re_deleted = [], re_skipped = []\<rparr>) \<and>
    ar_rows (snd (apply_retention now qd st)) = map (settled now qd) (ar_rows st)"
proof -
  obtain as where as: "ar_list_refs st = (Inr as, log_ok ''list_refs'' [] st)" "distinct (map at_id as)"
    "\<forall>a\<in>set as. \<exists>r\<in>set (ar_rows st). artifact_from_row r = Inr a"
    "\<forall>r\<in>set (ar_rows st). \<exists>a\<in>set as. artifact_from_row r = Inr a"
    using list_refs_result [OF assms(1,2)] by blast
  let ?rep = "\<lparr>re_archived = [], re_deleted = [], re_skipped = []\<rparr>"
  have "fst (retain_all now qd as ?rep (log_ok ''list_refs'' [] st)) = Inr (fold (report_add now qd) as ?rep) \<and>
      ar_rows (snd (retain_all now qd as ?rep (log_ok ''list_refs'' [] st))) =
        map (\<lambda>r. if rw_id r \<in> at_id ` set as then settled now qd r else r) (ar_rows (log_ok ''list_refs'' [] st))"
    using assms as(2,3) by (intro retain_all_effect) (auto simp: log_defs)
  moreover have "map (\<lambda>r. if rw_id r \<in> at_id ` set as then settled now qd r else r) (ar_rows st) = map (settled now qd) (ar_rows st)"
    using as(4) artifact_from_row_fields(1) by (intro map_cong) (fastforce simp: image_iff)+
  ultimately show ?thesis using as(1) by (intro exI [of _ as]) (simp add: apply_retention_def log_defs)
qed

section \<open>Revision chains\<close>

text \<open>The identifiers met on the way from an artifact to the root of its revisions.\<close>

fun parent_chain :: "string \<Rightarrow> artifact list \<Rightarrow> artifact \<Rightarrow> string list \<Rightarrow> bool" where
  "parent_chain run_id table a [] = (at_supersedes a = None)"
| "parent_chain run_id table a (t # ts) =
     (at_supersedes a = Some t \<and> starts_with (run_id @ '':'') t \<and>
      (\<exists>b. row_of at_id t table = Some b \<and> parent_chain run_id table b ts))"

lemma supersedes_walk_iff:
  "supersedes_walk run_id table visited a = Inr () \<longleftrightarrow>
     (\<exists>ts. parent_chain run_id table a ts \<and> distinct ts \<and> set ts \<inter> set visited = {})"
proof (induction run_id table visited a rule: supersedes_walk.induct)
  case (1 run_id table visited a)
  show ?case
  proof (cases "at_supersedes a")
    case None
    then have "parent_chain run_id table a ts \<longleftrightarrow> ts = []" for ts by (cases ts) auto
    with None show ?thesis by (subst supersedes_walk.simps) simp
  next
    case (Some t)
    have chain: "parent_chain run_id table a ts \<longleftrightarrow> (\<exists>b us. ts = t # us \<and> starts_with (run_id @ '':'') t \<and>
        row_of at_id t table = Some b \<and> parent_chain run_id table b us)" for ts
      using Some by (cases ts) auto
    show ?thesis
    proof (cases "t \<in> set visited \<or> \<not> starts_with (run_id @ '':'') t \<or> row_of at_id t table = None")
      case True
      with Some show ?thesis by (subst supersedes_walk.simps) (auto simp: chain)
    next
      case False
      then obtain b where b: "row_of at_id t table = Some b" by auto
      with Some False have "supersedes_walk run_id table visited a = supersedes_walk run_id table (visited @ [t]) b"
        by (subst supersedes_walk.simps) simp
      moreover have "(\<exists>ts. parent_chain run_id table a ts \<and> distinct ts \<and> set ts \<inter> set visited = {}) \<longleftrightarrow>
          (\<exists>us. parent_chain run_id table b us \<and> distinct us \<and> set us \<inter> set (visited @ [t]) = {})" (is "?l \<longleftrightarrow> ?r")
      proof
        assume ?l
        then show ?r using b by (auto simp: chain)
      next
        assume ?r
        then obtain us where "parent_chain run_id table b us" "distinct us" "set us \<inter> set (visited @ [t]) = {}" by blast
        then show ?l using b False Some by (intro exI [of _ "t # us"]) (auto simp: chain)
      qed
      ultimately show ?thesis using 1 [OF Some _ _ b] False by simp
    qed
  qed
qed

lemma parent_chain_in_table: "parent_chain run_id table a ts \<Longrightarrow> set ts \<subseteq> at_id ` set table"
  by (induction ts arbitrary: a) (auto dest: row_of_SomeD)

section \<open>The port\<close>

text \<open>
  What a client of the store relies on: an artifact that was put is described and read back,
  and looking at the description changes nothing that can be read.
\<close>

locale artifact_port =
  fixes put :: "(string \<Rightarrow> string) \<Rightarrow> artifact \<Rightarrow> string \<Rightarrow> int \<Rightarrow> 's \<Rightarrow> unit res \<times> 's"
    and get :: "string \<Rightarrow> 's \<Rightarrow> string res \<times> 's"
    and meta :: "string \<Rightarrow> 's \<Rightarrow> artifact option res \<times> 's"
    and usable :: "(string \<Rightarrow> string) \<Rightarrow> 's \<Rightarrow> bool"
  assumes put_get: "usable dg st \<Longrightarrow> valid_artifact a \<Longrightarrow> at_state a \<noteq> AS_DELETED_TOMBSTONE \<Longrightarrow> dg content = at_digest a \<Longrightarrow>
      put dg a content now st = (res, st') \<Longrightarrow>
      res = Inr () \<and> usable dg st' \<and> (\<exists>c. fst (get (at_id a) st') = Inr c \<and> dg c = at_digest a)"
    and put_meta: "usable dg st \<Longrightarrow> valid_artifact a \<Longrightarrow> at_state a \<noteq> AS_DELETED_TOMBSTONE \<Longrightarrow> dg content = at_digest a \<Longrightarrow>
      put dg a content now st = (res, st') \<Longrightarrow>
      \<exists>m. fst (meta (at_id a) st') = Inr (Some m) \<and> at_created_by m = at_created_by a"
    and meta_reads: "usable dg st \<Longrightarrow> usable dg (snd (meta aid st)) \<and> fst (get x (snd (meta aid st))) = fst (get x st)"
begin

lemma put_meta_get:
  assumes "usable dg st" and "valid_artifact a" and "at_state a \<noteq> AS_DELETED_TOMBSTONE" and "dg content = at_digest a"
  shows "\<exists>m s1 c s2. meta (at_id a) (snd (put dg a content now st)) = (Inr (Some m), s1) \<and>
    at_created_by m = at_created_by a \<and> get (at_id a) s1 = (Inr c, s2) \<and> dg c = at_digest a"
proof -
  obtain res st' where p: "put dg a content now st = (res, st')" by fastforce
  from put_get [OF assms p] have u: "usable dg st'" "\<exists>c. fst (get (at_id a) st') = Inr c \<and> dg c = at_digest a" by auto
  from put_meta [OF assms p] obtain m where m: "fst (meta (at_id a) st') = Inr (Some m)" "at_created_by m = at_created_by a" by auto
  let ?s1 = "snd (meta (at_id a) st')"
  obtain c where "fst (get (at_id a) ?s1) = Inr c" "dg c = at_digest a" using u meta_reads [OF u(1), of "at_id a" "at_id a"] by auto
  then have "get (at_id a) ?s1 = (Inr c, snd (get (at_id a) ?s1)) \<and> dg c = at_digest a" by (metis prod.collapse)
  moreover have "meta (at_id a) st' = (Inr (Some m), ?s1)" using m(1) by (metis prod.collapse)
  ultimately show ?thesis using m(2) p by (metis snd_conv)
qed

end

definition store_usable :: "(string \<Rightarrow> string) \<Rightarrow> artifact_store \<Rightarrow> bool" where
  "store_usable dg st = (store_intact dg st \<and> \<not> ab_closed st)"

lemma put_usable:
  assumes "store_usable dg st" and "valid_artifact a" and "dg content = at_digest a"
    and "ar_put dg a content now st = (res, st')"
  shows "res = Inr () \<and> store_usable dg st' \<and> (\<exists>r. row_of rw_id (at_id a) (ar_rows st') = Some r \<and>
    rw_digest r = at_digest a \<and> rw_state r = at_state a \<and> rw_created_by r = at_created_by a)"
proof -
  have opened: "\<not> ab_closed st" and ok: "verify_artifact_content dg a content"
    using assms(1,3) by (simp_all add: store_usable_def verify_artifact_content_def)
  have "res = Inr ()" using assms(4) opened ok by (simp add: ar_put_def Let_def)
  moreover have "store_usable dg st'"
    using put_intact [of dg st a content now] put_effect(3) [OF opened ok, of now] assms by (simp add: store_usable_def)
  ultimately show ?thesis using put_row [OF opened ok, of now] assms(4) by simp
qed

lemma artifact_from_row_creator: "artifact_from_row r = Inr a \<Longrightarrow> at_created_by a = rw_created_by r"
  by (auto simp: artifact_from_row_def bind_res_Inr_iff artifact_post_init_def first_error_Inr_iff simp del: first_error.simps)

lemma meta_of_row:
  assumes "store_usable dg st" and "row_of rw_id aid (ar_rows st) = Some r"
  shows "\<exists>m. fst (ar_meta aid st) = Inr (Some m) \<and> at_created_by m = rw_created_by r"
proof -
  have "is_ok (artifact_from_row r)"
    using assms row_of_SomeD [OF assms(2)] by (simp add: store_usable_def store_intact_def rows_intact_def)
  then obtain m where m: "artifact_from_row r = Inr m" by (cases "artifact_from_row r") (simp_all add: is_ok_def)
  with assms show ?thesis by (simp add: ar_meta_def store_usable_def artifact_from_row_creator)
qed

lemma meta_keeps:
  assumes "store_usable dg st"
  shows "store_usable dg (snd (ar_meta aid st)) \<and> fst (ar_get x (snd (ar_meta aid st))) = fst (ar_get x st)"
  using assms
  by (auto simp: ar_meta_def ar_get_def read_blob_def store_usable_def store_intact_def blobs_intact_def log_defs
      split: option.split sum.split)

interpretation ar_port: artifact_port ar_put ar_get ar_meta store_usable
proof
  fix dg st a content now res st'
  assume p: "store_usable dg st" "valid_artifact a" "at_state a \<noteq> AS_DELETED_TOMBSTONE" "dg content = at_digest a"
    "ar_put dg a content now st = (res, st')"
  from put_usable [OF p(1,2,4,5)] obtain r where r: "res = Inr ()" "store_usable dg st'"
    "row_of rw_id (at_id a) (ar_rows st') = Some r" "rw_digest r = at_digest a" "rw_state r = at_state a"
    "rw_created_by r = at_created_by a" by blast
  show "res = Inr () \<and> store_usable dg st' \<and> (\<exists>c. fst (ar_get (at_id a) st') = Inr c \<and> dg c = at_digest a)"
    using get_of_live [of dg st' "at_id a" r] r p(3) by (auto simp: store_usable_def)
  show "\<exists>m. fst (ar_meta (at_id a) st') = Inr (Some m) \<and> at_created_by m = at_created_by a"
    using meta_of_row [OF r(2,3)] r(6) by simp
qed (rule meta_keeps)

section \<open>Properties\<close>

text \<open>
  C28: stored content survives until it is deleted. After an artifact was put, and after any history
  of puts of other artifacts, also ones with the very same content, state changes, deletions and
  retention scans, of this artifact and of others, in which it is not put again, its row still has
  its digest. If it is not a tombstone by then, reading it returns content with the declared digest,
  verification succeeds, and the content is the one put unless the hash collides. It is a tombstone
  only if one of the operations was its deletion, its mark as deleted or a scan.
\<close>

theorem stored_content_survives:
  assumes "ar_reach dg st" and "\<not> ab_closed st" and "valid_artifact a" and "at_state a \<noteq> AS_DELETED_TOMBSTONE"
    and "dg content = at_digest a" and "list_all (\<lambda>c. ar_cmd_ok c \<and> \<not> ar_puts (at_id a) c) cmds"
    and "st' = fold (ar_step dg) cmds (snd (ar_put dg a content now st))"
  shows "\<exists>r. row_of rw_id (at_id a) (ar_rows st') = Some r \<and> rw_digest r = at_digest a \<and>
    (if rw_state r = AS_DELETED_TOMBSTONE then \<exists>c\<in>set cmds. ar_may_delete (at_id a) c
     else \<exists>c. fst (ar_get (at_id a) st') = Inr c \<and> dg c = at_digest a \<and> fst (ar_verify dg (at_id a) st') = Inr True \<and>
            ((\<forall>x. dg x = dg content \<longrightarrow> x = content) \<longrightarrow> c = content))"
proof -
  let ?st = "snd (ar_put dg a content now st)"
  have ok: "verify_artifact_content dg a content" using assms(5) by (simp add: verify_artifact_content_def)
  have "store_intact dg ?st" using ar_reach_intact [OF assms(1)] assms(3) by (rule put_intact)
  note after = ar_steps_content [OF assms(6) this, folded assms(7)]
  obtain r where r: "row_of rw_id (at_id a) (ar_rows ?st) = Some r" "rw_digest r = at_digest a" "rw_state r = at_state a"
    using put_row [OF assms(2) ok] by blast
  then obtain r' where r': "row_of rw_id (at_id a) (ar_rows st') = Some r'" "rw_digest r' = at_digest a"
    using after by auto
  have opened: "store_intact dg st'" "\<not> ab_closed st'" using after put_effect(3) [OF assms(2) ok] assms(2) by simp_all
  show ?thesis
  proof (cases "rw_state r' = AS_DELETED_TOMBSTONE")
    case True
    then show ?thesis using after r r' assms(4) by (simp add: tombstone_def)
  next
    case False
    from get_of_live [OF opened r'(1) False] r' assms(5) False show ?thesis by (metis (no_types))
  qed
qed



text \<open>
  C30: a revision chain is accepted exactly if it is a chain. The check always ends; it accepts
  exactly the artifacts whose parents, followed one after the other, all belong to the run,
  all exist, never repeat and end with an artifact that has no parent; and then the chain is
  no longer than the table.
\<close>

theorem revision_chain_is_checked:
  "validate_supersedes run_id table a = Inr () \<longleftrightarrow>
     (\<exists>ts. parent_chain run_id table a ts \<and> distinct (at_id a # ts) \<and> length ts \<le> length table)"
proof -
  have "length ts \<le> length table" if "parent_chain run_id table a ts" "distinct ts" for ts
  proof -
    have "length ts = card (set ts)" using that(2) by (simp add: distinct_card)
    also have "\<dots> \<le> card (at_id ` set table)" using parent_chain_in_table [OF that(1)] by (intro card_mono) auto
    also have "\<dots> \<le> length table" by (meson card_image_le card_length finite_set le_trans)
    finally show ?thesis .
  qed
  then show ?thesis unfolding validate_supersedes_def supersedes_walk_iff by auto
qed

section \<open>Instances\<close>

definition demo_artifact :: "string \<Rightarrow> artifact_state \<Rightarrow> retention_policy option \<Rightarrow> artifact" where
  "demo_artifact aid s p =
     \<lparr>at_id = aid, at_digest = ''body'', at_size_bytes = 4, at_media_type = ''text/plain'', at_storage_uri = None,
      at_created_by = None, at_source_refs = [], at_classification = None, at_retention_policy = p,
      at_state = s, at_created_at = Some 0, at_supersedes = None\<rparr>"

definition no_artifacts :: artifact_store where
  "no_artifacts = \<lparr>ab_closed = False, ab_calls = [], ar_rows = [], ar_blobs = Map.empty\<rparr>"

definition legal_hold :: retention_policy where
  "legal_hold = \<lparr>rk_kind = LEGAL_HOLD, rk_days = None\<rparr>"

lemma no_artifacts_reach: "ar_reach dg no_artifacts"
  by (rule ar_reach_empty) (simp_all add: no_artifacts_def)

lemma demo_artifact_valid: "aid \<noteq> [] \<Longrightarrow> p = None \<or> p = Some legal_hold \<Longrightarrow> valid_artifact (demo_artifact aid s p)"
  by (auto simp: valid_artifact_def demo_artifact_def artifact_post_init_def legal_hold_def retention_post_init_def
      LEGAL_HOLD_def KEEP_FOREVER_def RETAIN_DAYS_def)

theorem stored_content_survives_witness:
  "\<exists>st'. st' = fold (ar_step id)
       [Ar_put (demo_artifact ''b'' AS_ACTIVE None) ''body'' 2, Ar_delete ''b'', Ar_mark ''a'' AS_ARCHIVED]
       (snd (ar_put id (demo_artifact ''a'' AS_ACTIVE None) ''body'' 1 no_artifacts)) \<and>
     fst (ar_get ''a'' st') = Inr ''body''"
proof -
  have a: "valid_artifact (demo_artifact ''a'' AS_ACTIVE None)" "valid_artifact (demo_artifact ''b'' AS_ACTIVE None)"
    by (rule demo_artifact_valid; simp)+
  show ?thesis
    using stored_content_survives [OF no_artifacts_reach [of id] _ a(1) _ _ _ refl, of "''body''"
        "[Ar_put (demo_artifact ''b'' AS_ACTIVE None) ''body'' 2, Ar_delete ''b'', Ar_mark ''a'' AS_ARCHIVED]" 1] a(2)
    by (auto simp: no_artifacts_def demo_artifact_def split: if_splits)
qed

text \<open>A quarantined artifact under legal hold is deleted by the scan.\<close>

definition held_store :: artifact_store where
  "held_store = snd (ar_put id (demo_artifact ''a'' AS_QUARANTINED (Some legal_hold)) ''body'' 1 no_artifacts)"


end
