(* ===== verification/Execution_Jobs.thy ===== *)
theory Execution_Jobs
  imports Workflow_Engine
begin

text \<open>
  Remote execution jobs: the port values and the status check of
  \<^verbatim>\<open>packages/application/ports/execution_job_queue.py\<close> and the job queue
  (\<^verbatim>\<open>adapters/postgres/execution_job_queue.py\<close>). A job is a row of the task table of the workflow
  engine with kind \<open>EXECUTION\<close> and a row of \<^verbatim>\<open>execution_jobs\<close> with its payload; the queue works on
  the task and lease tables of the engine in the same database, so its operations take and
  return both. A specification is the JSON value it is stored as; a numeric column is a
  decimal. The transaction of an operation is its last step.
\<close>

section \<open>Port values\<close>

record job_request =
  jr_spec :: json
  jr_run_id :: string
  jr_capability :: string
  jr_idempotency_key :: string
  jr_input_bundle_ref :: "string option"
  jr_input_bundle_digest :: "string option"
  jr_partition :: "int option"

definition job_request_post_init :: "job_request \<Rightarrow> job_request res" where
  "job_request_post_init q = first_error
     [(jr_run_id q = [], ''run_id must not be empty''),
      (jr_capability q = [], ''capability must not be empty''),
      (jr_idempotency_key q = [], ''idempotency_key must not be empty'')] q"

record job_result =
  js_task_id :: string
  js_lease_id :: string
  js_fence :: int
  js_status :: string
  js_worker_id :: "string option"
  js_exit_code :: "int option"
  js_stdout_digest :: "string option"
  js_stderr_digest :: "string option"
  js_output_bundle_ref :: "string option"
  js_output_bundle_digest :: "string option"
  js_failure_category :: "string option"
  js_image_digest :: "string option"
  js_gpu_elapsed_seconds :: "decimal option"
  js_peak_gpu_memory_bytes :: "int option"
  js_execution_elapsed_seconds :: "decimal option"

record job_outcome =
  jo_task_id :: string
  jo_status :: task_state
  jo_fence :: int
  jo_worker_id :: "string option"
  jo_exit_code :: "int option"
  jo_stdout_digest :: "string option"
  jo_stderr_digest :: "string option"
  jo_output_bundle_ref :: "string option"
  jo_output_bundle_digest :: "string option"
  jo_failure_category :: "string option"
  jo_image_digest :: "string option"
  jo_gpu_elapsed_seconds :: "decimal option"
  jo_peak_gpu_memory_bytes :: "int option"
  jo_execution_elapsed_seconds :: "decimal option"

definition RESULT_STATUSES :: "string list" where
  "RESULT_STATUSES = [''SUCCEEDED'', ''FAILED'', ''TIMED_OUT'', ''CANCELLED'']"

definition canonical_task_status :: "string \<Rightarrow> task_state res" where
  "canonical_task_status s =
     (if s \<notin> set RESULT_STATUSES
      then Inl (InvalidInputError (''invalid result status '' @ quote s @ '': not a terminal execution state''))
      else if s = ''SUCCEEDED'' then Inr T_SUCCEEDED
      else if s = ''CANCELLED'' then Inr T_CANCELLED
      else Inr T_FAILED)"

record job_descriptor =
  jd_task_id :: string
  jd_spec_json :: json
  jd_input_bundle_ref :: "string option"
  jd_input_bundle_digest :: "string option"

section \<open>The queue\<close>

record job_row =
  jb_task_id :: string
  jb_spec_json :: json
  jb_input_bundle_ref :: "string option"
  jb_input_bundle_digest :: "string option"
  jb_required_capability :: string
  jb_partition :: "int option"
  jb_created_at :: int
  jb_cancel_requested :: bool
  jb_worker_id :: "string option"
  jb_exit_code :: "int option"
  jb_stdout_digest :: "string option"
  jb_stderr_digest :: "string option"
  jb_output_bundle_ref :: "string option"
  jb_output_bundle_digest :: "string option"
  jb_failure_category :: "string option"
  jb_image_digest :: "string option"
  jb_gpu_elapsed_seconds :: "decimal option"
  jb_peak_gpu_memory_bytes :: "int option"
  jb_execution_elapsed_seconds :: "decimal option"

record job_queue = adapter_base +
  jq_rows :: "job_row list"

definition pg_closed_error :: py_error where
  "pg_closed_error = PermanentPortError ''postgres adapter is closed''"

definition synthetic_contract :: task_contract where
  "synthetic_contract =
     \<lparr>tc_id = ''remote-execution'', tc_version = ''1'', tc_purpose = ''remote execution job'',
      tc_required_capabilities = [], tc_input_schema = None, tc_output_schema = None,
      tc_required_artifacts = [],
      tc_acceptance_criteria =
        [\<lparr>ac_type = ARTIFACT_EXISTS, ac_description = [], ac_target = None, ac_artifact = None,
          minimum_sources = None, minimum_retrieved_sources = None, minimum_tool_evidences = None,
          ac_metric = None, ac_operator = None, ac_threshold = None, ac_evaluator = None\<rparr>],
      tc_budget = [], tc_timeout_seconds = None, tc_retry_policy = None, tc_failure_policy = [],
      tc_idempotency_scope = ''task'', tc_experiment = None, tc_report = None\<rparr>"

definition synthetic_task :: "string \<Rightarrow> string \<Rightarrow> string \<Rightarrow> int option \<Rightarrow> research_task res" where
  "synthetic_task task_id run_id capability part =
     bind_res (id_post_init task_id) (\<lambda>tid. bind_res (id_post_init run_id) (\<lambda>rid.
       task_post_init
         \<lparr>rt_id = tid, rt_run_id = rid, rt_phase_run_id = None, rt_contract_id = None,
          rt_assigned_agent_id = None, rt_status = T_QUEUED, rt_priority = 0, rt_attempt = 1,
          rt_idempotency_key = None, rt_lease_id = None, rt_kind = EXECUTION,
          rt_partition = part, rt_required_capability = Some capability\<rparr>))"

definition job_of :: "string \<Rightarrow> job_queue \<Rightarrow> job_row option" where
  "job_of task_id jq = row_of jb_task_id task_id (jq_rows jq)"

definition new_job_row :: "job_request \<Rightarrow> string \<Rightarrow> int \<Rightarrow> job_row" where
  "new_job_row q task_id created =
     \<lparr>jb_task_id = task_id, jb_spec_json = jr_spec q, jb_input_bundle_ref = jr_input_bundle_ref q,
      jb_input_bundle_digest = jr_input_bundle_digest q, jb_required_capability = jr_capability q,
      jb_partition = jr_partition q, jb_created_at = created, jb_cancel_requested = False,
      jb_worker_id = None, jb_exit_code = None, jb_stdout_digest = None, jb_stderr_digest = None,
      jb_output_bundle_ref = None, jb_output_bundle_digest = None, jb_failure_category = None,
      jb_image_digest = None, jb_gpu_elapsed_seconds = None, jb_peak_gpu_memory_bytes = None,
      jb_execution_elapsed_seconds = None\<rparr>"

definition new_task_row :: "job_request \<Rightarrow> research_task \<Rightarrow> int \<Rightarrow> task_row" where
  "new_task_row q t created =
     \<lparr>tr_task_id = rt_id t, tr_run_id = jr_run_id q, tr_idempotency_key = Some (jr_idempotency_key q),
      tr_attempt = 1, tr_status = T_QUEUED, tr_assigned_agent_id = None,
      tr_task_json = fst (encode_task t synthetic_contract),
      tr_contract_json = snd (encode_task t synthetic_contract), tr_cancelled = False,
      tr_created_at = created, tr_kind = EXECUTION, tr_partition = jr_partition q,
      tr_required_capability = Some (jr_capability q), tr_fence_seq = 0, tr_retry_at = None\<rparr>"

definition jq_enqueue ::
    "job_request \<Rightarrow> string \<Rightarrow> (nat \<Rightarrow> int) \<Rightarrow> job_queue \<times> wf_state \<Rightarrow> string res \<times> job_queue \<times> wf_state" where
  "jq_enqueue q uid clk s =
     (case s of (jq, eng) \<Rightarrow>
        if ab_closed jq then (Inl pg_closed_error, jq, eng)
        else case synthetic_task uid (jr_run_id q) (jr_capability q) (jr_partition q) of
               Inl e \<Rightarrow> (Inl e, jq, eng)
             | Inr t \<Rightarrow>
                 (case row_of tr_idempotency_key (Some (jr_idempotency_key q)) (wf_tasks eng) of
                    Some existing \<Rightarrow>
                      (Inr (tr_task_id existing),
                       log_result ''enqueue'' (jr_idempotency_key q) ''deduped'' jq, eng)
                  | None \<Rightarrow>
                      (Inr uid,
                       log_result ''enqueue'' (jr_idempotency_key q) uid
                         (jq\<lparr>jq_rows := jq_rows jq @ [new_job_row q uid (clk 1)]\<rparr>),
                       eng\<lparr>wf_tasks := wf_tasks eng @ [new_task_row q t (clk 0)]\<rparr>)))"

definition or_none :: "string option \<Rightarrow> string option" where
  "or_none t = (case t of Some [] \<Rightarrow> None | _ \<Rightarrow> t)"

definition jq_describe :: "string \<Rightarrow> job_queue \<Rightarrow> job_descriptor option res" where
  "jq_describe task_id jq =
     (if ab_closed jq then Inl pg_closed_error
      else Inr (case job_of task_id jq of
                  None \<Rightarrow> None
                | Some r \<Rightarrow>
                    Some \<lparr>jd_task_id = task_id, jd_spec_json = jb_spec_json r,
                          jd_input_bundle_ref = or_none (jb_input_bundle_ref r),
                          jd_input_bundle_digest = or_none (jb_input_bundle_digest r)\<rparr>))"

definition jq_poll :: "string \<Rightarrow> job_queue \<times> wf_state \<Rightarrow> job_outcome option res" where
  "jq_poll task_id s =
     (case s of (jq, eng) \<Rightarrow>
        if ab_closed jq then Inl pg_closed_error
        else Inr (case task_of task_id eng of
                    None \<Rightarrow> None
                  | Some t \<Rightarrow>
                      if tr_status t \<notin> set [T_SUCCEEDED, T_FAILED, T_CANCELLED] then None
                      else (let j = job_of task_id jq;
                                txt = (\<lambda>f. Option.bind j (\<lambda>r. or_none (f r)));
                                num = (\<lambda>f. Option.bind j f)
                            in Some \<lparr>jo_task_id = task_id, jo_status = tr_status t, jo_fence = tr_fence_seq t,
                                 jo_worker_id = txt jb_worker_id, jo_exit_code = Option.bind j jb_exit_code,
                                 jo_stdout_digest = txt jb_stdout_digest, jo_stderr_digest = txt jb_stderr_digest,
                                 jo_output_bundle_ref = txt jb_output_bundle_ref,
                                 jo_output_bundle_digest = txt jb_output_bundle_digest,
                                 jo_failure_category = txt jb_failure_category,
                                 jo_image_digest = txt jb_image_digest,
                                 jo_gpu_elapsed_seconds = num jb_gpu_elapsed_seconds,
                                 jo_peak_gpu_memory_bytes = Option.bind j jb_peak_gpu_memory_bytes,
                                 jo_execution_elapsed_seconds = num jb_execution_elapsed_seconds\<rparr>)))"

definition require_active_lease ::
    "string \<Rightarrow> string \<Rightarrow> int \<Rightarrow> string option \<Rightarrow> wf_state \<Rightarrow> unit res" where
  "require_active_lease task_id lease_id fence worker_id eng =
     (let refused = Inl (InvalidInputError (''stale or missing lease for task '' @ task_id @ '': result rejected''))
      in case lease_of task_id eng of
           None \<Rightarrow> refused
         | Some l \<Rightarrow>
             if lr_lease_id l \<noteq> lease_id \<or> lr_fence l \<noteq> fence \<or> lr_worker_id l \<noteq> worker_id
             then refused else Inr ())"

definition result_values :: "job_result \<Rightarrow> string option \<Rightarrow> job_row \<Rightarrow> job_row" where
  "result_values result worker r =
     r\<lparr>jb_worker_id := worker, jb_exit_code := js_exit_code result,
       jb_stdout_digest := js_stdout_digest result, jb_stderr_digest := js_stderr_digest result,
       jb_output_bundle_ref := js_output_bundle_ref result,
       jb_output_bundle_digest := js_output_bundle_digest result,
       jb_failure_category := js_failure_category result, jb_image_digest := js_image_digest result,
       jb_gpu_elapsed_seconds := js_gpu_elapsed_seconds result,
       jb_peak_gpu_memory_bytes := js_peak_gpu_memory_bytes result,
       jb_execution_elapsed_seconds := js_execution_elapsed_seconds result\<rparr>"

definition jq_record_result :: "job_result \<Rightarrow> job_queue \<times> wf_state \<Rightarrow> unit res \<times> job_queue \<times> wf_state" where
  "jq_record_result result s =
     (case s of (jq, eng) \<Rightarrow>
        if ab_closed jq then (Inl pg_closed_error, jq, eng)
        else case canonical_task_status (js_status result) of
               Inl e \<Rightarrow> (Inl e, jq, eng)
             | Inr status \<Rightarrow>
                 if js_worker_id result = None
                 then (Inl (InvalidInputError ''result worker_id is required (identity binding)''), jq, eng)
                 else case require_active_lease (js_task_id result) (js_lease_id result) (js_fence result)
                             (js_worker_id result) eng of
                        Inl e \<Rightarrow> (Inl e, jq, eng)
                      | Inr _ \<Rightarrow>
                          (let worker = Option.bind (lease_of (js_task_id result) eng) lr_worker_id
                           in (Inr (),
                               log_result ''record_result'' (js_task_id result) (js_status result)
                                 (jq\<lparr>jq_rows := upd_row jb_task_id (js_task_id result)
                                      (result_values result worker) (jq_rows jq)\<rparr>),
                               del_lease (js_task_id result)
                                 (upd_task (js_task_id result) (\<lambda>r. r\<lparr>tr_status := status\<rparr>) eng))))"

definition jq_assert_active_lease ::
    "string \<Rightarrow> string \<Rightarrow> int \<Rightarrow> string \<Rightarrow> job_queue \<times> wf_state \<Rightarrow> unit res" where
  "jq_assert_active_lease task_id lease_id fence worker_id s =
     (if ab_closed (fst s) then Inl pg_closed_error
      else require_active_lease task_id lease_id fence (Some worker_id) (snd s))"

definition jq_request_cancel :: "string \<Rightarrow> job_queue \<Rightarrow> unit res \<times> job_queue" where
  "jq_request_cancel task_id jq =
     (if ab_closed jq then (Inl pg_closed_error, jq)
      else (Inr (), log_ok ''request_cancel'' task_id
              (jq\<lparr>jq_rows := upd_row jb_task_id task_id (\<lambda>r. r\<lparr>jb_cancel_requested := True\<rparr>) (jq_rows jq)\<rparr>)))"

definition jq_cancel_requested :: "string \<Rightarrow> job_queue \<Rightarrow> bool res" where
  "jq_cancel_requested task_id jq =
     (if ab_closed jq then Inl pg_closed_error
      else Inr (case job_of task_id jq of None \<Rightarrow> False | Some r \<Rightarrow> jb_cancel_requested r))"

definition jq_claimed_by :: "string \<Rightarrow> job_queue \<times> wf_state \<Rightarrow> string option res" where
  "jq_claimed_by task_id s =
     (if ab_closed (fst s) then Inl pg_closed_error
      else Inr (Option.bind (lease_of task_id (snd s)) lr_worker_id))"

end
