(* ===== verification/Worker_Gateway.thy ===== *)
theory Worker_Gateway
  imports Execution_Jobs Artifact_Properties
begin

text \<open>
  The gateway the workers talk to (\<^verbatim>\<open>services/api/worker_gateway/\<close>): enrollment and session
  tokens (\<^verbatim>\<open>auth.py\<close>, \<^verbatim>\<open>security.py\<close>), registration and heartbeat (\<^verbatim>\<open>app.py\<close>), claim, result,
  renewal and cancel status of a job (\<^verbatim>\<open>jobs.py\<close>) and the transfer of bundles
  (\<^verbatim>\<open>transfer.py\<close>). The gateway works on four ports: the worker registry and the workflow engine
  of this development, the job queue and the artifact store. Registry and engine read one
  table of workers, which \<open>put_registry\<close> keeps equal. A request body is one the DTO has
  admitted, a header is \<open>None\<close> when absent. An \<^verbatim>\<open>ApiError\<close> is its status, title and detail; any
  other exception leaves the handler as it is. The job plane is configured, as it is whenever
  the job routes are mounted; the artifact store may be absent. The hash of a session token is
  the parameter \<open>hash\<close>, the hash of a bundle \<open>dg\<close>; the generated token is an argument.
\<close>

section \<open>State and errors\<close>

datatype gateway_error =
    ApiError int string string
  | Uncaught py_error
  | UncaughtTransition "(worker_state, worker_event) invalid_transition"

record gateway_settings =
  gs_enrollment_ref :: string
  gs_require_tls :: bool
  gs_heartbeat_interval :: int
  gs_stale_threshold :: int
  gs_max_result_bytes :: int
  gs_gpu_ttl :: int
  gs_protocol_versions :: "string list"
  gs_backend_kinds :: "string list"

text \<open>Intervals are in microseconds.\<close>

definition gateway_settings_post_init :: "gateway_settings \<Rightarrow> gateway_settings res" where
  "gateway_settings_post_init s = first_error
     [(gs_enrollment_ref s = [], ''enrollment_credential_ref must not be empty''),
      (gs_heartbeat_interval s \<le> 0, ''heartbeat_interval_seconds must be > 0''),
      (gs_stale_threshold s \<le> gs_heartbeat_interval s, ''stale_threshold_seconds must exceed heartbeat interval''),
      (gs_max_result_bytes s \<le> 0, ''max_result_bytes must be > 0''),
      (gs_gpu_ttl s \<le> 0, ''gpu_observation_ttl_seconds must be > 0''),
      (gs_protocol_versions s = [], ''supported_protocol_versions must not be empty'')] s"

record gateway =
  gw_settings :: gateway_settings
  gw_registry :: registry_state
  gw_workflow :: wf_state
  gw_jobs :: job_queue
  gw_artifacts :: "artifact_store option"

definition put_registry :: "registry_state \<Rightarrow> gateway \<Rightarrow> gateway" where
  "put_registry rg gw =
     gw\<lparr>gw_registry := rg, gw_workflow := (gw_workflow gw)\<lparr>wf_workers := rg_workers rg\<rparr>\<rparr>"

definition registry_failure :: "registry_error \<Rightarrow> gateway_error" where
  "registry_failure e = (case e of RegError err \<Rightarrow> Uncaught err | RegTransition err \<Rightarrow> UncaughtTransition err)"

section \<open>Authentication\<close>

definition verify_enrollment :: "string option \<Rightarrow> string \<Rightarrow> bool" where
  "verify_enrollment provided expected =
     (case provided of None \<Rightarrow> False | Some p \<Rightarrow> p \<noteq> [] \<and> expected \<noteq> [] \<and> p = expected)"

definition extract_bearer :: "string option \<Rightarrow> string option" where
  "extract_bearer authorization =
     (case authorization of
        None \<Rightarrow> None
      | Some [] \<Rightarrow> None
      | Some h \<Rightarrow>
          (case split_once (CHR '' '') h of
             [scheme, rest] \<Rightarrow>
               (if lower scheme \<noteq> ''bearer'' then None
                else if strip rest = [] then None else Some (strip rest))
           | _ \<Rightarrow> None))"

definition is_loopback_host :: "string \<Rightarrow> bool" where
  "is_loopback_host host = (host \<in> set [''127.0.0.1'', ''::1'', ''localhost''] \<or> starts_with ''127.'' host)"

definition assert_bind_allowed :: "string \<Rightarrow> bool \<Rightarrow> bool" where
  "assert_bind_allowed host require_tls = (is_loopback_host host \<or> require_tls)"

text \<open>\<open>secret\<close> is what the credential resolver returns, \<open>None\<close> when it knows no such credential.\<close>

definition require_enrollment :: "string option \<Rightarrow> string option \<Rightarrow> gateway_error + unit" where
  "require_enrollment secret enrollment =
     (case secret of
        None \<Rightarrow> Inl (ApiError 503 ''Enrollment Unavailable'' ''worker enrollment secret not configured'')
      | Some expected \<Rightarrow>
          if verify_enrollment enrollment expected then Inr ()
          else Inl (ApiError 401 ''Unauthorized'' ''invalid worker enrollment secret''))"

definition gw_authenticate ::
    "(string \<Rightarrow> string) \<Rightarrow> string option \<Rightarrow> gateway \<Rightarrow> gateway_error + worker_registration" where
  "gw_authenticate hash authorization gw =
     (case extract_bearer authorization of
        None \<Rightarrow> Inl (ApiError 401 ''Unauthorized'' ''missing bearer session token'')
      | Some token \<Rightarrow>
          (case rg_authenticate (hash token) (gw_registry gw) of
             Inl e \<Rightarrow> Inl (Uncaught e)
           | Inr None \<Rightarrow> Inl (ApiError 401 ''Unauthorized'' ''invalid or revoked session token'')
           | Inr (Some w) \<Rightarrow> Inr w))"

definition authorized_identity ::
    "(string \<Rightarrow> string) \<Rightarrow> string option \<Rightarrow> string \<Rightarrow> int \<Rightarrow> gateway \<Rightarrow> gateway_error + worker_registration" where
  "authorized_identity hash authorization worker_id generation gw =
     bind_res (gw_authenticate hash authorization gw) (\<lambda>w.
       if wg_worker_id w \<noteq> worker_id
       then Inl (ApiError 401 ''Unauthorized'' ''worker_id does not match session identity'')
       else if wg_generation w \<noteq> generation
       then Inl (ApiError 401 ''Unauthorized'' ''stale registration generation'')
       else Inr w)"

section \<open>Registration\<close>

definition GPU_CAPABILITY :: string where "GPU_CAPABILITY = ''gpu''"

text \<open>The reported probe; its time is \<open>None\<close> for a text that is no UTC time.\<close>

record gpu_dto =
  gd_observation :: gpu_observation
  gd_probed_at :: "int option"

record register_request =
  rq_worker_id :: string
  rq_protocol_version :: string
  rq_runtime_version :: string
  rq_capabilities :: "string list"
  rq_backend_kinds :: "string list"
  rq_platform :: string
  rq_partition_slots :: "int list"
  rq_max_concurrency :: int
  rq_gpu_observation :: "gpu_dto option"

definition gpu_observation_of :: "register_request \<Rightarrow> gateway_error + gpu_observation option" where
  "gpu_observation_of q =
     (case rq_gpu_observation q of
        None \<Rightarrow>
          (if GPU_CAPABILITY \<in> set (rq_capabilities q)
           then Inl (ApiError 409 ''GPU Observation Required''
                  (''capability '' @ quote GPU_CAPABILITY @ '' requires a gpu_observation probe result''))
           else Inr None)
      | Some d \<Rightarrow>
          (if GPU_CAPABILITY \<notin> set (rq_capabilities q)
           then Inl (ApiError 409 ''GPU Capability Mismatch''
                  (''gpu_observation requires the '' @ quote ''gpu'' @ '' capability in this registration''))
           else (case gd_probed_at d of
                   None \<Rightarrow> Inl (ApiError 422 ''Unprocessable Entity'' ''invalid gpu_observation: probed_at'')
                 | Some t \<Rightarrow>
                     (case gpu_post_init ((gd_observation d)\<lparr>gpu_probed_at := t\<rparr>) of
                        Inl (ValueError m) \<Rightarrow>
                          Inl (ApiError 422 ''Unprocessable Entity'' (''invalid gpu_observation: '' @ m))
                      | Inl e \<Rightarrow> Inl (Uncaught e)
                      | Inr g \<Rightarrow> Inr (Some g)))))"

definition handshake_and_build ::
    "register_request \<Rightarrow> gateway_settings \<Rightarrow> gateway_error + worker_registration" where
  "handshake_and_build q s =
     (if rq_protocol_version q \<notin> set (gs_protocol_versions s)
      then Inl (ApiError 409 ''Protocol Mismatch''
             (''worker protocol_version '' @ quote (rq_protocol_version q) @ '' unsupported''))
      else if \<not> set (rq_backend_kinds q) \<subseteq> set (gs_backend_kinds s) \<or> rq_backend_kinds q = []
      then Inl (ApiError 409 ''Protocol Mismatch''
             (''worker backend kinds unsupported: ['' @
              join_texts '', '' (map quote (sort (remdups
                (filter (\<lambda>k. k \<notin> set (gs_backend_kinds s)) (rq_backend_kinds q))))) @ '']''))
      else bind_res (gpu_observation_of q) (\<lambda>g.
        (case registration_post_init
                \<lparr>wg_worker_id = rq_worker_id q, wg_protocol_version = rq_protocol_version q,
                 wg_runtime_version = rq_runtime_version q, wg_capabilities = rq_capabilities q,
                 wg_backend_kinds = rq_backend_kinds q, wg_platform = rq_platform q,
                 wg_partition_slots = rq_partition_slots q, wg_max_concurrency = rq_max_concurrency q,
                 wg_generation = 0, wg_state = worker_initial, wg_last_heartbeat = None,
                 wg_drain_requested = False, wg_gpu_observation = g, wg_gpu_observed_at = None\<rparr> of
           Inl (ValueError m) \<Rightarrow> Inl (ApiError 422 ''Unprocessable Entity'' m)
         | Inl e \<Rightarrow> Inl (Uncaught e)
         | Inr w \<Rightarrow> Inr w)))"

record register_response =
  rs_worker_id :: string
  rs_generation :: int
  rs_state :: worker_state
  rs_session_token :: string
  rs_heartbeat_interval :: int
  rs_stale_threshold :: int

definition register_body ::
    "(string \<Rightarrow> string) \<Rightarrow> string option \<Rightarrow> string option \<Rightarrow> register_request \<Rightarrow> string \<Rightarrow> (nat \<Rightarrow> int) \<Rightarrow>
     gateway \<Rightarrow> (gateway_error + register_response) \<times> gateway" where
  "register_body hash secret enrollment q token clk gw =
     (case bind_res (require_enrollment secret enrollment) (\<lambda>_. handshake_and_build q (gw_settings gw)) of
        Inl e \<Rightarrow> (Inl e, gw)
      | Inr w \<Rightarrow>
          (case rg_register w (clk 0) (gw_registry gw) of
             (Inl e, rg) \<Rightarrow> (Inl (registry_failure e), put_registry rg gw)
           | (Inr stored, rg) \<Rightarrow>
               (case rg_set_session_token (wg_worker_id stored) (wg_generation stored) (hash token) (clk 1) rg of
                  (Inl e, rg2) \<Rightarrow> (Inl (Uncaught e), put_registry rg2 gw)
                | (Inr _, rg2) \<Rightarrow>
                    (case rg_transition (wg_worker_id stored) WE_HANDSHAKE_OK (clk 2) rg2 of
                       (Inl e, rg3) \<Rightarrow> (Inl (registry_failure e), put_registry rg3 gw)
                     | (Inr ready, rg3) \<Rightarrow>
                         (Inr \<lparr>rs_worker_id = wg_worker_id ready, rs_generation = wg_generation ready,
                               rs_state = wg_state ready, rs_session_token = token,
                               rs_heartbeat_interval = gs_heartbeat_interval (gw_settings gw),
                               rs_stale_threshold = gs_stale_threshold (gw_settings gw)\<rparr>,
                          put_registry rg3 gw)))))"

record heartbeat_response =
  hr_accepted :: bool
  hr_state :: "worker_state option"
  hr_drain_requested :: bool

definition heartbeat_body ::
    "(string \<Rightarrow> string) \<Rightarrow> string option \<Rightarrow> string \<Rightarrow> int \<Rightarrow> int \<Rightarrow> gateway \<Rightarrow>
     (gateway_error + heartbeat_response) \<times> gateway" where
  "heartbeat_body hash authorization worker_id generation now gw =
     (case authorized_identity hash authorization worker_id generation gw of
        Inl e \<Rightarrow> (Inl e, gw)
      | Inr w \<Rightarrow>
          (case rg_heartbeat worker_id generation now (gw_registry gw) of
             (Inl e, rg) \<Rightarrow> (Inl (Uncaught e), put_registry rg gw)
           | (Inr accepted, rg) \<Rightarrow>
               (case rg_get worker_id rg of
                  Inl e \<Rightarrow> (Inl (Uncaught e), put_registry rg gw)
                | Inr current \<Rightarrow>
                    (Inr \<lparr>hr_accepted = accepted, hr_state = map_option wg_state current,
                          hr_drain_requested = (case current of None \<Rightarrow> False | Some c \<Rightarrow> wg_drain_requested c)\<rparr>,
                     put_registry rg gw))))"

section \<open>Jobs\<close>

record claim_dto =
  cd_worker_id :: string
  cd_generation :: int
  cd_capabilities :: "string list"
  cd_partitions :: "int list"

definition require_fresh_gpu_observation ::
    "worker_registration \<Rightarrow> string list \<Rightarrow> int \<Rightarrow> int \<Rightarrow> gateway_error + unit" where
  "require_fresh_gpu_observation w claimed ttl now =
     (if GPU_CAPABILITY \<notin> set claimed then Inr ()
      else case (wg_gpu_observation w, wg_gpu_observed_at w) of
             (Some _, Some observed) \<Rightarrow>
               (if ttl < now - observed
                then Inl (ApiError 409 ''GPU Capability Stale''
                       (''gpu observation is '' @ str_int ((now - observed) div second_us) @ ''s old (TTL '' @
                        str_int (ttl div second_us) @ ''s); re-probe required''))
                else Inr ())
           | _ \<Rightarrow> Inl (ApiError 409 ''GPU Capability Stale'' ''gpu capability has no probe observation''))"

definition require_schedulable ::
    "worker_registration \<Rightarrow> claim_dto \<Rightarrow> int \<Rightarrow> int \<Rightarrow> gateway_error + unit" where
  "require_schedulable w d ttl now =
     (if wg_state w \<notin> set schedulable
      then Inl (ApiError 409 ''Worker Not Schedulable''
             (''worker state '' @ quote (worker_state_text (wg_state w)) @ '' cannot claim work''))
      else if \<not> set (cd_capabilities d) \<subseteq> set (wg_capabilities w)
      then Inl (ApiError 409 ''Capability Mismatch'' ''claimed capabilities exceed worker registration'')
      else if \<not> set (cd_partitions d) \<subseteq> set (wg_partition_slots w)
      then Inl (ApiError 409 ''Partition Mismatch'' ''claimed partitions exceed worker registration'')
      else require_fresh_gpu_observation w (cd_capabilities d) ttl now)"

record job_dto =
  jt_task_id :: string
  jt_lease_id :: string
  jt_fence :: int
  jt_spec_json :: json
  jt_input_bundle_ref :: "string option"
  jt_input_bundle_digest :: "string option"
  jt_cancel_requested :: bool

definition describe_job :: "task_lease \<Rightarrow> gateway \<Rightarrow> gateway_error + job_dto" where
  "describe_job l gw =
     (case jq_describe (tl_task_id l) (gw_jobs gw) of
        Inl e \<Rightarrow> Inl (Uncaught e)
      | Inr None \<Rightarrow> Inl (ApiError 500 ''Job Descriptor Missing'' ''claimed task has no execution payload'')
      | Inr (Some d) \<Rightarrow>
          (case jq_cancel_requested (tl_task_id l) (gw_jobs gw) of
             Inl e \<Rightarrow> Inl (Uncaught e)
           | Inr c \<Rightarrow>
               Inr \<lparr>jt_task_id = tl_task_id l, jt_lease_id = tl_lease_id l, jt_fence = tl_fence l,
                    jt_spec_json = jd_spec_json d, jt_input_bundle_ref = jd_input_bundle_ref d,
                    jt_input_bundle_digest = jd_input_bundle_digest d, jt_cancel_requested = c\<rparr>))"

definition claim_job ::
    "(string \<Rightarrow> string) \<Rightarrow> string option \<Rightarrow> claim_dto \<Rightarrow> int \<Rightarrow> (nat \<Rightarrow> int) \<Rightarrow> (nat \<Rightarrow> string) \<Rightarrow> int \<Rightarrow> gateway \<Rightarrow>
     (gateway_error + job_dto option) \<times> gateway" where
  "claim_job hash authorization d now clk uid later gw =
     (case bind_res (authorized_identity hash authorization (cd_worker_id d) (cd_generation d) gw) (\<lambda>w.
             require_schedulable w d (gs_gpu_ttl (gw_settings gw)) now) of
        Inl e \<Rightarrow> (Inl e, gw)
      | Inr _ \<Rightarrow>
          (case claim_request_post_init
                  \<lparr>cq_worker_id = cd_worker_id d, cq_capabilities = cd_capabilities d,
                   cq_partitions = cd_partitions d, cq_relax_partitions = False\<rparr> of
             Inl e \<Rightarrow> (Inl (Uncaught e), gw)
           | Inr q \<Rightarrow>
               (case claim_next q clk uid (gw_workflow gw) of
                  (Inl e, eng) \<Rightarrow> (Inl (Uncaught e), gw\<lparr>gw_workflow := eng\<rparr>)
                | (Inr None, eng) \<Rightarrow> (Inr None, gw\<lparr>gw_workflow := eng\<rparr>)
                | (Inr (Some l), eng) \<Rightarrow>
                    (case rg_transition (cd_worker_id d) WE_CLAIM later (gw_registry gw) of
                       (Inl e, rg) \<Rightarrow> (Inl (registry_failure e), put_registry rg (gw\<lparr>gw_workflow := eng\<rparr>))
                     | (Inr _, rg) \<Rightarrow>
                         (let gw' = put_registry rg (gw\<lparr>gw_workflow := eng\<rparr>)
                          in (map_sum id Some (describe_job l gw'), gw'))))))"

record result_dto =
  rd_worker_id :: string
  rd_generation :: int
  rd_lease_id :: string
  rd_fence :: int
  rd_status :: string
  rd_exit_code :: "int option"
  rd_stdout_digest :: "string option"
  rd_stderr_digest :: "string option"
  rd_output_bundle_ref :: "string option"
  rd_output_bundle_digest :: "string option"
  rd_failure_category :: "string option"
  rd_image_digest :: "string option"
  rd_gpu_elapsed_seconds :: "int option"
  rd_peak_gpu_memory_bytes :: "int option"
  rd_gpu_elapsed_seconds_exact :: "decimal option"
  rd_execution_elapsed_seconds :: "decimal option"

definition execution_result :: "string \<Rightarrow> result_dto \<Rightarrow> string \<Rightarrow> job_result" where
  "execution_result task_id d worker_id =
     \<lparr>js_task_id = task_id, js_lease_id = rd_lease_id d, js_fence = rd_fence d, js_status = rd_status d,
      js_worker_id = Some worker_id, js_exit_code = rd_exit_code d, js_stdout_digest = rd_stdout_digest d,
      js_stderr_digest = rd_stderr_digest d, js_output_bundle_ref = rd_output_bundle_ref d,
      js_output_bundle_digest = rd_output_bundle_digest d, js_failure_category = rd_failure_category d,
      js_image_digest = rd_image_digest d,
      js_gpu_elapsed_seconds =
        (case rd_gpu_elapsed_seconds_exact d of
           Some x \<Rightarrow> Some x | None \<Rightarrow> map_option dec_of_int (rd_gpu_elapsed_seconds d)),
      js_peak_gpu_memory_bytes = rd_peak_gpu_memory_bytes d,
      js_execution_elapsed_seconds = rd_execution_elapsed_seconds d\<rparr>"

definition provenance :: "string \<Rightarrow> string \<Rightarrow> string" where
  "provenance worker_id task_id = ''worker:'' @ worker_id @ '':'' @ task_id"

definition require_output_provenance ::
    "string \<Rightarrow> string \<Rightarrow> string \<Rightarrow> gateway \<Rightarrow> (gateway_error + unit) \<times> gateway" where
  "require_output_provenance worker_id task_id ref gw =
     (case gw_artifacts gw of
        None \<Rightarrow> (Inl (ApiError 503 ''Artifact Store Unavailable'' ''artifact store not configured''), gw)
      | Some store \<Rightarrow>
          (case ar_meta ref store of
             (Inl e, store') \<Rightarrow> (Inl (Uncaught e), gw\<lparr>gw_artifacts := Some store'\<rparr>)
           | (Inr meta, store') \<Rightarrow>
               ((case meta of
                   Some a \<Rightarrow>
                     (if at_created_by a = Some (provenance worker_id task_id) then Inr ()
                      else Inl (ApiError 409 ''Artifact Provenance Rejected''
                             ''output bundle was not uploaded by this worker for this task''))
                 | None \<Rightarrow> Inl (ApiError 409 ''Artifact Provenance Rejected''
                             ''output bundle was not uploaded by this worker for this task'')),
                gw\<lparr>gw_artifacts := Some store'\<rparr>)))"

definition refused_as :: "string \<Rightarrow> py_error \<Rightarrow> gateway_error" where
  "refused_as title e = (case e of InvalidInputError m \<Rightarrow> ApiError 409 title m | _ \<Rightarrow> Uncaught e)"

definition submit_result ::
    "(string \<Rightarrow> string) \<Rightarrow> string option \<Rightarrow> string \<Rightarrow> result_dto \<Rightarrow> int \<Rightarrow> gateway \<Rightarrow>
     (gateway_error + string) \<times> gateway" where
  "submit_result hash authorization task_id d now gw =
     (case authorized_identity hash authorization (rd_worker_id d) (rd_generation d) gw of
        Inl e \<Rightarrow> (Inl e, gw)
      | Inr w \<Rightarrow>
          (case (case or_none (rd_output_bundle_ref d) of
                   None \<Rightarrow> (Inr (), gw)
                 | Some ref \<Rightarrow> require_output_provenance (wg_worker_id w) task_id ref gw) of
             (Inl e, gw1) \<Rightarrow> (Inl e, gw1)
           | (Inr _, gw1) \<Rightarrow>
               (case jq_record_result (execution_result task_id d (wg_worker_id w)) (gw_jobs gw1, gw_workflow gw1) of
                  (Inl e, _) \<Rightarrow> (Inl (refused_as ''Stale Result Rejected'' e), gw1)
                | (Inr _, jq, eng) \<Rightarrow>
                    (let gw2 = gw1\<lparr>gw_jobs := jq, gw_workflow := eng\<rparr>
                     in (Inr task_id,
                         put_registry (snd (rg_transition (rd_worker_id d) WE_JOB_SETTLED now (gw_registry gw2))) gw2)))))"

definition fence_header :: "string option \<Rightarrow> gateway_error + int" where
  "fence_header fence =
     (case Option.bind fence py_int of
        None \<Rightarrow> Inl (ApiError 422 ''Unprocessable Entity'' ''fence header must be an integer'')
      | Some n \<Rightarrow> Inr n)"

definition renew_job ::
    "(string \<Rightarrow> string) \<Rightarrow> string option \<Rightarrow> string \<Rightarrow> string option \<Rightarrow> string option \<Rightarrow> (nat \<Rightarrow> int) \<Rightarrow>
     (nat \<Rightarrow> string) \<Rightarrow> int \<Rightarrow> gateway \<Rightarrow> (gateway_error + unit) \<times> gateway" where
  "renew_job hash authorization task_id lease_id fence clk uid now gw =
     (case gw_authenticate hash authorization gw of
        Inl e \<Rightarrow> (Inl e, gw)
      | Inr w \<Rightarrow>
          (if or_none lease_id = None \<or> fence = None
           then (Inl (ApiError 422 ''Unprocessable Entity'' ''renew requires lease/fence headers''), gw)
           else case fence_header fence of
                  Inl e \<Rightarrow> (Inl e, gw)
                | Inr n \<Rightarrow>
                    (case renew_lease task_id (the lease_id) n (wg_worker_id w) clk uid (gw_workflow gw) of
                       (Inl e, eng) \<Rightarrow>
                         (Inl (refused_as ''Stale Lease Rejected'' e), gw\<lparr>gw_workflow := eng\<rparr>)
                     | (Inr _, eng) \<Rightarrow>
                         (case rg_heartbeat (wg_worker_id w) (wg_generation w) now (gw_registry gw) of
                            (Inl e, rg) \<Rightarrow> (Inl (Uncaught e), put_registry rg (gw\<lparr>gw_workflow := eng\<rparr>))
                          | (Inr _, rg) \<Rightarrow> (Inr (), put_registry rg (gw\<lparr>gw_workflow := eng\<rparr>))))))"

definition cancel_status ::
    "(string \<Rightarrow> string) \<Rightarrow> string option \<Rightarrow> string \<Rightarrow> gateway \<Rightarrow> gateway_error + bool" where
  "cancel_status hash authorization task_id gw =
     bind_res (gw_authenticate hash authorization gw) (\<lambda>w.
       (case jq_claimed_by task_id (gw_jobs gw, gw_workflow gw) of
          Inl e \<Rightarrow> Inl (Uncaught e)
        | Inr holder \<Rightarrow>
            if holder \<noteq> Some (wg_worker_id w)
            then Inl (ApiError 403 ''Forbidden'' ''cancel status is only visible to the lease holder'')
            else map_sum Uncaught id (jq_cancel_requested task_id (gw_jobs gw))))"

section \<open>Transfer\<close>

definition lease_context ::
    "string option \<Rightarrow> string option \<Rightarrow> string option \<Rightarrow> gateway_error + (string \<times> string \<times> int)" where
  "lease_context task_id lease_id fence =
     (if or_none task_id = None \<or> or_none lease_id = None \<or> fence = None
      then Inl (ApiError 422 ''Unprocessable Entity'' ''artifact transfer requires task/lease/fence headers'')
      else bind_res (fence_header fence) (\<lambda>n. Inr (the task_id, the lease_id, n)))"

definition read_capped_body :: "string option \<Rightarrow> string \<Rightarrow> int \<Rightarrow> gateway_error + string" where
  "read_capped_body declared body max_bytes =
     (let size = (case declared of None \<Rightarrow> -1 | Some h \<Rightarrow> (case py_int h of None \<Rightarrow> -1 | Some n \<Rightarrow> n))
      in if declared \<noteq> None \<and> max_bytes < size \<or> max_bytes < int (length body)
         then Inl (ApiError 413 ''Payload Too Large'' ''result bundle exceeds size limit'')
         else if body = [] then Inl (ApiError 422 ''Unprocessable Entity'' ''empty bundle'')
         else Inr body)"

text \<open>The lease gate both transfers start with; it returns the worker and the task.\<close>

definition transfer_gate ::
    "(string \<Rightarrow> string) \<Rightarrow> string option \<Rightarrow> string option \<Rightarrow> string option \<Rightarrow> string option \<Rightarrow> gateway \<Rightarrow>
     gateway_error + (worker_registration \<times> string \<times> artifact_store)" where
  "transfer_gate hash authorization task_id lease_id fence gw =
     bind_res (gw_authenticate hash authorization gw) (\<lambda>w.
     bind_res (lease_context task_id lease_id fence) (\<lambda>(tid, lid, n).
       (case jq_assert_active_lease tid lid n (wg_worker_id w) (gw_jobs gw, gw_workflow gw) of
          Inl e \<Rightarrow> Inl (refused_as ''Stale Lease Rejected'' e)
        | Inr _ \<Rightarrow>
            (case gw_artifacts gw of
               None \<Rightarrow> Inl (ApiError 503 ''Artifact Store Unavailable'' ''artifact store not configured'')
             | Some store \<Rightarrow> Inr (w, tid, store)))))"

definition download_bundle ::
    "(string \<Rightarrow> string) \<Rightarrow> string \<Rightarrow> string option \<Rightarrow> string option \<Rightarrow> string option \<Rightarrow> string option \<Rightarrow>
     gateway \<Rightarrow> (gateway_error + string) \<times> gateway" where
  "download_bundle hash artifact_id authorization task_id lease_id fence gw =
     (case transfer_gate hash authorization task_id lease_id fence gw of
        Inl e \<Rightarrow> (Inl e, gw)
      | Inr (w, tid, store) \<Rightarrow>
          (case jq_describe tid (gw_jobs gw) of
             Inl e \<Rightarrow> (Inl (Uncaught e), gw)
           | Inr descriptor \<Rightarrow>
               (case ar_meta artifact_id store of
                  (Inl e, store1) \<Rightarrow> (Inl (Uncaught e), gw\<lparr>gw_artifacts := Some store1\<rparr>)
                | (Inr meta, store1) \<Rightarrow>
                    (let allowed_input =
                           (case descriptor of None \<Rightarrow> False | Some d \<Rightarrow> jd_input_bundle_ref d = Some artifact_id);
                         own_upload =
                           (case meta of
                              None \<Rightarrow> False
                            | Some a \<Rightarrow>
                                starts_with (''worker:'' @ wg_worker_id w @ '':'')
                                  (case at_created_by a of None \<Rightarrow> [] | Some c \<Rightarrow> c))
                     in if \<not> (allowed_input \<or> own_upload)
                        then (Inl (ApiError 403 ''Forbidden'' ''artifact not authorized for this lease''),
                              gw\<lparr>gw_artifacts := Some store1\<rparr>)
                        else (case ar_get artifact_id store1 of
                                (Inl _, store2) \<Rightarrow>
                                  (Inl (ApiError 404 ''Artifact Not Found'' ''unknown or unreadable artifact''),
                                   gw\<lparr>gw_artifacts := Some store2\<rparr>)
                              | (Inr content, store2) \<Rightarrow> (Inr content, gw\<lparr>gw_artifacts := Some store2\<rparr>))))))"

definition bundle_artifact :: "(string \<Rightarrow> string) \<Rightarrow> string \<Rightarrow> string \<Rightarrow> string \<Rightarrow> artifact" where
  "bundle_artifact dg worker_id tid content =
     \<lparr>at_id = ''bundle-'' @ take 32 (dg content) @ ''-'' @ tid, at_digest = dg content,
      at_size_bytes = int (length content),
      at_media_type = ''application/x-researchos-workspace-bundle'', at_storage_uri = None,
      at_created_by = Some (provenance worker_id tid), at_source_refs = [],
      at_classification = None, at_retention_policy = None, at_state = AS_STAGED,
      at_created_at = None, at_supersedes = None\<rparr>"

definition upload_bundle ::
    "(string \<Rightarrow> string) \<Rightarrow> (string \<Rightarrow> string) \<Rightarrow> string option \<Rightarrow> string \<Rightarrow> string option \<Rightarrow> string option \<Rightarrow>
     string option \<Rightarrow> string option \<Rightarrow> int \<Rightarrow> gateway \<Rightarrow> (gateway_error + (string \<times> string)) \<times> gateway" where
  "upload_bundle dg hash declared body authorization task_id lease_id fence now gw =
     (case transfer_gate hash authorization task_id lease_id fence gw of
        Inl e \<Rightarrow> (Inl e, gw)
      | Inr (w, tid, store) \<Rightarrow>
          (case read_capped_body declared body (gs_max_result_bytes (gw_settings gw)) of
             Inl e \<Rightarrow> (Inl e, gw)
           | Inr content \<Rightarrow>
               (case artifact_post_init (bundle_artifact dg (wg_worker_id w) tid content) of
                  Inl e \<Rightarrow> (Inl (Uncaught e), gw)
                | Inr a \<Rightarrow>
                    (case ar_put dg a content now store of
                       (Inl e, store') \<Rightarrow> (Inl (Uncaught e), gw\<lparr>gw_artifacts := Some store'\<rparr>)
                     | (Inr _, store') \<Rightarrow>
                         (Inr (at_id a, ''sha256:'' @ dg content), gw\<lparr>gw_artifacts := Some store'\<rparr>)))))"

end
