(* ===== verification/Gateway_Properties.thy ===== *)
theory Gateway_Properties
  imports Worker_Gateway Worker_Properties
begin

text \<open>
  What the worker gateway guarantees: who may claim, what an accepted result changes and that
  it is accepted once, and which worker can read which bundle.
\<close>

section \<open>Identities\<close>

lemma find_SomeD: "find P xs = Some x \<Longrightarrow> x \<in> set xs \<and> P x"
  by (auto simp: find_Some_iff)

lemma gw_authenticate_InrD:
  assumes "gw_authenticate hash auth gw = Inr w"
  obtains tok r where "extract_bearer auth = Some tok" "\<not> ab_closed (gw_registry gw)"
    "r \<in> set (rg_workers (gw_registry gw))" "wr_session_token r = Some (hash tok)" "row_to_registration r = Inr w"
proof -
  from assms obtain tok where tok: "extract_bearer auth = Some tok" "rg_authenticate (hash tok) (gw_registry gw) = Inr (Some w)"
    by (auto simp: gw_authenticate_def split: option.splits sum.splits)
  then have opened: "\<not> ab_closed (gw_registry gw)" by (auto simp: rg_authenticate_def)
  from tok(2) obtain r where "find (\<lambda>r. wr_session_token r = Some (hash tok)) (rg_workers (gw_registry gw)) = Some r"
    "row_to_registration r = Inr w" by (rule rg_authenticate_SomeD)
  with tok(1) opened that show thesis by (blast dest: find_SomeD)
qed

lemma authorized_identity_InrD:
  assumes "authorized_identity hash auth worker_id generation gw = Inr w"
  shows "gw_authenticate hash auth gw = Inr w" "wg_worker_id w = worker_id" "wg_generation w = generation"
  using assms by (auto simp: authorized_identity_def bind_res_def split: sum.splits if_splits)

lemma row_to_registration_fields:
  assumes "row_to_registration r = Inr w"
  shows "wg_worker_id w = wr_worker_id r" "wg_generation w = wr_generation r" "wg_state w = wr_state r"
    "wg_capabilities w = wr_capabilities r" "wg_partition_slots w = wr_partition_slots r"
    "wg_gpu_observed_at w = wr_gpu_observed_at r" "wg_gpu_observation w \<noteq> None \<longleftrightarrow> wr_gpu_observation r \<noteq> None"
  using assms
  by (auto simp: row_to_registration_def bind_res_def dest!: registration_post_init_InrD split: sum.splits option.splits)

definition session_of :: "(string \<Rightarrow> string) \<Rightarrow> string option \<Rightarrow> string \<Rightarrow> gateway \<Rightarrow> worker_row \<Rightarrow> bool" where
  "session_of hash auth worker_id gw r =
     (row_of wr_worker_id worker_id (rg_workers (gw_registry gw)) = Some r \<and>
      (case extract_bearer auth of None \<Rightarrow> False | Some tok \<Rightarrow> wr_session_token r = Some (hash tok)))"

lemma authenticated_session:
  assumes "distinct (map wr_worker_id (rg_workers (gw_registry gw)))" and "gw_authenticate hash auth gw = Inr w"
  obtains r where "session_of hash auth (wg_worker_id w) gw r" "row_to_registration r = Inr w"
    "\<not> ab_closed (gw_registry gw)"
proof -
  from assms(2) obtain tok r where r: "extract_bearer auth = Some tok" "\<not> ab_closed (gw_registry gw)"
    "r \<in> set (rg_workers (gw_registry gw))" "wr_session_token r = Some (hash tok)" "row_to_registration r = Inr w"
    by (rule gw_authenticate_InrD)
  with row_of_distinct [OF assms(1) r(3)] row_to_registration_fields(1) [OF r(5)] have "session_of hash auth (wg_worker_id w) gw r"
    by (simp add: session_of_def)
  with r that show thesis by blast
qed

section \<open>Claims\<close>

lemma require_schedulable_InrD:
  assumes "require_schedulable w d ttl now = Inr u"
  shows "wg_state w = W_READY" "set (cd_capabilities d) \<subseteq> set (wg_capabilities w)"
    "set (cd_partitions d) \<subseteq> set (wg_partition_slots w)"
    "GPU_CAPABILITY \<in> set (cd_capabilities d) \<Longrightarrow> \<exists>t. wg_gpu_observed_at w = Some t \<and> now - t \<le> ttl"
  using assms
  by (auto simp: require_schedulable_def require_fresh_gpu_observation_def schedulable_def
      split: if_splits option.splits)

lemma claims_to_busy: "worker_transition W_READY WE_CLAIM = Inr W_BUSY"
  by (simp add: worker_transition_def transition_of_def worker_transitions_def)

lemma rg_transition_effect:
  assumes "\<not> ab_closed rg" and "row_of wr_worker_id w (rg_workers rg) = Some r"
    and "worker_transition (wr_state r) event = Inr s"
  shows "row_of wr_worker_id w (rg_workers (snd (rg_transition w event now rg))) =
      Some (r\<lparr>wr_state := s, wr_updated_at := server_now now\<rparr>)"
proof -
  let ?f = "\<lambda>x. if wr_state x = wr_state r then x\<lparr>wr_state := s, wr_updated_at := server_now now\<rparr> else x"
  have "rg_workers (snd (rg_transition w event now rg)) = upd_row wr_worker_id w ?f (rg_workers rg)"
    using assms by (simp add: rg_transition_def rg_change_def Let_def log_defs)
  then show ?thesis using assms(2) by (simp only:) (subst row_of_upd_row, auto)
qed

lemma delivered_lease:
  assumes "delivered st row l clk uid st'"
  shows "\<exists>lr. lease_of (tl_task_id l) st' = Some lr \<and> lr_worker_id lr = tl_worker_id l \<and>
    lr_lease_id lr = tl_lease_id l \<and> lr_fence lr = tl_fence l \<and> tl_fence l = tr_fence_seq row + 1"
proof -
  obtain tj where tj: "db st' = db (deliver l (clk 1 + wf_lease_ttl st) (clk 1) tj (tr_run_id row) (uid 1) (clk 2) (clk 3) st)"
    and l: "lease_of (tl_task_id l) st = None" "tl_fence l = tr_fence_seq row + 1"
    using assms unfolding delivered_def by blast
  show ?thesis using lease_of_db [OF tj, of "tl_task_id l"] l by (simp add: lease_of_deliver)
qed

lemma claim_refused:
  assumes "distinct (map wr_worker_id (rg_workers (gw_registry gw)))"
    and "row_of wr_worker_id (cd_worker_id d) (rg_workers (gw_registry gw)) = Some r" and "wr_state r \<noteq> W_READY"
  shows "\<exists>e. claim_job hash auth d now clk uid later gw = (Inl e, gw)"
proof (cases "authorized_identity hash auth (cd_worker_id d) (cd_generation d) gw")
  case (Inr w)
  note id = authorized_identity_InrD [OF Inr]
  obtain x where "session_of hash auth (wg_worker_id w) gw x" "row_to_registration x = Inr w"
    using assms(1) id(1) by (rule authenticated_session)
  then have "wg_state w = wr_state r" using id(2) assms(2) by (simp add: session_of_def row_to_registration_fields(3))
  with assms(3) Inr show ?thesis
    by (auto simp: claim_job_def bind_res_def require_schedulable_def schedulable_def)
qed (simp add: claim_job_def bind_res_def)

lemma put_registry_simps [simp]:
  "gw_registry (put_registry rg gw) = rg" "gw_jobs (put_registry rg gw) = gw_jobs gw"
  "gw_artifacts (put_registry rg gw) = gw_artifacts gw" "gw_settings (put_registry rg gw) = gw_settings gw"
  "lease_of tid (gw_workflow (put_registry rg gw)) = lease_of tid (gw_workflow gw)"
  "task_of tid (gw_workflow (put_registry rg gw)) = task_of tid (gw_workflow gw)"
  "db (gw_workflow (put_registry rg gw)) = db (gw_workflow gw)"
  by (simp_all add: put_registry_def lease_of_def task_of_def db_def)

lemma describe_job_InrD:
  "describe_job l gw = Inr j \<Longrightarrow> jt_task_id j = tl_task_id l \<and> jt_lease_id j = tl_lease_id l \<and> jt_fence j = tl_fence l"
  by (auto simp: describe_job_def split: sum.splits option.splits)

lemma claim_job_InrD:
  assumes "claim_job hash auth d now clk uid later gw = (Inr (Some j), gw')"
  obtains w l eng rg where "authorized_identity hash auth (cd_worker_id d) (cd_generation d) gw = Inr w"
    "require_schedulable w d (gs_gpu_ttl (gw_settings gw)) now = Inr ()"
    "claim_next \<lparr>cq_worker_id = cd_worker_id d, cq_capabilities = cd_capabilities d,
       cq_partitions = cd_partitions d, cq_relax_partitions = False\<rparr> clk uid (gw_workflow gw) = (Inr (Some l), eng)"
    "rg = snd (rg_transition (cd_worker_id d) WE_CLAIM later (gw_registry gw))"
    "gw' = put_registry rg (gw\<lparr>gw_workflow := eng\<rparr>)" "describe_job l gw' = Inr j"
proof -
  let ?q = "\<lparr>cq_worker_id = cd_worker_id d, cq_capabilities = cd_capabilities d,
       cq_partitions = cd_partitions d, cq_relax_partitions = False\<rparr>"
  obtain u where "bind_res (authorized_identity hash auth (cd_worker_id d) (cd_generation d) gw)
      (\<lambda>w. require_schedulable w d (gs_gpu_ttl (gw_settings gw)) now) = Inr u"
    using assms by (auto simp: claim_job_def split: sum.splits)
  then obtain w where w: "authorized_identity hash auth (cd_worker_id d) (cd_generation d) gw = Inr w"
    "require_schedulable w d (gs_gpu_ttl (gw_settings gw)) now = Inr ()" by (auto simp: bind_res_def split: sum.splits)
  obtain q where "claim_request_post_init ?q = Inr q" using assms w
    by (auto simp: claim_job_def bind_res_def split: sum.splits)
  then have q: "claim_request_post_init ?q = Inr ?q"
    unfolding claim_request_post_init_def first_error_Inr_iff by simp
  obtain l eng where l: "claim_next ?q clk uid (gw_workflow gw) = (Inr (Some l), eng)"
    using assms w q by (auto simp: claim_job_def bind_res_def split: sum.splits option.splits prod.splits)
  obtain reg rg where rg: "rg_transition (cd_worker_id d) WE_CLAIM later (gw_registry gw) = (Inr reg, rg)"
    using assms w q l by (auto simp: claim_job_def bind_res_def split: sum.splits prod.splits)
  let ?gw = "put_registry rg (gw\<lparr>gw_workflow := eng\<rparr>)"
  have "claim_job hash auth d now clk uid later gw = (map_sum id Some (describe_job l ?gw), ?gw)"
    using w q l rg by (simp add: claim_job_def bind_res_def Let_def)
  from trans [OF this [symmetric] assms] have "gw' = ?gw" "map_sum id Some (describe_job l ?gw) = Inr (Some j)" by blast+
  moreover from this have "describe_job l gw' = Inr j" by (cases "describe_job l ?gw") auto
  ultimately show thesis using that [OF w l] rg by simp
qed

lemma claim_job_worker:
  assumes "distinct (map wr_worker_id (rg_workers (gw_registry gw)))"
    and "authorized_identity hash auth (cd_worker_id d) (cd_generation d) gw = Inr w"
    and "require_schedulable w d ttl now = Inr ()"
  obtains r where "session_of hash auth (cd_worker_id d) gw r" "wr_generation r = cd_generation d" "wr_state r = W_READY"
    "set (cd_capabilities d) \<subseteq> set (wr_capabilities r)" "set (cd_partitions d) \<subseteq> set (wr_partition_slots r)"
    "GPU_CAPABILITY \<in> set (cd_capabilities d) \<longrightarrow> (\<exists>t. wr_gpu_observed_at r = Some t \<and> now - t \<le> ttl)"
    "row_of wr_worker_id (cd_worker_id d) (rg_workers (snd (rg_transition (cd_worker_id d) WE_CLAIM later (gw_registry gw)))) =
      Some (r\<lparr>wr_state := W_BUSY, wr_updated_at := server_now later\<rparr>)"
proof -
  note id = authorized_identity_InrD [OF assms(2)] and ok = require_schedulable_InrD [OF assms(3)]
  obtain r where r: "session_of hash auth (cd_worker_id d) gw r" "row_to_registration r = Inr w" "\<not> ab_closed (gw_registry gw)"
    using authenticated_session [OF assms(1) id(1)] id(2) by metis
  note fields = row_to_registration_fields [OF r(2)]
  have ready: "wr_state r = W_READY" using ok(1) fields(3) by simp
  have "row_of wr_worker_id (cd_worker_id d) (rg_workers (gw_registry gw)) = Some r"
    using r(1) by (simp add: session_of_def)
  with that [OF r(1) _ ready] show thesis
    using rg_transition_effect [OF r(3), of "cd_worker_id d" r WE_CLAIM] id(3) ok fields by (simp add: ready claims_to_busy)
qed

lemma claim_next_delivers:
  assumes "claim_next q clk uid st = (Inr (Some l), st')" and "distinct (map tr_task_id (wf_tasks st))"
  obtains row lr where "task_of (tl_task_id l) st = Some row" "claimable (clk 0) st row" "claim_matches q row"
    "lease_of (tl_task_id l) st' = Some lr" "lr_worker_id lr = Some (cq_worker_id q)" "lr_lease_id lr = tl_lease_id l"
    "lr_fence lr = tl_fence l" "tl_fence l = tr_fence_seq row + 1"
proof -
  from assms obtain row where t: "tl_task_id l = tr_task_id row" "tl_worker_id l = Some (cq_worker_id q)"
    "claimable (clk 0) st row" "claim_matches q row" "row \<in> set (wf_tasks st)" "delivered st row l clk uid st'"
    by (cases rule: claim_effect) (auto dest: first_candidate_claimable(3))
  have "task_of (tl_task_id l) st = Some row" using t(1,5) task_of_in [OF assms(2)] by simp
  with t delivered_lease [OF t(6)] that show thesis by metis
qed

text \<open>
  C33: a claim is admitted for a ready worker with the means it registered, and holds it. When
  the gateway hands out a job, the bearer token is the session token of the claiming worker at
  the generation it names, the worker was \<open>READY\<close>, claims no capability or partition beyond
  its registration, and has a fresh probe if it claims a GPU; the job was a claimable
  execution task that the claim matches; the lease row of the task names this worker, the
  lease and the fence that were handed out; the worker is \<open>BUSY\<close>, and until its row changes
  every further claim in its name is refused and changes nothing.
\<close>

theorem claim_admits_one_job:
  assumes "rg_reach (toks, gw_registry gw)" and "distinct (map tr_task_id (wf_tasks (gw_workflow gw)))"
    and "claim_job hash auth d now clk uid later gw = (Inr (Some j), gw')"
  shows "\<exists>r row l. session_of hash auth (cd_worker_id d) gw r \<and> wr_generation r = cd_generation d \<and> wr_state r = W_READY \<and>
    set (cd_capabilities d) \<subseteq> set (wr_capabilities r) \<and> set (cd_partitions d) \<subseteq> set (wr_partition_slots r) \<and>
    (GPU_CAPABILITY \<in> set (cd_capabilities d) \<longrightarrow>
       (\<exists>t. wr_gpu_observed_at r = Some t \<and> now - t \<le> gs_gpu_ttl (gw_settings gw))) \<and>
    task_of (jt_task_id j) (gw_workflow gw) = Some row \<and> claimable (clk 0) (gw_workflow gw) row \<and>
    (case tr_required_capability row of None \<Rightarrow> True | Some c \<Rightarrow> c \<in> set (cd_capabilities d)) \<and>
    (case tr_partition row of None \<Rightarrow> True | Some p \<Rightarrow> p \<in> set (cd_partitions d)) \<and>
    lease_of (jt_task_id j) (gw_workflow gw') = Some l \<and> lr_worker_id l = Some (cd_worker_id d) \<and>
    lr_lease_id l = jt_lease_id j \<and> lr_fence l = jt_fence j \<and> jt_fence j = tr_fence_seq row + 1 \<and>
    row_of wr_worker_id (cd_worker_id d) (rg_workers (gw_registry gw')) =
      Some (r\<lparr>wr_state := W_BUSY, wr_updated_at := server_now later\<rparr>) \<and>
    (\<forall>auth2 d2 now2 clk2 uid2 later2. cd_worker_id d2 = cd_worker_id d \<longrightarrow>
       (\<exists>e. claim_job hash auth2 d2 now2 clk2 uid2 later2 gw' = (Inl e, gw')))"
proof -
  let ?q = "\<lparr>cq_worker_id = cd_worker_id d, cq_capabilities = cd_capabilities d,
       cq_partitions = cd_partitions d, cq_relax_partitions = False\<rparr>"
  have dist: "distinct (map wr_worker_id (rg_workers (gw_registry gw)))"
    using sessions_reachable [OF assms(1)] by (simp add: sessions_inv_def)
  obtain w l eng rg where w: "authorized_identity hash auth (cd_worker_id d) (cd_generation d) gw = Inr w"
    "require_schedulable w d (gs_gpu_ttl (gw_settings gw)) now = Inr ()"
    and claim: "claim_next ?q clk uid (gw_workflow gw) = (Inr (Some l), eng)"
    and rg: "rg = snd (rg_transition (cd_worker_id d) WE_CLAIM later (gw_registry gw))"
    and gw': "gw' = put_registry rg (gw\<lparr>gw_workflow := eng\<rparr>)" and j: "describe_job l gw' = Inr j"
    using assms(3) by (rule claim_job_InrD)
  obtain r where r: "session_of hash auth (cd_worker_id d) gw r" "wr_generation r = cd_generation d" "wr_state r = W_READY"
    "set (cd_capabilities d) \<subseteq> set (wr_capabilities r)" "set (cd_partitions d) \<subseteq> set (wr_partition_slots r)"
    "GPU_CAPABILITY \<in> set (cd_capabilities d) \<longrightarrow>
       (\<exists>t. wr_gpu_observed_at r = Some t \<and> now - t \<le> gs_gpu_ttl (gw_settings gw))"
    "row_of wr_worker_id (cd_worker_id d) (rg_workers rg) = Some (r\<lparr>wr_state := W_BUSY, wr_updated_at := server_now later\<rparr>)"
    using claim_job_worker [OF dist w] unfolding rg by metis
  obtain row lr where t: "task_of (tl_task_id l) (gw_workflow gw) = Some row" "claimable (clk 0) (gw_workflow gw) row"
    "claim_matches ?q row" "lease_of (tl_task_id l) eng = Some lr" "lr_worker_id lr = Some (cq_worker_id ?q)"
    "lr_lease_id lr = tl_lease_id l" "lr_fence lr = tl_fence l" "tl_fence l = tr_fence_seq row + 1"
    using claim assms(2) by (rule claim_next_delivers)
  have dist': "distinct (map wr_worker_id (rg_workers (gw_registry gw')))"
    using sessions_reachable [OF rg_reach_step [OF assms(1), of "Rg_transition (cd_worker_id d) WE_CLAIM later"]]
    by (simp add: sessions_inv_def gw' rg)
  have refused: "\<exists>e. claim_job hash auth2 d2 now2 clk2 uid2 later2 gw' = (Inl e, gw')"
    if "cd_worker_id d2 = cd_worker_id d" for auth2 d2 now2 clk2 uid2 later2
    using claim_refused [OF dist', of d2 "r\<lparr>wr_state := W_BUSY, wr_updated_at := server_now later\<rparr>"] r(7) that
    by (simp add: gw')
  have matches: "(case tr_required_capability row of None \<Rightarrow> True | Some c \<Rightarrow> c \<in> set (cd_capabilities d)) \<and>
      (case tr_partition row of None \<Rightarrow> True | Some p \<Rightarrow> p \<in> set (cd_partitions d))"
    using t(3) by (auto simp: claim_matches_def split: option.splits)
  show ?thesis using r t matches refused describe_job_InrD [OF j]
    by (intro exI [of _ r] exI [of _ row] exI [of _ lr]) (simp add: gw')
qed

section \<open>Results\<close>

text \<open>What an accepted result does to the tables.\<close>

lemma record_result_effect:
  assumes "jq_record_result r (jq, eng) = (res, jq', eng')"
  obtains (refused) e where "res = Inl e" "jq' = jq" "eng' = eng"
    | (accepted) status l w where "res = Inr ()" "canonical_task_status (js_status r) = Inr status" "js_worker_id r = Some w"
      "lease_of (js_task_id r) eng = Some l" "lr_lease_id l = js_lease_id r" "lr_fence l = js_fence r" "lr_worker_id l = Some w"
      "jq_rows jq' = upd_row jb_task_id (js_task_id r) (result_values r (Some w)) (jq_rows jq)"
      "eng' = del_lease (js_task_id r) (upd_task (js_task_id r) (\<lambda>t. t\<lparr>tr_status := status\<rparr>) eng)"
proof (cases "\<exists>status l w. \<not> ab_closed jq \<and> canonical_task_status (js_status r) = Inr status \<and> js_worker_id r = Some w \<and>
    lease_of (js_task_id r) eng = Some l \<and> lr_lease_id l = js_lease_id r \<and> lr_fence l = js_fence r \<and> lr_worker_id l = Some w")
  case True
  then obtain status l w where 1: "\<not> ab_closed jq" "canonical_task_status (js_status r) = Inr status" "js_worker_id r = Some w"
    "lease_of (js_task_id r) eng = Some l" "lr_lease_id l = js_lease_id r" "lr_fence l = js_fence r" "lr_worker_id l = Some w"
    by blast
  then have "res = Inr ()" "jq_rows jq' = upd_row jb_task_id (js_task_id r) (result_values r (Some w)) (jq_rows jq)"
    "eng' = del_lease (js_task_id r) (upd_task (js_task_id r) (\<lambda>t. t\<lparr>tr_status := status\<rparr>) eng)"
    using assms by (auto simp: jq_record_result_def require_active_lease_def Let_def log_defs)
  with 1 accepted show thesis by blast
next
  case False
  then have "(\<exists>e. res = Inl e) \<and> jq' = jq \<and> eng' = eng"
    using assms by (auto simp: jq_record_result_def require_active_lease_def Let_def split: if_splits sum.splits option.splits)
  with refused show thesis by blast
qed

lemma require_output_provenance_keeps:
  assumes "require_output_provenance w tid ref gw = (res, gw1)"
  shows "gw_registry gw1 = gw_registry gw" "gw_workflow gw1 = gw_workflow gw" "gw_jobs gw1 = gw_jobs gw"
    "gw_settings gw1 = gw_settings gw" "map_option ar_rows (gw_artifacts gw1) = map_option ar_rows (gw_artifacts gw)"
proof -
  have meta: "ar_rows (snd (ar_meta ref s)) = ar_rows s" for s
    by (auto simp: ar_meta_def log_defs split: option.split sum.split)
  show "gw_registry gw1 = gw_registry gw" "gw_workflow gw1 = gw_workflow gw" "gw_jobs gw1 = gw_jobs gw"
    "gw_settings gw1 = gw_settings gw"
    using assms by (auto simp: require_output_provenance_def split: option.splits prod.splits sum.splits)
  show "map_option ar_rows (gw_artifacts gw1) = map_option ar_rows (gw_artifacts gw)"
    using assms meta by (auto simp: require_output_provenance_def split: option.splits prod.splits sum.splits) (metis snd_conv)+
qed

definition uploaded_by :: "string \<Rightarrow> string \<Rightarrow> string \<Rightarrow> gateway \<Rightarrow> bool" where
  "uploaded_by worker_id tid ref gw =
     (case gw_artifacts gw of
        None \<Rightarrow> False
      | Some store \<Rightarrow>
          (case fst (ar_meta ref store) of
             Inr (Some a) \<Rightarrow> at_created_by a = Some (provenance worker_id tid)
           | _ \<Rightarrow> False))"

lemma require_output_provenance_InrD:
  "require_output_provenance w tid ref gw = (Inr u, gw1) \<Longrightarrow> uploaded_by w tid ref gw"
  by (auto simp: require_output_provenance_def uploaded_by_def split: option.splits prod.splits sum.splits if_splits)

lemma submit_result_cases:
  assumes "submit_result hash auth tid d now gw = (res, gw')"
  obtains (refused) e where "res = Inl e" "gw_workflow gw' = gw_workflow gw" "gw_jobs gw' = gw_jobs gw"
      "gw_registry gw' = gw_registry gw" "map_option ar_rows (gw_artifacts gw') = map_option ar_rows (gw_artifacts gw)"
    | (accepted) w jq eng where "res = Inr tid"
      "authorized_identity hash auth (rd_worker_id d) (rd_generation d) gw = Inr w"
      "\<And>ref. or_none (rd_output_bundle_ref d) = Some ref \<Longrightarrow> uploaded_by (rd_worker_id d) tid ref gw"
      "jq_record_result (execution_result tid d (rd_worker_id d)) (gw_jobs gw, gw_workflow gw) = (Inr (), jq, eng)"
      "gw_jobs gw' = jq" "db (gw_workflow gw') = db eng"
      "gw_registry gw' = snd (rg_transition (rd_worker_id d) WE_JOB_SETTLED now (gw_registry gw))"
proof (cases "authorized_identity hash auth (rd_worker_id d) (rd_generation d) gw")
  case (Inl e)
  then show thesis using assms refused by (auto simp: submit_result_def)
next
  case (Inr w)
  note id = authorized_identity_InrD [OF Inr]
  let ?check = "case or_none (rd_output_bundle_ref d) of
    None \<Rightarrow> (Inr (), gw) | Some ref \<Rightarrow> require_output_provenance (wg_worker_id w) tid ref gw"
  obtain cr gw1 where check: "?check = (cr, gw1)" by fastforce
  have keeps: "gw_registry gw1 = gw_registry gw" "gw_workflow gw1 = gw_workflow gw" "gw_jobs gw1 = gw_jobs gw"
    "map_option ar_rows (gw_artifacts gw1) = map_option ar_rows (gw_artifacts gw)"
    using check require_output_provenance_keeps by (auto split: option.splits)
  show thesis
  proof (cases cr)
    case (Inl e)
    then have "res = Inl e" "gw' = gw1" using assms check Inr by (auto simp: submit_result_def)
    then show thesis using refused keeps by simp
  next
    case ok: (Inr u)
    have up: "uploaded_by (rd_worker_id d) tid ref gw" if "or_none (rd_output_bundle_ref d) = Some ref" for ref
      using check that ok id(2) require_output_provenance_InrD by auto
    obtain rr jq eng where rec: "jq_record_result (execution_result tid d (rd_worker_id d)) (gw_jobs gw, gw_workflow gw) = (rr, jq, eng)"
      by (metis prod_cases3)
    show thesis
    proof (cases rr)
      case (Inl e)
      then have "(\<exists>e. res = Inl e) \<and> gw' = gw1"
        using assms check Inr ok rec keeps id(2) by (auto simp: submit_result_def)
      then show thesis using refused keeps by auto
    next
      case rr: (Inr v)
      have "res = Inr tid" "gw' = put_registry (snd (rg_transition (rd_worker_id d) WE_JOB_SETTLED now (gw_registry gw)))
          (gw1\<lparr>gw_jobs := jq, gw_workflow := eng\<rparr>)"
        using assms check Inr ok rec rr keeps id(2) by (auto simp: submit_result_def Let_def)
      then show thesis using accepted [OF _ Inr up] rec rr by simp
    qed
  qed
qed

lemma settles_to_ready: "worker_transition W_BUSY WE_JOB_SETTLED = Inr W_READY"
  by (simp add: worker_transition_def transition_of_def worker_transitions_def)

lemma result_needs_lease:
  assumes "lease_of tid (gw_workflow gw) = None"
  shows "\<exists>e. fst (submit_result hash auth tid d now gw) = Inl e"
proof -
  obtain res gw' where s: "submit_result hash auth tid d now gw = (res, gw')" by fastforce
  then show ?thesis
  proof (cases rule: submit_result_cases)
    case (accepted w jq eng)
    from accepted(4) show ?thesis
      using assms by (cases rule: record_result_effect) (simp_all add: execution_result_def)
  qed (use s in simp)
qed

text \<open>
  C34: a result is accepted from the lease holder only, and once. A refused result leaves the
  tables of tasks, leases, jobs, workers and artifacts as they were. An accepted one comes
  with the session token of the worker it names, at that worker's generation; the worker holds
  the lease of the task, and lease and fence are the ones named; a named output bundle was
  uploaded by this worker for this task. It writes the reported status to the task and the
  reported values to the job, drops the lease and changes no other task, lease or job; a busy
  worker is ready again; and every further result for the task is refused, whoever sends it.
\<close>

theorem result_is_accepted_once:
  assumes "rg_reach (toks, gw_registry gw)" and "submit_result hash auth tid d now gw = (res, gw')"
  shows "case res of
     Inl e \<Rightarrow> gw_workflow gw' = gw_workflow gw \<and> gw_jobs gw' = gw_jobs gw \<and> gw_registry gw' = gw_registry gw \<and>
       map_option ar_rows (gw_artifacts gw') = map_option ar_rows (gw_artifacts gw)
   | Inr _ \<Rightarrow> \<exists>r l status. session_of hash auth (rd_worker_id d) gw r \<and> wr_generation r = rd_generation d \<and>
       lease_of tid (gw_workflow gw) = Some l \<and> lr_lease_id l = rd_lease_id d \<and> lr_fence l = rd_fence d \<and>
       lr_worker_id l = Some (rd_worker_id d) \<and> canonical_task_status (rd_status d) = Inr status \<and>
       (\<forall>ref. or_none (rd_output_bundle_ref d) = Some ref \<longrightarrow> uploaded_by (rd_worker_id d) tid ref gw) \<and>
       (\<forall>x. lease_of x (gw_workflow gw') = (if x = tid then None else lease_of x (gw_workflow gw)) \<and>
         task_of x (gw_workflow gw') = map_option (\<lambda>t. if x = tid then t\<lparr>tr_status := status\<rparr> else t) (task_of x (gw_workflow gw)) \<and>
         job_of x (gw_jobs gw') = map_option (\<lambda>j. if x = tid
           then result_values (execution_result tid d (rd_worker_id d)) (Some (rd_worker_id d)) j else j) (job_of x (gw_jobs gw))) \<and>
       (wr_state r = W_BUSY \<longrightarrow> row_of wr_worker_id (rd_worker_id d) (rg_workers (gw_registry gw')) =
          Some (r\<lparr>wr_state := W_READY, wr_updated_at := server_now now\<rparr>)) \<and>
       (\<forall>auth2 d2 now2. \<exists>e. fst (submit_result hash auth2 tid d2 now2 gw') = Inl e)"
  using assms(2)
proof (cases rule: submit_result_cases)
  case (accepted w jq eng)
  have dist: "distinct (map wr_worker_id (rg_workers (gw_registry gw)))"
    using sessions_reachable [OF assms(1)] by (simp add: sessions_inv_def)
  note id = authorized_identity_InrD [OF accepted(2)]
  obtain r where r: "session_of hash auth (rd_worker_id d) gw r" "row_to_registration r = Inr w" "\<not> ab_closed (gw_registry gw)"
    using authenticated_session [OF dist id(1)] id(2) by metis
  have gen: "wr_generation r = rd_generation d" using row_to_registration_fields(2) [OF r(2)] id(3) by simp
  let ?v = "result_values (execution_result tid d (rd_worker_id d)) (Some (rd_worker_id d))"
  obtain status l where l: "canonical_task_status (rd_status d) = Inr status" "lease_of tid (gw_workflow gw) = Some l"
    "lr_lease_id l = rd_lease_id d" "lr_fence l = rd_fence d" "lr_worker_id l = Some (rd_worker_id d)"
    "jq_rows jq = upd_row jb_task_id tid ?v (jq_rows (gw_jobs gw))"
    "eng = del_lease tid (upd_task tid (\<lambda>t. t\<lparr>tr_status := status\<rparr>) (gw_workflow gw))"
    using accepted(4) by (cases rule: record_result_effect) (auto simp: execution_result_def)
  have tables: "lease_of x (gw_workflow gw') = (if x = tid then None else lease_of x (gw_workflow gw))"
    "task_of x (gw_workflow gw') = map_option (\<lambda>t. if x = tid then t\<lparr>tr_status := status\<rparr> else t) (task_of x (gw_workflow gw))"
    "job_of x (gw_jobs gw') = map_option (\<lambda>j. if x = tid then ?v j else j) (job_of x (gw_jobs gw))" for x
  proof -
    show "lease_of x (gw_workflow gw') = (if x = tid then None else lease_of x (gw_workflow gw))"
      using lease_of_db [OF accepted(6)] l(7) by (simp add: lease_of_def del_lease_def upd_task_def row_of_del_row)
    show "task_of x (gw_workflow gw') = map_option (\<lambda>t. if x = tid then t\<lparr>tr_status := status\<rparr> else t) (task_of x (gw_workflow gw))"
      using task_of_db [OF accepted(6)] l(7) by (simp add: task_of_upd_task option.map_ident)
    have "row_of jb_task_id x (upd_row jb_task_id tid ?v (jq_rows (gw_jobs gw))) =
        (if x = tid then map_option ?v (job_of x (gw_jobs gw)) else job_of x (gw_jobs gw))"
      unfolding job_of_def by (rule row_of_upd_row) (simp add: result_values_def)
    then show "job_of x (gw_jobs gw') = map_option (\<lambda>j. if x = tid then ?v j else j) (job_of x (gw_jobs gw))"
      using l(6) accepted(5) by (simp add: job_of_def option.map_ident)
  qed
  have free: "lease_of tid (gw_workflow gw') = None" using tables(1) [of tid] by simp
  have ready: "row_of wr_worker_id (rd_worker_id d) (rg_workers (gw_registry gw')) =
      Some (r\<lparr>wr_state := W_READY, wr_updated_at := server_now now\<rparr>)" if "wr_state r = W_BUSY"
    using rg_transition_effect [OF r(3), of "rd_worker_id d" r WE_JOB_SETTLED] r(1) that
    by (simp add: session_of_def settles_to_ready accepted(7))
  show ?thesis
    using r(1) gen l(1-5) accepted(3) tables ready result_needs_lease [OF free]
    unfolding accepted(1) sum.case by blast
qed simp

section \<open>Bundles\<close>

definition lease_headers :: "string option \<Rightarrow> string option \<Rightarrow> string option \<Rightarrow> string \<Rightarrow> string \<Rightarrow> gateway \<Rightarrow> bool" where
  "lease_headers tid lid fence worker_id t gw =
     (tid = Some t \<and>
      (case lease_of t (gw_workflow gw) of
         None \<Rightarrow> False
       | Some l \<Rightarrow> lr_worker_id l = Some worker_id \<and> lid = Some (lr_lease_id l) \<and>
           Option.bind fence py_int = Some (lr_fence l)))"

lemma or_none_Some [simp]: "or_none x = Some y \<longleftrightarrow> x = Some y \<and> y \<noteq> []"
  by (auto simp: or_none_def split: option.splits list.splits)

lemma or_none_None: "or_none x = None \<longleftrightarrow> x = None \<or> x = Some []"
  by (auto simp: or_none_def split: option.splits list.splits)

lemma lease_context_InrD:
  "lease_context tid lid fence = Inr (t, l, n) \<Longrightarrow> tid = Some t \<and> lid = Some l \<and> Option.bind fence py_int = Some n"
  by (auto simp: lease_context_def fence_header_def bind_res_def or_none_None split: if_splits option.splits sum.splits)

lemma transfer_gate_InrD:
  assumes "transfer_gate hash auth tid lid fence gw = Inr (w, t, store)"
  shows "gw_authenticate hash auth gw = Inr w" "lease_headers tid lid fence (wg_worker_id w) t gw"
    "gw_artifacts gw = Some store" "\<not> ab_closed (gw_jobs gw)"
proof -
  from assms obtain l n where a: "gw_authenticate hash auth gw = Inr w" and c: "lease_context tid lid fence = Inr (t, l, n)"
    and j: "jq_assert_active_lease t l n (wg_worker_id w) (gw_jobs gw, gw_workflow gw) = Inr ()" and s: "gw_artifacts gw = Some store"
    by (auto simp: transfer_gate_def bind_res_def split: sum.splits option.splits)
  show "gw_authenticate hash auth gw = Inr w" "gw_artifacts gw = Some store" by (fact a, fact s)
  show "\<not> ab_closed (gw_jobs gw)" using j by (auto simp: jq_assert_active_lease_def)
  show "lease_headers tid lid fence (wg_worker_id w) t gw"
    using lease_context_InrD [OF c] j
    by (auto simp: lease_headers_def jq_assert_active_lease_def require_active_lease_def Let_def split: if_splits option.splits)
qed

lemma transfer_gate_store:
  assumes "transfer_gate hash auth tid lid fence gw = Inr (w, t, store)"
  shows "transfer_gate hash auth tid lid fence (gw\<lparr>gw_artifacts := Some store'\<rparr>) = Inr (w, t, store')"
  using assms
  by (auto simp: transfer_gate_def gw_authenticate_def bind_res_def split: sum.splits option.splits)

lemma upload_bundle_InrD:
  assumes "upload_bundle dg hash declared body auth tid lid fence now gw = (Inr (aid, digest), gw1)"
  obtains w t store a where "transfer_gate hash auth tid lid fence gw = Inr (w, t, store)"
    "a = bundle_artifact dg (wg_worker_id w) t body" "artifact_post_init a = Inr a" "aid = at_id a"
    "body \<noteq> []" "int (length body) \<le> gs_max_result_bytes (gw_settings gw)" "\<not> ab_closed store"
    "gw1 = gw\<lparr>gw_artifacts := Some (snd (ar_put dg a body now store))\<rparr>"
proof -
  from assms obtain w t store where g: "transfer_gate hash auth tid lid fence gw = Inr (w, t, store)"
    by (auto simp: upload_bundle_def split: sum.splits prod.splits)
  with assms obtain content where b: "read_capped_body declared body (gs_max_result_bytes (gw_settings gw)) = Inr content"
    by (auto simp: upload_bundle_def split: sum.splits)
  then have c: "content = body" "body \<noteq> []" "int (length body) \<le> gs_max_result_bytes (gw_settings gw)"
    by (auto simp: read_capped_body_def Let_def split: if_splits)
  let ?a = "bundle_artifact dg (wg_worker_id w) t body"
  from assms g b c(1) obtain x where "artifact_post_init ?a = Inr x"
    by (auto simp: upload_bundle_def split: sum.splits)
  then have a: "artifact_post_init ?a = Inr ?a" by (intro artifact_post_init_Inr) (simp add: is_ok_def)
  obtain pr store' where p: "ar_put dg ?a body now store = (pr, store')" by fastforce
  with assms g b c(1) a have "is_ok pr" "aid = at_id ?a" "gw1 = gw\<lparr>gw_artifacts := Some store'\<rparr>"
    by (auto simp: upload_bundle_def is_ok_def split: sum.splits)
  moreover from this(1) p have "\<not> ab_closed store" by (auto simp: ar_put_def)
  ultimately show thesis using that [OF g refl a] c p by simp
qed

lemma download_bundle_InrD:
  assumes "download_bundle hash aid auth tid lid fence gw = (Inr c, gw2)"
  obtains w t store where "transfer_gate hash auth tid lid fence gw = Inr (w, t, store)"
    "(\<exists>j. job_of t (gw_jobs gw) = Some j \<and> jb_input_bundle_ref j = Some aid) \<or>
     (\<exists>a. fst (ar_meta aid store) = Inr (Some a) \<and>
        starts_with (''worker:'' @ wg_worker_id w @ '':'') (case at_created_by a of None \<Rightarrow> [] | Some c \<Rightarrow> c))"
proof -
  from assms obtain w t store where g: "transfer_gate hash auth tid lid fence gw = Inr (w, t, store)"
    by (auto simp: download_bundle_def split: sum.splits prod.splits)
  obtain de where d: "jq_describe t (gw_jobs gw) = Inr de" using assms g
    by (auto simp: download_bundle_def split: sum.splits)
  obtain mr store1 where m: "ar_meta aid store = (mr, store1)" by fastforce
  obtain meta where mr: "mr = Inr meta" using assms g d m by (auto simp: download_bundle_def split: sum.splits)
  have "(case de of None \<Rightarrow> False | Some d \<Rightarrow> jd_input_bundle_ref d = Some aid) \<or>
    (case meta of None \<Rightarrow> False | Some a \<Rightarrow> starts_with (''worker:'' @ wg_worker_id w @ '':'')
       (case at_created_by a of None \<Rightarrow> [] | Some c \<Rightarrow> c))"
    using assms g d m mr by (auto simp: download_bundle_def Let_def split: if_splits)
  then have "(\<exists>j. job_of t (gw_jobs gw) = Some j \<and> jb_input_bundle_ref j = Some aid) \<or>
     (\<exists>a. fst (ar_meta aid store) = Inr (Some a) \<and>
        starts_with (''worker:'' @ wg_worker_id w @ '':'') (case at_created_by a of None \<Rightarrow> [] | Some c \<Rightarrow> c))"
    using d m mr by (auto simp: jq_describe_def split: option.splits if_splits)
  then show thesis by (rule that [OF g])
qed

lemma own_prefix:
  assumes "starts_with (''worker:'' @ w' @ '':'') (provenance w t)" and "CHR '':'' \<notin> set w" and "CHR '':'' \<notin> set t"
  shows "w' = w"
proof -
  obtain r where "w @ CHR '':'' # t = w' @ CHR '':'' # r"
    using assms(1) by (auto simp: starts_with_iff provenance_def)
  then show ?thesis using append_Cons_eq_iff [OF assms(2,3)] by simp
qed

text \<open>The uploads of a worker \<open>a:b\<close> also pass the prefix test for the worker \<open>a\<close>.\<close>

lemma colon_defeats_isolation: "starts_with (''worker:'' @ w' @ '':'') (provenance (w' @ '':'' @ x) t)"
  by (simp add: starts_with_def provenance_def)

lemma uploaded_bundle:
  assumes "store_intact dg store" and "\<not> ab_closed store" and "artifact_post_init a = Inr a"
    and "a = bundle_artifact dg w t body"
  shows "\<exists>m s1 c s2. ar_meta (at_id a) (snd (ar_put dg a body now store)) = (Inr (Some m), s1) \<and>
    at_created_by m = Some (provenance w t) \<and> ar_get (at_id a) s1 = (Inr c, s2) \<and> dg c = dg body"
proof -
  have "store_usable dg store" using assms(1,2) by (simp add: store_usable_def)
  moreover have "valid_artifact a" using assms(3,4) by (simp add: valid_artifact_def is_ok_def bundle_artifact_def)
  moreover have "at_state a \<noteq> AS_DELETED_TOMBSTONE" "dg body = at_digest a" "at_created_by a = Some (provenance w t)"
    using assms(4) by (simp_all add: bundle_artifact_def)
  ultimately show ?thesis using ar_port.put_meta_get [of dg store a body now] by simp
qed

lemma download_of_upload:
  assumes "fst (download_bundle hash aid auth tid lid fence gw) = Inr c"
    and "distinct (map wr_worker_id (rg_workers (gw_registry gw)))" and "uploaded_by w t aid gw"
  shows "\<exists>w' t' r. session_of hash auth w' gw r \<and> lease_headers tid lid fence w' t' gw \<and>
    ((\<exists>j. job_of t' (gw_jobs gw) = Some j \<and> jb_input_bundle_ref j = Some aid) \<or>
     (CHR '':'' \<notin> set w \<and> CHR '':'' \<notin> set t \<longrightarrow> w' = w))"
proof -
  from assms(1) have "download_bundle hash aid auth tid lid fence gw = (Inr c, snd (download_bundle hash aid auth tid lid fence gw))"
    by (metis prod.collapse)
  then obtain v t' s where v: "transfer_gate hash auth tid lid fence gw = Inr (v, t', s)"
    "(\<exists>j. job_of t' (gw_jobs gw) = Some j \<and> jb_input_bundle_ref j = Some aid) \<or>
     (\<exists>a. fst (ar_meta aid s) = Inr (Some a) \<and>
        starts_with (''worker:'' @ wg_worker_id v @ '':'') (case at_created_by a of None \<Rightarrow> [] | Some c \<Rightarrow> c))"
    by (rule download_bundle_InrD)
  note gate = transfer_gate_InrD [OF v(1)]
  obtain r where r: "session_of hash auth (wg_worker_id v) gw r"
    using assms(2) gate(1) by (rule authenticated_session)
  have "(\<exists>j. job_of t' (gw_jobs gw) = Some j \<and> jb_input_bundle_ref j = Some aid) \<or>
     (CHR '':'' \<notin> set w \<and> CHR '':'' \<notin> set t \<longrightarrow> wg_worker_id v = w)"
    using v(2) gate(3) assms(3) own_prefix [of "wg_worker_id v" w t]
    by (auto simp: uploaded_by_def split: option.splits)
  with r gate(2) show ?thesis by blast
qed

text \<open>
  C35: a bundle comes back to the worker that uploaded it and to nobody else. An upload is
  accepted with the session token and the headers of the active lease of the worker only, for
  a non-empty body within the size limit, and is recorded as an upload of this worker for this
  task, so that the result may name it. Downloading it with the same headers returns content
  of the same digest. Every other download of it that succeeds is by the worker that holds the
  active lease of the task it names, and either the bundle is the declared input of that task,
  or the worker is the one that uploaded it, provided that the identifiers of the uploading
  worker and of its task contain no colon.
\<close>

theorem bundles_are_kept_apart:
  assumes "rg_reach (toks, gw_registry gw)" and "gw_artifacts gw = Some store" and "ar_reach dg store"
    and "upload_bundle dg hash declared body auth tid lid fence now gw = (Inr (aid, digest), gw1)"
  shows "\<exists>w t r. session_of hash auth w gw r \<and> lease_headers tid lid fence w t gw \<and>
    body \<noteq> [] \<and> int (length body) \<le> gs_max_result_bytes (gw_settings gw) \<and> uploaded_by w t aid gw1 \<and>
    (\<exists>c. fst (download_bundle hash aid auth tid lid fence gw1) = Inr c \<and> dg c = dg body) \<and>
    (\<forall>auth' tid' lid' fence' c. fst (download_bundle hash aid auth' tid' lid' fence' gw1) = Inr c \<longrightarrow>
       (\<exists>w' t' r'. session_of hash auth' w' gw1 r' \<and> lease_headers tid' lid' fence' w' t' gw1 \<and>
          ((\<exists>j. job_of t' (gw_jobs gw) = Some j \<and> jb_input_bundle_ref j = Some aid) \<or>
           (CHR '':'' \<notin> set w \<and> CHR '':'' \<notin> set t \<longrightarrow> w' = w))))"
proof -
  have dist: "distinct (map wr_worker_id (rg_workers (gw_registry gw)))"
    using sessions_reachable [OF assms(1)] by (simp add: sessions_inv_def)
  obtain w t a where g: "transfer_gate hash auth tid lid fence gw = Inr (w, t, store)"
    and a: "a = bundle_artifact dg (wg_worker_id w) t body" "artifact_post_init a = Inr a" "aid = at_id a"
    and body: "body \<noteq> []" "int (length body) \<le> gs_max_result_bytes (gw_settings gw)" "\<not> ab_closed store"
    and gw1: "gw1 = gw\<lparr>gw_artifacts := Some (snd (ar_put dg a body now store))\<rparr>"
    using assms(4) by (rule upload_bundle_InrD) (use assms(2) in \<open>auto dest: transfer_gate_InrD(3)\<close>)
  note gate = transfer_gate_InrD [OF g]
  let ?w = "wg_worker_id w" and ?store = "snd (ar_put dg a body now store)"
  obtain r where r: "session_of hash auth ?w gw r" using dist gate(1) by (rule authenticated_session)
  obtain m s1 c s2 where m: "ar_meta aid ?store = (Inr (Some m), s1)" "at_created_by m = Some (provenance ?w t)"
    "ar_get aid s1 = (Inr c, s2)" "dg c = dg body"
    using uploaded_bundle [OF ar_reach_intact [OF assms(3)] body(3) a(2,1)] a(3) by blast
  have up: "uploaded_by ?w t aid gw1" using m by (simp add: uploaded_by_def gw1)
  have own: "starts_with (''worker:'' @ ?w @ '':'') (provenance ?w t)" by (simp add: starts_with_def provenance_def)
  obtain de where de: "jq_describe t (gw_jobs gw) = Inr de" using gate(4) by (simp add: jq_describe_def)
  have down: "fst (download_bundle hash aid auth tid lid fence gw1) = Inr c"
    using transfer_gate_store [OF g] m own de by (simp add: download_bundle_def gw1 Let_def)
  have other: "\<exists>w' t' r'. session_of hash auth' w' gw1 r' \<and> lease_headers tid' lid' fence' w' t' gw1 \<and>
      ((\<exists>j. job_of t' (gw_jobs gw) = Some j \<and> jb_input_bundle_ref j = Some aid) \<or>
       (CHR '':'' \<notin> set ?w \<and> CHR '':'' \<notin> set t \<longrightarrow> w' = ?w))"
    if "fst (download_bundle hash aid auth' tid' lid' fence' gw1) = Inr c'" for auth' tid' lid' fence' c'
    using download_of_upload [OF that _ up] dist by (simp add: gw1)
  show ?thesis using r gate(2) body up down m(4) other by blast
qed

section \<open>The registry behind the gateway\<close>

text \<open>The handlers change the registry by operations of its histories only.\<close>

lemma reach_token:
  assumes "rg_reach (toks, rg)" and "h \<notin> fst ` set toks"
  shows "\<exists>toks'. rg_reach (toks', snd (rg_set_session_token w g h now rg))"
  using rg_reach_step [OF assms(1), of "Rg_token w g h now"] assms(2)
  by (auto split: prod.splits sum.splits bool.splits if_splits)

lemma reach_register: "rg_reach (toks, rg) \<Longrightarrow> rg_reach (toks, snd (rg_register w now rg))"
  using rg_reach_step [of "(toks, rg)" "Rg_register w now"] by simp

lemma reach_transition: "rg_reach (toks, rg) \<Longrightarrow> rg_reach (toks, snd (rg_transition w e now rg))"
  using rg_reach_step [of "(toks, rg)" "Rg_transition w e now"] by simp

lemma register_body_reach:
  assumes "rg_reach (toks, gw_registry gw)" and "hash token \<notin> fst ` set toks"
  shows "\<exists>toks'. rg_reach (toks', gw_registry (snd (register_body hash secret enrollment q token clk gw)))"
proof (cases "bind_res (require_enrollment secret enrollment) (\<lambda>_. handshake_and_build q (gw_settings gw))")
  case (Inr w)
  obtain r1 rg1 where 1: "rg_register w (clk 0) (gw_registry gw) = (r1, rg1)" by fastforce
  have reach1: "rg_reach (toks, rg1)" using reach_register [OF assms(1), of w "clk 0"] 1 by simp
  show ?thesis
  proof (cases r1)
    case (Inl e)
    then show ?thesis using Inr 1 reach1 by (auto simp: register_body_def)
  next
    case stored: (Inr s)
    obtain r2 rg2 where 2: "rg_set_session_token (wg_worker_id s) (wg_generation s) (hash token) (clk 1) rg1 = (r2, rg2)" by fastforce
    from reach_token [OF reach1 assms(2), of "wg_worker_id s" "wg_generation s" "clk 1"] 2
    obtain toks' where reach2: "rg_reach (toks', rg2)" by auto
    show ?thesis
    proof (cases r2)
      case (Inl e)
      then show ?thesis using Inr 1 stored 2 reach2 by (auto simp: register_body_def)
    next
      case bound: (Inr b)
      have "gw_registry (snd (register_body hash secret enrollment q token clk gw)) =
          snd (rg_transition (wg_worker_id s) WE_HANDSHAKE_OK (clk 2) rg2)"
        using Inr 1 stored 2 bound by (auto simp: register_body_def split: prod.split sum.split)
      then show ?thesis using reach_transition [OF reach2] by auto
    qed
  qed
qed (use assms(1) in \<open>auto simp: register_body_def\<close>)

lemma register_artifacts: "gw_artifacts (snd (register_body hash secret enrollment q token clk gw)) = gw_artifacts gw"
  by (auto simp: register_body_def split: sum.split prod.split)

lemma claim_job_keeps:
  "gw_artifacts (snd (claim_job hash auth d now clk uid later gw)) = gw_artifacts gw \<and>
   gw_registry (snd (claim_job hash auth d now clk uid later gw)) \<in>
     {gw_registry gw, snd (rg_transition (cd_worker_id d) WE_CLAIM later (gw_registry gw))}"
  by (simp add: claim_job_def Let_def split: sum.split prod.split option.split)

lemma claim_artifacts: "gw_artifacts (snd (claim_job hash auth d now clk uid later gw)) = gw_artifacts gw"
  using claim_job_keeps by blast

lemma claim_job_reach:
  "rg_reach (toks, gw_registry gw) \<Longrightarrow> rg_reach (toks, gw_registry (snd (claim_job hash auth d now clk uid later gw)))"
  using claim_job_keeps [of hash auth d now clk uid later gw] reach_transition by fastforce

lemma upload_registry:
  "gw_registry (snd (upload_bundle dg hash declared body auth tid lid fence now gw)) = gw_registry gw"
  by (auto simp: upload_bundle_def split: sum.split prod.split)

section \<open>Instances\<close>

text \<open>
  One worker enrolls, one job is queued, the worker claims it, uploads a bundle and submits its
  result. The hash functions are the identity.
\<close>

definition demo_settings :: gateway_settings where
  "demo_settings = \<lparr>gs_enrollment_ref = ''enroll'', gs_require_tls = True, gs_heartbeat_interval = 10 * second_us,
     gs_stale_threshold = 60 * second_us, gs_max_result_bytes = 1000, gs_gpu_ttl = 60 * second_us,
     gs_protocol_versions = [''1''], gs_backend_kinds = [''docker'']\<rparr>"

definition demo_register :: register_request where
  "demo_register = \<lparr>rq_worker_id = ''w1'', rq_protocol_version = ''1'', rq_runtime_version = ''1'', rq_capabilities = [''cpu''],
     rq_backend_kinds = [''docker''], rq_platform = ''linux'', rq_partition_slots = [], rq_max_concurrency = 1,
     rq_gpu_observation = None\<rparr>"

definition demo_job :: job_request where
  "demo_job = \<lparr>jr_spec = JNull, jr_run_id = demo_id, jr_capability = ''cpu'', jr_idempotency_key = ''k'',
     jr_input_bundle_ref = None, jr_input_bundle_digest = None, jr_partition = None\<rparr>"

definition gw0 :: gateway where
  "gw0 = \<lparr>gw_settings = demo_settings, gw_registry = demo_registry, gw_workflow = demo_store,
     gw_jobs = \<lparr>ab_closed = False, ab_calls = [], jq_rows = []\<rparr>, gw_artifacts = Some no_artifacts\<rparr>"

definition demo_auth :: "string option" where "demo_auth = Some ''Bearer t1''"

definition gw1 :: gateway where
  "gw1 = snd (register_body id (Some ''s'') (Some ''s'') demo_register ''t1'' (\<lambda>_. 0) gw0)"

definition gw2 :: gateway where
  "gw2 = (case jq_enqueue demo_job demo_id (\<lambda>_. 0) (gw_jobs gw1, gw_workflow gw1) of
     (_, jq, eng) \<Rightarrow> gw1\<lparr>gw_jobs := jq, gw_workflow := eng\<rparr>)"

definition demo_claim :: claim_dto where
  "demo_claim = \<lparr>cd_worker_id = ''w1'', cd_generation = 1, cd_capabilities = [''cpu''], cd_partitions = []\<rparr>"

definition gw3 :: gateway where
  "gw3 = snd (claim_job id demo_auth demo_claim second_us (demo_clock 1) (demo_uid 0) second_us gw2)"

definition gw4 :: gateway where
  "gw4 = snd (upload_bundle id id None ''body'' demo_auth (Some demo_id) (Some (demo_uid 0 0)) (Some ''1'') second_us gw3)"

definition demo_result :: result_dto where
  "demo_result = \<lparr>rd_worker_id = ''w1'', rd_generation = 1, rd_lease_id = demo_uid 0 0, rd_fence = 1,
     rd_status = ''SUCCEEDED'', rd_exit_code = Some 0, rd_stdout_digest = None, rd_stderr_digest = None,
     rd_output_bundle_ref = Some (''bundle-body-'' @ demo_id), rd_output_bundle_digest = None,
     rd_failure_category = None, rd_image_digest = None, rd_gpu_elapsed_seconds = None,
     rd_peak_gpu_memory_bytes = None, rd_gpu_elapsed_seconds_exact = None, rd_execution_elapsed_seconds = None\<rparr>"

lemma demo_steps:
  "case fst (claim_job id demo_auth demo_claim second_us (demo_clock 1) (demo_uid 0) second_us gw2) of
     Inr (Some j) \<Rightarrow> True | _ \<Rightarrow> False"
  "fst (upload_bundle id id None ''body'' demo_auth (Some demo_id) (Some (demo_uid 0 0)) (Some ''1'') second_us gw3) =
     Inr (''bundle-body-'' @ demo_id, ''sha256:body'')"
  "fst (submit_result id demo_auth demo_id demo_result (2 * second_us) gw4) = Inr demo_id"
  by code_simp+

lemma gw_reach1: "\<exists>toks. rg_reach (toks, gw_registry gw1)"
proof -
  have "rg_reach ([], gw_registry gw0)" by (rule rg_reach_init) (simp add: gw0_def demo_registry_def)
  from register_body_reach [OF this, of id "''t1''"] show ?thesis unfolding gw1_def by simp
qed

lemma demo_gw2: "gw_registry gw2 = gw_registry gw1" "gw_artifacts gw2 = gw_artifacts gw1"
  unfolding gw2_def by (simp_all split: prod.split)

lemma gw_reach3: "\<exists>toks. rg_reach (toks, gw_registry gw3)"
  using gw_reach1 claim_job_reach unfolding gw3_def demo_gw2 [symmetric] by blast

lemma gw_reach4: "\<exists>toks. rg_reach (toks, gw_registry gw4)"
  using gw_reach3 unfolding gw4_def by (simp add: upload_registry)

lemma demo_store3: "gw_artifacts gw3 = Some no_artifacts"
proof -
  have "gw_artifacts gw1 = Some no_artifacts" unfolding gw1_def by (simp add: register_artifacts) (simp add: gw0_def)
  then show ?thesis unfolding gw3_def by (simp add: claim_artifacts demo_gw2)
qed

theorem claim_admits_one_job_witness:
  "\<exists>j l. fst (claim_job id demo_auth demo_claim second_us (demo_clock 1) (demo_uid 0) second_us gw2) = Inr (Some j) \<and>
     lease_of (jt_task_id j) (gw_workflow gw3) = Some l \<and> lr_worker_id l = Some ''w1'' \<and>
     (\<exists>e. claim_job id demo_auth demo_claim second_us (demo_clock 2) (demo_uid 10) second_us gw3 = (Inl e, gw3))"
proof -
  obtain toks where reach: "rg_reach (toks, gw_registry gw2)" using gw_reach1 demo_gw2(1) by auto
  have keys: "distinct (map tr_task_id (wf_tasks (gw_workflow gw2)))" by code_simp
  obtain j where j: "fst (claim_job id demo_auth demo_claim second_us (demo_clock 1) (demo_uid 0) second_us gw2) = Inr (Some j)"
    using demo_steps(1) by (auto split: sum.splits option.splits)
  then have c: "claim_job id demo_auth demo_claim second_us (demo_clock 1) (demo_uid 0) second_us gw2 = (Inr (Some j), gw3)"
    unfolding gw3_def by (metis prod.collapse)
  from claim_admits_one_job [OF reach keys c] j show ?thesis by (fastforce simp: demo_claim_def)
qed

theorem result_is_accepted_once_witness:
  "lease_of demo_id (gw_workflow (snd (submit_result id demo_auth demo_id demo_result (2 * second_us) gw4))) = None \<and>
   (\<exists>e. fst (submit_result id demo_auth demo_id demo_result (3 * second_us)
      (snd (submit_result id demo_auth demo_id demo_result (2 * second_us) gw4))) = Inl e)"
proof -
  obtain toks where reach: "rg_reach (toks, gw_registry gw4)" using gw_reach4 by blast
  have s: "submit_result id demo_auth demo_id demo_result (2 * second_us) gw4 =
      (Inr demo_id, snd (submit_result id demo_auth demo_id demo_result (2 * second_us) gw4))"
    using demo_steps(3) by (metis prod.collapse)
  from result_is_accepted_once [OF reach s] show ?thesis by auto
qed

theorem bundles_are_kept_apart_witness:
  "fst (download_bundle id (''bundle-body-'' @ demo_id) demo_auth (Some demo_id) (Some (demo_uid 0 0)) (Some ''1'') gw4) = Inr ''body''"
proof -
  obtain toks where reach: "rg_reach (toks, gw_registry gw3)" using gw_reach3 by blast
  have u: "upload_bundle id id None ''body'' demo_auth (Some demo_id) (Some (demo_uid 0 0)) (Some ''1'') second_us gw3 =
      (Inr (''bundle-body-'' @ demo_id, ''sha256:body''), gw4)"
    unfolding gw4_def using demo_steps(2) by (metis prod.collapse)
  from bundles_are_kept_apart [OF reach demo_store3 no_artifacts_reach u] show ?thesis by auto
qed

end
