(* ===== verification/Budget_Ledger.thy ===== *)
theory Budget_Ledger
  imports Task_Codec Adapter_Base
begin

text \<open>
  The budget ledger: reservations, policies and usage entries with their validating
  constructors and the append-only ledger (\<^verbatim>\<open>packages/domain/budget.py\<close>), and the three
  adapters of the port \<^verbatim>\<open>BudgetLedger\<close>: SQLite (\<^verbatim>\<open>adapters/sqlite/budget_ledger.py\<close>),
  PostgreSQL (\<^verbatim>\<open>adapters/postgres/budget_ledger.py\<close>), which shares the SQLite definitions
  except for \<^verbatim>\<open>reserve\<close>, \<^verbatim>\<open>release\<close> and the order of a snapshot, and the in-memory adapter
  (\<^verbatim>\<open>adapters/fakes/budget_ledger.py\<close>) without injected failures. The hash of a canonical
  encoding (\<^verbatim>\<open>digest_of(...).hex_value\<close>) is the parameter \<open>dg\<close>. A stored entry is its JSON
  tree; \<^verbatim>\<open>occurred_at.isoformat()\<close>, which \<^verbatim>\<open>fromisoformat\<close> reads back exactly, is kept as its
  time, and \<^verbatim>\<open>str\<close> of a finite \<^verbatim>\<open>Decimal\<close>, which \<^verbatim>\<open>Decimal\<close> reads back exactly, is \<open>JDec\<close>.
  A table without \<^verbatim>\<open>ORDER BY\<close> is read in the order of its rows.
\<close>

section \<open>Domain\<close>

datatype ledger_cost_status = COST_KNOWN | COST_UNKNOWN

datatype ledger_quantity_status = QTY_KNOWN | QTY_UNKNOWN

datatype resource_type =
    MODEL_TOKENS | MODEL_REQUESTS | MODEL_COST | EVALUATION_SCORER | TOOL_REQUESTS | TOOL_COST
  | CPU_TIME | GPU_TIME | MEMORY | STORAGE | NETWORK | WALL_CLOCK | AGENT_TURNS | PARALLELISM

datatype budget_threshold = SOFT_WARNING | AUTO_DEGRADE | REQUIRE_APPROVAL | HARD_STOP

definition cost_status_names :: "(string \<times> ledger_cost_status) list" where
  "cost_status_names = [(''KNOWN'', COST_KNOWN), (''UNKNOWN'', COST_UNKNOWN)]"

definition quantity_status_names :: "(string \<times> ledger_quantity_status) list" where
  "quantity_status_names = [(''KNOWN'', QTY_KNOWN), (''UNKNOWN'', QTY_UNKNOWN)]"

definition resource_type_names :: "(string \<times> resource_type) list" where
  "resource_type_names =
     [(''MODEL_TOKENS'', MODEL_TOKENS), (''MODEL_REQUESTS'', MODEL_REQUESTS),
      (''MODEL_COST'', MODEL_COST), (''EVALUATION_SCORER'', EVALUATION_SCORER),
      (''TOOL_REQUESTS'', TOOL_REQUESTS), (''TOOL_COST'', TOOL_COST), (''CPU_TIME'', CPU_TIME),
      (''GPU_TIME'', GPU_TIME), (''MEMORY'', MEMORY), (''STORAGE'', STORAGE),
      (''NETWORK'', NETWORK), (''WALL_CLOCK'', WALL_CLOCK), (''AGENT_TURNS'', AGENT_TURNS),
      (''PARALLELISM'', PARALLELISM)]"

text \<open>\<^verbatim>\<open>int | Decimal\<close>, and the operations the code uses on it.\<close>

datatype quantity = QInt int | QDec decimal

fun qty_dec :: "quantity \<Rightarrow> decimal" where
  "qty_dec (QInt i) = dec_of_int i"
| "qty_dec (QDec d) = d"

definition qty_negative :: "quantity \<Rightarrow> bool" where
  "qty_negative q = dec_less (qty_dec q) (dec_of_int 0)"

definition qty_zero :: "quantity \<Rightarrow> bool" where
  "qty_zero q = dec_eq (qty_dec q) (dec_of_int 0)"

text \<open>\<^verbatim>\<open>int(q)\<close> truncates towards zero.\<close>

definition dec_trunc :: "decimal \<Rightarrow> int" where
  "dec_trunc d =
     (if 0 \<le> expo d then coef d * 10 ^ nat (expo d)
      else sgn (coef d) * (\<bar>coef d\<bar> div 10 ^ nat (- expo d)))"

fun qty_int :: "quantity \<Rightarrow> int" where
  "qty_int (QInt i) = i"
| "qty_int (QDec d) = dec_trunc d"

fun qty_add :: "quantity \<Rightarrow> quantity \<Rightarrow> quantity" where
  "qty_add (QInt i) (QInt j) = QInt (i + j)"
| "qty_add a b = QDec (dec_add (qty_dec a) (qty_dec b))"

definition dec_integral :: "decimal \<Rightarrow> bool" where
  "dec_integral d = (0 \<le> expo d \<or> coef d mod 10 ^ nat (- expo d) = 0)"

record budget_reservation =
  bv_id :: string
  bv_scope :: string
  bv_resource_type :: resource_type
  bv_quantity :: int
  bv_unit :: string
  bv_reserved_at :: "int option"

definition reservation_post_init :: "budget_reservation \<Rightarrow> budget_reservation res" where
  "reservation_post_init r = first_error
     [(bv_id r = '''', ''reservation id must not be empty''),
      (bv_quantity r < 0, ''reservation quantity must be non-negative''),
      (bv_unit r = '''', ''reservation unit must not be empty'')] r"

record budget_policy =
  bp_id :: string
  bp_thresholds :: "(resource_type \<times> budget_threshold) list"
  bp_hard_limits :: "(string \<times> int) list"
  bp_threshold_ratios :: "(string \<times> decimal) list"

definition budget_policy_post_init :: "budget_policy \<Rightarrow> budget_policy res" where
  "budget_policy_post_init p = first_error
     [(bp_id p = '''', ''budget policy id must not be empty''),
      (list_ex (\<lambda>(_, q). q < 0) (bp_hard_limits p), ''budget hard limits must be non-negative''),
      (list_ex (\<lambda>(_, r). \<not> (dec_le (dec_of_int 0) r \<and> dec_le r (dec_of_int 1))) (bp_threshold_ratios p),
        ''budget threshold ratios must be in [0, 1]'')] p"

record usage_entry =
  ue_entry_id :: string
  ue_resource_type :: resource_type
  ue_quantity :: quantity
  ue_unit :: string
  ue_cost_status :: ledger_cost_status
  ue_source :: string
  ue_occurred_at :: int
  ue_estimated_cost_minor :: "int option"
  ue_actual_cost_minor :: "int option"
  ue_currency :: string
  ue_run_id :: "string option"
  ue_task_id :: "string option"
  ue_agent_id :: "string option"
  ue_tool_id :: "string option"
  ue_model_id :: "string option"
  ue_quantity_status :: ledger_quantity_status
  ue_unavailable_reason :: "string option"
  ue_attempt :: int

definition usage_entry_post_init :: "usage_entry \<Rightarrow> usage_entry res" where
  "usage_entry_post_init e = first_error
     [(ue_entry_id e = '''', ''ledger entry id must not be empty''),
      (qty_negative (ue_quantity e), ''ledger quantity must be non-negative''),
      (ue_unit e = '''', ''ledger unit must not be empty''),
      (ue_source e = '''', ''ledger source must not be empty''),
      (ue_cost_status e = COST_KNOWN \<and> ue_estimated_cost_minor e = None,
        ''KNOWN cost entry must carry estimated_cost_minor''),
      (ue_quantity_status e = QTY_UNKNOWN \<and> ue_unavailable_reason e \<in> {None, Some ''''},
        ''UNKNOWN quantity entry must carry unavailable_reason''),
      (ue_attempt e < 1, ''ledger attempt must be >= 1'')] e"

definition ledger_append :: "usage_entry \<Rightarrow> usage_entry list \<Rightarrow> usage_entry list res" where
  "ledger_append e es =
     (if list_ex (\<lambda>x. ue_entry_id x = ue_entry_id e) es
      then Inl (ValueError (''duplicate ledger entry: '' @ ue_entry_id e))
      else Inr (es @ [e]))"

section \<open>The stored form\<close>

definition encode_reservation :: "budget_reservation \<Rightarrow> json" where
  "encode_reservation r = JObj
     [(''id'', JStr (bv_id r)), (''quantity'', JInt (bv_quantity r)),
      (''resource_type'', JStr (enum_text resource_type_names (bv_resource_type r))),
      (''scope'', JStr (bv_scope r)), (''unit'', JStr (bv_unit r))]"

definition decode_reservation :: "json \<Rightarrow> budget_reservation res" where
  "decode_reservation j =
     bind_res (bind_res (j_key ''id'' j) as_str) (\<lambda>i.
     bind_res (bind_res (j_key ''scope'' j) as_str) (\<lambda>scope.
     bind_res (bind_res (bind_res (j_key ''resource_type'' j) as_str) (enum_of resource_type_names)) (\<lambda>ty.
     bind_res (bind_res (j_key ''quantity'' j) as_int) (\<lambda>q.
     bind_res (bind_res (j_key ''unit'' j) as_str) (\<lambda>u.
       reservation_post_init
         \<lparr>bv_id = i, bv_scope = scope, bv_resource_type = ty, bv_quantity = q, bv_unit = u,
          bv_reserved_at = None\<rparr>)))))"

definition encode_budget_policy :: "budget_policy \<Rightarrow> json" where
  "encode_budget_policy p = JObj
     [(''hard_limits'', encode_dict JInt (bp_hard_limits p)), (''id'', JStr (bp_id p))]"

fun encode_quantity :: "quantity \<Rightarrow> json" where
  "encode_quantity (QInt i) = JInt i"
| "encode_quantity (QDec d) = (if dec_integral d then JInt (dec_trunc d) else JDec d)"

fun decode_quantity :: "json \<Rightarrow> quantity res" where
  "decode_quantity (JInt i) = Inr (QInt i)"
| "decode_quantity (JDec d) = Inr (QDec d)"
| "decode_quantity _ = Inl (TypeError ''quantity'')"

definition encode_usage_entry :: "usage_entry \<Rightarrow> json" where
  "encode_usage_entry e = JObj
     [(''actual_cost_minor'', encode_opt JInt (ue_actual_cost_minor e)),
      (''agent_id'', encode_opt JStr (ue_agent_id e)),
      (''attempt'', JInt (ue_attempt e)),
      (''cost_status'', JStr (enum_text cost_status_names (ue_cost_status e))),
      (''currency'', JStr (ue_currency e)),
      (''entry_id'', JStr (ue_entry_id e)),
      (''estimated_cost_minor'', encode_opt JInt (ue_estimated_cost_minor e)),
      (''model_id'', encode_opt JStr (ue_model_id e)),
      (''occurred_at'', JInt (ue_occurred_at e)),
      (''quantity'', encode_quantity (ue_quantity e)),
      (''quantity_status'', JStr (enum_text quantity_status_names (ue_quantity_status e))),
      (''resource_type'', JStr (enum_text resource_type_names (ue_resource_type e))),
      (''run_id'', encode_opt JStr (ue_run_id e)),
      (''source'', JStr (ue_source e)),
      (''task_id'', encode_opt JStr (ue_task_id e)),
      (''tool_id'', encode_opt JStr (ue_tool_id e)),
      (''unavailable_reason'', encode_opt JStr (ue_unavailable_reason e)),
      (''unit'', JStr (ue_unit e))]"

text \<open>\<^verbatim>\<open>_quantity_status\<close>: a row written before the field existed is KNOWN.\<close>

definition read_quantity_status :: "json \<Rightarrow> ledger_quantity_status res" where
  "read_quantity_status j =
     (case j_get ''quantity_status'' j of
        None \<Rightarrow> Inr QTY_KNOWN
      | Some v \<Rightarrow> bind_res (as_str v) (enum_of quantity_status_names))"

definition decode_usage_entry :: "json \<Rightarrow> usage_entry res" where
  "decode_usage_entry j =
     bind_res (bind_res (j_key ''quantity'' j) decode_quantity) (\<lambda>q.
     bind_res (bind_res (j_key ''entry_id'' j) as_str) (\<lambda>i.
     bind_res (bind_res (bind_res (j_key ''resource_type'' j) as_str) (enum_of resource_type_names)) (\<lambda>ty.
     bind_res (bind_res (j_key ''unit'' j) as_str) (\<lambda>u.
     bind_res (bind_res (bind_res (j_key ''cost_status'' j) as_str) (enum_of cost_status_names)) (\<lambda>cs.
     bind_res (j_dflt as_str ''unknown'' ''source'' j) (\<lambda>src.
     bind_res (bind_res (j_key ''occurred_at'' j) as_int) (\<lambda>occ.
     bind_res (j_opt as_int ''estimated_cost_minor'' j) (\<lambda>ec.
     bind_res (j_opt as_int ''actual_cost_minor'' j) (\<lambda>ac.
     bind_res (j_opt as_str ''model_id'' j) (\<lambda>model.
     bind_res (j_opt as_str ''run_id'' j) (\<lambda>run.
     bind_res (j_opt as_str ''task_id'' j) (\<lambda>task.
     bind_res (j_dflt as_str ''USD'' ''currency'' j) (\<lambda>cur.
     bind_res (j_opt as_str ''agent_id'' j) (\<lambda>agent.
     bind_res (j_opt as_str ''tool_id'' j) (\<lambda>tool.
     bind_res (read_quantity_status j) (\<lambda>qs.
     bind_res (j_opt as_str ''unavailable_reason'' j) (\<lambda>why.
     bind_res (j_dflt as_int 1 ''attempt'' j) (\<lambda>attempt.
       usage_entry_post_init
         \<lparr>ue_entry_id = i, ue_resource_type = ty, ue_quantity = q, ue_unit = u, ue_cost_status = cs,
          ue_source = src, ue_occurred_at = occ, ue_estimated_cost_minor = ec,
          ue_actual_cost_minor = ac, ue_currency = cur, ue_run_id = run, ue_task_id = task,
          ue_agent_id = agent, ue_tool_id = tool, ue_model_id = model, ue_quantity_status = qs,
          ue_unavailable_reason = why, ue_attempt = attempt\<rparr>))))))))))))))))))"

section \<open>The SQLite and PostgreSQL adapters\<close>

record reservation_row =
  vr_ref :: string
  vr_reservations :: json
  vr_policy :: json
  vr_released :: bool
  vr_created_at :: int

record usage_row =
  us_entry_id :: string
  us_entry :: json
  us_recorded_at :: int

record budget_ledger = adapter_base +
  bl_reservations :: "reservation_row list"
  bl_usage :: "usage_row list"

record ledger_snapshot =
  sn_reservations :: "budget_reservation list"
  sn_entries :: "usage_entry list"
  sn_by_ref :: "(string \<times> budget_reservation list) list"

type_synonym budget_digest = "budget_policy \<times> budget_reservation list \<Rightarrow> string"

definition reservation_ref :: "budget_digest \<Rightarrow> budget_policy \<Rightarrow> budget_reservation list \<Rightarrow> string" where
  "reservation_ref dg policy rs = ''budget-reservation:'' @ dg (policy, rs)"

definition reservation_row_of :: "string \<Rightarrow> budget_reservation list \<Rightarrow> budget_policy \<Rightarrow> int \<Rightarrow> reservation_row" where
  "reservation_row_of ref rs policy now =
     \<lparr>vr_ref = ref, vr_reservations = JArr (map encode_reservation rs),
      vr_policy = encode_budget_policy policy, vr_released = False, vr_created_at = now\<rparr>"

text \<open>\<^verbatim>\<open>INSERT OR REPLACE\<close> deletes the row with the same key and appends the new one.\<close>

definition bl_reserve ::
    "budget_digest \<Rightarrow> budget_reservation list \<Rightarrow> budget_policy \<Rightarrow> int \<Rightarrow> budget_ledger \<Rightarrow> string \<times> budget_ledger" where
  "bl_reserve dg rs policy now st =
     (let ref = reservation_ref dg policy rs;
          st1 = log_ok ''reserve'' (bp_id policy) st;
          st2 = st1\<lparr>bl_reservations :=
                     del_row vr_ref ref (bl_reservations st1) @ [reservation_row_of ref rs policy now]\<rparr>
      in (ref, log_result ''reserve'' (bp_id policy) ref st2))"

text \<open>
  PostgreSQL's \<^verbatim>\<open>ON CONFLICT ... DO UPDATE SET\<close> leaves the columns it does not name, and
  \<^verbatim>\<open>released\<close> is not among them.
\<close>

definition pg_reserve ::
    "budget_digest \<Rightarrow> budget_reservation list \<Rightarrow> budget_policy \<Rightarrow> int \<Rightarrow> budget_ledger \<Rightarrow> string \<times> budget_ledger" where
  "pg_reserve dg rs policy now st =
     (let ref = reservation_ref dg policy rs;
          st1 = log_ok ''reserve'' (bp_id policy) st;
          new = reservation_row_of ref rs policy now;
          st2 = st1\<lparr>bl_reservations :=
                     (if row_of vr_ref ref (bl_reservations st1) = None then bl_reservations st1 @ [new]
                      else upd_row vr_ref ref
                             (\<lambda>r. r\<lparr>vr_reservations := vr_reservations new, vr_policy := vr_policy new,
                                    vr_created_at := now\<rparr>) (bl_reservations st1))\<rparr>
      in (ref, log_result ''reserve'' (bp_id policy) ref st2))"

definition release_rows :: "string \<Rightarrow> reservation_row list \<Rightarrow> reservation_row list" where
  "release_rows ref rows = upd_row vr_ref ref (\<lambda>r. r\<lparr>vr_released := True\<rparr>) rows"

definition bl_release :: "string \<Rightarrow> budget_ledger \<Rightarrow> budget_ledger" where
  "bl_release ref st =
     (let st1 = log_ok ''release'' ref st;
          n = length (filter (\<lambda>r. vr_ref r = ref \<and> \<not> vr_released r) (bl_reservations st1));
          st2 = st1\<lparr>bl_reservations := release_rows ref (bl_reservations st1)\<rparr>
      in log_result ''release'' ref (''released '' @ str_int (int n)) st2)"

definition pg_release :: "string \<Rightarrow> budget_ledger \<Rightarrow> budget_ledger" where
  "pg_release ref st =
     (let st1 = log_ok ''release'' ref st;
          st2 = st1\<lparr>bl_reservations := release_rows ref (bl_reservations st1)\<rparr>
      in log_result ''release'' ref ''released'' st2)"

definition usage_row_of :: "usage_entry \<Rightarrow> int \<Rightarrow> usage_row" where
  "usage_row_of e now =
     \<lparr>us_entry_id = ue_entry_id e, us_entry = encode_usage_entry e, us_recorded_at = now\<rparr>"

definition bl_record_usage :: "usage_entry \<Rightarrow> int \<Rightarrow> budget_ledger \<Rightarrow> unit res \<times> budget_ledger" where
  "bl_record_usage e now st =
     (let st1 = log_ok ''record_usage'' (ue_entry_id e) st
      in if row_of us_entry_id (ue_entry_id e) (bl_usage st1) \<noteq> None
         then (Inl (InvalidInputError (''duplicate usage entry: '' @ ue_entry_id e)),
               log_error ''record_usage'' (ue_entry_id e) st1)
         else (Inr (), log_result ''record_usage'' (ue_entry_id e) ''appended''
                 (st1\<lparr>bl_usage := bl_usage st1 @ [usage_row_of e now]\<rparr>)))"

text \<open>The loop of \<^verbatim>\<open>INSERT OR IGNORE\<close>: the ids written and the table after it.\<close>

fun insert_new_usage ::
    "(nat \<Rightarrow> int) \<Rightarrow> nat \<Rightarrow> usage_entry list \<Rightarrow> usage_row list \<Rightarrow> string list \<times> usage_row list" where
  "insert_new_usage clk i [] rows = ([], rows)"
| "insert_new_usage clk i (e # es) rows =
     (if row_of us_entry_id (ue_entry_id e) rows \<noteq> None then insert_new_usage clk (Suc i) es rows
      else (case insert_new_usage clk (Suc i) es (rows @ [usage_row_of e (clk i)]) of
              (ids, rows') \<Rightarrow> (ue_entry_id e # ids, rows')))"

definition bl_record_usage_batch ::
    "usage_entry list \<Rightarrow> (nat \<Rightarrow> int) \<Rightarrow> budget_ledger \<Rightarrow> string list res \<times> budget_ledger" where
  "bl_record_usage_batch es clk st =
     (if ab_closed st then (Inl closed_error, st)
      else (let st1 = log_ok ''record_usage_batch'' (str_int (int (length es))) st
            in if \<not> distinct (map ue_entry_id es)
               then (Inl (InvalidInputError ''duplicate usage entry within batch''), st1)
               else (case insert_new_usage clk 0 es (bl_usage st1) of (ids, rows) \<Rightarrow>
                       (Inr ids, log_result ''record_usage_batch'' (str_int (int (length es)))
                                   (str_int (int (length ids))) (st1\<lparr>bl_usage := rows\<rparr>)))))"

definition live_reservations :: "reservation_row list \<Rightarrow> (string \<times> budget_reservation list) list res" where
  "live_reservations rows =
     map_res (\<lambda>r. bind_res (as_list decode_reservation (vr_reservations r)) (\<lambda>rs. Inr (vr_ref r, rs)))
       (filter (\<lambda>r. \<not> vr_released r) rows)"

definition snapshot_of ::
    "(usage_row \<Rightarrow> 'k :: linorder) \<Rightarrow> budget_ledger \<Rightarrow> ledger_snapshot res \<times> budget_ledger" where
  "snapshot_of order st =
     (let st1 = log_ok ''snapshot'' [] st
      in case bind_res (live_reservations (bl_reservations st1)) (\<lambda>by_ref.
              bind_res (map_res (\<lambda>r. decode_usage_entry (us_entry r)) (sort_key order (bl_usage st1))) (\<lambda>es.
                Inr \<lparr>sn_reservations = concat (map snd by_ref), sn_entries = es, sn_by_ref = by_ref\<rparr>)) of
           Inl e \<Rightarrow> (Inl e, st1)
         | Inr snap \<Rightarrow>
             (Inr snap,
              log_result ''snapshot'' []
                (str_int (int (length (sn_reservations snap))) @ ''/'' @
                 str_int (int (length (sn_entries snap)))) st1))"

text \<open>The texts of \<^verbatim>\<open>recorded_at\<close> order the entries of SQLite, the times those of PostgreSQL.\<close>

definition bl_snapshot :: "budget_ledger \<Rightarrow> ledger_snapshot res \<times> budget_ledger" where
  "bl_snapshot st = snapshot_of (\<lambda>r. (iso_key (us_recorded_at r), us_entry_id r)) st"

definition pg_snapshot :: "budget_ledger \<Rightarrow> ledger_snapshot res \<times> budget_ledger" where
  "pg_snapshot st = snapshot_of (\<lambda>r. (us_recorded_at r, us_entry_id r)) st"

section \<open>The in-memory adapter\<close>

record fake_ledger = adapter_base +
  fl_reservations :: "budget_reservation list"
  fl_index :: "(string \<times> budget_reservation list) list"
  fl_entries :: "usage_entry list"

text \<open>\<^verbatim>\<open>_enter\<close> without an injected failure only checks that the adapter is open.\<close>

definition fake_closed_error :: py_error where
  "fake_closed_error = PermanentPortError ''fake is closed''"

definition fl_enter :: "fake_ledger \<Rightarrow> unit res" where
  "fl_enter st = (if ab_closed st then Inl fake_closed_error else Inr ())"

definition dict_put :: "'k \<Rightarrow> 'v \<Rightarrow> ('k \<times> 'v) list \<Rightarrow> ('k \<times> 'v) list" where
  "dict_put k v d =
     (if k \<in> fst ` set d then map (\<lambda>(k', v'). if k' = k then (k', v) else (k', v')) d else d @ [(k, v)])"

definition fl_reserve ::
    "budget_digest \<Rightarrow> budget_reservation list \<Rightarrow> budget_policy \<Rightarrow> fake_ledger \<Rightarrow> string res \<times> fake_ledger" where
  "fl_reserve dg rs policy st =
     (case fl_enter st of Inl e \<Rightarrow> (Inl e, st)
      | Inr _ \<Rightarrow>
          (let ref = reservation_ref dg policy rs;
               st1 = st\<lparr>fl_reservations := fl_reservations st @ rs,
                        fl_index := dict_put ref rs (fl_index st)\<rparr>
           in (Inr ref, log_result ''reserve'' (bp_id policy) ref st1)))"

definition fl_release :: "string \<Rightarrow> fake_ledger \<Rightarrow> unit res \<times> fake_ledger" where
  "fl_release ref st =
     (case fl_enter st of Inl e \<Rightarrow> (Inl e, st)
      | Inr _ \<Rightarrow>
          (case map_of (fl_index st) ref of
             None \<Rightarrow> (Inr (), log_result ''release'' ref ''noop'' st)
           | Some rs \<Rightarrow>
               (let st1 = st\<lparr>fl_index := filter (\<lambda>p. fst p \<noteq> ref) (fl_index st),
                             fl_reservations :=
                               filter (\<lambda>r. bv_id r \<notin> bv_id ` set rs) (fl_reservations st)\<rparr>
                in (Inr (), log_result ''release'' ref (''released '' @ str_int (int (length rs))) st1))))"

definition fl_record_usage :: "usage_entry \<Rightarrow> fake_ledger \<Rightarrow> unit res \<times> fake_ledger" where
  "fl_record_usage e st =
     (case fl_enter st of Inl x \<Rightarrow> (Inl x, st)
      | Inr _ \<Rightarrow>
          (case ledger_append e (fl_entries st) of
             Inl _ \<Rightarrow> (Inl (InvalidInputError (''duplicate ledger entry: '' @ ue_entry_id e)),
                       log_error ''record_usage'' (ue_entry_id e) st)
           | Inr es \<Rightarrow> (Inr (), log_result ''record_usage'' (ue_entry_id e) ''appended''
                                (st\<lparr>fl_entries := es\<rparr>))))"

fun ledger_append_all :: "usage_entry list \<Rightarrow> usage_entry list \<Rightarrow> usage_entry list res" where
  "ledger_append_all [] es = Inr es"
| "ledger_append_all (x # xs) es = bind_res (ledger_append x es) (ledger_append_all xs)"

definition fl_record_usage_batch :: "usage_entry list \<Rightarrow> fake_ledger \<Rightarrow> string list res \<times> fake_ledger" where
  "fl_record_usage_batch es st =
     (case fl_enter st of Inl e \<Rightarrow> (Inl e, st)
      | Inr _ \<Rightarrow>
          (let existing = ue_entry_id ` set (fl_entries st);
               candidates = filter (\<lambda>e. ue_entry_id e \<notin> existing) es;
               ids = map ue_entry_id candidates
           in if \<not> distinct ids
              then (Inl (InvalidInputError ''duplicate usage entry within batch''), st)
              else (case ledger_append_all candidates (fl_entries st) of
                      Inl e \<Rightarrow> (Inl e, st)
                    | Inr all \<Rightarrow>
                        (Inr ids, log_result ''record_usage_batch'' (str_int (int (length es)))
                                    (str_int (int (length candidates))) (st\<lparr>fl_entries := all\<rparr>)))))"

definition fl_snapshot :: "fake_ledger \<Rightarrow> ledger_snapshot res \<times> fake_ledger" where
  "fl_snapshot st =
     (case fl_enter st of Inl e \<Rightarrow> (Inl e, st)
      | Inr _ \<Rightarrow>
          (Inr \<lparr>sn_reservations = fl_reservations st, sn_entries = fl_entries st,
                sn_by_ref = fl_index st\<rparr>, log_ok ''snapshot'' [] st))"

end
