(* ===== verification/Budget_Closure.thy ===== *)
theory Budget_Closure
  imports Budget_Ledger
begin

text \<open>
  How usage reaches the ledger: the entries of the four sources
  (\<^verbatim>\<open>packages/application/experiments/budget_entries.py\<close>), the closure that checks the hard
  limits and records them (\<^verbatim>\<open>budget_closure.py\<close>), their collection from real events
  (\<^verbatim>\<open>usage_collection.py\<close>), the records of a task's turns and of a cancellation
  (\<^verbatim>\<open>run_orchestration/usage_recording.py\<close>), the adjustment of a running budget
  (\<^verbatim>\<open>run_orchestration/budget_adjust.py\<close>) and the check before a run
  (\<^verbatim>\<open>preflight/budget.py\<close>). The port is a parameter: its operations are arguments, instantiated
  by the adapters of \<open>Budget_Ledger\<close>. An event carries the fields the code reads: a completion
  its token counts and the reason they are missing, a tool result its tool, an evaluation
  report its id and the number of findings of each result.
\<close>

section \<open>Entries\<close>

definition attempt_scope :: "string \<Rightarrow> int \<Rightarrow> string" where
  "attempt_scope entry_id attempt =
     (if attempt \<le> 1 then entry_id else entry_id @ '':attempt-'' @ str_int attempt)"

record model_usage =
  mu_model_id :: string
  mu_prompt_tokens :: int
  mu_completion_tokens :: int
  mu_calls :: int
  mu_estimated_cost_minor :: "int option"
  mu_unavailable_reason :: "string option"
  mu_attempt :: int

record tool_usage =
  tu_tool_id :: string
  tu_requests :: int
  tu_estimated_cost_minor :: "int option"
  tu_attempt :: int

record experiment_usage =
  xu_run_id :: string
  xu_elapsed_seconds :: "quantity option"
  xu_attempt :: int
  xu_gpu_elapsed_seconds :: "quantity option"

record evaluation_usage =
  vu_eval_id :: string
  vu_cases :: int
  vu_scorer_calls :: int
  vu_attempt :: int

definition GPU_COST_UNAVAILABLE_REASON :: string where
  "GPU_COST_UNAVAILABLE_REASON = ''no GPU price source configured''"

text \<open>
  \<^verbatim>\<open>_entry\<close>: the fields its callers give, the defaults of the rest, the cost status by the
  presence of an estimate; the constructor validates.
\<close>

definition entry_defaults :: "string \<Rightarrow> resource_type \<Rightarrow> quantity \<Rightarrow> string \<Rightarrow> string \<Rightarrow> int \<Rightarrow> usage_entry" where
  "entry_defaults i ty q u src now =
     \<lparr>ue_entry_id = i, ue_resource_type = ty, ue_quantity = q, ue_unit = u,
      ue_cost_status = COST_UNKNOWN, ue_source = src, ue_occurred_at = now,
      ue_estimated_cost_minor = None, ue_actual_cost_minor = None, ue_currency = ''USD'',
      ue_run_id = None, ue_task_id = None, ue_agent_id = None, ue_tool_id = None,
      ue_model_id = None, ue_quantity_status = QTY_KNOWN, ue_unavailable_reason = None,
      ue_attempt = 1\<rparr>"

definition make_entry :: "usage_entry \<Rightarrow> usage_entry res" where
  "make_entry e = usage_entry_post_init
     (e\<lparr>ue_cost_status := (if ue_estimated_cost_minor e \<noteq> None then COST_KNOWN else COST_UNKNOWN)\<rparr>)"

definition model_drafts ::
    "string \<Rightarrow> int \<Rightarrow> string option \<Rightarrow> string option \<Rightarrow> model_usage \<Rightarrow> usage_entry list" where
  "model_drafts run_id now task_id agent_id u =
     (let tokens = mu_prompt_tokens u + mu_completion_tokens u;
          unknown = (mu_unavailable_reason u \<noteq> None);
          base = ''usage:'' @ run_id @ '':model:'' @ mu_model_id u
      in [(entry_defaults (attempt_scope base (mu_attempt u)) MODEL_TOKENS
             (QInt (if unknown then 0 else tokens)) ''tokens'' ''m12:model_relay'' now)
            \<lparr>ue_estimated_cost_minor := mu_estimated_cost_minor u, ue_run_id := Some run_id,
             ue_task_id := task_id, ue_agent_id := agent_id, ue_model_id := Some (mu_model_id u),
             ue_quantity_status := (if unknown then QTY_UNKNOWN else QTY_KNOWN),
             ue_unavailable_reason := mu_unavailable_reason u, ue_attempt := mu_attempt u\<rparr>,
          (entry_defaults (attempt_scope (base @ '':calls'') (mu_attempt u)) MODEL_REQUESTS
             (QInt (mu_calls u)) ''calls'' ''m12:model_relay'' now)
            \<lparr>ue_run_id := Some run_id, ue_task_id := task_id, ue_agent_id := agent_id,
             ue_model_id := Some (mu_model_id u), ue_attempt := mu_attempt u\<rparr>])"

definition model_entries ::
    "string \<Rightarrow> model_usage list \<Rightarrow> int \<Rightarrow> string option \<Rightarrow> string option \<Rightarrow> usage_entry list res" where
  "model_entries run_id us now task_id agent_id =
     map_res make_entry (concat (map (model_drafts run_id now task_id agent_id) us))"

definition tool_draft :: "string \<Rightarrow> int \<Rightarrow> string option \<Rightarrow> tool_usage \<Rightarrow> usage_entry" where
  "tool_draft run_id now task_id u =
     (entry_defaults (attempt_scope (''usage:'' @ run_id @ '':tool:'' @ tu_tool_id u) (tu_attempt u))
        TOOL_REQUESTS (QInt (tu_requests u)) ''requests'' ''m12:tool_plane'' now)
       \<lparr>ue_estimated_cost_minor := tu_estimated_cost_minor u, ue_run_id := Some run_id,
        ue_task_id := task_id, ue_tool_id := Some (tu_tool_id u), ue_attempt := tu_attempt u\<rparr>"

definition tool_entries :: "string \<Rightarrow> tool_usage list \<Rightarrow> int \<Rightarrow> string option \<Rightarrow> usage_entry list res" where
  "tool_entries run_id us now task_id = map_res make_entry (map (tool_draft run_id now task_id) us)"

text \<open>\<^verbatim>\<open>q or 0\<close>: an absent or a zero quantity is the integer zero.\<close>

definition qty_or_zero :: "quantity option \<Rightarrow> quantity" where
  "qty_or_zero q = (case q of None \<Rightarrow> QInt 0 | Some v \<Rightarrow> if qty_zero v then QInt 0 else v)"

definition cpu_time_draft :: "string \<Rightarrow> int \<Rightarrow> string option \<Rightarrow> experiment_usage \<Rightarrow> usage_entry" where
  "cpu_time_draft run_id now task_id u =
     (entry_defaults (attempt_scope (''usage:'' @ run_id @ '':experiment:'' @ xu_run_id u) (xu_attempt u))
        CPU_TIME (qty_or_zero (xu_elapsed_seconds u)) ''seconds'' ''m12:experiment'' now)
       \<lparr>ue_run_id := Some run_id, ue_task_id := task_id,
        ue_quantity_status := (if xu_elapsed_seconds u = None then QTY_UNKNOWN else QTY_KNOWN),
        ue_unavailable_reason :=
          (if xu_elapsed_seconds u \<noteq> None then None else Some ''elapsed_seconds not observed''),
        ue_attempt := xu_attempt u\<rparr>"

definition gpu_time_draft :: "string \<Rightarrow> int \<Rightarrow> string option \<Rightarrow> experiment_usage \<Rightarrow> usage_entry" where
  "gpu_time_draft run_id now task_id u =
     (entry_defaults
        (attempt_scope (''usage:'' @ run_id @ '':experiment:'' @ xu_run_id u @ '':gpu'') (xu_attempt u))
        GPU_TIME (case xu_gpu_elapsed_seconds u of Some q \<Rightarrow> q | None \<Rightarrow> QInt 0)
        ''seconds'' ''m17:experiment-gpu'' now)
       \<lparr>ue_run_id := Some run_id, ue_task_id := task_id,
        ue_unavailable_reason := Some GPU_COST_UNAVAILABLE_REASON, ue_attempt := xu_attempt u\<rparr>"

definition experiment_drafts :: "string \<Rightarrow> int \<Rightarrow> string option \<Rightarrow> experiment_usage \<Rightarrow> usage_entry list" where
  "experiment_drafts run_id now task_id u =
     cpu_time_draft run_id now task_id u #
     (if xu_gpu_elapsed_seconds u \<noteq> None then [gpu_time_draft run_id now task_id u] else [])"

definition experiment_entries ::
    "string \<Rightarrow> experiment_usage list \<Rightarrow> int \<Rightarrow> string option \<Rightarrow> usage_entry list res" where
  "experiment_entries run_id us now task_id =
     map_res make_entry (concat (map (experiment_drafts run_id now task_id) us))"

definition evaluation_draft ::
    "string \<Rightarrow> int \<Rightarrow> string option \<Rightarrow> string option \<Rightarrow> evaluation_usage \<Rightarrow> usage_entry" where
  "evaluation_draft run_id now task_id agent_id u =
     (entry_defaults (attempt_scope (''usage:'' @ run_id @ '':eval:'' @ vu_eval_id u) (vu_attempt u))
        EVALUATION_SCORER (QInt (vu_scorer_calls u)) ''scorer_calls'' ''m12:evaluation'' now)
       \<lparr>ue_run_id := Some run_id, ue_task_id := task_id, ue_agent_id := agent_id,
        ue_attempt := vu_attempt u\<rparr>"

definition evaluation_entries ::
    "string \<Rightarrow> evaluation_usage list \<Rightarrow> int \<Rightarrow> string option \<Rightarrow> string option \<Rightarrow> usage_entry list res" where
  "evaluation_entries run_id us now task_id agent_id =
     map_res make_entry (map (evaluation_draft run_id now task_id agent_id) us)"

record usage_summary =
  sm_total_tokens :: int
  sm_tool_requests :: int
  sm_experiment_runs :: int
  sm_experiment_seconds :: quantity
  sm_gpu_seconds :: quantity

definition summarize_entry :: "usage_entry \<Rightarrow> usage_summary \<Rightarrow> usage_summary" where
  "summarize_entry e s =
     (if ue_resource_type e = MODEL_TOKENS then
        s\<lparr>sm_total_tokens := sm_total_tokens s + qty_int (ue_quantity e)\<rparr>
      else if ue_resource_type e = TOOL_REQUESTS then
        s\<lparr>sm_tool_requests := sm_tool_requests s + qty_int (ue_quantity e)\<rparr>
      else if ue_resource_type e = CPU_TIME then
        s\<lparr>sm_experiment_runs := sm_experiment_runs s + 1,
          sm_experiment_seconds := qty_add (sm_experiment_seconds s) (ue_quantity e)\<rparr>
      else if ue_resource_type e = GPU_TIME then
        s\<lparr>sm_gpu_seconds := qty_add (sm_gpu_seconds s) (ue_quantity e)\<rparr>
      else s)"

definition summarize :: "usage_entry list \<Rightarrow> usage_summary" where
  "summarize es = fold summarize_entry es
     \<lparr>sm_total_tokens = 0, sm_tool_requests = 0, sm_experiment_runs = 0,
      sm_experiment_seconds = QDec (dec_of_int 0), sm_gpu_seconds = QDec (dec_of_int 0)\<rparr>"

section \<open>Closure\<close>

text \<open>\<^verbatim>\<open>str(Decimal)\<close>: scientific notation for a positive exponent or a small number.\<close>

definition dec_str :: "decimal \<Rightarrow> string" where
  "dec_str d =
     (let ds = digits_of (nat \<bar>coef d\<bar>);
          leftdigits = expo d + int (length ds);
          dotplace = (if expo d \<le> 0 \<and> - 6 < leftdigits then leftdigits else 1);
          intpart = (if dotplace \<le> 0 then ''0''
                     else if int (length ds) \<le> dotplace
                       then ds @ replicate (nat (dotplace - int (length ds))) (CHR ''0'')
                     else take (nat dotplace) ds);
          fracpart = (if dotplace \<le> 0 then ''.'' @ replicate (nat (- dotplace)) (CHR ''0'') @ ds
                      else if int (length ds) \<le> dotplace then []
                      else ''.'' @ drop (nat dotplace) ds);
          x = leftdigits - dotplace
      in (if coef d < 0 then ''-'' else []) @ intpart @ fracpart @
         (if x = 0 then [] else ''E'' @ (if 0 \<le> x then ''+'' else []) @ str_int x))"

fun qty_str :: "quantity \<Rightarrow> string" where
  "qty_str (QInt i) = str_int i"
| "qty_str (QDec d) = dec_str d"

datatype closure_error = BudgetExhaustedError string | LedgerError py_error

record closure_input =
  ci_run_id :: string
  ci_model_usage :: "model_usage list"
  ci_tool_usage :: "tool_usage list"
  ci_experiment_usage :: "experiment_usage list"
  ci_evaluation_usage :: "evaluation_usage list"
  ci_task_id :: "string option"
  ci_agent_id :: "string option"

record closure_result =
  cr_entries :: "usage_entry list"
  cr_total_tokens :: int
  cr_tool_requests :: int
  cr_experiment_runs :: int
  cr_evaluation_cases :: int
  cr_reservation_ref :: "string option"
  cr_consistent :: bool

definition over_limit :: "budget_policy \<Rightarrow> string \<Rightarrow> quantity \<Rightarrow> int option" where
  "over_limit p key used =
     (case map_of (bp_hard_limits p) key of
        None \<Rightarrow> None
      | Some limit \<Rightarrow> if dec_less (dec_of_int limit) (qty_dec used) then Some limit else None)"

definition enforce_limits :: "budget_policy \<Rightarrow> int \<Rightarrow> int \<Rightarrow> quantity \<Rightarrow> closure_error + unit" where
  "enforce_limits p tokens tools seconds =
     (case over_limit p ''model_tokens'' (QInt tokens) of
        Some l \<Rightarrow> Inl (BudgetExhaustedError
          (''model token budget exhausted: '' @ str_int tokens @ '' > '' @ str_int l))
      | None \<Rightarrow>
     (case over_limit p ''tool_requests'' (QInt tools) of
        Some l \<Rightarrow> Inl (BudgetExhaustedError
          (''tool request budget exhausted: '' @ str_int tools @ '' > '' @ str_int l))
      | None \<Rightarrow>
     (case over_limit p ''wall_clock_seconds'' seconds of
        Some l \<Rightarrow> Inl (BudgetExhaustedError
          (''wall clock budget exhausted: '' @ qty_str seconds @ ''s > '' @ str_int l @ ''s''))
      | None \<Rightarrow> Inr ())))"

definition reserved_of :: "resource_type \<Rightarrow> budget_reservation list \<Rightarrow> int" where
  "reserved_of ty rs = sum_list (map bv_quantity (filter (\<lambda>r. bv_resource_type r = ty) rs))"

definition check_reservation ::
    "('s \<Rightarrow> ledger_snapshot res \<times> 's) \<Rightarrow> string option \<Rightarrow> int \<Rightarrow> int \<Rightarrow> 's \<Rightarrow> bool res \<times> 's" where
  "check_reservation snapshot ref tokens tools s =
     (if ref = None then (Inr False, s)
      else (case snapshot s of
              (Inl e, s1) \<Rightarrow> (Inl e, s1)
            | (Inr snap, s1) \<Rightarrow>
                (let rt = reserved_of MODEL_TOKENS (sn_reservations snap);
                     rq = reserved_of TOOL_REQUESTS (sn_reservations snap)
                 in (Inr (\<not> (rt \<noteq> 0 \<and> rt < tokens) \<and> \<not> (rq \<noteq> 0 \<and> rq < tools)), s1))))"

definition closure_entries :: "closure_input \<Rightarrow> int \<Rightarrow> usage_entry list res" where
  "closure_entries i now =
     bind_res (model_entries (ci_run_id i) (ci_model_usage i) now (ci_task_id i) (ci_agent_id i)) (\<lambda>a.
     bind_res (tool_entries (ci_run_id i) (ci_tool_usage i) now (ci_task_id i)) (\<lambda>b.
     bind_res (experiment_entries (ci_run_id i) (ci_experiment_usage i) now (ci_task_id i)) (\<lambda>c.
     bind_res (evaluation_entries (ci_run_id i) (ci_evaluation_usage i) now (ci_task_id i) (ci_agent_id i)) (\<lambda>d.
       Inr (a @ b @ c @ d)))))"

definition close_budget ::
    "(usage_entry list \<Rightarrow> 's \<Rightarrow> string list res \<times> 's) \<Rightarrow> ('s \<Rightarrow> ledger_snapshot res \<times> 's) \<Rightarrow> int \<Rightarrow>
     closure_input \<Rightarrow> budget_policy option \<Rightarrow> string option \<Rightarrow> 's \<Rightarrow> (closure_error + closure_result) \<times> 's" where
  "close_budget record_batch snapshot now i policy ref s =
     (case closure_entries i now of
        Inl e \<Rightarrow> (Inl (LedgerError e), s)
      | Inr es \<Rightarrow>
          (let sm = summarize es in
           case (case policy of None \<Rightarrow> Inr ()
                 | Some p \<Rightarrow> enforce_limits p (sm_total_tokens sm) (sm_tool_requests sm) (sm_experiment_seconds sm)) of
             Inl x \<Rightarrow> (Inl x, s)
           | Inr _ \<Rightarrow>
               (case record_batch es s of
                  (Inl e, s1) \<Rightarrow> (Inl (LedgerError e), s1)
                | (Inr _, s1) \<Rightarrow>
                    (case check_reservation snapshot ref (sm_total_tokens sm) (sm_tool_requests sm) s1 of
                       (Inl e, s2) \<Rightarrow> (Inl (LedgerError e), s2)
                     | (Inr ok, s2) \<Rightarrow>
                         (Inr \<lparr>cr_entries = es, cr_total_tokens = sm_total_tokens sm,
                               cr_tool_requests = sm_tool_requests sm,
                               cr_experiment_runs = sm_experiment_runs sm,
                               cr_evaluation_cases = sum_list (map vu_cases (ci_evaluation_usage i)),
                               cr_reservation_ref = ref, cr_consistent = ok\<rparr>, s2)))))"

section \<open>Collection\<close>

record completion_usage =
  cu_prompt_tokens :: "int option"
  cu_completion_tokens :: "int option"
  cu_unavailable_reason :: "string option"

record experiment_observation =
  xo_execution_run_id :: string
  xo_elapsed_seconds :: "int option"
  xo_gpu_elapsed_seconds :: "quantity option"

record eval_report =
  er_report_id :: string
  er_findings :: "nat list"

record usage_collection =
  uc_run_id :: string
  uc_model_id :: "string option"
  uc_completions :: "completion_usage list"
  uc_tool_results :: "string list"
  uc_experiment :: "experiment_observation option"
  uc_eval_report :: "eval_report option"
  uc_task_id :: "string option"
  uc_agent_id :: "string option"
  uc_attempt :: int

record collected_usage =
  cl_model_tokens :: int
  cl_model_requests :: int
  cl_tool_requests :: int
  cl_experiment_seconds :: quantity
  cl_gpu_seconds :: quantity
  cl_eval_cases :: int
  cl_eval_scorer_calls :: int
  cl_model_usage_unknown :: bool

definition or_zero :: "int option \<Rightarrow> int" where
  "or_zero x = (case x of None \<Rightarrow> 0 | Some i \<Rightarrow> i)"

definition str_or :: "string option \<Rightarrow> string \<Rightarrow> string" where
  "str_or x d = (case x of None \<Rightarrow> d | Some s \<Rightarrow> if s = [] then d else s)"

definition missing_reasons :: "completion_usage list \<Rightarrow> string list" where
  "missing_reasons cs = concat (map (\<lambda>c. case cu_unavailable_reason c of None \<Rightarrow> [] | Some r \<Rightarrow> [r]) cs)"

definition collect_model_usage :: "usage_collection \<Rightarrow> model_usage list" where
  "collect_model_usage c =
     (if uc_completions c = [] then []
      else (let prompt = sum_list (map (or_zero \<circ> cu_prompt_tokens) (uc_completions c));
                completion = sum_list (map (or_zero \<circ> cu_completion_tokens) (uc_completions c));
                reasons = missing_reasons (uc_completions c);
                unknown = (reasons \<noteq> [])
            in [\<lparr>mu_model_id = str_or (uc_model_id c) ''unknown'',
                 mu_prompt_tokens = (if unknown then 0 else prompt),
                 mu_completion_tokens = (if unknown then 0 else completion),
                 mu_calls = int (length (uc_completions c)), mu_estimated_cost_minor = None,
                 mu_unavailable_reason =
                   (if unknown then Some (join_texts ''; '' (sort (remdups reasons))) else None),
                 mu_attempt = uc_attempt c\<rparr>]))"

definition collect_tool_usage :: "string list \<Rightarrow> int \<Rightarrow> tool_usage list" where
  "collect_tool_usage results attempt =
     map (\<lambda>t. \<lparr>tu_tool_id = t, tu_requests = int (length (filter (\<lambda>x. x = t) results)),
               tu_estimated_cost_minor = None, tu_attempt = attempt\<rparr>) (sort (remdups results))"

definition collect_experiment_usage :: "experiment_observation option \<Rightarrow> int \<Rightarrow> experiment_usage list" where
  "collect_experiment_usage r attempt =
     (case r of None \<Rightarrow> []
      | Some x \<Rightarrow> [\<lparr>xu_run_id = xo_execution_run_id x,
                    xu_elapsed_seconds = map_option QInt (xo_elapsed_seconds x),
                    xu_attempt = attempt, xu_gpu_elapsed_seconds = xo_gpu_elapsed_seconds x\<rparr>])"

definition collect_evaluation_usage :: "eval_report option \<Rightarrow> int \<Rightarrow> evaluation_usage list" where
  "collect_evaluation_usage r attempt =
     (case r of None \<Rightarrow> []
      | Some x \<Rightarrow> [\<lparr>vu_eval_id = er_report_id x, vu_cases = int (length (er_findings x)),
                    vu_scorer_calls = int (sum_list (er_findings x)), vu_attempt = attempt\<rparr>])"

definition qty_sum :: "quantity list \<Rightarrow> quantity" where
  "qty_sum qs = fold (\<lambda>q acc. qty_add acc q) qs (QInt 0)"

definition collect_usage :: "usage_collection \<Rightarrow> closure_input \<times> collected_usage" where
  "collect_usage c =
     (let ms = collect_model_usage c;
          ts = collect_tool_usage (uc_tool_results c) (uc_attempt c);
          xs = collect_experiment_usage (uc_experiment c) (uc_attempt c);
          vs = collect_evaluation_usage (uc_eval_report c) (uc_attempt c)
      in (\<lparr>ci_run_id = uc_run_id c, ci_model_usage = ms, ci_tool_usage = ts, ci_experiment_usage = xs,
           ci_evaluation_usage = vs, ci_task_id = uc_task_id c, ci_agent_id = uc_agent_id c\<rparr>,
          \<lparr>cl_model_tokens = sum_list (map (\<lambda>u. mu_prompt_tokens u + mu_completion_tokens u) ms),
           cl_model_requests = sum_list (map mu_calls ms),
           cl_tool_requests = sum_list (map tu_requests ts),
           cl_experiment_seconds = qty_sum (map (qty_or_zero \<circ> xu_elapsed_seconds) xs),
           cl_gpu_seconds = qty_sum (map (qty_or_zero \<circ> xu_gpu_elapsed_seconds) xs),
           cl_eval_cases = sum_list (map vu_cases vs),
           cl_eval_scorer_calls = sum_list (map vu_scorer_calls vs),
           cl_model_usage_unknown = list_ex (\<lambda>x. cu_unavailable_reason x \<noteq> None) (uc_completions c)\<rparr>))"

definition record_collected_usage ::
    "(usage_entry list \<Rightarrow> 's \<Rightarrow> string list res \<times> 's) \<Rightarrow> ('s \<Rightarrow> ledger_snapshot res \<times> 's) \<Rightarrow> int \<Rightarrow>
     usage_collection \<Rightarrow> 's \<Rightarrow> (closure_error + collected_usage) \<times> 's" where
  "record_collected_usage record_batch snapshot now c s =
     (case collect_usage c of
        (i, summary) \<Rightarrow>
          (case close_budget record_batch snapshot now i None None s of
             (Inl e, s1) \<Rightarrow> (Inl e, s1)
           | (Inr _, s1) \<Rightarrow> (Inr summary, s1)))"

section \<open>The usage of tasks\<close>

definition task_turns_draft :: "research_task \<Rightarrow> int \<Rightarrow> usage_entry" where
  "task_turns_draft t now =
     (entry_defaults (attempt_scope (''usage:'' @ rt_id t @ '':turns'') (rt_attempt t)) AGENT_TURNS
        (QInt 1) ''turns'' ''run_orchestration'' now)
       \<lparr>ue_task_id := Some (rt_id t), ue_attempt := rt_attempt t\<rparr>"

definition attempt_draft :: "research_task \<Rightarrow> int \<Rightarrow> string option \<Rightarrow> int \<Rightarrow> usage_entry" where
  "attempt_draft t attempt reason now =
     (entry_defaults (''usage:'' @ rt_id t @ '':attempt-'' @ str_int (max 1 attempt)) AGENT_TURNS
        (QInt 0) ''turns'' ''run_orchestration'' now)
       \<lparr>ue_task_id := Some (rt_id t), ue_quantity_status := QTY_UNKNOWN,
        ue_unavailable_reason := Some (str_or reason ''attempt outcome not fully observable''),
        ue_attempt := max 1 attempt\<rparr>"

definition cancelled_draft :: "string \<Rightarrow> int \<Rightarrow> string \<Rightarrow> usage_entry" where
  "cancelled_draft run_id now task_id =
     (entry_defaults (''usage:'' @ run_id @ '':task:'' @ task_id @ '':cancelled'') AGENT_TURNS
        (QInt 0) ''turns'' ''run_orchestration'' now)
       \<lparr>ue_run_id := Some run_id, ue_task_id := Some task_id, ue_quantity_status := QTY_UNKNOWN,
        ue_unavailable_reason :=
          Some ''cancellation observed; per-attempt turn usage not measurable''\<rparr>"

definition record_validated ::
    "(usage_entry \<Rightarrow> 's \<Rightarrow> unit res \<times> 's) \<Rightarrow> usage_entry \<Rightarrow> 's \<Rightarrow> unit res \<times> 's" where
  "record_validated record_one e s =
     (case usage_entry_post_init e of Inl x \<Rightarrow> (Inl x, s) | Inr v \<Rightarrow> record_one v s)"

definition record_task_usage ::
    "(usage_entry \<Rightarrow> 's \<Rightarrow> unit res \<times> 's) option \<Rightarrow> research_task \<Rightarrow> int \<Rightarrow> 's \<Rightarrow> unit res \<times> 's" where
  "record_task_usage budget t now s =
     (case budget of None \<Rightarrow> (Inr (), s)
      | Some record_one \<Rightarrow> record_validated record_one (task_turns_draft t now) s)"

definition record_attempt_usage ::
    "(usage_entry \<Rightarrow> 's \<Rightarrow> unit res \<times> 's) option \<Rightarrow> research_task \<Rightarrow> int \<Rightarrow> string option \<Rightarrow> int \<Rightarrow> 's \<Rightarrow>
     unit res \<times> 's" where
  "record_attempt_usage budget t attempt reason now s =
     (case budget of None \<Rightarrow> (Inr (), s)
      | Some record_one \<Rightarrow> record_validated record_one (attempt_draft t attempt reason now) s)"

definition record_cancelled_usage ::
    "(usage_entry list \<Rightarrow> 's \<Rightarrow> string list res \<times> 's) option \<Rightarrow> string \<Rightarrow> string list \<Rightarrow> (nat \<Rightarrow> int) \<Rightarrow> 's \<Rightarrow>
     unit res \<times> 's" where
  "record_cancelled_usage budget run_id task_ids clk s =
     (case budget of None \<Rightarrow> (Inr (), s)
      | Some record_batch \<Rightarrow>
          (if task_ids = [] then (Inr (), s)
           else (let ids = sort (remdups task_ids)
                 in case map_res (\<lambda>(i, t). usage_entry_post_init (cancelled_draft run_id (clk i) t))
                           (zip [0..<length ids] ids) of
                      Inl e \<Rightarrow> (Inl e, s)
                    | Inr es \<Rightarrow>
                        (case record_batch es s of (Inl e, s1) \<Rightarrow> (Inl e, s1) | (Inr _, s1) \<Rightarrow> (Inr (), s1)))))"

section \<open>Adjustment\<close>

record adjustment_line =
  al_resource_type :: resource_type
  al_quantity :: int
  al_unit :: string

definition adjustment_line_post_init :: "adjustment_line \<Rightarrow> adjustment_line res" where
  "adjustment_line_post_init l = first_error
     [(al_quantity l < 0, ''adjustment quantity must be non-negative''),
      (al_unit l = '''', ''adjustment unit must not be empty'')] l"

record adjustment_command =
  am_run_id :: string
  am_policy :: budget_policy
  am_existing_ref :: "string option"
  am_lines :: "adjustment_line list"

definition adjustment_command_post_init :: "adjustment_command \<Rightarrow> adjustment_command res" where
  "adjustment_command_post_init c = first_error
     [(am_run_id c = '''', ''run_id must not be empty''),
      (am_lines c = [], ''budget_adjust requires at least one adjustment line'')] c"

record adjustment_outcome =
  ao_released_ref :: "string option"
  ao_reservation_ref :: string
  ao_reservations :: "budget_reservation list"

datatype adjustment_error = BudgetAdjustmentError string | AdjustmentValueError py_error

definition adjusted_reservation :: "string \<Rightarrow> adjustment_line \<Rightarrow> budget_reservation" where
  "adjusted_reservation run_id l =
     \<lparr>bv_id = ''budget:'' @ run_id @ '':'' @ enum_text resource_type_names (al_resource_type l) @ '':adjusted'',
      bv_scope = ''run:'' @ run_id, bv_resource_type = al_resource_type l,
      bv_quantity = al_quantity l, bv_unit = al_unit l, bv_reserved_at = None\<rparr>"

record 's budget_port =
  port_reserve :: "budget_reservation list \<Rightarrow> budget_policy \<Rightarrow> 's \<Rightarrow> string \<times> 's"
  port_release :: "string \<Rightarrow> 's \<Rightarrow> 's"

definition execute_budget_adjustment ::
    "'s budget_port option \<Rightarrow> adjustment_command \<Rightarrow> 's \<Rightarrow> (adjustment_error + adjustment_outcome) \<times> 's" where
  "execute_budget_adjustment budget c s =
     (case budget of
        None \<Rightarrow> (Inl (BudgetAdjustmentError ''budget ledger not configured''), s)
      | Some port \<Rightarrow>
          (let s1 = (case am_existing_ref c of None \<Rightarrow> s | Some ref \<Rightarrow> port_release port ref s)
           in case map_res (\<lambda>l. reservation_post_init (adjusted_reservation (am_run_id c) l)) (am_lines c) of
                Inl e \<Rightarrow> (Inl (AdjustmentValueError e), s1)
              | Inr rs \<Rightarrow>
                  (case port_reserve port rs (am_policy c) s1 of
                     (ref, s2) \<Rightarrow>
                       (Inr \<lparr>ao_released_ref = am_existing_ref c, ao_reservation_ref = ref,
                             ao_reservations = rs\<rparr>, s2))))"

text \<open>The ports of the two adapters.\<close>

definition sqlite_port :: "budget_digest \<Rightarrow> int \<Rightarrow> budget_ledger budget_port" where
  "sqlite_port dg now = \<lparr>port_reserve = \<lambda>rs p. bl_reserve dg rs p now, port_release = bl_release\<rparr>"

definition postgres_port :: "budget_digest \<Rightarrow> int \<Rightarrow> budget_ledger budget_port" where
  "postgres_port dg now = \<lparr>port_reserve = \<lambda>rs p. pg_reserve dg rs p now, port_release = pg_release\<rparr>"

text \<open>\<^verbatim>\<open>release_reservation\<close> (\<^verbatim>\<open>run_orchestration/convergence.py\<close>) pops the reference of a run.\<close>

definition release_reservation ::
    "(string \<rightharpoonup> string) \<Rightarrow> 's budget_port option \<Rightarrow> string \<Rightarrow> 's \<Rightarrow> (string \<rightharpoonup> string) \<times> 's" where
  "release_reservation refs budget run_id s =
     (refs(run_id := None),
      case (refs run_id, budget) of
        (Some ref, Some port) \<Rightarrow> port_release port ref s
      | _ \<Rightarrow> s)"

section \<open>The check before a run\<close>

definition limit_keys :: "(resource_type \<times> string) list" where
  "limit_keys =
     [(PARALLELISM, ''agent_sessions''), (TOOL_REQUESTS, ''tool_requests''),
      (WALL_CLOCK, ''wall_clock_seconds'')]"

record budget_check =
  bk_totals :: "(string \<times> int) list"
  bk_exceeded :: "(string \<times> int \<times> int) list"
  bk_unknown_limits :: "string list"
  bk_unmapped_types :: "resource_type list"

definition check_allowed :: "budget_check \<Rightarrow> bool" where
  "check_allowed c = (bk_exceeded c = [])"

definition aggregate_step ::
    "budget_reservation \<Rightarrow> (resource_type \<times> int) list \<Rightarrow> (resource_type \<times> int) list" where
  "aggregate_step r totals =
     (let current = (case map_of totals (bv_resource_type r) of None \<Rightarrow> 0 | Some q \<Rightarrow> q)
      in dict_put (bv_resource_type r)
           (if bv_resource_type r = PARALLELISM then max current (bv_quantity r) else current + bv_quantity r)
           totals)"

definition aggregate_reservations :: "budget_reservation list \<Rightarrow> (resource_type \<times> int) list" where
  "aggregate_reservations rs = fold aggregate_step rs []"

definition check_step :: "budget_policy \<Rightarrow> resource_type \<times> int \<Rightarrow> budget_check \<Rightarrow> budget_check" where
  "check_step p item c =
     (case map_of limit_keys (fst item) of
        None \<Rightarrow> c\<lparr>bk_unmapped_types := bk_unmapped_types c @ [fst item]\<rparr>
      | Some key \<Rightarrow>
          (let c1 = c\<lparr>bk_totals := dict_put key (snd item) (bk_totals c)\<rparr>
           in case map_of (bp_hard_limits p) key of
                None \<Rightarrow> c1\<lparr>bk_unknown_limits := bk_unknown_limits c1 @ [key]\<rparr>
              | Some limit \<Rightarrow>
                  (if limit < snd item
                   then c1\<lparr>bk_exceeded := dict_put key (snd item, limit) (bk_exceeded c1)\<rparr> else c1)))"

definition check_budget :: "budget_reservation list \<Rightarrow> budget_policy \<Rightarrow> budget_check" where
  "check_budget rs p =
     fold (check_step p)
       (sort_key (\<lambda>item. enum_text resource_type_names (fst item)) (aggregate_reservations rs))
       \<lparr>bk_totals = [], bk_exceeded = [], bk_unknown_limits = [], bk_unmapped_types = []\<rparr>"

definition reserve_budget ::
    "budget_digest \<Rightarrow> budget_reservation list \<Rightarrow> budget_policy \<Rightarrow> 's budget_port option \<Rightarrow> 's \<Rightarrow>
     (budget_check \<times> string option) \<times> 's" where
  "reserve_budget dg rs p port s =
     (let check = check_budget rs p
      in if \<not> check_allowed check then ((check, None), s)
         else (case port of
                 Some q \<Rightarrow> (case port_reserve q rs p s of (ref, s1) \<Rightarrow> ((check, Some ref), s1))
               | None \<Rightarrow> ((check, Some (reservation_ref dg p rs)), s)))"

end
