(* ===== verification/Budget_Properties.thy ===== *)
theory Budget_Properties
  imports Budget_Closure
begin

text \<open>
  The contract of the budget ledger. The locale \<open>usage_port\<close> is what the closure relies on of
  the port \<^verbatim>\<open>BudgetLedger\<close>; the SQLite and the in-memory adapter are instances, with what each
  keeps of an entry. The properties follow an entry through any later commands, say exactly
  when a closure records its usage, and what an adjustment leaves reserved.
\<close>

section \<open>Quantities\<close>

lemma dec_trunc_val:
  assumes "dec_integral d"
  shows "dec_val (dec_of_int (dec_trunc d)) = dec_val d"
proof (cases "0 \<le> expo d")
  case True
  with dec_val_align [of 0 d] show ?thesis by (simp add: dec_trunc_def dec_of_int_def)
next
  case False
  let ?k = "(10 :: int) ^ nat (- expo d)"
  have "coef d mod ?k = 0" using assms False by (simp add: dec_integral_def)
  then have dvd: "?k dvd coef d" by presburger
  then have "?k dvd \<bar>coef d\<bar>" by simp
  then have "\<bar>coef d\<bar> div ?k * ?k = \<bar>coef d\<bar>" by simp
  then have "dec_trunc d * ?k = coef d" using False by (simp add: dec_trunc_def mult.assoc sgn_mult_abs)
  then have "of_int (dec_trunc d) * (of_int ?k :: rat) = of_int (coef d)" by (metis of_int_mult)
  with False show ?thesis by (simp add: dec_val_def dec_of_int_def field_simps)
qed

definition qty_val :: "quantity \<Rightarrow> rat" where
  "qty_val q = dec_val (qty_dec q)"

fun persisted_quantity :: "quantity \<Rightarrow> quantity" where
  "persisted_quantity (QInt i) = QInt i"
| "persisted_quantity (QDec d) = (if dec_integral d then QInt (dec_trunc d) else QDec d)"

lemma persisted_quantity_val: "qty_val (persisted_quantity q) = qty_val q"
  by (cases q) (simp_all add: qty_val_def dec_trunc_val)

lemma qty_tests:
  "qty_negative q \<longleftrightarrow> qty_val q < 0" "qty_zero q \<longleftrightarrow> qty_val q = 0"
  by (simp_all add: qty_negative_def qty_zero_def qty_val_def dec_less_iff dec_eq_iff dec_of_int_def
      dec_val_def [of "Dec 0 0"])

lemma decode_quantity_encode: "decode_quantity (encode_quantity q) = Inr (persisted_quantity q)"
  by (cases q) simp_all

section \<open>The stored form of an entry\<close>

definition valid_entry :: "usage_entry \<Rightarrow> bool" where
  "valid_entry e = is_ok (usage_entry_post_init e)"

definition persisted_entry :: "usage_entry \<Rightarrow> usage_entry" where
  "persisted_entry e = e\<lparr>ue_quantity := persisted_quantity (ue_quantity e)\<rparr>"

lemma cost_status_round_trip [simp]: "enum_of cost_status_names (enum_text cost_status_names a) = Inr a"
  by (cases a) (simp_all add: enum_of_def enum_text_def cost_status_names_def)

lemma quantity_status_round_trip [simp]:
  "enum_of quantity_status_names (enum_text quantity_status_names b) = Inr b"
  by (cases b) (simp_all add: enum_of_def enum_text_def quantity_status_names_def)

lemma resource_type_round_trip [simp]:
  "enum_of resource_type_names (enum_text resource_type_names c) = Inr c"
  by (cases c) (simp_all add: enum_of_def enum_text_def resource_type_names_def)

lemma encode_quantity_not_null [simp]: "encode_quantity q \<noteq> JNull"
  by (cases q) simp_all

lemma valid_persisted [simp]: "valid_entry (persisted_entry e) = valid_entry e"
  unfolding valid_entry_def usage_entry_post_init_def first_error_ok_iff
  by (simp add: persisted_entry_def qty_tests persisted_quantity_val)

lemma post_init_valid: "valid_entry e \<Longrightarrow> usage_entry_post_init e = Inr e"
  unfolding valid_entry_def usage_entry_post_init_def first_error_ok_iff first_error_Inr_iff by simp

lemma post_init_Inr: "usage_entry_post_init e = Inr v \<longleftrightarrow> v = e \<and> valid_entry e"
  unfolding valid_entry_def usage_entry_post_init_def first_error_ok_iff first_error_Inr_iff by simp

lemma persisted_entry_id [simp]: "ue_entry_id (persisted_entry e) = ue_entry_id e"
  by (simp add: persisted_entry_def)

lemma decode_usage_entry_encode:
  assumes "valid_entry e"
  shows "decode_usage_entry (encode_usage_entry e) = Inr (persisted_entry e)"
proof -
  have "decode_usage_entry (encode_usage_entry e) = usage_entry_post_init (persisted_entry e)"
    by (simp add: decode_usage_entry_def encode_usage_entry_def read_quantity_status_def
        decode_quantity_encode persisted_entry_def) (cases e, simp)
  with assms show ?thesis by (simp add: post_init_valid)
qed

definition valid_reservation :: "budget_reservation \<Rightarrow> bool" where
  "valid_reservation r = is_ok (reservation_post_init r)"

lemma reservation_post_init_valid: "valid_reservation r \<Longrightarrow> reservation_post_init r = Inr r"
  unfolding valid_reservation_def reservation_post_init_def first_error_ok_iff first_error_Inr_iff by simp

lemma decode_reservation_encode:
  assumes "valid_reservation r"
  shows "decode_reservation (encode_reservation r) = Inr (r\<lparr>bv_reserved_at := None\<rparr>)"
proof -
  have "valid_reservation (r\<lparr>bv_reserved_at := None\<rparr>)"
    using assms unfolding valid_reservation_def reservation_post_init_def first_error_ok_iff by simp
  then have "reservation_post_init (r\<lparr>bv_reserved_at := None\<rparr>) = Inr (r\<lparr>bv_reserved_at := None\<rparr>)"
    by (rule reservation_post_init_valid)
  then show ?thesis by (cases r) (simp add: decode_reservation_def encode_reservation_def)
qed

section \<open>The rows of the SQLite ledger\<close>

definition sound_usage :: "usage_row list \<Rightarrow> bool" where
  "sound_usage rows = (distinct (map us_entry_id rows) \<and>
     (\<forall>r\<in>set rows. \<exists>e. decode_usage_entry (us_entry r) = Inr e \<and> ue_entry_id e = us_entry_id r))"

definition sound_reservations :: "reservation_row list \<Rightarrow> bool" where
  "sound_reservations rows = (distinct (map vr_ref rows) \<and>
     (\<forall>r\<in>set rows. \<exists>rs. as_list decode_reservation (vr_reservations r) = Inr rs))"

definition sound_ledger :: "budget_ledger \<Rightarrow> bool" where
  "sound_ledger st = (\<not> ab_closed st \<and> sound_usage (bl_usage st) \<and> sound_reservations (bl_reservations st))"

definition entry_of_row :: "usage_row \<Rightarrow> usage_entry option" where
  "entry_of_row r = (case decode_usage_entry (us_entry r) of Inr e \<Rightarrow> Some e | Inl _ \<Rightarrow> None)"

definition usage_of :: "usage_row list \<Rightarrow> string \<Rightarrow> usage_entry option" where
  "usage_of rows k = Option.bind (row_of us_entry_id k rows) entry_of_row"

definition bl_stored :: "budget_ledger \<Rightarrow> string \<Rightarrow> usage_entry option" where
  "bl_stored st = usage_of (bl_usage st)"

lemma usage_row_of_simps [simp]:
  "us_entry_id (usage_row_of e now) = ue_entry_id e" "us_entry (usage_row_of e now) = encode_usage_entry e"
  by (simp_all add: usage_row_of_def)

lemma entry_of_row_new: "valid_entry e \<Longrightarrow> entry_of_row (usage_row_of e now) = Some (persisted_entry e)"
  by (simp add: entry_of_row_def decode_usage_entry_encode)

lemma usage_of_None_iff:
  assumes "sound_usage rows"
  shows "usage_of rows k = None \<longleftrightarrow> row_of us_entry_id k rows = None"
  using assms row_of_SomeD [of us_entry_id k rows]
  by (fastforce simp: usage_of_def sound_usage_def entry_of_row_def split: sum.splits bind_splits)

lemma sound_usage_snoc:
  assumes "sound_usage rows" and "valid_entry e" and "row_of us_entry_id (ue_entry_id e) rows = None"
  shows "sound_usage (rows @ [usage_row_of e now])"
  using assms by (auto simp: sound_usage_def row_of_None_iff decode_usage_entry_encode)

lemma usage_of_snoc:
  assumes "valid_entry e" and "row_of us_entry_id (ue_entry_id e) rows = None"
  shows "usage_of (rows @ [usage_row_of e now]) k =
    (if k = ue_entry_id e then Some (persisted_entry e) else usage_of rows k)"
  using assms by (auto simp: usage_of_def table_simps entry_of_row_new split: option.splits)

text \<open>The loop of the batch writes exactly the entries whose id is new.\<close>

lemma insert_new_usage_spec:
  assumes "sound_usage rows" and "list_all valid_entry es" and "distinct (map ue_entry_id es)"
    and "insert_new_usage clk i es rows = (ids, rows')"
  shows "ids = filter (\<lambda>k. usage_of rows k = None) (map ue_entry_id es) \<and> sound_usage rows' \<and>
    (\<forall>k. usage_of rows' k = (case usage_of rows k of Some e \<Rightarrow> Some e
       | None \<Rightarrow> map_option persisted_entry (row_of ue_entry_id k es)))"
  using assms
proof (induction es arbitrary: i rows ids rows')
  case Nil
  then show ?case by (auto split: option.splits)
next
  case (Cons e es)
  show ?case
  proof (cases "row_of us_entry_id (ue_entry_id e) rows = None")
    case False
    then have "usage_of rows (ue_entry_id e) \<noteq> None" using Cons.prems(1) by (simp add: usage_of_None_iff)
    with Cons.IH [of rows "Suc i" ids rows'] Cons.prems False show ?thesis
      by (auto simp: table_simps split: option.splits)
  next
    case True
    let ?rows = "rows @ [usage_row_of e (clk i)]"
    obtain ids2 where ids2: "insert_new_usage clk (Suc i) es ?rows = (ids2, rows')" "ids = ue_entry_id e # ids2"
      using Cons.prems(4) True by (auto split: prod.splits)
    have e: "valid_entry e" using Cons.prems(2) by simp
    have u: "usage_of ?rows k = (if k = ue_entry_id e then Some (persisted_entry e) else usage_of rows k)" for k
      using usage_of_snoc [OF e True] .
    have new: "usage_of rows (ue_entry_id e) = None" using True Cons.prems(1) by (simp add: usage_of_None_iff)
    have "filter (\<lambda>k. usage_of ?rows k = None) (map ue_entry_id es) =
        filter (\<lambda>k. usage_of rows k = None) (map ue_entry_id es)"
    proof (rule filter_cong [OF refl])
      fix k assume "k \<in> set (map ue_entry_id es)"
      then have "k \<in> ue_entry_id ` set es" by simp
      moreover have "ue_entry_id e \<notin> ue_entry_id ` set es" using Cons.prems(3) by simp
      ultimately have "k \<noteq> ue_entry_id e" by blast
      then show "(usage_of ?rows k = None) = (usage_of rows k = None)" by (simp add: u)
    qed
    with Cons.IH [OF sound_usage_snoc [OF Cons.prems(1) e True] _ _ ids2(1)] Cons.prems u new ids2(2)
    show ?thesis by (auto simp: table_simps split: option.splits)
  qed
qed

section \<open>The interface of the ledger\<close>

text \<open>
  What a closure relies on: a batch of distinct ids succeeds, answers with the ids that are
  new, stores those entries as the adapter keeps them and changes no stored entry.
\<close>

locale usage_port =
  fixes batch :: "usage_entry list \<Rightarrow> (nat \<Rightarrow> int) \<Rightarrow> 's \<Rightarrow> string list res \<times> 's"
    and stored :: "'s \<Rightarrow> string \<Rightarrow> usage_entry option"
    and usable :: "'s \<Rightarrow> bool"
    and kept :: "usage_entry \<Rightarrow> usage_entry"
  assumes batch_law:
    "usable s \<Longrightarrow> list_all valid_entry es \<Longrightarrow> distinct (map ue_entry_id es) \<Longrightarrow>
     \<exists>s'. batch es clk s = (Inr (filter (\<lambda>k. stored s k = None) (map ue_entry_id es)), s') \<and> usable s' \<and>
       (\<forall>k. stored s' k = (case stored s k of Some e \<Rightarrow> Some e
          | None \<Rightarrow> map_option kept (row_of ue_entry_id k es)))"
begin

lemma batch_step:
  assumes "usable s" and "list_all valid_entry es" and "distinct (map ue_entry_id es)"
    and "batch es clk s = (res, s')"
  shows "res = Inr (filter (\<lambda>k. stored s k = None) (map ue_entry_id es))" and "usable s'"
    and "stored s' k = (case stored s k of Some e \<Rightarrow> Some e
           | None \<Rightarrow> map_option kept (row_of ue_entry_id k es))"
  using batch_law [OF assms(1-3), of clk] assms(4) by auto

lemma batch_keeps:
  assumes "usable s" and "list_all valid_entry es" and "distinct (map ue_entry_id es)"
    and "batch es clk s = (res, s')" and "stored s k = Some e"
  shows "stored s' k = Some e"
  using batch_step(3) [OF assms(1-4), of k] assms(5) by simp

lemma batch_covers:
  assumes "usable s" and "list_all valid_entry es" and "distinct (map ue_entry_id es)"
    and "batch es clk s = (res, s')" and "e \<in> set es"
  shows "stored s' (ue_entry_id e) =
    Some (case stored s (ue_entry_id e) of Some x \<Rightarrow> x | None \<Rightarrow> kept e)"
  using batch_step(3) [OF assms(1-4), of "ue_entry_id e"] row_of_distinct [OF assms(3,5)]
  by (auto split: option.splits)

lemma replay_writes_nothing:
  assumes "usable s" and "list_all valid_entry es" and "distinct (map ue_entry_id es)"
    and "\<And>e. e \<in> set es \<Longrightarrow> stored s (ue_entry_id e) \<noteq> None"
  shows "\<exists>s'. batch es clk s = (Inr [], s') \<and> usable s' \<and> stored s' = stored s"
proof -
  obtain s' where s': "batch es clk s = (Inr (filter (\<lambda>k. stored s k = None) (map ue_entry_id es)), s')"
      "usable s'"
      "\<And>k. stored s' k = (case stored s k of Some e \<Rightarrow> Some e
          | None \<Rightarrow> map_option kept (row_of ue_entry_id k es))"
    using batch_law [OF assms(1-3), of clk] by auto
  have none: "filter (\<lambda>k. stored s k = None) (map ue_entry_id es) = []"
    using assms(4) by (auto simp: filter_empty_conv)
  have "stored s' k = stored s k" for k
  proof (cases "stored s k")
    case None
    then have "k \<notin> ue_entry_id ` set es" using assms(4) by (metis imageE)
    then show ?thesis using None s'(3) [of k] by (simp add: row_of_None_iff [THEN iffD2])
  next
    case (Some x)
    then show ?thesis using s'(3) [of k] by simp
  qed
  then show ?thesis using s'(1,2) none by auto
qed

end

lemma bl_batch_law:
  assumes "sound_ledger st" and "list_all valid_entry es" and "distinct (map ue_entry_id es)"
  shows "\<exists>st'. bl_record_usage_batch es clk st =
      (Inr (filter (\<lambda>k. bl_stored st k = None) (map ue_entry_id es)), st') \<and> sound_ledger st' \<and>
      (\<forall>k. bl_stored st' k = (case bl_stored st k of Some e \<Rightarrow> Some e
         | None \<Rightarrow> map_option persisted_entry (row_of ue_entry_id k es)))"
proof -
  obtain ids rows where i: "insert_new_usage clk 0 es (bl_usage st) = (ids, rows)"
    by (cases "insert_new_usage clk 0 es (bl_usage st)") auto
  have su: "sound_usage (bl_usage st)" using assms(1) by (simp add: sound_ledger_def)
  from insert_new_usage_spec [OF su assms(2,3) i] show ?thesis
    using assms i by (simp add: bl_record_usage_batch_def log_defs Let_def bl_stored_def sound_ledger_def)
qed

interpretation sq_usage: usage_port bl_record_usage_batch bl_stored sound_ledger persisted_entry
  by unfold_locales (rule bl_batch_law)

text \<open>The in-memory adapter keeps an entry as it is.\<close>

definition fl_stored :: "fake_ledger \<Rightarrow> string \<Rightarrow> usage_entry option" where
  "fl_stored st k = row_of ue_entry_id k (fl_entries st)"

definition fl_batch :: "usage_entry list \<Rightarrow> (nat \<Rightarrow> int) \<Rightarrow> fake_ledger \<Rightarrow> string list res \<times> fake_ledger" where
  "fl_batch es clk st = fl_record_usage_batch es st"

lemma ledger_append_all_new:
  assumes "distinct (map ue_entry_id xs)" and "\<forall>x\<in>set xs. ue_entry_id x \<notin> ue_entry_id ` set es"
  shows "ledger_append_all xs es = Inr (es @ xs)"
  using assms
proof (induction xs arbitrary: es)
  case (Cons x xs)
  have "ue_entry_id x \<notin> ue_entry_id ` set xs" using Cons.prems(1) by simp
  then have "ue_entry_id y \<noteq> ue_entry_id x" if "y \<in> set xs" for y using that by (metis image_eqI)
  moreover have "ledger_append x es = Inr (es @ [x])"
    using Cons.prems(2) by (auto simp: ledger_append_def list_ex_iff image_iff)
  ultimately show ?case using Cons.IH [of "es @ [x]"] Cons.prems by auto
qed simp

lemma map_filter_ids: "map f (filter (\<lambda>x. P (f x)) xs) = filter P (map f xs)"
  by (induction xs) simp_all

lemma row_of_filter_ids:
  "row_of key k (filter (\<lambda>x. P (key x)) xs) = (if P k then row_of key k xs else None)"
  by (induction xs) (auto simp: row_of_Cons)

lemma fl_batch_law:
  assumes "\<not> ab_closed st" and "distinct (map ue_entry_id es)"
  shows "\<exists>st'. fl_batch es clk st =
      (Inr (filter (\<lambda>k. fl_stored st k = None) (map ue_entry_id es)), st') \<and> \<not> ab_closed st' \<and>
      (\<forall>k. fl_stored st' k = (case fl_stored st k of Some e \<Rightarrow> Some e
         | None \<Rightarrow> map_option (\<lambda>e. e) (row_of ue_entry_id k es)))"
proof -
  let ?P = "\<lambda>k. k \<notin> ue_entry_id ` set (fl_entries st)"
  let ?new = "filter (\<lambda>e. ?P (ue_entry_id e)) es"
  have "distinct (map ue_entry_id ?new)" using assms(2) by (simp add: distinct_map_filter)
  moreover have "ledger_append_all ?new (fl_entries st) = Inr (fl_entries st @ ?new)"
    using calculation by (intro ledger_append_all_new) auto
  moreover have "map ue_entry_id ?new = filter (\<lambda>k. fl_stored st k = None) (map ue_entry_id es)"
    by (simp add: map_filter_ids [where P = ?P] fl_stored_def row_of_None_iff)
  ultimately have "\<exists>st'. fl_batch es clk st =
      (Inr (filter (\<lambda>k. fl_stored st k = None) (map ue_entry_id es)), st') \<and> \<not> ab_closed st' \<and>
      fl_entries st' = fl_entries st @ ?new"
    using assms(1) by (simp add: fl_batch_def fl_record_usage_batch_def fl_enter_def log_defs Let_def)
  moreover have "row_of ue_entry_id k (fl_entries st @ ?new) =
      (case fl_stored st k of Some e \<Rightarrow> Some e | None \<Rightarrow> row_of ue_entry_id k es)" for k
    by (cases "row_of ue_entry_id k (fl_entries st)")
      (simp_all add: row_of_append fl_stored_def row_of_filter_ids [where P = ?P]
        row_of_None_iff [of ue_entry_id k "fl_entries st", symmetric])
  ultimately show ?thesis by (auto simp: fl_stored_def map_option.identity [unfolded id_def] split: option.splits)
qed

interpretation fk_usage: usage_port fl_batch fl_stored "\<lambda>st. \<not> ab_closed st" "\<lambda>e. e"
  by unfold_locales (rule fl_batch_law)

section \<open>An entry in the ledger\<close>

datatype budget_cmd =
    BC_reserve "budget_reservation list" budget_policy int | BC_release string
  | BC_record usage_entry int | BC_batch "usage_entry list" "nat \<Rightarrow> int" | BC_snapshot

fun budget_cmd_ok :: "budget_cmd \<Rightarrow> bool" where
  "budget_cmd_ok (BC_reserve rs p now) = list_all valid_reservation rs"
| "budget_cmd_ok (BC_record e now) = valid_entry e"
| "budget_cmd_ok (BC_batch es clk) = list_all valid_entry es"
| "budget_cmd_ok _ = True"

fun run_budget_cmd :: "budget_digest \<Rightarrow> budget_cmd \<Rightarrow> budget_ledger \<Rightarrow> budget_ledger" where
  "run_budget_cmd dg (BC_reserve rs p now) st = snd (bl_reserve dg rs p now st)"
| "run_budget_cmd dg (BC_release ref) st = bl_release ref st"
| "run_budget_cmd dg (BC_record e now) st = snd (bl_record_usage e now st)"
| "run_budget_cmd dg (BC_batch es clk) st = snd (bl_record_usage_batch es clk st)"
| "run_budget_cmd dg BC_snapshot st = snd (bl_snapshot st)"

definition run_budget :: "budget_digest \<Rightarrow> budget_cmd list \<Rightarrow> budget_ledger \<Rightarrow> budget_ledger" where
  "run_budget dg cmds st = fold (run_budget_cmd dg) cmds st"

lemma decode_reservations_encode:
  "list_all valid_reservation rs \<Longrightarrow>
   map_res decode_reservation (map encode_reservation rs) = Inr (map (\<lambda>r. r\<lparr>bv_reserved_at := None\<rparr>) rs)"
  by (intro map_res_map decode_reservation_encode) (simp add: list_all_iff)

lemma sound_reservations_reserve:
  assumes "sound_reservations rows" and "list_all valid_reservation rs"
  shows "sound_reservations (del_row vr_ref ref rows @ [reservation_row_of ref rs p now])"
  using assms by (auto simp: sound_reservations_def keys_del_row set_del_row reservation_row_of_def
      decode_reservations_encode)

lemma sound_reservations_release:
  "sound_reservations rows \<Longrightarrow> sound_reservations (release_rows ref rows)"
  by (auto simp: sound_reservations_def release_rows_def keys_upd_row set_upd_row split: if_splits)

lemma snapshot_keeps:
  "bl_usage (snd (snapshot_of k st)) = bl_usage st"
  "bl_reservations (snd (snapshot_of k st)) = bl_reservations st"
  "ab_closed (snd (snapshot_of k st)) = ab_closed st"
  by (auto simp: snapshot_of_def log_defs Let_def split: sum.split)

lemma bl_record_usage_batch_dup:
  "\<not> distinct (map ue_entry_id es) \<Longrightarrow>
   bl_usage (snd (bl_record_usage_batch es clk st)) = bl_usage st \<and>
   bl_reservations (snd (bl_record_usage_batch es clk st)) = bl_reservations st \<and>
   ab_closed (snd (bl_record_usage_batch es clk st)) = ab_closed st"
  by (simp add: bl_record_usage_batch_def log_defs Let_def)

lemma bl_record_usage_sound:
  assumes "sound_ledger st" and "valid_entry e"
  shows "sound_ledger (snd (bl_record_usage e now st))"
    and "bl_stored st k = Some x \<Longrightarrow> bl_stored (snd (bl_record_usage e now st)) k = Some x"
proof -
  let ?st = "snd (bl_record_usage e now st)"
  have *: "bl_usage ?st = (if row_of us_entry_id (ue_entry_id e) (bl_usage st) = None
        then bl_usage st @ [usage_row_of e now] else bl_usage st)"
      "bl_reservations ?st = bl_reservations st" "ab_closed ?st = ab_closed st"
    by (auto simp: bl_record_usage_def log_defs Let_def)
  with assms show "sound_ledger ?st" by (simp add: sound_ledger_def sound_usage_snoc)
  assume k: "bl_stored st k = Some x"
  then have "row_of us_entry_id k (bl_usage st) \<noteq> None" by (auto simp: bl_stored_def usage_of_def split: bind_splits)
  with k * usage_of_snoc [OF assms(2), of "bl_usage st" now k] show "bl_stored ?st k = Some x"
    by (auto simp: bl_stored_def)
qed

lemma run_budget_cmd_sound:
  assumes "sound_ledger st" and "budget_cmd_ok c"
  shows "sound_ledger (run_budget_cmd dg c st) \<and>
    (\<forall>k x. bl_stored st k = Some x \<longrightarrow> bl_stored (run_budget_cmd dg c st) k = Some x)"
proof (cases c)
  case (BC_reserve rs p now)
  with assms show ?thesis
    by (simp add: bl_reserve_def log_defs Let_def sound_ledger_def bl_stored_def sound_reservations_reserve)
next
  case (BC_release ref)
  with assms show ?thesis
    by (simp add: bl_release_def log_defs Let_def sound_ledger_def bl_stored_def sound_reservations_release)
next
  case (BC_record e now)
  with assms show ?thesis by (simp add: bl_record_usage_sound)
next
  case (BC_batch es clk)
  show ?thesis
  proof (cases "distinct (map ue_entry_id es)")
    case True
    with assms BC_batch bl_batch_law [of st es clk] show ?thesis by auto
  next
    case False
    with assms BC_batch bl_record_usage_batch_dup [OF False, of clk st] show ?thesis
      by (simp add: sound_ledger_def bl_stored_def)
  qed
next
  case BC_snapshot
  with assms show ?thesis by (simp add: bl_snapshot_def snapshot_keeps sound_ledger_def bl_stored_def)
qed

lemma run_budget_sound:
  assumes "sound_ledger st" and "list_all budget_cmd_ok cmds"
  shows "sound_ledger (run_budget dg cmds st) \<and>
    (\<forall>k x. bl_stored st k = Some x \<longrightarrow> bl_stored (run_budget dg cmds st) k = Some x)"
  using assms
proof (induction cmds arbitrary: st)
  case (Cons c cmds)
  have "sound_ledger (run_budget_cmd dg c st)" using run_budget_cmd_sound [of st c dg] Cons.prems by simp
  with Cons.IH [of "run_budget_cmd dg c st"] run_budget_cmd_sound [of st c dg] Cons.prems show ?case
    by (simp add: run_budget_def)
qed (simp add: run_budget_def)

text \<open>What a snapshot shows.\<close>

lemma map_res_total:
  assumes "\<forall>x\<in>set xs. \<exists>y. f x = Inr y \<and> P x y"
  shows "\<exists>ys. map_res f xs = Inr ys \<and> list_all2 P xs ys"
  using assms
proof (induction xs)
  case (Cons x xs)
  then obtain y ys where "f x = Inr y" "P x y" "map_res f xs = Inr ys" "list_all2 P xs ys"
    by (metis list.set_intros)
  then show ?case by auto
qed simp

lemma live_reservations_ok:
  assumes "sound_reservations rows"
  shows "\<exists>by_ref. live_reservations rows = Inr by_ref"
proof -
  let ?f = "\<lambda>r. bind_res (as_list decode_reservation (vr_reservations r)) (\<lambda>rs. Inr (vr_ref r, rs))"
  have "\<forall>x\<in>set (filter (\<lambda>r. \<not> vr_released r) rows). \<exists>y. ?f x = Inr y \<and> True"
    using assms by (fastforce simp: sound_reservations_def)
  from map_res_total [OF this] show ?thesis by (auto simp: live_reservations_def)
qed

lemma snapshot_reads:
  assumes "sound_ledger st"
  shows "\<exists>snap st'. snapshot_of order st = (Inr snap, st') \<and>
    live_reservations (bl_reservations st) = Inr (sn_by_ref snap) \<and>
    sn_reservations snap = concat (map snd (sn_by_ref snap)) \<and>
    distinct (map ue_entry_id (sn_entries snap)) \<and>
    (\<forall>e. e \<in> set (sn_entries snap) \<longleftrightarrow> bl_stored st (ue_entry_id e) = Some e)"
proof -
  let ?rows = "sort_key order (bl_usage st)"
  have u: "sound_usage (bl_usage st)" using assms by (simp add: sound_ledger_def)
  obtain by_ref where by_ref: "live_reservations (bl_reservations st) = Inr by_ref"
    using assms live_reservations_ok by (auto simp: sound_ledger_def)
  let ?R = "\<lambda>r e. decode_usage_entry (us_entry r) = Inr e \<and> ue_entry_id e = us_entry_id r"
  have "\<forall>x\<in>set ?rows. \<exists>y. decode_usage_entry (us_entry x) = Inr y \<and> ?R x y"
    using u by (auto simp: sound_usage_def)
  from map_res_total [OF this] obtain es
    where es: "map_res (\<lambda>r. decode_usage_entry (us_entry r)) ?rows = Inr es" "list_all2 ?R ?rows es" by blast
  have ids: "map ue_entry_id es = map us_entry_id ?rows"
    using es(2) by (induction rule: list_all2_induct) auto
  have "distinct (map us_entry_id ?rows)" using u by (simp add: sound_usage_def distinct_map)
  moreover have "e \<in> set es \<longleftrightarrow> bl_stored st (ue_entry_id e) = Some e" for e
  proof
    assume "e \<in> set es"
    then obtain r where r: "r \<in> set ?rows" "?R r e" using list_all2_members(2) [OF es(2)] by blast
    then have "r \<in> set (bl_usage st)" by simp
    then have "row_of us_entry_id (us_entry_id r) (bl_usage st) = Some r"
      using u by (intro row_of_distinct) (simp_all add: sound_usage_def)
    with r(2) show "bl_stored st (ue_entry_id e) = Some e" by (simp add: bl_stored_def usage_of_def entry_of_row_def)
  next
    assume "bl_stored st (ue_entry_id e) = Some e"
    then obtain r where r: "row_of us_entry_id (ue_entry_id e) (bl_usage st) = Some r" "entry_of_row r = Some e"
      by (auto simp: bl_stored_def usage_of_def split: bind_splits)
    then have "r \<in> set ?rows" using row_of_SomeD(1) [OF r(1)] by simp
    then obtain e' where "e' \<in> set es" "?R r e'" using list_all2_members(1) [OF es(2)] by blast
    with r(2) show "e \<in> set es" by (simp add: entry_of_row_def)
  qed
  ultimately show ?thesis using by_ref es(1) ids by (simp add: snapshot_of_def log_defs Let_def)
qed

lemma bl_snapshot_reads:
  assumes "sound_ledger st"
  shows "\<exists>snap st'. bl_snapshot st = (Inr snap, st') \<and> distinct (map ue_entry_id (sn_entries snap)) \<and>
    (\<forall>e. e \<in> set (sn_entries snap) \<longleftrightarrow> bl_stored st (ue_entry_id e) = Some e)"
  unfolding bl_snapshot_def using snapshot_reads [OF assms] by blast

text \<open>
  C36: usage is accounted once. Recording a batch of valid entries with distinct ids answers
  with exactly the ids that were new; through any later reservations, releases, records,
  batches and snapshots every entry stays as it was first stored (with the same quantity: only
  an integral \<^verbatim>\<open>Decimal\<close> comes back as an integer), sending the batch again writes nothing, and
  a snapshot lists exactly the stored entries, each id once.
\<close>

theorem usage_is_accounted_once:
  assumes "sound_ledger st" and "list_all valid_entry es" and "distinct (map ue_entry_id es)"
    and "list_all budget_cmd_ok cmds"
    and "bl_record_usage_batch es clk st = (res, st1)" and "run_budget dg cmds st1 = st2"
  shows "res = Inr (filter (\<lambda>k. bl_stored st k = None) (map ue_entry_id es)) \<and>
    (\<forall>e\<in>set es. bl_stored st2 (ue_entry_id e) =
       Some (case bl_stored st (ue_entry_id e) of Some x \<Rightarrow> x | None \<Rightarrow> persisted_entry e)) \<and>
    (\<forall>k x. bl_stored st k = Some x \<longrightarrow> bl_stored st2 k = Some x) \<and>
    (\<forall>e. qty_val (ue_quantity (persisted_entry e)) = qty_val (ue_quantity e)) \<and>
    (\<exists>st3. bl_record_usage_batch es clk' st2 = (Inr [], st3) \<and> bl_stored st3 = bl_stored st2) \<and>
    (\<exists>snap st4. bl_snapshot st2 = (Inr snap, st4) \<and> distinct (map ue_entry_id (sn_entries snap)) \<and>
       (\<forall>e. e \<in> set (sn_entries snap) \<longleftrightarrow> bl_stored st2 (ue_entry_id e) = Some e))"
proof -
  note step = sq_usage.batch_step [OF assms(1-3,5)]
  note later = run_budget_sound [OF step(2) assms(4), of dg, unfolded assms(6)]
  have kept: "bl_stored st2 (ue_entry_id e) =
      Some (case bl_stored st (ue_entry_id e) of Some x \<Rightarrow> x | None \<Rightarrow> persisted_entry e)" if "e \<in> set es" for e
    using later sq_usage.batch_covers [OF assms(1-3,5) that] by blast
  have "\<exists>st3. bl_record_usage_batch es clk' st2 = (Inr [], st3) \<and> bl_stored st3 = bl_stored st2"
    using sq_usage.replay_writes_nothing [of st2 es clk'] later assms(2,3) kept by auto
  moreover have "\<forall>k x. bl_stored st k = Some x \<longrightarrow> bl_stored st2 k = Some x"
    using later sq_usage.batch_keeps [OF assms(1-3,5)] by blast
  moreover have "qty_val (ue_quantity (persisted_entry e)) = qty_val (ue_quantity e)" for e
    by (simp add: persisted_entry_def persisted_quantity_val)
  ultimately show ?thesis
    using step(1) kept bl_snapshot_reads [OF conjunct1 [OF later]] by simp
qed

definition empty_ledger :: budget_ledger where
  "empty_ledger = \<lparr>ab_closed = False, ab_calls = [], bl_reservations = [], bl_usage = []\<rparr>"

definition sample_entry :: usage_entry where
  "sample_entry = (entry_defaults ''u1'' CPU_TIME (QDec (Dec 25 (- 1))) ''seconds'' ''m12:experiment'' 7)
     \<lparr>ue_run_id := Some ''r1''\<rparr>"

lemma sound_empty [simp]: "sound_ledger empty_ledger" "bl_stored empty_ledger k = None"
  by (simp_all add: sound_ledger_def empty_ledger_def sound_usage_def sound_reservations_def bl_stored_def
      usage_of_def)

lemma valid_sample: "valid_entry sample_entry"
  unfolding valid_entry_def usage_entry_post_init_def first_error_ok_iff
  by (simp add: sample_entry_def entry_defaults_def qty_negative_def dec_less_def dec_align_def dec_of_int_def)

lemma usage_is_accounted_once_witness:
  "\<exists>st1 st3. bl_record_usage_batch [sample_entry] (\<lambda>i. 9) empty_ledger = (Inr [''u1''], st1) \<and>
     bl_stored (run_budget (\<lambda>_. ''d'') [BC_record sample_entry 10, BC_release ''x''] st1) ''u1'' = Some sample_entry \<and>
     bl_record_usage_batch [sample_entry] (\<lambda>i. 11)
       (run_budget (\<lambda>_. ''d'') [BC_record sample_entry 10, BC_release ''x''] st1) = (Inr [], st3)"
proof -
  obtain res st1 where b: "bl_record_usage_batch [sample_entry] (\<lambda>i. 9) empty_ledger = (res, st1)" by fastforce
  have id: "ue_entry_id sample_entry = ''u1''" "persisted_entry sample_entry = sample_entry"
    by (simp_all add: sample_entry_def entry_defaults_def persisted_entry_def dec_integral_def)
  show ?thesis
    using usage_is_accounted_once [OF sound_empty(1) _ _ _ b refl, of "[BC_record sample_entry 10, BC_release ''x'']"
        "\<lambda>_. ''d''" "\<lambda>i. 11"] b valid_sample id by auto
qed

end
