(* ===== verification/Closure_Properties.thy ===== *)
theory Closure_Properties
  imports Budget_Properties
begin

text \<open>
  When a closure records its usage, and what an adjustment leaves reserved. The locale
  \<open>closing_port\<close> extends \<open>usage_port\<close> by the snapshot of the port; the closure is proved once
  in it and holds for the SQLite and the in-memory adapter.
\<close>

section \<open>The entries of a closure\<close>

definition costed :: "usage_entry \<Rightarrow> usage_entry" where
  "costed e = e\<lparr>ue_cost_status := (if ue_estimated_cost_minor e \<noteq> None then COST_KNOWN else COST_UNKNOWN)\<rparr>"

definition closure_drafts :: "closure_input \<Rightarrow> int \<Rightarrow> usage_entry list" where
  "closure_drafts i now =
     concat (map (model_drafts (ci_run_id i) now (ci_task_id i) (ci_agent_id i)) (ci_model_usage i)) @
     map (tool_draft (ci_run_id i) now (ci_task_id i)) (ci_tool_usage i) @
     concat (map (experiment_drafts (ci_run_id i) now (ci_task_id i)) (ci_experiment_usage i)) @
     map (evaluation_draft (ci_run_id i) now (ci_task_id i) (ci_agent_id i)) (ci_evaluation_usage i)"

lemma make_entry_Inr: "make_entry e = Inr v \<longleftrightarrow> v = costed e \<and> valid_entry (costed e)"
  by (simp add: make_entry_def costed_def post_init_Inr)

lemma make_entries_Inr:
  "map_res make_entry ds = Inr es \<longleftrightarrow> es = map costed ds \<and> list_all (\<lambda>d. valid_entry (costed d)) ds"
proof (induction ds arbitrary: es)
  case (Cons d ds)
  have "map_res make_entry (d # ds) = Inr es \<longleftrightarrow>
      (\<exists>ys. valid_entry (costed d) \<and> map_res make_entry ds = Inr ys \<and> es = costed d # ys)"
    unfolding map_res.simps bind_res_Inr_iff make_entry_Inr sum.inject by blast
  then show ?case by (simp only: Cons.IH list.map list.pred_inject) blast
qed auto

lemma closure_entries_Inr:
  "closure_entries i now = Inr es \<longleftrightarrow>
     es = map costed (closure_drafts i now) \<and> list_all (\<lambda>d. valid_entry (costed d)) (closure_drafts i now)"
  unfolding closure_entries_def closure_drafts_def model_entries_def tool_entries_def
    experiment_entries_def evaluation_entries_def bind_res_Inr_iff make_entries_Inr sum.inject
    list_all_append map_append by blast

lemma closure_entries_valid: "closure_entries i now = Inr es \<Longrightarrow> list_all valid_entry es"
  by (simp add: closure_entries_Inr list.pred_map comp_def)

lemma costed_simps [simp]:
  "ue_entry_id (costed e) = ue_entry_id e" "ue_resource_type (costed e) = ue_resource_type e"
  "ue_quantity (costed e) = ue_quantity e" "ue_quantity_status (costed e) = ue_quantity_status e"
  by (simp_all add: costed_def)

section \<open>The summary\<close>

definition total_of :: "resource_type \<Rightarrow> usage_entry list \<Rightarrow> int" where
  "total_of ty es = sum_list (map (\<lambda>e. if ue_resource_type e = ty then qty_int (ue_quantity e) else 0) es)"

lemma total_of_simps [simp]:
  "total_of ty [] = 0"
  "total_of ty (e # es) = (if ue_resource_type e = ty then qty_int (ue_quantity e) else 0) + total_of ty es"
  "total_of ty (xs @ ys) = total_of ty xs + total_of ty ys"
  by (simp_all add: total_of_def)

lemma total_of_costed [simp]: "total_of ty (map costed es) = total_of ty es"
  by (induction es) simp_all

lemma summarize_fold:
  "sm_total_tokens (fold summarize_entry es s) = sm_total_tokens s + total_of MODEL_TOKENS es"
  "sm_tool_requests (fold summarize_entry es s) = sm_tool_requests s + total_of TOOL_REQUESTS es"
  by (induction es arbitrary: s) (simp_all add: summarize_entry_def)

lemma summarize_totals:
  "sm_total_tokens (summarize es) = total_of MODEL_TOKENS es"
  "sm_tool_requests (summarize es) = total_of TOOL_REQUESTS es"
  by (simp_all add: summarize_def summarize_fold)

lemma summarize_runs:
  "sm_experiment_runs (fold summarize_entry es s) =
     sm_experiment_runs s + int (length (filter (\<lambda>e. ue_resource_type e = CPU_TIME) es))"
  by (induction es arbitrary: s) (simp_all add: summarize_entry_def)

lemma closure_runs:
  assumes "closure_entries i now = Inr es"
  shows "sm_experiment_runs (summarize es) = int (length (ci_experiment_usage i))"
proof -
  let ?n = "\<lambda>ds. length (filter (\<lambda>e. ue_resource_type e = CPU_TIME) ds)"
  have "?n (concat (map (model_drafts r now t a) ms)) = 0" for r t a ms
    by (induction ms) (simp_all add: model_drafts_def Let_def entry_defaults_def)
  moreover have "?n (map (tool_draft r now t) ts) = 0" for r t ts
    by (induction ts) (simp_all add: tool_draft_def entry_defaults_def)
  moreover have "?n (map (evaluation_draft r now t a) vs) = 0" for r t a vs
    by (induction vs) (simp_all add: evaluation_draft_def entry_defaults_def)
  moreover have "?n (concat (map (experiment_drafts r now t) xs)) = length xs" for r t xs
    by (induction xs) (simp_all add: experiment_drafts_def cpu_time_draft_def gpu_time_draft_def entry_defaults_def)
  ultimately have drafts: "?n (closure_drafts i now) = length (ci_experiment_usage i)"
    by (simp add: closure_drafts_def)
  have "?n (map costed ds) = ?n ds" for ds by (induction ds) simp_all
  moreover have "es = map costed (closure_drafts i now)" using assms by (simp add: closure_entries_Inr)
  ultimately have "?n es = ?n (closure_drafts i now)" by simp
  with drafts show ?thesis by (simp add: summarize_def summarize_runs)
qed

definition known_tokens :: "model_usage \<Rightarrow> int" where
  "known_tokens u = (if mu_unavailable_reason u = None then mu_prompt_tokens u + mu_completion_tokens u else 0)"

lemma draft_totals:
  "total_of ty (model_drafts r now t a u) =
     (if ty = MODEL_TOKENS then known_tokens u else if ty = MODEL_REQUESTS then mu_calls u else 0)"
  "total_of ty [tool_draft r now t v] = (if ty = TOOL_REQUESTS then tu_requests v else 0)"
  "ty \<noteq> CPU_TIME \<Longrightarrow> ty \<noteq> GPU_TIME \<Longrightarrow> total_of ty (experiment_drafts r now t x) = 0"
  "ty \<noteq> EVALUATION_SCORER \<Longrightarrow> total_of ty [evaluation_draft r now t a y] = 0"
  by (simp_all add: model_drafts_def Let_def entry_defaults_def known_tokens_def tool_draft_def
      experiment_drafts_def cpu_time_draft_def gpu_time_draft_def evaluation_draft_def)

lemma total_of_concat: "total_of ty (concat (map f us)) = sum_list (map (\<lambda>u. total_of ty (f u)) us)"
  by (induction us) simp_all

lemma total_of_map: "total_of ty (map f us) = sum_list (map (\<lambda>u. total_of ty [f u]) us)"
  by (induction us) simp_all

lemma closure_totals:
  assumes "closure_entries i now = Inr es"
  shows "sm_total_tokens (summarize es) = sum_list (map known_tokens (ci_model_usage i))"
    and "sm_tool_requests (summarize es) = sum_list (map tu_requests (ci_tool_usage i))"
proof -
  have "total_of ty es = total_of ty (closure_drafts i now)" for ty
    using assms by (simp only: closure_entries_Inr total_of_costed)
  then show "sm_total_tokens (summarize es) = sum_list (map known_tokens (ci_model_usage i))"
    and "sm_tool_requests (summarize es) = sum_list (map tu_requests (ci_tool_usage i))"
    by (simp_all add: summarize_totals closure_drafts_def total_of_concat total_of_map draft_totals
        del: total_of_simps(2))
qed

section \<open>The limits\<close>

definition limit_exceeded :: "budget_policy \<Rightarrow> string \<Rightarrow> rat \<Rightarrow> bool" where
  "limit_exceeded p key used = (\<exists>l. map_of (bp_hard_limits p) key = Some l \<and> of_int l < used)"

definition exhausted :: "budget_policy option \<Rightarrow> usage_summary \<Rightarrow> bool" where
  "exhausted policy sm = (case policy of None \<Rightarrow> False
     | Some p \<Rightarrow> limit_exceeded p ''model_tokens'' (of_int (sm_total_tokens sm)) \<or>
         limit_exceeded p ''tool_requests'' (of_int (sm_tool_requests sm)) \<or>
         limit_exceeded p ''wall_clock_seconds'' (qty_val (sm_experiment_seconds sm)))"

lemma dec_val_int [simp]: "dec_val (dec_of_int i) = of_int i"
  by (simp add: dec_val_def dec_of_int_def)

lemma over_limit_None_iff: "over_limit p key q = None \<longleftrightarrow> \<not> limit_exceeded p key (qty_val q)"
  by (auto simp: over_limit_def limit_exceeded_def qty_val_def dec_less_iff split: option.splits)

lemma enforce_limits_cases:
  "if exhausted (Some p) sm
   then \<exists>msg. enforce_limits p (sm_total_tokens sm) (sm_tool_requests sm) (sm_experiment_seconds sm) =
     Inl (BudgetExhaustedError msg)
   else enforce_limits p (sm_total_tokens sm) (sm_tool_requests sm) (sm_experiment_seconds sm) = Inr ()"
  using over_limit_None_iff [of p "''model_tokens''" "QInt (sm_total_tokens sm)"]
    over_limit_None_iff [of p "''tool_requests''" "QInt (sm_tool_requests sm)"]
    over_limit_None_iff [of p "''wall_clock_seconds''" "sm_experiment_seconds sm"]
  by (auto simp: enforce_limits_def exhausted_def qty_val_def split: option.splits)

text \<open>
  The same from the input of the closure alone: the seconds are the observed ones, added in order as
  the decimals they are. Of the policy's keys only these three are looked at.
\<close>

definition observed_seconds :: "closure_input \<Rightarrow> quantity" where
  "observed_seconds i =
     fold (\<lambda>u acc. qty_add acc (qty_or_zero (xu_elapsed_seconds u))) (ci_experiment_usage i) (QDec (dec_of_int 0))"

definition overrun :: "budget_policy option \<Rightarrow> closure_input \<Rightarrow> bool" where
  "overrun policy i = (case policy of None \<Rightarrow> False
     | Some p \<Rightarrow> limit_exceeded p ''model_tokens'' (of_int (sum_list (map known_tokens (ci_model_usage i)))) \<or>
         limit_exceeded p ''tool_requests'' (of_int (sum_list (map tu_requests (ci_tool_usage i)))) \<or>
         limit_exceeded p ''wall_clock_seconds'' (qty_val (observed_seconds i)))"

definition seconds_fold :: "usage_entry list \<Rightarrow> quantity \<Rightarrow> quantity" where
  "seconds_fold es q = fold (\<lambda>e acc. if ue_resource_type e = CPU_TIME then qty_add acc (ue_quantity e) else acc) es q"

lemma seconds_fold_simps [simp]:
  "seconds_fold [] q = q" "seconds_fold (xs @ ys) q = seconds_fold ys (seconds_fold xs q)"
  by (simp_all add: seconds_fold_def)

lemma seconds_fold_costed: "seconds_fold (map costed es) q = seconds_fold es q"
  unfolding seconds_fold_def by (induction es arbitrary: q) simp_all

lemma summarize_seconds:
  "sm_experiment_seconds (fold summarize_entry es s) = seconds_fold es (sm_experiment_seconds s)"
  unfolding seconds_fold_def by (induction es arbitrary: s) (simp_all add: summarize_entry_def)

lemma seconds_of_drafts:
  "seconds_fold (concat (map (model_drafts r now t a) ms)) q = q"
  "seconds_fold (map (tool_draft r now t) ts) q = q"
  "seconds_fold (map (evaluation_draft r now t a) vs) q = q"
  "seconds_fold (concat (map (experiment_drafts r now t) xs)) q =
     fold (\<lambda>u acc. qty_add acc (qty_or_zero (xu_elapsed_seconds u))) xs q"
proof -
  show "seconds_fold (concat (map (model_drafts r now t a) ms)) q = q"
    by (induction ms) (simp_all add: seconds_fold_def model_drafts_def Let_def entry_defaults_def)
  show "seconds_fold (map (tool_draft r now t) ts) q = q"
    by (induction ts) (simp_all add: seconds_fold_def tool_draft_def entry_defaults_def)
  show "seconds_fold (map (evaluation_draft r now t a) vs) q = q"
    by (induction vs) (simp_all add: seconds_fold_def evaluation_draft_def entry_defaults_def)
  show "seconds_fold (concat (map (experiment_drafts r now t) xs)) q =
      fold (\<lambda>u acc. qty_add acc (qty_or_zero (xu_elapsed_seconds u))) xs q"
    by (induction xs arbitrary: q)
      (simp_all add: seconds_fold_def experiment_drafts_def cpu_time_draft_def gpu_time_draft_def entry_defaults_def)
qed

lemma closure_seconds:
  assumes "closure_entries i now = Inr es"
  shows "sm_experiment_seconds (summarize es) = observed_seconds i"
proof -
  have "es = map costed (closure_drafts i now)" using assms by (simp add: closure_entries_Inr)
  then have "sm_experiment_seconds (summarize es) = seconds_fold (closure_drafts i now) (QDec (dec_of_int 0))"
    by (simp only: summarize_def summarize_seconds seconds_fold_costed usage_summary.simps)
  then show ?thesis by (simp add: closure_drafts_def seconds_of_drafts observed_seconds_def)
qed

lemma exhausted_overrun: "closure_entries i now = Inr es \<Longrightarrow> exhausted policy (summarize es) = overrun policy i"
  by (simp add: exhausted_def overrun_def closure_totals closure_seconds split: option.split)

text \<open>For whole seconds within the context of the decimals the sum is the exact one.\<close>

lemma observed_seconds_exact:
  assumes "\<And>u. u \<in> set (ci_experiment_usage i) \<Longrightarrow> \<exists>n. xu_elapsed_seconds u = Some (QInt n) \<and> 0 \<le> n"
    and "sum_list (map (qty_int \<circ> the \<circ> xu_elapsed_seconds) (ci_experiment_usage i)) < 10 ^ 28"
  shows "qty_val (observed_seconds i) =
    of_int (sum_list (map (qty_int \<circ> the \<circ> xu_elapsed_seconds) (ci_experiment_usage i)))"
proof -
  let ?sec = "qty_int \<circ> the \<circ> xu_elapsed_seconds"
  have "fold (\<lambda>u acc. qty_add acc (qty_or_zero (xu_elapsed_seconds u))) xs (QDec (dec_of_int k)) =
      QDec (dec_of_int (k + sum_list (map ?sec xs)))"
    if "\<And>u. u \<in> set xs \<Longrightarrow> \<exists>n. xu_elapsed_seconds u = Some (QInt n) \<and> 0 \<le> n" "0 \<le> k"
      "k + sum_list (map ?sec xs) < 10 ^ 28" for xs k
    using that
  proof (induction xs arbitrary: k)
    case (Cons u xs)
    obtain n where n: "xu_elapsed_seconds u = Some (QInt n)" "0 \<le> n" using Cons.prems(1) [of u] by auto
    have rest: "0 \<le> sum_list (map ?sec xs)"
      using Cons.prems(1) by (intro sum_list_nonneg) fastforce
    have "num_digits (nat (k + n)) \<le> 28"
      using Cons.prems(2,3) n rest by (intro num_digits_bound) (simp_all add: nat_less_iff comp_def)
    then have "dec_add (dec_of_int k) (dec_of_int n) = dec_of_int (k + n)"
      using Cons.prems(2) n(2) by (simp add: dec_add_def dec_align_def dec_of_int_def dec_fix_fits fits_def dec_prec_def)
    then have "qty_add (QDec (dec_of_int k)) (qty_or_zero (xu_elapsed_seconds u)) = QDec (dec_of_int (k + n))"
      using n by (auto simp: qty_or_zero_def qty_zero_def dec_eq_iff)
    then show ?case using Cons.IH [of "k + n"] Cons.prems n by (simp add: add.assoc)
  qed simp
  from this [of "ci_experiment_usage i" 0] assms show ?thesis by (simp add: observed_seconds_def qty_val_def)
qed

section \<open>The closure over any port\<close>

locale closing_port = usage_port batch stored usable kept
  for batch :: "usage_entry list \<Rightarrow> (nat \<Rightarrow> int) \<Rightarrow> 's \<Rightarrow> string list res \<times> 's"
    and stored usable kept +
  fixes snapshot :: "'s \<Rightarrow> ledger_snapshot res \<times> 's"
  assumes snapshot_law:
    "usable s \<Longrightarrow> \<exists>snap s'. snapshot s = (Inr snap, s') \<and> usable s' \<and> stored s' = stored s"
begin

lemma exhausted_closure:
  assumes "closure_entries i now = Inr es" and "exhausted policy (summarize es)"
  shows "\<exists>msg. close_budget (\<lambda>es. batch es clk) snapshot now i policy ref s = (Inl (BudgetExhaustedError msg), s)"
proof -
  obtain p where p: "policy = Some p" using assms(2) by (cases policy) (auto simp: exhausted_def)
  then obtain msg where "enforce_limits p (sm_total_tokens (summarize es)) (sm_tool_requests (summarize es))
      (sm_experiment_seconds (summarize es)) = Inl (BudgetExhaustedError msg)"
    using enforce_limits_cases [of p "summarize es"] assms(2) by auto
  with assms(1) p show ?thesis by (simp add: close_budget_def Let_def)
qed

lemma check_reservation_law:
  assumes "usable s"
  shows "\<exists>ok s'. check_reservation snapshot ref t q s = (Inr ok, s') \<and> usable s' \<and> stored s' = stored s \<and>
    (ref = None \<longrightarrow> ok = False)"
  using snapshot_law [OF assms] assms by (auto simp: check_reservation_def Let_def)

lemma recorded_closure:
  assumes "usable s" and "closure_entries i now = Inr es" and "distinct (map ue_entry_id es)"
    and "\<not> exhausted policy (summarize es)"
  shows "\<exists>r s'. close_budget (\<lambda>es. batch es clk) snapshot now i policy ref s = (Inr r, s') \<and> usable s' \<and>
    cr_entries r = es \<and> cr_total_tokens r = sum_list (map known_tokens (ci_model_usage i)) \<and>
    cr_tool_requests r = sum_list (map tu_requests (ci_tool_usage i)) \<and>
    cr_experiment_runs r = int (length (ci_experiment_usage i)) \<and>
    (\<forall>k. stored s' k = (case stored s k of Some e \<Rightarrow> Some e
       | None \<Rightarrow> map_option kept (row_of ue_entry_id k es)))"
proof -
  have valid: "list_all valid_entry es" using assms(2) by (rule closure_entries_valid)
  obtain ids s1 where b: "batch es clk s = (Inr ids, s1)" "usable s1"
      "\<And>k. stored s1 k = (case stored s k of Some e \<Rightarrow> Some e
         | None \<Rightarrow> map_option kept (row_of ue_entry_id k es))"
    using batch_law [OF assms(1) valid assms(3), of clk] by auto
  obtain ok s2 where c: "check_reservation snapshot ref (sm_total_tokens (summarize es))
      (sm_tool_requests (summarize es)) s1 = (Inr ok, s2)" "usable s2" "stored s2 = stored s1"
    using check_reservation_law [OF b(2)] by blast
  have lim: "(case policy of None \<Rightarrow> Inr ()
      | Some p \<Rightarrow> enforce_limits p (sm_total_tokens (summarize es)) (sm_tool_requests (summarize es))
          (sm_experiment_seconds (summarize es))) = Inr ()"
    using enforce_limits_cases [of _ "summarize es"] assms(4) by (cases policy) auto
  show ?thesis
    using assms(2) b c lim closure_totals [OF assms(2)] closure_runs [OF assms(2)] by (simp add: close_budget_def Let_def)
qed

end

lemma bl_snapshot_law:
  assumes "sound_ledger st"
  shows "\<exists>snap st'. bl_snapshot st = (Inr snap, st') \<and> sound_ledger st' \<and> bl_stored st' = bl_stored st"
proof -
  have "sound_ledger (snd (bl_snapshot st)) \<and> bl_stored (snd (bl_snapshot st)) = bl_stored st"
    using assms by (simp add: bl_snapshot_def snapshot_keeps sound_ledger_def bl_stored_def)
  with bl_snapshot_reads [OF assms] show ?thesis by force
qed

interpretation sq_closing: closing_port bl_record_usage_batch bl_stored sound_ledger persisted_entry bl_snapshot
  by unfold_locales (rule bl_snapshot_law)

interpretation fk_closing: closing_port fl_batch fl_stored "\<lambda>st. \<not> ab_closed st" "\<lambda>e. e" fl_snapshot
  by unfold_locales (simp add: fl_snapshot_def fl_enter_def log_defs fl_stored_def fun_eq_iff)

section \<open>A closure of collected usage\<close>

lemma attempt_scope_inj [simp]: "attempt_scope a n = attempt_scope b n \<longleftrightarrow> a = b"
  by (simp add: attempt_scope_def)

lemma draft_ids:
  "map ue_entry_id (model_drafts r now t a u) =
     [attempt_scope (''usage:'' @ r @ '':model:'' @ mu_model_id u) (mu_attempt u),
      attempt_scope (''usage:'' @ r @ '':model:'' @ mu_model_id u @ '':calls'') (mu_attempt u)]"
  "ue_entry_id (tool_draft r now t v) = attempt_scope (''usage:'' @ r @ '':tool:'' @ tu_tool_id v) (tu_attempt v)"
  "map ue_entry_id (experiment_drafts r now t x) =
     attempt_scope (''usage:'' @ r @ '':experiment:'' @ xu_run_id x) (xu_attempt x) #
     (if xu_gpu_elapsed_seconds x = None then []
      else [attempt_scope (''usage:'' @ r @ '':experiment:'' @ xu_run_id x @ '':gpu'') (xu_attempt x)])"
  "ue_entry_id (evaluation_draft r now t a y) =
     attempt_scope (''usage:'' @ r @ '':eval:'' @ vu_eval_id y) (vu_attempt y)"
  by (simp_all add: model_drafts_def tool_draft_def experiment_drafts_def cpu_time_draft_def
      gpu_time_draft_def evaluation_draft_def entry_defaults_def Let_def)

text \<open>The ids of one collection never clash.\<close>

definition collected_bases :: "usage_collection \<Rightarrow> string list" where
  "collected_bases c =
     map (\<lambda>b. ''usage:'' @ uc_run_id c @ '':'' @ b)
       ((if uc_completions c = [] then []
         else [''model:'' @ str_or (uc_model_id c) ''unknown'',
               ''model:'' @ str_or (uc_model_id c) ''unknown'' @ '':calls'']) @
        map (\<lambda>t. ''tool:'' @ t) (sort (remdups (uc_tool_results c))) @
        (case uc_experiment c of None \<Rightarrow> []
         | Some x \<Rightarrow> (''experiment:'' @ xo_execution_run_id x) #
             (if xo_gpu_elapsed_seconds x = None then []
              else [''experiment:'' @ xo_execution_run_id x @ '':gpu''])) @
        (case uc_eval_report c of None \<Rightarrow> [] | Some r \<Rightarrow> [''eval:'' @ er_report_id r]))"

lemma collected_ids:
  "map ue_entry_id (closure_drafts (fst (collect_usage c)) now) =
     map (\<lambda>b. attempt_scope b (uc_attempt c)) (collected_bases c)"
  by (auto simp: collect_usage_def Let_def closure_drafts_def collect_model_usage_def collect_tool_usage_def
      collect_experiment_usage_def collect_evaluation_usage_def collected_bases_def draft_ids map_concat
      split: option.splits)

lemma collected_bases_distinct: "distinct (collected_bases c)"
  by (auto simp: collected_bases_def distinct_map inj_on_def split: option.splits)

lemma collected_entry_ids:
  assumes "closure_entries (fst (collect_usage c)) now = Inr es"
  shows "map ue_entry_id es = map (\<lambda>b. attempt_scope b (uc_attempt c)) (collected_bases c)"
  using assms collected_ids [of c now] by (simp add: closure_entries_Inr comp_def)

lemma collected_ids_distinct:
  assumes "closure_entries (fst (collect_usage c)) now = Inr es"
  shows "distinct (map ue_entry_id es)"
  using collected_entry_ids [OF assms] collected_bases_distinct [of c] by (simp add: distinct_map inj_on_def)

text \<open>
  C37: a closure is refused as a whole or accepted as a whole. For entries that the constructor
  accepts and whose ids differ, the closure on the SQLite ledger raises \<open>BudgetExhaustedError\<close>
  exactly when the usage of this one call, summed from its input, is above the policy's hard limit
  for model tokens, tool requests or wall clock seconds (the limit of the policy for agent sessions
  is not checked here), and then the ledger is as it was. Otherwise it succeeds, reports the known
  tokens, the tool requests and the experiments of its input, and stores every entry whose id is
  not taken; an entry whose id is taken leaves what is stored under it, as no stored entry changes.
\<close>

theorem closure_is_all_or_nothing:
  assumes "sound_ledger st" and "closure_entries i now = Inr es" and "distinct (map ue_entry_id es)"
    and "close_budget (\<lambda>es. bl_record_usage_batch es clk) bl_snapshot now i policy ref st = (res, st')"
  shows "((\<exists>msg. res = Inl (BudgetExhaustedError msg)) \<longleftrightarrow> overrun policy i) \<and>
    (overrun policy i \<longrightarrow> st' = st) \<and>
    (\<not> overrun policy i \<longrightarrow>
       (\<exists>r. res = Inr r \<and> cr_entries r = es \<and>
          cr_total_tokens r = sum_list (map known_tokens (ci_model_usage i)) \<and>
          cr_tool_requests r = sum_list (map tu_requests (ci_tool_usage i)) \<and>
          cr_experiment_runs r = int (length (ci_experiment_usage i))) \<and>
       (\<forall>k. bl_stored st' k = (case bl_stored st k of Some e \<Rightarrow> Some e
          | None \<Rightarrow> map_option persisted_entry (row_of ue_entry_id k es))))"
proof (cases "overrun policy i")
  case True
  then have "exhausted policy (summarize es)" by (simp add: exhausted_overrun [OF assms(2)])
  from sq_closing.exhausted_closure [OF assms(2) this, of clk ref st] assms(4) True show ?thesis by auto
next
  case False
  then have "\<not> exhausted policy (summarize es)" by (simp add: exhausted_overrun [OF assms(2)])
  from sq_closing.recorded_closure [OF assms(1-3) this, of clk ref] assms(4) False show ?thesis by auto
qed

definition sample_input :: closure_input where
  "sample_input = \<lparr>ci_run_id = ''r1'', ci_model_usage = [],
     ci_tool_usage = [\<lparr>tu_tool_id = ''search'', tu_requests = 3, tu_estimated_cost_minor = None, tu_attempt = 1\<rparr>],
     ci_experiment_usage = [], ci_evaluation_usage = [], ci_task_id = None, ci_agent_id = None\<rparr>"

definition sample_policy :: "int \<Rightarrow> budget_policy" where
  "sample_policy l = \<lparr>bp_id = ''p'', bp_thresholds = [], bp_hard_limits = [(''tool_requests'', l)],
     bp_threshold_ratios = []\<rparr>"

lemma sample_closure:
  "closure_entries sample_input 5 = Inr [costed (tool_draft ''r1'' 5 None (hd (ci_tool_usage sample_input)))]"
proof -
  have "valid_entry (costed (tool_draft ''r1'' 5 None (hd (ci_tool_usage sample_input))))"
    unfolding valid_entry_def usage_entry_post_init_def first_error_ok_iff
    by (simp add: costed_def tool_draft_def sample_input_def entry_defaults_def attempt_scope_def
        qty_negative_def dec_less_def dec_align_def dec_of_int_def)
  then show ?thesis by (simp add: closure_entries_Inr closure_drafts_def) (simp add: sample_input_def)
qed

lemma closure_is_all_or_nothing_witness:
  "(\<exists>msg. close_budget (\<lambda>es. bl_record_usage_batch es (\<lambda>i. 9)) bl_snapshot 5 sample_input
      (Some (sample_policy 2)) None empty_ledger = (Inl (BudgetExhaustedError msg), empty_ledger)) \<and>
   (\<exists>r st'. close_budget (\<lambda>es. bl_record_usage_batch es (\<lambda>i. 9)) bl_snapshot 5 sample_input
      (Some (sample_policy 3)) None empty_ledger = (Inr r, st') \<and> cr_tool_requests r = 3)"
proof -
  let ?close = "\<lambda>l. close_budget (\<lambda>es. bl_record_usage_batch es (\<lambda>i. 9)) bl_snapshot 5 sample_input
      (Some (sample_policy l)) None empty_ledger"
  have sm: "overrun (Some (sample_policy l)) sample_input \<longleftrightarrow> l < 3" for l
    by (simp add: overrun_def limit_exceeded_def sample_policy_def sample_input_def)
  have tools: "sum_list (map tu_requests (ci_tool_usage sample_input)) = 3" by (simp add: sample_input_def)
  obtain res st' res3 st3 where r: "?close 2 = (res, st')" "?close 3 = (res3, st3)" by fastforce
  show ?thesis
    using closure_is_all_or_nothing [OF sound_empty(1) sample_closure _ r(1)]
      closure_is_all_or_nothing [OF sound_empty(1) sample_closure _ r(2)] r
    by (auto simp: sm tools)
qed

lemma missing_reasons_iff:
  "missing_reasons cs \<noteq> [] \<longleftrightarrow> list_ex (\<lambda>x. cu_unavailable_reason x \<noteq> None) cs"
  by (induction cs) (auto simp: missing_reasons_def split: option.splits)

lemma token_draft:
  assumes "e \<in> set (closure_drafts i now)" and "ue_resource_type e = MODEL_TOKENS"
  shows "\<exists>u\<in>set (ci_model_usage i). e = hd (model_drafts (ci_run_id i) now (ci_task_id i) (ci_agent_id i) u)"
proof -
  have "ue_resource_type (tool_draft r now t v) = TOOL_REQUESTS"
    "ue_resource_type (evaluation_draft r now t a y) = EVALUATION_SCORER"
    "ue_resource_type (cpu_time_draft r now t x) = CPU_TIME"
    "ue_resource_type (gpu_time_draft r now t x) = GPU_TIME" for r t v a y x
    by (simp_all add: tool_draft_def evaluation_draft_def cpu_time_draft_def gpu_time_draft_def entry_defaults_def)
  moreover have "ue_resource_type (model_drafts r now t a u ! 1) = MODEL_REQUESTS"
    "model_drafts r now t a u = [hd (model_drafts r now t a u), model_drafts r now t a u ! 1]" for r t a u
    by (simp_all add: model_drafts_def Let_def entry_defaults_def)
  ultimately show ?thesis
    using assms by (auto simp: closure_drafts_def experiment_drafts_def split: if_splits)
      (metis empty_iff insert_iff list.set resource_type.distinct(1))
qed

lemma collected_token_entry:
  assumes "collect_usage c = (i, summary)" and "e \<in> set (closure_drafts i now)"
    and "ue_resource_type e = MODEL_TOKENS"
  shows "ue_quantity e = QInt (cl_model_tokens summary)"
    and "ue_quantity_status e = QTY_UNKNOWN \<longleftrightarrow> cl_model_usage_unknown summary"
    and "cl_model_usage_unknown summary \<Longrightarrow> cl_model_tokens summary = 0"
proof -
  have cu: "i = fst (collect_usage c)" "summary = snd (collect_usage c)" using assms(1) by simp_all
  have "\<exists>u. collect_model_usage c = [u] \<and>
      e = hd (model_drafts (uc_run_id c) now (uc_task_id c) (uc_agent_id c) u)"
    using token_draft [OF assms(2,3)]
    by (auto simp: cu collect_usage_def Let_def collect_model_usage_def split: if_splits)
  then show "ue_quantity e = QInt (cl_model_tokens summary)"
    and "ue_quantity_status e = QTY_UNKNOWN \<longleftrightarrow> cl_model_usage_unknown summary"
    and "cl_model_usage_unknown summary \<Longrightarrow> cl_model_tokens summary = 0"
    by (auto simp: cu collect_usage_def Let_def model_drafts_def entry_defaults_def collect_model_usage_def
        missing_reasons_iff split: if_splits)
qed

lemma unlimited [simp]: "\<not> exhausted None sm"
  by (simp add: exhausted_def)

lemma record_collected_step:
  assumes "sound_ledger st" and "collect_usage c = (i, summary)" and "closure_entries i now = Inr es"
    and "record_collected_usage (\<lambda>es. bl_record_usage_batch es clk) bl_snapshot now c st = (res, st')"
  shows "res = Inr summary" and "sound_ledger st'"
    and "bl_stored st' k = (case bl_stored st k of Some e \<Rightarrow> Some e
       | None \<Rightarrow> map_option persisted_entry (row_of ue_entry_id k es))"
proof -
  have "distinct (map ue_entry_id es)" using collected_ids_distinct [of c now es] assms(2,3) by simp
  from sq_closing.recorded_closure [OF assms(1,3) this unlimited, of clk None] assms(2,4)
  show "res = Inr summary" and "sound_ledger st'"
    and "bl_stored st' k = (case bl_stored st k of Some e \<Rightarrow> Some e
       | None \<Rightarrow> map_option persisted_entry (row_of ue_entry_id k es))"
    by (auto simp: record_collected_usage_def)
qed

text \<open>
  What the events of a run report is what the ledger holds. Collecting the usage of a run
  and recording it on the SQLite ledger always succeeds when the entries are valid: the ids of
  one collection never clash. Every entry is stored unless its id was taken before; the model
  tokens of the summary are the quantity of its token entry, which is marked UNKNOWN exactly
  when a completion came without its counts, and then the quantity is zero; recording the same
  events again, at any later time, leaves every stored entry as it is.
\<close>

theorem collected_usage_is_recorded:
  assumes "sound_ledger st" and "collect_usage c = (i, summary)" and "closure_entries i now = Inr es"
    and "record_collected_usage (\<lambda>es. bl_record_usage_batch es clk) bl_snapshot now c st = (res, st')"
    and "closure_entries i later = Inr es2"
    and "record_collected_usage (\<lambda>es. bl_record_usage_batch es clk2) bl_snapshot later c st' = (res2, st2)"
  shows "res = Inr summary \<and>
    (\<forall>e\<in>set es. bl_stored st' (ue_entry_id e) =
       Some (case bl_stored st (ue_entry_id e) of Some x \<Rightarrow> x | None \<Rightarrow> persisted_entry e)) \<and>
    (\<forall>e\<in>set es. ue_resource_type e = MODEL_TOKENS \<longrightarrow>
       ue_quantity e = QInt (cl_model_tokens summary) \<and>
       (ue_quantity_status e = QTY_UNKNOWN \<longleftrightarrow> cl_model_usage_unknown summary) \<and>
       (cl_model_usage_unknown summary \<longrightarrow> cl_model_tokens summary = 0)) \<and>
    res2 = Inr summary \<and> bl_stored st2 = bl_stored st'"
proof (intro conjI)
  note first = record_collected_step [OF assms(1-4)]
  note second = record_collected_step [OF first(2) assms(2,5,6)]
  have dist: "distinct (map ue_entry_id es)" using collected_ids_distinct [of c now es] assms(2,3) by simp
  have ids: "ue_entry_id ` set es2 = ue_entry_id ` set es"
    using collected_entry_ids [of c now es] collected_entry_ids [of c later es2] assms(2,3,5)
    by (simp flip: set_map)
  show "res = Inr summary" and "res2 = Inr summary" by (fact first(1)) (fact second(1))
  show covered: "\<forall>e\<in>set es. bl_stored st' (ue_entry_id e) =
       Some (case bl_stored st (ue_entry_id e) of Some x \<Rightarrow> x | None \<Rightarrow> persisted_entry e)"
    using first(3) row_of_distinct [OF dist] by (auto split: option.splits)
  have "bl_stored st2 k = bl_stored st' k" for k
  proof (cases "bl_stored st' k")
    case None
    then have "k \<notin> ue_entry_id ` set es2" using covered ids by auto
    with None second(3) [of k] show ?thesis by (simp add: row_of_None_iff [THEN iffD2])
  qed (use second(3) [of k] in simp)
  then show "bl_stored st2 = bl_stored st'" by blast
  show "\<forall>e\<in>set es. ue_resource_type e = MODEL_TOKENS \<longrightarrow>
       ue_quantity e = QInt (cl_model_tokens summary) \<and>
       (ue_quantity_status e = QTY_UNKNOWN \<longleftrightarrow> cl_model_usage_unknown summary) \<and>
       (cl_model_usage_unknown summary \<longrightarrow> cl_model_tokens summary = 0)"
    using assms(3) collected_token_entry [OF assms(2)] by (auto simp: closure_entries_Inr)
qed

definition sample_collection :: usage_collection where
  "sample_collection = \<lparr>uc_run_id = ''r1'', uc_model_id = None, uc_completions = [],
     uc_tool_results = [''search'', ''search''], uc_experiment = None, uc_eval_report = None,
     uc_task_id = None, uc_agent_id = None, uc_attempt = 1\<rparr>"

lemma sample_collected:
  "closure_entries (fst (collect_usage sample_collection)) now =
     Inr [costed (tool_draft ''r1'' now None
       \<lparr>tu_tool_id = ''search'', tu_requests = 2, tu_estimated_cost_minor = None, tu_attempt = 1\<rparr>)]"
    (is "_ = Inr [costed ?d]")
proof -
  have "valid_entry (costed ?d)"
    unfolding valid_entry_def usage_entry_post_init_def first_error_ok_iff
    by (simp add: costed_def tool_draft_def entry_defaults_def attempt_scope_def
        qty_negative_def dec_less_def dec_align_def dec_of_int_def)
  then show ?thesis
    by (simp add: closure_entries_Inr closure_drafts_def collect_usage_def sample_collection_def Let_def
        collect_model_usage_def collect_tool_usage_def collect_experiment_usage_def
        collect_evaluation_usage_def)
qed

lemma collected_usage_is_recorded_witness:
  "\<exists>summary st' st2.
     record_collected_usage (\<lambda>es. bl_record_usage_batch es (\<lambda>i. 9)) bl_snapshot 5 sample_collection empty_ledger =
       (Inr summary, st') \<and>
     record_collected_usage (\<lambda>es. bl_record_usage_batch es (\<lambda>i. 12)) bl_snapshot 10 sample_collection st' =
       (Inr summary, st2) \<and>
     bl_stored st2 = bl_stored st' \<and> bl_stored st' ''usage:r1:tool:search'' \<noteq> None"
proof -
  obtain i summary where c: "collect_usage sample_collection = (i, summary)" by fastforce
  then have i: "i = fst (collect_usage sample_collection)" by simp
  obtain res st' where r: "record_collected_usage (\<lambda>es. bl_record_usage_batch es (\<lambda>i. 9)) bl_snapshot 5
      sample_collection empty_ledger = (res, st')" by fastforce
  obtain res2 st2 where r2: "record_collected_usage (\<lambda>es. bl_record_usage_batch es (\<lambda>i. 12)) bl_snapshot 10
      sample_collection st' = (res2, st2)" by fastforce
  have "ue_entry_id (costed (tool_draft ''r1'' 5 None
      \<lparr>tu_tool_id = ''search'', tu_requests = 2, tu_estimated_cost_minor = None, tu_attempt = 1\<rparr>)) =
      ''usage:r1:tool:search''"
    by (simp add: draft_ids attempt_scope_def)
  with collected_usage_is_recorded [OF sound_empty(1) c
      sample_collected [of 5, folded i] r sample_collected [of 10, folded i] r2] r r2
  show ?thesis by auto
qed

section \<open>Reservations\<close>

definition held :: "reservation_row list \<Rightarrow> string \<Rightarrow> budget_reservation list option" where
  "held rows ref = (case row_of vr_ref ref rows of
     None \<Rightarrow> None
   | Some r \<Rightarrow> if vr_released r then None
       else (case as_list decode_reservation (vr_reservations r) of Inr rs \<Rightarrow> Some rs | Inl _ \<Rightarrow> None))"

lemma held_is_live:
  assumes "sound_reservations rows" and "live_reservations rows = Inr by_ref"
  shows "map_of by_ref k = held rows k"
  using assms
proof (induction rows arbitrary: by_ref)
  case Nil
  then show ?case by (simp add: live_reservations_def held_def)
next
  case (Cons r rows)
  have s: "sound_reservations rows" using Cons.prems(1) by (simp add: sound_reservations_def)
  obtain rs where rs: "as_list decode_reservation (vr_reservations r) = Inr rs"
    using Cons.prems(1) by (auto simp: sound_reservations_def)
  show ?case
  proof (cases "vr_released r")
    case True
    then have "live_reservations rows = Inr by_ref" using Cons.prems(2) by (simp add: live_reservations_def)
    moreover have "held (r # rows) k = held rows k"
    proof (cases "k = vr_ref r")
      case True
      then have "row_of vr_ref k rows = None"
        using Cons.prems(1) by (simp add: row_of_None_iff sound_reservations_def)
      with True \<open>vr_released r\<close> show ?thesis by (simp add: held_def row_of_Cons)
    qed (simp add: held_def row_of_Cons)
    ultimately show ?thesis using Cons.IH [OF s] by simp
  next
    case False
    then obtain ys where "live_reservations rows = Inr ys" "by_ref = (vr_ref r, rs) # ys"
      using Cons.prems(2) rs by (auto simp: live_reservations_def bind_res_Inr_iff)
    with Cons.IH [OF s] False rs show ?thesis by (auto simp: held_def row_of_Cons)
  qed
qed

lemma held_release:
  "held (release_rows ref rows) k = (if k = ref then None else held rows k)"
  by (simp add: held_def release_rows_def table_simps split: option.splits)

lemma reservation_row_simps [simp]:
  "vr_ref (reservation_row_of ref rs p now) = ref"
  "vr_released (reservation_row_of ref rs p now) = False"
  "vr_reservations (reservation_row_of ref rs p now) = JArr (map encode_reservation rs)"
  by (simp_all add: reservation_row_of_def)

lemma held_insert:
  assumes "list_all valid_reservation rs"
  shows "held (del_row vr_ref ref rows @ [reservation_row_of ref rs p now]) k =
    (if k = ref then Some (map (\<lambda>r. r\<lparr>bv_reserved_at := None\<rparr>) rs) else held rows k)"
  using assms by (auto simp: held_def table_simps decode_reservations_encode split: option.splits)

definition was_released :: "string \<Rightarrow> reservation_row list \<Rightarrow> bool" where
  "was_released ref rows = (case row_of vr_ref ref rows of None \<Rightarrow> False | Some r \<Rightarrow> vr_released r)"

lemma held_pg_upsert:
  assumes "list_all valid_reservation rs"
    and "rows' = (if row_of vr_ref ref rows = None then rows @ [reservation_row_of ref rs p now]
      else upd_row vr_ref ref (\<lambda>r. r\<lparr>vr_reservations := JArr (map encode_reservation rs),
             vr_policy := vr_policy (reservation_row_of ref rs p now), vr_created_at := now\<rparr>) rows)"
  shows "held rows' k = (if k = ref
    then if was_released ref rows then None else Some (map (\<lambda>r. r\<lparr>bv_reserved_at := None\<rparr>) rs)
    else held rows k)"
  using assms by (auto simp: held_def was_released_def table_simps decode_reservations_encode split: option.splits)

lemma adjusted_reservations:
  assumes "map_res (\<lambda>l. reservation_post_init (adjusted_reservation r l)) ls = Inr rs"
  shows "rs = map (adjusted_reservation r) ls \<and> list_all valid_reservation rs"
proof -
  have init: "reservation_post_init x = Inr v \<longleftrightarrow> v = x \<and> valid_reservation x" for x v
    unfolding valid_reservation_def reservation_post_init_def first_error_ok_iff first_error_Inr_iff by simp
  show ?thesis using assms
  proof (induction ls arbitrary: rs)
    case (Cons l ls)
    then obtain ys where "map_res (\<lambda>l. reservation_post_init (adjusted_reservation r l)) ls = Inr ys"
        "rs = adjusted_reservation r l # ys" "valid_reservation (adjusted_reservation r l)"
      by (auto simp: bind_res_Inr_iff init)
    with Cons.IH [of ys] show ?case by auto
  qed simp
qed

lemma adjusted_unreserved:
  "map (\<lambda>r. r\<lparr>bv_reserved_at := None\<rparr>) (map (adjusted_reservation r) ls) = map (adjusted_reservation r) ls"
  by (simp add: adjusted_reservation_def)

definition after_release :: "adjustment_command \<Rightarrow> reservation_row list \<Rightarrow> reservation_row list" where
  "after_release c rows = (case am_existing_ref c of None \<Rightarrow> rows | Some ref \<Rightarrow> release_rows ref rows)"

lemma held_after_release:
  "held (after_release c rows) k = (if am_existing_ref c = Some k then None else held rows k)"
  by (simp add: after_release_def held_release split: option.splits)

lemma was_released_after_release:
  "was_released ref (after_release c rows) \<longleftrightarrow>
     was_released ref rows \<or> am_existing_ref c = Some ref \<and> row_of vr_ref ref rows \<noteq> None"
  by (auto simp: after_release_def was_released_def release_rows_def table_simps split: option.splits)

lemma sqlite_adjustment:
  assumes "execute_budget_adjustment (Some (sqlite_port dg now)) c st = (Inr out, st')"
  shows "out = \<lparr>ao_released_ref = am_existing_ref c,
           ao_reservation_ref = reservation_ref dg (am_policy c) (ao_reservations out),
           ao_reservations = map (adjusted_reservation (am_run_id c)) (am_lines c)\<rparr>"
    and "list_all valid_reservation (ao_reservations out)"
    and "bl_reservations st' = del_row vr_ref (ao_reservation_ref out) (after_release c (bl_reservations st)) @
           [reservation_row_of (ao_reservation_ref out) (ao_reservations out) (am_policy c) now]"
    and "bl_usage st' = bl_usage st" and "ab_closed st' = ab_closed st"
  using assms
  by (auto simp: execute_budget_adjustment_def sqlite_port_def Let_def bl_reserve_def bl_release_def log_defs
      after_release_def dest: adjusted_reservations split: sum.splits option.splits)

lemma postgres_adjustment:
  assumes "execute_budget_adjustment (Some (postgres_port dg now)) c st = (Inr out, st')"
  shows "out = \<lparr>ao_released_ref = am_existing_ref c,
           ao_reservation_ref = reservation_ref dg (am_policy c) (ao_reservations out),
           ao_reservations = map (adjusted_reservation (am_run_id c)) (am_lines c)\<rparr>"
    and "list_all valid_reservation (ao_reservations out)"
    and "\<And>ref rs rows. ref = ao_reservation_ref out \<Longrightarrow> rs = ao_reservations out \<Longrightarrow>
           rows = after_release c (bl_reservations st) \<Longrightarrow>
           bl_reservations st' = (if row_of vr_ref ref rows = None
             then rows @ [reservation_row_of ref rs (am_policy c) now]
             else upd_row vr_ref ref (\<lambda>r. r\<lparr>vr_reservations := JArr (map encode_reservation rs),
               vr_policy := vr_policy (reservation_row_of ref rs (am_policy c) now), vr_created_at := now\<rparr>) rows)"
  using assms
  by (auto simp: execute_budget_adjustment_def postgres_port_def Let_def pg_reserve_def pg_release_def log_defs
      after_release_def dest: adjusted_reservations split: sum.splits option.splits)

text \<open>
  C38: an adjustment leaves the adjusted budget reserved. After a successful adjustment the
  SQLite ledger holds exactly the new lines under the returned reference, the replaced
  reservation is gone, every other one and all usage is untouched, and a snapshot shows this.
  The PostgreSQL ledger agrees except under the returned reference itself: when that reference
  was released before (an earlier adjustment to the same quantities, or the replaced
  reservation having the same ones) it stays released and the budget is not held.
\<close>

theorem adjusted_budget_is_held:
  assumes "sound_ledger st"
    and "execute_budget_adjustment (Some (sqlite_port dg now)) c st = (Inr out, st1)"
    and "execute_budget_adjustment (Some (postgres_port dg now)) c st = (Inr out2, st2)"
  shows "ao_reservations out = map (adjusted_reservation (am_run_id c)) (am_lines c) \<and>
    (\<forall>k. held (bl_reservations st1) k =
       (if k = ao_reservation_ref out then Some (ao_reservations out)
        else if am_existing_ref c = Some k then None else held (bl_reservations st) k)) \<and>
    bl_usage st1 = bl_usage st \<and>
    (\<exists>snap st3. bl_snapshot st1 = (Inr snap, st3) \<and> map_of (sn_by_ref snap) = held (bl_reservations st1)) \<and>
    out2 = out \<and>
    (\<forall>k. held (bl_reservations st2) k =
       (if k = ao_reservation_ref out \<and>
           (was_released k (bl_reservations st) \<or>
            am_existing_ref c = Some k \<and> row_of vr_ref k (bl_reservations st) \<noteq> None)
        then None else held (bl_reservations st1) k))"
proof -
  note sq = sqlite_adjustment [OF assms(2)]
  note pg = postgres_adjustment [OF assms(3)]
  have rs: "map (\<lambda>r. r\<lparr>bv_reserved_at := None\<rparr>) (ao_reservations out) = ao_reservations out"
    by (subst (1 2) sq(1)) (simp only: adjusted_unreserved adjustment_outcome.simps)
  have same: "ao_reservations out2 = ao_reservations out" by (subst sq(1), subst pg(1)) simp
  then have out: "out2 = out" by (subst sq(1), subst pg(1)) simp
  have held1: "held (bl_reservations st1) k =
      (if k = ao_reservation_ref out then Some (ao_reservations out)
       else if am_existing_ref c = Some k then None else held (bl_reservations st) k)" for k
    by (simp add: sq(3) held_insert [OF sq(2)] rs held_after_release)
  have held2: "held (bl_reservations st2) k =
      (if k = ao_reservation_ref out
       then if was_released k (after_release c (bl_reservations st)) then None else Some (ao_reservations out)
       else if am_existing_ref c = Some k then None else held (bl_reservations st) k)" for k
    by (simp add: held_pg_upsert [OF pg(2) pg(3) [OF refl refl refl]] out rs held_after_release)
  have "sound_ledger st1"
    using assms(1) sq(2-5) by (auto simp: sound_ledger_def sound_reservations_reserve after_release_def
        sound_reservations_release split: option.splits)
  from snapshot_reads [OF this] held_is_live
  have "\<exists>snap st3. bl_snapshot st1 = (Inr snap, st3) \<and> map_of (sn_by_ref snap) = held (bl_reservations st1)"
    using \<open>sound_ledger st1\<close> by (fastforce simp: bl_snapshot_def sound_ledger_def fun_eq_iff)
  moreover have "ao_reservations out = map (adjusted_reservation (am_run_id c)) (am_lines c)" by (subst sq(1)) simp
  ultimately show ?thesis
    using held1 held2 out sq(4) by (simp add: was_released_after_release)
qed

definition sample_adjustment :: adjustment_command where
  "sample_adjustment = \<lparr>am_run_id = ''r1'', am_policy = sample_policy 9,
     am_existing_ref = Some ''budget-reservation:d'',
     am_lines = [\<lparr>al_resource_type = TOOL_REQUESTS, al_quantity = 5, al_unit = ''requests''\<rparr>]\<rparr>"

definition sample_reserved :: budget_ledger where
  "sample_reserved = empty_ledger\<lparr>bl_reservations := [reservation_row_of ''budget-reservation:d''
     (map (adjusted_reservation ''r1'') (am_lines sample_adjustment)) (sample_policy 9) 1]\<rparr>"

lemma sample_valid: "list_all valid_reservation (map (adjusted_reservation ''r1'') (am_lines sample_adjustment))"
  by (simp add: valid_reservation_def reservation_post_init_def adjusted_reservation_def sample_adjustment_def)

lemma sample_sound: "sound_ledger sample_reserved"
  using decode_reservations_encode [OF sample_valid]
  by (simp add: sound_ledger_def sample_reserved_def empty_ledger_def sound_usage_def
      sound_reservations_def del: map_map)

lemma sample_lines:
  "map_res (\<lambda>l. reservation_post_init (adjusted_reservation (am_run_id sample_adjustment) l)) (am_lines sample_adjustment) =
     Inr (map (adjusted_reservation ''r1'') (am_lines sample_adjustment))"
  by (simp add: reservation_post_init_def adjusted_reservation_def sample_adjustment_def)

lemma sample_adjusts: "\<exists>out st'. execute_budget_adjustment (Some port) sample_adjustment st = (Inr out, st')"
  by (simp add: execute_budget_adjustment_def sample_lines Let_def split_beta)

lemma adjusted_budget_is_held_witness:
  "\<exists>out st1 st2.
     execute_budget_adjustment (Some (sqlite_port (\<lambda>_. ''d'') 7)) sample_adjustment sample_reserved = (Inr out, st1) \<and>
     execute_budget_adjustment (Some (postgres_port (\<lambda>_. ''d'') 7)) sample_adjustment sample_reserved = (Inr out, st2) \<and>
     held (bl_reservations st1) ''budget-reservation:d'' = Some (ao_reservations out) \<and>
     held (bl_reservations st2) ''budget-reservation:d'' = None"
proof -
  obtain out st1 where sq: "execute_budget_adjustment (Some (sqlite_port (\<lambda>_. ''d'') 7)) sample_adjustment
      sample_reserved = (Inr out, st1)" using sample_adjusts [of "sqlite_port (\<lambda>_. ''d'') 7" sample_reserved] by blast
  obtain out2 st2 where pg: "execute_budget_adjustment (Some (postgres_port (\<lambda>_. ''d'') 7)) sample_adjustment
      sample_reserved = (Inr out2, st2)" using sample_adjusts [of "postgres_port (\<lambda>_. ''d'') 7" sample_reserved] by blast
  have ref: "ao_reservation_ref out = ''budget-reservation:d''"
    by (subst sqlite_adjustment(1) [OF sq]) (simp add: reservation_ref_def)
  have "am_existing_ref sample_adjustment = Some ''budget-reservation:d''"
    "row_of vr_ref ''budget-reservation:d'' (bl_reservations sample_reserved) \<noteq> None"
    by (simp_all add: sample_adjustment_def sample_reserved_def row_of_Cons)
  with adjusted_budget_is_held [OF sample_sound sq pg] sq pg ref show ?thesis by auto
qed

section \<open>The check before a run\<close>

text \<open>What the reservations of a type come to: their sum, for parallelism their maximum.\<close>

definition reserved_total :: "resource_type \<Rightarrow> budget_reservation list \<Rightarrow> int" where
  "reserved_total ty rs =
     fold (\<lambda>r m. if bv_resource_type r \<noteq> ty then m
                 else if ty = PARALLELISM then max m (bv_quantity r) else m + bv_quantity r) rs 0"

lemma map_of_put:
  "map_of (map (\<lambda>(k', v'). if k' = k then (k', v) else (k', v')) d) x =
     (if x = k \<and> k \<in> fst ` set d then Some v else map_of d x)"
proof (induction d)
  case (Cons p d)
  obtain a b where p: "p = (a, b)" by (cases p)
  show ?case
  proof (cases "x = a")
    case True
    then show ?thesis using p by simp
  next
    case False
    then show ?thesis using p Cons.IH by (cases "x = k") simp_all
  qed
qed simp

lemma map_of_dict_put: "map_of (dict_put k v d) x = (if x = k then Some v else map_of d x)"
proof (cases "k \<in> fst ` set d")
  case True
  then show ?thesis by (simp add: dict_put_def map_of_put)
next
  case False
  then have "map_of d k = None" by (simp add: map_of_eq_None_iff)
  with False show ?thesis by (simp add: dict_put_def map_add_def split: option.split)
qed

lemma dict_put_keys:
  assumes "distinct (map fst d)"
  shows "distinct (map fst (dict_put k v d))"
proof -
  have "fst \<circ> (\<lambda>(k', v'). if k' = k then (k', v) else (k', v')) = fst" by auto
  then show ?thesis using assms unfolding dict_put_def by (cases "k \<in> fst ` set d") simp_all
qed

lemma dict_put_nonempty [simp]: "dict_put k v d \<noteq> []"
  by (auto simp: dict_put_def)

lemma aggregate_reservations_spec:
  "distinct (map fst (aggregate_reservations rs)) \<and>
   map_of (aggregate_reservations rs) ty =
     (if ty \<in> bv_resource_type ` set rs then Some (reserved_total ty rs) else None)"
proof (induction rs arbitrary: ty rule: rev_induct)
  case Nil
  then show ?case by (simp add: aggregate_reservations_def)
next
  case (snoc r rs)
  have absent: "reserved_total t rs = 0" if "t \<notin> bv_resource_type ` set rs" for t
    using that unfolding reserved_total_def by (induction rs) auto
  have "aggregate_reservations (rs @ [r]) = aggregate_step r (aggregate_reservations rs)"
    by (simp add: aggregate_reservations_def)
  moreover have "reserved_total ty (rs @ [r]) =
      (if bv_resource_type r \<noteq> ty then reserved_total ty rs
       else if ty = PARALLELISM then max (reserved_total ty rs) (bv_quantity r) else reserved_total ty rs + bv_quantity r)"
    by (cases "bv_resource_type r = ty"; cases "ty = PARALLELISM") (simp_all add: reserved_total_def)
  ultimately show ?case using snoc absent [of "bv_resource_type r"]
    by (auto simp: aggregate_step_def Let_def map_of_dict_put dict_put_keys)
qed

text \<open>A type over its limit.\<close>

definition over_budget :: "budget_policy \<Rightarrow> resource_type \<times> int \<Rightarrow> bool" where
  "over_budget p item = (case map_of limit_keys (fst item) of None \<Rightarrow> False
     | Some key \<Rightarrow> (case map_of (bp_hard_limits p) key of None \<Rightarrow> False | Some l \<Rightarrow> l < snd item))"

lemma check_fold:
  "bk_exceeded (fold (check_step p) items c) = [] \<longleftrightarrow>
     bk_exceeded c = [] \<and> list_all (\<lambda>i. \<not> over_budget p i) items"
proof (induction items arbitrary: c)
  case (Cons i items)
  have "bk_exceeded (check_step p i c) = [] \<longleftrightarrow> bk_exceeded c = [] \<and> \<not> over_budget p i"
    by (auto simp: check_step_def over_budget_def Let_def split: option.split)
  with Cons.IH show ?case by auto
qed simp

lemma unmapped_fold:
  "bk_unmapped_types (fold (check_step p) items c) =
     bk_unmapped_types c @ filter (\<lambda>ty. map_of limit_keys ty = None) (map fst items)"
proof (induction items arbitrary: c)
  case (Cons i items)
  have "bk_unmapped_types (check_step p i c) =
      bk_unmapped_types c @ (if map_of limit_keys (fst i) = None then [fst i] else [])"
    by (auto simp: check_step_def Let_def split: option.split)
  with Cons.IH show ?case by simp
qed simp

lemma aggregated_items:
  "(ty, q) \<in> set (aggregate_reservations rs) \<longleftrightarrow>
     ty \<in> bv_resource_type ` set rs \<and> q = reserved_total ty rs"
  using aggregate_reservations_spec [of rs ty]
  by (auto simp: map_of_eq_Some_iff [symmetric] split: if_splits)

lemma unmapped_types_exact:
  "set (bk_unmapped_types (check_budget rs p)) =
     {ty \<in> bv_resource_type ` set rs. map_of limit_keys ty = None}"
proof -
  have "fst ` set (aggregate_reservations rs) = bv_resource_type ` set rs"
    by (auto simp: aggregated_items image_iff) (metis aggregated_items fst_conv image_eqI)
  then show ?thesis by (auto simp: check_budget_def unmapped_fold)
qed

lemma check_allowed_exact:
  "check_allowed (check_budget rs p) =
     (\<forall>ty \<in> bv_resource_type ` set rs. case map_of limit_keys ty of None \<Rightarrow> True
        | Some key \<Rightarrow> (case map_of (bp_hard_limits p) key of None \<Rightarrow> True
            | Some l \<Rightarrow> reserved_total ty rs \<le> l))"
proof -
  have "check_allowed (check_budget rs p) \<longleftrightarrow>
      (\<forall>ty q. (ty, q) \<in> set (aggregate_reservations rs) \<longrightarrow> \<not> over_budget p (ty, q))"
    by (auto simp: check_allowed_def check_budget_def check_fold list_all_iff)
  also have "\<dots> \<longleftrightarrow> (\<forall>ty \<in> bv_resource_type ` set rs. \<not> over_budget p (ty, reserved_total ty rs))"
    by (auto simp: aggregated_items)
  finally show ?thesis
    by (simp add: over_budget_def not_less cong: option.case_cong split: option.split)
qed

text \<open>
  Before a run, the budget is reserved exactly when no reserved type that has a limit key
  comes to more than the hard limit under that key, all reservations of the type taken together
  (those for parallel work by their maximum); when it is refused nothing is written.
\<close>

theorem reservation_within_limits:
  assumes "reserve_budget dg rs p port s = ((chk, ref), s1)"
  shows "(ref \<noteq> None) =
           (\<forall>ty \<in> bv_resource_type ` set rs. case map_of limit_keys ty of None \<Rightarrow> True
              | Some key \<Rightarrow> (case map_of (bp_hard_limits p) key of None \<Rightarrow> True
                  | Some l \<Rightarrow> reserved_total ty rs \<le> l))
         \<and> (ref = None \<longrightarrow> s1 = s) \<and> check_allowed chk = (ref \<noteq> None)"
proof -
  have "chk = check_budget rs p \<and> check_allowed chk = (ref \<noteq> None) \<and> (ref = None \<longrightarrow> s1 = s)"
    using assms by (auto simp: reserve_budget_def Let_def split: if_splits option.splits prod.splits)
  then show ?thesis unfolding check_allowed_exact [symmetric] by blast
qed

definition tool_reservation :: "int \<Rightarrow> budget_reservation" where
  "tool_reservation n = \<lparr>bv_id = ''t'', bv_scope = ''phase:x'', bv_resource_type = TOOL_REQUESTS,
     bv_quantity = n, bv_unit = ''requests'', bv_reserved_at = None\<rparr>"

lemma reservation_within_limits_witness:
  "(\<exists>chk ref s1. reserve_budget (\<lambda>_. ''d'') [tool_reservation 3, tool_reservation 4]
        (sample_policy 9) None empty_ledger = ((chk, Some ref), s1)) \<and>
   (\<exists>chk. reserve_budget (\<lambda>_. ''d'') [tool_reservation 3, tool_reservation 8]
        (sample_policy 9) None empty_ledger = ((chk, None), empty_ledger))"
proof -
  have total: "reserved_total TOOL_REQUESTS [tool_reservation 3, tool_reservation n] = 3 + n" for n
    by (simp add: reserved_total_def tool_reservation_def)
  have types: "bv_resource_type ` set [tool_reservation 3, tool_reservation n] = {TOOL_REQUESTS}" for n
    by (simp add: tool_reservation_def)
  have limited: "map_of limit_keys TOOL_REQUESTS = Some ''tool_requests''" by (simp add: limit_keys_def)
  have run: "\<exists>chk ref s1. reserve_budget (\<lambda>_. ''d'') [tool_reservation 3, tool_reservation n]
        (sample_policy 9) None empty_ledger = ((chk, ref), s1) \<and> (ref \<noteq> None) = (3 + n \<le> 9) \<and>
        (ref = None \<longrightarrow> s1 = empty_ledger)" for n
  proof -
    obtain chk ref s1 where r: "reserve_budget (\<lambda>_. ''d'') [tool_reservation 3, tool_reservation n]
        (sample_policy 9) None empty_ledger = ((chk, ref), s1)" by (metis prod.exhaust)
    from reservation_within_limits [OF r] r show ?thesis
      by (simp only: types) (auto simp: limited total sample_policy_def)
  qed
  from run [of 4] run [of 8] show ?thesis by auto
qed

end
