(* ===== verification/Cost.thy ===== *)
theory Cost
  imports Research_Run Budget_Closure
begin

text \<open>
  From usage to money: the versioned price tables (\<^verbatim>\<open>packages/application/cost/pricing.py\<close>),
  their append-only snapshots (\<^verbatim>\<open>adapters/sqlite/pricing_snapshot_store.py\<close>) and the table a run
  froze (\<^verbatim>\<open>cost/pricing_resolution.py\<close>), the cost of an entry, of a dimension and of a run
  (\<^verbatim>\<open>cost/amount.py\<close>, \<^verbatim>\<open>cost/projection.py\<close>, \<^verbatim>\<open>cost/aggregation.py\<close>), the daily series
  (\<^verbatim>\<open>cost/daily.py\<close>) and its extrapolation (\<^verbatim>\<open>cost/series_projection.py\<close>). The hash of
  \<^verbatim>\<open>pricing_digest\<close> is the parameter \<open>pd\<close>, a function of the table, whose every field enters
  the hashed payload. Texts are ASCII; the message about a duplicate price omits the key. A day is
  the number of days since 0001-01-01; the times of usage entries are UTC.
\<close>

section \<open>Price tables\<close>

datatype price_dimension = PD_MODEL | PD_TOOL | PD_EXPERIMENT | PD_EVALUATION

definition price_dimension_names :: "(string \<times> price_dimension) list" where
  "price_dimension_names =
     [(''model'', PD_MODEL), (''tool'', PD_TOOL), (''experiment'', PD_EXPERIMENT),
      (''evaluation'', PD_EVALUATION)]"

definition CALCULATION_METHOD :: string where
  "CALCULATION_METHOD = ''unit_price_minor_per_unit''"

record price_entry =
  pe_dimension :: price_dimension
  pe_resource_key :: string
  pe_unit :: string
  pe_unit_price_minor :: int

definition price_entry_post_init :: "price_entry \<Rightarrow> price_entry res" where
  "price_entry_post_init e = first_error
     [(pe_resource_key e = '''', ''price resource_key must not be empty''),
      (pe_unit e = '''', ''price unit must not be empty''),
      (pe_unit_price_minor e < 0, ''unit_price_minor must be non-negative'')] e"

record pricing_table =
  pt_version :: string
  pt_currency :: string
  pt_effective_from :: string
  pt_calculation_method :: string
  pt_prices :: "price_entry list"

definition price_key :: "price_entry \<Rightarrow> price_dimension \<times> string \<times> string" where
  "price_key e = (pe_dimension e, pe_resource_key e, pe_unit e)"

definition is_upper :: "char \<Rightarrow> bool" where
  "is_upper c = (CHR ''A'' \<le> c \<and> c \<le> CHR ''Z'')"

definition pricing_table_post_init :: "pricing_table \<Rightarrow> pricing_table res" where
  "pricing_table_post_init t = first_error
     [(pt_version t = '''', ''pricing version must not be empty''),
      (length (pt_currency t) \<noteq> 3 \<or> \<not> list_all is_upper (pt_currency t),
        ''pricing currency must be an ISO-4217 alpha-3 code''),
      (pt_calculation_method t \<noteq> CALCULATION_METHOD,
        ''unsupported calculation_method: '' @ pt_calculation_method t),
      (\<not> distinct (map price_key (pt_prices t)), ''duplicate price entry'')] t"

definition price_for ::
    "pricing_table \<Rightarrow> price_dimension \<Rightarrow> string \<Rightarrow> string option \<Rightarrow> price_entry option" where
  "price_for t dn key u =
     (let matches = filter (\<lambda>e. pe_dimension e = dn \<and> pe_resource_key e = key \<and>
                              (u = None \<or> u = Some (pe_unit e))) (pt_prices t)
      in if length matches = 1 then Some (hd matches) else None)"

definition unpriced_table :: pricing_table where
  "unpriced_table = \<lparr>pt_version = ''unpriced_v1'', pt_currency = ''USD'', pt_effective_from = ''1970-01-01'',
     pt_calculation_method = CALCULATION_METHOD, pt_prices = []\<rparr>"

definition encode_price_entry :: "price_entry \<Rightarrow> json" where
  "encode_price_entry e = JObj
     [(''dimension'', JStr (enum_text price_dimension_names (pe_dimension e))),
      (''resource_key'', JStr (pe_resource_key e)), (''unit'', JStr (pe_unit e)),
      (''unit_price_minor'', JInt (pe_unit_price_minor e))]"

definition encode_pricing_table :: "pricing_table \<Rightarrow> json" where
  "encode_pricing_table t = JObj
     [(''calculation_method'', JStr (pt_calculation_method t)), (''currency'', JStr (pt_currency t)),
      (''effective_from'', JStr (pt_effective_from t)),
      (''prices'', JArr (map encode_price_entry (pt_prices t))), (''version'', JStr (pt_version t))]"

definition decode_price_entry :: "json \<Rightarrow> price_entry res" where
  "decode_price_entry j =
     bind_res (bind_res (bind_res (j_key ''dimension'' j) as_str) (enum_of price_dimension_names)) (\<lambda>dn.
     bind_res (bind_res (j_key ''resource_key'' j) as_str) (\<lambda>key.
     bind_res (bind_res (j_key ''unit'' j) as_str) (\<lambda>u.
     bind_res (bind_res (j_key ''unit_price_minor'' j) as_int) (\<lambda>p.
       price_entry_post_init
         \<lparr>pe_dimension = dn, pe_resource_key = key, pe_unit = u, pe_unit_price_minor = p\<rparr>))))"

definition pricing_table_from_dict :: "json \<Rightarrow> pricing_table res" where
  "pricing_table_from_dict j =
     bind_res (j_dflt (as_list decode_price_entry) [] ''prices'' j) (\<lambda>prices.
     bind_res (bind_res (j_key ''version'' j) as_str) (\<lambda>version.
     bind_res (bind_res (j_key ''currency'' j) as_str) (\<lambda>currency.
     bind_res (bind_res (j_key ''effective_from'' j) as_str) (\<lambda>from_date.
     bind_res (j_dflt as_str CALCULATION_METHOD ''calculation_method'' j) (\<lambda>m.
       pricing_table_post_init
         \<lparr>pt_version = version, pt_currency = currency, pt_effective_from = from_date,
          pt_calculation_method = m, pt_prices = prices\<rparr>)))))"

section \<open>Snapshots\<close>

record snapshot_row =
  pn_key :: "string \<times> string"
  pn_table :: json
  pn_created_at :: int

record pricing_store = adapter_base +
  pn_rows :: "snapshot_row list"

definition short_ref :: "string \<Rightarrow> string \<Rightarrow> string" where
  "short_ref version digest = version @ ''@'' @ take 12 digest"

definition pn_put :: "(pricing_table \<Rightarrow> string) \<Rightarrow> pricing_table \<Rightarrow> int \<Rightarrow> pricing_store \<Rightarrow> unit res \<times> pricing_store" where
  "pn_put pd t now st =
     (if ab_closed st then (Inl closed_error, st)
      else (let key = (pt_version t, pd t);
                st1 = (if row_of pn_key key (pn_rows st) \<noteq> None then st
                       else st\<lparr>pn_rows := pn_rows st @
                              [\<lparr>pn_key = key, pn_table = encode_pricing_table t, pn_created_at = now\<rparr>]\<rparr>)
            in (Inr (), log_ok ''put'' (short_ref (pt_version t) (pd t)) st1)))"

definition pn_get :: "string \<Rightarrow> string \<Rightarrow> pricing_store \<Rightarrow> pricing_table option res \<times> pricing_store" where
  "pn_get version digest st =
     (if ab_closed st then (Inl closed_error, st)
      else (case row_of pn_key (version, digest) (pn_rows st) of
              None \<Rightarrow> (Inr None, log_call ''get'' (short_ref version digest) None (Some ''KeyError'') st)
            | Some r \<Rightarrow>
                (bind_res (pricing_table_from_dict (pn_table r)) (\<lambda>t. Inr (Some t)),
                 log_ok ''get'' (short_ref version digest) st)))"

definition UNFROZEN_PRICING_VERSION :: string where
  "UNFROZEN_PRICING_VERSION = ''unfrozen''"

record pricing_resolution =
  pu_pricing :: "pricing_table option"
  pu_version :: string
  pu_digest :: string
  pu_frozen :: bool
  pu_degraded_reason :: "string option"

definition missing_store :: "string \<Rightarrow> string \<Rightarrow> pricing_resolution" where
  "missing_store version digest =
     \<lparr>pu_pricing = None, pu_version = version, pu_digest = digest, pu_frozen = True,
      pu_degraded_reason = Some (''run froze a pricing reference but no pricing snapshot store is configured;'' @
        '' computed amounts are unavailable (no current-table fallback)'')\<rparr>"

definition missing_snapshot :: "string \<Rightarrow> string \<Rightarrow> pricing_resolution" where
  "missing_snapshot version digest =
     \<lparr>pu_pricing = None, pu_version = version, pu_digest = digest, pu_frozen = True,
      pu_degraded_reason = Some (''frozen pricing snapshot '' @ short_ref version digest @
        '' missing from store; computed amounts are unavailable (no current-table fallback)'')\<rparr>"

text \<open>The store is the port's \<^verbatim>\<open>get\<close>; the table current at reading is an argument that is dropped.\<close>

definition resolve_run_pricing ::
    "(pricing_table \<Rightarrow> string) \<Rightarrow> research_run option \<Rightarrow>
     (string \<Rightarrow> string \<Rightarrow> 's \<Rightarrow> pricing_table option res \<times> 's) option \<Rightarrow> pricing_table option \<Rightarrow> 's \<Rightarrow>
     pricing_resolution res \<times> 's" where
  "resolve_run_pricing pd run store current s =
     (let version = (case run of None \<Rightarrow> [] | Some r \<Rightarrow> str_or (rr_pricing_version r) []);
          digest = (case run of None \<Rightarrow> [] | Some r \<Rightarrow> str_or (rr_pricing_digest r) [])
      in if version = [] \<or> digest = [] then
           (Inr \<lparr>pu_pricing = None, pu_version = UNFROZEN_PRICING_VERSION, pu_digest = [], pu_frozen = False,
                 pu_degraded_reason = Some ''pricing not frozen for this run''\<rparr>, s)
         else (case store of
                 None \<Rightarrow> (Inr (missing_store version digest), s)
               | Some get \<Rightarrow>
                   (case get version digest s of
                      (Inl e, s1) \<Rightarrow> (Inl e, s1)
                    | (Inr None, s1) \<Rightarrow> (Inr (missing_snapshot version digest), s1)
                    | (Inr (Some t), s1) \<Rightarrow>
                        (Inr \<lparr>pu_pricing = Some t, pu_version = pt_version t, pu_digest = pd t,
                              pu_frozen = True, pu_degraded_reason = None\<rparr>, s1))))"

section \<open>Amounts\<close>

datatype cost_amount_status =
    CS_ACTUAL | CS_ESTIMATED | CS_MONETARY_UNAVAILABLE | CS_USAGE_UNKNOWN | CS_ZERO | CS_NO_DATA
  | CS_CURRENCY_CONFLICT | CS_PARTIALLY_METERED

record cost_amount =
  ct_status :: cost_amount_status
  ct_minor_units :: "int option"
  ct_currency :: string
  ct_version :: string
  ct_digest :: string
  ct_effective_from :: string
  ct_method :: string

record pricing_stamp =
  ps_version :: string
  ps_digest :: string
  ps_currency :: string
  ps_effective_from :: string
  ps_method :: string

definition stamp_of :: "(pricing_table \<Rightarrow> string) \<Rightarrow> pricing_table option \<Rightarrow> pricing_stamp" where
  "stamp_of pd pricing =
     (let t = (case pricing of Some t \<Rightarrow> t | None \<Rightarrow> unpriced_table)
      in \<lparr>ps_version = pt_version t, ps_digest = pd t, ps_currency = pt_currency t,
          ps_effective_from = pt_effective_from t, ps_method = pt_calculation_method t\<rparr>)"

definition amount_of ::
    "cost_amount_status \<Rightarrow> int option \<Rightarrow> pricing_stamp \<Rightarrow> string option \<Rightarrow> cost_amount" where
  "amount_of status minor st currency =
     \<lparr>ct_status = status, ct_minor_units = minor, ct_currency = str_or currency (ps_currency st),
      ct_version = ps_version st, ct_digest = ps_digest st, ct_effective_from = ps_effective_from st,
      ct_method = ps_method st\<rparr>"

section \<open>Projection\<close>

definition lower_type_name :: "resource_type \<Rightarrow> string" where
  "lower_type_name ty =
     (case ty of MEMORY \<Rightarrow> ''memory'' | STORAGE \<Rightarrow> ''storage'' | NETWORK \<Rightarrow> ''network''
      | WALL_CLOCK \<Rightarrow> ''wall_clock'' | AGENT_TURNS \<Rightarrow> ''agent_turns'' | PARALLELISM \<Rightarrow> ''parallelism''
      | _ \<Rightarrow> [])"

definition dimension_of :: "usage_entry \<Rightarrow> price_dimension \<times> string" where
  "dimension_of e =
     (case ue_resource_type e of
        MODEL_TOKENS \<Rightarrow> (PD_MODEL, str_or (ue_model_id e) ''unknown'')
      | MODEL_REQUESTS \<Rightarrow> (PD_MODEL, str_or (ue_model_id e) ''unknown'')
      | MODEL_COST \<Rightarrow> (PD_MODEL, str_or (ue_model_id e) ''unknown'')
      | TOOL_REQUESTS \<Rightarrow> (PD_TOOL, str_or (ue_tool_id e) ''unknown'')
      | TOOL_COST \<Rightarrow> (PD_TOOL, str_or (ue_tool_id e) ''unknown'')
      | CPU_TIME \<Rightarrow> (PD_EXPERIMENT, str_or (ue_task_id e) ''unknown'')
      | GPU_TIME \<Rightarrow> (PD_EXPERIMENT, str_or (ue_task_id e) ''gpu'')
      | EVALUATION_SCORER \<Rightarrow> (PD_EVALUATION, str_or (ue_task_id e) ''unknown'')
      | ty \<Rightarrow> (PD_EXPERIMENT, str_or (ue_task_id e) (lower_type_name ty)))"

text \<open>\<^verbatim>\<open>quantity * price\<close>: a \<^verbatim>\<open>Decimal\<close> product is rounded to the context.\<close>

definition dec_mul_int :: "decimal \<Rightarrow> int \<Rightarrow> decimal" where
  "dec_mul_int d k = dec_fix (Dec (coef d * k) (expo d))"

fun qty_times :: "quantity \<Rightarrow> int \<Rightarrow> quantity" where
  "qty_times (QInt i) k = QInt (i * k)"
| "qty_times (QDec d) k = QDec (dec_mul_int d k)"

definition project_entry_cost ::
    "(pricing_table \<Rightarrow> string) \<Rightarrow> pricing_table option \<Rightarrow> usage_entry \<Rightarrow> cost_amount" where
  "project_entry_cost pd pricing e =
     (let st = stamp_of pd pricing
      in if ue_quantity_status e = QTY_UNKNOWN then amount_of CS_USAGE_UNKNOWN None st None
         else if qty_zero (ue_quantity e) then amount_of CS_ZERO (Some 0) st None
         else (case ue_actual_cost_minor e of
                 Some c \<Rightarrow> amount_of CS_ACTUAL (Some c) st (Some (ue_currency e))
               | None \<Rightarrow>
                   (if ue_resource_type e = MODEL_COST \<and> ue_estimated_cost_minor e \<noteq> None then
                      amount_of CS_ESTIMATED (ue_estimated_cost_minor e) st (Some (ue_currency e))
                    else (case pricing of
                            None \<Rightarrow> amount_of CS_MONETARY_UNAVAILABLE None st None
                          | Some t \<Rightarrow>
                              (case price_for t (fst (dimension_of e)) (snd (dimension_of e)) (Some (ue_unit e)) of
                                 None \<Rightarrow> amount_of CS_MONETARY_UNAVAILABLE None st None
                               | Some price \<Rightarrow>
                                   (case ue_estimated_cost_minor e of
                                      Some c \<Rightarrow> amount_of CS_ESTIMATED (Some c) st (Some (ue_currency e))
                                    | None \<Rightarrow>
                                        amount_of CS_ESTIMATED
                                          (Some (qty_int (qty_times (ue_quantity e) (pe_unit_price_minor price))))
                                          st None))))))"

section \<open>Aggregation\<close>

definition blocking_status :: "cost_amount list \<Rightarrow> cost_amount_status option" where
  "blocking_status items =
     (if list_ex (\<lambda>i. ct_status i = CS_NO_DATA) items then Some CS_NO_DATA
      else if list_ex (\<lambda>i. ct_status i = CS_CURRENCY_CONFLICT) items then Some CS_CURRENCY_CONFLICT
      else None)"

definition monetary_amounts :: "cost_amount list \<Rightarrow> cost_amount list" where
  "monetary_amounts items =
     filter (\<lambda>i. ct_status i \<in> {CS_ACTUAL, CS_ESTIMATED, CS_ZERO, CS_PARTIALLY_METERED}) items"

definition has_unmeasured :: "cost_amount list \<Rightarrow> bool" where
  "has_unmeasured items =
     list_ex (\<lambda>i. ct_status i \<in> {CS_USAGE_UNKNOWN, CS_MONETARY_UNAVAILABLE, CS_PARTIALLY_METERED}) items"

definition unmeasurable_status :: "cost_amount list \<Rightarrow> cost_amount_status option" where
  "unmeasurable_status items =
     (if list_ex (\<lambda>i. ct_status i = CS_USAGE_UNKNOWN) items then Some CS_USAGE_UNKNOWN
      else if list_ex (\<lambda>i. ct_status i = CS_MONETARY_UNAVAILABLE) items then Some CS_MONETARY_UNAVAILABLE
      else None)"

definition minor_total :: "cost_amount list \<Rightarrow> int" where
  "minor_total items = sum_list (map (or_zero \<circ> ct_minor_units) items)"

definition aggregate_costs ::
    "(pricing_table \<Rightarrow> string) \<Rightarrow> pricing_table option \<Rightarrow> cost_amount list \<Rightarrow> cost_amount" where
  "aggregate_costs pd pricing items =
     (if items = [] then amount_of CS_NO_DATA None (stamp_of pd pricing) None
      else (let head = hd items
            in if 1 < card (ct_currency ` set items)
               then head\<lparr>ct_status := CS_CURRENCY_CONFLICT, ct_minor_units := None\<rparr>
               else (case blocking_status items of
                 Some b \<Rightarrow> head\<lparr>ct_status := b, ct_minor_units := None\<rparr>
               | None \<Rightarrow>
                 (let monetary = monetary_amounts items
                  in if monetary \<noteq> [] \<and> has_unmeasured items
                     then head\<lparr>ct_status := CS_PARTIALLY_METERED, ct_minor_units := Some (minor_total monetary)\<rparr>
                     else (case unmeasurable_status items of
                       Some u \<Rightarrow> head\<lparr>ct_status := u, ct_minor_units := None\<rparr>
                     | None \<Rightarrow>
                       (if list_all (\<lambda>i. ct_status i = CS_ZERO) items
                        then head\<lparr>ct_status := CS_ZERO, ct_minor_units := Some 0\<rparr>
                        else head\<lparr>ct_status :=
                               (if list_all (\<lambda>i. ct_status i \<in> {CS_ACTUAL, CS_ZERO}) items
                                then CS_ACTUAL else CS_ESTIMATED),
                               ct_minor_units := Some (minor_total
                                 (filter (\<lambda>i. ct_status i \<in> {CS_ACTUAL, CS_ESTIMATED}) items))\<rparr>))))))"

record dimension_cost =
  dm_dimension :: string
  dm_resource_key :: string
  dm_amount :: cost_amount
  dm_entry_count :: nat

text \<open>\<^verbatim>\<open>grouped.setdefault(key, []).append(entry)\<close> and the sorted items.\<close>

definition dict_append :: "'k \<Rightarrow> 'v \<Rightarrow> ('k \<times> 'v list) list \<Rightarrow> ('k \<times> 'v list) list" where
  "dict_append k v d =
     (if k \<in> fst ` set d then map (\<lambda>(k', vs). if k' = k then (k', vs @ [v]) else (k', vs)) d
      else d @ [(k, [v])])"

definition group_by :: "('v \<Rightarrow> 'k) \<Rightarrow> 'v list \<Rightarrow> ('k \<times> 'v list) list" where
  "group_by key vs = fold (\<lambda>v d. dict_append (key v) v d) vs []"

definition dimension_key :: "usage_entry \<Rightarrow> string \<times> string" where
  "dimension_key e = (enum_text price_dimension_names (fst (dimension_of e)), snd (dimension_of e))"

definition project_dimensions ::
    "(pricing_table \<Rightarrow> string) \<Rightarrow> pricing_table option \<Rightarrow> usage_entry list \<Rightarrow> dimension_cost list" where
  "project_dimensions pd pricing es =
     map (\<lambda>((dn, key), grp).
            \<lparr>dm_dimension = dn, dm_resource_key = key,
             dm_amount = aggregate_costs pd pricing (map (project_entry_cost pd pricing) grp),
             dm_entry_count = length grp\<rparr>)
       (sort_key fst (group_by dimension_key es))"

definition total_cost :: "(pricing_table \<Rightarrow> string) \<Rightarrow> pricing_table option \<Rightarrow> usage_entry list \<Rightarrow> cost_amount" where
  "total_cost pd pricing es = aggregate_costs pd pricing (map dm_amount (project_dimensions pd pricing es))"

definition status_text :: "cost_amount_status \<Rightarrow> string" where
  "status_text s =
     (case s of CS_ACTUAL \<Rightarrow> ''ACTUAL'' | CS_ESTIMATED \<Rightarrow> ''ESTIMATED''
      | CS_MONETARY_UNAVAILABLE \<Rightarrow> ''MONETARY_UNAVAILABLE'' | CS_USAGE_UNKNOWN \<Rightarrow> ''USAGE_UNKNOWN''
      | CS_ZERO \<Rightarrow> ''ZERO'' | CS_NO_DATA \<Rightarrow> ''NO_DATA'' | CS_CURRENCY_CONFLICT \<Rightarrow> ''CURRENCY_CONFLICT''
      | CS_PARTIALLY_METERED \<Rightarrow> ''PARTIALLY_METERED'')"

definition summary_line :: "dimension_cost \<Rightarrow> string" where
  "summary_line d =
     (let a = dm_amount d;
          v = (case ct_minor_units a of None \<Rightarrow> ''n/a'' | Some m \<Rightarrow> str_int m)
      in dm_dimension d @ ''/'' @ dm_resource_key d @ '': '' @ status_text (ct_status a) @ '' '' @ v @ '' '' @
         ct_currency a @ '' (pricing='' @ ct_version a @ '')'')"

definition summary_lines ::
    "(pricing_table \<Rightarrow> string) \<Rightarrow> pricing_table option \<Rightarrow> usage_entry list \<Rightarrow> string list" where
  "summary_lines pd pricing es = map summary_line (project_dimensions pd pricing es)"

section \<open>The daily series\<close>

record pricing_group =
  pg_pricing :: "pricing_table option"
  pg_amount :: cost_amount
  pg_entry_count :: nat

record day_cost =
  dc_day :: int
  dc_total :: cost_amount
  dc_groups :: "pricing_group list"
  dc_mixed_pricing :: bool

definition group_key :: "(pricing_table \<Rightarrow> string) \<Rightarrow> pricing_table option \<Rightarrow> string \<times> string" where
  "group_key pd pricing =
     (case pricing of None \<Rightarrow> (''unfrozen'', ''-'') | Some t \<Rightarrow> (pt_version t, pd t))"

definition day_of :: "usage_entry \<Rightarrow> int" where
  "day_of e = ue_occurred_at e div day_us"

definition bucket_days :: "usage_entry list \<Rightarrow> (int \<times> usage_entry list) list" where
  "bucket_days es = group_by day_of es"

definition day_total :: "pricing_group list \<Rightarrow> bool \<Rightarrow> cost_amount" where
  "day_total groups any_unknown =
     (if length groups = 1 then pg_amount (hd groups)
      else (let blocked = list_ex (\<lambda>g. ct_status (pg_amount g) \<in>
                  {CS_USAGE_UNKNOWN, CS_MONETARY_UNAVAILABLE, CS_NO_DATA, CS_CURRENCY_CONFLICT}) groups
            in \<lparr>ct_status = (if any_unknown \<and> blocked then CS_USAGE_UNKNOWN else CS_PARTIALLY_METERED),
                ct_minor_units = None, ct_currency = ct_currency (pg_amount (hd groups)),
                ct_version = ''mixed'', ct_digest = ''mixed'', ct_effective_from = [],
                ct_method = ''mixed-pricing-day:not-summed''\<rparr>))"

text \<open>\<^verbatim>\<open>resolved[key] = pricing\<close> keeps the table of the last entry of a group.\<close>

definition project_day_cost ::
    "(pricing_table \<Rightarrow> string) \<Rightarrow> int \<Rightarrow> usage_entry list \<Rightarrow> (usage_entry \<Rightarrow> pricing_table option) \<Rightarrow> day_cost" where
  "project_day_cost pd day es resolve =
     (let keyed = group_by (\<lambda>e. group_key pd (resolve e)) es;
          groups = map (\<lambda>(key, items).
                     let pricing = resolve (last items)
                     in \<lparr>pg_pricing = pricing, pg_amount = total_cost pd pricing items,
                         pg_entry_count = length items\<rparr>) (sort_key fst keyed);
          any_unknown = list_ex (\<lambda>e. ue_quantity_status e = QTY_UNKNOWN) es
      in \<lparr>dc_day = day, dc_total = day_total groups any_unknown, dc_groups = groups,
          dc_mixed_pricing = (1 < length groups)\<rparr>)"

definition MAX_DAYS :: nat where
  "MAX_DAYS = 400"

definition in_window :: "int option \<Rightarrow> int option \<Rightarrow> int \<Rightarrow> bool" where
  "in_window date_from date_to day =
     (\<not> (case date_from of None \<Rightarrow> False | Some d \<Rightarrow> day < d) \<and>
      \<not> (case date_to of None \<Rightarrow> False | Some d \<Rightarrow> d < day))"

definition daily_series ::
    "(pricing_table \<Rightarrow> string) \<Rightarrow> usage_entry list \<Rightarrow> (usage_entry \<Rightarrow> pricing_table option) \<Rightarrow>
     int option \<Rightarrow> int option \<Rightarrow> day_cost list \<times> bool" where
  "daily_series pd es resolve date_from date_to =
     (let days = map (\<lambda>(day, items). project_day_cost pd day items resolve)
                   (filter (\<lambda>(day, _). in_window date_from date_to day) (sort_key fst (bucket_days es)))
      in (take MAX_DAYS days, MAX_DAYS < length days))"

section \<open>Extrapolation\<close>

text \<open>
  \<^verbatim>\<open>round(p / q)\<close>: the quotient of two integers as a double (53 bits, half to even; totals
  beyond the range of a double, where Python raises, are outside the model), then half to even.
\<close>

fun bit_len :: "nat \<Rightarrow> nat" where
  "bit_len n = (if n = 0 then 0 else Suc (bit_len (n div 2)))"

declare bit_len.simps [simp del]

definition scaled_round :: "int \<Rightarrow> int \<Rightarrow> int \<Rightarrow> int" where
  "scaled_round p q e =
     (if 0 \<le> e then round_half_even p (q * 2 ^ nat e) else round_half_even (p * 2 ^ nat (- e)) q)"

definition round_div :: "int \<Rightarrow> int \<Rightarrow> int" where
  "round_div p q =
     (if p = 0 then 0
      else (let k = int (bit_len (nat \<bar>p\<bar>)) - int (bit_len (nat q));
                big = (if 0 \<le> k then q * 2 ^ nat k \<le> \<bar>p\<bar> else q \<le> \<bar>p\<bar> * 2 ^ nat (- k));
                e = (if big then k - 52 else k - 53);
                m = scaled_round p q e
            in if 0 \<le> e then m * 2 ^ nat e else round_half_even m (2 ^ nat (- e))))"

record excluded_day =
  xd_day :: int
  xd_reason :: string

record series_projection =
  sp_horizon_days :: int
  sp_valued_days :: nat
  sp_excluded_days :: "excluded_day list"
  sp_observed_minor :: "int option"
  sp_observed_status :: string
  sp_currency :: "string option"
  sp_pricing_version :: "string option"
  sp_daily_mean_minor :: "int option"
  sp_projected_minor :: "int option"
  sp_unavailable_reason :: "string option"

definition MIXED_PRICING_REASON :: string where "MIXED_PRICING_REASON = ''MIXED_PRICING''"
definition AMOUNT_MISSING_SUFFIX :: string where "AMOUNT_MISSING_SUFFIX = '':AMOUNT_MISSING''"
definition MIXED_PRICING_VERSION :: string where "MIXED_PRICING_VERSION = ''mixed''"

definition NO_VALUED_DAYS_REASON :: string where
  "NO_VALUED_DAYS_REASON = ''NO_VALUED_DAYS: no day in the window has a valued amount''"

definition CURRENCY_CONFLICT_REASON :: string where
  "CURRENCY_CONFLICT_REASON = ''CURRENCY_CONFLICT: valued days span multiple currencies; '' @
     ''the series is never summed across them''"

definition valued_statuses :: "cost_amount_status set" where
  "valued_statuses = {CS_ACTUAL, CS_ESTIMATED, CS_ZERO}"

definition exclusion_reason :: "day_cost \<Rightarrow> string option" where
  "exclusion_reason d =
     (if dc_mixed_pricing d then Some MIXED_PRICING_REASON
      else if ct_status (dc_total d) \<notin> valued_statuses then Some (status_text (ct_status (dc_total d)))
      else if ct_minor_units (dc_total d) = None
        then Some (status_text (ct_status (dc_total d)) @ AMOUNT_MISSING_SUFFIX)
      else None)"

definition series_unavailable ::
    "excluded_day list \<Rightarrow> int \<Rightarrow> string \<Rightarrow> cost_amount_status \<Rightarrow> series_projection" where
  "series_unavailable excluded horizon reason status =
     \<lparr>sp_horizon_days = horizon, sp_valued_days = 0, sp_excluded_days = excluded, sp_observed_minor = None,
      sp_observed_status = status_text status, sp_currency = None, sp_pricing_version = None,
      sp_daily_mean_minor = None, sp_projected_minor = None, sp_unavailable_reason = Some reason\<rparr>"

definition observed_status :: "cost_amount list \<Rightarrow> string" where
  "observed_status valued =
     status_text (if list_all (\<lambda>a. ct_status a = CS_ACTUAL) valued then CS_ACTUAL else CS_ESTIMATED)"

definition series_pricing_version :: "cost_amount list \<Rightarrow> string" where
  "series_pricing_version valued =
     (if card (ct_version ` set valued) = 1 then ct_version (hd valued) else MIXED_PRICING_VERSION)"

definition project_valued :: "cost_amount list \<Rightarrow> excluded_day list \<Rightarrow> int \<Rightarrow> series_projection" where
  "project_valued valued excluded horizon =
     (if valued = [] then series_unavailable excluded horizon NO_VALUED_DAYS_REASON CS_NO_DATA
      else if 1 < card (ct_currency ` set valued)
        then series_unavailable excluded horizon CURRENCY_CONFLICT_REASON CS_CURRENCY_CONFLICT
      else (let total = minor_total valued; n = int (length valued)
            in \<lparr>sp_horizon_days = horizon, sp_valued_days = length valued, sp_excluded_days = excluded,
                sp_observed_minor = Some total, sp_observed_status = observed_status valued,
                sp_currency = Some (ct_currency (hd valued)),
                sp_pricing_version = Some (series_pricing_version valued),
                sp_daily_mean_minor = Some (round_div total n),
                sp_projected_minor = Some (round_div (total * horizon) n),
                sp_unavailable_reason = None\<rparr>))"

definition project_series :: "day_cost list \<Rightarrow> int \<Rightarrow> series_projection" where
  "project_series days horizon =
     project_valued (map dc_total (filter (\<lambda>d. exclusion_reason d = None) days))
       (concat (map (\<lambda>d. case exclusion_reason d of None \<Rightarrow> []
          | Some reason \<Rightarrow> [\<lparr>xd_day = dc_day d, xd_reason = reason\<rparr>]) days)) horizon"

end
