(* ===== verification/Cost_Properties.thy ===== *)
theory Cost_Properties
  imports Budget_Properties Cost "HOL-Library.Multiset"
begin

text \<open>
  The cost of a run. The status of an aggregate is a join of the statuses of its parts
  (\<open>join_status\<close>); the join of joins is the join of the whole, so summing by dimension first
  changes nothing, and neither does the order of the entries.
\<close>

section \<open>Groups\<close>

definition groups_ok :: "('v \<Rightarrow> 'k) \<Rightarrow> 'v list \<Rightarrow> ('k \<times> 'v list) list \<Rightarrow> bool" where
  "groups_ok key vs d = (distinct (map fst d) \<and> mset (concat (map snd d)) = mset vs \<and>
     list_all (\<lambda>(k, g). g \<noteq> [] \<and> list_all (\<lambda>v. key v = k) g) d)"

lemma dict_append_keys: "map fst (dict_append k v d) = (if k \<in> fst ` set d then map fst d else map fst d @ [k])"
  by (auto simp: dict_append_def)

lemma dict_append_Cons:
  assumes "distinct (k' # map fst d)"
  shows "dict_append k v ((k', g) # d) = (if k = k' then (k', g @ [v]) # d else (k', g) # dict_append k v d)"
proof (cases "k = k'")
  case True
  then have "map (\<lambda>(k', vs). if k' = k then (k', vs @ [v]) else (k', vs)) d = d"
    using assms by (intro map_idI) (auto simp: image_iff)
  then show ?thesis using True by (simp add: dict_append_def)
qed (auto simp: dict_append_def)

lemma dict_append_mset:
  "distinct (map fst d) \<Longrightarrow> mset (concat (map snd (dict_append k v d))) = mset (concat (map snd d)) + {#v#}"
proof (induction d)
  case Nil
  then show ?case by (simp add: dict_append_def)
next
  case (Cons p d)
  then show ?case by (cases p) (simp add: dict_append_Cons)
qed

lemma dict_append_all:
  assumes "distinct (map fst d)" and "list_all (\<lambda>(k, g). P k g) d"
    and "\<And>g. P k g \<Longrightarrow> P k (g @ [v])" and "P k [v]"
  shows "list_all (\<lambda>(k, g). P k g) (dict_append k v d)"
  using assms(1,2)
proof (induction d)
  case Nil
  then show ?case using assms(4) by (simp add: dict_append_def)
next
  case (Cons p d)
  then show ?case using assms(3) by (cases p) (auto simp: dict_append_Cons)
qed

lemma groups_ok_append:
  assumes "groups_ok key vs d"
  shows "groups_ok key (vs @ [v]) (dict_append (key v) v d)"
proof -
  have "list_all (\<lambda>(k, g). g \<noteq> [] \<and> list_all (\<lambda>x. key x = k) g) (dict_append (key v) v d)"
    using assms by (intro dict_append_all) (auto simp: groups_ok_def)
  moreover have "distinct (map fst (dict_append (key v) v d))"
    using assms by (auto simp: groups_ok_def dict_append_keys)
  ultimately show ?thesis using assms by (simp add: groups_ok_def dict_append_mset)
qed

lemma groups_ok_group_by: "groups_ok key vs (group_by key vs)"
proof (induction vs rule: rev_induct)
  case Nil
  then show ?case by (simp add: groups_ok_def group_by_def)
next
  case (snoc v vs)
  from groups_ok_append [OF this, of v] show ?case by (simp add: group_by_def)
qed

lemma mset_concat_map: "mset (concat (map f xs)) = (\<Sum>x\<in>#mset xs. mset (f x))"
  by (induction xs) simp_all

lemma groups_ok_sorted:
  fixes d :: "('k :: linorder \<times> 'v list) list"
  assumes "groups_ok key vs d"
  shows "groups_ok key vs (sort_key fst d)"
proof -
  have "mset (concat (map snd (sort_key fst d))) = mset (concat (map snd d))"
    by (simp add: mset_concat_map)
  moreover have "distinct (map fst (sort_key fst d))"
    using assms by (simp add: groups_ok_def distinct_map)
  ultimately show ?thesis using assms by (simp add: groups_ok_def list_all_iff)
qed

section \<open>Statuses\<close>

definition measured_status :: "cost_amount_status \<Rightarrow> bool" where
  "measured_status s = (s \<in> {CS_ACTUAL, CS_ESTIMATED, CS_ZERO, CS_PARTIALLY_METERED})"

definition unmeasured_status :: "cost_amount_status \<Rightarrow> bool" where
  "unmeasured_status s = (s \<in> {CS_USAGE_UNKNOWN, CS_MONETARY_UNAVAILABLE, CS_PARTIALLY_METERED})"

definition plain :: "cost_amount_status set \<Rightarrow> bool" where
  "plain S = (S \<noteq> {} \<and> CS_NO_DATA \<notin> S \<and> CS_CURRENCY_CONFLICT \<notin> S)"

definition join_status :: "cost_amount_status set \<Rightarrow> cost_amount_status" where
  "join_status S =
     (if (\<exists>s\<in>S. measured_status s) \<and> (\<exists>s\<in>S. unmeasured_status s) then CS_PARTIALLY_METERED
      else if CS_USAGE_UNKNOWN \<in> S then CS_USAGE_UNKNOWN
      else if CS_MONETARY_UNAVAILABLE \<in> S then CS_MONETARY_UNAVAILABLE
      else if S \<subseteq> {CS_ZERO} then CS_ZERO
      else if S \<subseteq> {CS_ACTUAL, CS_ZERO} then CS_ACTUAL else CS_ESTIMATED)"

lemma status_classes:
  "s \<noteq> CS_NO_DATA \<Longrightarrow> s \<noteq> CS_CURRENCY_CONFLICT \<Longrightarrow> measured_status s \<or> unmeasured_status s"
  by (cases s) (simp_all add: measured_status_def unmeasured_status_def)

lemma plain_class:
  assumes "plain S"
  shows "(\<exists>s\<in>S. measured_status s) \<or> (\<exists>s\<in>S. unmeasured_status s)"
proof -
  obtain s where "s \<in> S" using assms by (auto simp: plain_def)
  with assms status_classes [of s] show ?thesis by (auto simp: plain_def)
qed

lemma unmeasured_only:
  assumes "plain S" and "\<not> (\<exists>s\<in>S. measured_status s)"
  shows "join_status S = (if CS_USAGE_UNKNOWN \<in> S then CS_USAGE_UNKNOWN else CS_MONETARY_UNAVAILABLE)"
    and "CS_USAGE_UNKNOWN \<in> S \<or> CS_MONETARY_UNAVAILABLE \<in> S"
  using assms plain_class [OF assms(1)]
  by (auto simp: join_status_def measured_status_def unmeasured_status_def)

lemma measured_only:
  assumes "plain S" and "\<not> (\<exists>s\<in>S. unmeasured_status s)"
  shows "join_status S = (if S \<subseteq> {CS_ZERO} then CS_ZERO else if CS_ESTIMATED \<in> S then CS_ESTIMATED else CS_ACTUAL)"
    and "S \<subseteq> {CS_ACTUAL, CS_ESTIMATED, CS_ZERO}"
proof -
  show *: "S \<subseteq> {CS_ACTUAL, CS_ESTIMATED, CS_ZERO}"
  proof
    fix s assume "s \<in> S"
    with assms status_classes [of s] show "s \<in> {CS_ACTUAL, CS_ESTIMATED, CS_ZERO}"
      by (auto simp: plain_def measured_status_def unmeasured_status_def)
  qed
  then show "join_status S =
      (if S \<subseteq> {CS_ZERO} then CS_ZERO else if CS_ESTIMATED \<in> S then CS_ESTIMATED else CS_ACTUAL)"
    using assms by (auto simp: join_status_def unmeasured_status_def)
qed

lemma join_measured:
  assumes "plain S"
  shows "measured_status (join_status S) \<longleftrightarrow> (\<exists>s\<in>S. measured_status s)"
proof (cases "\<exists>s\<in>S. measured_status s")
  case True
  then show ?thesis using measured_only(1) [OF assms]
    by (cases "\<exists>s\<in>S. unmeasured_status s") (auto simp: join_status_def measured_status_def)
next
  case False
  with unmeasured_only(1) [OF assms] show ?thesis by (auto simp: measured_status_def split: if_splits)
qed

lemma join_unmeasured:
  assumes "plain S"
  shows "unmeasured_status (join_status S) \<longleftrightarrow> (\<exists>s\<in>S. unmeasured_status s)"
proof (cases "\<exists>s\<in>S. unmeasured_status s")
  case True
  then show ?thesis using unmeasured_only(1) [OF assms]
    by (cases "\<exists>s\<in>S. measured_status s") (auto simp: join_status_def unmeasured_status_def)
next
  case False
  with measured_only(1) [OF assms] show ?thesis by (auto simp: unmeasured_status_def split: if_splits)
qed

lemma join_plain [simp]: "join_status S \<noteq> CS_NO_DATA" "join_status S \<noteq> CS_CURRENCY_CONFLICT"
  by (simp_all add: join_status_def)

lemma plain_joins:
  assumes "SS \<noteq> {}" and "\<forall>S\<in>SS. plain S"
  shows "plain (join_status ` SS)" and "plain (\<Union> SS)"
proof -
  show "plain (join_status ` SS)" using assms(1) by (simp add: plain_def image_iff) (metis join_plain)
  show "plain (\<Union> SS)" using assms by (auto simp: plain_def)
qed

lemma image_Union_iff:
  assumes "\<forall>S\<in>SS. f S = a \<longleftrightarrow> a \<in> S"
  shows "a \<in> f ` SS \<longleftrightarrow> a \<in> \<Union> SS"
proof
  assume "a \<in> f ` SS"
  then obtain S where "S \<in> SS" "f S = a" by blast
  with assms show "a \<in> \<Union> SS" by blast
next
  assume "a \<in> \<Union> SS"
  then obtain S where "S \<in> SS" "a \<in> S" by blast
  with assms have "f S = a" by blast
  with \<open>S \<in> SS\<close> show "a \<in> f ` SS" by blast
qed

text \<open>What a joined status says.\<close>

lemma join_statuses:
  assumes "plain S"
  shows "join_status S = CS_PARTIALLY_METERED \<longleftrightarrow>
      (\<exists>s\<in>S. measured_status s) \<and> (\<exists>s\<in>S. unmeasured_status s)"
    and "join_status S \<in> {CS_ACTUAL, CS_ESTIMATED, CS_ZERO} \<longleftrightarrow> \<not> (\<exists>s\<in>S. unmeasured_status s)"
    and "join_status S = CS_ZERO \<longleftrightarrow> S \<subseteq> {CS_ZERO}"
    and "join_status S \<noteq> CS_NO_DATA" and "join_status S \<noteq> CS_CURRENCY_CONFLICT"
proof -
  show "join_status S \<noteq> CS_NO_DATA" and "join_status S \<noteq> CS_CURRENCY_CONFLICT" by simp_all
  show p: "join_status S = CS_PARTIALLY_METERED \<longleftrightarrow>
      (\<exists>s\<in>S. measured_status s) \<and> (\<exists>s\<in>S. unmeasured_status s)"
    using join_measured [OF assms] join_unmeasured [OF assms]
    by (cases "join_status S") (auto simp: measured_status_def unmeasured_status_def)
  show "join_status S \<in> {CS_ACTUAL, CS_ESTIMATED, CS_ZERO} \<longleftrightarrow> \<not> (\<exists>s\<in>S. unmeasured_status s)"
    using join_unmeasured [OF assms] by (cases "join_status S") (auto simp: unmeasured_status_def)
  show "join_status S = CS_ZERO \<longleftrightarrow> S \<subseteq> {CS_ZERO}"
  proof
    assume z: "join_status S = CS_ZERO"
    then have "\<not> (\<exists>s\<in>S. unmeasured_status s)" using join_unmeasured [OF assms] by (simp add: unmeasured_status_def)
    with measured_only(1) [OF assms] z show "S \<subseteq> {CS_ZERO}" by (simp split: if_splits)
  next
    assume z: "S \<subseteq> {CS_ZERO}"
    then have "\<not> (\<exists>s\<in>S. unmeasured_status s)" by (auto simp: unmeasured_status_def)
    with measured_only(1) [OF assms] z show "join_status S = CS_ZERO" by simp
  qed
qed

text \<open>The join of the joins is the join of the union.\<close>

lemma join_joins:
  assumes "SS \<noteq> {}" and "\<forall>S\<in>SS. plain S"
  shows "join_status (join_status ` SS) = join_status (\<Union> SS)"
proof -
  note pl = plain_joins [OF assms]
  have m: "(\<exists>s\<in>join_status ` SS. measured_status s) \<longleftrightarrow> (\<exists>s\<in>\<Union> SS. measured_status s)"
    using assms(2) by (auto simp: join_measured)
  have u: "(\<exists>s\<in>join_status ` SS. unmeasured_status s) \<longleftrightarrow> (\<exists>s\<in>\<Union> SS. unmeasured_status s)"
    using assms(2) by (auto simp: join_unmeasured)
  consider "\<exists>s\<in>\<Union> SS. measured_status s" "\<exists>s\<in>\<Union> SS. unmeasured_status s"
    | "\<not> (\<exists>s\<in>\<Union> SS. measured_status s)" | "\<not> (\<exists>s\<in>\<Union> SS. unmeasured_status s)" by blast
  then show ?thesis
  proof cases
    case 1
    then show ?thesis using m u by (simp add: join_status_def [of "\<Union> SS"] join_status_def [of "join_status ` SS"])
  next
    case 2
    then have each: "\<forall>S\<in>SS. join_status S = CS_USAGE_UNKNOWN \<longleftrightarrow> CS_USAGE_UNKNOWN \<in> S"
      using assms(2) by (auto simp: unmeasured_only(1) split: if_splits)
    then have "CS_USAGE_UNKNOWN \<in> join_status ` SS \<longleftrightarrow> CS_USAGE_UNKNOWN \<in> \<Union> SS" by (rule image_Union_iff)
    then show ?thesis using unmeasured_only(1) [OF pl(1)] unmeasured_only(1) [OF pl(2)] 2 m by simp
  next
    case 3
    have each: "join_status S = (if S \<subseteq> {CS_ZERO} then CS_ZERO else if CS_ESTIMATED \<in> S then CS_ESTIMATED else CS_ACTUAL)"
      if "S \<in> SS" for S
      using that 3 assms(2) by (intro measured_only(1)) auto
    have "\<forall>S\<in>SS. join_status S = CS_ZERO \<longleftrightarrow> S \<subseteq> {CS_ZERO}" by (simp add: each)
    then have "join_status ` SS \<subseteq> {CS_ZERO} \<longleftrightarrow> \<Union> SS \<subseteq> {CS_ZERO}" by blast
    moreover have "\<forall>S\<in>SS. join_status S = CS_ESTIMATED \<longleftrightarrow> CS_ESTIMATED \<in> S" by (auto simp: each)
    then have "CS_ESTIMATED \<in> join_status ` SS \<longleftrightarrow> CS_ESTIMATED \<in> \<Union> SS" by (rule image_Union_iff)
    ultimately show ?thesis using measured_only(1) [OF pl(1)] measured_only(1) [OF pl(2)] 3 u by simp
  qed
qed

section \<open>Aggregates\<close>

text \<open>A well-formed amount: which statuses carry a number.\<close>

definition sound_amount :: "cost_amount \<Rightarrow> bool" where
  "sound_amount a =
     (case ct_status a of
        CS_ACTUAL \<Rightarrow> ct_minor_units a \<noteq> None | CS_ESTIMATED \<Rightarrow> ct_minor_units a \<noteq> None
      | CS_PARTIALLY_METERED \<Rightarrow> ct_minor_units a \<noteq> None | CS_ZERO \<Rightarrow> ct_minor_units a = Some 0
      | _ \<Rightarrow> ct_minor_units a = None)"

definition statuses :: "cost_amount list \<Rightarrow> cost_amount_status set" where
  "statuses items = ct_status ` set items"

definition conflicting :: "cost_amount list \<Rightarrow> bool" where
  "conflicting items = (1 < card (ct_currency ` set items) \<or> CS_CURRENCY_CONFLICT \<in> statuses items)"

lemma minor_total_filter:
  "(\<And>i. i \<in> set items \<Longrightarrow> \<not> P i \<Longrightarrow> or_zero (ct_minor_units i) = 0) \<Longrightarrow>
   minor_total (filter P items) = minor_total items"
  by (induction items) (auto simp: minor_total_def)

lemma minor_total_zero:
  "(\<And>i. i \<in> set items \<Longrightarrow> or_zero (ct_minor_units i) = 0) \<Longrightarrow> minor_total items = 0"
  by (induction items) (auto simp: minor_total_def)

lemma unmeasured_minor:
  "sound_amount a \<Longrightarrow> \<not> measured_status (ct_status a) \<Longrightarrow> or_zero (ct_minor_units a) = 0"
  by (cases "ct_status a") (simp_all add: sound_amount_def measured_status_def or_zero_def)

lemma zero_total:
  assumes "statuses items \<subseteq> {CS_ZERO}" and "list_all sound_amount items"
  shows "minor_total items = 0"
proof (rule minor_total_zero)
  fix i assume i: "i \<in> set items"
  then have "ct_status i = CS_ZERO" using assms(1) by (auto simp: statuses_def)
  moreover have "sound_amount i" using i assms(2) by (simp add: list_all_iff)
  ultimately show "or_zero (ct_minor_units i) = 0" by (simp add: sound_amount_def or_zero_def)
qed

lemma status_tests:
  "list_ex (\<lambda>i. ct_status i = x) items \<longleftrightarrow> x \<in> statuses items"
  "has_unmeasured items \<longleftrightarrow> (\<exists>s\<in>statuses items. unmeasured_status s)"
  "monetary_amounts items = filter (\<lambda>i. measured_status (ct_status i)) items"
  by (auto simp: list_ex_iff list_all_iff statuses_def has_unmeasured_def unmeasured_status_def
      monetary_amounts_def measured_status_def)

lemma conflicting_aggregate:
  assumes "items \<noteq> []" and "CS_NO_DATA \<notin> statuses items" and "conflicting items"
  shows "ct_status (aggregate_costs pd pricing items) = CS_CURRENCY_CONFLICT"
    and "ct_minor_units (aggregate_costs pd pricing items) = None"
  using assms
  by (auto simp: aggregate_costs_def Let_def conflicting_def blocking_status_def status_tests)

lemma plain_aggregate:
  assumes "plain (statuses items)" and "list_all sound_amount items" and "\<not> conflicting items"
  shows "aggregate_costs pd pricing items =
    (hd items)\<lparr>ct_status := join_status (statuses items),
      ct_minor_units := (if \<exists>s\<in>statuses items. measured_status s then Some (minor_total items) else None)\<rparr>"
proof -
  have ne: "items \<noteq> []" using assms(1) by (auto simp: plain_def statuses_def)
  have blk: "blocking_status items = None"
    using assms(1) by (simp add: blocking_status_def status_tests plain_def)
  have mt: "minor_total (filter (\<lambda>i. measured_status (ct_status i)) items) = minor_total items"
    using assms(2) unmeasured_minor by (intro minor_total_filter) (simp add: list_all_iff)
  have mon: "monetary_amounts items \<noteq> [] \<longleftrightarrow> (\<exists>s\<in>statuses items. measured_status s)"
    by (auto simp: status_tests(3) filter_empty_conv statuses_def)
  have one: "\<not> 1 < card (ct_currency ` set items)" using assms(3) by (simp add: conflicting_def)
  note agg = aggregate_costs_def Let_def blk ne one one [unfolded One_nat_def]
  consider "\<exists>s\<in>statuses items. measured_status s" "\<exists>s\<in>statuses items. unmeasured_status s"
    | "\<not> (\<exists>s\<in>statuses items. measured_status s)" "\<exists>s\<in>statuses items. unmeasured_status s"
    | "\<exists>s\<in>statuses items. measured_status s" "\<not> (\<exists>s\<in>statuses items. unmeasured_status s)"
    using plain_class [OF assms(1)] by blast
  then show ?thesis
  proof cases
    case 1
    then have "monetary_amounts items \<noteq> []" "has_unmeasured items" by (simp_all add: mon status_tests(2))
    with 1 show ?thesis by (simp add: agg join_status_def) (simp add: status_tests(3) mt)
  next
    case 2
    have "monetary_amounts items = []" using mon 2(1) by simp
    moreover have "unmeasurable_status items = Some (join_status (statuses items))"
      using unmeasured_only [OF assms(1) 2(1)] by (auto simp: unmeasurable_status_def status_tests(1))
    ultimately show ?thesis using 2(1) by (simp add: agg)
  next
    case 3
    note only = measured_only [OF assms(1) 3(2)]
    have nu: "\<not> has_unmeasured items" using 3(2) by (simp add: status_tests(2))
    have um: "unmeasurable_status items = None"
      using only(2) by (auto simp: unmeasurable_status_def status_tests(1))
    have zeros: "list_all (\<lambda>i. ct_status i = CS_ZERO) items \<longleftrightarrow> statuses items \<subseteq> {CS_ZERO}"
      by (auto simp: list_all_iff statuses_def)
    have three: "ct_status i = CS_ACTUAL \<or> ct_status i = CS_ESTIMATED \<or> ct_status i = CS_ZERO"
      if "i \<in> set items" for i using only(2) that by (auto simp: statuses_def)
    have est: "CS_ESTIMATED \<in> statuses items \<longleftrightarrow> (\<exists>i\<in>set items. ct_status i = CS_ESTIMATED)"
      by (force simp: statuses_def)
    have actual: "list_all (\<lambda>i. ct_status i \<in> {CS_ACTUAL, CS_ZERO}) items \<longleftrightarrow> CS_ESTIMATED \<notin> statuses items"
      unfolding est list_all_iff using three by fastforce
    have none: "or_zero (ct_minor_units i) = 0" if "i \<in> set items" "ct_status i = CS_ZERO" for i
      using that assms(2) by (auto simp: list_all_iff sound_amount_def or_zero_def)
    have st: "minor_total (filter (\<lambda>i. ct_status i \<in> {CS_ACTUAL, CS_ESTIMATED}) items) = minor_total items"
      using three none by (intro minor_total_filter) blast+
    note zero = zero_total [OF _ assms(2)]
    show ?thesis
      using 3(1) by (simp only: agg nu um zeros actual st only(1)) (simp add: zero)
  qed
qed

section \<open>Aggregates of aggregates\<close>

definition stamped :: "pricing_stamp \<Rightarrow> cost_amount \<Rightarrow> bool" where
  "stamped st a = (ct_version a = ps_version st \<and> ct_digest a = ps_digest st \<and>
     ct_effective_from a = ps_effective_from st \<and> ct_method a = ps_method st)"

text \<open>What the amounts of the entries are.\<close>

definition basic :: "pricing_stamp \<Rightarrow> cost_amount \<Rightarrow> bool" where
  "basic st a = (stamped st a \<and> sound_amount a \<and> ct_status a \<noteq> CS_NO_DATA \<and> ct_status a \<noteq> CS_CURRENCY_CONFLICT)"

lemma basic_plain: "items \<noteq> [] \<Longrightarrow> list_all (basic st) items \<Longrightarrow> plain (statuses items) \<and> list_all sound_amount items"
  by (auto simp: plain_def statuses_def list_all_iff basic_def)

lemma basic_conflicting: "list_all (basic st) items \<Longrightarrow> conflicting items \<longleftrightarrow> 1 < card (ct_currency ` set items)"
  by (auto simp: conflicting_def statuses_def list_all_iff basic_def)

lemma card_image_single:
  assumes "x \<in> A" and "finite A" and "\<not> 1 < card (f ` A)"
  shows "f ` A = {f x}"
proof -
  have "f x \<in> f ` A" "finite (f ` A)" using assms by auto
  moreover have "card (f ` A) \<le> 1" using assms(3) by simp
  ultimately show ?thesis by (metis One_nat_def card_le_Suc0_iff_eq empty_iff insertI1 is_singletonI' is_singleton_def singletonD)
qed

lemma aggregate_currency: "items \<noteq> [] \<Longrightarrow> ct_currency (aggregate_costs pd pricing items) = ct_currency (hd items)"
  by (auto simp: aggregate_costs_def Let_def split: option.splits)

lemma aggregate_stamped:
  "items \<noteq> [] \<Longrightarrow> stamped st (hd items) \<Longrightarrow> stamped st (aggregate_costs pd pricing items)"
  by (auto simp: aggregate_costs_def Let_def stamped_def split: option.splits)

lemma plain_aggregate_basic:
  assumes "items \<noteq> []" and "list_all (basic st) items" and "\<not> conflicting items"
  shows "basic st (aggregate_costs pd pricing items)"
    and "ct_status (aggregate_costs pd pricing items) = join_status (statuses items)"
    and "or_zero (ct_minor_units (aggregate_costs pd pricing items)) = minor_total items"
    and "ct_minor_units (aggregate_costs pd pricing items) =
      (if \<exists>s\<in>statuses items. measured_status s then Some (minor_total items) else None)"
proof -
  have pl: "plain (statuses items)" and snd: "list_all sound_amount items" using basic_plain [OF assms(1,2)] by simp_all
  note agg = plain_aggregate [OF pl snd assms(3), of pd pricing]
  show st: "ct_status (aggregate_costs pd pricing items) = join_status (statuses items)" by (simp add: agg)
  show mn: "ct_minor_units (aggregate_costs pd pricing items) =
      (if \<exists>s\<in>statuses items. measured_status s then Some (minor_total items) else None)" by (simp add: agg)
  have zero: "minor_total items = 0" if "\<not> (\<exists>s\<in>statuses items. measured_status s)"
    using that snd unmeasured_minor by (intro minor_total_zero) (auto simp: statuses_def list_all_iff)
  show "or_zero (ct_minor_units (aggregate_costs pd pricing items)) = minor_total items"
    using zero by (simp add: mn or_zero_def)
  have "stamped st (hd items)" using assms(1,2) by (cases items) (simp_all add: basic_def)
  then have "stamped st (aggregate_costs pd pricing items)" by (rule aggregate_stamped [OF assms(1)])
  moreover have "minor_total items = 0" if "join_status (statuses items) = CS_ZERO"
  proof -
    have "\<not> (\<exists>s\<in>statuses items. unmeasured_status s)"
      using that join_unmeasured [OF pl] by (simp add: unmeasured_status_def)
    then have "statuses items \<subseteq> {CS_ZERO}" using measured_only(1) [OF pl] that by (simp split: if_splits)
    then show ?thesis using snd by (rule zero_total)
  qed
  moreover have "measured_status (join_status (statuses items)) \<longleftrightarrow> (\<exists>s\<in>statuses items. measured_status s)"
    by (rule join_measured [OF pl])
  ultimately show "basic st (aggregate_costs pd pricing items)"
    unfolding basic_def sound_amount_def st mn
    by (cases "join_status (statuses items)") (simp_all add: measured_status_def)
qed

lemma minor_total_simps [simp]:
  "minor_total [] = 0" "minor_total (a # as) = or_zero (ct_minor_units a) + minor_total as"
  "minor_total (xs @ ys) = minor_total xs + minor_total ys"
  by (simp_all add: minor_total_def)

lemma minor_total_mset: "mset xs = mset ys \<Longrightarrow> minor_total xs = minor_total ys"
  unfolding minor_total_def by (metis mset_map sum_mset_sum_list)

lemma minor_total_concat:
  "(\<And>g. g \<in> set gs \<Longrightarrow> or_zero (ct_minor_units (f g)) = minor_total g) \<Longrightarrow>
   minor_total (map f gs) = minor_total (concat gs)"
  by (induction gs) simp_all

text \<open>
  Aggregating the aggregates of groups is aggregating their members, in any order; only the
  currency shown with a conflict depends on the order.
\<close>

lemma aggregate_of_aggregates:
  fixes pd :: "pricing_table \<Rightarrow> string" and pricing :: "pricing_table option"
  assumes "gs \<noteq> []" and "\<forall>g\<in>set gs. g \<noteq> []" and "list_all (basic st) items"
    and "mset (concat gs) = mset items"
  defines "R \<equiv> map (aggregate_costs pd pricing) gs" and "f \<equiv> aggregate_costs pd pricing items"
  shows "ct_status (aggregate_costs pd pricing R) = ct_status f \<and>
    ct_minor_units (aggregate_costs pd pricing R) = ct_minor_units f \<and>
    (ct_status f \<noteq> CS_CURRENCY_CONFLICT \<longrightarrow> aggregate_costs pd pricing R = f)"
proof -
  let ?agg = "aggregate_costs pd pricing" and ?cur = "\<lambda>xs. ct_currency ` set xs"
  have sets: "set items = (\<Union>g\<in>set gs. set g)" using assms(4) by (metis set_concat set_mset_mset)
  have bg: "list_all (basic st) g" if "g \<in> set gs" for g using that assms(3) sets by (auto simp: list_all_iff)
  have ne: "items \<noteq> []" "R \<noteq> []" using assms(1,2) sets by (auto simp: R_def)
  have fin: "finite (?cur xs)" for xs by simp
  have no_data: "CS_NO_DATA \<notin> statuses items" using basic_plain [OF ne(1) assms(3)] by (simp add: plain_def)
  have no_data_R: "CS_NO_DATA \<notin> statuses R"
  proof
    assume "CS_NO_DATA \<in> statuses R"
    then obtain g where g: "g \<in> set gs" "ct_status (?agg g) = CS_NO_DATA" by (auto simp: statuses_def R_def)
    then have gn: "g \<noteq> []" using assms(2) by simp
    have nd: "CS_NO_DATA \<notin> statuses g" using basic_plain [OF gn bg [OF g(1)]] by (simp add: plain_def)
    show False
    proof (cases "conflicting g")
      case True
      with conflicting_aggregate(1) [OF gn nd] g(2) show False by simp
    next
      case False
      with plain_aggregate_basic(2) [OF gn bg [OF g(1)]] g(2) show False by simp
    qed
  qed
  show ?thesis
  proof (cases "conflicting items")
    case True
    have "conflicting R"
    proof (rule ccontr)
      assume nc: "\<not> conflicting R"
      have each: "?cur g = {ct_currency (?agg g)}" if g: "g \<in> set gs" for g
      proof -
        have gn: "g \<noteq> []" using g assms(2) by simp
        have nd: "CS_NO_DATA \<notin> statuses g" using basic_plain [OF gn bg [OF g]] by (simp add: plain_def)
        have "ct_status (?agg g) \<noteq> CS_CURRENCY_CONFLICT"
          using nc g by (auto simp: conflicting_def statuses_def R_def image_iff)
        then have "\<not> conflicting g" using conflicting_aggregate(1) [OF gn nd] by blast
        then have "\<not> 1 < card (?cur g)" by (simp add: conflicting_def)
        then have "?cur g = {ct_currency (hd g)}" using gn by (intro card_image_single) auto
        then show ?thesis by (simp add: aggregate_currency [OF gn])
      qed
      have "?cur items = (\<Union>g\<in>set gs. ?cur g)" by (simp add: sets image_UN)
      also have "\<dots> = (\<Union>g\<in>set gs. {ct_currency (?agg g)})" using each by simp
      also have "\<dots> = ?cur R" by (auto simp: R_def)
      finally have "1 < card (?cur R)" using True basic_conflicting [OF assms(3)] by simp
      with nc show False by (simp add: conflicting_def)
    qed
    with conflicting_aggregate [OF ne(2) no_data_R] conflicting_aggregate [OF ne(1) no_data True]
    show ?thesis by (simp add: f_def)
  next
    case False
    then have one: "?cur items = {ct_currency (hd items)}"
      using ne(1) basic_conflicting [OF assms(3)] by (intro card_image_single) auto
    have nc: "\<not> conflicting g" if "g \<in> set gs" for g
    proof -
      have "?cur g \<subseteq> {ct_currency (hd items)}" using that one by (auto simp: sets)
      then have "card (?cur g) \<le> 1" by (metis card.empty card_insert_disjoint card_mono empty_iff finite.emptyI finite_insert One_nat_def)
      then show ?thesis using basic_conflicting [OF bg [OF that]] by simp
    qed
    have grp: "basic st (?agg g)" "ct_status (?agg g) = join_status (statuses g)"
      "or_zero (ct_minor_units (?agg g)) = minor_total g"
      "ct_currency (?agg g) = ct_currency (hd items)" if "g \<in> set gs" for g
    proof -
      have gn: "g \<noteq> []" using that assms(2) by simp
      note pb = plain_aggregate_basic [OF gn bg [OF that] nc [OF that], of pd pricing]
      show "basic st (?agg g)" "ct_status (?agg g) = join_status (statuses g)"
        "or_zero (ct_minor_units (?agg g)) = minor_total g" by (fact pb(1) pb(2) pb(3))+
      have "hd g \<in> set items" using that hd_in_set [OF gn] by (auto simp: sets)
      then have "ct_currency (hd g) \<in> ?cur items" by blast
      then show "ct_currency (?agg g) = ct_currency (hd items)" by (simp add: aggregate_currency [OF gn] one)
    qed
    have bR: "list_all (basic st) R" using grp(1) by (auto simp: R_def list_all_iff)
    have "?cur R \<subseteq> {ct_currency (hd items)}" using grp(4) by (auto simp: R_def)
    then have "card (?cur R) \<le> 1" by (metis card.empty card_insert_disjoint card_mono empty_iff finite.emptyI finite_insert One_nat_def)
    then have ncR: "\<not> conflicting R" using basic_conflicting [OF bR] by simp
    have stR: "statuses R = join_status ` (statuses ` set gs)" using grp(2) by (force simp: statuses_def R_def)
    have un: "\<Union> (statuses ` set gs) = statuses items" by (auto simp: statuses_def sets)
    have plg: "\<forall>S\<in>statuses ` set gs. plain S" using basic_plain bg assms(2) by auto
    have join: "join_status (statuses R) = join_status (statuses items)"
      using join_joins [of "statuses ` set gs"] assms(1) plg by (simp add: stR un)
    have total: "minor_total R = minor_total items"
      using minor_total_concat [of gs ?agg] grp(3) minor_total_mset [OF assms(4)] by (simp add: R_def)
    have meas: "(\<exists>s\<in>statuses R. measured_status s) \<longleftrightarrow> (\<exists>s\<in>statuses items. measured_status s)"
      using join join_measured basic_plain [OF ne(2) bR] basic_plain [OF ne(1) assms(3)] by metis
    have "?agg R = f"
    proof -
      have "hd R = ?agg (hd gs)" using assms(1) by (simp add: R_def hd_map)
      then have hdR: "stamped st (hd R)" "ct_currency (hd R) = ct_currency (hd items)"
        using grp(1,4) [of "hd gs"] assms(1) by (simp_all add: basic_def)
      have "stamped st (hd items)" using ne(1) assms(3) by (cases items) (simp_all add: basic_def)
      with hdR plain_aggregate [of R] plain_aggregate [of items] basic_plain [OF ne(2) bR]
        basic_plain [OF ne(1) assms(3)] ncR False join total meas
      show ?thesis by (simp add: f_def stamped_def)
    qed
    then show ?thesis by simp
  qed
qed

section \<open>The cost of an entry\<close>

text \<open>An entry whose quantity is known and that has a price, an amount of its own or is zero.\<close>

definition has_price :: "pricing_table option \<Rightarrow> usage_entry \<Rightarrow> bool" where
  "has_price pricing e = (case pricing of None \<Rightarrow> False
     | Some t \<Rightarrow> price_for t (fst (dimension_of e)) (snd (dimension_of e)) (Some (ue_unit e)) \<noteq> None)"

definition measured_cost :: "pricing_table option \<Rightarrow> usage_entry \<Rightarrow> bool" where
  "measured_cost pricing e = (ue_quantity_status e = QTY_KNOWN \<and>
     (qty_val (ue_quantity e) = 0 \<or> ue_actual_cost_minor e \<noteq> None \<or>
      ue_resource_type e = MODEL_COST \<and> ue_estimated_cost_minor e \<noteq> None \<or> has_price pricing e))"

lemma amount_of_simps [simp]:
  "ct_status (amount_of s m st c) = s" "ct_minor_units (amount_of s m st c) = m"
  "stamped st (amount_of s m st c)"
  by (simp_all add: amount_of_def stamped_def)

lemma known_status: "s \<noteq> QTY_UNKNOWN \<longleftrightarrow> s = QTY_KNOWN"
  by (cases s) simp_all

lemma project_entry_basic: "basic (stamp_of pd pricing) (project_entry_cost pd pricing e)"
  by (auto simp: project_entry_cost_def Let_def basic_def sound_amount_def split: option.split)

lemma project_entry_status:
  "measured_status (ct_status (project_entry_cost pd pricing e)) \<longleftrightarrow> measured_cost pricing e"
  "unmeasured_status (ct_status (project_entry_cost pd pricing e)) \<longleftrightarrow> \<not> measured_cost pricing e"
  "ct_status (project_entry_cost pd pricing e) = CS_ZERO \<longleftrightarrow>
     ue_quantity_status e = QTY_KNOWN \<and> qty_val (ue_quantity e) = 0"
  by (auto simp: project_entry_cost_def Let_def measured_cost_def measured_status_def unmeasured_status_def
      has_price_def qty_tests known_status [symmetric] split: option.split)

section \<open>The cost of a run\<close>

lemma total_cost_groups:
  "total_cost pd pricing es =
     aggregate_costs pd pricing (map (aggregate_costs pd pricing)
       (map (\<lambda>p. map (project_entry_cost pd pricing) (snd p)) (sort_key fst (group_by dimension_key es))))"
  by (simp add: total_cost_def project_dimensions_def comp_def split_beta)

lemma total_cost_flat:
  assumes "mset es' = mset es"
  shows "let t = total_cost pd pricing es;
             f = aggregate_costs pd pricing (map (project_entry_cost pd pricing) es')
         in ct_status t = ct_status f \<and> ct_minor_units t = ct_minor_units f \<and>
            (ct_status f \<noteq> CS_CURRENCY_CONFLICT \<longrightarrow> t = f)"
proof (cases "es = []")
  case True
  then show ?thesis using assms by (simp add: total_cost_groups group_by_def)
next
  case False
  let ?p = "project_entry_cost pd pricing" and ?d = "sort_key fst (group_by dimension_key es)"
  have ok: "groups_ok dimension_key es ?d" by (intro groups_ok_sorted groups_ok_group_by)
  then have m: "mset (concat (map snd ?d)) = mset es" by (simp add: groups_ok_def)
  have "?d \<noteq> []" using False m by auto
  moreover have "\<forall>g\<in>set (map (\<lambda>p. map ?p (snd p)) ?d). g \<noteq> []"
    using ok by (auto simp: groups_ok_def list_all_iff)
  moreover have "list_all (basic (stamp_of pd pricing)) (map ?p es')"
    by (simp add: list_all_iff project_entry_basic)
  moreover have "mset (concat (map (\<lambda>p. map ?p (snd p)) ?d)) = mset (map ?p es')"
  proof -
    have "concat (map (\<lambda>p. map ?p (snd p)) ?d) = map ?p (concat (map snd ?d))" by (simp add: map_concat comp_def)
    with m assms show ?thesis by (simp only: mset_map)
  qed
  ultimately show ?thesis
    using aggregate_of_aggregates [of "map (\<lambda>p. map ?p (snd p)) ?d" "stamp_of pd pricing" "map ?p es'" pd pricing]
    by (simp add: total_cost_groups Let_def)
qed

text \<open>
  Summing a run's cost by dimension first changes nothing. The total over the dimensions
  has the status and the amount of the flat aggregate of the entries, taken in any order; it
  is the same value altogether unless currencies conflict, where only the currency shown may
  differ.
\<close>

theorem total_cost_is_flat:
  assumes "mset es' = mset es"
  shows "let t = total_cost pd pricing es;
             f = aggregate_costs pd pricing (map (project_entry_cost pd pricing) es')
         in ct_status t = ct_status f \<and> ct_minor_units t = ct_minor_units f \<and>
            (ct_status f \<noteq> CS_CURRENCY_CONFLICT \<longrightarrow> t = f)"
  using assms by (rule total_cost_flat)

definition sample_cost_entry :: "string \<Rightarrow> int \<Rightarrow> usage_entry" where
  "sample_cost_entry i q = (entry_defaults i TOOL_REQUESTS (QInt q) ''requests'' ''m12:tool_plane'' 0)
     \<lparr>ue_tool_id := Some ''search''\<rparr>"

definition sample_prices :: pricing_table where
  "sample_prices = unpriced_table\<lparr>pt_version := ''v1'', pt_prices :=
     [\<lparr>pe_dimension = PD_TOOL, pe_resource_key = ''search'', pe_unit = ''requests'', pe_unit_price_minor = 7\<rparr>]\<rparr>"

lemma total_cost_is_flat_witness:
  "ct_minor_units (total_cost (\<lambda>_. ''d'') (Some sample_prices) [sample_cost_entry ''a'' 2, sample_cost_entry ''b'' 3]) = Some 35"
  using total_cost_is_flat [of "[sample_cost_entry ''b'' 3, sample_cost_entry ''a'' 2]"
      "[sample_cost_entry ''a'' 2, sample_cost_entry ''b'' 3]" "\<lambda>_. ''d''" "Some sample_prices"]
  by (simp add: Let_def aggregate_costs_def blocking_status_def monetary_amounts_def has_unmeasured_def
      unmeasurable_status_def minor_total_def or_zero_def project_entry_cost_def sample_cost_entry_def
      sample_prices_def entry_defaults_def qty_zero_def dec_eq_def dec_align_def dec_of_int_def
      dimension_of_def price_for_def str_or_def amount_of_def stamp_of_def unpriced_table_def)

text \<open>
  C39: an unknown quantity or a missing price never becomes a zero. A run without entries has
  no data. Otherwise, if all amounts are in one currency, the total is PARTIALLY_METERED
  exactly when some entries have a cost and some have none, it is ACTUAL, ESTIMATED or ZERO
  exactly when every entry has one, ZERO exactly when every quantity is known to be zero, and
  the amount is the sum of the costs that are known, absent when none is; several currencies
  are a conflict without an amount.
\<close>

theorem unknown_cost_is_never_zero:
  "let t = total_cost pd pricing es; p = project_entry_cost pd pricing
   in sound_amount t \<and>
     (ct_status t = CS_NO_DATA \<longleftrightarrow> es = []) \<and>
     (ct_status t = CS_CURRENCY_CONFLICT \<longleftrightarrow> 1 < card ((\<lambda>e. ct_currency (p e)) ` set es)) \<and>
     (if es = [] \<or> 1 < card ((\<lambda>e. ct_currency (p e)) ` set es) then ct_minor_units t = None
      else (ct_status t = CS_PARTIALLY_METERED \<longleftrightarrow>
              list_ex (measured_cost pricing) es \<and> \<not> list_all (measured_cost pricing) es) \<and>
           (ct_status t \<in> {CS_ACTUAL, CS_ESTIMATED, CS_ZERO} \<longleftrightarrow> list_all (measured_cost pricing) es) \<and>
           (ct_status t = CS_ZERO \<longleftrightarrow>
              list_all (\<lambda>e. ue_quantity_status e = QTY_KNOWN \<and> qty_val (ue_quantity e) = 0) es) \<and>
           ct_minor_units t =
             (if list_ex (measured_cost pricing) es
              then Some (minor_total (map p (filter (measured_cost pricing) es))) else None))"
proof -
  let ?p = "project_entry_cost pd pricing" and ?t = "total_cost pd pricing es"
  let ?as = "map ?p es" and ?one = "\<not> 1 < card ((\<lambda>e. ct_currency (?p e)) ` set es)"
  have flat: "ct_status ?t = ct_status (aggregate_costs pd pricing ?as)"
    "ct_minor_units ?t = ct_minor_units (aggregate_costs pd pricing ?as)"
    using total_cost_flat [of es es pd pricing] by (simp_all add: Let_def)
  have basic: "list_all (basic (stamp_of pd pricing)) ?as" by (simp add: list_all_iff project_entry_basic)
  have cur: "ct_currency ` set ?as = (\<lambda>e. ct_currency (?p e)) ` set es" by (simp add: image_image)
  consider "es = []" | "es \<noteq> []" "\<not> ?one" | "es \<noteq> []" "?one" by blast
  then show ?thesis
  proof cases
    case 1
    then have "ct_status ?t = CS_NO_DATA" "ct_minor_units ?t = None" using flat by (simp_all add: aggregate_costs_def)
    with 1 show ?thesis by (simp add: sound_amount_def Let_def)
  next
    case 2
    have "CS_NO_DATA \<notin> statuses ?as" using basic_plain [OF _ basic] 2(1) by (simp add: plain_def)
    moreover have "conflicting ?as" using basic_conflicting [OF basic] 2(2) cur by simp
    ultimately show ?thesis using conflicting_aggregate [of ?as pd pricing] 2
      by (simp add: flat sound_amount_def Let_def)
  next
    case 3
    have nc: "\<not> conflicting ?as" using basic_conflicting [OF basic] 3(2) cur by simp
    have ne: "?as \<noteq> []" using 3(1) by simp
    note agg = plain_aggregate_basic [OF ne basic nc, of pd pricing]
    have pl: "plain (statuses ?as)" using basic_plain [OF ne basic] by simp
    have some: "(\<exists>s\<in>statuses ?as. measured_status s) \<longleftrightarrow> list_ex (measured_cost pricing) es"
      by (simp add: statuses_def list_ex_iff project_entry_status)
    have all: "(\<exists>s\<in>statuses ?as. unmeasured_status s) \<longleftrightarrow> \<not> list_all (measured_cost pricing) es"
      by (auto simp: statuses_def list_all_iff project_entry_status)
    have zero: "statuses ?as \<subseteq> {CS_ZERO} \<longleftrightarrow>
        list_all (\<lambda>e. ue_quantity_status e = QTY_KNOWN \<and> qty_val (ue_quantity e) = 0) es"
    proof -
      have "statuses ?as \<subseteq> {CS_ZERO} \<longleftrightarrow> (\<forall>e\<in>set es. ct_status (?p e) = CS_ZERO)" by (auto simp: statuses_def)
      then show ?thesis by (simp add: list_all_iff project_entry_status)
    qed
    have total: "minor_total (map ?p (filter (measured_cost pricing) es)) = minor_total ?as"
    proof -
      have "minor_total (filter (\<lambda>a. measured_status (ct_status a)) ?as) = minor_total ?as"
        using basic unmeasured_minor by (intro minor_total_filter) (auto simp: list_all_iff basic_def)
      then show ?thesis by (simp add: filter_map comp_def project_entry_status)
    qed
    note st = join_statuses [OF pl, unfolded some all zero]
    have "sound_amount ?t \<longleftrightarrow> sound_amount (aggregate_costs pd pricing ?as)" by (simp only: sound_amount_def flat)
    then have "sound_amount ?t" using agg(1) by (simp add: basic_def)
    with agg(2,4) 3 st show ?thesis by (simp add: flat total some Let_def)
  qed
qed

section \<open>Frozen prices\<close>

definition valid_table :: "pricing_table \<Rightarrow> bool" where
  "valid_table t = (is_ok (pricing_table_post_init t) \<and> list_all (\<lambda>e. is_ok (price_entry_post_init e)) (pt_prices t))"

lemma price_dimension_round_trip [simp]:
  "enum_of price_dimension_names (enum_text price_dimension_names c) = Inr c"
  by (cases c) (simp_all add: enum_of_def enum_text_def price_dimension_names_def)

lemma decode_price_entry_encode:
  assumes "is_ok (price_entry_post_init e)"
  shows "decode_price_entry (encode_price_entry e) = Inr e"
proof -
  have "price_entry_post_init e = Inr e"
    using assms unfolding price_entry_post_init_def first_error_ok_iff first_error_Inr_iff by simp
  then show ?thesis by (cases e) (simp add: decode_price_entry_def encode_price_entry_def)
qed

lemma pricing_table_round_trip:
  assumes "valid_table t"
  shows "pricing_table_from_dict (encode_pricing_table t) = Inr t"
proof -
  have "map_res decode_price_entry (map encode_price_entry (pt_prices t)) = Inr (map (\<lambda>e. e) (pt_prices t))"
    using assms by (intro map_res_map decode_price_entry_encode) (simp add: valid_table_def list_all_iff)
  moreover have "pricing_table_post_init t = Inr t"
    using assms unfolding valid_table_def pricing_table_post_init_def first_error_ok_iff first_error_Inr_iff by simp
  ultimately show ?thesis by (cases t) (simp add: pricing_table_from_dict_def encode_pricing_table_def)
qed

definition sound_snapshots :: "(pricing_table \<Rightarrow> string) \<Rightarrow> pricing_store \<Rightarrow> bool" where
  "sound_snapshots pd st = (\<not> ab_closed st \<and>
     (\<forall>r\<in>set (pn_rows st). \<exists>t. pn_key r = (pt_version t, pd t) \<and> pricing_table_from_dict (pn_table r) = Inr t))"

definition put_all :: "(pricing_table \<Rightarrow> string) \<Rightarrow> (pricing_table \<times> int) list \<Rightarrow> pricing_store \<Rightarrow> pricing_store" where
  "put_all pd ts st = fold (\<lambda>(t, now) s. snd (pn_put pd t now s)) ts st"

lemma put_step:
  assumes "sound_snapshots pd st" and "valid_table t"
  shows "fst (pn_put pd t now st) = Inr ()" and "sound_snapshots pd (snd (pn_put pd t now st))"
    and "row_of pn_key (pt_version t, pd t) (pn_rows (snd (pn_put pd t now st))) \<noteq> None"
    and "row_of pn_key k (pn_rows st) = Some r \<Longrightarrow> row_of pn_key k (pn_rows (snd (pn_put pd t now st))) = Some r"
  using assms
  by (auto simp: pn_put_def sound_snapshots_def Let_def log_defs table_simps pricing_table_round_trip
      split: option.splits)

lemma put_all_step:
  assumes "sound_snapshots pd st" and "list_all (\<lambda>p. valid_table (fst p)) ts"
  shows "sound_snapshots pd (put_all pd ts st) \<and>
    (row_of pn_key k (pn_rows st) = Some r \<longrightarrow> row_of pn_key k (pn_rows (put_all pd ts st)) = Some r)"
  using assms
proof (induction ts arbitrary: st)
  case (Cons p ts)
  obtain t now where p: "p = (t, now)" by (cases p)
  have "sound_snapshots pd (snd (pn_put pd t now st))" using put_step(2) [of pd st t now] Cons.prems p by simp
  with Cons.IH [of "snd (pn_put pd t now st)"] put_step(4) [of pd st t k r now] Cons.prems p show ?case
    by (simp add: put_all_def)
qed (simp add: put_all_def)

text \<open>
  A run keeps the prices it froze. Once a table is in the snapshot store, then after any
  further tables, of the same version or not, a run frozen to its version and digest resolves
  to exactly that table, whatever table is current; the digest is assumed to tell tables of
  that version apart from it. A reference that is not stored resolves to no prices at all.
\<close>

theorem frozen_run_keeps_its_prices:
  assumes "sound_snapshots pd st" and "valid_table t" and "list_all (\<lambda>p. valid_table (fst p)) later"
    and "pn_put pd t now st = (res, st1)"
    and "rr_pricing_version r = Some (pt_version t)" and "rr_pricing_digest r = Some (pd t)" and "pd t \<noteq> []"
    and "\<And>t'. pt_version t' = pt_version t \<Longrightarrow> pd t' = pd t \<Longrightarrow> t' = t"
  shows "res = Inr () \<and>
    (\<exists>st2. resolve_run_pricing pd (Some r) (Some pn_get) current (put_all pd later st1) =
       (Inr \<lparr>pu_pricing = Some t, pu_version = pt_version t, pu_digest = pd t, pu_frozen = True,
             pu_degraded_reason = None\<rparr>, st2)) \<and>
    (row_of pn_key (pt_version t, pd t) (pn_rows st) = None \<longrightarrow>
       (\<exists>why st3. resolve_run_pricing pd (Some r) (Some pn_get) current st =
          (Inr \<lparr>pu_pricing = None, pu_version = pt_version t, pu_digest = pd t, pu_frozen = True,
                pu_degraded_reason = Some why\<rparr>, st3)))"
proof -
  let ?k = "(pt_version t, pd t)"
  have st1: "st1 = snd (pn_put pd t now st)" and res: "res = Inr ()"
    using assms(4) put_step(1) [OF assms(1,2), of now] by simp_all
  have ver: "pt_version t \<noteq> []"
    using assms(2) unfolding valid_table_def pricing_table_post_init_def first_error_ok_iff by simp
  obtain row where row: "row_of pn_key ?k (pn_rows st1) = Some row"
    using put_step(3) [OF assms(1,2), of now] by (auto simp: st1)
  have s1: "sound_snapshots pd st1" using put_step(2) [OF assms(1,2)] by (simp add: st1)
  from put_all_step [OF s1 assms(3)] row
  have s2: "sound_snapshots pd (put_all pd later st1)" "row_of pn_key ?k (pn_rows (put_all pd later st1)) = Some row"
    by blast+
  note mem = row_of_SomeD [OF s2(2)]
  obtain t' where t': "pn_key row = (pt_version t', pd t')" "pricing_table_from_dict (pn_table row) = Inr t'"
    using s2(1) mem(1) unfolding sound_snapshots_def by blast
  have "t' = t" using t'(1) mem(2) by (intro assms(8)) simp_all
  with t'(2) have tab: "pricing_table_from_dict (pn_table row) = Inr t" by simp
  have open2: "\<not> ab_closed (put_all pd later st1)" "\<not> ab_closed st" using s2(1) assms(1) by (simp_all add: sound_snapshots_def)
  obtain st2 where get: "pn_get (pt_version t) (pd t) (put_all pd later st1) = (Inr (Some t), st2)"
    using open2 s2(2) tab by (simp add: pn_get_def)
  have miss: "\<exists>st3. pn_get (pt_version t) (pd t) st = (Inr None, st3)" if "row_of pn_key ?k (pn_rows st) = None"
    using open2 that by (simp add: pn_get_def)
  have ref: "str_or (rr_pricing_version r) [] = pt_version t" "str_or (rr_pricing_digest r) [] = pd t"
    using assms(5,6) by (simp_all add: str_or_def)
  have "\<exists>st2. resolve_run_pricing pd (Some r) (Some pn_get) current (put_all pd later st1) =
       (Inr \<lparr>pu_pricing = Some t, pu_version = pt_version t, pu_digest = pd t, pu_frozen = True,
             pu_degraded_reason = None\<rparr>, st2)"
    using ver assms(7) by (simp add: resolve_run_pricing_def Let_def ref get)
  moreover have "\<exists>why st3. resolve_run_pricing pd (Some r) (Some pn_get) current st =
          (Inr \<lparr>pu_pricing = None, pu_version = pt_version t, pu_digest = pd t, pu_frozen = True,
                pu_degraded_reason = Some why\<rparr>, st3)" if "row_of pn_key ?k (pn_rows st) = None"
    using miss [OF that] ver assms(7) by (auto simp: resolve_run_pricing_def Let_def ref missing_snapshot_def)
  ultimately show ?thesis using res by blast
qed

definition sample_digest :: "pricing_table \<Rightarrow> string" where
  "sample_digest t = (if t = sample_prices then ''d1'' else ''d2'')"

definition sample_frozen_run :: research_run where
  "sample_frozen_run = demo_run\<lparr>rr_pricing_version := Some ''v1'', rr_pricing_digest := Some ''d1''\<rparr>"

definition empty_prices :: pricing_store where
  "empty_prices = \<lparr>ab_closed = False, ab_calls = [], pn_rows = []\<rparr>"

lemma sample_tables: "valid_table sample_prices" "valid_table unpriced_table"
  by (simp_all add: valid_table_def pricing_table_post_init_def price_entry_post_init_def sample_prices_def
      unpriced_table_def is_upper_def)

lemma frozen_run_keeps_its_prices_witness:
  "\<exists>st1 st2. pn_put sample_digest sample_prices 1 empty_prices = (Inr (), st1) \<and>
     resolve_run_pricing sample_digest (Some sample_frozen_run) (Some pn_get) (Some unpriced_table)
       (put_all sample_digest [(unpriced_table, 2)] st1) =
     (Inr \<lparr>pu_pricing = Some sample_prices, pu_version = ''v1'', pu_digest = ''d1'', pu_frozen = True,
           pu_degraded_reason = None\<rparr>, st2)"
proof -
  obtain res st1 where p: "pn_put sample_digest sample_prices 1 empty_prices = (res, st1)" by fastforce
  have d: "sample_digest sample_prices = ''d1''" "pt_version sample_prices = ''v1''"
    by (simp_all add: sample_digest_def sample_prices_def)
  have "sound_snapshots sample_digest empty_prices" by (simp add: sound_snapshots_def empty_prices_def)
  moreover have "t' = sample_prices" if "sample_digest t' = sample_digest sample_prices" for t'
    using that by (simp add: sample_digest_def split: if_splits)
  ultimately show ?thesis
    using frozen_run_keeps_its_prices [of sample_digest empty_prices sample_prices "[(unpriced_table, 2)]" 1 res st1
        sample_frozen_run "Some unpriced_table"] p sample_tables d
    by (auto simp: sample_frozen_run_def)
qed

section \<open>The daily series\<close>

lemma sound_total: "sound_amount (total_cost pd pricing es)"
proof (cases "conflicting (map (project_entry_cost pd pricing) es) \<or> es = []")
  case True
  note flat = total_cost_flat [of es es pd pricing, unfolded Let_def]
  have basic: "list_all (basic (stamp_of pd pricing)) (map (project_entry_cost pd pricing) es)"
    by (simp add: list_all_iff project_entry_basic)
  have "ct_minor_units (total_cost pd pricing es) = None \<and>
      ct_status (total_cost pd pricing es) \<in> {CS_NO_DATA, CS_CURRENCY_CONFLICT}"
  proof (cases "es = []")
    case True
    then show ?thesis by (simp add: total_cost_def project_dimensions_def group_by_def aggregate_costs_def)
  next
    case False
    have "CS_NO_DATA \<notin> statuses (map (project_entry_cost pd pricing) es)"
      using basic_plain [OF _ basic] False by (simp add: plain_def)
    with conflicting_aggregate [of "map (project_entry_cost pd pricing) es" pd pricing] False True flat
    show ?thesis by simp
  qed
  then show ?thesis by (auto simp: sound_amount_def)
next
  case False
  then have ne: "map (project_entry_cost pd pricing) es \<noteq> []" by simp
  have basic: "list_all (basic (stamp_of pd pricing)) (map (project_entry_cost pd pricing) es)"
    by (simp add: list_all_iff project_entry_basic)
  have "basic (stamp_of pd pricing) (aggregate_costs pd pricing (map (project_entry_cost pd pricing) es))"
    using False by (intro plain_aggregate_basic(1) [OF ne basic]) simp
  moreover have "total_cost pd pricing es = aggregate_costs pd pricing (map (project_entry_cost pd pricing) es)"
    using total_cost_flat [of es es pd pricing] calculation by (simp add: Let_def basic_def)
  ultimately show ?thesis by (simp add: basic_def)
qed

text \<open>
  What a day must show, by filters on all entries: one group per price reference that an entry of
  the day has (version and digest of its table, or unfrozen), in the order of the references; the
  group holds exactly the day's entries of that reference, is priced from them alone by the table of
  the last one, and counts them. Every amount obeys its status, and the total is the only group's
  amount or, on a day of several references, no sum.
\<close>

definition price_ref :: "(pricing_table \<Rightarrow> string) \<Rightarrow> (usage_entry \<Rightarrow> pricing_table option) \<Rightarrow> usage_entry \<Rightarrow> string \<times> string" where
  "price_ref pd resolve e = (case resolve e of None \<Rightarrow> (''unfrozen'', ''-'') | Some t \<Rightarrow> (pt_version t, pd t))"

definition expected_group ::
    "(pricing_table \<Rightarrow> string) \<Rightarrow> (usage_entry \<Rightarrow> pricing_table option) \<Rightarrow> usage_entry list \<Rightarrow> int \<Rightarrow> string \<times> string \<Rightarrow>
     pricing_group" where
  "expected_group pd resolve es day ref =
     (let items = filter (\<lambda>e. day_of e = day \<and> price_ref pd resolve e = ref) es
      in \<lparr>pg_pricing = resolve (last items), pg_amount = total_cost pd (resolve (last items)) items,
          pg_entry_count = length items\<rparr>)"

definition day_refs ::
    "(pricing_table \<Rightarrow> string) \<Rightarrow> (usage_entry \<Rightarrow> pricing_table option) \<Rightarrow> usage_entry list \<Rightarrow> int \<Rightarrow> (string \<times> string) list" where
  "day_refs pd resolve es day = sorted_list_of_set (price_ref pd resolve ` {e \<in> set es. day_of e = day})"

definition day_ok ::
    "(pricing_table \<Rightarrow> string) \<Rightarrow> (usage_entry \<Rightarrow> pricing_table option) \<Rightarrow> usage_entry list \<Rightarrow> day_cost \<Rightarrow> bool" where
  "day_ok pd resolve es d = (dc_groups d \<noteq> [] \<and>
     dc_groups d = map (expected_group pd resolve es (dc_day d)) (day_refs pd resolve es (dc_day d)) \<and>
     list_all (\<lambda>g. sound_amount (pg_amount g)) (dc_groups d) \<and>
     sum_list (map pg_entry_count (dc_groups d)) = length (filter (\<lambda>e. day_of e = dc_day d) es) \<and>
     dc_mixed_pricing d = (length (dc_groups d) \<noteq> 1) \<and>
     (if dc_mixed_pricing d then ct_minor_units (dc_total d) = None
      else dc_total d = pg_amount (hd (dc_groups d))))"

lemma length_concat_mset: "mset (concat gs) = mset xs \<Longrightarrow> sum_list (map length gs) = length xs"
  by (metis length_concat size_mset)

lemma groups_keys:
  assumes "groups_ok key vs d"
  shows "fst ` set d = key ` set vs"
proof -
  have all: "g \<noteq> [] \<and> (\<forall>v\<in>set g. key v = k)" if "(k, g) \<in> set d" for k g
    using that assms by (auto simp: groups_ok_def list_all_iff)
  have "set vs = set (concat (map snd d))" using assms unfolding groups_ok_def by (metis set_mset_mset)
  then have s: "v \<in> set vs \<longleftrightarrow> (\<exists>k g. (k, g) \<in> set d \<and> v \<in> set g)" for v by force
  show ?thesis
  proof
    show "fst ` set d \<subseteq> key ` set vs"
    proof
      fix k assume "k \<in> fst ` set d"
      then obtain g where g: "(k, g) \<in> set d" by auto
      then have "hd g \<in> set g" using all [OF g] by simp
      then have "hd g \<in> set vs" "key (hd g) = k" using all [OF g] s g by blast+
      then show "k \<in> key ` set vs" by blast
    qed
    show "key ` set vs \<subseteq> fst ` set d" using s all by force
  qed
qed

lemma group_is_filter: "(k, g) \<in> set (group_by key vs) \<Longrightarrow> g = filter (\<lambda>v. key v = k) vs"
proof (induction vs arbitrary: k g rule: rev_induct)
  case Nil
  then show ?case by (simp add: group_by_def)
next
  case (snoc v vs)
  have step: "group_by key (vs @ [v]) = dict_append (key v) v (group_by key vs)" by (simp add: group_by_def)
  show ?case
  proof (cases "key v \<in> fst ` set (group_by key vs)")
    case True
    with snoc.prems step obtain g' where g': "(k, g') \<in> set (group_by key vs)" "g = (if k = key v then g' @ [v] else g')"
      by (auto simp: dict_append_def split: if_splits)
    from snoc.IH [OF g'(1)] g'(2) show ?thesis by auto
  next
    case False
    then have none: "filter (\<lambda>x. key x = key v) vs = []"
      using groups_keys [OF groups_ok_group_by, of key vs] by (auto simp: filter_empty_conv intro: rev_image_eqI)
    from False snoc.prems step consider "k = key v" "g = [v]" | "(k, g) \<in> set (group_by key vs)"
      by (auto simp: dict_append_def)
    then show ?thesis
    proof cases
      case 1
      with none show ?thesis by simp
    next
      case 2
      then have "key v \<noteq> k" using False by force
      with snoc.IH [OF 2] show ?thesis by simp
    qed
  qed
qed

lemma sorted_groups_are:
  fixes key :: "'v \<Rightarrow> 'k :: linorder"
  shows "sort_key fst (group_by key vs) =
    map (\<lambda>k. (k, filter (\<lambda>v. key v = k) vs)) (sorted_list_of_set (key ` set vs))"
proof -
  let ?d = "sort_key fst (group_by key vs)"
  have ok: "groups_ok key vs ?d" by (intro groups_ok_sorted groups_ok_group_by)
  have "map fst ?d = sorted_list_of_set (key ` set vs)"
    using ok groups_keys [OF ok] by (intro sorted_distinct_set_unique) (simp_all add: groups_ok_def)
  moreover have "?d = map (\<lambda>k. (k, filter (\<lambda>v. key v = k) vs)) (map fst ?d)"
    unfolding map_map by (rule sym, rule map_idI) (auto simp: comp_def dest: group_is_filter)
  ultimately show ?thesis by simp
qed

lemma project_day_ok:
  assumes "items = filter (\<lambda>e. day_of e = day) es" and "items \<noteq> []"
  shows "day_ok pd resolve es (project_day_cost pd day items resolve)" and "dc_day (project_day_cost pd day items resolve) = day"
proof -
  let ?key = "\<lambda>e. group_key pd (resolve e)"
  let ?d = "sort_key fst (group_by ?key items)"
  show day: "dc_day (project_day_cost pd day items resolve) = day" by (simp add: project_day_cost_def Let_def)
  have key: "?key = price_ref pd resolve" by (simp add: fun_eq_iff group_key_def price_ref_def)
  have ok: "groups_ok ?key items ?d" by (intro groups_ok_sorted groups_ok_group_by)
  then have "sum_list (map (length \<circ> snd) ?d) = length items"
    using length_concat_mset [of "map snd ?d" items] by (simp add: groups_ok_def)
  moreover have "?d \<noteq> []" using ok assms(2) by (auto simp: groups_ok_def)
  moreover have "(1 < length ?d) = (length ?d \<noteq> 1)" using calculation(2) by (cases ?d) auto
  moreover have "dc_groups (project_day_cost pd day items resolve) =
      map (expected_group pd resolve es day) (day_refs pd resolve es day)"
  proof -
    have "{e \<in> set es. day_of e = day} = set items" by (simp add: assms(1))
    then show ?thesis
      unfolding project_day_cost_def Let_def sorted_groups_are key
      by (simp add: day_refs_def expected_group_def assms(1) filter_filter Let_def comp_def)
  qed
  ultimately have facts: "sum_list (map (length \<circ> snd) ?d) = length (filter (\<lambda>e. day_of e = day) es)"
    "?d \<noteq> []" "(1 < length ?d) = (length ?d \<noteq> 1)"
    "dc_groups (project_day_cost pd day items resolve) = map (expected_group pd resolve es day) (day_refs pd resolve es day)"
    using assms(1) by simp_all
  let ?mk = "\<lambda>(key, items). \<lparr>pg_pricing = resolve (last items), pg_amount = total_cost pd (resolve (last items)) items,
      pg_entry_count = length items\<rparr>"
  have groups: "dc_groups (project_day_cost pd day items resolve) = map ?mk ?d"
    and mixed: "dc_mixed_pricing (project_day_cost pd day items resolve) = (1 < length ?d)"
    and total: "dc_total (project_day_cost pd day items resolve) =
      day_total (map ?mk ?d) (list_ex (\<lambda>e. ue_quantity_status e = QTY_UNKNOWN) items)"
    by (simp_all add: project_day_cost_def Let_def)
  show "day_ok pd resolve es (project_day_cost pd day items resolve)"
    unfolding day_ok_def day
  proof (intro conjI facts(4))
    show "dc_groups (project_day_cost pd day items resolve) \<noteq> []" unfolding groups using facts(2) by simp
    show "list_all (\<lambda>g. sound_amount (pg_amount g)) (dc_groups (project_day_cost pd day items resolve))"
      unfolding groups by (auto simp: list_all_iff sound_total)
    show "sum_list (map pg_entry_count (dc_groups (project_day_cost pd day items resolve))) =
        length (filter (\<lambda>e. day_of e = day) es)"
      unfolding groups facts(1) [symmetric] by (simp add: comp_def split_beta)
    show "dc_mixed_pricing (project_day_cost pd day items resolve) =
        (length (dc_groups (project_day_cost pd day items resolve)) \<noteq> 1)"
      unfolding mixed groups facts(3) by simp
    show "if dc_mixed_pricing (project_day_cost pd day items resolve)
        then ct_minor_units (dc_total (project_day_cost pd day items resolve)) = None
        else dc_total (project_day_cost pd day items resolve) =
          pg_amount (hd (dc_groups (project_day_cost pd day items resolve)))"
      unfolding mixed total groups facts(3) by (simp add: day_total_def Let_def)
  qed
qed

lemma sorted_distinct_less:
  fixes xs :: "int list"
  assumes "sorted xs" and "distinct xs"
  shows "sorted_wrt (<) xs"
  using assms by (simp add: strict_sorted_iff)

lemma sorted_groups_keys:
  fixes d :: "('k :: linorder \<times> 'v list) list"
  shows "sorted (map fst (sort_key fst d))"
  by simp

text \<open>
  C40: the daily series accounts for every entry once and never fills a gap. The days are in
  strictly increasing order and inside the window. Each day has one group per price reference among
  its entries (version and digest of the table that prices the entry, or unfrozen); the group holds
  exactly the day's entries of that reference and its amount is their total cost under the table of
  the last of them, no other entry of the day or of another day counting. Every amount obeys its
  status (ACTUAL, ESTIMATED and PARTIALLY_METERED carry a number, ZERO is zero, the others carry
  none), and a day of several price references shows no sum. Unless more than 400 days were cut off,
  the days shown are exactly the days in the window that have an entry.
\<close>

theorem daily_series_is_well_formed:
  "let window = {d \<in> day_of ` set es. (case from_day of None \<Rightarrow> True | Some f \<Rightarrow> f \<le> d) \<and>
                                      (case to_day of None \<Rightarrow> True | Some t \<Rightarrow> d \<le> t)}
   in case daily_series pd es resolve from_day to_day of (days, truncated) \<Rightarrow>
     list_all (day_ok pd resolve es) days \<and> sorted_wrt (<) (map dc_day days) \<and> length days \<le> MAX_DAYS \<and>
     set (map dc_day days) \<subseteq> window \<and> (truncated \<or> set (map dc_day days) = window) \<and>
     (truncated \<longleftrightarrow> MAX_DAYS < card window)"
proof -
  let ?g = "sort_key fst (bucket_days es)"
  let ?f = "filter (\<lambda>(day, _). in_window from_day to_day day) ?g"
  let ?days = "map (\<lambda>(day, items). project_day_cost pd day items resolve) ?f"
  let ?W = "{d \<in> day_of ` set es. in_window from_day to_day d}"
  have ok: "groups_ok day_of es ?g" unfolding bucket_days_def by (intro groups_ok_sorted groups_ok_group_by)
  have day: "day_ok pd resolve es (project_day_cost pd d items resolve) \<and> dc_day (project_day_cost pd d items resolve) = d"
    if "(d, items) \<in> set ?g" for d items
  proof -
    have "items \<noteq> []" using ok that by (auto simp: groups_ok_def list_all_iff)
    moreover have "items = filter (\<lambda>e. day_of e = d) es"
      using that by (intro group_is_filter) (simp add: bucket_days_def)
    ultimately show ?thesis using project_day_ok by blast
  qed
  have keys: "map dc_day ?days = map fst ?f" using day by (auto simp: split_beta)
  have fkeys: "map fst ?f = filter (in_window from_day to_day) (map fst ?g)"
    by (simp add: filter_map comp_def case_prod_unfold)
  have "distinct (map fst ?g)" using ok by (simp add: groups_ok_def)
  then have strict: "sorted_wrt (<) (map fst ?g)" by (intro sorted_distinct_less) simp_all
  then have less: "sorted_wrt (<) (map fst ?f)" unfolding fkeys by (rule sorted_wrt_filter)
  have set: "set (map fst ?f) = ?W" using groups_keys [OF ok] by (auto simp: fkeys)
  have card: "length ?days = card ?W"
  proof -
    have "distinct (map fst ?f)" using less by (simp only: strict_sorted_iff)
    from distinct_card [OF this] show ?thesis by (simp only: set length_map)
  qed
  have all: "list_all (day_ok pd resolve es) ?days"
    unfolding list_all_iff
  proof
    fix x assume "x \<in> set ?days"
    then obtain d items where x: "(d, items) \<in> set ?f" "x = project_day_cost pd d items resolve" by auto
    then have "(d, items) \<in> set ?g" by simp
    from day [OF this] x(2) show "day_ok pd resolve es x" by simp
  qed
  have take: "map dc_day (take MAX_DAYS ?days) = take MAX_DAYS (map fst ?f)" by (subst take_map [symmetric]) (simp only: keys)
  have "sorted_wrt (<) (take MAX_DAYS (map fst ?f))" using less by (rule sorted_wrt_take)
  moreover have "set (take MAX_DAYS (map fst ?f)) \<subseteq> ?W" using set_take_subset [of MAX_DAYS "map fst ?f"] by (simp only: set)
  moreover have "MAX_DAYS < length ?days \<or> set (take MAX_DAYS (map fst ?f)) = ?W"
  proof (cases "MAX_DAYS < length ?days")
    case False
    then have "take MAX_DAYS (map fst ?f) = map fst ?f" by (intro take_all) (simp only: length_map linorder_not_less)
    then show ?thesis by (simp only: set simp_thms)
  qed simp
  moreover have "list_all (day_ok pd resolve es) (take MAX_DAYS ?days)" using all by (metis append_take_drop_id list_all_append)
  moreover have "{d \<in> day_of ` set es. (case from_day of None \<Rightarrow> True | Some f \<Rightarrow> f \<le> d) \<and>
      (case to_day of None \<Rightarrow> True | Some t \<Rightarrow> d \<le> t)} = ?W"
    by (auto simp: in_window_def split: option.splits)
  ultimately show ?thesis
    using card unfolding daily_series_def Let_def prod.case take by simp
qed

section \<open>Extrapolation\<close>

text \<open>
  The extrapolation uses each day once, as a sample or as an exclusion with its reason; it
  gives no amount without a sample or across currencies.
\<close>

lemma days_split:
  "length (filter (\<lambda>d. exclusion_reason d = None) days) +
   length (concat (map (\<lambda>d. case exclusion_reason d of None \<Rightarrow> []
     | Some reason \<Rightarrow> [\<lparr>xd_day = dc_day d, xd_reason = reason\<rparr>]) days)) = length days"
  by (induction days) (auto split: option.splits)

lemma extrapolation_uses_each_day_once:
  assumes "sp_unavailable_reason (project_series days h) = None"
  shows "sp_valued_days (project_series days h) + length (sp_excluded_days (project_series days h)) = length days"
    and "0 < sp_valued_days (project_series days h)"
    and "sp_observed_minor (project_series days h) =
      Some (minor_total (map dc_total (filter (\<lambda>d. exclusion_reason d = None) days)))"
  using assms days_split [of days]
  by (auto simp: project_series_def project_valued_def series_unavailable_def Let_def filter_empty_conv split: if_splits)

lemma extrapolation_needs_one_currency:
  "sp_projected_minor (project_series days h) = None \<longleftrightarrow>
     (\<forall>d\<in>set days. exclusion_reason d \<noteq> None) \<or>
     1 < card (ct_currency ` dc_total ` {d \<in> set days. exclusion_reason d = None})"
  by (auto simp: project_series_def project_valued_def series_unavailable_def Let_def filter_empty_conv image_image)

end
