(* ===== verification/Workflow_Reads.thy ===== *)
theory Workflow_Reads
  imports Workflow_System
begin

text \<open>
  The read side of the workflow engine (\<^verbatim>\<open>adapters/sqlite/projections.py\<close> and the reading methods
  of \<^verbatim>\<open>workflow_engine.py\<close>): tasks, deliveries, completions and cancellations of a run, its due
  retries, who dispatches it (the retry schedule and the live lease holders, read as one
  snapshot), the stable identities of its tasks and its canonical state. A read changes nothing
  but the record of calls. \<open>clk 0\<close> is the reading of the clock the classification uses.
\<close>

section \<open>Port values\<close>

record retry_schedule =
  rs_scheduled :: int
  rs_due :: int
  rs_next_retry_at :: "int option"

definition retry_schedule_post_init :: "retry_schedule \<Rightarrow> retry_schedule res" where
  "retry_schedule_post_init r = first_error
     [(rs_scheduled r < 0 \<or> rs_due r < 0, ''retry schedule counts must be non-negative''),
      (0 < rs_scheduled r \<and> rs_next_retry_at r = None, ''a scheduled retry must carry its next deadline''),
      (rs_scheduled r = 0 \<and> rs_next_retry_at r \<noteq> None, ''no scheduled retry may carry a deadline'')] r"

record lease_holder =
  lh_task_id :: string
  lh_worker_id :: "string option"
  lh_fence :: int
  lh_expires_at :: "int option"

definition lease_holder_post_init :: "lease_holder \<Rightarrow> lease_holder res" where
  "lease_holder_post_init h = first_error
     [(lh_task_id h = '''', ''task_id must not be empty''),
      (lh_fence h < 0, ''fence must be non-negative'')] h"

record run_ownership =
  do_retry :: retry_schedule
  do_leases :: "lease_holder list"

definition DISPATCH_NONE :: string where "DISPATCH_NONE = ''NONE''"

definition DISPATCH_RETRY :: string where "DISPATCH_RETRY = ''RETRY_DISPATCH''"

definition DISPATCH_WORKER_CLAIM :: string where "DISPATCH_WORKER_CLAIM = ''WORKER_CLAIM''"

definition DISPATCH_BOTH :: string where "DISPATCH_BOTH = ''BOTH''"

definition ownership_kind :: "run_ownership \<Rightarrow> string" where
  "ownership_kind d =
     (let retrying = (0 < rs_scheduled (do_retry d) \<or> 0 < rs_due (do_retry d));
          claimed = (do_leases d \<noteq> [])
      in if retrying \<and> claimed then DISPATCH_BOTH
         else if claimed then DISPATCH_WORKER_CLAIM
         else if retrying then DISPATCH_RETRY
         else DISPATCH_NONE)"

definition MAX_DISPATCH_OWNERSHIP_BATCH :: nat where "MAX_DISPATCH_OWNERSHIP_BATCH = 500"

definition validate_dispatch_batch :: "string list \<Rightarrow> unit res" where
  "validate_dispatch_batch run_ids =
     (if MAX_DISPATCH_OWNERSHIP_BATCH < length run_ids
      then Inl (InvalidInputError (''dispatch_ownership_many accepts at most '' @
             str_int (int MAX_DISPATCH_OWNERSHIP_BATCH) @ '' run ids, got '' @ str_int (int (length run_ids))))
      else Inr ())"

record task_identity =
  ti_idempotency_key :: string
  ti_task_id :: string
  ti_status :: task_state

section \<open>Tasks of a run\<close>

definition rows_of_run :: "string \<Rightarrow> wf_state \<Rightarrow> task_row list" where
  "rows_of_run run_id st = filter (\<lambda>r. tr_run_id r = run_id) (wf_tasks st)"

definition task_row_value :: "task_row \<Rightarrow> (research_task \<times> task_contract) res" where
  "task_row_value r =
     bind_res (decode_task (tr_task_json r, tr_contract_json r)) (\<lambda>(t, c).
     bind_res (task_post_init (t\<lparr>rt_status := tr_status r\<rparr>)) (\<lambda>t'. Inr (t', c)))"

definition list_tasks :: "string \<Rightarrow> wf_state \<Rightarrow> (research_task \<times> task_contract) list res" where
  "list_tasks run_id st = map_res task_row_value (sort_key (iso_key \<circ> tr_created_at) (rows_of_run run_id st))"

definition deliveries :: "wf_state \<Rightarrow> string set" where
  "deliveries st =
     {k. \<exists>r\<in>set (wf_tasks st). tr_idempotency_key r = Some k} \<union>
     {tr_task_id r |r. r \<in> set (wf_tasks st) \<and> tr_idempotency_key r = None}"

definition completed :: "wf_state \<Rightarrow> string \<Rightarrow> task_state option" where
  "completed st =
     map_of (map (\<lambda>r. (tr_task_id r, tr_status r))
       (filter (\<lambda>r. tr_status r \<in> {T_SUCCEEDED, T_FAILED}) (wf_tasks st)))"

definition cancelled_tasks :: "wf_state \<Rightarrow> string set" where
  "cancelled_tasks st = tr_task_id ` {r \<in> set (wf_tasks st). tr_cancelled r}"

definition cancelled_task_ids :: "string \<Rightarrow> (nat \<Rightarrow> int) \<Rightarrow> (nat \<Rightarrow> string) \<Rightarrow> string list op" where
  "cancelled_task_ids run_id clk uid st =
     (if ab_closed st then (Inl closed_error, st)
      else case list_tasks run_id st of
             Inl e \<Rightarrow> (Inl e, st)
           | Inr rows \<Rightarrow>
               (let ids = filter (\<lambda>i. i \<in> cancelled_tasks st) (map (rt_id \<circ> fst) rows)
                in (Inr ids, log_result ''cancelled_task_ids'' run_id (str_int (int (length ids))) st)))"

section \<open>Retries\<close>

definition due_retries :: "string \<Rightarrow> int \<Rightarrow> wf_state \<Rightarrow> string list" where
  "due_retries run_id now st =
     sort (map tr_task_id (filter (\<lambda>r. tr_status r = T_RETRY_SCHEDULED \<and> retry_due now r) (rows_of_run run_id st)))"

definition due_retry_task_ids :: "string \<Rightarrow> (nat \<Rightarrow> int) \<Rightarrow> (nat \<Rightarrow> string) \<Rightarrow> string list op" where
  "due_retry_task_ids run_id clk uid st =
     (if ab_closed st then (Inl closed_error, st)
      else (let ids = due_retries run_id (clk 0) st
            in (Inr ids, log_result ''due_retry_task_ids'' run_id (str_int (int (length ids))) st)))"

fun summarize_retries :: "int \<Rightarrow> int option list \<Rightarrow> int \<times> int \<times> int option \<Rightarrow> int \<times> int \<times> int option" where
  "summarize_retries now [] acc = acc"
| "summarize_retries now (d # ds) (scheduled, due, upcoming) =
     (case d of
        None \<Rightarrow> summarize_retries now ds (scheduled, due + 1, upcoming)
      | Some t \<Rightarrow>
          (if iso_le t now then summarize_retries now ds (scheduled, due + 1, upcoming)
           else summarize_retries now ds (scheduled + 1, due,
                  (case upcoming of None \<Rightarrow> Some t | Some u \<Rightarrow> if iso_less t u then Some t else Some u))))"

section \<open>Who dispatches a run\<close>

text \<open>
  \<^verbatim>\<open>_FACTS_SQL\<close>: the retries and the live leases of the requested runs as one result, ordered by
  kind, run and task (a retry has no task column, and \<open>NULL\<close> sorts first). The rows are then
  dealt to the dictionaries of the runs that were asked for.
\<close>

datatype dispatch_fact =
    RetryFact string "int option"
  | LeaseFact string lease_holder

fun fact_key :: "dispatch_fact \<Rightarrow> string \<times> string \<times> string" where
  "fact_key (RetryFact run deadline) = (''RETRY'', run, '''')"
| "fact_key (LeaseFact run h) = (''LEASE'', run, lh_task_id h)"

definition retry_deadlines :: "wf_state \<Rightarrow> string list \<Rightarrow> (string \<times> int option) list" where
  "retry_deadlines st run_ids =
     map (\<lambda>r. (tr_run_id r, tr_retry_at r))
       (filter (\<lambda>r. tr_run_id r \<in> set run_ids \<and> tr_status r = T_RETRY_SCHEDULED) (wf_tasks st))"

definition lease_live :: "int \<Rightarrow> wf_state \<Rightarrow> lease_row \<Rightarrow> bool" where
  "lease_live now st l = (iso_le now (lr_expires_at l) \<and> \<not> held_by_lost st l)"

definition holder_row :: "lease_row \<Rightarrow> lease_holder" where
  "holder_row l =
     \<lparr>lh_task_id = lr_task_id l, lh_worker_id = lr_worker_id l, lh_fence = lr_fence l,
      lh_expires_at = Some (lr_expires_at l)\<rparr>"

definition lease_fact :: "int \<Rightarrow> wf_state \<Rightarrow> string list \<Rightarrow> lease_row \<Rightarrow> dispatch_fact option" where
  "lease_fact now st run_ids l =
     (case task_of (lr_task_id l) st of
        None \<Rightarrow> None
      | Some r \<Rightarrow>
          (if tr_run_id r \<in> set run_ids \<and> lease_live now st l then Some (LeaseFact (tr_run_id r) (holder_row l))
           else None))"

definition dispatch_rows :: "int \<Rightarrow> wf_state \<Rightarrow> string list \<Rightarrow> dispatch_fact list" where
  "dispatch_rows now st run_ids =
     sort_key fact_key
       (map (\<lambda>(run, d). RetryFact run d) (retry_deadlines st run_ids) @
        List.map_filter (lease_fact now st run_ids) (wf_leases st))"

fun keep_first :: "'a list \<Rightarrow> 'a list \<Rightarrow> 'a list" where
  "keep_first acc [] = acc"
| "keep_first acc (x # xs) = keep_first (if x \<in> set acc then acc else acc @ [x]) xs"

definition item_at :: "(string \<rightharpoonup> 'v) \<Rightarrow> string \<Rightarrow> 'v res" where
  "item_at m k = (case m k of None \<Rightarrow> Inl (KeyError k) | Some v \<Rightarrow> Inr v)"

definition append_at :: "string \<Rightarrow> 'v \<Rightarrow> (string \<rightharpoonup> 'v list) \<Rightarrow> (string \<rightharpoonup> 'v list) res" where
  "append_at k v m = bind_res (item_at m k) (\<lambda>vs. Inr (m(k \<mapsto> vs @ [v])))"

fun deal_rows ::
    "dispatch_fact list \<Rightarrow> (string \<rightharpoonup> int option list) \<Rightarrow> (string \<rightharpoonup> lease_holder list) \<Rightarrow>
     ((string \<rightharpoonup> int option list) \<times> (string \<rightharpoonup> lease_holder list)) res" where
  "deal_rows [] deadlines holders = Inr (deadlines, holders)"
| "deal_rows (RetryFact run d # rows) deadlines holders =
     bind_res (append_at run d deadlines) (\<lambda>deadlines'. deal_rows rows deadlines' holders)"
| "deal_rows (LeaseFact run h # rows) deadlines holders =
     bind_res (append_at run h holders) (\<lambda>holders'. deal_rows rows deadlines holders')"

definition dispatch_facts ::
    "int \<Rightarrow> wf_state \<Rightarrow> string list \<Rightarrow>
     ((string \<rightharpoonup> int option list) \<times> (string \<rightharpoonup> lease_holder list)) res" where
  "dispatch_facts now st run_ids =
     (let ordered = keep_first [] run_ids
      in if ordered = [] then Inr (Map.empty, Map.empty)
         else deal_rows (dispatch_rows now st ordered) (map_of (map (\<lambda>r. (r, [])) ordered))
                (map_of (map (\<lambda>r. (r, [])) ordered)))"

definition ownership_from ::
    "int \<Rightarrow> int option list \<Rightarrow> lease_holder list \<Rightarrow> run_ownership res" where
  "ownership_from now deadlines holders =
     (case summarize_retries now deadlines (0, 0, None) of
        (scheduled, due, upcoming) \<Rightarrow>
          bind_res (retry_schedule_post_init
             \<lparr>rs_scheduled = scheduled, rs_due = due, rs_next_retry_at = upcoming\<rparr>) (\<lambda>retry.
          bind_res (map_res lease_holder_post_init holders) (\<lambda>leases.
            Inr \<lparr>do_retry = retry, do_leases = leases\<rparr>)))"

definition dispatch_ownerships :: "int \<Rightarrow> wf_state \<Rightarrow> string list \<Rightarrow> (string \<times> run_ownership) list res" where
  "dispatch_ownerships now st run_ids =
     bind_res (dispatch_facts now st run_ids) (\<lambda>(deadlines, holders).
       map_res (\<lambda>r. bind_res (item_at deadlines r) (\<lambda>ds. bind_res (item_at holders r) (\<lambda>hs.
                    bind_res (ownership_from now ds hs) (\<lambda>d. Inr (r, d)))))
         (keep_first [] run_ids))"

definition retry_schedule_of :: "string \<Rightarrow> (nat \<Rightarrow> int) \<Rightarrow> (nat \<Rightarrow> string) \<Rightarrow> retry_schedule op" where
  "retry_schedule_of run_id clk uid st =
     (if ab_closed st then (Inl closed_error, st)
      else case bind_res (dispatch_facts (clk 0) st [run_id]) (\<lambda>(deadlines, _). item_at deadlines run_id) of
             Inl e \<Rightarrow> (Inl e, st)
           | Inr ds \<Rightarrow>
               (case summarize_retries (clk 0) ds (0, 0, None) of
                  (scheduled, due, upcoming) \<Rightarrow>
                    (retry_schedule_post_init \<lparr>rs_scheduled = scheduled, rs_due = due, rs_next_retry_at = upcoming\<rparr>,
                     log_result ''retry_schedule'' run_id
                       (''scheduled='' @ str_int scheduled @ '' due='' @ str_int due) st)))"

definition dispatch_ownership :: "string \<Rightarrow> (nat \<Rightarrow> int) \<Rightarrow> (nat \<Rightarrow> string) \<Rightarrow> run_ownership op" where
  "dispatch_ownership run_id clk uid st =
     (if ab_closed st then (Inl closed_error, st)
      else case bind_res (dispatch_ownerships (clk 0) st [run_id]) (\<lambda>ds. item_at (map_of ds) run_id) of
             Inl e \<Rightarrow> (Inl e, st)
           | Inr d \<Rightarrow> (Inr d, log_result ''dispatch_ownership'' run_id (ownership_kind d) st))"

definition dispatch_ownership_many ::
    "string list \<Rightarrow> (nat \<Rightarrow> int) \<Rightarrow> (nat \<Rightarrow> string) \<Rightarrow> (string \<times> run_ownership) list op" where
  "dispatch_ownership_many run_ids clk uid st =
     (case validate_dispatch_batch run_ids of
        Inl e \<Rightarrow> (Inl e, st)
      | Inr _ \<Rightarrow>
          (if ab_closed st then (Inl closed_error, st)
           else case dispatch_ownerships (clk 0) st run_ids of
                  Inl e \<Rightarrow> (Inl e, st)
                | Inr ds \<Rightarrow>
                    (Inr ds, log_ok ''dispatch_ownership_many'' (''n='' @ str_int (int (length ds))) st)))"

section \<open>Identities and state\<close>

definition identities_of :: "string \<Rightarrow> wf_state \<Rightarrow> task_identity list" where
  "identities_of run_id st =
     sort_key ti_idempotency_key
       (List.map_filter
         (\<lambda>r. map_option (\<lambda>k. \<lparr>ti_idempotency_key = k, ti_task_id = tr_task_id r, ti_status = tr_status r\<rparr>)
                (tr_idempotency_key r)) (rows_of_run run_id st))"

definition task_identities :: "string \<Rightarrow> (nat \<Rightarrow> int) \<Rightarrow> (nat \<Rightarrow> string) \<Rightarrow> task_identity list op" where
  "task_identities run_id clk uid st =
     (if ab_closed st then (Inl closed_error, st)
      else (let ids = identities_of run_id st
            in (Inr ids, log_result ''task_identities'' run_id (str_int (int (length ids))) st)))"

definition run_state_names :: "(string \<times> run_state) list" where
  "run_state_names =
     [(''DRAFT'', R_DRAFT), (''COMPILING'', R_COMPILING), (''PREFLIGHT'', R_PREFLIGHT), (''READY'', R_READY),
      (''RUNNING'', R_RUNNING), (''WAITING_FOR_APPROVAL'', R_WAITING_FOR_APPROVAL), (''PAUSED'', R_PAUSED),
      (''DEGRADED'', R_DEGRADED), (''SUCCEEDED'', R_SUCCEEDED), (''FAILED'', R_FAILED),
      (''CANCELLED'', R_CANCELLED)]"

definition run_state_text :: "run_state option \<Rightarrow> string" where
  "run_state_text s = (case s of None \<Rightarrow> ''None'' | Some x \<Rightarrow> enum_text run_state_names x)"

definition engine_run_state :: "string \<Rightarrow> (nat \<Rightarrow> int) \<Rightarrow> (nat \<Rightarrow> string) \<Rightarrow> run_state option op" where
  "engine_run_state run_id clk uid st =
     (if ab_closed st then (Inl closed_error, st)
      else (let state = map_of (wf_runs st) run_id
            in (Inr state, log_result ''run_state'' run_id (run_state_text state) st)))"

definition pending_outbox :: "wf_state \<Rightarrow> outbox_event list" where
  "pending_outbox st =
     sort_key (iso_key \<circ> oe_created_at) (filter (\<lambda>e. oe_published_at e = None) (wf_outbox st))"

end
