(* ===== verification/Read_Properties.thy ===== *)
theory Read_Properties
  imports Workflow_Reads Workflow_Properties
begin

text \<open>
  What the read side of the workflow engine promises: the ownership view is total on a reachable
  engine, its two faces are the retries of the run and exactly the leases recovery would leave
  alone, and the batch read answers run by run what the single read answers.
\<close>

section \<open>Counting the retries\<close>

definition deadline_due :: "int \<Rightarrow> int option \<Rightarrow> bool" where
  "deadline_due now d = (case d of None \<Rightarrow> True | Some t \<Rightarrow> iso_le t now)"

lemma retry_due_deadline: "retry_due now r = deadline_due now (tr_retry_at r)"
  by (simp add: retry_due_def deadline_due_def)

lemma summarize_counts:
  "summarize_retries now ds (s, d, u) = (s', d', u') \<Longrightarrow>
     s' = s + int (length (filter (\<lambda>x. \<not> deadline_due now x) ds)) \<and>
     d' = d + int (length (filter (deadline_due now) ds))"
proof (induction ds arbitrary: s d u)
  case (Cons x ds)
  show ?case
  proof (cases "deadline_due now x")
    case True
    then have "summarize_retries now ds (s, d + 1, u) = (s', d', u')"
      using Cons.prems by (auto simp: deadline_due_def split: option.splits if_splits)
    from Cons.IH [OF this] True show ?thesis by simp
  next
    case False
    then obtain v where "summarize_retries now ds (s + 1, d, v) = (s', d', u')"
      using Cons.prems by (auto simp: deadline_due_def split: option.splits if_splits)
    from Cons.IH [OF this] False show ?thesis by simp
  qed
qed simp

lemma iso_less_cases: "iso_less a b \<Longrightarrow> iso_less a c \<or> iso_less c b"
  by (auto simp: iso_less_def)

lemma summarize_next:
  assumes "summarize_retries now ds (s, d, u) = (s', d', u')"
  shows "(u' = None) = (u = None \<and> (\<forall>x\<in>set ds. deadline_due now x)) \<and>
    (\<forall>m. u' = Some m \<longrightarrow>
       (u = Some m \<or> Some m \<in> set ds \<and> \<not> deadline_due now (Some m)) \<and>
       (\<forall>t. u = Some t \<or> Some t \<in> set ds \<and> \<not> deadline_due now (Some t) \<longrightarrow> \<not> iso_less t m))"
  using assms
proof (induction ds arbitrary: s d u)
  case (Cons x ds)
  show ?case
  proof (cases "deadline_due now x")
    case True
    then have "\<exists>d2. summarize_retries now ds (s, d2, u) = (s', d', u')"
      using Cons.prems by (auto simp: deadline_due_def split: option.splits if_splits)
    then obtain d2 where "summarize_retries now ds (s, d2, u) = (s', d', u')" by blast
    from Cons.IH [OF this] True show ?thesis by auto
  next
    case False
    then obtain t where t: "x = Some t" "\<not> iso_le t now" by (auto simp: deadline_due_def split: option.splits)
    let ?v = "case u of None \<Rightarrow> Some t | Some w \<Rightarrow> if iso_less t w then Some t else Some w"
    have "summarize_retries now ds (s + 1, d, ?v) = (s', d', u')" using Cons.prems t by simp
    note IH = Cons.IH [OF this]
    show ?thesis
    proof (cases u)
      case None
      with IH t False show ?thesis by auto
    next
      case (Some w)
      show ?thesis
      proof (cases "iso_less t w")
        case True
        with IH t False Some iso_less_trans [of t w] show ?thesis by auto
      next
        case less: False
        with IH t False Some iso_less_cases [of t _ w] show ?thesis by auto
      qed
    qed
  qed
qed auto

lemma summary_valid:
  assumes "summarize_retries now ds (0, 0, None) = (s, d, u)"
  shows "retry_schedule_post_init \<lparr>rs_scheduled = s, rs_due = d, rs_next_retry_at = u\<rparr> =
    Inr \<lparr>rs_scheduled = s, rs_due = d, rs_next_retry_at = u\<rparr>"
proof -
  have "(u = None) = (\<forall>x\<in>set ds. deadline_due now x)" using summarize_next [OF assms] by simp
  moreover have "s = 0 \<longleftrightarrow> (\<forall>x\<in>set ds. deadline_due now x)"
    using summarize_counts [OF assms] by (auto simp: filter_empty_conv)
  ultimately show ?thesis
    using summarize_counts [OF assms] by (auto simp: retry_schedule_post_init_def)
qed

section \<open>The batch read, run by run\<close>

text \<open>What the view says of one run, read from the two tables without the joint statement.\<close>

definition run_deadlines :: "wf_state \<Rightarrow> string \<Rightarrow> int option list" where
  "run_deadlines st run =
     map tr_retry_at (filter (\<lambda>r. tr_status r = T_RETRY_SCHEDULED) (rows_of_run run st))"

definition lease_in_run :: "wf_state \<Rightarrow> string \<Rightarrow> lease_row \<Rightarrow> bool" where
  "lease_in_run st run l =
     (case task_of (lr_task_id l) st of None \<Rightarrow> False | Some r \<Rightarrow> tr_run_id r = run)"

definition live_leases :: "int \<Rightarrow> wf_state \<Rightarrow> string \<Rightarrow> lease_row list" where
  "live_leases now st run =
     sort_key lr_task_id (filter (\<lambda>l. lease_live now st l \<and> lease_in_run st run l) (wf_leases st))"

definition ownership_of :: "int \<Rightarrow> wf_state \<Rightarrow> string \<Rightarrow> run_ownership res" where
  "ownership_of now st run = ownership_from now (run_deadlines st run) (map holder_row (live_leases now st run))"

lemma set_keep_first [simp]: "set (keep_first acc xs) = set acc \<union> set xs"
  by (induction xs arbitrary: acc) auto

lemma distinct_keep_first: "distinct acc \<Longrightarrow> distinct (keep_first acc xs)"
  by (induction xs arbitrary: acc) auto

lemma insort_key_cong:
  assumes "\<And>y. y \<in> set ys \<Longrightarrow> f x \<le> f y \<longleftrightarrow> g x \<le> g y"
  shows "insort_key f x ys = insort_key g x ys"
  using assms by (induction ys) auto

lemma sort_key_cong_le:
  assumes "\<And>x y. x \<in> set xs \<Longrightarrow> y \<in> set xs \<Longrightarrow> f x \<le> f y \<longleftrightarrow> g x \<le> g y"
  shows "sort_key f xs = sort_key g xs"
  using assms
proof (induction xs)
  case (Cons x xs)
  then have "sort_key f xs = sort_key g xs" by simp
  moreover have "insort_key f x (sort_key g xs) = insort_key g x (sort_key g xs)"
    using Cons.prems by (intro insort_key_cong) auto
  ultimately show ?case by simp
qed simp

fun retry_part :: "string \<Rightarrow> dispatch_fact \<Rightarrow> int option option" where
  "retry_part run (RetryFact r d) = (if r = run then Some d else None)"
| "retry_part run (LeaseFact r h) = None"

fun lease_part :: "string \<Rightarrow> dispatch_fact \<Rightarrow> lease_holder option" where
  "lease_part run (RetryFact r d) = None"
| "lease_part run (LeaseFact r h) = (if r = run then Some h else None)"

fun fact_run :: "dispatch_fact \<Rightarrow> string" where
  "fact_run (RetryFact r d) = r"
| "fact_run (LeaseFact r h) = r"

lemma deal_rows_parts:
  assumes "\<forall>x\<in>set rows. deadlines (fact_run x) \<noteq> None \<and> holders (fact_run x) \<noteq> None"
  shows "deal_rows rows deadlines holders =
    Inr (\<lambda>r. map_option (\<lambda>ds. ds @ List.map_filter (retry_part r) rows) (deadlines r),
         \<lambda>r. map_option (\<lambda>hs. hs @ List.map_filter (lease_part r) rows) (holders r))"
  using assms
proof (induction rows deadlines holders rule: deal_rows.induct)
  case (1 deadlines holders)
  then show ?case by (simp add: option.map_ident)
next
  case (2 run d rows deadlines holders)
  then obtain ds where ds: "deadlines run = Some ds" by auto
  have "deal_rows rows (deadlines(run \<mapsto> ds @ [d])) holders =
    Inr (\<lambda>r. map_option (\<lambda>ds. ds @ List.map_filter (retry_part r) rows) ((deadlines(run \<mapsto> ds @ [d])) r),
         \<lambda>r. map_option (\<lambda>hs. hs @ List.map_filter (lease_part r) rows) (holders r))"
    using 2 ds by (intro "2.IH") (auto simp: append_at_def item_at_def)
  then show ?case by (auto simp: append_at_def item_at_def ds fun_eq_iff map_filter_simps)
next
  case (3 run h rows deadlines holders)
  then obtain hs where hs: "holders run = Some hs" by auto
  have "deal_rows rows deadlines (holders(run \<mapsto> hs @ [h])) =
    Inr (\<lambda>r. map_option (\<lambda>ds. ds @ List.map_filter (retry_part r) rows) (deadlines r),
         \<lambda>r. map_option (\<lambda>hs. hs @ List.map_filter (lease_part r) rows) ((holders(run \<mapsto> hs @ [h])) r))"
    using 3 hs by (intro "3.IH") (auto simp: append_at_def item_at_def)
  then show ?case by (auto simp: append_at_def item_at_def hs fun_eq_iff map_filter_simps)
qed

lemma map_filter_split: "List.map_filter f xs = List.map_filter f (filter (\<lambda>x. f x \<noteq> None) xs)"
  by (induction xs) (auto simp: map_filter_simps split: option.split)

lemma map_filter_append: "List.map_filter f (xs @ ys) = List.map_filter f xs @ List.map_filter f ys"
  by (simp add: List.map_filter_def)

lemma rows_retries:
  assumes "run \<in> set ids"
  shows "List.map_filter (retry_part run) (dispatch_rows now st ids) = run_deadlines st run"
proof -
  let ?rows = "map (\<lambda>(run, d). RetryFact run d) (retry_deadlines st ids) @
        List.map_filter (lease_fact now st ids) (wf_leases st)"
  have part: "retry_part run x \<noteq> None \<longleftrightarrow> fact_key x = (''RETRY'', run, '''')" for x by (cases x) auto
  have "List.map_filter (retry_part run) (dispatch_rows now st ids) =
      List.map_filter (retry_part run) (filter (\<lambda>x. fact_key x = (''RETRY'', run, '''')) ?rows)"
    unfolding dispatch_rows_def
    by (subst map_filter_split) (simp only: part sort_key_stable)
  also have "\<dots> = List.map_filter (retry_part run) ?rows"
    by (subst (2) map_filter_split) (simp only: part)
  also have "\<dots> = run_deadlines st run"
  proof -
    have "List.map_filter (retry_part run) (List.map_filter (lease_fact now st ids) ls) = []" for ls
      by (induction ls) (auto simp: map_filter_simps lease_fact_def split: option.splits)
    moreover have "List.map_filter (retry_part run) (map (\<lambda>(run, d). RetryFact run d)
        (map (\<lambda>r. (tr_run_id r, tr_retry_at r)) (filter (\<lambda>r. tr_run_id r \<in> set ids \<and> tr_status r = T_RETRY_SCHEDULED) ts))) =
      map tr_retry_at (filter (\<lambda>r. tr_status r = T_RETRY_SCHEDULED) (filter (\<lambda>r. tr_run_id r = run) ts))" for ts
      using assms by (induction ts) (auto simp: map_filter_simps)
    ultimately show ?thesis by (simp add: map_filter_append run_deadlines_def retry_deadlines_def rows_of_run_def)
  qed
  finally show ?thesis .
qed

lemma rows_leases:
  assumes "run \<in> set ids"
  shows "List.map_filter (lease_part run) (dispatch_rows now st ids) = map holder_row (live_leases now st run)"
proof -
  let ?rows = "map (\<lambda>(run, d). RetryFact run d) (retry_deadlines st ids) @
        List.map_filter (lease_fact now st ids) (wf_leases st)"
  let ?P = "\<lambda>l. lease_live now st l \<and> lease_in_run st run l"
  let ?fact = "\<lambda>l. LeaseFact run (holder_row l)"
  have leases: "filter (\<lambda>x. lease_part run x \<noteq> None) (List.map_filter (lease_fact now st ids) ls) = map ?fact (filter ?P ls)" for ls
    using assms by (induction ls) (auto simp: map_filter_simps lease_fact_def lease_in_run_def split: option.split)
  have retries: "filter (\<lambda>x. lease_part run x \<noteq> None) (map (\<lambda>(run, d). RetryFact run d) ds) = []" for ds
    by (auto simp: filter_empty_conv)
  have "filter (\<lambda>x. lease_part run x \<noteq> None) (dispatch_rows now st ids) =
      sort_key fact_key (map ?fact (filter ?P (wf_leases st)))"
    by (simp only: dispatch_rows_def filter_sort filter_append leases retries append_Nil)
  also have "\<dots> = map ?fact (sort_key (\<lambda>l. fact_key (?fact l)) (filter ?P (wf_leases st)))"
    by (rule sort_key_map)
  also have "sort_key (\<lambda>l. fact_key (?fact l)) (filter ?P (wf_leases st)) = live_leases now st run"
    unfolding live_leases_def by (rule sort_key_cong_le) (simp add: holder_row_def)
  finally have "filter (\<lambda>x. lease_part run x \<noteq> None) (dispatch_rows now st ids) = map ?fact (live_leases now st run)" .
  moreover have "List.map_filter (lease_part run) (map ?fact ls) = map holder_row ls" for ls
    by (induction ls) (simp_all add: map_filter_simps)
  ultimately show ?thesis by (subst map_filter_split) simp
qed

lemma dispatch_rows_asked: "x \<in> set (dispatch_rows now st ids) \<Longrightarrow> fact_run x \<in> set ids"
  by (auto simp: dispatch_rows_def retry_deadlines_def List.map_filter_def lease_fact_def split: option.splits if_splits)

lemma dispatch_facts_eq:
  "\<exists>ds hs. dispatch_facts now st ids = Inr (ds, hs) \<and>
     (\<forall>r\<in>set ids. ds r = Some (run_deadlines st r) \<and> hs r = Some (map holder_row (live_leases now st r)))"
proof (cases "keep_first [] ids = []")
  case True
  then have "ids = []" using set_keep_first [of "[]" ids] by simp
  then show ?thesis by (simp add: dispatch_facts_def)
next
  case False
  let ?ids = "keep_first [] ids"
  have start: "map_of (map (\<lambda>r. (r, [])) xs) r = (if r \<in> set xs then Some [] else None)" for xs :: "string list" and r
    by (induction xs) auto
  have "deal_rows (dispatch_rows now st ?ids) (map_of (map (\<lambda>r. (r, [])) ?ids)) (map_of (map (\<lambda>r. (r, [])) ?ids)) =
    Inr (\<lambda>r. map_option (\<lambda>ds. ds @ List.map_filter (retry_part r) (dispatch_rows now st ?ids)) (map_of (map (\<lambda>r. (r, [])) ?ids) r),
         \<lambda>r. map_option (\<lambda>hs. hs @ List.map_filter (lease_part r) (dispatch_rows now st ?ids)) (map_of (map (\<lambda>r. (r, [])) ?ids) r))"
    using dispatch_rows_asked by (intro deal_rows_parts) (fastforce simp: start)
  then show ?thesis using False by (simp add: dispatch_facts_def Let_def start rows_retries rows_leases)
qed

lemma map_res_cong: "(\<And>x. x \<in> set xs \<Longrightarrow> f x = g x) \<Longrightarrow> map_res f xs = map_res g xs"
  by (induction xs) simp_all

lemma dispatch_ownerships_eq:
  "dispatch_ownerships now st ids = map_res (\<lambda>r. bind_res (ownership_of now st r) (\<lambda>d. Inr (r, d))) (keep_first [] ids)"
proof -
  obtain ds hs where facts: "dispatch_facts now st ids = Inr (ds, hs)"
    and at: "\<forall>r\<in>set ids. ds r = Some (run_deadlines st r) \<and> hs r = Some (map holder_row (live_leases now st r))"
    using dispatch_facts_eq by blast
  show ?thesis
    unfolding dispatch_ownerships_def facts
    by (simp, rule map_res_cong) (simp add: item_at_def at ownership_of_def)
qed

lemma dispatch_ownership_eq:
  "dispatch_ownership run clk uid st =
     (if ab_closed st then (Inl closed_error, st)
      else case ownership_of (clk 0) st run of
             Inl e \<Rightarrow> (Inl e, st)
           | Inr d \<Rightarrow> (Inr d, log_result ''dispatch_ownership'' run (ownership_kind d) st))"
  by (simp add: dispatch_ownership_def dispatch_ownerships_eq item_at_def split: sum.split)

section \<open>The live leases\<close>

lemma live_not_recoverable: "lease_live now st l = (\<not> recoverable now st l)"
  by (auto simp: lease_live_def recoverable_def iso_le_def)

lemma holders_total:
  assumes "wf_inv issued st"
  shows "map_res lease_holder_post_init (map holder_row (live_leases now st run)) =
    Inr (map holder_row (live_leases now st run))"
proof -
  have inv: "rows_inv st" using assms by (simp add: wf_inv_def)
  have "lr_task_id l \<noteq> '''' \<and> 0 \<le> lr_fence l" if "l \<in> set (wf_leases st)" for l
  proof -
    have l: "lease_of (lr_task_id l) st = Some l" using that inv lease_of_in [of st l] by (simp add: rows_inv_def)
    then obtain r where r: "task_of (lr_task_id l) st = Some r" using inv by (fastforce simp: rows_inv_def)
    show ?thesis using rows_invD [OF inv r] l task_of_key [OF r] by (auto simp: row_ok_def)
  qed
  then have "lease_holder_post_init (holder_row l) = Inr (holder_row l)" if "l \<in> set (live_leases now st run)" for l
    using that by (fastforce simp: holder_row_def lease_holder_post_init_def live_leases_def not_less [symmetric])
  then show ?thesis by (rule map_res_map)
qed

lemma ownership_total:
  assumes "wf_inv issued st"
  obtains s d u where "summarize_retries now (run_deadlines st run) (0, 0, None) = (s, d, u)"
    and "ownership_of now st run = Inr
      \<lparr>do_retry = \<lparr>rs_scheduled = s, rs_due = d, rs_next_retry_at = u\<rparr>,
       do_leases = map holder_row (live_leases now st run)\<rparr>"
proof -
  obtain s d u where sum: "summarize_retries now (run_deadlines st run) (0, 0, None) = (s, d, u)"
    by (cases "summarize_retries now (run_deadlines st run) (0, 0, None)") auto
  show thesis
    by (rule that [OF sum]) (simp add: ownership_of_def ownership_from_def sum summary_valid [OF sum] holders_total [OF assms])
qed

lemma live_task_ids:
  assumes inv: "wf_inv issued st" and opened: "\<not> ab_closed st"
    and rec: "recover_expired_leases clk uid st = (r, st2)"
  shows "lr_task_id ` set (live_leases (clk 0) st run) =
     {tid. lease_of tid st2 \<noteq> None \<and> (\<exists>row. task_of tid st2 = Some row \<and> tr_run_id row = run)}"
proof -
  have mem: "l \<in> set (wf_leases st) \<longleftrightarrow> lease_of (lr_task_id l) st = Some l" for l
    using inv lease_of_in [of st l] by (simp add: wf_inv_def rows_inv_def)
  note eff = recovery_effect [OF inv opened rec, THEN conjunct2, rule_format]
  have "tid \<in> lr_task_id ` set (live_leases (clk 0) st run) \<longleftrightarrow>
      (\<exists>l. lease_of tid st = Some l \<and> \<not> recoverable (clk 0) st l \<and>
         (\<exists>row. task_of tid st = Some row \<and> tr_run_id row = run))" (is "?L \<longleftrightarrow> ?R") for tid
  proof
    assume ?L
    then obtain l where l: "l \<in> set (wf_leases st)" "tid = lr_task_id l" "\<not> recoverable (clk 0) st l"
      "lease_in_run st run l" by (auto simp: live_leases_def live_not_recoverable)
    then show ?R using mem [of l] by (auto simp: lease_in_run_def split: option.splits)
  next
    assume ?R
    then obtain l row where l: "lease_of tid st = Some l" "\<not> recoverable (clk 0) st l"
      "task_of tid st = Some row" "tr_run_id row = run" by blast
    moreover from l(1) have "lr_task_id l = tid" by (rule lease_of_key)
    ultimately have "l \<in> set (live_leases (clk 0) st run)"
      using mem [of l] by (simp add: live_leases_def live_not_recoverable lease_in_run_def)
    with \<open>lr_task_id l = tid\<close> show ?L by blast
  qed
  moreover have "(\<exists>l. lease_of tid st = Some l \<and> \<not> recoverable (clk 0) st l \<and>
         (\<exists>row. task_of tid st = Some row \<and> tr_run_id row = run)) \<longleftrightarrow>
      lease_of tid st2 \<noteq> None \<and> (\<exists>row. task_of tid st2 = Some row \<and> tr_run_id row = run)" for tid
    using eff [of tid] by (auto split: option.splits if_splits)
  ultimately show ?thesis by auto
qed

section \<open>Properties\<close>

text \<open>
  C14: the ownership view of a run is total and exact on every reachable open engine. It names as
  live holders exactly the tasks of the run whose lease a recovery at the same reading of the
  clock would leave alone; its two retry counts add up to the run's tasks in \<open>T_RETRY_SCHEDULED\<close>,
  the due ones being as many as \<^verbatim>\<open>due_retry_task_ids\<close> returns at that reading (a claim asks for
  more, see \<open>claimable\<close>); the next deadline is one of a scheduled retry not yet due that no other of
  them precedes; and the kind is \<open>NONE\<close> only when there is neither holder nor retry. Reading changes
  no task and no lease.
\<close>

theorem ownership_complements_recovery:
  assumes reach: "wf_reach dg (issued, st)" and opened: "\<not> ab_closed st"
    and rec: "recover_expired_leases clk uid st = (r, st2)"
    and due: "due_retry_task_ids run clk uid st = (Inr due_ids, st3)"
  shows "\<exists>d st1. dispatch_ownership run clk uid st = (Inr d, st1) \<and> db st1 = db st \<and>
    set (map lh_task_id (do_leases d)) =
      {tid. lease_of tid st2 \<noteq> None \<and> (\<exists>row. task_of tid st2 = Some row \<and> tr_run_id row = run)} \<and>
    rs_scheduled (do_retry d) + rs_due (do_retry d) =
      int (length (filter (\<lambda>x. tr_status x = T_RETRY_SCHEDULED) (rows_of_run run st))) \<and>
    rs_due (do_retry d) = int (length due_ids) \<and>
    (\<forall>m. rs_next_retry_at (do_retry d) = Some m \<longrightarrow>
       \<not> iso_le m (clk 0) \<and> (\<exists>x\<in>set (rows_of_run run st). tr_status x = T_RETRY_SCHEDULED \<and> tr_retry_at x = Some m) \<and>
       (\<forall>x\<in>set (rows_of_run run st). \<forall>t. tr_status x = T_RETRY_SCHEDULED \<and> tr_retry_at x = Some t \<and>
          \<not> iso_le t (clk 0) \<longrightarrow> \<not> iso_less t m)) \<and>
    (ownership_kind d = DISPATCH_NONE \<longleftrightarrow>
       do_leases d = [] \<and> filter (\<lambda>x. tr_status x = T_RETRY_SCHEDULED) (rows_of_run run st) = [])"
proof -
  have inv: "wf_inv issued st" using wf_reach_inv [OF reach] by simp
  obtain s d u where sum: "summarize_retries (clk 0) (run_deadlines st run) (0, 0, None) = (s, d, u)"
    and own: "ownership_of (clk 0) st run = Inr
      \<lparr>do_retry = \<lparr>rs_scheduled = s, rs_due = d, rs_next_retry_at = u\<rparr>,
       do_leases = map holder_row (live_leases (clk 0) st run)\<rparr>"
    by (rule ownership_total [OF inv])
  let ?rows = "filter (\<lambda>x. tr_status x = T_RETRY_SCHEDULED) (rows_of_run run st)"
  have ids: "length due_ids = length (filter (retry_due (clk 0)) ?rows)"
    using due opened by (auto simp: due_retry_task_ids_def due_retries_def Let_def conj_commute)
  have counts: "s = int (length (filter (\<lambda>x. \<not> retry_due (clk 0) x) ?rows))"
    "d = int (length (filter (retry_due (clk 0)) ?rows))"
    using summarize_counts [OF sum]
    by (simp_all add: run_deadlines_def filter_map comp_def retry_due_deadline [symmetric] del: filter_filter)
  have total: "s + d = int (length ?rows)"
    unfolding counts using sum_length_filter_compl [of "retry_due (clk 0)" ?rows] by linarith
  have later: "\<not> iso_le m (clk 0) \<and> (\<exists>x\<in>set (rows_of_run run st). tr_status x = T_RETRY_SCHEDULED \<and> tr_retry_at x = Some m) \<and>
      (\<forall>x\<in>set (rows_of_run run st). \<forall>t. tr_status x = T_RETRY_SCHEDULED \<and> tr_retry_at x = Some t \<and>
          \<not> iso_le t (clk 0) \<longrightarrow> \<not> iso_less t m)" if "u = Some m" for m
  proof -
    have "Some m \<in> set (run_deadlines st run)" "\<not> iso_le m (clk 0)"
      and early: "\<And>t. Some t \<in> set (run_deadlines st run) \<Longrightarrow> \<not> iso_le t (clk 0) \<Longrightarrow> \<not> iso_less t m"
      using summarize_next [OF sum] that by (auto simp: deadline_due_def)
    then show ?thesis by (fastforce simp: run_deadlines_def image_iff)
  qed
  have kind: "0 < s \<or> 0 < d \<longleftrightarrow> ?rows \<noteq> []" using total counts by (cases "?rows = []") auto
  let ?d = "\<lparr>do_retry = \<lparr>rs_scheduled = s, rs_due = d, rs_next_retry_at = u\<rparr>,
       do_leases = map holder_row (live_leases (clk 0) st run)\<rparr>"
  show ?thesis
  proof (intro exI conjI)
    show "dispatch_ownership run clk uid st =
        (Inr ?d, log_result ''dispatch_ownership'' run (ownership_kind ?d) st)"
      using own opened by (simp add: dispatch_ownership_eq)
    show "db (log_result ''dispatch_ownership'' run (ownership_kind ?d) st) = db st" by simp
    show "set (map lh_task_id (do_leases ?d)) =
      {tid. lease_of tid st2 \<noteq> None \<and> (\<exists>row. task_of tid st2 = Some row \<and> tr_run_id row = run)}"
      using live_task_ids [OF inv opened rec, of run] by (simp add: image_image holder_row_def)
    show "ownership_kind ?d = DISPATCH_NONE \<longleftrightarrow> do_leases ?d = [] \<and> ?rows = []"
      using kind by (auto simp: ownership_kind_def DISPATCH_NONE_def DISPATCH_BOTH_def
          DISPATCH_RETRY_def DISPATCH_WORKER_CLAIM_def Let_def)
  qed (use total counts ids later in auto)
qed

theorem ownership_complements_recovery_witness:
  "\<exists>d st1. dispatch_ownership ''run-1'' (demo_clock 1000) (demo_uid 30) (snd sys4) = (Inr d, st1) \<and>
     do_leases d = []"
proof -
  have reach: "wf_reach demo_digest (fst sys4, snd sys4)" using demo_reach4 by simp
  have opened: "\<not> ab_closed (snd sys4)" using demo_viewD(5) [OF demo_view4] by simp
  obtain r st2 where rec: "recover_expired_leases (demo_clock 1000) (demo_uid 30) (snd sys4) = (r, st2)" by fastforce
  have due: "due_retry_task_ids ''run-1'' (demo_clock 1000) (demo_uid 30) (snd sys4) =
      (Inr (due_retries ''run-1'' (demo_clock 1000 0) (snd sys4)),
       snd (due_retry_task_ids ''run-1'' (demo_clock 1000) (demo_uid 30) (snd sys4)))"
    using opened by (simp add: due_retry_task_ids_def Let_def)
  have "wf_leases (snd (recover_expired_leases (demo_clock 1000) (demo_uid 30) (snd sys4))) = []" by code_simp
  then have "lease_of tid st2 = None" for tid using rec by (simp add: lease_of_def)
  with ownership_complements_recovery [OF reach opened rec due] show ?thesis by auto
qed

text \<open>
  C15: one batch read is the reads of its runs. On a reachable open engine
  \<^verbatim>\<open>dispatch_ownership_many\<close> refuses more than 500 run ids, repetitions counted, before it reads
  anything; otherwise the one joint statement, ordered by kind, run and task and dealt to the runs
  row by row, answers every requested run once, in the order of first mention and for unknown runs
  too, with exactly the view of that run that its own tasks and leases give (\<open>ownership_of\<close>), which
  is also what \<^verbatim>\<open>dispatch_ownership\<close> says of it at the same time.
\<close>

theorem batch_ownership_is_pointwise:
  assumes reach: "wf_reach dg (issued, st)" and opened: "\<not> ab_closed st"
  shows "if 500 < length runs
    then (\<exists>m. dispatch_ownership_many runs clk uid st = (Inl (InvalidInputError m), st))
    else (\<exists>ds st1. dispatch_ownership_many runs clk uid st = (Inr ds, st1) \<and> db st1 = db st \<and>
           map fst ds = keep_first [] runs \<and> distinct (map fst ds) \<and> set (map fst ds) = set runs \<and>
           (\<forall>run d. (run, d) \<in> set ds \<longrightarrow>
              ownership_of (clk 0) st run = Inr d \<and> fst (dispatch_ownership run clk uid st) = Inr d))"
proof (cases "500 < length runs")
  case False
  have inv: "wf_inv issued st" using wf_reach_inv [OF reach] by simp
  define own where "own = (\<lambda>run. projr (ownership_of (clk 0) st run))"
  have own: "ownership_of (clk 0) st run = Inr (own run)" for run
    by (rule ownership_total [OF inv, of "clk 0" run]) (simp add: own_def)
  let ?ds = "map (\<lambda>run. (run, own run)) (keep_first [] runs)"
  have "dispatch_ownerships (clk 0) st runs = Inr ?ds"
    using map_res_map [of "keep_first [] runs" "\<lambda>r. bind_res (ownership_of (clk 0) st r) (\<lambda>d. Inr (r, d))" "\<lambda>x. x"]
    by (simp add: dispatch_ownerships_eq own)
  then have many: "dispatch_ownership_many runs clk uid st =
      (Inr ?ds, log_ok ''dispatch_ownership_many'' (''n='' @ str_int (int (length ?ds))) st)"
    using False opened
    by (simp add: dispatch_ownership_many_def validate_dispatch_batch_def MAX_DISPATCH_OWNERSHIP_BATCH_def)
  have keys: "map fst ?ds = keep_first [] runs" by (simp add: comp_def)
  have "\<exists>ds st1. dispatch_ownership_many runs clk uid st = (Inr ds, st1) \<and> db st1 = db st \<and>
           map fst ds = keep_first [] runs \<and> distinct (map fst ds) \<and> set (map fst ds) = set runs \<and>
           (\<forall>run d. (run, d) \<in> set ds \<longrightarrow>
              ownership_of (clk 0) st run = Inr d \<and> fst (dispatch_ownership run clk uid st) = Inr d)"
  proof (intro exI conjI allI impI)
    show "dispatch_ownership_many runs clk uid st =
      (Inr ?ds, log_ok ''dispatch_ownership_many'' (''n='' @ str_int (int (length ?ds))) st)" by (rule many)
    show "map fst ?ds = keep_first [] runs" by (rule keys)
    show "db (log_ok ''dispatch_ownership_many'' (''n='' @ str_int (int (length ?ds))) st) = db st" by simp
    show "distinct (map fst ?ds)" "set (map fst ?ds) = set runs"
      unfolding keys by (simp_all add: distinct_keep_first)
    fix run d assume "(run, d) \<in> set ?ds"
    then show "ownership_of (clk 0) st run = Inr d" "fst (dispatch_ownership run clk uid st) = Inr d"
      using opened by (auto simp: dispatch_ownership_eq own)
  qed
  then show ?thesis using False by simp
qed (simp add: dispatch_ownership_many_def validate_dispatch_batch_def MAX_DISPATCH_OWNERSHIP_BATCH_def)

theorem batch_ownership_is_pointwise_witness:
  "\<exists>ds st1. dispatch_ownership_many [''run-1'', ''run-9'', ''run-1''] (demo_clock 1000) (demo_uid 30) (snd sys4) =
     (Inr ds, st1) \<and> map fst ds = [''run-1'', ''run-9'']"
proof -
  have reach: "wf_reach demo_digest (fst sys4, snd sys4)" using demo_reach4 by simp
  have opened: "\<not> ab_closed (snd sys4)" using demo_viewD(5) [OF demo_view4] by simp
  have few: "\<not> 500 < length [''run-1'', ''run-9'', ''run-1'']" by simp
  obtain ds st1 where "dispatch_ownership_many [''run-1'', ''run-9'', ''run-1''] (demo_clock 1000) (demo_uid 30)
      (snd sys4) = (Inr ds, st1)" and keys: "map fst ds = keep_first [] [''run-1'', ''run-9'', ''run-1'']"
    using batch_ownership_is_pointwise [OF reach opened, of "[''run-1'', ''run-9'', ''run-1'']" "demo_clock 1000"
        "demo_uid 30", unfolded if_not_P [OF few]] by blast
  moreover have "keep_first [] [''run-1'', ''run-9'', ''run-1''] = [''run-1'', ''run-9'']" by simp
  ultimately show ?thesis by metis
qed

end
