(* ===== verification/Run_Plan.thy ===== *)
theory Run_Plan
  imports Budget_Closure Research_Run
begin

text \<open>
  From a compiled plan to the tasks of a run (\<^verbatim>\<open>run_orchestration/session_resolution.py\<close>,
  \<^verbatim>\<open>context.py\<close>): every agent assigned to a phase gets one research task with the contract of the
  phase and the context of its session. Of a plan and of a catalog the model keeps the fields the
  orchestration reads; role, agent, endpoint and model are given by their identifiers, the prompt
  sections by their texts. Fresh identifiers are arguments.
\<close>

section \<open>The plan\<close>

datatype trust_label =
    TRUSTED_INTERNAL | VERIFIED_SOURCE | UNTRUSTED_EXTERNAL | GENERATED | USER_PROVIDED | RETRIEVED

datatype gate_type =
    POLICY_GATE | BUDGET_GATE | QUALITY_GATE | HUMAN_GATE | SECURITY_GATE | PUBLISH_GATE

datatype capability_execution = SESSION_EXECUTION | RUN_CHAIN_EXECUTION

record compiled_phase =
  ph_id :: string
  ph_strategy :: string
  ph_contract_refs :: "string list"
  ph_inputs :: "string list"
  ph_cross_phase_inputs :: "(string \<times> string \<times> trust_label) list"
  ph_capability_execution :: capability_execution
  ph_tool_bindings :: "(string \<times> string) list"
  ph_chain_arguments :: "json option"

record tool_requirement =
  tq_phase_id :: string
  tq_capability :: string
  tq_provider_ids :: "string list"

record phase_assignment =
  pa_phase_id :: string
  pa_role_assignments :: "(string \<times> string list) list"

record run_plan =
  rp_phases :: "compiled_phase list"
  rp_assignments :: "phase_assignment list"
  rp_tools :: "tool_requirement list"
  rp_models :: "string \<rightharpoonup> string"
  rp_gates :: "(string \<times> gate_type) list"

record role_entry =
  ce_role_id :: string
  ce_reviewer :: bool

record agent_entry =
  ce_agent_id :: string
  ce_agent_role :: string

record model_entry =
  ce_model_name :: string
  ce_model_endpoint :: string

record catalog_view =
  ct_roles :: "string \<rightharpoonup> role_entry"
  ct_agents :: "string \<rightharpoonup> agent_entry"
  ct_contracts :: "string \<rightharpoonup> task_contract"
  ct_models :: "string \<rightharpoonup> model_entry"
  ct_endpoints :: "string \<rightharpoonup> string"

record run_context =
  cx_run :: research_run
  cx_trace_id :: string
  cx_plan :: run_plan
  cx_catalog :: catalog_view
  cx_passed :: bool
  cx_direction :: "string option"

definition frozen_manifest_digest :: "run_context \<Rightarrow> string res" where
  "frozen_manifest_digest cx =
     (case rr_manifest_digest (cx_run cx) of None \<Rightarrow> Inl AssertionError | Some d \<Rightarrow> Inr d)"

section \<open>The context of a task\<close>

record spec_context =
  sc_role_id :: string
  sc_reviewer :: bool
  sc_agent_id :: string
  sc_manifest_digest :: string
  sc_tool_set :: "string list"
  sc_endpoint_id :: "string option"
  sc_model_name :: "string option"
  sc_phase_id :: string
  sc_phase_strategy :: string
  sc_declared_inputs :: "string list"
  sc_cross_phase_inputs :: "(string \<times> string \<times> trust_label) list"
  sc_run_chain_tools :: "string list"
  sc_tool_bindings :: "(string \<times> string) list"
  sc_round_calls :: "string list"
  sc_previous_prefixes :: "string list"
  sc_run :: "research_run option"
  sc_direction :: "string option"
  sc_retrieval :: "string option"
  sc_prior_knowledge :: "string option"
  sc_review_material :: "string option"
  sc_review_outcome :: "string option"
  sc_review_points :: "string option"
  sc_chain_arguments :: "json option"

type_synonym task_spec = "research_task \<times> task_contract \<times> spec_context"

section \<open>Tools of a session\<close>

definition assigned_agents :: "phase_assignment \<Rightarrow> string list" where
  "assigned_agents a = concat (map snd (pa_role_assignments a))"

definition flatten_tool_providers :: "run_plan \<Rightarrow> string list" where
  "flatten_tool_providers plan = sort (remdups (concat (map tq_provider_ids (rp_tools plan))))"

definition phase_by_id :: "run_plan \<Rightarrow> string \<Rightarrow> compiled_phase option" where
  "phase_by_id plan phase_id = find (\<lambda>ph. ph_id ph = phase_id) (rp_phases plan)"

definition run_chain_tool_ids :: "run_plan \<Rightarrow> string \<Rightarrow> string list" where
  "run_chain_tool_ids plan phase_id =
     (case phase_by_id plan phase_id of
        None \<Rightarrow> []
      | Some ph \<Rightarrow>
          (if ph_capability_execution ph \<noteq> RUN_CHAIN_EXECUTION then []
           else sort (remdups (concat
                  (map tq_provider_ids (filter (\<lambda>t. tq_phase_id t = phase_id) (rp_tools plan)))))))"

definition session_tool_face :: "run_plan \<Rightarrow> string \<Rightarrow> string list" where
  "session_tool_face plan phase_id =
     filter (\<lambda>name. name \<notin> set (run_chain_tool_ids plan phase_id)) (flatten_tool_providers plan)"

fun bind_tools :: "(string \<rightharpoonup> string) \<Rightarrow> (string \<times> string) list \<Rightarrow> (string \<times> string) list res" where
  "bind_tools seen [] = Inr []"
| "bind_tools seen ((provider, tool) # bs) =
     (if seen provider \<noteq> None \<and> seen provider \<noteq> Some tool
      then Inl (ValueError (''provider '' @ provider @ '' is bound to two tool names: '' @
             quote (the (seen provider)) @ '' and '' @ quote tool))
      else bind_res (bind_tools (seen(provider \<mapsto> tool)) bs) (\<lambda>ps. Inr ((provider, tool) # ps)))"

definition session_tool_bindings :: "run_plan \<Rightarrow> string \<Rightarrow> (string \<times> string) list res" where
  "session_tool_bindings plan phase_id =
     (case phase_by_id plan phase_id of
        None \<Rightarrow> Inr []
      | Some ph \<Rightarrow>
          (let outside = sort (remdups (filter (\<lambda>provider. provider \<notin> set (session_tool_face plan phase_id))
                           (map fst (ph_tool_bindings ph))))
           in if ph_tool_bindings ph = [] then Inr []
              else if outside \<noteq> []
              then Inl (ValueError (''session tool bindings reference providers outside this phase'' @ [CHR 0x27] @ ''s session '' @
                     ''tool face: '' @ join_texts '', '' outside))
              else bind_tools Map.empty (ph_tool_bindings ph)))"

definition execution_target :: "run_context \<Rightarrow> string \<Rightarrow> string option \<times> string option" where
  "execution_target cx agent_id =
     (case rp_models (cx_plan cx) agent_id of
        None \<Rightarrow> (None, None)
      | Some model_id \<Rightarrow>
          (case ct_models (cx_catalog cx) model_id of
             None \<Rightarrow> (None, None)
           | Some md \<Rightarrow> (ct_endpoints (cx_catalog cx) (ce_model_endpoint md), Some (ce_model_name md))))"

section \<open>Resolution\<close>

definition contract_for :: "run_context \<Rightarrow> string list \<Rightarrow> task_contract res" where
  "contract_for cx refs =
     (case refs of
        [] \<Rightarrow> Inl (ValueError ''phase declares no task contract'')
      | ref # _ \<Rightarrow>
          (case ct_contracts (cx_catalog cx) ref of
             None \<Rightarrow> Inl (ValueError (''task contract '' @ ref @ '' is unavailable''))
           | Some c \<Rightarrow> Inr c))"

definition spec_context_of ::
    "run_context \<Rightarrow> compiled_phase \<Rightarrow> agent_entry \<Rightarrow> role_entry \<Rightarrow> string option \<times> string option \<Rightarrow> spec_context res" where
  "spec_context_of cx ph agent role target =
     bind_res (frozen_manifest_digest cx) (\<lambda>digest.
     bind_res (session_tool_bindings (cx_plan cx) (ph_id ph)) (\<lambda>bindings.
       Inr \<lparr>sc_role_id = ce_role_id role, sc_reviewer = ce_reviewer role, sc_agent_id = ce_agent_id agent,
            sc_manifest_digest = digest, sc_tool_set = flatten_tool_providers (cx_plan cx),
            sc_endpoint_id = fst target, sc_model_name = snd target, sc_phase_id = ph_id ph,
            sc_phase_strategy = ph_strategy ph, sc_declared_inputs = ph_inputs ph,
            sc_cross_phase_inputs = ph_cross_phase_inputs ph,
            sc_run_chain_tools = run_chain_tool_ids (cx_plan cx) (ph_id ph),
            sc_tool_bindings = bindings, sc_round_calls = [], sc_previous_prefixes = [],
            sc_run = Some (cx_run cx), sc_direction = cx_direction cx, sc_retrieval = None,
            sc_prior_knowledge = None, sc_review_material = None, sc_review_outcome = None,
            sc_review_points = None, sc_chain_arguments = ph_chain_arguments ph\<rparr>))"

definition lookup :: "('k \<rightharpoonup> 'v) \<Rightarrow> string \<Rightarrow> 'k \<Rightarrow> 'v res" where
  "lookup m name k = (case m k of None \<Rightarrow> Inl (KeyError name) | Some v \<Rightarrow> Inr v)"

definition resolve_session :: "run_context \<Rightarrow> string \<Rightarrow> compiled_phase \<times> string \<Rightarrow> task_spec res" where
  "resolve_session cx fresh slot =
     (case slot of (ph, agent_id) \<Rightarrow>
        bind_res (lookup (ct_agents (cx_catalog cx)) agent_id agent_id) (\<lambda>agent.
        bind_res (lookup (ct_roles (cx_catalog cx)) (ce_agent_role agent) (ce_agent_role agent)) (\<lambda>role.
        bind_res (contract_for cx (ph_contract_refs ph)) (\<lambda>c.
        bind_res (task_post_init
          \<lparr>rt_id = fresh, rt_run_id = rr_id (cx_run cx), rt_phase_run_id = None, rt_contract_id = Some (tc_id c),
           rt_assigned_agent_id = Some agent_id, rt_status = T_CREATED, rt_priority = 0, rt_attempt = 1,
           rt_idempotency_key = Some (rr_id (cx_run cx) @ '':'' @ ph_id ph @ '':'' @ agent_id),
           rt_lease_id = None, rt_kind = AGENT_SESSION, rt_partition = None, rt_required_capability = None\<rparr>) (\<lambda>t.
        bind_res (spec_context_of cx ph agent role (execution_target cx agent_id)) (\<lambda>sc.
          Inr (t, c, sc)))))))"

text \<open>The slots: phase by phase in plan order, the agents of the phase in the order of its roles.\<close>

definition session_slots :: "run_plan \<Rightarrow> (compiled_phase \<times> string) list" where
  "session_slots plan =
     concat (map (\<lambda>ph. case map_of (rev (map (\<lambda>a. (pa_phase_id a, a)) (rp_assignments plan))) (ph_id ph) of
                         None \<Rightarrow> []
                       | Some a \<Rightarrow> map (Pair ph) (assigned_agents a)) (rp_phases plan))"

definition resolve_sessions :: "run_context \<Rightarrow> (nat \<Rightarrow> string) \<Rightarrow> task_spec list res" where
  "resolve_sessions cx uid =
     (let slots = session_slots (cx_plan cx)
      in map_res (\<lambda>(i, slot). resolve_session cx (uid i) slot) (zip [0..<length slots] slots))"

end
