(* ===== verification/Run_World.thy ===== *)
theory Run_World
  imports Run_Plan Workflow_Reads Program_Store
begin

text \<open>
  What the run orchestration works on. The world of a run is the state of the ports it drives:
  the workflow engine, the budget ledger and the approval store of this development, the domain
  events published so far, and the state \<open>rw_env\<close> of the ports that call other systems (agent
  runtime, evidence ledger, artifact content). An action returns its result or the exception
  that leaves it, with the next world. \<open>rw_step\<close> counts the port calls: the \<open>k\<close>-th call reads
  the clock as \<open>po_clk k\<close> and takes fresh identifiers from \<open>po_uid k\<close>. The last fields are the
  dictionaries of \<^verbatim>\<open>RunOrchestrationService\<close> (reservation references, waiting and paused runs)
  and, in \<open>rw_handed\<close>, the specs its \<^verbatim>\<open>on_pause\<close> callback received in this execution. The errors are the classes
  of \<^verbatim>\<open>packages/application/ports/errors.py\<close>; messages are not redacted.
\<close>

section \<open>Errors\<close>

text \<open>
  \<open>PortInvalid\<close> is \<^verbatim>\<open>InvalidInputError\<close>, a permanent error of category \<open>FC_VALIDATION_FAILURE\<close>,
  and \<open>PortNotDue\<close> its subclass \<^verbatim>\<open>RetryNotDueError\<close>. \<open>PyError\<close> is an exception that is no
  \<^verbatim>\<open>PortError\<close>, \<open>BadTransition\<close> the
  \<^verbatim>\<open>InvalidTransitionError\<close> of the run lifecycle, \<open>ManifestMismatch\<close> the \<^verbatim>\<open>ResumeManifestMismatchError\<close>, \<open>ManifestFreeze\<close> the
  \<^verbatim>\<open>ManifestFreezeError\<close>.
\<close>

datatype run_exception =
    PortTransient string failure_category
  | PortPermanent string failure_category
  | PortInvalid string
  | PortNotDue string
  | PortCancelled string
  | ManifestMismatch
  | ManifestFreeze string
  | BadTransition run_state run_event
  | PyError py_error

definition exception_of :: "py_error \<Rightarrow> run_exception" where
  "exception_of e =
     (case e of
        InvalidInputError m \<Rightarrow> PortInvalid m
      | RetryNotDueError m \<Rightarrow> PortNotDue m
      | PermanentPortError m \<Rightarrow> PortPermanent m FC_CONFIGURATION
      | x \<Rightarrow> PyError x)"

section \<open>Sessions\<close>

record session_spec =
  ss_task_id :: string
  ss_contract :: task_contract
  ss_role_id :: string
  ss_agent_id :: string
  ss_tool_set :: "string list"
  ss_run_chain_tools :: "string list"
  ss_tool_bindings :: "(string \<times> string) list"
  ss_manifest_ref :: string
  ss_prompts :: "string option list"
  ss_endpoint_id :: "string option"
  ss_model_name :: "string option"

record session_result =
  sr_session_id :: string
  sr_status :: session_state
  sr_output :: json

definition session_result_post_init :: "session_result \<Rightarrow> session_result res" where
  "session_result_post_init r = first_error
     [(sr_session_id r = '''', ''session_id must not be empty''),
      (sr_status r \<notin> set session_terminal, ''session result status must be terminal'')] r"

section \<open>Events\<close>

datatype orch_payload =
    RunPayload string
  | TaskPayload string
  | TaskFailedPayload string string string
  | PhaseStartedPayload string string "string list"
  | PhaseCompletedPayload string string "string list"
  | ApprovalPayload string string string
  | ClaimPayload string string string
  | FrozenPayload string string string "string option" "string option"
  | FailedPayload string string
  | DegradedPayload string string "(string \<times> string \<times> string option) list"
  | RunCompletedPayload string "(string \<times> string list) list" "(string \<times> string list) list"
  | RoundsPayload string "(string \<times> string list) list" "(string \<times> string list) list"
      "string list" nat string string int "string list" "string list"
  | ResumeFailedPayload string string string run_state

datatype orch_event_type =
    MANIFEST_FROZEN | PHASE_STARTED | PHASE_COMPLETED | TASK_CREATED | TASK_FAILED | CLAIM_VERIFIED
  | APPROVAL_REQUESTED | RUN_FAILED | RUN_DEGRADED | RUN_COMPLETED
  | RUN_RESUME_FAILED | RUN_RESUME_COMPENSATION_FAILED

record orch_event =
  ov_type :: orch_event_type
  ov_payload :: orch_payload
  ov_run_id :: string
  ov_trace_id :: string
  ov_task_id :: "string option"

section \<open>The world and its actions\<close>

record 'w run_world =
  rw_engine :: wf_state
  rw_budget :: budget_ledger
  rw_approvals :: approval_store
  rw_events :: "orch_event list"
  rw_step :: nat
  rw_refs :: "string \<rightharpoonup> string"
  rw_handed :: "task_spec list list"
  rw_waiting :: "string \<rightharpoonup> run_context \<times> task_spec list"
  rw_paused :: "string \<rightharpoonup> run_context \<times> task_spec list"
  rw_env :: 'w

type_synonym ('w, 'a) act = "'w run_world \<Rightarrow> (run_exception + 'a) \<times> 'w run_world"

definition return_act :: "'a \<Rightarrow> ('w, 'a) act" where
  "return_act a w = (Inr a, w)"

definition raise_act :: "run_exception \<Rightarrow> ('w, 'a) act" where
  "raise_act e w = (Inl e, w)"

definition bind_act :: "('w, 'a) act \<Rightarrow> ('a \<Rightarrow> ('w, 'b) act) \<Rightarrow> ('w, 'b) act" where
  "bind_act m f w = (case m w of (Inl e, w') \<Rightarrow> (Inl e, w') | (Inr a, w') \<Rightarrow> f a w')"

definition lift_act :: "'a res \<Rightarrow> ('w, 'a) act" where
  "lift_act r w = (case r of Inl e \<Rightarrow> (Inl (exception_of e), w) | Inr a \<Rightarrow> (Inr a, w))"

definition emit ::
    "orch_event_type \<Rightarrow> orch_payload \<Rightarrow> string \<Rightarrow> string \<Rightarrow> string option \<Rightarrow> ('w, unit) act" where
  "emit ty p run_id trace_id task_id w =
     (Inr (), w\<lparr>rw_events := rw_events w @
          [\<lparr>ov_type = ty, ov_payload = p, ov_run_id = run_id, ov_trace_id = trace_id, ov_task_id = task_id\<rparr>]\<rparr>)"

record readings =
  po_clk :: "nat \<Rightarrow> nat \<Rightarrow> int"
  po_uid :: "nat \<Rightarrow> nat \<Rightarrow> string"
  po_request_digest :: "json \<times> json \<Rightarrow> string"
  po_budgeted :: bool
  po_budget_digest :: budget_digest

definition engine_call ::
    "'p readings_scheme \<Rightarrow> ((nat \<Rightarrow> int) \<Rightarrow> (nat \<Rightarrow> string) \<Rightarrow> 'a op) \<Rightarrow> ('w, 'a) act" where
  "engine_call p f w =
     (case f (po_clk p (rw_step w)) (po_uid p (rw_step w)) (rw_engine w) of
        (r, st) \<Rightarrow> lift_act r (w\<lparr>rw_engine := st, rw_step := Suc (rw_step w)\<rparr>))"

definition budget_call ::
    "'p readings_scheme \<Rightarrow> ((nat \<Rightarrow> int) \<Rightarrow> budget_ledger \<Rightarrow> 'a res \<times> budget_ledger) \<Rightarrow> ('w, 'a) act" where
  "budget_call p f w =
     (case f (po_clk p (rw_step w)) (rw_budget w) of
        (r, b) \<Rightarrow> lift_act r (w\<lparr>rw_budget := b, rw_step := Suc (rw_step w)\<rparr>))"

definition clock_call :: "'p readings_scheme \<Rightarrow> ((nat \<Rightarrow> int) \<Rightarrow> 'a) \<Rightarrow> ('w, 'a) act" where
  "clock_call p f w = (Inr (f (po_clk p (rw_step w))), w\<lparr>rw_step := Suc (rw_step w)\<rparr>)"

text \<open>
  Actions that contain the loop of an executor: \<open>None\<close> when its fuel did not suffice.
\<close>

type_synonym ('w, 'a) loop_act = "'w run_world \<Rightarrow> ((run_exception + 'a) \<times> 'w run_world) option"

definition bind_loop :: "('w, 'a) loop_act \<Rightarrow> ('a \<Rightarrow> ('w, 'b) loop_act) \<Rightarrow> ('w, 'b) loop_act" where
  "bind_loop m f w =
     (case m w of
        None \<Rightarrow> None
      | Some (Inl e, w') \<Rightarrow> Some (Inl e, w')
      | Some (Inr a, w') \<Rightarrow> f a w')"

definition loop_of :: "('w, 'a) act \<Rightarrow> ('w, 'a) loop_act" where
  "loop_of m w = Some (m w)"

end
