(* ===== verification/Task_Execution.thy ===== *)
theory Task_Execution
  imports Run_World
begin

text \<open>
  One task of a run (\<^verbatim>\<open>run_orchestration/task_executor.py\<close>): submit it, take its lease, run the
  agent session, report the outcome to the workflow engine, and try again as the retry policy
  allows. The agent runtime is a parameter with its two calls. The loop of \<^verbatim>\<open>execute_task\<close>
  carries fuel, \<open>None\<close> being a loop that did not end; \<open>execute_task\<close> gives it one attempt more
  than the policy allows.
\<close>

section \<open>Results\<close>

text \<open>
  \<open>'x\<close> is the product of the two other executors, a sandboxed experiment or a report.
\<close>

record 'x task_result =
  te_task :: research_task
  te_outcome :: string
  te_session :: "session_result option"
  te_experiment :: "'x option"
  te_report :: "'x option"
  te_attempts :: int
  te_category :: "failure_category option"
  te_message :: string
  te_deferred :: bool

definition te_succeeded :: "'x task_result \<Rightarrow> bool" where
  "te_succeeded r = (te_outcome r = ''SUCCEEDED'')"

record 'w execution_deps = readings +
  po_create_session :: "session_spec \<Rightarrow> ('w, string) act"
  po_run_session :: "string \<Rightarrow> ('w, session_result) act"

definition effective_policy :: "task_contract \<Rightarrow> retry_policy" where
  "effective_policy c =
     (case tc_retry_policy c of
        Some p \<Rightarrow> p
      | None \<Rightarrow> \<lparr>max_attempts = 1, retryable_categories = [], backoff_seconds = None,
                 max_backoff_seconds = None\<rparr>)"

fun retryable_error :: "run_exception \<Rightarrow> retry_policy \<Rightarrow> bool" where
  "retryable_error (PortTransient m cat) p =
     (\<not> (retryable_categories p \<noteq> [] \<and> cat \<notin> set (retryable_categories p)))"
| "retryable_error e p = False"

definition executed_as :: "research_task \<Rightarrow> int \<Rightarrow> string \<Rightarrow> research_task res" where
  "executed_as t attempt lease_id = task_post_init (t\<lparr>rt_attempt := attempt, rt_lease_id := Some lease_id\<rparr>)"

definition task_failed ::
    "research_task \<Rightarrow> int \<Rightarrow> failure_category option \<Rightarrow> string \<Rightarrow> bool \<Rightarrow> 'x task_result" where
  "task_failed t attempts category message deferred =
     \<lparr>te_task = t, te_outcome = ''FAILED'', te_session = None, te_experiment = None, te_report = None,
      te_attempts = attempts, te_category = category, te_message = message, te_deferred = deferred\<rparr>"

section \<open>The session\<close>

definition session_spec_of :: "research_task \<Rightarrow> task_contract \<Rightarrow> spec_context \<Rightarrow> session_spec" where
  "session_spec_of t c sc =
     \<lparr>ss_task_id = rt_id t, ss_contract = c, ss_role_id = sc_role_id sc, ss_agent_id = sc_agent_id sc,
      ss_tool_set = sc_tool_set sc, ss_run_chain_tools = sc_run_chain_tools sc,
      ss_tool_bindings = sc_tool_bindings sc, ss_manifest_ref = sc_manifest_digest sc,
      ss_prompts = [sc_retrieval sc, sc_prior_knowledge sc, sc_review_material sc,
        sc_review_outcome sc, sc_review_points sc, sc_direction sc],
      ss_endpoint_id = sc_endpoint_id sc, ss_model_name = sc_model_name sc\<rparr>"

definition assert_frozen_manifest :: "session_spec \<Rightarrow> spec_context \<Rightarrow> ('w, unit) act" where
  "assert_frozen_manifest spec sc =
     (if ss_manifest_ref spec \<noteq> sc_manifest_digest sc then raise_act ManifestMismatch else return_act ())"

definition run_session ::
    "('w, 'p) execution_deps_scheme \<Rightarrow> research_task \<Rightarrow> task_contract \<Rightarrow> spec_context \<Rightarrow> ('w, session_result) act" where
  "run_session p t c sc =
     (let spec = session_spec_of t c sc
      in bind_act (po_create_session p spec) (\<lambda>sid.
         bind_act (assert_frozen_manifest spec sc) (\<lambda>_. po_run_session p sid)))"

section \<open>One attempt\<close>

definition report_completion ::
    "('w, 'p) execution_deps_scheme \<Rightarrow> task_lease \<Rightarrow> string \<Rightarrow> failure_category option \<Rightarrow> ('w, unit) act" where
  "report_completion p l outcome category =
     bind_act (lift_act (completion_post_init
         \<lparr>cm_task_id = tl_task_id l, cm_outcome = outcome, cm_message = [], cm_failure_category = category\<rparr>))
       (\<lambda>cm. engine_call p (complete l cm))"

definition failure_reason :: "failure_category option \<Rightarrow> string option" where
  "failure_reason category = map_option (enum_text failure_category_names) category"

text \<open>What an attempt comes to: a result, or a failure that may be tried again.\<close>

datatype 'x attempt_end = AttemptDone "'x task_result" | AttemptRetryable "failure_category option"

definition settle_attempt ::
    "('w, 'p) execution_deps_scheme \<Rightarrow> research_task \<Rightarrow> task_lease \<Rightarrow> failure_category \<Rightarrow> ('w, unit) act" where
  "settle_attempt p t live cat =
     bind_act (budget_call p (\<lambda>clk. record_attempt_usage
         (if po_budgeted p then Some (\<lambda>e. bl_record_usage e (clk 1)) else None)
         t (rt_attempt t) (failure_reason (Some cat)) (clk 0)))
       (\<lambda>_. report_completion p live ''FAILED'' (Some cat))"

fun attempt_failed ::
    "('w, 'p) execution_deps_scheme \<Rightarrow> research_task \<Rightarrow> task_contract \<Rightarrow> task_lease \<Rightarrow> run_exception \<Rightarrow>
     ('w, 'x attempt_end) act" where
  "attempt_failed p t c live (PortTransient m cat) =
     bind_act (settle_attempt p t live cat) (\<lambda>_.
       return_act (if retryable_error (PortTransient m cat) (effective_policy c)
                   then AttemptRetryable (Some cat)
                   else AttemptDone (task_failed t (rt_attempt t) (Some cat) m False)))"
| "attempt_failed p t c live (PortPermanent m cat) =
     bind_act (settle_attempt p t live cat) (\<lambda>_.
       return_act (AttemptDone (task_failed t (rt_attempt t) (Some cat) m False)))"
| "attempt_failed p t c live (PortInvalid m) =
     bind_act (settle_attempt p t live FC_VALIDATION_FAILURE) (\<lambda>_.
       return_act (AttemptDone (task_failed t (rt_attempt t) (Some FC_VALIDATION_FAILURE) m False)))"
| "attempt_failed p t c live (PortNotDue m) =
     bind_act (settle_attempt p t live FC_VALIDATION_FAILURE) (\<lambda>_.
       return_act (AttemptDone (task_failed t (rt_attempt t) (Some FC_VALIDATION_FAILURE) m False)))"
| "attempt_failed p t c live e = raise_act e"

text \<open>\<^verbatim>\<open>try\<close>: a failure is handled with the lease that is live when it happens.\<close>

definition try_act ::
    "('w, 'a) act \<Rightarrow> (run_exception \<Rightarrow> ('w, 'b) act) \<Rightarrow> ('a \<Rightarrow> ('w, 'b) act) \<Rightarrow> ('w, 'b) act" where
  "try_act m handler f w = (case m w of (Inl e, w') \<Rightarrow> handler e w' | (Inr a, w') \<Rightarrow> f a w')"

definition session_outcome :: "session_result \<Rightarrow> string" where
  "session_outcome r = (if sr_status r = S_SUCCEEDED then ''SUCCEEDED'' else ''FAILED'')"

definition attempt_once ::
    "('w, 'p) execution_deps_scheme \<Rightarrow> research_task \<Rightarrow> task_contract \<Rightarrow> spec_context \<Rightarrow> task_lease \<Rightarrow>
     ('w, 'x attempt_end) act" where
  "attempt_once p t c sc l =
     try_act (engine_call p (heartbeat l)) (attempt_failed p t c l) (\<lambda>live.
     try_act (run_session p t c sc) (attempt_failed p t c live) (\<lambda>r.
     try_act (report_completion p live (session_outcome r) None) (attempt_failed p t c live) (\<lambda>_.
       return_act (AttemptDone
         \<lparr>te_task = t, te_outcome = session_outcome r, te_session = Some r, te_experiment = None,
          te_report = None, te_attempts = rt_attempt t, te_category = None, te_message = [],
          te_deferred = False\<rparr>))))"

section \<open>The loop\<close>

datatype acquire_failure = AcquireFailure string bool

definition acquire_or_fail :: "('w, 'p) execution_deps_scheme \<Rightarrow> research_task \<Rightarrow> ('w, acquire_failure + task_lease) act" where
  "acquire_or_fail p t =
     try_act (engine_call p (acquire_lease (rt_id t)))
       (\<lambda>e. case e of
          PortNotDue m \<Rightarrow> return_act (Inl (AcquireFailure m True))
        | PortInvalid m \<Rightarrow> return_act (Inl (AcquireFailure m False))
        | PortPermanent m _ \<Rightarrow> return_act (Inl (AcquireFailure m False))
        | _ \<Rightarrow> raise_act e)
       (\<lambda>l. return_act (Inr l))"

fun refused :: "research_task \<Rightarrow> acquire_failure \<Rightarrow> 'x task_result" where
  "refused t (AcquireFailure m not_due) =
     (if not_due then task_failed t (max (rt_attempt t) 1) None m True
      else task_failed t (max (rt_attempt t) 1) None (if m = [] then ''task already delivered'' else m) False)"

fun execute_attempts ::
    "nat \<Rightarrow> ('w, 'p) execution_deps_scheme \<Rightarrow> research_task \<Rightarrow> task_contract \<Rightarrow> spec_context \<Rightarrow> 'w run_world \<Rightarrow>
     ((run_exception + 'x task_result) \<times> 'w run_world) option" where
  "execute_attempts 0 p t c sc w = None"
| "execute_attempts (Suc n) p t c sc w =
     (case acquire_or_fail p t w of
        (Inl e, w1) \<Rightarrow> Some (Inl e, w1)
      | (Inr (Inl f), w1) \<Rightarrow> Some (Inr (refused t f), w1)
      | (Inr (Inr l), w1) \<Rightarrow>
          (let attempt = max (tl_fence l) 1
           in case executed_as t attempt (tl_lease_id l) of
                Inl e \<Rightarrow> Some (Inl (exception_of e), w1)
              | Inr current \<Rightarrow>
                  (case attempt_once p current c sc l w1 of
                     (Inl e, w2) \<Rightarrow> Some (Inl e, w2)
                   | (Inr (AttemptDone r), w2) \<Rightarrow> Some (Inr r, w2)
                   | (Inr (AttemptRetryable cat), w2) \<Rightarrow>
                       (if max_attempts (effective_policy c) \<le> attempt
                        then Some (Inr (task_failed current attempt cat ''retry budget exhausted'' False), w2)
                        else (case retry_delay c attempt of
                                Inl e \<Rightarrow> Some (Inl (exception_of e), w2)
                              | Inr delay \<Rightarrow>
                                  (if 0 < delay
                                   then Some (Inr (task_failed current attempt cat
                                                     ''retry deferred to the dispatcher'' True), w2)
                                   else execute_attempts n p t c sc w2))))))"

definition attempt_fuel :: "task_contract \<Rightarrow> nat" where
  "attempt_fuel c = Suc (nat (max_attempts (effective_policy c)))"

definition execute_task ::
    "('w, 'p) execution_deps_scheme \<Rightarrow> research_task \<Rightarrow> task_contract \<Rightarrow> spec_context \<Rightarrow> 'w run_world \<Rightarrow>
     ((run_exception + 'x task_result) \<times> 'w run_world) option" where
  "execute_task p t c sc w =
     (case engine_call p (\<lambda>clk uid. submit (po_request_digest p) t c clk) w of
        (Inl e, w1) \<Rightarrow> Some (Inl e, w1)
      | (Inr _, w1) \<Rightarrow> execute_attempts (attempt_fuel c) p t c sc w1)"

end
