(* ===== verification/Evaluation_Gate.thy ===== *)
theory Evaluation_Gate
  imports Acceptance Budget_Closure
begin

text \<open>
  The evaluation gate of a task (\<^verbatim>\<open>run_orchestration/evaluation_gate.py\<close>, with
  \<^verbatim>\<open>acceptance_observation.py\<close>, \<^verbatim>\<open>review_attribution.py\<close> and the wiring of
  \<^verbatim>\<open>novelty_claim_step.py\<close>): the acceptance criteria of the contract are evaluated on facts the
  orchestration assembled, and the verdict is wrapped into a finding and a decision. Two text
  routines are parameters: reading a JSON object out of a reply (\<^verbatim>\<open>_json_in_text\<close>) and a number
  out of a text (\<^verbatim>\<open>Decimal(str)\<close>).
\<close>

section \<open>The inputs\<close>

text \<open>\<^verbatim>\<open>EvaluationInputs\<close>: what \<^verbatim>\<open>to_criterion_inputs\<close> passes on, the schema check, and the verdicts
  of custom evaluators by the position of their criterion.\<close>

record evaluation_inputs = criterion_inputs +
  ei_schema_check :: "schema_check option"
  ei_consumption :: "(nat \<times> bool \<times> verdict_reason) list"

definition to_criterion_inputs :: "'z criterion_inputs_scheme \<Rightarrow> criterion_inputs" where
  "to_criterion_inputs inp = criterion_inputs.truncate inp"

fun split_at :: "char \<Rightarrow> string \<Rightarrow> string list" where
  "split_at sep [] = [[]]"
| "split_at sep (c # s) =
     (if c = sep then [] # split_at sep s
      else (case split_at sep s of [] \<Rightarrow> [[c]] | w # ws \<Rightarrow> (c # w) # ws))"

record text_readers =
  tx_object_in_text :: "string \<Rightarrow> string \<Rightarrow> (string \<times> json) list option"
  tx_decimal :: "string \<Rightarrow> decimal option"

fun unwrap_deliverable :: "text_readers \<Rightarrow> json \<Rightarrow> string \<Rightarrow> json option" where
  "unwrap_deliverable tx (JObj kvs) key =
     (case (map_of kvs ''declared_artifact'', map_of kvs ''content'') of
        (Some _, Some (JStr text)) \<Rightarrow>
          (case tx_object_in_text tx text key of
             None \<Rightarrow> None
           | Some declared \<Rightarrow>
               (case map_of declared key of
                  Some (JObj inner) \<Rightarrow> Some (JObj inner)
                | _ \<Rightarrow> Some (JObj declared)))
      | _ \<Rightarrow> None)"
| "unwrap_deliverable tx _ key = None"

fun value_at :: "text_readers \<Rightarrow> string list \<Rightarrow> json \<Rightarrow> json option" where
  "value_at tx [] v = Some v"
| "value_at tx (part # parts) v =
     (case v of
        JObj kvs \<Rightarrow>
          (case map_of kvs part of
             None \<Rightarrow> None
           | Some x \<Rightarrow>
               value_at tx parts (case unwrap_deliverable tx x part of None \<Rightarrow> x | Some y \<Rightarrow> y))
      | _ \<Rightarrow> None)"

fun score_value :: "text_readers \<Rightarrow> json option \<Rightarrow> decimal option" where
  "score_value tx (Some (JInt i)) = Some (dec_of_int i)"
| "score_value tx (Some (JDec d)) = Some d"
| "score_value tx (Some (JStr s)) = tx_decimal tx s"
| "score_value tx _ = None"

fun first_some :: "('a \<Rightarrow> 'b option) \<Rightarrow> 'a list \<Rightarrow> 'b option" where
  "first_some f [] = None"
| "first_some f (x # xs) = (case f x of None \<Rightarrow> first_some f xs | Some y \<Rightarrow> Some y)"

definition declared_review_score :: "text_readers \<Rightarrow> task_contract \<Rightarrow> json option \<Rightarrow> decimal option" where
  "declared_review_score tx c output =
     first_some
       (\<lambda>path. if falsy path then None
               else score_value tx (Option.bind output (value_at tx (split_at (CHR ''.'') (the path)))))
       (map ac_metric (filter (\<lambda>k. ac_type k = REVIEW_SCORE) (tc_acceptance_criteria c)))"

section \<open>The verdict\<close>

record 'f review_finding =
  rf_id :: string
  rf_review_type :: string
  rf_verdict :: string
  rf_findings :: "'f list"
  rf_reviewed_by :: "string option"
  rf_reviewed_at :: int
  rf_reviewer_model :: "string option"

record gate_decision =
  gd_id :: string
  gd_decision :: string
  gd_rationale :: string
  gd_decided_by :: "string option"
  gd_decided_at :: int

record task_gate_outcome =
  go_verdict :: string
  go_evaluations :: "criterion_evaluation list"
  go_finding :: "string review_finding"
  go_decision :: gate_decision

definition gate_passed :: "task_gate_outcome \<Rightarrow> bool" where
  "gate_passed g = (go_verdict g = ''PASS'')"

fun reason_text :: "verdict_reason \<Rightarrow> string" where
  "reason_text (Txt s) = s"
| "reason_text (Metric_compared m v op t) =
     m @ ''='' @ dec_str v @ '' '' @ enum_text operator_names op @ '' '' @ dec_str t"
| "reason_text (Score_compared v op t) =
     ''review score '' @ dec_str v @ '' '' @ enum_text operator_names op @ '' '' @ dec_str t"

definition apply_consumption ::
    "(nat \<times> bool \<times> verdict_reason) list \<Rightarrow> criterion_evaluation list \<Rightarrow> criterion_evaluation list" where
  "apply_consumption verdicts es =
     map (\<lambda>(i, e). case map_of verdicts i of
                     None \<Rightarrow> e
                   | Some (passed, why) \<Rightarrow> \<lparr>ce_type = ce_type e, ce_passed = passed, ce_reason = why\<rparr>)
       (enumerate 0 es)"

text \<open>The arguments \<open>now\<close> are the two readings of the clock.\<close>

definition outcome_of ::
    "research_task \<Rightarrow> criterion_evaluation list \<Rightarrow> bool \<Rightarrow> string \<Rightarrow> string option \<Rightarrow> (nat \<Rightarrow> int) \<Rightarrow> task_gate_outcome" where
  "outcome_of t es passed reviewer reviewer_model now =
     (let judged = (if passed then ''PASS'' else ''REJECT'')
      in \<lparr>go_verdict = judged, go_evaluations = es,
          go_finding =
            \<lparr>rf_id = ''finding:'' @ rt_id t @ '':gate'', rf_review_type = ''acceptance_gate'',
             rf_verdict = judged, rf_findings = map (reason_text \<circ> ce_reason) es,
             rf_reviewed_by = Some reviewer, rf_reviewed_at = now 0, rf_reviewer_model = reviewer_model\<rparr>,
          go_decision =
            \<lparr>gd_id = ''decision:'' @ rt_id t @ '':gate'',
             gd_decision = (if passed then ''APPROVE'' else ''REJECT''),
             gd_rationale = join_texts ''; '' (map (reason_text \<circ> ce_reason) es),
             gd_decided_by = Some reviewer, gd_decided_at = now 1\<rparr>\<rparr>)"

definition evaluate_task_gate ::
    "text_readers \<Rightarrow> research_task \<Rightarrow> task_contract \<Rightarrow> evaluation_inputs \<Rightarrow> string \<Rightarrow> string option \<Rightarrow> (nat \<Rightarrow> int) \<Rightarrow>
     task_gate_outcome" where
  "evaluate_task_gate tx t c inp reviewer reviewer_model now =
     (let effective =
            (case ci_review_score inp of
               Some _ \<Rightarrow> inp
             | None \<Rightarrow>
                 (case declared_review_score tx c (ci_structured_output inp) of
                    None \<Rightarrow> inp
                  | Some score \<Rightarrow> inp\<lparr>ci_review_score := Some score\<rparr>));
          es = apply_consumption (ei_consumption effective)
                 (evaluate_contract (tc_acceptance_criteria c) (to_criterion_inputs effective)
                    (ei_schema_check effective))
      in outcome_of t es (contract_passes es) reviewer reviewer_model now)"

definition verify_claim_with_evidence :: "criterion_evaluation list \<Rightarrow> nat option \<Rightarrow> bool" where
  "verify_claim_with_evidence es count =
     ((\<exists>n\<in>set_option count. 1 \<le> n) \<or> (\<exists>e\<in>set es. ce_type e = EVIDENCE_COVERAGE))"

section \<open>The novelty criterion\<close>

definition NOVELTY_CONTRACT_ID :: string where "NOVELTY_CONTRACT_ID = ''novelty_claim_proposal''"
definition NOVELTY_CRITERION :: string where "NOVELTY_CRITERION = ''NOVELTY_CLAIM_GROUNDED''"

text \<open>
  \<open>claim\<close> is what reading the novelty claim of the run came to: the text of the exception it
  raised, or whether there is one.
\<close>

definition novelty_verdict :: "string + bool \<Rightarrow> task_contract \<Rightarrow> string option" where
  "novelty_verdict claim c =
     (if tc_id c \<noteq> NOVELTY_CONTRACT_ID then None
      else case claim of
             Inl why \<Rightarrow> Some (NOVELTY_CRITERION @ '' rejected: '' @ why)
           | Inr False \<Rightarrow>
               Some (NOVELTY_CRITERION @ '' rejected: the task declared a novelty claim but no '' @
                 ''novelty_claim artifact is in this run's evidence (nothing to judge)'')
           | Inr True \<Rightarrow> None)"

definition with_novelty ::
    "string + bool \<Rightarrow> research_task \<Rightarrow> task_contract \<Rightarrow> task_gate_outcome \<Rightarrow> (nat \<Rightarrow> int) \<Rightarrow> task_gate_outcome" where
  "with_novelty claim t c g now =
     (case novelty_verdict claim c of
        None \<Rightarrow> g
      | Some rejection \<Rightarrow>
          outcome_of t
            (go_evaluations g @ [\<lparr>ce_type = CUSTOM_EVALUATOR, ce_passed = False, ce_reason = Txt rejection\<rparr>])
            False (case rf_reviewed_by (go_finding g) of None \<Rightarrow> [] | Some r \<Rightarrow> r)
            (rf_reviewer_model (go_finding g)) now)"

section \<open>What is recorded of it\<close>

definition criterion_line :: "criterion_evaluation \<Rightarrow> string" where
  "criterion_line e = enum_text criterion_type_names (ce_type e) @ '': '' @ reason_text (ce_reason e)"

definition gate_rejection_reason :: "task_gate_outcome \<Rightarrow> string" where
  "gate_rejection_reason g =
     (let failed = filter (\<lambda>e. \<not> ce_passed e) (go_evaluations g);
          detail = join_texts ''; '' (map criterion_line failed)
      in if detail = [] then ''acceptance gate rejected'' else ''acceptance gate rejected: '' @ detail)"

record scoped_finding =
  sf_finding :: "string review_finding"
  sf_run_id :: string
  sf_task_id :: string
  sf_contract_id :: string
  sf_phase_id :: "string option"

definition acceptance_finding ::
    "string \<Rightarrow> string \<Rightarrow> string \<Rightarrow> task_gate_outcome \<Rightarrow> string option \<Rightarrow> scoped_finding" where
  "acceptance_finding run_id task_id contract_id g phase_id =
     \<lparr>sf_finding =
        \<lparr>rf_id = rf_id (go_finding g), rf_review_type = rf_review_type (go_finding g),
         rf_verdict = go_verdict g, rf_findings = map criterion_line (go_evaluations g),
         rf_reviewed_by = rf_reviewed_by (go_finding g), rf_reviewed_at = rf_reviewed_at (go_finding g),
         rf_reviewer_model = rf_reviewer_model (go_finding g)\<rparr>,
      sf_run_id = run_id, sf_task_id = task_id, sf_contract_id = contract_id,
      sf_phase_id = (if falsy phase_id then None else phase_id)\<rparr>"

definition reviewer_model_of :: "string option \<Rightarrow> string option \<Rightarrow> string option" where
  "reviewer_model_of endpoint_id model_name =
     (if falsy endpoint_id \<or> falsy model_name then None
      else Some (the endpoint_id @ ''/'' @ the model_name))"

end
