(* ===== verification/Task_Gate.thy ===== *)
theory Task_Gate
  imports Task_Execution Evaluation_Gate
begin

text \<open>
  One task of a phase (\<^verbatim>\<open>_execute_one_task\<close> of \<^verbatim>\<open>phase_runner.py\<close>, \<^verbatim>\<open>task_phase_helpers.py\<close>,
  \<^verbatim>\<open>task_dispatch.py\<close>, \<^verbatim>\<open>session_carry.py\<close>, \<^verbatim>\<open>claim_promotion.py\<close>, \<^verbatim>\<open>handoff_builder.py\<close>): create it,
  run its capabilities, execute it, register what it produced, judge it at the evaluation gate,
  and on success promote its claims, charge its turn and hand its result over. The ports that
  call the evidence ledger, the artifact store, the memory gate, the retrieval and review views,
  and the two injected executors are parameters. Artifacts, evidence and claims of a
  registration are their identifiers. Telemetry is not modelled.
\<close>

section \<open>What is passed on\<close>

record capability_outcome =
  cp_evidences :: "string list"
  cp_failure_message :: "string option"
  cp_system_failure :: bool
  cp_skipped :: "string list"
  cp_outputs :: "json list"
  cp_annotations :: "string list"

record chain_carry =
  cc_retrieved :: "string list"
  cc_skipped :: "string list"
  cc_chain_outputs :: "json list"
  cc_annotations :: "string list"
  cc_cross_phase :: "string list"

record registration =
  rg_artifacts :: "string list"
  rg_evidence :: "string list"
  rg_claims :: "string list"

record handoff_bundle =
  hb_task_id :: string
  hb_producer :: string
  hb_summary :: string
  hb_digest :: string
  hb_producer_agent_id :: "string option"
  hb_producer_role_id :: "string option"
  hb_artifact_refs :: "string list"
  hb_claim_refs :: "string list"
  hb_evidence_refs :: "string list"
  hb_decision_refs :: "string list"

record task_outcome =
  to_task :: research_task
  to_outcome :: string
  to_verdict :: "string option"
  to_message :: string
  to_failure_policy :: "string option"
  to_skipped :: "string list"
  to_chain_outputs :: "json list"
  to_annotations :: "string list"

record run_outcome =
  ro_run_id :: string
  ro_state :: run_state
  ro_message :: string
  ro_tasks :: "task_outcome list"
  ro_manifest_digest :: "string option"
  ro_manifest_semantic_digest :: "string option"
  ro_pricing_version :: "string option"
  ro_pricing_digest :: "string option"
  ro_handoff_digests :: "string list"
  ro_rounds :: "orch_payload option"
  ro_chain_outputs :: "json list"
  ro_system_failure :: bool

definition run_result :: "string \<Rightarrow> run_state \<Rightarrow> string \<Rightarrow> run_outcome" where
  "run_result run_id state message =
     \<lparr>ro_run_id = run_id, ro_state = state, ro_message = message, ro_tasks = [],
      ro_manifest_digest = None, ro_manifest_semantic_digest = None, ro_pricing_version = None,
      ro_pricing_digest = None, ro_handoff_digests = [], ro_rounds = None, ro_chain_outputs = [],
      ro_system_failure = False\<rparr>"

record phase_step =
  ps_handoff :: "handoff_bundle option"
  ps_verdict :: "string option"
  ps_failure :: "run_outcome option"
  ps_retry_deferred :: bool
  ps_tolerated :: "string option"
  ps_skipped :: "string list"
  ps_chain_outputs :: "json list"
  ps_annotations :: "string list"

definition plain_step :: phase_step where
  "plain_step =
     \<lparr>ps_handoff = None, ps_verdict = None, ps_failure = None, ps_retry_deferred = False,
      ps_tolerated = None, ps_skipped = [], ps_chain_outputs = [], ps_annotations = []\<rparr>"

section \<open>The ports\<close>

type_synonym ('w, 'x) task_runner =
  "research_task \<Rightarrow> task_contract \<Rightarrow> spec_context \<Rightarrow> string \<Rightarrow> ('w, 'x task_result) act"

record ('w, 'x) phase_ports = "'w execution_deps" +
  ph_readers :: text_readers
  ph_digest :: "json \<Rightarrow> string"
  ph_retrieval :: "(string \<Rightarrow> ('w, string) act) option"
  ph_keep_retrieval :: "string \<Rightarrow> string \<Rightarrow> ('w, unit) act"
  ph_prior_knowledge :: "(string \<Rightarrow> ('w, string) act) option"
  ph_review_material :: "(research_task \<Rightarrow> (string \<times> string \<times> trust_label) list \<Rightarrow> ('w, string) act) option"
  ph_review_outcome :: "(string \<Rightarrow> ('w, string) act) option"
  ph_review_points :: "(string \<Rightarrow> ('w, string option) act) option"
  ph_capability :: "research_task \<Rightarrow> spec_context \<Rightarrow> ('w, capability_outcome) act"
  ph_report_task :: "('w, 'x) task_runner option"
  ph_experiment_task :: "('w, 'x) task_runner option"
  ph_observe :: "spec_context \<Rightarrow> session_result \<Rightarrow> ('w, unit) act"
  ph_cross_phase :: "research_task \<Rightarrow> (string \<times> string \<times> trust_label) list \<Rightarrow> ('w, string + string list) act"
  ph_register :: "research_task \<Rightarrow> task_contract \<Rightarrow> spec_context \<Rightarrow> json \<Rightarrow> chain_carry \<Rightarrow> ('w, registration) act"
  ph_product :: "'x \<Rightarrow> research_task \<Rightarrow> spec_context \<Rightarrow> ('w, registration \<times> session_result) act"
  ph_negative_result :: "'x \<Rightarrow> bool"
  ph_gate_inputs :: "research_task \<Rightarrow> task_contract \<Rightarrow> spec_context \<Rightarrow> registration \<Rightarrow> session_result \<Rightarrow> 'x option \<Rightarrow>
    ('w, evaluation_inputs) act"
  ph_novelty_claim :: "string \<Rightarrow> ('w, string + bool) act"
  ph_put_finding :: "(scoped_finding \<Rightarrow> ('w, unit) act) option"
  ph_verify_claim :: "(string \<Rightarrow> string \<Rightarrow> ('w, string) act) option"
  ph_promote_memory :: "(registration \<Rightarrow> bool \<Rightarrow> ('w, unit) act) option"

record phase_context =
  pc_run_id :: string
  pc_trace_id :: string
  pc_manifest_digest :: string
  pc_human_gated :: "string list"
  pc_approvals :: bool

section \<open>Failure\<close>

text \<open>\<^verbatim>\<open>service._fail_run\<close> with \<^verbatim>\<open>publish_failed_run\<close>: the reservation is released, then the event.\<close>

definition release_refs :: "'p readings_scheme \<Rightarrow> string \<Rightarrow> 'w run_world \<Rightarrow> 'w run_world" where
  "release_refs p run_id w =
     (let port = sqlite_port (po_budget_digest p) (po_clk p (rw_step w) 0)
      in case release_reservation (rw_refs w) (if po_budgeted p then Some port else None) run_id (rw_budget w) of
           (refs, b) \<Rightarrow> w\<lparr>rw_refs := refs, rw_budget := b, rw_step := Suc (rw_step w)\<rparr>)"

definition fail_run :: "'p readings_scheme \<Rightarrow> string \<Rightarrow> string \<Rightarrow> bool \<Rightarrow> ('w, run_outcome) act" where
  "fail_run p run_id message system_failure w =
     bind_act (emit RUN_FAILED (FailedPayload run_id message) run_id [] None) (\<lambda>_.
       return_act ((run_result run_id R_FAILED message)\<lparr>ro_system_failure := system_failure\<rparr>))
       (release_refs p run_id w)"

definition failure_step ::
    "'p readings_scheme \<Rightarrow> phase_context \<Rightarrow> research_task \<Rightarrow> task_contract \<Rightarrow> string \<Rightarrow> bool \<Rightarrow> string option \<Rightarrow>
     ('w, phase_step) act" where
  "failure_step p ctx t c message system_failure judged =
     bind_act (lift_act (failure_policy_view (Some (tc_failure_policy c)))) (\<lambda>view.
       if tolerated view
       then bind_act (emit TASK_FAILED (TaskFailedPayload (rt_id t) message (fpv_on_task_failure view))
                        (pc_run_id ctx) (pc_trace_id ctx) (Some (rt_id t)))
              (\<lambda>_. return_act (plain_step\<lparr>ps_tolerated := Some message, ps_verdict := judged\<rparr>))
       else bind_act (fail_run p (pc_run_id ctx) message system_failure)
              (\<lambda>out. return_act (plain_step\<lparr>ps_failure := Some out, ps_verdict := judged\<rparr>)))"

definition failure_or_deferred ::
    "'p readings_scheme \<Rightarrow> phase_context \<Rightarrow> research_task \<Rightarrow> task_contract \<Rightarrow> 'x task_result \<Rightarrow> ('w, phase_step) act" where
  "failure_or_deferred p ctx t c r =
     (if te_deferred r then return_act (plain_step\<lparr>ps_retry_deferred := True\<rparr>)
      else failure_step p ctx t c (''task '' @ rt_id t @ '' failed: '' @ te_message r)
             (te_category r \<noteq> None) None)"

section \<open>The context of a session\<close>

definition with_view ::
    "(string \<Rightarrow> ('w, string) act) option \<Rightarrow> research_task \<Rightarrow> (string \<Rightarrow> ('w, spec_context) act) \<Rightarrow> spec_context \<Rightarrow>
     ('w, spec_context) act" where
  "with_view build t f sc =
     (case build of None \<Rightarrow> return_act sc | Some b \<Rightarrow> bind_act (b (rt_run_id t)) f)"

definition with_retrieval_context ::
    "('w, 'x) phase_ports \<Rightarrow> research_task \<Rightarrow> spec_context \<Rightarrow> ('w, spec_context) act" where
  "with_retrieval_context p t sc =
     with_view (ph_retrieval p) t
       (\<lambda>view. bind_act (ph_keep_retrieval p (rt_id t) view) (\<lambda>_. return_act (sc\<lparr>sc_retrieval := Some view\<rparr>))) sc"

definition with_prior_knowledge ::
    "('w, 'x) phase_ports \<Rightarrow> research_task \<Rightarrow> spec_context \<Rightarrow> ('w, spec_context) act" where
  "with_prior_knowledge p t sc =
     with_view (ph_prior_knowledge p) t (\<lambda>view. return_act (sc\<lparr>sc_prior_knowledge := Some view\<rparr>)) sc"

definition with_review_material ::
    "('w, 'x) phase_ports \<Rightarrow> research_task \<Rightarrow> spec_context \<Rightarrow> ('w, spec_context) act" where
  "with_review_material p t sc =
     (case ph_review_material p of
        None \<Rightarrow> return_act sc
      | Some build \<Rightarrow>
          (if \<not> sc_reviewer sc then return_act sc
           else bind_act (build t (sc_cross_phase_inputs sc))
                  (\<lambda>view. return_act (sc\<lparr>sc_review_material := Some view\<rparr>))))"

definition with_review_outcome ::
    "('w, 'x) phase_ports \<Rightarrow> research_task \<Rightarrow> spec_context \<Rightarrow> ('w, spec_context) act" where
  "with_review_outcome p t sc =
     with_view (ph_review_outcome p) t (\<lambda>view. return_act (sc\<lparr>sc_review_outcome := Some view\<rparr>)) sc"

definition RESPONSE_CONTRACT_ID :: string where "RESPONSE_CONTRACT_ID = ''author_response''"

definition with_review_points ::
    "('w, 'x) phase_ports \<Rightarrow> research_task \<Rightarrow> spec_context \<Rightarrow> ('w, spec_context) act" where
  "with_review_points p t sc =
     (if rt_contract_id t \<noteq> Some RESPONSE_CONTRACT_ID then return_act sc
      else case ph_review_points p of
             None \<Rightarrow> return_act sc
           | Some build \<Rightarrow>
               bind_act (build (rt_run_id t)) (\<lambda>points.
                 return_act (case points of None \<Rightarrow> sc | Some ps \<Rightarrow> sc\<lparr>sc_review_points := Some ps\<rparr>)))"

definition with_contexts ::
    "('w, 'x) phase_ports \<Rightarrow> research_task \<Rightarrow> spec_context \<Rightarrow> ('w, spec_context) act" where
  "with_contexts p t sc =
     bind_act (with_retrieval_context p t sc) (\<lambda>sc1.
     bind_act (with_prior_knowledge p t sc1) (\<lambda>sc2.
     bind_act (with_review_material p t sc2) (\<lambda>sc3.
     bind_act (with_review_outcome p t sc3) (\<lambda>sc4.
       with_review_points p t sc4))))"

section \<open>Dispatch\<close>

definition unwired :: "research_task \<Rightarrow> task_contract \<Rightarrow> string \<Rightarrow> 'x task_result" where
  "unwired t c what =
     task_failed t 1 (Some FC_CONFIGURATION) (''contract '' @ tc_id c @ '' declares a '' @ what) False"

definition dispatch_report ::
    "('w, 'x) phase_ports \<Rightarrow> string \<Rightarrow> research_task \<Rightarrow> task_contract \<Rightarrow> spec_context \<Rightarrow> ('w, 'x task_result) act" where
  "dispatch_report p trace t c sc =
     (case ph_report_task p of
        None \<Rightarrow> return_act (unwired t c
          ''report assembly but no report assembler is wired into this assembly'')
      | Some runner \<Rightarrow> runner t c sc trace)"

definition dispatch_experiment ::
    "('w, 'x) phase_ports \<Rightarrow> string \<Rightarrow> research_task \<Rightarrow> task_contract \<Rightarrow> spec_context \<Rightarrow> ('w, 'x task_result) act" where
  "dispatch_experiment p trace t c sc =
     (case ph_experiment_task p of
        None \<Rightarrow> return_act (unwired t c
          ''sandboxed experiment but no experiment runner is wired into this assembly'')
      | Some runner \<Rightarrow> runner t c sc trace)"

definition dispatch_task_execution ::
    "('w, 'x) phase_ports \<Rightarrow> string \<Rightarrow> research_task \<Rightarrow> task_contract \<Rightarrow> spec_context \<Rightarrow>
     ('w, 'x task_result) loop_act" where
  "dispatch_task_execution p trace t c sc =
     (if tc_report c \<noteq> None then loop_of (dispatch_report p trace t c sc)
      else if tc_experiment c \<noteq> None then loop_of (dispatch_experiment p trace t c sc)
      else execute_task p t c sc)"

section \<open>The gate\<close>

definition build_session_carry ::
    "('w, 'x) phase_ports \<Rightarrow> research_task \<Rightarrow> spec_context \<Rightarrow> capability_outcome \<Rightarrow> ('w, string + chain_carry) act" where
  "build_session_carry p t sc cap =
     bind_act (if sc_cross_phase_inputs sc = [] then return_act (Inr [])
               else ph_cross_phase p t (sc_cross_phase_inputs sc)) (\<lambda>cross.
       return_act (case cross of
          Inl why \<Rightarrow> Inl why
        | Inr es \<Rightarrow>
            Inr \<lparr>cc_retrieved = cp_evidences cap, cc_skipped = cp_skipped cap,
                 cc_chain_outputs = cp_outputs cap, cc_annotations = cp_annotations cap,
                 cc_cross_phase = es\<rparr>))"

definition register_or_fail ::
    "('w, 'x) phase_ports \<Rightarrow> research_task \<Rightarrow> task_contract \<Rightarrow> spec_context \<Rightarrow> session_result \<Rightarrow> chain_carry \<Rightarrow>
     ('w, string + registration) act" where
  "register_or_fail p t c sc r carry =
     try_act (ph_register p t c sc (sr_output r) carry)
       (\<lambda>e. case e of
          PortInvalid m \<Rightarrow> return_act (Inl m)
        | PortNotDue m \<Rightarrow> return_act (Inl m)
        | _ \<Rightarrow> raise_act e)
       (\<lambda>reg. return_act (Inr reg))"

definition evaluate_gate ::
    "('w, 'x) phase_ports \<Rightarrow> research_task \<Rightarrow> task_contract \<Rightarrow> spec_context \<Rightarrow> registration \<Rightarrow> session_result \<Rightarrow>
     'x option \<Rightarrow> ('w, task_gate_outcome) act" where
  "evaluate_gate p t c sc reg r experiment =
     bind_act (ph_gate_inputs p t c sc reg r experiment) (\<lambda>inp.
     bind_act (clock_call p (evaluate_task_gate (ph_readers p) t c inp (''gate:'' @ sc_agent_id sc)
                               (reviewer_model_of (sc_endpoint_id sc) (sc_model_name sc)))) (\<lambda>gate.
     bind_act (if tc_id c = NOVELTY_CONTRACT_ID then ph_novelty_claim p (rt_run_id t)
               else return_act (Inr True)) (\<lambda>claim.
       clock_call p (with_novelty claim t c gate))))"

definition record_acceptance_evaluation ::
    "('w, 'x) phase_ports \<Rightarrow> phase_context \<Rightarrow> research_task \<Rightarrow> task_contract \<Rightarrow> spec_context \<Rightarrow> task_gate_outcome \<Rightarrow>
     ('w, unit) act" where
  "record_acceptance_evaluation p ctx t c sc gate =
     (case ph_put_finding p of
        None \<Rightarrow> return_act ()
      | Some put \<Rightarrow> put (acceptance_finding (pc_run_id ctx) (rt_id t) (tc_id c) gate (Some (sc_phase_id sc))))"

section \<open>Success\<close>

fun promote_claims ::
    "(string \<Rightarrow> string \<Rightarrow> ('w, string) act) \<Rightarrow> phase_context \<Rightarrow> string \<Rightarrow> string \<Rightarrow> string list \<Rightarrow> string list \<Rightarrow>
     ('w, unit) act" where
  "promote_claims verify ctx reviewer task_id seen [] = return_act ()"
| "promote_claims verify ctx reviewer task_id seen (claim # claims) =
     (if claim \<in> set seen then promote_claims verify ctx reviewer task_id seen claims
      else bind_act (verify claim reviewer) (\<lambda>verified.
           bind_act (emit CLAIM_VERIFIED (ClaimPayload verified reviewer task_id)
                       (pc_run_id ctx) (pc_trace_id ctx) (Some task_id))
             (\<lambda>_. promote_claims verify ctx reviewer task_id (claim # seen) claims)))"

definition promote_registered_claims ::
    "('w, 'x) phase_ports \<Rightarrow> phase_context \<Rightarrow> research_task \<Rightarrow> spec_context \<Rightarrow> registration \<Rightarrow> task_gate_outcome \<Rightarrow>
     ('w, unit) act" where
  "promote_registered_claims p ctx t sc reg gate =
     (case ph_verify_claim p of
        None \<Rightarrow> return_act ()
      | Some verify \<Rightarrow>
          (if verify_claim_with_evidence (go_evaluations gate) (Some (length (rg_evidence reg)))
           then promote_claims verify ctx (''gate:'' @ sc_agent_id sc) (rt_id t) [] (rg_claims reg)
           else return_act ()))"

definition build_handoff ::
    "(json \<Rightarrow> string) \<Rightarrow> research_task \<Rightarrow> string \<Rightarrow> string \<Rightarrow> registration \<Rightarrow> string list \<Rightarrow> handoff_bundle" where
  "build_handoff digest t producer summary reg decisions =
     \<lparr>hb_task_id = rt_id t, hb_producer = producer, hb_summary = summary,
      hb_digest = digest (JObj
        [(''task_id'', JStr (rt_id t)), (''producer'', JStr producer), (''summary'', JStr summary),
         (''artifact_refs'', JArr (map JStr (rg_artifacts reg))),
         (''evidence_refs'', JArr (map JStr (rg_evidence reg))),
         (''claim_refs'', JArr (map JStr (rg_claims reg))),
         (''decision_refs'', JArr (map JStr decisions))]),
      hb_producer_agent_id = rt_assigned_agent_id t, hb_producer_role_id = rt_contract_id t,
      hb_artifact_refs = rg_artifacts reg, hb_claim_refs = rg_claims reg,
      hb_evidence_refs = rg_evidence reg, hb_decision_refs = decisions\<rparr>"

definition finish_task_step ::
    "('w, 'x) phase_ports \<Rightarrow> phase_context \<Rightarrow> research_task \<Rightarrow> spec_context \<Rightarrow> registration \<Rightarrow> task_gate_outcome \<Rightarrow> string \<Rightarrow>
     bool \<Rightarrow> ('w, phase_step) act" where
  "finish_task_step p ctx t sc reg gate producer negative =
     bind_act (promote_registered_claims p ctx t sc reg gate) (\<lambda>_.
     bind_act (case ph_promote_memory p of None \<Rightarrow> return_act () | Some promote \<Rightarrow> promote reg negative) (\<lambda>_.
     bind_act (budget_call p (\<lambda>clk. record_task_usage
         (if po_budgeted p then Some (\<lambda>e. bl_record_usage e (clk 1)) else None) t (clk 0))) (\<lambda>_.
       return_act (plain_step
         \<lparr>ps_handoff := Some (build_handoff (ph_digest p) t producer
              (''phase output for '' @ (case rt_contract_id t of None \<Rightarrow> ''None'' | Some k \<Rightarrow> k))
              reg [gd_id (go_decision gate)]),
          ps_verdict := Some (go_verdict gate)\<rparr>))))"

definition rejected_step ::
    "'p readings_scheme \<Rightarrow> phase_context \<Rightarrow> research_task \<Rightarrow> task_contract \<Rightarrow> task_gate_outcome \<Rightarrow> string option \<Rightarrow>
     ('w, phase_step) act" where
  "rejected_step p ctx t c gate judged =
     failure_step p ctx t c
       (''task '' @ rt_id t @ '' rejected by acceptance gate ('' @ gate_rejection_reason gate @ '')'') False judged"

definition register_and_gate ::
    "('w, 'x) phase_ports \<Rightarrow> phase_context \<Rightarrow> research_task \<Rightarrow> task_contract \<Rightarrow> spec_context \<Rightarrow> session_result \<Rightarrow>
     chain_carry \<Rightarrow> ('w, phase_step) act" where
  "register_and_gate p ctx t c sc r carry =
     bind_act (register_or_fail p t c sc r carry) (\<lambda>registered.
     case registered of
       Inl why \<Rightarrow> failure_step p ctx t c
                   (''task '' @ rt_id t @ '' produced malformed result: '' @ why) True None
     | Inr reg \<Rightarrow>
         bind_act (evaluate_gate p t c sc reg r None) (\<lambda>gate.
         bind_act (record_acceptance_evaluation p ctx t c sc gate) (\<lambda>_.
         if \<not> gate_passed gate then rejected_step p ctx t c gate (Some (go_verdict gate))
         else bind_act (finish_task_step p ctx t sc reg gate (''agent:'' @ sc_agent_id sc) False) (\<lambda>step.
                return_act (step\<lparr>ps_skipped := cc_skipped carry,
                  ps_chain_outputs := cc_chain_outputs carry, ps_annotations := cc_annotations carry\<rparr>)))))"

definition register_and_gate_product ::
    "('w, 'x) phase_ports \<Rightarrow> phase_context \<Rightarrow> research_task \<Rightarrow> task_contract \<Rightarrow> spec_context \<Rightarrow> 'x \<Rightarrow> bool \<Rightarrow>
     ('w, phase_step) act" where
  "register_and_gate_product p ctx t c sc product experiment =
     bind_act (ph_product p product t sc) (\<lambda>(reg, r).
     bind_act (evaluate_gate p t c sc reg r (if experiment then Some product else None)) (\<lambda>gate.
     bind_act (record_acceptance_evaluation p ctx t c sc gate) (\<lambda>_.
     if \<not> gate_passed gate
     then rejected_step p ctx t c gate (if experiment then Some (go_verdict gate) else None)
     else finish_task_step p ctx t sc reg gate
            ((if experiment then ''experiment:'' else ''report:'') @ sc_agent_id sc)
            (experiment \<and> ph_negative_result p product))))"

section \<open>The task\<close>

definition execute_one_task ::
    "('w, 'x) phase_ports \<Rightarrow> phase_context \<Rightarrow> research_task \<Rightarrow> task_contract \<Rightarrow> spec_context \<Rightarrow>
     ('w, phase_step) loop_act" where
  "execute_one_task p ctx t c sc =
     bind_loop (loop_of (emit TASK_CREATED (TaskPayload (rt_id t)) (rt_run_id t) (pc_trace_id ctx) (Some (rt_id t)))) (\<lambda>_.
     bind_loop (loop_of (ph_capability p t sc)) (\<lambda>cap.
     case cp_failure_message cap of
       Some message \<Rightarrow> loop_of (failure_step p ctx t c message (cp_system_failure cap) None)
     | None \<Rightarrow>
         bind_loop (dispatch_task_execution p (pc_trace_id ctx) t c sc) (\<lambda>r.
         bind_loop (loop_of (case te_session r of None \<Rightarrow> return_act () | Some s \<Rightarrow> ph_observe p sc s)) (\<lambda>_.
         if \<not> te_succeeded r then loop_of (failure_or_deferred p ctx t c r)
         else loop_of (case (te_experiment r, te_report r, te_session r) of
             (Some product, _, _) \<Rightarrow> register_and_gate_product p ctx t c sc product True
           | (None, Some product, _) \<Rightarrow> register_and_gate_product p ctx t c sc product False
           | (None, None, Some s) \<Rightarrow>
               bind_act (build_session_carry p t sc cap) (\<lambda>carry.
                 case carry of
                   Inl why \<Rightarrow> failure_step p ctx t c why True None
                 | Inr k \<Rightarrow> register_and_gate p ctx t c sc s k)
           | (None, None, None) \<Rightarrow> raise_act (PyError AssertionError))))))"

end
