(* ===== verification/Phase_Runner.thy ===== *)
theory Phase_Runner
  imports Task_Gate "HOL-Library.AList"
begin

text \<open>
  One pass over the phases of a run (\<^verbatim>\<open>phase_runner.py\<close> with \<^verbatim>\<open>phase_pause.py\<close>, \<^verbatim>\<open>phase_progress.py\<close>,
  \<^verbatim>\<open>review_panel_judging.py\<close>, \<^verbatim>\<open>run_completion_payload.py\<close>, \<^verbatim>\<open>run_terminals.py\<close> and
  \<^verbatim>\<open>human_gates.py\<close>): the specs, in the order of the phase graph, are cut into groups of one phase;
  before a group the run may stop for a human gate or a requested pause; its tasks run one after
  the other; the pass ends \<open>R_SUCCEEDED\<close>, \<open>R_DEGRADED\<close>, \<open>R_FAILED\<close>, \<open>R_PAUSED\<close> or
  \<open>R_WAITING_FOR_APPROVAL\<close>.
\<close>

section \<open>Groups\<close>

definition phase_of :: "task_spec \<Rightarrow> string" where
  "phase_of s = sc_phase_id (snd (snd s))"

definition task_id_of :: "task_spec \<Rightarrow> string" where
  "task_id_of s = rt_id (fst s)"

function phase_groups :: "task_spec list \<Rightarrow> task_spec list list" where
  "phase_groups [] = []"
| "phase_groups (s # ss) =
     (s # takeWhile (\<lambda>x. phase_of x = phase_of s) ss) #
       phase_groups (dropWhile (\<lambda>x. phase_of x = phase_of s) ss)"
  by pat_completeness auto

termination
  by (relation "measure length") (auto simp: le_imp_less_Suc length_dropWhile_le)

record group_run =
  gr_outcomes :: "task_outcome list"
  gr_handoffs :: "(string \<times> handoff_bundle option) list"

definition handoff_digests :: "(string \<times> handoff_bundle option) list \<Rightarrow> string list" where
  "handoff_digests handoffs = sort (List.map_filter (\<lambda>(_, b). map_option hb_digest b) handoffs)"

section \<open>Outcomes of a task\<close>

definition tolerated_outcome :: "research_task \<Rightarrow> string \<Rightarrow> task_outcome" where
  "tolerated_outcome t message =
     \<lparr>to_task = t, to_outcome = ''FAILED'', to_verdict = Some CONTINUE_RUN, to_message = message,
      to_failure_policy = Some CONTINUE_RUN, to_skipped = [], to_chain_outputs = [], to_annotations = []\<rparr>"

definition record_tolerated :: "group_run \<Rightarrow> research_task \<Rightarrow> string \<Rightarrow> group_run" where
  "record_tolerated run t message = run\<lparr>gr_outcomes := gr_outcomes run @ [tolerated_outcome t message]\<rparr>"

definition record_rejection :: "group_run \<Rightarrow> research_task \<Rightarrow> phase_step \<Rightarrow> group_run" where
  "record_rejection run t step =
     run\<lparr>gr_outcomes := gr_outcomes run @
       [\<lparr>to_task = t, to_outcome = ''FAILED'', to_verdict = ps_verdict step,
         to_message = (case ps_failure step of None \<Rightarrow> [] | Some f \<Rightarrow> ro_message f),
         to_failure_policy = Some COMPLETE_THEN_JUDGE, to_skipped = [], to_chain_outputs = [],
         to_annotations = []\<rparr>]\<rparr>"

definition record_success :: "group_run \<Rightarrow> research_task \<Rightarrow> phase_step \<Rightarrow> group_run" where
  "record_success run t step =
     \<lparr>gr_outcomes = gr_outcomes run @
        [\<lparr>to_task = t, to_outcome = ''SUCCEEDED'', to_verdict = ps_verdict step, to_message = [],
          to_failure_policy = None, to_skipped = ps_skipped step,
          to_chain_outputs = ps_chain_outputs step, to_annotations = ps_annotations step\<rparr>],
      gr_handoffs = AList.update (rt_id t) (ps_handoff step) (gr_handoffs run)\<rparr>"

section \<open>Stopping between tasks\<close>

definition pause_requested :: "'p readings_scheme \<Rightarrow> string \<Rightarrow> ('w, bool) act" where
  "pause_requested p run_id =
     bind_act (engine_call p (engine_run_state run_id)) (\<lambda>s. return_act (s = Some R_PAUSED))"

definition on_pause :: "task_spec list \<Rightarrow> ('w, unit) act" where
  "on_pause specs w = (Inr (), w\<lparr>rw_handed := rw_handed w @ [specs]\<rparr>)"

definition stopped ::
    "phase_context \<Rightarrow> run_state \<Rightarrow> string \<Rightarrow> task_outcome list \<Rightarrow> run_outcome" where
  "stopped ctx state message outcomes =
     (run_result (pc_run_id ctx) state message)
       \<lparr>ro_tasks := outcomes, ro_manifest_digest := Some (pc_manifest_digest ctx)\<rparr>"

definition pause_if_requested ::
    "'p readings_scheme \<Rightarrow> phase_context \<Rightarrow> task_spec list list \<Rightarrow> task_outcome list \<Rightarrow> ('w, run_outcome option) act" where
  "pause_if_requested p ctx remaining outcomes =
     bind_act (pause_requested p (pc_run_id ctx)) (\<lambda>requested.
       if \<not> requested then return_act None
       else bind_act (on_pause (concat remaining)) (\<lambda>_.
              return_act (Some (stopped ctx R_PAUSED
                ''paused at phase boundary (cooperative pause)'' outcomes))))"

definition approval_call ::
    "'p readings_scheme \<Rightarrow> ((nat \<Rightarrow> int) \<Rightarrow> (nat \<Rightarrow> string) \<Rightarrow> approval_store \<Rightarrow> 'a res \<times> approval_store) \<Rightarrow>
     ('w, 'a) act" where
  "approval_call p f w =
     (case f (po_clk p (rw_step w)) (po_uid p (rw_step w)) (rw_approvals w) of
        (r, st) \<Rightarrow> lift_act r (w\<lparr>rw_approvals := st, rw_step := Suc (rw_step w)\<rparr>))"

definition human_gate_spec :: "string \<Rightarrow> string \<Rightarrow> approval_spec" where
  "human_gate_spec run_id phase_id =
     \<lparr>sp_run_id = run_id, sp_action = ''human-gate:'' @ phase_id, sp_risk = ''HUMAN_GATE'',
      sp_context = phase_id, sp_policy_source = ''protocol-gate'', sp_requested_event_id = []\<rparr>"

definition pause_for_human_gate ::
    "'p readings_scheme \<Rightarrow> phase_context \<Rightarrow> string \<Rightarrow> task_spec list list \<Rightarrow> task_outcome list \<Rightarrow>
     ('w, run_outcome option) act" where
  "pause_for_human_gate p ctx phase_id remaining outcomes =
     (if phase_id = [] \<or> phase_id \<notin> set (pc_human_gated ctx) \<or> \<not> pc_approvals ctx then return_act None
      else bind_act (approval_call p (\<lambda>clk uid. ap_register (human_gate_spec (pc_run_id ctx) phase_id) (uid 0) (clk 0)))
             (\<lambda>approval.
           bind_act (emit APPROVAL_REQUESTED (ApprovalPayload (pc_run_id ctx) phase_id (ar_id approval))
                       (pc_run_id ctx) (pc_trace_id ctx) None) (\<lambda>_.
           bind_act (on_pause (concat remaining)) (\<lambda>_.
             return_act (Some (stopped ctx R_WAITING_FOR_APPROVAL
               (''awaiting human approval for phase '' @ phase_id @ '' (approval '' @ ar_id approval @ '')'')
               outcomes))))))"

definition park_for_retry ::
    "phase_context \<Rightarrow> task_spec list \<Rightarrow> task_spec list list \<Rightarrow> task_outcome list \<Rightarrow> ('w, run_outcome) act" where
  "park_for_retry ctx rest tail outcomes =
     bind_act (on_pause (rest @ concat tail)) (\<lambda>_.
       return_act (stopped ctx R_PAUSED
         (''task '' @ task_id_of (hd rest) @ '' retry scheduled; run parked until the retry is due'') outcomes))"

section \<open>The review panel\<close>

fun all_declare_panel :: "task_contract list \<Rightarrow> bool res" where
  "all_declare_panel [] = Inr True"
| "all_declare_panel (c # cs) =
     bind_res (failure_policy_view (Some (tc_failure_policy c))) (\<lambda>view.
       if panel_completes_before_judging view then all_declare_panel cs else Inr False)"

definition panel_plan :: "task_spec list \<Rightarrow> bool res" where
  "panel_plan grp = (if grp = [] then Inr False else all_declare_panel (map (fst \<circ> snd) grp))"

definition reviewer_target :: "spec_context \<Rightarrow> string" where
  "reviewer_target sc =
     (case reviewer_model_of (sc_endpoint_id sc) (sc_model_name sc) of None \<Rightarrow> ''unknown'' | Some target \<Rightarrow> target)"

definition outcome_of_task :: "task_outcome list \<Rightarrow> string \<Rightarrow> task_outcome option" where
  "outcome_of_task outcomes tid = map_of (rev (map (\<lambda>x. (rt_id (to_task x), x)) outcomes)) tid"

definition panel_verdicts :: "task_spec list \<Rightarrow> task_outcome list \<Rightarrow> (string \<times> string) list" where
  "panel_verdicts grp outcomes =
     List.map_filter
       (\<lambda>s. case outcome_of_task outcomes (task_id_of s) of
              None \<Rightarrow> None
            | Some x \<Rightarrow>
                (if to_outcome x = ''FAILED'' \<and> to_failure_policy x \<noteq> Some COMPLETE_THEN_JUDGE then None
                 else Some (reviewer_target (snd (snd s)),
                   if falsy (to_verdict x) then ''UNKNOWN'' else the (to_verdict x))))
       grp"

definition verdict_list :: "(string \<times> string) list \<Rightarrow> string" where
  "verdict_list vs = join_texts '', '' (map (\<lambda>(target, v). target @ ''='' @ v) vs)"

definition panel_message :: "(string \<times> string) list \<Rightarrow> (string \<times> string) list \<Rightarrow> string" where
  "panel_message rejected vs =
     ''review panel rejected the artifact after every reviewer finished: '' @
     str_int (int (length rejected)) @ '' of '' @ str_int (int (length vs)) @
     '' reviewer(s) rejected ('' @ verdict_list rejected @ ''); panel verdicts: '' @ verdict_list vs"

definition panel_rejection ::
    "'p readings_scheme \<Rightarrow> task_spec list \<Rightarrow> task_outcome list \<Rightarrow> string \<Rightarrow> ('w, run_outcome option) act" where
  "panel_rejection p grp outcomes run_id =
     (let vs = panel_verdicts grp outcomes;
          rejected = filter (\<lambda>v. snd v \<noteq> ''PASS'') vs
      in if rejected = [] then return_act None
         else bind_act (fail_run p run_id (panel_message rejected vs) False) (\<lambda>f. return_act (Some f)))"

section \<open>Progress events\<close>

definition emit_phase_started :: "phase_context \<Rightarrow> task_spec list \<Rightarrow> ('w, unit) act" where
  "emit_phase_started ctx grp =
     (let phase_id = phase_of (hd grp)
      in if phase_id = [] then return_act ()
         else emit PHASE_STARTED
                (PhaseStartedPayload phase_id (sc_phase_strategy (snd (snd (hd grp)))) (map (tc_id \<circ> fst \<circ> snd) grp))
                (pc_run_id ctx) (pc_trace_id ctx) None)"

definition group_artifact_ids :: "(string \<times> handoff_bundle option) list \<Rightarrow> task_spec list \<Rightarrow> string list" where
  "group_artifact_ids handoffs grp =
     sort (remdups (concat (map (\<lambda>s. case map_of handoffs (task_id_of s) of
                                       Some (Some b) \<Rightarrow> hb_artifact_refs b
                                     | _ \<Rightarrow> []) grp)))"

definition phase_outcome :: "task_outcome list \<Rightarrow> task_spec list \<Rightarrow> string" where
  "phase_outcome outcomes grp =
     (if \<exists>x\<in>set outcomes. rt_id (to_task x) \<in> set (map task_id_of grp) \<and> to_failure_policy x \<noteq> None
      then ''DEGRADED'' else ''SUCCEEDED'')"

definition emit_phase_completed :: "phase_context \<Rightarrow> task_spec list \<Rightarrow> group_run \<Rightarrow> ('w, unit) act" where
  "emit_phase_completed ctx grp run =
     (let phase_id = phase_of (hd grp)
      in if phase_id = [] then return_act ()
         else emit PHASE_COMPLETED
                (PhaseCompletedPayload phase_id (phase_outcome (gr_outcomes run) grp)
                   (group_artifact_ids (gr_handoffs run) grp))
                (pc_run_id ctx) (pc_trace_id ctx) None)"

section \<open>The pass\<close>

definition loop_return :: "'a \<Rightarrow> ('w, 'a) loop_act" where
  "loop_return a = loop_of (return_act a)"

fun run_group_tasks ::
    "('w, 'x) phase_ports \<Rightarrow> phase_context \<Rightarrow> task_spec list \<Rightarrow> task_spec list list \<Rightarrow> group_run \<Rightarrow> task_spec list \<Rightarrow>
     ('w, run_outcome option \<times> group_run) loop_act" where
  "run_group_tasks p ctx grp tail run [] = loop_return (None, run)"
| "run_group_tasks p ctx grp tail run ((t, c, sc) # rest) =
     bind_loop (loop_of (with_contexts p t sc)) (\<lambda>sc'.
     bind_loop (execute_one_task p ctx t c sc') (\<lambda>step.
     if ps_retry_deferred step
     then bind_loop (loop_of (park_for_retry ctx ((t, c, sc) # rest) tail (gr_outcomes run)))
            (\<lambda>out. loop_return (Some out, run))
     else case ps_tolerated step of
       Some message \<Rightarrow> run_group_tasks p ctx grp tail (record_tolerated run t message) rest
     | None \<Rightarrow>
         (case ps_failure step of
            Some failure \<Rightarrow>
              bind_loop (loop_of (lift_act (panel_plan grp))) (\<lambda>panel.
                if panel then run_group_tasks p ctx grp tail (record_rejection run t step) rest
                else loop_return (Some failure, run))
          | None \<Rightarrow> run_group_tasks p ctx grp tail (record_success run t step) rest)))"

definition execute_phase_group ::
    "('w, 'x) phase_ports \<Rightarrow> phase_context \<Rightarrow> task_spec list \<Rightarrow> task_spec list list \<Rightarrow> group_run \<Rightarrow>
     ('w, run_outcome option \<times> group_run) loop_act" where
  "execute_phase_group p ctx grp tail run =
     bind_loop (run_group_tasks p ctx grp tail run grp) (\<lambda>(out, run').
       case out of
         Some _ \<Rightarrow> loop_return (out, run')
       | None \<Rightarrow>
           bind_loop (loop_of (panel_rejection p grp (gr_outcomes run') (pc_run_id ctx))) (\<lambda>rejection.
             case rejection of
               Some _ \<Rightarrow> loop_return (rejection, run')
             | None \<Rightarrow> bind_loop (loop_of (emit_phase_completed ctx grp run'))
                         (\<lambda>_. loop_return (None, run'))))"

fun execute_groups ::
    "('w, 'x) phase_ports \<Rightarrow> phase_context \<Rightarrow> group_run \<Rightarrow> task_spec list list \<Rightarrow>
     ('w, run_outcome option \<times> group_run) loop_act" where
  "execute_groups p ctx run [] = loop_return (None, run)"
| "execute_groups p ctx run (grp # tail) =
     bind_loop (loop_of (pause_for_human_gate p ctx (phase_of (hd grp)) (grp # tail) (gr_outcomes run))) (\<lambda>waiting.
     if waiting \<noteq> None then loop_return (waiting, run)
     else bind_loop (loop_of (pause_if_requested p ctx (grp # tail) (gr_outcomes run))) (\<lambda>held.
     if held \<noteq> None then loop_return (held, run)
     else bind_loop (loop_of (emit_phase_started ctx grp)) (\<lambda>_.
          bind_loop (execute_phase_group p ctx grp tail run) (\<lambda>(out, run').
          if out \<noteq> None then loop_return (out, run') else execute_groups p ctx run' tail))))"

definition reasons_of :: "(task_outcome \<Rightarrow> string list) \<Rightarrow> task_outcome list \<Rightarrow> (string \<times> string list) list" where
  "reasons_of f outcomes = map (\<lambda>x. (rt_id (to_task x), f x)) (filter (\<lambda>x. f x \<noteq> []) outcomes)"

definition run_completion_payload :: "string \<Rightarrow> task_outcome list \<Rightarrow> orch_payload" where
  "run_completion_payload run_id outcomes =
     RunCompletedPayload run_id (reasons_of to_skipped outcomes) (reasons_of to_annotations outcomes)"

definition degrade_message :: "nat \<Rightarrow> string" where
  "degrade_message n =
     ''run completed with '' @ str_int (int n) @ '' tolerated failure(s) under failure_policy on_task_failure='' @
     CONTINUE_RUN"

definition degrade_run :: "phase_context \<Rightarrow> task_outcome list \<Rightarrow> ('w, run_outcome) act" where
  "degrade_run ctx tolerating =
     (let message = degrade_message (length tolerating)
      in bind_act (emit RUN_DEGRADED
             (DegradedPayload (pc_run_id ctx) message
                (map (\<lambda>x. (rt_id (to_task x), to_message x, to_failure_policy x)) tolerating))
             (pc_run_id ctx) (pc_trace_id ctx) None)
           (\<lambda>_. return_act (stopped ctx R_DEGRADED message tolerating)))"

definition succeed_run :: "phase_context \<Rightarrow> group_run \<Rightarrow> ('w, run_outcome) act" where
  "succeed_run ctx run =
     bind_act (emit RUN_COMPLETED (run_completion_payload (pc_run_id ctx) (gr_outcomes run))
                 (pc_run_id ctx) (pc_trace_id ctx) None)
       (\<lambda>_. return_act ((stopped ctx R_SUCCEEDED ''run completed'' (gr_outcomes run))
          \<lparr>ro_handoff_digests := handoff_digests (gr_handoffs run),
           ro_chain_outputs := concat (map to_chain_outputs (gr_outcomes run))\<rparr>))"

definition execute_one_pass ::
    "('w, 'x) phase_ports \<Rightarrow> phase_context \<Rightarrow> task_spec list \<Rightarrow> ('w, run_outcome) loop_act" where
  "execute_one_pass p ctx specs =
     bind_loop (execute_groups p ctx \<lparr>gr_outcomes = [], gr_handoffs = []\<rparr> (phase_groups specs)) (\<lambda>(out, run).
       case out of
         Some r \<Rightarrow> loop_return r
       | None \<Rightarrow>
           (let tolerating = filter (\<lambda>x. to_failure_policy x \<noteq> None) (gr_outcomes run)
            in if tolerating \<noteq> [] then loop_of (degrade_run ctx tolerating)
               else loop_of (succeed_run ctx run)))"

section \<open>Human gates of a plan\<close>

definition pending_human_gates ::
    "'p readings_scheme \<Rightarrow> bool \<Rightarrow> string list \<Rightarrow> string \<Rightarrow> ('w, string list) act" where
  "pending_human_gates p approvals declared run_id =
     (if \<not> approvals then return_act []
      else bind_act (approval_call p (\<lambda>clk uid. ap_list_for_run run_id)) (\<lambda>records.
             return_act (filter (\<lambda>g. g \<notin> set (map ar_context (filter (\<lambda>a. ar_status a \<noteq> PENDING) records)))
                (remdups declared))))"

end
