(* ===== verification/Round_Loop.thy ===== *)
theory Round_Loop
  imports Phase_Runner
begin

text \<open>
  Research in rounds (\<^verbatim>\<open>round_loop.py\<close>, \<^verbatim>\<open>round_loop_facts.py\<close>, \<^verbatim>\<open>round_loop_runner.py\<close>): a declared
  loop repeats the pass over the phases until a round brings no new identifier (the conclusion)
  or \<^verbatim>\<open>max_rounds\<close> is reached (the guard). The \<^verbatim>\<open>while True\<close> of \<^verbatim>\<open>execute_rounds\<close> carries fuel, one
  unit per round. The text of a JSON number or container in an identifier list is a parameter.
\<close>

section \<open>The declaration\<close>

definition CONVERGED_NO_NEW_IDS :: string where "CONVERGED_NO_NEW_IDS = ''converged_no_new_ids''"

definition STOP_CRITERIA :: "string list" where "STOP_CRITERIA = [CONVERGED_NO_NEW_IDS]"

definition STOP_BY_CONCLUSION :: string where "STOP_BY_CONCLUSION = ''CONCLUSION''"

definition STOP_BY_GUARD :: string where "STOP_BY_GUARD = ''MAX_ROUNDS''"

record round_loop =
  rl_phases :: "string list"
  rl_max_rounds :: int
  rl_stop_when :: string
  rl_ids_path :: string
  rl_calls_by_round :: "string list list"

definition round_loop_post_init :: "round_loop \<Rightarrow> round_loop res" where
  "round_loop_post_init l = first_error
     [(rl_phases l = [], ''round loop requires at least one phase''),
      (length (remdups (rl_phases l)) \<noteq> length (rl_phases l), ''round loop phases must be unique''),
      (rl_max_rounds l < 2, ''round loop max_rounds must be >= 2 (a loop of one round is not a loop)''),
      (rl_stop_when l \<notin> set STOP_CRITERIA, ''unknown stop criterion '' @ quote (rl_stop_when l))] l"

definition calls_for :: "round_loop \<Rightarrow> nat \<Rightarrow> string list option" where
  "calls_for l k =
     (if rl_calls_by_round l = [] then None
      else if k \<le> length (rl_calls_by_round l)
           then Some (rl_calls_by_round l ! (if k = 0 then length (rl_calls_by_round l) - 1 else k - 1))
      else Some (List.last (rl_calls_by_round l)))"

definition round_key :: "string \<Rightarrow> nat \<Rightarrow> string res" where
  "round_key base k =
     (if k < 1 then Inl (ValueError ''round index starts at 1'')
      else Inr (if k = 1 then base else base @ ''@'' @ str_int (int k)))"

definition owns_every_phase :: "round_loop \<Rightarrow> string list \<Rightarrow> bool" where
  "owns_every_phase l phase_ids = (set (rl_phases l) = set phase_ids)"

fun find_loop :: "round_loop list \<Rightarrow> string \<Rightarrow> round_loop option" where
  "find_loop [] phase_id = None"
| "find_loop (l # ls) phase_id = (if phase_id \<in> set (rl_phases l) then Some l else find_loop ls phase_id)"

fun claim_phases :: "nat \<Rightarrow> string list \<Rightarrow> (string \<rightharpoonup> nat) \<Rightarrow> (string \<rightharpoonup> nat) res" where
  "claim_phases i [] seen = Inr seen"
| "claim_phases i (p # ps) seen =
     (case seen p of
        Some j \<Rightarrow> Inl (ValueError (''phase '' @ quote p @ '' appears in two round loops (#'' @
          str_int (int j) @ '' and #'' @ str_int (int i) @ ''); the owning loop would be ambiguous''))
      | None \<Rightarrow> claim_phases i ps (seen(p \<mapsto> i)))"

fun check_loops :: "string list \<Rightarrow> nat \<Rightarrow> (string \<rightharpoonup> nat) \<Rightarrow> round_loop list \<Rightarrow> unit res" where
  "check_loops phase_ids i seen [] = Inr ()"
| "check_loops phase_ids i seen (l # ls) =
     (if \<not> set (rl_phases l) \<subseteq> set phase_ids
      then Inl (ValueError ''round loop references unknown phases'')
      else bind_res (claim_phases i (rl_phases l) seen) (\<lambda>seen'.
           if owns_every_phase l phase_ids then check_loops phase_ids (Suc i) seen' ls
           else Inl (ValueError ''a round loop must cover every phase in this version'')))"

definition validate_loops :: "round_loop list \<Rightarrow> string list \<Rightarrow> unit res" where
  "validate_loops loops phase_ids = check_loops phase_ids 0 Map.empty loops"

section \<open>The stop decision\<close>

record round_fact =
  rf_round :: nat
  rf_ids :: "string list"
  rf_seen_before :: "string list"

definition new_ids :: "round_fact \<Rightarrow> string list" where
  "new_ids f = filter (\<lambda>i. i \<notin> set (rf_seen_before f)) (rf_ids f)"

record stop_decision =
  sd_stop :: bool
  sd_kind :: string
  sd_criterion :: string

definition evaluate_stop :: "string \<Rightarrow> round_fact \<Rightarrow> nat \<Rightarrow> int \<Rightarrow> stop_decision" where
  "evaluate_stop criterion f k max_rounds =
     (if criterion = CONVERGED_NO_NEW_IDS \<and> new_ids f = []
      then \<lparr>sd_stop = True, sd_kind = STOP_BY_CONCLUSION, sd_criterion = criterion\<rparr>
      else if max_rounds \<le> int k
      then \<lparr>sd_stop = True, sd_kind = STOP_BY_GUARD, sd_criterion = ''max_rounds''\<rparr>
      else \<lparr>sd_stop = False, sd_kind = [], sd_criterion = []\<rparr>)"

fun item_text :: "(json \<Rightarrow> string) \<Rightarrow> json \<Rightarrow> string" where
  "item_text others (JStr s) = s"
| "item_text others (JInt i) = str_int i"
| "item_text others JNull = ''None''"
| "item_text others (JBool b) = (if b then ''True'' else ''False'')"
| "item_text others v = others v"

fun walk_path :: "string list \<Rightarrow> json \<Rightarrow> json option" where
  "walk_path [] v = Some v"
| "walk_path (part # parts) (JObj kvs) =
     (case map_of kvs part of None \<Rightarrow> None | Some v \<Rightarrow> walk_path parts v)"
| "walk_path (part # parts) v = None"

definition ids_at_path :: "(json \<Rightarrow> string) \<Rightarrow> json \<Rightarrow> string \<Rightarrow> string list" where
  "ids_at_path others v where_at =
     (case walk_path (split_at (CHR ''.'') where_at) v of
        Some (JArr items) \<Rightarrow> filter (\<lambda>t. t \<noteq> []) (map (item_text others) items)
      | _ \<Rightarrow> [])"

definition ids_from_step_outputs :: "(json \<Rightarrow> string) \<Rightarrow> json list \<Rightarrow> string \<Rightarrow> string list" where
  "ids_from_step_outputs others outputs where_at =
     keep_first [] (concat (map (\<lambda>v. ids_at_path others v where_at) outputs))"

section \<open>The driver\<close>

record loop_state =
  ls_loop :: round_loop
  ls_facts :: "round_fact list"
  ls_rounds_run :: nat
  ls_stopped_by :: string
  ls_criterion :: string

definition seen_ids :: "loop_state \<Rightarrow> string list" where
  "seen_ids s = keep_first [] (concat (map rf_ids (ls_facts s)))"

definition record_round :: "(json \<Rightarrow> string) \<Rightarrow> nat \<Rightarrow> json list \<Rightarrow> loop_state \<Rightarrow> loop_state" where
  "record_round others k outputs s =
     s\<lparr>ls_facts := ls_facts s @
         [\<lparr>rf_round = k, rf_ids = ids_from_step_outputs others outputs (rl_ids_path (ls_loop s)),
           rf_seen_before = seen_ids s\<rparr>],
       ls_rounds_run := k\<rparr>"

definition decide :: "loop_state \<Rightarrow> (stop_decision \<times> loop_state) res" where
  "decide s =
     (if ls_facts s = [] then Inl AssertionError
      else (let f = List.last (ls_facts s);
                d = evaluate_stop (rl_stop_when (ls_loop s)) f (rf_round f) (rl_max_rounds (ls_loop s))
            in Inr (d, if sd_stop d then s\<lparr>ls_stopped_by := sd_kind d, ls_criterion := sd_criterion d\<rparr> else s)))"

definition stop_payload ::
    "string \<Rightarrow> (string \<times> string list) list \<Rightarrow> (string \<times> string list) list \<Rightarrow> loop_state \<Rightarrow> orch_payload res" where
  "stop_payload run_id skipped annotated s =
     (if ls_stopped_by s = [] \<or> ls_facts s = [] then Inl AssertionError
      else Inr (RoundsPayload run_id skipped annotated (rl_phases (ls_loop s)) (ls_rounds_run s)
             (ls_stopped_by s) (ls_criterion s) (rl_max_rounds (ls_loop s))
             (new_ids (List.last (ls_facts s))) (seen_ids s)))"

record round_driver =
  rd_state :: loop_state
  rd_rounds :: "nat list"
  rd_prefixes :: "string list"

definition driver_start :: "round_loop \<Rightarrow> round_driver" where
  "driver_start l =
     \<lparr>rd_state = \<lparr>ls_loop = l, ls_facts = [], ls_rounds_run = 0, ls_stopped_by = [], ls_criterion = []\<rparr>,
      rd_rounds = [], rd_prefixes = []\<rparr>"

definition next_round :: "round_driver \<Rightarrow> nat res" where
  "next_round d =
     (if ls_stopped_by (rd_state d) \<noteq> [] then Inl AssertionError else Inr (Suc (length (rd_rounds d))))"

definition is_mapping :: "json \<Rightarrow> bool" where
  "is_mapping v = (case v of JObj _ \<Rightarrow> True | _ \<Rightarrow> False)"

definition driver_record ::
    "(json \<Rightarrow> string) \<Rightarrow> nat \<Rightarrow> json list \<Rightarrow> string list \<Rightarrow> round_driver \<Rightarrow> (stop_decision \<times> round_driver) res" where
  "driver_record others k outputs task_ids d =
     bind_res (decide (record_round others k (filter is_mapping outputs) (rd_state d))) (\<lambda>(dec, s).
       Inr (dec, \<lparr>rd_state = s, rd_rounds = rd_rounds d @ [k],
                  rd_prefixes = map (\<lambda>t. ''tool-result:'' @ t @ '':'') task_ids\<rparr>))"

section \<open>The rounds\<close>

definition round_spec :: "round_loop \<Rightarrow> nat \<Rightarrow> string list \<Rightarrow> string \<Rightarrow> task_spec \<Rightarrow> task_spec res" where
  "round_spec l k prefixes fresh s =
     (case s of (t, c, sc) \<Rightarrow>
        bind_res (round_key (case rt_idempotency_key t of None \<Rightarrow> [] | Some b \<Rightarrow> b) k) (\<lambda>key.
        bind_res (task_post_init (t\<lparr>rt_idempotency_key := Some key\<rparr>)) (\<lambda>keyed.
        bind_res (if 1 < k then task_post_init (keyed\<lparr>rt_id := fresh\<rparr>) else Inr keyed) (\<lambda>keyed.
          let sc1 = (case calls_for l k of None \<Rightarrow> sc | Some calls \<Rightarrow> sc\<lparr>sc_round_calls := calls\<rparr>);
              sc2 = (if prefixes = [] then sc1 else sc1\<lparr>sc_previous_prefixes := prefixes\<rparr>)
          in Inr (keyed, c, sc2)))))"

definition round_specs ::
    "'p readings_scheme \<Rightarrow> round_loop \<Rightarrow> nat \<Rightarrow> string list \<Rightarrow> task_spec list \<Rightarrow> ('w, task_spec list) act" where
  "round_specs p l k prefixes specs w =
     lift_act (map_res (\<lambda>(i, s). round_spec l k prefixes (po_uid p (rw_step w) i) s)
                 (zip [0..<length specs] specs))
       (w\<lparr>rw_step := Suc (rw_step w)\<rparr>)"

definition rounds_payload :: "string \<Rightarrow> run_outcome \<Rightarrow> loop_state \<Rightarrow> orch_payload res" where
  "rounds_payload run_id out s =
     (if ro_rounds out = None
      then stop_payload run_id (reasons_of to_skipped (ro_tasks out)) (reasons_of to_annotations (ro_tasks out)) s
      else stop_payload run_id [] [] s)"

fun execute_rounds ::
    "nat \<Rightarrow> (json \<Rightarrow> string) \<Rightarrow> ('w, 'x) phase_ports \<Rightarrow> phase_context \<Rightarrow> task_spec list \<Rightarrow> round_driver \<Rightarrow>
     ('w, run_outcome) loop_act" where
  "execute_rounds 0 others p ctx specs d w = None"
| "execute_rounds (Suc n) others p ctx specs d w =
     bind_loop (loop_of (lift_act (next_round d))) (\<lambda>k.
     bind_loop (loop_of (round_specs p (ls_loop (rd_state d)) k (rd_prefixes d) specs)) (\<lambda>specs_k.
     bind_loop (execute_one_pass p ctx specs_k) (\<lambda>out.
     if ro_state out \<noteq> R_SUCCEEDED then loop_return out
     else bind_loop (loop_of (lift_act (driver_record others k (ro_chain_outputs out)
                                (map (rt_id \<circ> to_task) (ro_tasks out)) d))) (\<lambda>(dec, d').
     if \<not> sd_stop dec then execute_rounds n others p ctx specs d'
     else bind_loop (loop_of (lift_act (rounds_payload (pc_run_id ctx) out (rd_state d')))) (\<lambda>payload.
          bind_loop (loop_of (emit RUN_COMPLETED payload (pc_run_id ctx) (pc_trace_id ctx) None)) (\<lambda>_.
            loop_return (out\<lparr>ro_rounds := Some payload\<rparr>))))))) w"

definition round_fuel :: "round_loop \<Rightarrow> nat" where
  "round_fuel l = nat (rl_max_rounds l)"

text \<open>
  \<^verbatim>\<open>execute_phases\<close>: with a loop declared, the rounds run over the specs resolved when the
  dependencies were built; without one, the pass runs over what is pending, or over freshly
  resolved specs.
\<close>

definition execute_phases ::
    "(json \<Rightarrow> string) \<Rightarrow> ('w, 'x) phase_ports \<Rightarrow> phase_context \<Rightarrow> round_loop list \<Rightarrow> task_spec list \<Rightarrow> task_spec list \<Rightarrow>
     ('w, task_spec list) act \<Rightarrow> ('w, run_outcome) loop_act" where
  "execute_phases others p ctx loops resolved pending resolve =
     (case loops of
        l # _ \<Rightarrow> execute_rounds (round_fuel l) others p ctx resolved (driver_start l)
      | [] \<Rightarrow>
          (if pending \<noteq> [] then execute_one_pass p ctx pending
           else bind_loop (loop_of resolve) (execute_one_pass p ctx)))"

end
