(* ===== verification/Run_Service.thy ===== *)
theory Run_Service
  imports Round_Loop
begin

text \<open>
  \<^verbatim>\<open>RunOrchestrationService\<close> (\<^verbatim>\<open>service.py\<close>, with \<^verbatim>\<open>runner_wiring.py\<close>, \<^verbatim>\<open>convergence.py\<close>,
  \<^verbatim>\<open>commands.py\<close> and \<^verbatim>\<open>run_terminals.py\<close>): start a run, stop it at a human gate or a pause, resume
  it in the same process or after a restart, cancel it, and give its budget reservation back
  when it ends. Compiling with its preflight, freezing and the digests of a manifest, the
  project's direction and the fingerprint event are parameters; a manifest keeps the fields the
  service reads. Telemetry is not modelled.
\<close>

section \<open>Commands and ports\<close>

record start_command =
  st_project_id :: string
  st_protocol_id :: string
  st_run_id :: string
  st_trace_id :: string
  st_protocol_source :: "string option"
  st_protocol_body :: "string option"

definition start_command_post_init :: "start_command \<Rightarrow> start_command res" where
  "start_command_post_init c = first_error
     [(st_project_id c = '''', ''project_id must not be empty''),
      (st_protocol_id c = '''', ''protocol_id must not be empty''),
      (st_trace_id c = '''', ''trace_id must not be empty'')] c"

record resume_command =
  rm_run_id :: string
  rm_manifest_digest :: string
  rm_trace_id :: string

definition resume_command_post_init :: "resume_command \<Rightarrow> resume_command res" where
  "resume_command_post_init c = first_error
     [(rm_manifest_digest c = '''', ''frozen_manifest_digest must not be empty''),
      (rm_trace_id c = '''', ''trace_id must not be empty'')] c"

record run_manifest =
  mf_semantics :: json
  mf_frozen_at :: int
  mf_pricing_version :: "string option"
  mf_pricing_digest :: "string option"
  mf_reservation_ref :: "string option"

datatype preflight_status = PREFLIGHT_PASS | PREFLIGHT_WARN | PREFLIGHT_FAIL

record preflight_report =
  pr_status :: preflight_status
  pr_codes :: "string list"

record ('w, 'x) run_service =
  sv_ports :: "('w, 'x) phase_ports"
  sv_approvals :: bool
  sv_loops :: "round_loop list"
  sv_item_text :: "json \<Rightarrow> string"
  sv_compile :: "('w, run_plan option \<times> preflight_report) act"
  sv_catalog :: catalog_view
  sv_freeze :: "string \<Rightarrow> run_plan \<Rightarrow> preflight_report \<Rightarrow> ('w, run_manifest) act"
  sv_refreeze :: "run_context \<Rightarrow> ('w, run_manifest) act"
  sv_digest :: "run_manifest \<Rightarrow> string"
  sv_semantic_digest :: "run_manifest \<Rightarrow> string"
  sv_direction :: "('w, string option) act"
  sv_fingerprint :: "string \<Rightarrow> string \<Rightarrow> run_state \<Rightarrow> ('w, unit) act"

section \<open>Transitions and events\<close>

definition run_exception_of :: "run_error \<Rightarrow> run_exception" where
  "run_exception_of e =
     (case e of
        RunValueError x \<Rightarrow> PyError x
      | RunTransition (InvalidTransitionError s ev) \<Rightarrow> BadTransition s ev)"

definition transition_run :: "'p readings_scheme \<Rightarrow> research_run \<Rightarrow> run_event \<Rightarrow> ('w, research_run) act" where
  "transition_run p r e w =
     (case rr_transition r e (po_clk p (rw_step w) 0) of
        Inl err \<Rightarrow> (Inl (run_exception_of err), w\<lparr>rw_step := Suc (rw_step w)\<rparr>)
      | Inr r' \<Rightarrow> (Inr r', w\<lparr>rw_step := Suc (rw_step w)\<rparr>))"

definition preflight_failure_message :: "preflight_report \<Rightarrow> string" where
  "preflight_failure_message report =
     (if pr_codes report = [] then ''preflight failed''
      else ''preflight failed: '' @ join_texts '', '' (sort (remdups (pr_codes report))))"

section \<open>Executing with a context\<close>

definition declared_human_gates :: "run_plan \<Rightarrow> string list" where
  "declared_human_gates plan = map fst (filter (\<lambda>g. snd g = HUMAN_GATE) (rp_gates plan))"

definition resolve_act :: "'p readings_scheme \<Rightarrow> run_context \<Rightarrow> ('w, task_spec list) act" where
  "resolve_act p cx w =
     lift_act (resolve_sessions cx (po_uid p (rw_step w))) (w\<lparr>rw_step := Suc (rw_step w)\<rparr>)"

definition hold_specs :: "run_context \<Rightarrow> run_outcome \<Rightarrow> ('w, run_outcome) act" where
  "hold_specs cx out w =
     (let run_id = rr_id (cx_run cx)
      in (Inr out,
          if ro_state out = R_WAITING_FOR_APPROVAL \<and> rw_handed w \<noteq> []
          then w\<lparr>rw_waiting := (rw_waiting w)(run_id \<mapsto> (cx, hd (rw_handed w)))\<rparr>
          else if ro_state out = R_PAUSED \<and> rw_handed w \<noteq> []
          then w\<lparr>rw_paused := (rw_paused w)(run_id \<mapsto> (cx, hd (rw_handed w)))\<rparr>
          else w))"

definition phase_context_of :: "bool \<Rightarrow> run_context \<Rightarrow> string list \<Rightarrow> phase_context res" where
  "phase_context_of approvals cx gated =
     bind_res (frozen_manifest_digest cx) (\<lambda>digest.
       Inr \<lparr>pc_run_id = rr_id (cx_run cx), pc_trace_id = cx_trace_id cx, pc_manifest_digest = digest,
            pc_human_gated = gated, pc_approvals = approvals\<rparr>)"

definition execute_run ::
    "('w, 'x) run_service \<Rightarrow> run_context \<Rightarrow> task_spec list \<Rightarrow> ('w, run_outcome) loop_act" where
  "execute_run sv cx pending w =
     (let p = sv_ports sv
      in bind_loop (loop_of (pending_human_gates p (sv_approvals sv) (declared_human_gates (cx_plan cx))
                               (rr_id (cx_run cx)))) (\<lambda>gated.
         bind_loop (loop_of (resolve_act p cx)) (\<lambda>resolved.
         bind_loop (loop_of (lift_act (phase_context_of (sv_approvals sv) cx gated))) (\<lambda>ctx.
         bind_loop (execute_phases (sv_item_text sv) p ctx (sv_loops sv) resolved pending (resolve_act p cx)) (\<lambda>out.
           loop_of (hold_specs cx out)))))
           (w\<lparr>rw_handed := []\<rparr>))"

definition release_if_terminal :: "'p readings_scheme \<Rightarrow> string \<Rightarrow> run_state \<Rightarrow> ('w, unit) act" where
  "release_if_terminal p run_id s w =
     (Inr (), if is_terminal s run_terminal then release_refs p run_id w else w)"

definition execute_with_context ::
    "('w, 'x) run_service \<Rightarrow> run_context \<Rightarrow> task_spec list \<Rightarrow> ('w, run_outcome) loop_act" where
  "execute_with_context sv cx pending =
     bind_loop (execute_run sv cx pending) (\<lambda>out.
       let out' = out\<lparr>ro_pricing_version := rr_pricing_version (cx_run cx),
                      ro_pricing_digest := rr_pricing_digest (cx_run cx),
                      ro_manifest_semantic_digest := rr_manifest_semantic_digest (cx_run cx)\<rparr>
       in bind_loop (loop_of (release_if_terminal (sv_ports sv) (rr_id (cx_run cx)) (ro_state out'))) (\<lambda>_.
          bind_loop (loop_of (sv_fingerprint sv (rr_id (cx_run cx)) (cx_trace_id cx) (ro_state out'))) (\<lambda>_.
            loop_return out')))"

section \<open>Starting\<close>

definition draft_run :: "start_command \<Rightarrow> int \<Rightarrow> int \<Rightarrow> research_run res" where
  "draft_run c created updated = run_post_init
     \<lparr>rr_id = st_run_id c, rr_project_id = st_project_id c, rr_protocol_id = st_protocol_id c,
      rr_state = run_initial, rr_manifest_digest = None, rr_manifest_semantic_digest = None,
      rr_pricing_version = None, rr_pricing_digest = None, rr_protocol_source = st_protocol_source c,
      rr_protocol_body = st_protocol_body c, rr_program_id = None, rr_program_index = None,
      rr_created_at = created, rr_updated_at = updated\<rparr>"

definition started_run ::
    "('w, 'x) run_service \<Rightarrow> research_run \<Rightarrow> run_manifest \<Rightarrow> ('w, research_run) act" where
  "started_run sv r mf =
     bind_act (clock_call (sv_ports sv) (\<lambda>clk. with_manifest r (sv_digest sv mf)
         (Some (sv_semantic_digest sv mf)) (mf_pricing_version mf) (mf_pricing_digest mf) (clk 0))) (\<lambda>res.
     bind_act (lift_act res) (\<lambda>r'. transition_run (sv_ports sv) r' RE_START))"

definition keep_reservation :: "string \<Rightarrow> string option \<Rightarrow> ('w, unit) act" where
  "keep_reservation run_id ref w =
     (Inr (), case ref of None \<Rightarrow> w | Some x \<Rightarrow> w\<lparr>rw_refs := (rw_refs w)(run_id \<mapsto> x)\<rparr>)"

definition frozen_payload :: "('w, 'x) run_service \<Rightarrow> research_run \<Rightarrow> run_manifest \<Rightarrow> orch_payload" where
  "frozen_payload sv r mf =
     FrozenPayload (rr_id r) (sv_digest sv mf) (sv_semantic_digest sv mf) (mf_pricing_version mf)
       (mf_pricing_digest mf)"

definition start_run :: "('w, 'x) run_service \<Rightarrow> start_command \<Rightarrow> ('w, run_outcome) loop_act" where
  "start_run sv c =
     (let p = sv_ports sv
      in bind_loop (loop_of (engine_call p recover_expired_leases)) (\<lambda>_.
         bind_loop (loop_of (clock_call p (\<lambda>clk. draft_run c (clk 0) (clk 1)))) (\<lambda>drafted.
         bind_loop (loop_of (lift_act drafted)) (\<lambda>run.
         bind_loop (loop_of (transition_run p run RE_START_COMPILE)) (\<lambda>run.
         bind_loop (loop_of (sv_compile sv)) (\<lambda>(plan, report).
         case plan of
           None \<Rightarrow> loop_of (fail_run p (rr_id run) (preflight_failure_message report) False)
         | Some pl \<Rightarrow>
             (if pr_status report = PREFLIGHT_FAIL
              then loop_of (fail_run p (rr_id run) (preflight_failure_message report) False)
              else
                bind_loop (loop_of (transition_run p run RE_COMPILE_OK)) (\<lambda>run.
                bind_loop (loop_of (transition_run p run RE_PREFLIGHT_OK)) (\<lambda>run.
                bind_loop (loop_of (sv_freeze sv (rr_id run) pl report)) (\<lambda>mf.
                bind_loop (loop_of (started_run sv run mf)) (\<lambda>run.
                bind_loop (loop_of (keep_reservation (rr_id run) (mf_reservation_ref mf))) (\<lambda>_.
                bind_loop (loop_of (emit MANIFEST_FROZEN (frozen_payload sv run mf) (rr_id run) (st_trace_id c) None)) (\<lambda>_.
                bind_loop (loop_of (sv_direction sv)) (\<lambda>direction.
                  execute_with_context sv
                    \<lparr>cx_run = run, cx_trace_id = st_trace_id c, cx_plan = pl, cx_catalog = sv_catalog sv,
                     cx_passed = (pr_status report = PREFLIGHT_PASS), cx_direction = direction\<rparr> []))))))))))))))"

section \<open>Cancelling\<close>

definition cancel_run_command :: "('w, 'x) run_service \<Rightarrow> string \<Rightarrow> ('w, unit) act" where
  "cancel_run_command sv run_id =
     (let p = sv_ports sv
      in bind_act (engine_call p (cancel_run run_id)) (\<lambda>_.
         bind_act (engine_call p (cancelled_task_ids run_id)) (\<lambda>ids.
         bind_act (budget_call p (\<lambda>clk. record_cancelled_usage
             (if po_budgeted p then Some (\<lambda>es. bl_record_usage_batch es (\<lambda>i. clk (length ids + i))) else None)
             run_id ids clk)) (\<lambda>_ w.
           (Inr (), release_refs p run_id w)))))"

section \<open>Resuming\<close>

definition assert_semantics_frozen :: "('w, 'x) run_service \<Rightarrow> run_context \<Rightarrow> ('w, unit) act" where
  "assert_semantics_frozen sv cx =
     (let r = cx_run cx
      in case rr_manifest_semantic_digest r of
           None \<Rightarrow> raise_act (ManifestFreeze ''frozen manifest lacks a semantic digest; fork run or revision required'')
         | Some frozen \<Rightarrow>
             (if \<not> cx_passed cx
              then raise_act (ManifestFreeze ''cannot resume from a non-passing preflight report'')
              else bind_act (sv_refreeze sv cx) (\<lambda>mf.
                let mf' = (if rr_pricing_version r \<noteq> None \<or> rr_pricing_digest r \<noteq> None
                           then mf\<lparr>mf_pricing_version := rr_pricing_version r,
                                   mf_pricing_digest := rr_pricing_digest r\<rparr>
                           else mf)
                in if sv_semantic_digest sv mf' \<noteq> frozen
                   then raise_act (ManifestFreeze
                     ''resume semantics drifted from frozen manifest; fork run or revision required'')
                   else return_act ())))"

definition assert_resumable :: "('w, 'x) run_service \<Rightarrow> run_context \<Rightarrow> resume_command \<Rightarrow> ('w, unit) act" where
  "assert_resumable sv cx c =
     (if (case rr_manifest_digest (cx_run cx) of None \<Rightarrow> [] | Some d \<Rightarrow> d) \<noteq> rm_manifest_digest c
      then raise_act (ManifestFreeze ''resume manifest digest does not match frozen snapshot'')
      else assert_semantics_frozen sv cx)"

definition resume_run ::
    "('w, 'x) run_service \<Rightarrow> run_context \<Rightarrow> resume_command \<Rightarrow> task_spec list \<Rightarrow> ('w, run_outcome) loop_act" where
  "resume_run sv cx c pending =
     bind_loop (loop_of (assert_resumable sv cx c)) (\<lambda>_.
     if rr_state (cx_run cx) \<noteq> R_PAUSED
     then loop_of (raise_act (PyError (ValueError (''cannot resume run in state '' @
            enum_text run_state_names (rr_state (cx_run cx))))))
     else bind_loop (loop_of (transition_run (sv_ports sv) (cx_run cx) RE_RESUME)) (\<lambda>run.
            execute_with_context sv (cx\<lparr>cx_run := run\<rparr>) pending))"

fun remaining_specs :: "(string \<rightharpoonup> task_identity) \<Rightarrow> task_spec list \<Rightarrow> task_spec list res" where
  "remaining_specs known [] = Inr []"
| "remaining_specs known ((t, c, sc) # specs) =
     (case known (case rt_idempotency_key t of None \<Rightarrow> [] | Some k \<Rightarrow> k) of
        None \<Rightarrow> bind_res (remaining_specs known specs) (\<lambda>rest. Inr ((t, c, sc) # rest))
      | Some i \<Rightarrow>
          (if ti_status i = T_SUCCEEDED then remaining_specs known specs
           else bind_res (task_post_init (t\<lparr>rt_id := ti_task_id i\<rparr>)) (\<lambda>t'.
                bind_res (remaining_specs known specs) (\<lambda>rest. Inr ((t', c, sc) # rest)))))"

definition known_tasks :: "task_identity list \<Rightarrow> (string \<rightharpoonup> task_identity)" where
  "known_tasks ids = map_of (rev (map (\<lambda>i. (ti_idempotency_key i, i)) ids))"

definition remaining_act :: "('w, 'x) run_service \<Rightarrow> run_context \<Rightarrow> ('w, task_spec list) act" where
  "remaining_act sv cx =
     bind_act (engine_call (sv_ports sv) (task_identities (rr_id (cx_run cx)))) (\<lambda>ids.
     bind_act (resolve_act (sv_ports sv) cx) (\<lambda>specs.
       lift_act (remaining_specs (known_tasks ids) specs)))"

definition resume_rebuilt ::
    "('w, 'x) run_service \<Rightarrow> run_context \<Rightarrow> resume_command \<Rightarrow> ('w, run_outcome) loop_act" where
  "resume_rebuilt sv cx c =
     bind_loop (loop_of (assert_resumable sv cx c)) (\<lambda>_.
     if rr_state (cx_run cx) \<noteq> R_RUNNING
     then loop_of (raise_act (PyError (ValueError (''cannot continue a rebuilt resume in state '' @
            enum_text run_state_names (rr_state (cx_run cx))))))
     else bind_loop (loop_of (remaining_act sv cx)) (execute_with_context sv cx))"

definition resume_paused :: "('w, 'x) run_service \<Rightarrow> string \<Rightarrow> research_run \<Rightarrow> ('w, run_outcome) loop_act" where
  "resume_paused sv run_id run w =
     (case rw_paused w run_id of
        None \<Rightarrow> Some (Inl (PortInvalid (''no paused execution context for run '' @ run_id)), w)
      | Some (cx, pending) \<Rightarrow>
          execute_with_context sv (cx\<lparr>cx_run := run\<rparr>) pending
            (w\<lparr>rw_paused := (rw_paused w)(run_id := None)\<rparr>))"

definition resume_after_approval :: "('w, 'x) run_service \<Rightarrow> string \<Rightarrow> ('w, run_outcome) loop_act" where
  "resume_after_approval sv run_id w =
     (case rw_waiting w run_id of
        None \<Rightarrow> Some (Inl (PortInvalid (''no waiting execution context for run '' @ run_id)), w)
      | Some (cx, remaining) \<Rightarrow>
          execute_with_context sv cx remaining (w\<lparr>rw_waiting := (rw_waiting w)(run_id := None)\<rparr>))"

definition has_paused_context :: "string \<Rightarrow> 'w run_world \<Rightarrow> bool" where
  "has_paused_context run_id w = (rw_paused w run_id \<noteq> None)"

definition has_waiting_context :: "string \<Rightarrow> 'w run_world \<Rightarrow> bool" where
  "has_waiting_context run_id w = (rw_waiting w run_id \<noteq> None)"

definition run_reservation_ref :: "string \<Rightarrow> 'w run_world \<Rightarrow> string option" where
  "run_reservation_ref run_id w = rw_refs w run_id"

definition register_reservation_ref :: "string \<Rightarrow> string \<Rightarrow> 'w run_world \<Rightarrow> 'w run_world" where
  "register_reservation_ref run_id ref w = w\<lparr>rw_refs := (rw_refs w)(run_id \<mapsto> ref)\<rparr>"

text \<open>A resume that failed: the canonical run is parked again, with the reason published.\<close>

definition compensate_failed_resume ::
    "('w, 'x) run_service \<Rightarrow> research_run \<Rightarrow> string \<Rightarrow> string \<Rightarrow> ('w, research_run) act" where
  "compensate_failed_resume sv run failure_type message =
     bind_act (transition_run (sv_ports sv) run RE_PAUSE) (\<lambda>r.
     bind_act (emit RUN_RESUME_FAILED (ResumeFailedPayload (rr_id run) failure_type message R_PAUSED)
                 (rr_id run) [] None) (\<lambda>_. return_act r))"

definition publish_compensation_failure ::
    "string \<Rightarrow> string \<Rightarrow> string \<Rightarrow> run_state \<Rightarrow> ('w, unit) act" where
  "publish_compensation_failure run_id failure_type message canonical =
     emit RUN_RESUME_COMPENSATION_FAILED (ResumeFailedPayload run_id failure_type message canonical) run_id [] None"

end
