(* ===== verification/Run_Frames.thy ===== *)
theory Run_Frames
  imports Run_Service Workflow_Properties
begin

text \<open>
  Reasoning about the actions of a run. \<open>keeps R m\<close>: whatever \<open>m\<close> does to the world, the world
  before and the world after are related by \<open>R\<close>. The locale \<open>call_frame\<close> collects what a
  relation must tolerate to hold across a task, \<open>pass_frame\<close> across a phase; their facts carry
  the relation through every function of the orchestration, and the interpretations below use
  them for the books of the service and for the reservation references.
\<close>

section \<open>Relations kept by actions\<close>

named_theorems keeps_intros

definition keeps :: "('w run_world \<Rightarrow> 'w run_world \<Rightarrow> bool) \<Rightarrow> ('w, 'a) act \<Rightarrow> bool" where
  "keeps R m = (\<forall>w. R w (snd (m w)))"

definition keeps_loop :: "('w run_world \<Rightarrow> 'w run_world \<Rightarrow> bool) \<Rightarrow> ('w, 'a) loop_act \<Rightarrow> bool" where
  "keeps_loop R m = (\<forall>w res w'. m w = Some (res, w') \<longrightarrow> R w w')"

lemma keepsD: "keeps R m \<Longrightarrow> m w = (r, w') \<Longrightarrow> R w w'"
  by (metis keeps_def snd_conv)

lemma keeps_loopD: "keeps_loop R m \<Longrightarrow> m w = Some (r, w') \<Longrightarrow> R w w'"
  by (simp add: keeps_loop_def)

text \<open>A port of another system: it leaves the tables of the engine and the books of the service alone.\<close>

definition outside :: "('w, 'a) act \<Rightarrow> bool" where
  "outside m = (\<forall>w. \<exists>e b st. db st = db (rw_engine w) \<and>
     snd (m w) = w\<lparr>rw_env := e, rw_budget := b, rw_engine := st\<rparr>)"

lemma outside_unchanged:
  assumes "\<And>w. snd (m w) = w"
  shows "outside m"
  unfolding outside_def
proof
  fix w
  have "snd (m w) = w\<lparr>rw_env := rw_env w, rw_budget := rw_budget w, rw_engine := rw_engine w\<rparr>" using assms by simp
  then show "\<exists>e b st. db st = db (rw_engine w) \<and> snd (m w) = w\<lparr>rw_env := e, rw_budget := b, rw_engine := st\<rparr>"
    by blast
qed

definition isolated_ports :: "('w, 'x) phase_ports \<Rightarrow> bool" where
  "isolated_ports p =
     ((\<forall>s. outside (po_create_session p s)) \<and> (\<forall>s. outside (po_run_session p s)) \<and>
      (\<forall>f\<in>set_option (ph_retrieval p). \<forall>r. outside (f r)) \<and>
      (\<forall>t v. outside (ph_keep_retrieval p t v)) \<and>
      (\<forall>f\<in>set_option (ph_prior_knowledge p). \<forall>r. outside (f r)) \<and>
      (\<forall>f\<in>set_option (ph_review_material p). \<forall>t d. outside (f t d)) \<and>
      (\<forall>f\<in>set_option (ph_review_outcome p). \<forall>r. outside (f r)) \<and>
      (\<forall>f\<in>set_option (ph_review_points p). \<forall>r. outside (f r)) \<and>
      (\<forall>t sc. outside (ph_capability p t sc)) \<and>
      (\<forall>f\<in>set_option (ph_report_task p). \<forall>t c sc tr. outside (f t c sc tr)) \<and>
      (\<forall>f\<in>set_option (ph_experiment_task p). \<forall>t c sc tr. outside (f t c sc tr)) \<and>
      (\<forall>sc s. outside (ph_observe p sc s)) \<and> (\<forall>t d. outside (ph_cross_phase p t d)) \<and>
      (\<forall>t c sc j k. outside (ph_register p t c sc j k)) \<and> (\<forall>x t sc. outside (ph_product p x t sc)) \<and>
      (\<forall>t c sc g s x. outside (ph_gate_inputs p t c sc g s x)) \<and> (\<forall>r. outside (ph_novelty_claim p r)) \<and>
      (\<forall>f\<in>set_option (ph_put_finding p). \<forall>x. outside (f x)) \<and>
      (\<forall>f\<in>set_option (ph_verify_claim p). \<forall>x y. outside (f x y)) \<and>
      (\<forall>f\<in>set_option (ph_promote_memory p). \<forall>g n. outside (f g n)))"

definition ports_keep :: "('w run_world \<Rightarrow> 'w run_world \<Rightarrow> bool) \<Rightarrow> ('w, 'x) phase_ports \<Rightarrow> bool" where
  "ports_keep R p =
     ((\<forall>s. keeps R (po_create_session p s)) \<and> (\<forall>s. keeps R (po_run_session p s)) \<and>
      (\<forall>f\<in>set_option (ph_retrieval p). \<forall>r. keeps R (f r)) \<and>
      (\<forall>t v. keeps R (ph_keep_retrieval p t v)) \<and>
      (\<forall>f\<in>set_option (ph_prior_knowledge p). \<forall>r. keeps R (f r)) \<and>
      (\<forall>f\<in>set_option (ph_review_material p). \<forall>t d. keeps R (f t d)) \<and>
      (\<forall>f\<in>set_option (ph_review_outcome p). \<forall>r. keeps R (f r)) \<and>
      (\<forall>f\<in>set_option (ph_review_points p). \<forall>r. keeps R (f r)) \<and>
      (\<forall>t sc. keeps R (ph_capability p t sc)) \<and>
      (\<forall>f\<in>set_option (ph_report_task p). \<forall>t c sc tr. keeps R (f t c sc tr)) \<and>
      (\<forall>f\<in>set_option (ph_experiment_task p). \<forall>t c sc tr. keeps R (f t c sc tr)) \<and>
      (\<forall>sc s. keeps R (ph_observe p sc s)) \<and> (\<forall>t d. keeps R (ph_cross_phase p t d)) \<and>
      (\<forall>t c sc j k. keeps R (ph_register p t c sc j k)) \<and> (\<forall>x t sc. keeps R (ph_product p x t sc)) \<and>
      (\<forall>t c sc g s x. keeps R (ph_gate_inputs p t c sc g s x)) \<and> (\<forall>r. keeps R (ph_novelty_claim p r)) \<and>
      (\<forall>f\<in>set_option (ph_put_finding p). \<forall>x. keeps R (f x)) \<and>
      (\<forall>f\<in>set_option (ph_verify_claim p). \<forall>x y. keeps R (f x y)) \<and>
      (\<forall>f\<in>set_option (ph_promote_memory p). \<forall>g n. keeps R (f g n)))"

lemma outside_keeps:
  assumes "\<And>w e b st. db st = db (rw_engine w) \<Longrightarrow> R w (w\<lparr>rw_env := e, rw_budget := b, rw_engine := st\<rparr>)"
    and "outside m"
  shows "keeps R m"
  using assms unfolding outside_def keeps_def by metis

lemma isolated_ports_keep:
  assumes "isolated_ports p"
    and "\<And>w e b st. db st = db (rw_engine w) \<Longrightarrow> R w (w\<lparr>rw_env := e, rw_budget := b, rw_engine := st\<rparr>)"
  shows "ports_keep R p"
  using assms(1) unfolding isolated_ports_def ports_keep_def
  by (simp add: outside_keeps [of R, OF assms(2)])

section \<open>Across a task\<close>

locale frame =
  fixes R :: "'w run_world \<Rightarrow> 'w run_world \<Rightarrow> bool"
  assumes frame_refl: "R w w"
    and frame_trans: "R a b \<Longrightarrow> R b c \<Longrightarrow> R a c"
begin

lemma return_keeps [keeps_intros]: "keeps R (return_act a)"
  by (simp add: keeps_def return_act_def frame_refl)

lemma raise_keeps [keeps_intros]: "keeps R (raise_act e)"
  by (simp add: keeps_def raise_act_def frame_refl)

lemma lift_keeps [keeps_intros]: "keeps R (lift_act r)"
  by (simp add: keeps_def lift_act_def frame_refl split: sum.split)

lemma bind_keeps [keeps_intros]: "keeps R m \<Longrightarrow> (\<And>a. keeps R (f a)) \<Longrightarrow> keeps R (bind_act m f)"
  unfolding keeps_def bind_act_def
  by (auto split: prod.split sum.split) (metis frame_trans snd_conv)+

lemma lift_then_keeps: "(\<And>a. r = Inr a \<Longrightarrow> keeps R (f a)) \<Longrightarrow> keeps R (bind_act (lift_act r) f)"
  by (cases r) (auto simp: keeps_def bind_act_def lift_act_def frame_refl)

lemma try_keeps [keeps_intros]:
  "keeps R m \<Longrightarrow> (\<And>e. keeps R (h e)) \<Longrightarrow> (\<And>a. keeps R (f a)) \<Longrightarrow> keeps R (try_act m h f)"
  unfolding keeps_def try_act_def
  by (auto split: prod.split sum.split) (metis frame_trans snd_conv)+

lemma loop_of_keeps [keeps_intros]: "keeps R m \<Longrightarrow> keeps_loop R (loop_of m)"
  unfolding keeps_loop_def loop_of_def keeps_def by (metis option.inject snd_conv)

lemma bind_loop_keeps_if:
  "keeps_loop R m \<Longrightarrow> (\<And>a w w'. m w = Some (Inr a, w') \<Longrightarrow> keeps_loop R (f a)) \<Longrightarrow> keeps_loop R (bind_loop m f)"
  unfolding keeps_loop_def
proof (intro allI impI)
  fix w res w'
  assume m: "\<forall>w res w'. m w = Some (res, w') \<longrightarrow> R w w'"
    and f: "\<And>a w w'. m w = Some (Inr a, w') \<Longrightarrow> \<forall>w res w'. f a w = Some (res, w') \<longrightarrow> R w w'"
    and run: "bind_loop m f w = Some (res, w')"
  from run obtain r w1 where r: "m w = Some (r, w1)" by (auto simp: bind_loop_def split: option.splits)
  show "R w w'"
  proof (cases r)
    case (Inl e)
    then show ?thesis using run r m by (auto simp: bind_loop_def)
  next
    case (Inr a)
    then have "R w1 w'" using run r f [of w a w1] by (auto simp: bind_loop_def)
    then show ?thesis using m r frame_trans by blast
  qed
qed

lemma bind_loop_keeps [keeps_intros]:
  "keeps_loop R m \<Longrightarrow> (\<And>a. keeps_loop R (f a)) \<Longrightarrow> keeps_loop R (bind_loop m f)"
  unfolding keeps_loop_def bind_loop_def
  by (auto split: option.splits sum.splits) (metis frame_trans)+

lemma loop_if_keeps: "keeps_loop R m \<Longrightarrow> keeps_loop R n \<Longrightarrow> keeps_loop R (if b then m else n)"
  by simp

lemma loop_return_keeps [keeps_intros]: "keeps_loop R (loop_return a)"
  by (simp add: loop_return_def loop_of_keeps return_keeps)

lemma try_keeps_if:
  assumes "keeps R m" and "\<And>e. keeps R (h e)" and "\<And>w a w'. m w = (Inr a, w') \<Longrightarrow> keeps R (f a)"
  shows "keeps R (try_act m h f)"
  unfolding keeps_def
proof
  fix w
  obtain r w1 where m: "m w = (r, w1)" by fastforce
  have "R w w1" by (rule keepsD [OF assms(1) m])
  moreover have "R w1 (snd (try_act m h f w))"
    using assms(2,3) m by (cases r) (auto simp: try_act_def keeps_def)
  ultimately show "R w (snd (try_act m h f w))" by (rule frame_trans)
qed

text \<open>The loop of a task keeps what taking its lease and an attempt under that lease keep.\<close>

lemma attempts_keep_if:
  assumes acquire: "keeps R (acquire_or_fail p t)"
    and once: "\<And>w l w' t'. acquire_or_fail p t w = (Inr (Inr l), w') \<Longrightarrow>
      keeps R (attempt_once p t' c sc l :: ('w, 'x attempt_end) act)"
  shows "keeps_loop R (execute_attempts n p t c sc :: ('w, 'x task_result) loop_act)"
proof (induction n)
  case (Suc n)
  show ?case
    unfolding keeps_loop_def
  proof (intro allI impI)
    fix w res w'
    assume run: "(execute_attempts (Suc n) p t c sc :: ('w, 'x task_result) loop_act) w = Some (res, w')"
    obtain a w1 where acq: "acquire_or_fail p t w = (a, w1)" by fastforce
    have 1: "R w w1" by (rule keepsD [OF acquire acq])
    show "R w w'"
    proof (cases "w' = w1")
      case False
      with run acq obtain l t' where l: "a = Inr (Inr l)"
        and t': "executed_as t (max (tl_fence l) 1) (tl_lease_id l) = Inr t'"
        by (auto simp: Let_def split: sum.splits)
      obtain b :: "run_exception + 'x attempt_end" and w2 where b: "attempt_once p t' c sc l w1 = (b, w2)" by fastforce
      have 2: "R w1 w2" by (rule keepsD [OF once [OF acq [unfolded l]] b])
      have "w' = w2 \<or> (execute_attempts n p t c sc :: ('w, 'x task_result) loop_act) w2 = Some (res, w')"
        using run by (auto simp: acq l t' b Let_def split: sum.splits attempt_end.splits if_splits)
      then have "R w2 w'" using Suc.IH frame_refl by (auto simp: keeps_loop_def)
      with 1 2 show ?thesis using frame_trans by blast
    qed (simp add: 1)
  qed
qed (simp add: keeps_loop_def)

lemma task_keep_if:
  assumes "keeps R (engine_call p (\<lambda>clk uid. submit (po_request_digest p) t c clk))"
    and "keeps R (acquire_or_fail p t)"
    and "\<And>w l w' t'. acquire_or_fail p t w = (Inr (Inr l), w') \<Longrightarrow>
      keeps R (attempt_once p t' c sc l :: ('w, 'x attempt_end) act)"
  shows "keeps_loop R (execute_task p t c sc :: ('w, 'x task_result) loop_act)"
  unfolding keeps_loop_def
proof (intro allI impI)
  fix w res w'
  assume run: "(execute_task p t c sc :: ('w, 'x task_result) loop_act) w = Some (res, w')"
  obtain a w1 where sub: "engine_call p (\<lambda>clk uid. submit (po_request_digest p) t c clk) w = (a, w1)" by fastforce
  have "R w w1" by (rule keepsD [OF assms(1) sub])
  moreover have "w' = w1 \<or> (execute_attempts (attempt_fuel c) p t c sc :: ('w, 'x task_result) loop_act) w1 = Some (res, w')"
    using run by (auto simp: execute_task_def sub split: sum.splits)
  moreover have "keeps_loop R (execute_attempts (attempt_fuel c) p t c sc :: ('w, 'x task_result) loop_act)"
    by (rule attempts_keep_if [OF assms(2)]) (rule assms(3))
  ultimately show "R w w'" using keeps_loopD frame_trans by blast
qed

end

locale call_frame = frame R for R :: "'w run_world \<Rightarrow> 'w run_world \<Rightarrow> bool" +
  assumes engine_free: "R w (w\<lparr>rw_engine := st, rw_step := n\<rparr>)"
    and budget_free: "R w (w\<lparr>rw_budget := b, rw_step := n\<rparr>)"
begin

lemma engine_keeps [keeps_intros]: "keeps R (engine_call p f)"
  by (auto simp: keeps_def engine_call_def lift_act_def engine_free split: prod.split sum.split)

lemma budget_keeps [keeps_intros]: "keeps R (budget_call p f)"
  by (auto simp: keeps_def budget_call_def lift_act_def budget_free split: prod.split sum.split)

lemma report_keeps [keeps_intros]: "keeps R (report_completion p l out cat)"
  unfolding report_completion_def by (intro keeps_intros)

lemma failed_keeps [keeps_intros]: "keeps R (attempt_failed p t c l e)"
  by (cases e) (auto simp: settle_attempt_def intro!: keeps_intros)

lemma assert_keeps [keeps_intros]: "keeps R (assert_frozen_manifest spec sc)"
  by (auto simp: assert_frozen_manifest_def intro!: keeps_intros)

lemma session_keeps [keeps_intros]:
  assumes "\<And>s. keeps R (po_create_session p s)" and "\<And>s. keeps R (po_run_session p s)"
  shows "keeps R (run_session p t c sc)"
  unfolding run_session_def Let_def
  by (intro bind_keeps assert_keeps assms)

lemma once_keeps:
  assumes "\<And>s. keeps R (po_create_session p s)" and "\<And>s. keeps R (po_run_session p s)"
  shows "keeps R (attempt_once p t c sc l)"
  unfolding attempt_once_def by (intro keeps_intros assms)

lemma acquire_keeps: "keeps R (acquire_or_fail p t)"
  unfolding acquire_or_fail_def by (intro keeps_intros) (auto intro: keeps_intros split: run_exception.split)

lemma task_keeps:
  assumes "\<And>s. keeps R (po_create_session p s)" and "\<And>s. keeps R (po_run_session p s)"
  shows "keeps_loop R (execute_task p t c sc)"
  by (intro task_keep_if engine_keeps acquire_keeps once_keeps assms)

end

section \<open>Across a phase\<close>

text \<open>
  \<open>run\<close> is the run whose phases are executed: its reservation is the one a failure releases.
  \<open>fine\<close> holds of the tasks whose execution the relation tolerates.
\<close>

locale pass_frame = frame R for R :: "'w run_world \<Rightarrow> 'w run_world \<Rightarrow> bool" +
  fixes run :: string and p :: "('w, 'x) phase_ports" and fine :: "research_task \<Rightarrow> bool"
  assumes ports: "ports_keep R p"
    and events_free: "R w (w\<lparr>rw_events := ev\<rparr>)"
    and clock_free: "R w (w\<lparr>rw_step := n\<rparr>)"
    and ledger_free: "R w (w\<lparr>rw_budget := b, rw_step := n\<rparr>)"
    and approvals_free: "R w (w\<lparr>rw_approvals := ap, rw_step := n\<rparr>)"
    and read_free: "db st = db (rw_engine w) \<Longrightarrow> R w (w\<lparr>rw_engine := st, rw_step := n\<rparr>)"
    and release_free: "R w (w\<lparr>rw_refs := (rw_refs w)(run := None), rw_budget := b, rw_step := n\<rparr>)"
    and tasks: "fine t \<Longrightarrow> keeps_loop R (execute_task p t c sc :: ('w, 'x task_result) loop_act)"
begin

lemma emit_keeps [keeps_intros]: "keeps R (emit ty pl r tr tid)"
  by (simp add: keeps_def emit_def events_free)

lemma clock_keeps [keeps_intros]: "keeps R (clock_call p f)"
  by (simp add: keeps_def clock_call_def clock_free)

lemma ledger_keeps [keeps_intros]: "keeps R (budget_call p f)"
  by (auto simp: keeps_def budget_call_def lift_act_def ledger_free split: prod.split sum.split)

lemma approval_keeps [keeps_intros]: "keeps R (approval_call p f)"
  by (auto simp: keeps_def approval_call_def lift_act_def approvals_free split: prod.split sum.split)

lemma run_state_keeps [keeps_intros]: "keeps R (engine_call p (engine_run_state r))"
  by (auto simp: keeps_def engine_call_def engine_run_state_def lift_act_def read_free clock_free Let_def
      split: prod.split sum.split)

lemma release_keeps: "R w (release_refs p run w)"
  by (simp add: release_refs_def release_reservation_def Let_def release_free)

lemma fail_keeps [keeps_intros]:
  assumes "r = run"
  shows "keeps R (fail_run p r m s)"
  unfolding keeps_def fail_run_def assms
proof
  fix w
  have "keeps R (bind_act (emit RUN_FAILED (FailedPayload run m) run [] None) (\<lambda>_.
       return_act ((run_result run R_FAILED m)\<lparr>ro_system_failure := s\<rparr>)))"
    by (intro keeps_intros)
  then show "R w (snd (bind_act (emit RUN_FAILED (FailedPayload run m) run [] None) (\<lambda>_.
       return_act ((run_result run R_FAILED m)\<lparr>ro_system_failure := s\<rparr>)) (release_refs p run w)))"
    using release_keeps frame_trans unfolding keeps_def by blast
qed

lemma view_keeps:
  assumes "\<And>f. build = Some f \<Longrightarrow> (\<And>r. keeps R (f r))" and "\<And>v. keeps R (k v)"
  shows "keeps R (with_view build t k sc)"
  using assms by (auto simp: with_view_def intro!: keeps_intros split: option.split)

lemma contexts_keeps [keeps_intros]: "keeps R (with_contexts p t sc)"
proof -
  note iso = ports [unfolded ports_keep_def]
  have "keeps R (with_retrieval_context p t s)" for s
    unfolding with_retrieval_context_def using iso by (intro view_keeps keeps_intros) auto
  moreover have "keeps R (with_prior_knowledge p t s)" for s
    unfolding with_prior_knowledge_def using iso by (intro view_keeps keeps_intros) auto
  moreover have "keeps R (with_review_material p t s)" for s
    unfolding with_review_material_def using iso by (auto intro!: keeps_intros split: option.split)
  moreover have "keeps R (with_review_outcome p t s)" for s
    unfolding with_review_outcome_def using iso by (intro view_keeps keeps_intros) auto
  moreover have "keeps R (with_review_points p t s)" for s
    unfolding with_review_points_def using iso by (auto intro!: keeps_intros split: option.split)
  ultimately show ?thesis unfolding with_contexts_def by (intro keeps_intros)
qed

lemma failure_step_keeps [keeps_intros]:
  "pc_run_id ctx = run \<Longrightarrow> keeps R (failure_step p ctx t c m s j)"
  unfolding failure_step_def by (auto intro!: keeps_intros)

lemma deferred_keeps [keeps_intros]:
  "pc_run_id ctx = run \<Longrightarrow> keeps R (failure_or_deferred p ctx t c r)"
  unfolding failure_or_deferred_def by (auto intro!: keeps_intros)

lemma dispatch_keeps:
  "fine t \<Longrightarrow> keeps_loop R (dispatch_task_execution p tr t c sc)"
  using ports [unfolded ports_keep_def]
  by (auto simp: dispatch_task_execution_def dispatch_report_def dispatch_experiment_def
      intro!: keeps_intros tasks split: option.split)

lemma gate_keeps [keeps_intros]: "keeps R (evaluate_gate p t c sc reg r x)"
  using ports [unfolded ports_keep_def]
  by (auto simp: evaluate_gate_def intro!: keeps_intros)

lemma record_keeps [keeps_intros]: "keeps R (record_acceptance_evaluation p ctx t c sc gate)"
  using ports [unfolded ports_keep_def]
  by (auto simp: record_acceptance_evaluation_def intro!: keeps_intros split: option.split)

lemma promote_keeps:
  assumes "\<And>x y. keeps R (verify x y)"
  shows "keeps R (promote_claims verify ctx rv tid seen claims)"
  using assms by (induction claims arbitrary: seen) (auto intro!: keeps_intros)

lemma finish_keeps [keeps_intros]: "keeps R (finish_task_step p ctx t sc reg gate producer negative)"
  using ports [unfolded ports_keep_def]
  by (auto simp: finish_task_step_def promote_registered_claims_def
      intro!: keeps_intros promote_keeps split: option.split)

lemma rejected_keeps [keeps_intros]: "pc_run_id ctx = run \<Longrightarrow> keeps R (rejected_step p ctx t c gate j)"
  by (simp add: rejected_step_def keeps_intros)

lemma register_keeps [keeps_intros]:
  assumes "pc_run_id ctx = run"
  shows "keeps R (register_and_gate p ctx t c sc r carry)"
proof -
  have "keeps R (register_or_fail p t c sc r carry)"
    using ports [unfolded ports_keep_def]
    by (auto simp: register_or_fail_def intro!: keeps_intros split: run_exception.split)
  then show ?thesis
    unfolding register_and_gate_def using assms by (auto intro!: keeps_intros split: sum.split)
qed

lemma product_keeps [keeps_intros]:
  "pc_run_id ctx = run \<Longrightarrow> keeps R (register_and_gate_product p ctx t c sc x e)"
  using ports [unfolded ports_keep_def]
  by (auto simp: register_and_gate_product_def intro!: keeps_intros)

lemma carry_keeps [keeps_intros]: "keeps R (build_session_carry p t sc cap)"
  using ports [unfolded ports_keep_def]
  by (auto simp: build_session_carry_def intro!: keeps_intros)

lemma one_task_keeps [keeps_intros]:
  assumes "pc_run_id ctx = run" and "fine t"
  shows "keeps_loop R (execute_one_task p ctx t c sc)"
proof -
  have "keeps R (case te_session r of None \<Rightarrow> return_act () | Some s \<Rightarrow> ph_observe p sc s)" for r :: "'x task_result"
    using ports [unfolded ports_keep_def] by (auto intro!: keeps_intros split: option.split)
  moreover have "keeps R (ph_capability p t sc)"
    using ports [unfolded ports_keep_def] by (auto intro!: keeps_intros)
  moreover have "keeps R (case (te_experiment r, te_report r, te_session r) of
             (Some product, _, _) \<Rightarrow> register_and_gate_product p ctx t c sc product True
           | (None, Some product, _) \<Rightarrow> register_and_gate_product p ctx t c sc product False
           | (None, None, Some s) \<Rightarrow>
               bind_act (build_session_carry p t sc cap) (\<lambda>carry.
                 case carry of
                   Inl why \<Rightarrow> failure_step p ctx t c why True None
                 | Inr k \<Rightarrow> register_and_gate p ctx t c sc s k)
           | (None, None, None) \<Rightarrow> raise_act (PyError AssertionError))" for r :: "'x task_result" and cap
    using assms by (auto intro!: keeps_intros split: option.split sum.split)
  ultimately show ?thesis
    unfolding execute_one_task_def using assms
    by (auto intro!: keeps_intros dispatch_keeps split: option.split sum.split)
qed

lemma panel_keeps [keeps_intros]: "r = run \<Longrightarrow> keeps R (panel_rejection p grp outcomes r)"
  unfolding panel_rejection_def Let_def by (auto intro!: keeps_intros)

lemma started_keeps [keeps_intros]: "keeps R (emit_phase_started ctx grp)"
  unfolding emit_phase_started_def Let_def by (auto intro!: keeps_intros)

lemma completed_keeps [keeps_intros]: "keeps R (emit_phase_completed ctx grp g)"
  unfolding emit_phase_completed_def Let_def by (auto intro!: keeps_intros)

lemma requested_keeps [keeps_intros]: "keeps R (pause_requested p r)"
  unfolding pause_requested_def by (intro keeps_intros)

lemma degrade_keeps [keeps_intros]: "keeps R (degrade_run ctx xs)"
  unfolding degrade_run_def Let_def by (intro keeps_intros)

lemma succeed_keeps [keeps_intros]: "keeps R (succeed_run ctx g)"
  unfolding succeed_run_def by (intro keeps_intros)

end

section \<open>Across a pass\<close>

definition gated :: "phase_context \<Rightarrow> string \<Rightarrow> bool" where
  "gated ctx phase_id = (phase_id \<noteq> [] \<and> phase_id \<in> set (pc_human_gated ctx) \<and> pc_approvals ctx)"

definition one_phase :: "task_spec list \<Rightarrow> bool" where
  "one_phase grp = (grp \<noteq> [] \<and> (\<forall>s\<in>set grp. phase_of s = phase_of (hd grp)))"

lemma one_phaseD: "one_phase grp \<Longrightarrow> s \<in> set grp \<Longrightarrow> phase_of s = phase_of (hd grp)"
  unfolding one_phase_def by blast

lemma groups_of_one_phase: "grp \<in> set (phase_groups specs) \<Longrightarrow> one_phase grp"
proof (induction specs rule: phase_groups.induct)
  case (2 s ss)
  show ?case
  proof (cases "grp = s # takeWhile (\<lambda>x. phase_of x = phase_of s) ss")
    case True
    then show ?thesis by (auto simp: one_phase_def dest: set_takeWhileD)
  next
    case False
    then show ?thesis using "2.prems" by (intro "2.IH") simp
  qed
qed simp

lemma concat_groups [simp]: "concat (phase_groups specs) = specs"
  by (induction specs rule: phase_groups.induct) auto

text \<open>What \<^verbatim>\<open>_execute\<close> does before it shelves the specs it was handed.\<close>

definition run_body ::
    "('w, 'x) run_service \<Rightarrow> run_context \<Rightarrow> task_spec list \<Rightarrow> ('w, run_outcome) loop_act" where
  "run_body sv cx pending =
     bind_loop (loop_of (pending_human_gates (sv_ports sv) (sv_approvals sv) (declared_human_gates (cx_plan cx))
                           (rr_id (cx_run cx)))) (\<lambda>held.
     bind_loop (loop_of (resolve_act (sv_ports sv) cx)) (\<lambda>resolved.
     bind_loop (loop_of (lift_act (phase_context_of (sv_approvals sv) cx held))) (\<lambda>ctx.
       execute_phases (sv_item_text sv) (sv_ports sv) ctx (sv_loops sv) resolved pending
         (resolve_act (sv_ports sv) cx))))"

text \<open>
  The specs a pass of such an execution may run: with a loop declared, a round's specs made from the
  resolved ones; otherwise what is pending, and with nothing pending the resolved ones. Identifiers
  come from the service's source at some step.
\<close>

definition executed_specs ::
    "('w, 'x) run_service \<Rightarrow> run_context \<Rightarrow> task_spec list \<Rightarrow> task_spec list \<Rightarrow> bool" where
  "executed_specs sv cx pending specs \<longleftrightarrow>
     (case sv_loops sv of
        [] \<Rightarrow> if pending \<noteq> [] then specs = pending
              else (\<exists>n. resolve_sessions cx (po_uid (sv_ports sv) n) = Inr specs)
      | l # _ \<Rightarrow>
          (\<exists>n m resolved k prefixes. resolve_sessions cx (po_uid (sv_ports sv) n) = Inr resolved \<and> 1 \<le> k \<and>
             map_res (\<lambda>(i, s). round_spec l k prefixes (po_uid (sv_ports sv) m i) s)
               (zip [0..<length resolved] resolved) = Inr specs))"

lemma next_round_Inr: "next_round d = Inr k \<Longrightarrow> k = Suc (length (rd_rounds d))"
  by (auto simp: next_round_def split: if_splits)

lemma driver_record_loop:
  "driver_record others k outputs ids d = Inr (dec, d') \<Longrightarrow> ls_loop (rd_state d') = ls_loop (rd_state d)"
  by (auto simp: driver_record_def decide_def record_round_def Let_def bind_res_Inr_iff split: if_splits)

lemma bind_loop_assoc: "bind_loop (bind_loop m f) g = bind_loop m (\<lambda>a. bind_loop (f a) g)"
  by (rule ext) (auto simp: bind_loop_def split: option.splits sum.splits)

lemma execute_run_eq:
  "execute_run sv cx pending w =
     bind_loop (run_body sv cx pending) (\<lambda>out. loop_of (hold_specs cx out)) (w\<lparr>rw_handed := []\<rparr>)"
  by (simp add: execute_run_def run_body_def bind_loop_assoc Let_def)

lemma phase_context_of_Inr: "phase_context_of approvals cx held = Inr ctx \<Longrightarrow>
    pc_run_id ctx = rr_id (cx_run cx) \<and> pc_human_gated ctx = held \<and> pc_approvals ctx = approvals"
  by (auto simp: phase_context_of_def bind_res_Inr_iff)

text \<open>The pass stops before the first group of a gated phase, so the tasks behind it need not be fine.\<close>

locale run_frame = pass_frame R run p fine
  for R :: "'w run_world \<Rightarrow> 'w run_world \<Rightarrow> bool" and run and p :: "('w, 'x) phase_ports" and fine +
  assumes handed_free: "R w (w\<lparr>rw_handed := h\<rparr>)"
begin

lemma on_pause_keeps [keeps_intros]: "keeps R (on_pause specs)"
  by (simp add: keeps_def on_pause_def handed_free)

lemma park_keeps [keeps_intros]: "keeps R (park_for_retry ctx rest tail outcomes)"
  unfolding park_for_retry_def by (intro keeps_intros)

lemma held_keeps [keeps_intros]: "keeps R (pause_if_requested p ctx remaining outcomes)"
  unfolding pause_if_requested_def by (auto intro!: keeps_intros)

lemma gate_pause_keeps [keeps_intros]: "keeps R (pause_for_human_gate p ctx ph remaining outcomes)"
  unfolding pause_for_human_gate_def by (auto intro!: keeps_intros)

lemma group_tasks_keep:
  assumes "pc_run_id ctx = run" and "\<And>s. s \<in> set rest \<Longrightarrow> fine (fst s)"
  shows "keeps_loop R (run_group_tasks p ctx grp tail g rest)"
  using assms(2)
proof (induction rest arbitrary: g)
  case (Cons s rest)
  obtain t c sc where s: "s = (t, c, sc)" by (cases s)
  have "fine t" using Cons.prems [of s] s by simp
  then show ?case
    unfolding s run_group_tasks.simps
    using Cons assms(1) by (auto intro!: keeps_intros split: option.split)
qed (simp add: loop_return_keeps)

lemma group_keeps:
  assumes "pc_run_id ctx = run" and "\<And>s. s \<in> set grp \<Longrightarrow> fine (fst s)"
  shows "keeps_loop R (execute_phase_group p ctx grp tail g)"
  unfolding execute_phase_group_def
  using assms by (auto intro!: keeps_intros group_tasks_keep split: option.split)

lemma groups_keep:
  assumes "pc_run_id ctx = run" and "\<And>grp. grp \<in> set groups \<Longrightarrow> one_phase grp"
    and "\<And>s. s \<in> set (concat groups) \<Longrightarrow> fine (fst s) \<or> gated ctx (phase_of s)"
  shows "keeps_loop R (execute_groups p ctx g groups)"
  using assms(2,3)
proof (induction groups arbitrary: g)
  case (Cons grp groups)
  have IH: "keeps_loop R (execute_groups p ctx g groups)" for g using Cons by auto
  have one: "one_phase grp" by (rule Cons.prems(1)) simp
  show ?case
  proof (cases "gated ctx (phase_of (hd grp))")
    case True
    have stops: "\<exists>o1. a = Some o1" if "pause_for_human_gate p ctx (phase_of (hd grp)) (grp # groups) (gr_outcomes g) w = (Inr a, w')"
      for a w w'
      using that True
      by (auto simp: pause_for_human_gate_def gated_def bind_act_def emit_def on_pause_def return_act_def
          split: prod.splits sum.splits)
    show ?thesis
      unfolding keeps_loop_def
    proof (intro allI impI)
      fix w res w' assume run: "execute_groups p ctx g (grp # groups) w = Some (res, w')"
      obtain a w1 where gate: "pause_for_human_gate p ctx (phase_of (hd grp)) (grp # groups) (gr_outcomes g) w = (a, w1)"
        by fastforce
      have "w' = w1"
        using run stops gate by (cases a) (fastforce simp: bind_loop_def loop_of_def loop_return_def return_act_def)+
      with keepsD [OF gate_pause_keeps gate] show "R w w'" by simp
    qed
  next
    case False
    have "fine (fst s)" if "s \<in> set grp" for s
      using Cons.prems(2) [of s] that False one_phaseD [OF one that] by simp
    then have group: "keeps_loop R (execute_phase_group p ctx grp groups g)" by (rule group_keeps [OF assms(1)])
    have rest: "keeps_loop R (case x of (out, g') \<Rightarrow>
        if out \<noteq> None then loop_return (out, g') else execute_groups p ctx g' groups)" for x
      by (cases x) (simp add: IH loop_return_keeps)
    show ?thesis unfolding execute_groups.simps by (intro keeps_intros loop_if_keeps group rest)
  qed
qed (simp add: loop_return_keeps)

lemma pass_keeps:
  assumes "pc_run_id ctx = run" and "\<And>s. s \<in> set specs \<Longrightarrow> fine (fst s) \<or> gated ctx (phase_of s)"
  shows "keeps_loop R (execute_one_pass p ctx specs)"
proof -
  have "keeps_loop R (execute_groups p ctx \<lparr>gr_outcomes = [], gr_handoffs = []\<rparr> (phase_groups specs))"
    using assms by (intro groups_keep) (auto intro: groups_of_one_phase)
  then show ?thesis
    unfolding execute_one_pass_def Let_def by (auto intro!: keeps_intros split: option.split)
qed

lemma round_specs_keep [keeps_intros]: "keeps R (round_specs p l k ps specs)"
  by (auto simp: keeps_def round_specs_def lift_act_def clock_free split: sum.split)

lemma resolve_keep [keeps_intros]: "keeps R (resolve_act p cx)"
  by (auto simp: keeps_def resolve_act_def lift_act_def clock_free split: sum.split)

lemma gates_keep [keeps_intros]: "keeps R (pending_human_gates p approvals declared r)"
  unfolding pending_human_gates_def by (auto intro!: keeps_intros)

lemma lift_bind_keep:
  assumes "\<And>a. r = Inr a \<Longrightarrow> keeps_loop R (f a)"
  shows "keeps_loop R (bind_loop (loop_of (lift_act r)) f)"
  using assms frame_refl by (cases r) (auto simp: keeps_loop_def bind_loop_def loop_of_def lift_act_def)

lemma rounds_keep_if:
  assumes "pc_run_id ctx = run"
    and "\<And>k ps (w :: 'w run_world) xs w' s. round_specs p (ls_loop (rd_state d)) k ps specs w = (Inr xs, w') \<Longrightarrow> 1 \<le> k \<Longrightarrow> s \<in> set xs \<Longrightarrow>
      fine (fst s) \<or> gated ctx (phase_of s)"
  shows "keeps_loop R (execute_rounds n others p ctx specs d)"
  using assms(2)
proof (induction n arbitrary: d)
  case (Suc n)
  have pass: "keeps_loop R (execute_one_pass p ctx xs)"
    if "next_round d = Inr k" "round_specs p (ls_loop (rd_state d)) k ps specs w = (Inr xs, w')" for k ps xs and w w' :: "'w run_world"
    using Suc.prems [OF that(2)] next_round_Inr [OF that(1)] assms(1) by (intro pass_keeps) auto
  have more: "keeps_loop R (execute_rounds n others p ctx specs d')"
    if "driver_record others k outputs ids d = Inr (dec, d')" for k outputs ids dec d'
    using Suc.prems driver_record_loop [OF that] by (intro Suc.IH) auto
  show ?case
    unfolding execute_rounds.simps(2) [abs_def]
    by (intro lift_bind_keep bind_loop_keeps_if [OF loop_of_keeps [OF round_specs_keep]] bind_loop_keeps loop_if_keeps)
      (auto simp: loop_of_def intro!: pass more lift_bind_keep keeps_intros)
qed (simp add: keeps_loop_def)

lemma phases_keep_if:
  assumes "pc_run_id ctx = run" and "\<And>l ls k ps (w :: 'w run_world) xs w' s. loops = l # ls \<Longrightarrow>
      round_specs p l k ps resolved w = (Inr xs, w') \<Longrightarrow> 1 \<le> k \<Longrightarrow> s \<in> set xs \<Longrightarrow> fine (fst s) \<or> gated ctx (phase_of s)"
    and "\<And>s. loops = [] \<Longrightarrow> pending \<noteq> [] \<Longrightarrow> s \<in> set pending \<Longrightarrow> fine (fst s) \<or> gated ctx (phase_of s)"
    and "\<And>w xs w' s. loops = [] \<Longrightarrow> pending = [] \<Longrightarrow> resolve w = (Inr xs, w') \<Longrightarrow> s \<in> set xs \<Longrightarrow>
      fine (fst s) \<or> gated ctx (phase_of s)"
    and "keeps R resolve"
  shows "keeps_loop R (execute_phases others p ctx loops resolved pending resolve)"
proof (cases loops)
  case (Cons l ls)
  have "keeps_loop R (execute_rounds n others p ctx resolved (driver_start l))" for n
    by (rule rounds_keep_if [OF assms(1)], rule assms(2) [OF Cons]) (simp_all add: driver_start_def)
  then show ?thesis by (simp add: execute_phases_def Cons)
next
  case Nil
  show ?thesis
  proof (cases "pending = []")
    case True
    have "keeps_loop R (bind_loop (loop_of resolve) (execute_one_pass p ctx))"
      using assms(4) [OF Nil True]
      by (intro bind_loop_keeps_if [OF loop_of_keeps [OF assms(5)]] pass_keeps [OF assms(1)]) (auto simp: loop_of_def)
    then show ?thesis by (simp add: execute_phases_def Nil True)
  next
    case False
    then show ?thesis
      using assms(3) [OF Nil False] by (simp add: execute_phases_def Nil pass_keeps [OF assms(1)])
  qed
qed

lemma phases_keep:
  assumes "pc_run_id ctx = run" and "\<And>t. fine t" and "keeps R resolve"
  shows "keeps_loop R (execute_phases others p ctx loops resolved pending resolve)"
  using assms by (intro phases_keep_if) auto

lemma body_keeps:
  assumes "rr_id (cx_run cx) = run" and "\<And>t. fine t" and "sv_ports sv = p"
  shows "keeps_loop R (run_body sv cx pending)"
  unfolding run_body_def assms(3)
  using assms(1,2)
  by (intro bind_loop_keeps [OF loop_of_keeps [OF gates_keep]] bind_loop_keeps [OF loop_of_keeps [OF resolve_keep]]
      lift_bind_keep phases_keep resolve_keep) (simp_all add: phase_context_of_Inr)

end

end
