(* ===== verification/Run_Totality.thy ===== *)
theory Run_Totality
  imports Run_Frames
begin

text \<open>
  Every execution of the service returns. The loop of a task is bounded because each turn takes
  the lease anew and every lease has a higher fence than the one before, which needs only a small
  part of the engine's invariant, \<open>engine_ok\<close>: a lease row belongs to a leased task and carries its
  fence. It holds of every reachable engine and every call of the orchestration keeps it.
\<close>

section \<open>What the loops need of the engine\<close>

definition engine_ok :: "wf_state \<Rightarrow> bool" where
  "engine_ok st =
     ((\<forall>tid l. lease_of tid st = Some l \<longrightarrow> 1 \<le> lr_fence l \<and>
         (\<exists>r. task_of tid st = Some r \<and> tr_status r = T_LEASED \<and> tr_fence_seq r = lr_fence l)) \<and>
      (\<forall>tid r. task_of tid st = Some r \<longrightarrow> 0 \<le> tr_fence_seq r))"

lemma engine_okI:
  assumes "\<And>tid l. lease_of tid st = Some l \<Longrightarrow>
      1 \<le> lr_fence l \<and> (\<exists>r. task_of tid st = Some r \<and> tr_status r = T_LEASED \<and> tr_fence_seq r = lr_fence l)"
    and "\<And>tid r. task_of tid st = Some r \<Longrightarrow> 0 \<le> tr_fence_seq r"
  shows "engine_ok st"
  using assms by (simp add: engine_ok_def)

lemma engine_okD:
  assumes "engine_ok st"
  shows "lease_of tid st = Some l \<Longrightarrow>
      1 \<le> lr_fence l \<and> (\<exists>r. task_of tid st = Some r \<and> tr_status r = T_LEASED \<and> tr_fence_seq r = lr_fence l)"
    and "task_of tid st = Some r \<Longrightarrow> 0 \<le> tr_fence_seq r"
  using assms by (simp_all add: engine_ok_def)

lemma engine_ok_db: "db st' = db st \<Longrightarrow> engine_ok st' = engine_ok st"
  by (simp add: engine_ok_def task_of_db [of st' st] lease_of_db [of st' st])

lemma wf_inv_engine_ok: "wf_inv issued st \<Longrightarrow> engine_ok st"
  unfolding wf_inv_def rows_inv_def engine_ok_def row_ok_def
  by (auto simp: task_terminal_def) (metis (no_types, opaque_lifting) insertE not_less option.distinct(1)
      option.exhaust option.inject singletonD task_state.distinct order.not_eq_order_implies_strict int_one_le_iff_zero_less)+

definition turn :: "string \<Rightarrow> wf_state \<Rightarrow> int" where
  "turn tid st = (case lease_of tid st of
     Some l \<Rightarrow> lr_fence l
   | None \<Rightarrow> (case task_of tid st of None \<Rightarrow> 1 | Some r \<Rightarrow> tr_fence_seq r + 1))"

lemma turn_db: "db st' = db st \<Longrightarrow> turn tid st' = turn tid st"
  using task_of_db [of st' st tid] lease_of_db [of st' st tid] by (simp add: turn_def split: option.split)

lemma turn_pos: "engine_ok st \<Longrightarrow> 1 \<le> turn tid st"
  by (auto simp: turn_def engine_ok_def split: option.split)

definition holding :: "task_lease \<Rightarrow> wf_state \<Rightarrow> bool" where
  "holding l st = (engine_ok st \<and>
     (\<exists>r. lease_of (tl_task_id l) st = Some r \<and> lr_lease_id r = tl_lease_id l \<and> lr_fence r = tl_fence l))"

lemma holding_db: "db st' = db st \<Longrightarrow> holding l st' = holding l st"
  by (simp add: holding_def engine_ok_db [of st' st] lease_of_db [of st' st])

lemma holdingD:
  assumes "holding l st" and "task_of (tl_task_id l) st = Some row"
  shows "engine_ok st" "tr_status row = T_LEASED" "tr_fence_seq row = tl_fence l" "1 \<le> tl_fence l"
proof -
  obtain r where "lease_of (tl_task_id l) st = Some r" "lr_fence r = tl_fence l" and ok: "engine_ok st"
    using assms(1) by (auto simp: holding_def)
  then have "1 \<le> tl_fence l \<and> tr_status row = T_LEASED \<and> tr_fence_seq row = tl_fence l"
    using assms(2) by (fastforce simp: engine_ok_def)
  with ok show "engine_ok st" "tr_status row = T_LEASED" "tr_fence_seq row = tl_fence l" "1 \<le> tl_fence l" by simp_all
qed

section \<open>The calls of a task\<close>

lemma submit_ok:
  assumes "submit dg t c clk st = (res, st')" and "engine_ok st"
  shows "engine_ok st'"
proof (cases "db st' = db st")
  case False
  then have "\<exists>row. task_of (rt_id t) st = None \<and> tr_fence_seq row = 0 \<and> tr_task_id row = rt_id t \<and>
      wf_tasks st' = wf_tasks st @ [row] \<and> wf_leases st' = wf_leases st"
    using assms(1)
    by (auto simp: submit_def Let_def task_exists_def log_defs db_def split: if_splits option.splits)
  then obtain row where row: "task_of (rt_id t) st = None" "tr_fence_seq row = 0" "tr_task_id row = rt_id t"
    and st': "wf_tasks st' = wf_tasks st @ [row]" "wf_leases st' = wf_leases st"
    by blast
  have "task_of x st' = (if x = rt_id t then Some row else task_of x st)" for x
    using row by (auto simp: task_of_def st' row_of_append row_of_Cons split: option.splits)
  note task = this
  have lease: "lease_of x st' = lease_of x st" for x by (simp add: lease_of_def st')
  show ?thesis
  proof (rule engine_okI)
    fix x l assume "lease_of x st' = Some l"
    with engine_okD(1) [OF assms(2), of x l] row(1)
    show "1 \<le> lr_fence l \<and> (\<exists>r. task_of x st' = Some r \<and> tr_status r = T_LEASED \<and> tr_fence_seq r = lr_fence l)"
      by (auto simp: task lease)
  next
    fix x r assume "task_of x st' = Some r"
    with engine_okD(2) [OF assms(2), of x r] row(2) show "0 \<le> tr_fence_seq r" by (auto simp: task split: if_splits)
  qed
qed (use assms(2) engine_ok_db in blast)

lemma acquire_ok:
  assumes "acquire_lease tid clk uid st = (res, st')" and "engine_ok st"
  shows "engine_ok st'"
    and "res = Inr l \<Longrightarrow> holding l st' \<and> tl_task_id l = tid \<and> tl_fence l = turn tid st"
proof -
  have "engine_ok st' \<and> (res = Inr l \<longrightarrow> holding l st' \<and> tl_task_id l = tid \<and> tl_fence l = turn tid st)"
    using assms(1)
  proof (cases rule: acquire_effect)
    case same
    have "holding l st' \<and> tl_task_id l = tid \<and> tl_fence l = turn tid st" if l: "res = Inr l"
    proof -
      obtain r where r: "lease_of tid st = Some r" "lease_from_row r = Inr l" using same(2) [OF l] by blast
      have "tl_task_id l = tid" "tl_lease_id l = lr_lease_id r" "tl_fence l = lr_fence r"
        using r(2) lease_of_key [OF r(1)] lease_post_init_InrD by (fastforce simp: lease_from_row_def)+
      with r(1) assms(2) same(1) show ?thesis
        by (simp add: holding_def turn_def engine_ok_db [OF same(1)] lease_of_db [OF same(1)])
    qed
    with same(1) assms(2) show ?thesis using engine_ok_db by blast
  next
    case (new row m)
    from new(6) obtain ex hb tj run eid oc cr where task: "task_of tid st = Some row" and free: "lease_of tid st = None"
      and fence: "tl_fence m = tr_fence_seq row + 1" and db: "db st' = db (deliver m ex hb tj run eid oc cr st)"
      using new(2) by (auto simp: delivered_def)
    have free': "lease_of (tl_task_id m) st = None" using free new(2) by simp
    have row: "0 \<le> tr_fence_seq row" using assms(2) task by (auto simp: engine_ok_def)
    have "engine_ok st'"
    proof (rule engine_okI)
      fix x q assume q: "lease_of x st' = Some q"
      show "1 \<le> lr_fence q \<and> (\<exists>r. task_of x st' = Some r \<and> tr_status r = T_LEASED \<and> tr_fence_seq r = lr_fence q)"
        using q engine_okD(1) [OF assms(2), of x q] row fence task new(2)
        unfolding task_of_db [OF db] lease_of_db [OF db] lease_of_deliver [OF free'] task_of_deliver
        by (auto split: if_splits)
    next
      fix x q assume q: "task_of x st' = Some q"
      show "0 \<le> tr_fence_seq q"
        using q engine_okD(2) [OF assms(2), of x q] row fence task new(2)
        unfolding task_of_db [OF db] task_of_deliver by (auto split: if_splits)
    qed
    moreover have "turn tid st = tl_fence m" using free task fence by (simp add: turn_def)
    moreover have "lease_of (tl_task_id m) st' = lease_of (tl_task_id m) (deliver m ex hb tj run eid oc cr st)"
      by (rule lease_of_db [OF db])
    ultimately have "holding m st' \<and> tl_task_id m = tid \<and> tl_fence m = turn tid st"
      using new(2) by (simp add: holding_def lease_of_deliver [OF free'])
    with new(1) \<open>engine_ok st'\<close> show ?thesis by auto
  qed
  then show "engine_ok st'" "res = Inr l \<Longrightarrow> holding l st' \<and> tl_task_id l = tid \<and> tl_fence l = turn tid st"
    by blast+
qed

lemma heartbeat_ok:
  assumes "heartbeat l clk uid st = (res, st')" and "holding l st"
  shows "case res of Inl _ \<Rightarrow> holding l st'
     | Inr m \<Rightarrow> holding m st' \<and> tl_task_id m = tl_task_id l \<and> tl_fence m = tl_fence l"
  using assms(1)
proof (cases rule: heartbeat_effect)
  case same
  then obtain e where "res = Inl e" by (cases res) auto
  with assms(2) holding_db [OF same(1), of l] show ?thesis by simp
next
  case (beat r m)
  let ?g = "\<lambda>r. if lr_task_id r = tl_task_id l
          then r\<lparr>lr_lease_id := uid 0, lr_expires_at := clk 0 + wf_lease_ttl st, lr_heartbeat_at := clk 0,
                 lr_worker_id := tl_worker_id l, lr_fence := tl_fence l\<rparr> else r"
  let ?st = "st\<lparr>wf_leases := map ?g (wf_leases st)\<rparr>"
  have l: "lease_of x ?st = map_option ?g (lease_of x st)" for x by (rule lease_of_map) simp
  have t: "task_of x ?st = task_of x st" for x by (simp add: task_of_def)
  have fence: "lr_fence r = tl_fence l" using assms(2) beat(2) by (auto simp: holding_def)
  have keep: "lr_fence (?g q) = lr_fence q" if "lease_of x st = Some q" for x q
    using that beat(2) fence lease_of_key [OF that] by auto
  have ok: "engine_ok st" using assms(2) by (simp add: holding_def)
  have "engine_ok ?st"
    unfolding engine_ok_def l t
  proof (intro conjI allI impI)
    fix x q assume "map_option ?g (lease_of x st) = Some q"
    then obtain q0 where q0: "lease_of x st = Some q0" "q = ?g q0" by auto
    from ok q0(1) have "1 \<le> lr_fence q0 \<and> (\<exists>r. task_of x st = Some r \<and> tr_status r = T_LEASED \<and> tr_fence_seq r = lr_fence q0)"
      by (simp add: engine_ok_def)
    then show "1 \<le> lr_fence q" "\<exists>r. task_of x st = Some r \<and> tr_status r = T_LEASED \<and> tr_fence_seq r = lr_fence q"
      unfolding q0(2) keep [OF q0(1)] by blast+
  qed (use ok in \<open>auto simp: engine_ok_def\<close>)
  then have "engine_ok st'" using engine_ok_db [OF beat(5)] by simp
  moreover have "lease_of (tl_task_id l) st' = Some (?g r)"
    using lease_of_db [OF beat(5)] l [of "tl_task_id l"] beat(2) by simp
  ultimately show ?thesis using beat(1,4) lease_of_key [OF beat(2)] fence by (simp add: holding_def)
qed

lemma complete_ok:
  assumes "complete l cm clk uid st = (res, st')" and "holding l st" and tid: "cm_task_id cm = tl_task_id l"
  shows "case res of Inl _ \<Rightarrow> holding l st'
     | Inr _ \<Rightarrow> engine_ok st' \<and> turn (tl_task_id l) st' = tl_fence l + 1"
  using assms(1) tid
proof (cases rule: complete_effect)
  case same
  have "res \<noteq> Inr ()"
  proof
    assume "res = Inr ()"
    from same(2) [OF this] obtain row where "task_of (tl_task_id l) st = Some row"
      "tr_status row \<in> set COMPLETION_ALREADY_APPLIED" by blast
    with holdingD(2) [OF assms(2)] show False by (simp add: COMPLETION_ALREADY_APPLIED_def)
  qed
  then obtain e where "res = Inl e" by (cases res) auto
  with assms(2) holding_db [OF same(1), of l] show ?thesis by simp
next
  case (fin row r c ra)
  let ?g = "\<lambda>r. r\<lparr>tr_status := fd_status (disposition c (cm_outcome cm)
      (if tr_attempt row = 0 then 1 else tr_attempt row) (cm_failure_category cm)), tr_retry_at := ra\<rparr>"
  obtain ty p run eid oc cr where db: "db st' = db (settle (tl_task_id l) ?g ty p run eid oc cr st)"
    using fin(8) by (auto simp: applied_def Let_def)
  have ok: "engine_ok st" and f: "tr_fence_seq row = tl_fence l"
    using holdingD [OF assms(2) fin(2)] by simp_all
  have "engine_ok st'"
  proof (rule engine_okI)
    fix x q assume q: "lease_of x st' = Some q"
    show "1 \<le> lr_fence q \<and> (\<exists>r. task_of x st' = Some r \<and> tr_status r = T_LEASED \<and> tr_fence_seq r = lr_fence q)"
      using q engine_okD(1) [OF ok, of x q]
      unfolding task_of_db [OF db] lease_of_db [OF db] by (auto simp: task_of_settle split: if_splits)
  next
    fix x q assume q: "task_of x st' = Some q"
    show "0 \<le> tr_fence_seq q"
      using q engine_okD(2) [OF ok, of x] unfolding task_of_db [OF db] by (auto simp: task_of_settle split: if_splits)
  qed
  moreover have "turn (tl_task_id l) st' = tl_fence l + 1"
    using fin(2) f by (simp add: turn_def task_of_db [OF db] lease_of_db [OF db] task_of_settle)
  ultimately show ?thesis by (cases res) (use fin(1) in auto)
qed

section \<open>The loop of a task\<close>

lemma engine_callD:
  assumes "engine_call p f w = (res, w')"
  shows "\<exists>r st. f (po_clk p (rw_step w)) (po_uid p (rw_step w)) (rw_engine w) = (r, st) \<and>
     w' = w\<lparr>rw_engine := st, rw_step := Suc (rw_step w)\<rparr> \<and> res = map_sum exception_of (\<lambda>x. x) r"
  using assms by (cases "f (po_clk p (rw_step w)) (po_uid p (rw_step w)) (rw_engine w)")
    (auto simp: engine_call_def lift_act_def split: sum.splits)

lemma engine_call_InrD:
  assumes "engine_call p f w = (Inr a, w')"
  shows "\<exists>st. f (po_clk p (rw_step w)) (po_uid p (rw_step w)) (rw_engine w) = (Inr a, st)"
proof -
  from engine_callD [OF assms] obtain r st
    where "f (po_clk p (rw_step w)) (po_uid p (rw_step w)) (rw_engine w) = (r, st)" "Inr a = map_sum exception_of (\<lambda>x. x) r"
    by blast
  then show ?thesis by (cases r) auto
qed

lemma acquire_turn:
  assumes "acquire_or_fail p t w = (res, w')" and "engine_ok (rw_engine w)"
  shows "engine_ok (rw_engine w')"
    and "res = Inr (Inr l) \<Longrightarrow> holding l (rw_engine w') \<and> tl_task_id l = rt_id t \<and>
           tl_fence l = turn (rt_id t) (rw_engine w)"
proof -
  obtain a w1 where call: "engine_call p (acquire_lease (rt_id t)) w = (a, w1)" by fastforce
  have w': "w' = w1" and a: "res = Inr (Inr l) \<Longrightarrow> a = Inr l"
    using assms(1) call
    by (auto simp: acquire_or_fail_def try_act_def return_act_def raise_act_def split: sum.splits run_exception.splits)
  obtain r st where r: "acquire_lease (rt_id t) (po_clk p (rw_step w)) (po_uid p (rw_step w)) (rw_engine w) = (r, st)"
      "w1 = w\<lparr>rw_engine := st, rw_step := Suc (rw_step w)\<rparr>" "a = map_sum exception_of (\<lambda>x. x) r"
    using engine_callD [OF call] by blast
  show "engine_ok (rw_engine w')" using acquire_ok(1) [OF r(1) assms(2)] r(2) w' by simp
  show "holding l (rw_engine w') \<and> tl_task_id l = rt_id t \<and> tl_fence l = turn (rt_id t) (rw_engine w)"
    if "res = Inr (Inr l)"
  proof -
    have "r = Inr l" using a [OF that] r(3) by (cases r) auto
    from acquire_ok(2) [OF r(1) assms(2) this] r(2) w' show ?thesis by simp
  qed
qed

lemma report_turn:
  assumes "report_completion p l out cat w = (res, w')" and "holding l (rw_engine w)"
  shows "case res of Inl _ \<Rightarrow> holding l (rw_engine w')
     | Inr _ \<Rightarrow> engine_ok (rw_engine w') \<and> turn (tl_task_id l) (rw_engine w') = tl_fence l + 1"
proof -
  let ?cm = "\<lparr>cm_task_id = tl_task_id l, cm_outcome = out, cm_message = [], cm_failure_category = cat\<rparr>"
  consider "engine_call p (complete l ?cm) w = (res, w')" | e where "res = Inl e" "w' = w"
    using assms(1)
    by (auto simp: report_completion_def bind_act_def lift_act_def completion_post_init_def first_error_Inr_iff
        split: sum.splits prod.splits if_splits)
  then show ?thesis
  proof cases
    case 1
    then obtain r st where c: "complete l ?cm (po_clk p (rw_step w)) (po_uid p (rw_step w)) (rw_engine w) = (r, st)"
      "w' = w\<lparr>rw_engine := st, rw_step := Suc (rw_step w)\<rparr>" "res = map_sum exception_of (\<lambda>x. x) r"
      using engine_callD by blast
    from complete_ok [OF c(1) assms(2)] c(2,3) show ?thesis by (cases r) simp_all
  qed (use assms(2) in simp)
qed

text \<open>What is left of a lease when an attempt ends.\<close>

fun attempt_left :: "task_lease \<Rightarrow> run_exception + 'x attempt_end \<Rightarrow> wf_state \<Rightarrow> bool" where
  "attempt_left l (Inr (AttemptRetryable q)) st = (engine_ok st \<and> turn (tl_task_id l) st = tl_fence l + 1)"
| "attempt_left l x st = engine_ok st"

lemma settle_turn:
  assumes "settle_attempt p t l cat w = (res, w')" and "holding l (rw_engine w)"
  shows "engine_ok (rw_engine w')" and "res = Inr () \<Longrightarrow> turn (tl_task_id l) (rw_engine w') = tl_fence l + 1"
proof -
  obtain a w1 where b: "budget_call p (\<lambda>clk. record_attempt_usage
         (if po_budgeted p then Some (\<lambda>e. bl_record_usage e (clk 1)) else None)
         t (rt_attempt t) (failure_reason (Some cat)) (clk 0)) w = (a, w1)" by fastforce
  have w1: "rw_engine w1 = rw_engine w"
    using b by (auto simp: budget_call_def lift_act_def split: prod.splits sum.splits)
  have "engine_ok (rw_engine w') \<and> (res = Inr () \<longrightarrow> turn (tl_task_id l) (rw_engine w') = tl_fence l + 1)"
  proof (cases a)
    case (Inl e)
    then show ?thesis using assms w1 b by (auto simp: settle_attempt_def bind_act_def holding_def)
  next
    case (Inr u)
    then have "report_completion p l ''FAILED'' (Some cat) w1 = (res, w')"
      using assms(1) b by (simp add: settle_attempt_def bind_act_def)
    from report_turn [OF this] assms(2) w1 show ?thesis
      by (cases res) (auto simp: holding_def)
  qed
  then show "engine_ok (rw_engine w')" "res = Inr () \<Longrightarrow> turn (tl_task_id l) (rw_engine w') = tl_fence l + 1"
    by simp_all
qed

lemma failed_turn:
  assumes "attempt_failed p t c l e w = (res, w')" and "holding l (rw_engine w)"
  shows "attempt_left l res (rw_engine w')"
proof -
  have ok: "engine_ok (rw_engine w)" using assms(2) by (simp add: holding_def)
  have settled: "attempt_left l res (rw_engine w')"
    if bind: "bind_act (settle_attempt p t l cat) (\<lambda>_. return_act y) w = (res, w')" for cat y
  proof -
    obtain a w1 where s: "settle_attempt p t l cat w = (a, w1)" by fastforce
    from settle_turn [OF s assms(2)] bind s show ?thesis
      by (cases a; cases y) (auto simp: bind_act_def return_act_def)
  qed
  show ?thesis
    using assms(1) settled ok by (cases e) (auto simp: raise_act_def)
qed

interpretation tables: frame "\<lambda>w w' :: 'w run_world. db (rw_engine w') = db (rw_engine w)"
  by unfold_locales auto

lemma session_tables:
  assumes "isolated_ports p"
  shows "keeps (\<lambda>w w'. db (rw_engine w') = db (rw_engine w)) (run_session p t c sc)"
proof -
  have out: "keeps (\<lambda>w w'. db (rw_engine w') = db (rw_engine w)) m" if "outside m" for m :: "('w, 'z) act"
    by (rule outside_keeps [OF _ that]) simp
  have "outside (assert_frozen_manifest x sc)" for x
    by (rule outside_unchanged) (simp add: assert_frozen_manifest_def return_act_def raise_act_def)
  then show ?thesis
    using assms unfolding run_session_def Let_def isolated_ports_def by (intro tables.bind_keeps out) auto
qed

lemma once_turn:
  fixes res :: "run_exception + 'x attempt_end"
  assumes "isolated_ports p" and "attempt_once p t c sc l w = (res, w')" and "holding l (rw_engine w)"
  shows "attempt_left l res (rw_engine w')"
proof -
  obtain a w1 where hb: "engine_call p (heartbeat l) w = (a, w1)" by fastforce
  have beat: "case a of Inl _ \<Rightarrow> holding l (rw_engine w1)
     | Inr m \<Rightarrow> holding m (rw_engine w1) \<and> tl_task_id m = tl_task_id l \<and> tl_fence m = tl_fence l"
  proof -
    obtain r st where h: "heartbeat l (po_clk p (rw_step w)) (po_uid p (rw_step w)) (rw_engine w) = (r, st)"
      "w1 = w\<lparr>rw_engine := st, rw_step := Suc (rw_step w)\<rparr>" "a = map_sum exception_of (\<lambda>x. x) r"
      using engine_callD [OF hb] by blast
    from heartbeat_ok [OF h(1) assms(3)] h(2,3) show ?thesis by (cases r) simp_all
  qed
  show ?thesis
  proof (cases a)
    case (Inl e)
    then have "attempt_failed p t c l e w1 = (res, w')" using assms(2) hb by (simp add: attempt_once_def try_act_def)
    from failed_turn [OF this] beat Inl show ?thesis by simp
  next
    case (Inr m)
    with beat have m: "holding m (rw_engine w1)" "tl_task_id m = tl_task_id l" "tl_fence m = tl_fence l" by simp_all
    have same: "attempt_left m y st \<Longrightarrow> attempt_left l y st" for y :: "run_exception + 'x attempt_end" and st
      using m by (cases "(l, y, st)" rule: attempt_left.cases) auto
    obtain b w2 where run: "run_session p t c sc w1 = (b, w2)" by fastforce
    have w2: "holding m (rw_engine w2)" using keepsD [OF session_tables [OF assms(1)] run] holding_db m(1) by blast
    show ?thesis
    proof (cases b)
      case (Inl e)
      then have "attempt_failed p t c m e w2 = (res, w')"
        using assms(2) hb Inr run by (simp add: attempt_once_def try_act_def)
      from same [OF failed_turn [OF this w2]] show ?thesis .
    next
      case b: (Inr r)
      obtain d w3 where rep: "report_completion p m (session_outcome r) None w2 = (d, w3)" by fastforce
      note rest = assms(2) hb Inr run b rep
      show ?thesis
      proof (cases d)
        case (Inl e)
        have "attempt_failed p t c m e w3 = (res, w')" using rest Inl by (simp add: attempt_once_def try_act_def)
        moreover have "holding m (rw_engine w3)" using report_turn [OF rep w2] Inl by simp
        ultimately show ?thesis using same failed_turn by blast
      next
        case d: (Inr u)
        then have "engine_ok (rw_engine w3)" using report_turn [OF rep w2] by simp
        then show ?thesis using rest d by (auto simp: attempt_once_def try_act_def return_act_def)
      qed
    qed
  qed
qed

lemma attempts_total:
  fixes w :: "'w run_world"
  assumes "isolated_ports p" and "engine_ok (rw_engine w)" and "0 < n"
    and "max_attempts (effective_policy c) - turn (rt_id t) (rw_engine w) < int n"
  shows "\<exists>res w'. (execute_attempts n p t c sc w :: ((run_exception + 'x task_result) \<times> 'w run_world) option) =
      Some (res, w') \<and> engine_ok (rw_engine w')"
  using assms(2-4)
proof (induction n arbitrary: w)
  case (Suc n)
  obtain a w1 where acq: "acquire_or_fail p t w = (a, w1)" by fastforce
  note ok1 = acquire_turn(1) [OF acq Suc.prems(1)]
  show ?case
  proof (cases "\<exists>l t'. a = Inr (Inr l) \<and> executed_as t (max (tl_fence l) 1) (tl_lease_id l) = Inr t'")
    case False
    then show ?thesis using ok1 by (auto simp: acq Let_def split: sum.split)
  next
    case True
    then obtain l t' where l: "a = Inr (Inr l)" and t': "executed_as t (max (tl_fence l) 1) (tl_lease_id l) = Inr t'"
      by blast
    from acquire_turn(2) [OF acq Suc.prems(1) l] have hold: "holding l (rw_engine w1)"
      and fence: "tl_fence l = turn (rt_id t) (rw_engine w)" and tid: "tl_task_id l = rt_id t" by simp_all
    have att: "max (tl_fence l) 1 = tl_fence l" using turn_pos [OF Suc.prems(1)] fence by simp
    obtain b :: "run_exception + 'x attempt_end" and w2 where once: "attempt_once p t' c sc l w1 = (b, w2)" by fastforce
    have left: "attempt_left l b (rw_engine w2)" by (rule once_turn [OF assms(1) once hold])
    show ?thesis
    proof (cases "\<exists>q. b = Inr (AttemptRetryable q) \<and> tl_fence l < max_attempts (effective_policy c) \<and>
        (\<exists>d. retry_delay c (tl_fence l) = Inr d \<and> \<not> 0 < d)")
      case False
      have "engine_ok (rw_engine w2)" using left by (cases "(l, b, rw_engine w2)" rule: attempt_left.cases) auto
      with False show ?thesis
        by (auto simp: acq l att t' [unfolded att] once Let_def split: sum.split attempt_end.split)
    next
      case True
      then obtain q d where q: "b = Inr (AttemptRetryable q)" "tl_fence l < max_attempts (effective_policy c)"
        "retry_delay c (tl_fence l) = Inr d" "\<not> 0 < d" by blast
      have "engine_ok (rw_engine w2)" "turn (rt_id t) (rw_engine w2) = tl_fence l + 1" using left q(1) tid by simp_all
      moreover have "0 < n" using Suc.prems(3) q(2) fence by simp
      moreover have "(execute_attempts (Suc n) p t c sc w :: ((run_exception + 'x task_result) \<times> 'w run_world) option) =
          execute_attempts n p t c sc w2"
        using q by (simp add: acq l att t' [unfolded att] once Let_def)
      ultimately show ?thesis using Suc.IH [of w2] Suc.prems(3) fence by simp
    qed
  qed
qed simp

lemma task_returns:
  fixes p :: "('w, 'x) phase_ports"
  assumes "isolated_ports p" and ok: "engine_ok (rw_engine w)"
  shows "\<exists>res w'. (execute_task p t c sc w :: ((run_exception + 'x task_result) \<times> 'w run_world) option) =
      Some (res, w') \<and> engine_ok (rw_engine w')"
proof -
  obtain a w1 where sub: "engine_call p (\<lambda>clk uid. submit (po_request_digest p) t c clk) w = (a, w1)" by fastforce
  have ok1: "engine_ok (rw_engine w1)" using engine_callD [OF sub] submit_ok ok by fastforce
  show ?thesis
  proof (cases a)
    case (Inr u)
    have "max_attempts (effective_policy c) - turn (rt_id t) (rw_engine w1) < int (attempt_fuel c)"
      using turn_pos [OF ok1, of "rt_id t"] by (simp add: attempt_fuel_def)
    from attempts_total [OF assms(1) ok1 _ this] show ?thesis using sub Inr by (simp add: execute_task_def attempt_fuel_def)
  qed (use sub ok1 in \<open>simp add: execute_task_def\<close>)
qed

section \<open>The engine stays fit\<close>

definition fit :: "('w, 'x) phase_ports \<Rightarrow> 'w run_world \<Rightarrow> 'w run_world \<Rightarrow> bool" where
  "fit p w w' = (isolated_ports p \<longrightarrow> engine_ok (rw_engine w) \<longrightarrow> engine_ok (rw_engine w'))"

lemma fitI: "db (rw_engine w') = db (rw_engine w) \<Longrightarrow> fit p w w'"
  by (simp add: fit_def engine_ok_db [of "rw_engine w'" "rw_engine w"])

lemma fit_ports: "ports_keep (fit p) p"
proof (cases "isolated_ports p")
  case True
  then show ?thesis by (rule isolated_ports_keep) (simp add: fitI)
qed (simp add: ports_keep_def keeps_def fit_def)

interpretation fit: run_frame "fit p" run p "\<lambda>_. True" for p :: "('w, 'x) phase_ports" and run
proof unfold_locales
  show "keeps_loop (fit p) (execute_task p t c sc :: ('w, 'x task_result) loop_act)" for t c sc
    unfolding keeps_loop_def fit_def using task_returns [of p _ t c sc] by (metis option.inject prod.inject)
qed (auto simp: fitI fit_ports, auto simp: fit_def)

text \<open>Whatever the engine holds, if it is fit, the action comes to an end.\<close>

definition ends :: "('w, 'a) loop_act \<Rightarrow> bool" where
  "ends m = (\<forall>w. engine_ok (rw_engine w) \<longrightarrow> m w \<noteq> None)"

lemma ends_loop_of: "ends (loop_of m)" "ends (loop_return a)"
  by (simp_all add: ends_def loop_of_def loop_return_def)

lemma ends_bind:
  assumes "isolated_ports p" and "keeps_loop (fit p) m" and "ends m" and "\<And>a. ends (f a)"
  shows "ends (bind_loop m f)"
  unfolding ends_def
proof (intro allI impI)
  fix w :: "'a run_world" assume ok: "engine_ok (rw_engine w)"
  obtain res w' where m: "m w = Some (res, w')" using assms(3) ok by (fastforce simp: ends_def)
  have "engine_ok (rw_engine w')" using keeps_loopD [OF assms(2) m] assms(1) ok by (simp add: fit_def)
  then show "bind_loop m f w \<noteq> None" using assms(4) m by (auto simp: bind_loop_def ends_def split: sum.split)
qed

lemma ends_if: "ends m \<Longrightarrow> ends n \<Longrightarrow> ends (if b then m else n)"
  by simp

section \<open>A pass ends\<close>

lemma task_ends:
  fixes p :: "('w, 'x) phase_ports"
  shows "isolated_ports p \<Longrightarrow> ends (execute_task p t c sc :: ('w, 'x task_result) loop_act)"
  unfolding ends_def using task_returns [of p _ t c sc] by (metis option.distinct(1))

lemma one_task_ends:
  assumes "isolated_ports p"
  shows "ends (execute_one_task p ctx t c sc)"
proof -
  have cap: "keeps_loop (fit p) (loop_of (ph_capability p t sc))"
    using fit_ports [of p] by (auto simp: ports_keep_def intro: keeps_intros)
  have obs: "keeps_loop (fit p) (loop_of (case te_session r of None \<Rightarrow> return_act () | Some s \<Rightarrow> ph_observe p sc s))"
    for r :: "'b task_result"
    using fit_ports [of p] by (auto simp: ports_keep_def intro!: keeps_intros split: option.split)
  have dispatch: "ends (dispatch_task_execution p tr t c sc)" for tr
    using task_ends [OF assms] by (auto simp: dispatch_task_execution_def ends_loop_of)
  have after: "ends (bind_loop (dispatch_task_execution p tr t c sc) (\<lambda>r.
      bind_loop (loop_of (case te_session r of None \<Rightarrow> return_act () | Some s \<Rightarrow> ph_observe p sc s)) (\<lambda>_.
      if \<not> te_succeeded r then loop_of (a r) else loop_of (b r))))" for tr a b
    by (intro ends_bind [OF assms] ends_if ends_loop_of fit.dispatch_keeps dispatch obs TrueI)
  show ?thesis
    unfolding execute_one_task_def
    by (intro ends_bind [OF assms] ends_loop_of keeps_intros cap) (auto simp: ends_loop_of after split: option.split)
qed

lemma group_tasks_end:
  assumes "isolated_ports p"
  shows "ends (run_group_tasks p ctx grp tail g rest)"
proof (induction rest arbitrary: g)
  case (Cons s rest)
  obtain t c sc where s: "s = (t, c, sc)" by (cases s)
  have contexts: "keeps_loop (fit p) (loop_of (with_contexts p t sc))" by (intro keeps_intros)
  have one: "keeps_loop (fit p) (execute_one_task p ctx t c sc')" for sc' by (rule fit.one_task_keeps [OF refl TrueI])
  have parked: "keeps_loop (fit p) (loop_of (park_for_retry ctx xs tail ys))" for xs ys by (intro keeps_intros)
  have plan: "keeps_loop (fit p) (loop_of (lift_act r))" for r :: "bool res" by (intro keeps_intros)
  have step: "ends (if ps_retry_deferred step
     then bind_loop (loop_of (park_for_retry ctx ((t, c, sc) # rest) tail (gr_outcomes g)))
            (\<lambda>out. loop_return (Some out, g))
     else case ps_tolerated step of
       Some message \<Rightarrow> run_group_tasks p ctx grp tail (record_tolerated g t message) rest
     | None \<Rightarrow>
         (case ps_failure step of
            Some failure \<Rightarrow>
              bind_loop (loop_of (lift_act (panel_plan grp))) (\<lambda>panel.
                if panel then run_group_tasks p ctx grp tail (record_rejection g t step) rest
                else loop_return (Some failure, g))
          | None \<Rightarrow> run_group_tasks p ctx grp tail (record_success g t step) rest))" for step
    by (auto intro!: ends_if ends_bind [OF assms] ends_loop_of Cons.IH parked plan split: option.split)
  show ?case
    unfolding s run_group_tasks.simps
    by (intro ends_bind [OF assms] ends_loop_of contexts one one_task_ends [OF assms] step)
qed (simp add: ends_loop_of)

lemma group_ends:
  assumes "isolated_ports p"
  shows "ends (execute_phase_group p ctx grp tail g)"
proof -
  have tasks: "keeps_loop (fit p) (run_group_tasks p ctx grp tail g grp)"
    by (rule fit.group_tasks_keep [OF refl TrueI])
  have panel: "keeps_loop (fit p) (loop_of (panel_rejection p grp xs (pc_run_id ctx)))" for xs
    by (rule fit.loop_of_keeps [OF fit.panel_keeps [OF refl]])
  have finished: "keeps_loop (fit p) (loop_of (emit_phase_completed ctx grp g'))" for g'
    by (intro keeps_intros)
  show ?thesis
    unfolding execute_phase_group_def
    by (rule ends_bind [OF assms tasks group_tasks_end [OF assms]])
      (auto intro!: ends_bind [OF assms] ends_loop_of panel finished split: option.split)
qed

lemma groups_end:
  assumes "isolated_ports p"
  shows "ends (execute_groups p ctx g groups)"
proof (induction groups arbitrary: g)
  case (Cons grp groups)
  have group: "keeps_loop (fit p) (execute_phase_group p ctx grp groups g)"
    by (rule fit.group_keeps [OF refl TrueI])
  have gate: "keeps_loop (fit p) (loop_of (pause_for_human_gate p ctx ph xs ys))" for ph xs ys by (intro keeps_intros)
  have held: "keeps_loop (fit p) (loop_of (pause_if_requested p ctx xs ys))" for xs ys by (intro keeps_intros)
  have started: "keeps_loop (fit p) (loop_of (emit_phase_started ctx grp))" by (intro keeps_intros)
  have rest: "ends (case x of (out, g') \<Rightarrow>
      if out \<noteq> None then loop_return (out, g') else execute_groups p ctx g' groups)" for x
    by (cases x) (simp add: Cons.IH ends_loop_of)
  show ?case
    unfolding execute_groups.simps
    by (intro ends_bind [OF assms] ends_if ends_loop_of gate held started group group_ends [OF assms] rest)
qed (simp add: ends_loop_of)

lemma pass_ends:
  assumes "isolated_ports p"
  shows "ends (execute_one_pass p ctx specs)"
proof -
  have "keeps_loop (fit p) (execute_groups p ctx g (phase_groups specs))" for g
    by (rule fit.groups_keep [OF refl]) (auto intro: groups_of_one_phase)
  then show ?thesis
    unfolding execute_one_pass_def
    by (rule ends_bind [OF assms _ groups_end [OF assms]]) (auto simp: ends_loop_of Let_def split: option.split)
qed

lemma pass_fit: "keeps_loop (fit p) (execute_one_pass p ctx specs)"
  by (rule fit.pass_keeps [OF refl]) simp

section \<open>The rounds end\<close>

lemma ends_lift:
  assumes "\<And>a. r = Inr a \<Longrightarrow> ends (f a)"
  shows "ends (bind_loop (loop_of (lift_act r)) f)"
  using assms by (cases r) (auto simp: ends_def bind_loop_def loop_of_def lift_act_def)

lemma driver_record_continue:
  assumes "driver_record others k outputs ids d = Inr (dec, d')" and "\<not> sd_stop dec"
  shows "ls_loop (rd_state d') = ls_loop (rd_state d)" "rd_rounds d' = rd_rounds d @ [k]"
    "int k < rl_max_rounds (ls_loop (rd_state d))"
  using assms
  by (auto simp: driver_record_def decide_def record_round_def evaluate_stop_def Let_def bind_res_Inr_iff split: if_splits)

lemma rounds_end:
  assumes "isolated_ports p" and "0 < n"
    and "rl_max_rounds (ls_loop (rd_state d)) \<le> int (length (rd_rounds d)) + int n"
  shows "ends (execute_rounds n others p ctx specs d)"
  using assms(2,3)
proof (induction n arbitrary: d)
  case (Suc n)
  have specs: "keeps_loop (fit p) (loop_of (round_specs p l k ps specs))" for l k ps by (intro keeps_intros)
  have payload: "keeps_loop (fit p) (loop_of (lift_act r))" for r :: "orch_payload res" by (intro keeps_intros)
  have emit: "keeps_loop (fit p) (loop_of (emit a b c e g))" for a b c e g by (intro keeps_intros)
  have more: "ends (execute_rounds n others p ctx specs d')"
    if k: "next_round d = Inr k" and d': "driver_record others k out ids d = Inr (dec, d')" "\<not> sd_stop dec" for k out ids dec d'
  proof (rule Suc.IH)
    note cont = driver_record_continue [OF d'] and k' = next_round_Inr [OF k]
    show "0 < n" using cont(3) k' Suc.prems(2) by linarith
    show "rl_max_rounds (ls_loop (rd_state d')) \<le> int (length (rd_rounds d')) + int n"
      using cont k' Suc.prems(2) by simp
  qed
  show ?case
    unfolding execute_rounds.simps(2) [abs_def]
    by (intro ends_lift ends_bind [OF assms(1)] ends_loop_of specs pass_fit pass_ends [OF assms(1)])
      (auto intro!: ends_lift ends_bind [OF assms(1)] ends_loop_of payload emit more split: prod.split)
qed simp

lemma phases_end:
  assumes "isolated_ports p" and "\<And>l. l \<in> set loops \<Longrightarrow> 1 \<le> rl_max_rounds l" and "keeps (fit p) resolve"
  shows "ends (execute_phases others p ctx loops resolved pending resolve)"
proof (cases loops)
  case Nil
  then show ?thesis
    using pass_ends [OF assms(1)] assms(3)
    by (auto simp: execute_phases_def intro!: ends_bind [OF assms(1)] ends_loop_of keeps_intros)
next
  case (Cons l ls)
  have "ends (execute_rounds (round_fuel l) others p ctx resolved (driver_start l))"
    using assms(2) [of l] Cons by (intro rounds_end [OF assms(1)]) (simp_all add: round_fuel_def driver_start_def)
  then show ?thesis by (simp add: execute_phases_def Cons)
qed

section \<open>The service returns\<close>

lemma engine_ok_settle:
  assumes "\<And>r. tr_task_id (g r) = tr_task_id r" and "\<And>r. tr_fence_seq (g r) = tr_fence_seq r" and "engine_ok st"
  shows "engine_ok (settle tid g ty p run eid oc cr st)"
  using assms(2,3) by (auto simp: engine_ok_def task_of_settle [OF assms(1)])

lemma recover_rows_ok: "recover_rows rs i clk uid st = (res, st') \<Longrightarrow> engine_ok st \<Longrightarrow> engine_ok st'"
  by (induction rs arbitrary: i st)
    (auto simp: recover_one_settle engine_ok_settle split: option.splits)

lemma recover_ok: "recover_expired_leases clk uid st = (res, st') \<Longrightarrow> engine_ok st \<Longrightarrow> engine_ok st'"
  by (auto simp: recover_expired_leases_def log_ok_def engine_ok_db [OF db_log(1)] dest: recover_rows_ok
      split: if_splits prod.splits sum.splits)

lemma cancel_rows_ok: "cancel_rows rows run i clk uid st = (n, st') \<Longrightarrow> engine_ok st \<Longrightarrow> engine_ok st'"
  by (induction rows arbitrary: i st) (auto simp: cancel_row_settle engine_ok_settle split: if_splits)

text \<open>Compilation, freezing and the rest are other systems too; a loop is declared with at least one round.\<close>

definition isolated_service :: "('w, 'x) run_service \<Rightarrow> bool" where
  "isolated_service sv =
     (isolated_ports (sv_ports sv) \<and> outside (sv_compile sv) \<and> outside (sv_direction sv) \<and>
      (\<forall>r plan report. outside (sv_freeze sv r plan report)) \<and> (\<forall>cx. outside (sv_refreeze sv cx)) \<and>
      (\<forall>r t s. outside (sv_fingerprint sv r t s)) \<and>
      (\<forall>l\<in>set (sv_loops sv). round_loop_post_init l = Inr l))"

lemma isolated_serviceD:
  assumes "isolated_service sv"
  shows "isolated_ports (sv_ports sv)" "l \<in> set (sv_loops sv) \<Longrightarrow> 1 \<le> rl_max_rounds l"
    "keeps (fit p) (sv_compile sv)" "keeps (fit p) (sv_direction sv)" "keeps (fit p) (sv_freeze sv r plan report)"
    "keeps (fit p) (sv_refreeze sv cx)" "keeps (fit p) (sv_fingerprint sv r t s)"
proof -
  have out: "keeps (fit p) m" if "outside m" for m :: "('a, 'z) act"
    by (rule outside_keeps [OF _ that]) (simp add: fitI)
  show "isolated_ports (sv_ports sv)" "keeps (fit p) (sv_compile sv)" "keeps (fit p) (sv_direction sv)"
    "keeps (fit p) (sv_freeze sv r plan report)" "keeps (fit p) (sv_refreeze sv cx)"
    "keeps (fit p) (sv_fingerprint sv r t s)"
    using assms by (auto simp: isolated_service_def intro!: out)
  show "1 \<le> rl_max_rounds l" if "l \<in> set (sv_loops sv)"
  proof -
    have "round_loop_post_init l = Inr l" using that assms by (simp add: isolated_service_def)
    then show ?thesis by (auto simp: round_loop_post_init_def split: if_splits)
  qed
qed

lemma run_fit: "keeps_loop (fit (sv_ports sv)) (execute_run sv cx pending)"
  unfolding keeps_loop_def
proof (intro allI impI)
  fix w res w' assume run: "execute_run sv cx pending w = Some (res, w')"
  have hold: "keeps (fit (sv_ports sv)) (hold_specs cx out)" for out
    by (auto simp: keeps_def hold_specs_def Let_def intro!: fitI)
  have "keeps_loop (fit (sv_ports sv)) (bind_loop (run_body sv cx pending) (\<lambda>out. loop_of (hold_specs cx out)))"
    by (intro keeps_intros hold fit.body_keeps [OF refl TrueI refl])
  from keeps_loopD [OF this run [unfolded execute_run_eq]] show "fit (sv_ports sv) w w'" by (simp add: fit_def)
qed

lemma run_ends:
  assumes "isolated_service sv"
  shows "ends (execute_run sv cx pending)"
proof -
  note iso = isolated_serviceD [OF assms]
  have body: "ends (run_body sv cx pending)"
    unfolding run_body_def
    by (intro ends_bind [OF iso(1)] ends_loop_of ends_lift phases_end [OF iso(1)]) (auto intro!: keeps_intros iso(2))
  have "ends (bind_loop (run_body sv cx pending) (\<lambda>out. loop_of (hold_specs cx out)))"
    by (intro ends_bind [OF iso(1)] ends_loop_of fit.body_keeps [OF refl TrueI refl] body)
  then show ?thesis by (simp add: ends_def execute_run_eq)
qed

lemma release_if_fit: "keeps (fit p) (release_if_terminal p' run s)"
  by (auto simp: keeps_def release_if_terminal_def release_refs_def Let_def intro!: fitI split: prod.split)

lemma context_fit:
  assumes "isolated_service sv"
  shows "keeps_loop (fit (sv_ports sv)) (execute_with_context sv cx pending)"
  unfolding execute_with_context_def Let_def
  by (intro keeps_intros run_fit release_if_fit isolated_serviceD(7) [OF assms])

lemma context_ends:
  assumes "isolated_service sv"
  shows "ends (execute_with_context sv cx pending)"
  unfolding execute_with_context_def Let_def
  by (intro ends_bind [OF isolated_serviceD(1) [OF assms]] ends_loop_of run_fit run_ends [OF assms] keeps_intros
      release_if_fit isolated_serviceD(7) [OF assms])

end
