(* ===== verification/Run_Books.thy ===== *)
theory Run_Books
  imports Run_Totality Read_Properties
begin

text \<open>
  What a pass does with the tasks it is given, and what the service shelves. \<open>gives\<close> speaks of the
  result of an action as \<open>keeps\<close> does of the world; \<open>stops_with\<close> says how a pass that does not come
  to its end divides its specs into those it has recorded and those it hands back.
\<close>

section \<open>Results of actions\<close>

definition gives :: "('a \<Rightarrow> bool) \<Rightarrow> ('w, 'a) act \<Rightarrow> bool" where
  "gives Q m = (\<forall>w a w'. m w = (Inr a, w') \<longrightarrow> Q a)"

definition gives_loop :: "('a \<Rightarrow> bool) \<Rightarrow> ('w, 'a) loop_act \<Rightarrow> bool" where
  "gives_loop Q m = (\<forall>w a w'. m w = Some (Inr a, w') \<longrightarrow> Q a)"

lemma givesD: "gives Q m \<Longrightarrow> m w = (Inr a, w') \<Longrightarrow> Q a"
  by (auto simp: gives_def)

lemma gives_loopD: "gives_loop Q m \<Longrightarrow> m w = Some (Inr a, w') \<Longrightarrow> Q a"
  by (auto simp: gives_loop_def)

lemma gives_return: "Q a \<Longrightarrow> gives Q (return_act a)"
  by (simp add: gives_def return_act_def)

lemma gives_raise: "gives Q (raise_act e)"
  by (simp add: gives_def raise_act_def)

lemma gives_bind: "(\<And>a. gives Q (f a)) \<Longrightarrow> gives Q (bind_act m f)"
  by (auto simp: gives_def bind_act_def split: prod.splits sum.splits)

lemma gives_then: "gives P m \<Longrightarrow> (\<And>a. P a \<Longrightarrow> gives Q (f a)) \<Longrightarrow> gives Q (bind_act m f)"
  by (auto simp: gives_def bind_act_def split: prod.splits sum.splits) blast

lemma gives_if: "(b \<Longrightarrow> gives Q m) \<Longrightarrow> (\<not> b \<Longrightarrow> gives Q n) \<Longrightarrow> gives Q (if b then m else n)"
  by simp

lemma gives_loop_of: "gives Q m \<Longrightarrow> gives_loop Q (loop_of m)"
  by (simp add: gives_def gives_loop_def loop_of_def)

lemma gives_bind_loop: "(\<And>a. gives_loop Q (f a)) \<Longrightarrow> gives_loop Q (bind_loop m f)"
  by (auto simp: gives_loop_def bind_loop_def split: option.splits sum.splits)

lemma gives_loop_if: "gives_loop Q m \<Longrightarrow> gives_loop Q n \<Longrightarrow> gives_loop Q (if b then m else n)"
  by simp

lemma bind_loop_InrE:
  assumes "bind_loop m f w = Some (Inr b, w')"
  obtains a w1 where "m w = Some (Inr a, w1)" "f a w1 = Some (Inr b, w')"
  using assms by (auto simp: bind_loop_def split: option.splits sum.splits)

lemma bind_act_loop_InrE:
  assumes "bind_loop (loop_of m) f w = Some (Inr b, w')"
  obtains a w1 where "m w = (Inr a, w1)" "f a w1 = Some (Inr b, w')"
  using assms by (auto simp: bind_loop_def loop_of_def split: sum.splits prod.splits)

lemma loop_of_Inr: "loop_of m w = Some (r, w') \<longleftrightarrow> m w = (r, w')"
  by (auto simp: loop_of_def)

lemma loop_return_Inr: "loop_return a w = Some (r, w') \<longleftrightarrow> r = Inr a \<and> w' = w"
  by (auto simp: loop_return_def loop_of_def return_act_def)

section \<open>A step fails with a failed run\<close>

definition fails_only :: "phase_step \<Rightarrow> bool" where
  "fails_only s = (\<forall>f. ps_failure s = Some f \<longrightarrow> ro_state f = R_FAILED)"

lemma fail_run_gives: "gives (\<lambda>out. ro_state out = R_FAILED) (fail_run p r m s)"
  unfolding gives_def fail_run_def by (auto simp: bind_act_def emit_def return_act_def run_result_def)

lemma plain_fails [simp]: "fails_only (plain_step\<lparr>ps_tolerated := x, ps_verdict := v\<rparr>)"
    "fails_only (plain_step\<lparr>ps_handoff := h, ps_verdict := v\<rparr>)" "fails_only (plain_step\<lparr>ps_retry_deferred := b\<rparr>)"
  by (simp_all add: fails_only_def plain_step_def)

lemma failure_step_gives: "gives fails_only (failure_step p ctx t c m s j)"
  unfolding failure_step_def
  by (auto simp: fails_only_def plain_step_def intro!: gives_bind gives_if gives_then [OF fail_run_gives] gives_return)

lemma finish_gives: "gives fails_only (finish_task_step p ctx t sc reg gate producer negative)"
  unfolding finish_task_step_def by (intro gives_bind gives_return plain_fails)

lemma rejected_gives: "gives fails_only (rejected_step p ctx t c gate j)"
  by (simp add: rejected_step_def failure_step_gives)

lemma register_gives: "gives fails_only (register_and_gate p ctx t c sc r carry)"
proof -
  have "fails_only (s\<lparr>ps_skipped := a, ps_chain_outputs := b, ps_annotations := d\<rparr>)" if "fails_only s" for s a b d
    using that by (simp add: fails_only_def)
  then show ?thesis
    unfolding register_and_gate_def
    by (auto intro!: gives_bind gives_if gives_then [OF finish_gives] gives_return rejected_gives failure_step_gives
        split: sum.split)
qed

lemma product_gives: "gives fails_only (register_and_gate_product p ctx t c sc x e)"
  unfolding register_and_gate_product_def
  by (auto intro!: gives_bind finish_gives rejected_gives split: prod.split)

lemma one_task_gives: "gives_loop fails_only (execute_one_task p ctx t c sc)"
proof -
  have "gives fails_only (failure_or_deferred p ctx t c r)" for r :: "'b task_result"
    by (auto simp: failure_or_deferred_def intro!: gives_return failure_step_gives)
  moreover have "gives fails_only (bind_act (build_session_carry p t sc cap) (\<lambda>carry.
        case carry of Inl why \<Rightarrow> failure_step p ctx t c why True None
        | Inr k \<Rightarrow> register_and_gate p ctx t c sc s k))" for cap s
    by (auto intro!: gives_bind failure_step_gives register_gives split: sum.split)
  ultimately show ?thesis
    unfolding execute_one_task_def
    by (auto intro!: gives_bind_loop gives_loop_of failure_step_gives product_gives gives_raise
        split: option.split)
qed

section \<open>The books\<close>

text \<open>Below the pass nobody shelves a run or hands specs back.\<close>

definition quiet :: "('w, 'x) phase_ports \<Rightarrow> 'w run_world \<Rightarrow> 'w run_world \<Rightarrow> bool" where
  "quiet p w w' = (isolated_ports p \<longrightarrow>
     rw_handed w' = rw_handed w \<and> rw_waiting w' = rw_waiting w \<and> rw_paused w' = rw_paused w)"

definition shelved_same :: "('w, 'x) phase_ports \<Rightarrow> 'w run_world \<Rightarrow> 'w run_world \<Rightarrow> bool" where
  "shelved_same p w w' = (isolated_ports p \<longrightarrow> rw_waiting w' = rw_waiting w \<and> rw_paused w' = rw_paused w)"

interpretation calls: call_frame "quiet p" for p :: "('w, 'x) phase_ports"
  by unfold_locales (auto simp: quiet_def)

lemma quiet_ports: "ports_keep (quiet p) p"
proof (cases "isolated_ports p")
  case True
  then show ?thesis by (rule isolated_ports_keep) (simp add: quiet_def)
qed (simp add: ports_keep_def keeps_def quiet_def)

interpretation quiet: pass_frame "quiet p" run p "\<lambda>_. True" for p :: "('w, 'x) phase_ports" and run
proof unfold_locales
  show "keeps_loop (quiet p) (execute_task p t c sc :: ('w, 'x task_result) loop_act)" for t c sc
    using quiet_ports [of p] by (intro calls.task_keeps) (simp_all add: ports_keep_def)
qed (auto simp: quiet_ports, auto simp: quiet_def)

lemma quiet_shelved:
  assumes "keeps_loop (quiet p) m"
  shows "keeps_loop (shelved_same p) m"
  using assms by (auto simp: keeps_loop_def quiet_def shelved_same_def)

interpretation shelves: run_frame "shelved_same p" run p "\<lambda>_. True" for p :: "('w, 'x) phase_ports" and run
proof unfold_locales
  show "keeps_loop (shelved_same p) (execute_task p t c sc :: ('w, 'x task_result) loop_act)" for t c sc
    by (rule quiet_shelved) (rule quiet.tasks, simp)
  show "ports_keep (shelved_same p) p"
  proof (cases "isolated_ports p")
    case True
    then show ?thesis by (rule isolated_ports_keep) (simp add: shelved_same_def)
  qed (simp add: ports_keep_def keeps_def shelved_same_def)
qed (auto simp: shelved_same_def)

lemma quietD:
  assumes "isolated_ports p" and "quiet p w w'"
  shows "rw_handed w' = rw_handed w"
  using assms by (simp add: quiet_def)

section \<open>A pass accounts for every task\<close>

definition stops_with ::
    "research_task list \<Rightarrow> task_spec list \<Rightarrow> run_outcome \<Rightarrow> 'w run_world \<Rightarrow> 'w run_world \<Rightarrow> bool" where
  "stops_with earlier specs out w w' =
     (ro_state out = R_FAILED \<and> rw_handed w' = rw_handed w \<or>
      ro_state out \<in> {R_PAUSED, R_WAITING_FOR_APPROVAL} \<and>
      (\<exists>d r. specs = d @ r \<and> r \<noteq> [] \<and> rw_handed w' = rw_handed w @ [r] \<and>
         map to_task (ro_tasks out) = earlier @ map fst d))"

lemma stops_later:
  assumes "stops_with (earlier @ map fst d) specs out w1 w'" and "rw_handed w1 = rw_handed w"
  shows "stops_with earlier (d @ specs) out w w'"
proof (cases "ro_state out = R_FAILED \<and> rw_handed w' = rw_handed w1")
  case False
  then obtain e r where "ro_state out \<in> {R_PAUSED, R_WAITING_FOR_APPROVAL}" "specs = e @ r" "r \<noteq> []"
    "rw_handed w' = rw_handed w1 @ [r]" "map to_task (ro_tasks out) = earlier @ map fst d @ map fst e"
    using assms(1) by (auto simp: stops_with_def)
  then show ?thesis using assms(2) unfolding stops_with_def by (intro disjI2) (auto intro!: exI [of _ "d @ e"])
qed (simp add: stops_with_def assms(2))

lemma stops_here:
  assumes "ro_state out \<in> {R_PAUSED, R_WAITING_FOR_APPROVAL}" and "specs \<noteq> []"
    and "rw_handed w' = rw_handed w @ [specs]" and "map to_task (ro_tasks out) = earlier"
  shows "stops_with earlier specs out w w'"
  using assms by (auto simp: stops_with_def)

lemma park_stops:
  assumes "park_for_retry ctx rest tail outcomes w = (Inr out, w')" and "rest \<noteq> []"
  shows "stops_with (map to_task outcomes) (rest @ concat tail) out w w'"
  using assms
  by (intro stops_here) (auto simp: park_for_retry_def bind_act_def on_pause_def return_act_def stopped_def run_result_def)

lemma held_stops:
  assumes "pause_if_requested p ctx remaining outcomes w = (Inr a, w')" and "concat remaining \<noteq> []"
  shows "case a of None \<Rightarrow> rw_handed w' = rw_handed w
    | Some out \<Rightarrow> stops_with (map to_task outcomes) (concat remaining) out w w'"
  using assms
  by (auto simp: pause_if_requested_def pause_requested_def engine_call_def engine_run_state_def lift_act_def
      bind_act_def on_pause_def return_act_def stopped_def run_result_def Let_def
      intro!: stops_here split: if_splits prod.splits sum.splits)

lemma gate_stops:
  assumes "pause_for_human_gate p ctx ph remaining outcomes w = (Inr a, w')" and "concat remaining \<noteq> []"
  shows "case a of None \<Rightarrow> rw_handed w' = rw_handed w
    | Some out \<Rightarrow> stops_with (map to_task outcomes) (concat remaining) out w w'"
  using assms
  by (auto simp: pause_for_human_gate_def approval_call_def lift_act_def emit_def
      bind_act_def on_pause_def return_act_def stopped_def run_result_def
      intro!: stops_here split: if_splits prod.splits sum.splits)

lemma recorded_tasks [simp]:
  "map to_task (gr_outcomes (record_tolerated g t m)) = map to_task (gr_outcomes g) @ [t]"
  "map to_task (gr_outcomes (record_rejection g t s)) = map to_task (gr_outcomes g) @ [t]"
  "map to_task (gr_outcomes (record_success g t s)) = map to_task (gr_outcomes g) @ [t]"
  by (simp_all add: record_tolerated_def tolerated_outcome_def record_rejection_def record_success_def)

definition runs_through ::
    "group_run \<Rightarrow> task_spec list \<Rightarrow> task_spec list \<Rightarrow> run_outcome option \<times> group_run \<Rightarrow> 'w run_world \<Rightarrow> 'w run_world \<Rightarrow> bool" where
  "runs_through g specs later res w w' =
     (case res of
        (None, g') \<Rightarrow> map to_task (gr_outcomes g') = map to_task (gr_outcomes g) @ map fst specs \<and>
                      rw_handed w' = rw_handed w
      | (Some out, _) \<Rightarrow> stops_with (map to_task (gr_outcomes g)) (specs @ later) out w w')"

lemma runs_later:
  assumes "runs_through g' specs later res w1 w'" and "rw_handed w1 = rw_handed w"
    and "map to_task (gr_outcomes g') = map to_task (gr_outcomes g) @ map fst d"
  shows "runs_through g (d @ specs) later res w w'"
  using assms stops_later by (auto simp: runs_through_def split: prod.splits option.splits)

lemma group_tasks_through:
  assumes iso: "isolated_ports p" and "run_group_tasks p ctx grp tail g rest w = Some (Inr res, w')"
  shows "runs_through g rest (concat tail) res w w'"
  using assms(2)
proof (induction rest arbitrary: g w)
  case Nil
  then show ?case by (simp add: loop_return_Inr runs_through_def)
next
  case (Cons s rest)
  obtain t c sc where s: "s = (t, c, sc)" by (cases s)
  let ?next = "(\<lambda>step.
     if ps_retry_deferred step
     then bind_loop (loop_of (park_for_retry ctx ((t, c, sc) # rest) tail (gr_outcomes g)))
            (\<lambda>out. loop_return (Some out, g))
     else case ps_tolerated step of
       Some message \<Rightarrow> run_group_tasks p ctx grp tail (record_tolerated g t message) rest
     | None \<Rightarrow>
         (case ps_failure step of
            Some failure \<Rightarrow>
              bind_loop (loop_of (lift_act (panel_plan grp))) (\<lambda>panel.
                if panel then run_group_tasks p ctx grp tail (record_rejection g t step) rest
                else loop_return (Some failure, g))
          | None \<Rightarrow> run_group_tasks p ctx grp tail (record_success g t step) rest))"
  from Cons.prems have "bind_loop (loop_of (with_contexts p t sc)) (\<lambda>sc'. bind_loop (execute_one_task p ctx t c sc') ?next) w =
      Some (Inr res, w')" by (simp only: s run_group_tasks.simps)
  then obtain sc' w1 where w1: "with_contexts p t sc w = (Inr sc', w1)"
    and run: "bind_loop (execute_one_task p ctx t c sc') ?next w1 = Some (Inr res, w')"
    by (rule bind_act_loop_InrE)
  from run obtain step w2 where w2: "execute_one_task p ctx t c sc' w1 = Some (Inr step, w2)"
    and after: "?next step w2 = Some (Inr res, w')"
    by (rule bind_loop_InrE)
  have same: "rw_handed w2 = rw_handed w"
    using quietD [OF iso keepsD [OF quiet.contexts_keeps w1]]
      quietD [OF iso keeps_loopD [OF quiet.one_task_keeps [OF refl TrueI] w2]] by simp
  have failure: "ro_state f = R_FAILED" if "ps_failure step = Some f" for f
    using gives_loopD [OF one_task_gives w2] that by (simp add: fails_only_def)
  have on: "runs_through g (s # rest) (concat tail) res w w'"
    if "run_group_tasks p ctx grp tail g' rest w3 = Some (Inr res, w')" "rw_handed w3 = rw_handed w"
      "map to_task (gr_outcomes g') = map to_task (gr_outcomes g) @ [t]" for g' w3
    using runs_later [of g' rest "concat tail" res w3 w' w g "[s]"] Cons.IH [OF that(1)] that(2,3) s by simp
  show ?case
  proof (cases "ps_retry_deferred step")
    case True
    with after obtain out w3 where "park_for_retry ctx ((t, c, sc) # rest) tail (gr_outcomes g) w2 = (Inr out, w3)"
      "res = (Some out, g)" "w' = w3"
      by (auto elim!: bind_act_loop_InrE simp: loop_return_Inr)
    then show ?thesis
      using park_stops same stops_later [of _ "[]"] by (fastforce simp: runs_through_def s)
  next
    case False
    show ?thesis
    proof (cases "ps_tolerated step")
      case None
      show ?thesis
      proof (cases "ps_failure step")
        case (Some f)
        with after False None obtain b w3 where b: "lift_act (panel_plan grp) w2 = (Inr b, w3)"
          and res: "(if b then run_group_tasks p ctx grp tail (record_rejection g t step) rest
            else loop_return (Some f, g)) w3 = Some (Inr res, w')"
          by (auto elim!: bind_act_loop_InrE)
        have "w3 = w2" using b by (auto simp: lift_act_def split: sum.splits)
        then show ?thesis
          using res same on failure [OF Some]
          by (cases b) (auto simp: loop_return_Inr runs_through_def stops_with_def)
      qed (use after False None same on in simp)
    qed (use after False same on in simp)
  qed
qed

lemma panel_gives: "gives (\<lambda>a. \<forall>f. a = Some f \<longrightarrow> ro_state f = R_FAILED) (panel_rejection p grp outcomes r)"
  unfolding panel_rejection_def Let_def
  by (intro gives_if gives_return gives_then [OF fail_run_gives]) simp_all

lemma group_through:
  assumes iso: "isolated_ports p" and "execute_phase_group p ctx grp tail g w = Some (Inr res, w')"
  shows "runs_through g grp (concat tail) res w w'"
proof -
  from assms(2) [unfolded execute_phase_group_def] obtain a w1
    where tasks: "run_group_tasks p ctx grp tail g grp w = Some (Inr a, w1)"
    and after: "(case a of (out, g1) \<Rightarrow> case out of
         Some _ \<Rightarrow> loop_return (out, g1)
       | None \<Rightarrow>
           bind_loop (loop_of (panel_rejection p grp (gr_outcomes g1) (pc_run_id ctx))) (\<lambda>rejection.
             case rejection of
               Some _ \<Rightarrow> loop_return (rejection, g1)
             | None \<Rightarrow> bind_loop (loop_of (emit_phase_completed ctx grp g1)) (\<lambda>_. loop_return (None, g1)))) w1 =
      Some (Inr res, w')"
    by (rule bind_loop_InrE)
  have through: "runs_through g grp (concat tail) a w w1" by (rule group_tasks_through [OF iso tasks])
  obtain out g1 where a: "a = (out, g1)" by (cases a)
  show ?thesis
  proof (cases out)
    case (Some o1)
    then show ?thesis using after through a by (simp add: loop_return_Inr)
  next
    case None
    from after [unfolded a None, simplified] obtain rejection w2
      where panel: "panel_rejection p grp (gr_outcomes g1) (pc_run_id ctx) w1 = (Inr rejection, w2)"
      and last: "(case rejection of
               Some _ \<Rightarrow> loop_return (rejection, g1)
             | None \<Rightarrow> bind_loop (loop_of (emit_phase_completed ctx grp g1)) (\<lambda>_. loop_return (None, g1))) w2 =
          Some (Inr res, w')"
      by (rule bind_act_loop_InrE)
    have same: "rw_handed w2 = rw_handed w1"
      by (rule quietD [OF iso keepsD [OF quiet.panel_keeps [OF refl] panel]])
    show ?thesis
    proof (cases rejection)
      case (Some f)
      then have "ro_state f = R_FAILED" using givesD [OF panel_gives panel] by simp
      then show ?thesis
        using last through same a None Some by (simp add: runs_through_def stops_with_def loop_return_Inr)
    next
      case None
      from last [unfolded this, simplified] obtain u w3 where "emit_phase_completed ctx grp g1 w2 = (Inr u, w3)"
        "loop_return (None, g1) w3 = Some (Inr res, w')"
        by (rule bind_act_loop_InrE)
      moreover from this(1) have "rw_handed w3 = rw_handed w2"
        by (rule quietD [OF iso keepsD [OF quiet.completed_keeps]])
      ultimately show ?thesis
        using through same a \<open>out = None\<close> by (simp add: runs_through_def loop_return_Inr)
    qed
  qed
qed

lemma groups_through:
  assumes iso: "isolated_ports p" and "\<And>grp. grp \<in> set groups \<Longrightarrow> grp \<noteq> []"
    and "execute_groups p ctx g groups w = Some (Inr res, w')"
  shows "runs_through g (concat groups) [] res w w'"
  using assms(2,3)
proof (induction groups arbitrary: g w)
  case Nil
  then show ?case by (simp add: loop_return_Inr runs_through_def)
next
  case (Cons grp tail)
  let ?rest = "\<lambda>(out, g'). if out \<noteq> None then loop_return (out, g') else execute_groups p ctx g' tail"
  let ?started = "bind_loop (loop_of (emit_phase_started ctx grp)) (\<lambda>_.
      bind_loop (execute_phase_group p ctx grp tail g) ?rest)"
  let ?asked = "bind_loop (loop_of (pause_if_requested p ctx (grp # tail) (gr_outcomes g))) (\<lambda>held.
      if held \<noteq> None then loop_return (held, g) else ?started)"
  have some: "concat (grp # tail) \<noteq> []" using Cons.prems(1) [of grp] by simp
  from Cons.prems(2) have "bind_loop (loop_of (pause_for_human_gate p ctx (phase_of (hd grp)) (grp # tail) (gr_outcomes g)))
      (\<lambda>waiting. if waiting \<noteq> None then loop_return (waiting, g) else ?asked) w = Some (Inr res, w')"
    by (simp only: execute_groups.simps)
  then obtain waiting w1
    where gate: "pause_for_human_gate p ctx (phase_of (hd grp)) (grp # tail) (gr_outcomes g) w = (Inr waiting, w1)"
    and asked: "(if waiting \<noteq> None then loop_return (waiting, g) else ?asked) w1 = Some (Inr res, w')"
    by (rule bind_act_loop_InrE)
  note gate = gate_stops [OF gate some]
  show ?case
  proof (cases waiting)
    case (Some out)
    then show ?thesis using gate asked by (simp add: runs_through_def loop_return_Inr)
  next
    case None
    with asked have "?asked w1 = Some (Inr res, w')" by simp
    then obtain held w2 where held: "pause_if_requested p ctx (grp # tail) (gr_outcomes g) w1 = (Inr held, w2)"
      and started: "(if held \<noteq> None then loop_return (held, g) else ?started) w2 = Some (Inr res, w')"
      by (rule bind_act_loop_InrE)
    note held = held_stops [OF held some]
    have w1: "rw_handed w1 = rw_handed w" using gate None by simp
    show ?thesis
    proof (cases held)
      case (Some out)
      then show ?thesis
        using held started w1 stops_later [of _ "[]" "concat (grp # tail)"]
        by (auto simp: runs_through_def loop_return_Inr)
    next
      case None
      with started have "?started w2 = Some (Inr res, w')" by simp
      then obtain u w3 where emit: "emit_phase_started ctx grp w2 = (Inr u, w3)"
        and exec: "bind_loop (execute_phase_group p ctx grp tail g) ?rest w3 = Some (Inr res, w')"
        by (rule bind_act_loop_InrE)
      from exec obtain a w4 where exec: "execute_phase_group p ctx grp tail g w3 = Some (Inr a, w4)"
        and rest: "?rest a w4 = Some (Inr res, w')"
        by (rule bind_loop_InrE)
      have w3: "rw_handed w3 = rw_handed w"
        using quietD [OF iso keepsD [OF quiet.started_keeps emit]] held None w1 by simp
      note exec = group_through [OF iso exec]
      obtain out g1 where a: "a = (out, g1)" by (cases a)
      show ?thesis
      proof (cases out)
        case (Some o1)
        then show ?thesis
          using rest exec a w3 stops_later [of _ "[]" "concat (grp # tail)"]
          by (auto simp: runs_through_def loop_return_Inr)
      next
        case None
        with rest a have "execute_groups p ctx g1 tail w4 = Some (Inr res, w')" by simp
        from Cons.IH [OF _ this] Cons.prems(1) have "runs_through g1 (concat tail) [] res w4 w'" by simp
        then show ?thesis
          using runs_later [of g1 "concat tail" "[]" res w4 w' w g grp] exec a None w3
          by (simp add: runs_through_def)
      qed
    qed
  qed
qed

definition completes_with ::
    "task_spec list \<Rightarrow> run_outcome \<Rightarrow> bool" where
  "completes_with specs out =
     (ro_state out = R_SUCCEEDED \<and> map to_task (ro_tasks out) = map fst specs \<and>
        (\<forall>x\<in>set (ro_tasks out). to_failure_policy x = None) \<or>
      ro_state out = R_DEGRADED \<and> ro_tasks out \<noteq> [] \<and>
        (\<exists>outcomes. map to_task outcomes = map fst specs \<and>
           ro_tasks out = filter (\<lambda>x. to_failure_policy x \<noteq> None) outcomes))"

lemma pass_accounts:
  assumes iso: "isolated_ports p" and "execute_one_pass p ctx specs w = Some (Inr out, w')"
  shows "completes_with specs out \<and> rw_handed w' = rw_handed w \<or> stops_with [] specs out w w'"
proof -
  let ?g = "\<lparr>gr_outcomes = [], gr_handoffs = []\<rparr>"
  from assms(2) [unfolded execute_one_pass_def] obtain a w1
    where groups: "execute_groups p ctx ?g (phase_groups specs) w = Some (Inr a, w1)"
    and fin: "(case a of (out, run) \<Rightarrow> case out of Some r \<Rightarrow> loop_return r
       | None \<Rightarrow> (let tolerating = filter (\<lambda>x. to_failure_policy x \<noteq> None) (gr_outcomes run)
            in if tolerating \<noteq> [] then loop_of (degrade_run ctx tolerating)
               else loop_of (succeed_run ctx run))) w1 = Some (Inr out, w')"
    by (rule bind_loop_InrE)
  have through: "runs_through ?g specs [] a w w1"
    using groups_through [OF iso _ groups] groups_of_one_phase by (fastforce simp: one_phase_def)
  obtain res g1 where a: "a = (res, g1)" by (cases a)
  show ?thesis
  proof (cases res)
    case (Some o1)
    then show ?thesis using fin through a by (simp add: runs_through_def loop_return_Inr)
  next
    case None
    then show ?thesis
      using fin through a
      by (auto simp: runs_through_def completes_with_def Let_def loop_of_Inr degrade_run_def succeed_run_def bind_act_def
          emit_def return_act_def stopped_def run_result_def filter_empty_conv split: if_splits)
  qed
qed

section \<open>The rounds\<close>

definition round_ids :: "(json \<Rightarrow> string) \<Rightarrow> round_loop \<Rightarrow> run_outcome \<Rightarrow> string list" where
  "round_ids others l out = ids_from_step_outputs others (filter is_mapping (ro_chain_outputs out)) (rl_ids_path l)"

definition round_news :: "(json \<Rightarrow> string) \<Rightarrow> round_loop \<Rightarrow> run_outcome list \<Rightarrow> nat \<Rightarrow> string list" where
  "round_news others l outs i =
     filter (\<lambda>x. x \<notin> set (concat (map (round_ids others l) (take i outs)))) (round_ids others l (outs ! i))"

definition round_fact_of :: "(json \<Rightarrow> string) \<Rightarrow> round_loop \<Rightarrow> run_outcome list \<Rightarrow> nat \<Rightarrow> round_fact" where
  "round_fact_of others l outs i =
     \<lparr>rf_round = Suc i, rf_ids = round_ids others l (outs ! i),
      rf_seen_before = keep_first [] (concat (map (round_ids others l) (take i outs)))\<rparr>"

definition round_facts :: "(json \<Rightarrow> string) \<Rightarrow> round_loop \<Rightarrow> run_outcome list \<Rightarrow> round_fact list" where
  "round_facts others l outs = map (round_fact_of others l outs) [0..<length outs]"

lemma new_ids_fact: "new_ids (round_fact_of others l outs i) = round_news others l outs i"
  by (simp add: new_ids_def round_fact_of_def round_news_def)

lemma round_facts_append:
  "round_facts others l (outs @ [x]) = round_facts others l outs @ [round_fact_of others l (outs @ [x]) (length outs)]"
  by (simp add: round_facts_def round_fact_of_def nth_append)

lemma round_news_append: "i < length outs \<Longrightarrow> round_news others l (outs @ [x]) i = round_news others l outs i"
  by (simp add: round_news_def nth_append)

lemma ids_of_facts: "map rf_ids (round_facts others l outs) = map (round_ids others l) outs"
  by (rule nth_equalityI) (simp_all add: round_facts_def round_fact_of_def)

definition driven :: "(json \<Rightarrow> string) \<Rightarrow> round_loop \<Rightarrow> run_outcome list \<Rightarrow> round_driver \<Rightarrow> bool" where
  "driven others l outs d =
     (ls_loop (rd_state d) = l \<and> ls_facts (rd_state d) = round_facts others l outs \<and> length (rd_rounds d) = length outs)"

lemma driven_record:
  assumes "driven others l outs d" and "next_round d = Inr k"
    and "driver_record others k (ro_chain_outputs out) ids d = Inr (dec, d')"
  shows "driven others l (outs @ [out]) d'"
    and "dec = evaluate_stop (rl_stop_when l) (round_fact_of others l (outs @ [out]) (length outs)) (Suc (length outs)) (rl_max_rounds l)"
    and "sd_stop dec \<Longrightarrow> ls_stopped_by (rd_state d') = sd_kind dec"
    and "ls_rounds_run (rd_state d') = Suc (length outs)"
proof -
  have k: "k = Suc (length outs)" using next_round_Inr [OF assms(2)] assms(1) by (simp add: driven_def)
  have fact: "\<lparr>rf_round = k, rf_ids = ids_from_step_outputs others (filter is_mapping (ro_chain_outputs out)) (rl_ids_path l),
      rf_seen_before = seen_ids (rd_state d)\<rparr> = round_fact_of others l (outs @ [out]) (length outs)"
    using assms(1) by (simp add: k driven_def round_fact_of_def round_ids_def seen_ids_def ids_of_facts)
  show "driven others l (outs @ [out]) d'"
    "dec = evaluate_stop (rl_stop_when l) (round_fact_of others l (outs @ [out]) (length outs)) (Suc (length outs)) (rl_max_rounds l)"
    "sd_stop dec \<Longrightarrow> ls_stopped_by (rd_state d') = sd_kind dec"
    "ls_rounds_run (rd_state d') = Suc (length outs)"
    using assms(1,3) fact
    by (auto simp: driver_record_def decide_def record_round_def driven_def Let_def round_facts_append k bind_res_Inr_iff
        round_fact_of_def split: if_splits)
qed

text \<open>
  The passes of the rounds from \<open>k\<close> on, one after the other: each runs the specs the round makes of
  the resolved ones, in the world the one before left.
\<close>

fun round_passes ::
    "('w, 'x) phase_ports \<Rightarrow> phase_context \<Rightarrow> round_loop \<Rightarrow> task_spec list \<Rightarrow> nat \<Rightarrow> run_outcome list \<Rightarrow>
     'w run_world \<Rightarrow> 'w run_world \<Rightarrow> bool" where
  "round_passes p ctx l specs k [] w w' \<longleftrightarrow> w' = w"
| "round_passes p ctx l specs k (x # xs) w w' \<longleftrightarrow>
     (\<exists>prefixes ys w1 w2. round_specs p l k prefixes specs w = (Inr ys, w1) \<and>
        execute_one_pass p ctx ys w1 = Some (Inr x, w2) \<and> round_passes p ctx l specs (Suc k) xs w2 w')"

definition rounds_report ::
    "(json \<Rightarrow> string) \<Rightarrow> phase_context \<Rightarrow> round_loop \<Rightarrow> run_outcome list \<Rightarrow> orch_payload \<Rightarrow> bool" where
  "rounds_report others ctx l outs payload =
     (let news = round_news others l outs (length outs - 1) in
      \<exists>skipped annotated kind criterion seen.
        payload = RoundsPayload (pc_run_id ctx) skipped annotated (rl_phases l) (length outs) kind criterion
          (rl_max_rounds l) news seen \<and>
        set seen = set (concat (map (round_ids others l) outs)) \<and>
        kind = (if news = [] then STOP_BY_CONCLUSION else STOP_BY_GUARD))"

lemma rounds_step:
  assumes "execute_rounds (Suc n) others p ctx specs d w = Some (Inr out, w')"
  obtains k xs w2 o1 w3 where "next_round d = Inr k"
    "round_specs p (ls_loop (rd_state d)) k (rd_prefixes d) specs w = (Inr xs, w2)"
    "execute_one_pass p ctx xs w2 = Some (Inr o1, w3)"
    "ro_state o1 \<noteq> R_SUCCEEDED \<and> out = o1 \<and> w' = w3 \<or>
     ro_state o1 = R_SUCCEEDED \<and>
     (\<exists>ids dec d'. driver_record others k (ro_chain_outputs o1) ids d = Inr (dec, d') \<and>
        (\<not> sd_stop dec \<and> execute_rounds n others p ctx specs d' w3 = Some (Inr out, w') \<or>
         sd_stop dec \<and> (\<exists>payload. rounds_payload (pc_run_id ctx) o1 (rd_state d') = Inr payload \<and>
           out = o1\<lparr>ro_rounds := Some payload\<rparr> \<and> rw_handed w' = rw_handed w3)))"
proof -
  let ?report = "\<lambda>o1 d'. bind_loop (loop_of (lift_act (rounds_payload (pc_run_id ctx) o1 (rd_state d')))) (\<lambda>payload.
          bind_loop (loop_of (emit RUN_COMPLETED payload (pc_run_id ctx) (pc_trace_id ctx) None)) (\<lambda>_.
            loop_return (o1\<lparr>ro_rounds := Some payload\<rparr>)))"
  let ?ids = "\<lambda>o1. map (rt_id \<circ> to_task) (ro_tasks o1)"
  let ?judge = "\<lambda>k o1. if ro_state o1 \<noteq> R_SUCCEEDED then loop_return o1
     else bind_loop (loop_of (lift_act (driver_record others k (ro_chain_outputs o1) (?ids o1) d))) (\<lambda>(dec, d').
       if \<not> sd_stop dec then execute_rounds n others p ctx specs d' else ?report o1 d')"
  from assms have "bind_loop (loop_of (lift_act (next_round d))) (\<lambda>k.
      bind_loop (loop_of (round_specs p (ls_loop (rd_state d)) k (rd_prefixes d) specs)) (\<lambda>xs.
      bind_loop (execute_one_pass p ctx xs) (?judge k))) w = Some (Inr out, w')" by (simp only: execute_rounds.simps)
  then obtain k w1 where k: "lift_act (next_round d) w = (Inr k, w1)"
    and "bind_loop (loop_of (round_specs p (ls_loop (rd_state d)) k (rd_prefixes d) specs)) (\<lambda>xs.
      bind_loop (execute_one_pass p ctx xs) (?judge k)) w1 = Some (Inr out, w')"
    by (rule bind_act_loop_InrE)
  then obtain xs w2 where xs: "round_specs p (ls_loop (rd_state d)) k (rd_prefixes d) specs w1 = (Inr xs, w2)"
    and "bind_loop (execute_one_pass p ctx xs) (?judge k) w2 = Some (Inr out, w')"
    by (auto elim: bind_act_loop_InrE)
  then obtain o1 w3 where pass: "execute_one_pass p ctx xs w2 = Some (Inr o1, w3)"
    and judge: "?judge k o1 w3 = Some (Inr out, w')"
    by (auto elim: bind_loop_InrE)
  have first: "next_round d = Inr k" "w1 = w" using k by (auto simp: lift_act_def split: sum.splits)
  show ?thesis
  proof (cases "ro_state o1 = R_SUCCEEDED")
    case False
    then show ?thesis using that first xs pass judge by (simp add: loop_return_Inr)
  next
    case True
    with judge obtain r w4 where r: "lift_act (driver_record others k (ro_chain_outputs o1) (?ids o1) d) w3 = (Inr r, w4)"
      and rest: "(case r of (dec, d') \<Rightarrow>
        if \<not> sd_stop dec then execute_rounds n others p ctx specs d' else ?report o1 d') w4 = Some (Inr out, w')"
      by (auto elim: bind_act_loop_InrE)
    obtain dec d' where d': "r = (dec, d')" by (cases r)
    have rec: "driver_record others k (ro_chain_outputs o1) (?ids o1) d = Inr (dec, d')" "w4 = w3"
      using r d' by (auto simp: lift_act_def split: sum.splits)
    have "\<not> sd_stop dec \<and> execute_rounds n others p ctx specs d' w3 = Some (Inr out, w') \<or>
         sd_stop dec \<and> (\<exists>payload. rounds_payload (pc_run_id ctx) o1 (rd_state d') = Inr payload \<and>
           out = o1\<lparr>ro_rounds := Some payload\<rparr> \<and> rw_handed w' = rw_handed w3)"
      using rest d' rec(2)
      by (cases "sd_stop dec")
        (auto elim!: bind_act_loop_InrE simp: lift_act_def emit_def loop_return_Inr split: sum.splits)
    with True rec(1) show ?thesis using xs first(2) by (intro that [OF first(1) _ pass]) blast+
  qed
qed

lemma rounds_through:
  assumes l: "rl_stop_when l = CONVERGED_NO_NEW_IDS" and "driven others l outs d"
    and "int (length outs) < rl_max_rounds l"
    and "\<And>i. i < length outs \<Longrightarrow> round_news others l outs i \<noteq> []"
    and "execute_rounds n others p ctx specs d w = Some (Inr out, w')" and succeeded: "ro_state out = R_SUCCEEDED"
  shows "\<exists>more last w3 payload. round_passes p ctx l specs (Suc (length outs)) (more @ [last]) w w3 \<and>
    (\<forall>x\<in>set (more @ [last]). ro_state x = R_SUCCEEDED) \<and>
    (let outs' = outs @ more @ [last] in
     int (length outs') \<le> rl_max_rounds l \<and>
     (\<forall>i < length outs' - 1. round_news others l outs' i \<noteq> []) \<and>
     (round_news others l outs' (length outs' - 1) \<noteq> [] \<longrightarrow> int (length outs') = rl_max_rounds l) \<and>
     out = last\<lparr>ro_rounds := Some payload\<rparr> \<and> rounds_report others ctx l outs' payload)"
  using assms(2-5)
proof (induction n arbitrary: outs d w)
  case (Suc n)
  obtain k xs w2 o1 w3 where k: "next_round d = Inr k"
    and xs: "round_specs p (ls_loop (rd_state d)) k (rd_prefixes d) specs w = (Inr xs, w2)"
    and pass: "execute_one_pass p ctx xs w2 = Some (Inr o1, w3)"
    and how: "ro_state o1 \<noteq> R_SUCCEEDED \<and> out = o1 \<and> w' = w3 \<or>
     ro_state o1 = R_SUCCEEDED \<and>
     (\<exists>ids dec d'. driver_record others k (ro_chain_outputs o1) ids d = Inr (dec, d') \<and>
        (\<not> sd_stop dec \<and> execute_rounds n others p ctx specs d' w3 = Some (Inr out, w') \<or>
         sd_stop dec \<and> (\<exists>payload. rounds_payload (pc_run_id ctx) o1 (rd_state d') = Inr payload \<and>
           out = o1\<lparr>ro_rounds := Some payload\<rparr> \<and> rw_handed w' = rw_handed w3)))"
    by (rule rounds_step [OF Suc.prems(4)])
  have ok: "ro_state o1 = R_SUCCEEDED" using how succeeded by auto
  from how ok obtain ids dec d' where d': "driver_record others k (ro_chain_outputs o1) ids d = Inr (dec, d')"
    and go: "\<not> sd_stop dec \<Longrightarrow> execute_rounds n others p ctx specs d' w3 = Some (Inr out, w')"
    and stop: "sd_stop dec \<Longrightarrow> \<exists>payload. rounds_payload (pc_run_id ctx) o1 (rd_state d') = Inr payload \<and>
           out = o1\<lparr>ro_rounds := Some payload\<rparr>"
    by auto
  have "ls_loop (rd_state d) = l" "k = Suc (length outs)"
    using Suc.prems(1) next_round_Inr [OF k] by (simp_all add: driven_def)
  then have here: "round_passes p ctx l specs (Suc (length outs)) (o1 # ys) w w4"
    if "round_passes p ctx l specs (Suc (Suc (length outs))) ys w3 w4" for ys w4
    using xs pass that by auto
  note d1 = driven_record [OF Suc.prems(1) k d']
  let ?outs = "outs @ [o1]"
  let ?news = "round_news others l ?outs (length outs)"
  have earlier: "round_news others l ?outs i \<noteq> []" if "i < length outs" for i
    using Suc.prems(3) [OF that] round_news_append [OF that] by simp
  show ?case
  proof (cases "sd_stop dec")
    case False
    then have "?news \<noteq> []" and more: "int (length ?outs) < rl_max_rounds l"
      using d1(2) l by (auto simp: evaluate_stop_def new_ids_fact split: if_splits)
    with earlier have "round_news others l ?outs i \<noteq> []" if "i < length ?outs" for i
      using that by (cases "i = length outs") auto
    from Suc.IH [OF d1(1) more this go [OF False]] obtain more last w4 payload where
      IH: "round_passes p ctx l specs (Suc (length ?outs)) (more @ [last]) w3 w4"
      "\<forall>x\<in>set (more @ [last]). ro_state x = R_SUCCEEDED"
      "let outs' = ?outs @ more @ [last] in
       int (length outs') \<le> rl_max_rounds l \<and> (\<forall>i < length outs' - 1. round_news others l outs' i \<noteq> []) \<and>
       (round_news others l outs' (length outs' - 1) \<noteq> [] \<longrightarrow> int (length outs') = rl_max_rounds l) \<and>
       out = last\<lparr>ro_rounds := Some payload\<rparr> \<and> rounds_report others ctx l outs' payload"
      by blast
    have "round_passes p ctx l specs (Suc (length outs)) ((o1 # more) @ [last]) w w4"
      using here [of "more @ [last]" w4] IH(1) by simp
    moreover have "\<forall>x\<in>set ((o1 # more) @ [last]). ro_state x = R_SUCCEEDED" using IH(2) ok by simp
    moreover have "outs @ (o1 # more) @ [last] = ?outs @ more @ [last]" by simp
    ultimately show ?thesis using IH(3) by metis
  next
    case True
    from stop [OF this] obtain payload where payload: "rounds_payload (pc_run_id ctx) o1 (rd_state d') = Inr payload"
      and out: "out = o1\<lparr>ro_rounds := Some payload\<rparr>" by auto
    have facts: "ls_facts (rd_state d') = round_facts others l ?outs" "ls_loop (rd_state d') = l"
      using d1(1) by (simp_all add: driven_def)
    have kind: "ls_stopped_by (rd_state d') = (if ?news = [] then STOP_BY_CONCLUSION else STOP_BY_GUARD)"
      and guard: "?news \<noteq> [] \<longrightarrow> int (length ?outs) = rl_max_rounds l"
      using d1(2,3) True l Suc.prems(2) by (auto simp: evaluate_stop_def new_ids_fact split: if_splits)
    have seen: "seen_ids (rd_state d') = keep_first [] (concat (map (round_ids others l) ?outs))"
      by (simp only: seen_ids_def facts ids_of_facts)
    have latest: "new_ids (List.last (ls_facts (rd_state d'))) = ?news"
      by (simp add: facts round_facts_append new_ids_fact)
    have report: "rounds_report others ctx l ?outs payload"
      using payload kind d1(4) seen latest
      by (auto simp: rounds_payload_def stop_payload_def rounds_report_def facts(2) Let_def split: if_splits)
    show ?thesis
      using Suc.prems(2) ok earlier guard out report here [of "[]" w3]
      by (intro exI [of _ "[]"] exI [of _ o1] exI [of _ w3] exI [of _ payload]) auto
  qed
qed simp

lemma rounds_account:
  fixes w :: "'w run_world"
  assumes iso: "isolated_ports p" and "execute_rounds n others p ctx specs d w = Some (Inr out, w')"
  shows "\<exists>k prefixes (w0 :: 'w run_world) xs w1. 1 \<le> k \<and> round_specs p (ls_loop (rd_state d)) k prefixes specs w0 = (Inr xs, w1) \<and>
    (completes_with xs out \<and> rw_handed w' = rw_handed w \<or> stops_with [] xs out w w')"
  using assms(2)
proof (induction n arbitrary: d w)
  case (Suc n)
  from Suc.prems show ?case
  proof (rule rounds_step)
    fix k xs w2 o1 w3
    assume k: "next_round d = Inr k" and xs: "round_specs p (ls_loop (rd_state d)) k (rd_prefixes d) specs w = (Inr xs, w2)"
      and pass: "execute_one_pass p ctx xs w2 = Some (Inr o1, w3)"
      and how: "ro_state o1 \<noteq> R_SUCCEEDED \<and> out = o1 \<and> w' = w3 \<or>
       ro_state o1 = R_SUCCEEDED \<and>
       (\<exists>ids dec d'. driver_record others k (ro_chain_outputs o1) ids d = Inr (dec, d') \<and>
          (\<not> sd_stop dec \<and> execute_rounds n others p ctx specs d' w3 = Some (Inr out, w') \<or>
           sd_stop dec \<and> (\<exists>payload. rounds_payload (pc_run_id ctx) o1 (rd_state d') = Inr payload \<and>
             out = o1\<lparr>ro_rounds := Some payload\<rparr> \<and> rw_handed w' = rw_handed w3)))"
    have w2: "rw_handed w2 = rw_handed w"
      using xs by (auto simp: round_specs_def lift_act_def split: sum.splits)
    have first: "1 \<le> k" using next_round_Inr [OF k] by simp
    have this_round: ?case if "completes_with xs out \<and> rw_handed w' = rw_handed w \<or> stops_with [] xs out w w'"
      using first xs that by blast
    note acc = pass_accounts [OF iso pass]
    show ?thesis
    proof (cases "ro_state o1 = R_SUCCEEDED")
      case False
      then show ?thesis using how acc stops_later [of "[]" "[]" xs out w2 w' w] w2 by (intro this_round) auto
    next
      case True
      then have same: "completes_with xs o1" "rw_handed w3 = rw_handed w"
        using acc w2 by (auto simp: stops_with_def)
      from how True obtain ids dec d' where d': "driver_record others k (ro_chain_outputs o1) ids d = Inr (dec, d')"
        and or: "execute_rounds n others p ctx specs d' w3 = Some (Inr out, w') \<or>
          (\<exists>payload. out = o1\<lparr>ro_rounds := Some payload\<rparr> \<and> rw_handed w' = rw_handed w3)" by auto
      from or show ?thesis
      proof
        assume more: "execute_rounds n others p ctx specs d' w3 = Some (Inr out, w')"
        have shift: "stops_with [] ys out w w'" if "stops_with [] ys out w3 w'" for ys
          using stops_later [of "[]" "[]" ys out w3 w' w] that same(2) by simp
        from Suc.IH [OF more] show ?thesis unfolding driver_record_loop [OF d'] same(2) using shift by blast
      next
        assume "\<exists>payload. out = o1\<lparr>ro_rounds := Some payload\<rparr> \<and> rw_handed w' = rw_handed w3"
        with same show ?thesis by (intro this_round) (auto simp: completes_with_def)
      qed
    qed
  qed
qed simp

end
