(* ===== verification/Run_Demo.thy ===== *)
theory Run_Demo
  imports Run_Totality
begin

text \<open>
  A concrete service to evaluate the orchestration on: ports that answer at once with fixed values,
  two tasks of one run, and a plan with a human gate in front of the second task's phase.
\<close>

definition demo_capability :: capability_outcome where
  "demo_capability = \<lparr>cp_evidences = [], cp_failure_message = None, cp_system_failure = False, cp_skipped = [],
     cp_outputs = [], cp_annotations = []\<rparr>"

definition demo_ports :: "(unit, unit) phase_ports" where
  "demo_ports =
     \<lparr>po_clk = (\<lambda>k i. demo_clock (100 + int k) i), po_uid = demo_uid, po_request_digest = demo_digest,
      po_budgeted = False, po_budget_digest = (\<lambda>_. ''budget''),
      po_create_session = (\<lambda>_. return_act ''session-1''),
      po_run_session = (\<lambda>_. raise_act (PortPermanent ''refused'' FC_VALIDATION_FAILURE)),
      ph_readers = \<lparr>tx_object_in_text = (\<lambda>_ _. None), tx_decimal = (\<lambda>_. None)\<rparr>, ph_digest = (\<lambda>_. ''digest''),
      ph_retrieval = None, ph_keep_retrieval = (\<lambda>_ _. return_act ()), ph_prior_knowledge = None,
      ph_review_material = None, ph_review_outcome = None, ph_review_points = None,
      ph_capability = (\<lambda>_ _. return_act demo_capability), ph_report_task = None, ph_experiment_task = None,
      ph_observe = (\<lambda>_ _. return_act ()), ph_cross_phase = (\<lambda>_ _. return_act (Inr [])),
      ph_register = (\<lambda>_ _ _ _ _. return_act \<lparr>rg_artifacts = [], rg_evidence = [], rg_claims = []\<rparr>),
      ph_product = (\<lambda>_ _ _. raise_act (PyError AssertionError)), ph_negative_result = (\<lambda>_. False),
      ph_gate_inputs = (\<lambda>_ _ _ _ _ _. raise_act (PyError AssertionError)),
      ph_novelty_claim = (\<lambda>_. return_act (Inr False)), ph_put_finding = None, ph_verify_claim = None,
      ph_promote_memory = None\<rparr>"

lemma constant_outside [simp]: "outside (return_act a)" "outside (raise_act e)"
  by (rule outside_unchanged, simp add: return_act_def, rule outside_unchanged, simp add: raise_act_def)

definition demo_plan :: run_plan where
  "demo_plan = \<lparr>rp_phases = [], rp_assignments = [], rp_tools = [], rp_models = Map.empty,
     rp_gates = [(''publish'', HUMAN_GATE)]\<rparr>"

definition demo_catalog :: catalog_view where
  "demo_catalog = \<lparr>ct_roles = Map.empty, ct_agents = Map.empty, ct_contracts = Map.empty, ct_models = Map.empty,
     ct_endpoints = Map.empty\<rparr>"

definition demo_loop :: round_loop where
  "demo_loop = \<lparr>rl_phases = [''collect''], rl_max_rounds = 3, rl_stop_when = CONVERGED_NO_NEW_IDS,
     rl_ids_path = ''ids'', rl_calls_by_round = []\<rparr>"

definition demo_service :: "(unit, unit) run_service" where
  "demo_service =
     \<lparr>sv_ports = demo_ports, sv_approvals = True, sv_loops = [], sv_item_text = (\<lambda>_. ''''),
      sv_compile = return_act (None, \<lparr>pr_status = PREFLIGHT_FAIL, pr_codes = []\<rparr>), sv_catalog = demo_catalog,
      sv_freeze = (\<lambda>_ _ _. raise_act (ManifestFreeze '''')), sv_refreeze = (\<lambda>_. raise_act (ManifestFreeze '''')),
      sv_digest = (\<lambda>_. ''digest''), sv_semantic_digest = (\<lambda>_. ''semantics''), sv_direction = return_act None,
      sv_fingerprint = (\<lambda>_ _ _. return_act ())\<rparr>"

lemma demo_isolated: "isolated_service demo_service" "isolated_ports demo_ports"
  by (simp_all add: isolated_service_def isolated_ports_def demo_service_def demo_ports_def)

definition demo_spec :: "string \<Rightarrow> spec_context" where
  "demo_spec phase_id =
     \<lparr>sc_role_id = ''role'', sc_reviewer = False, sc_agent_id = ''agent-a'', sc_manifest_digest = ''digest'',
      sc_tool_set = [], sc_endpoint_id = None, sc_model_name = None, sc_phase_id = phase_id,
      sc_phase_strategy = ''FIXED'', sc_declared_inputs = [], sc_cross_phase_inputs = [], sc_run_chain_tools = [],
      sc_tool_bindings = [], sc_round_calls = [], sc_previous_prefixes = [], sc_run = None, sc_direction = None,
      sc_retrieval = None, sc_prior_knowledge = None, sc_review_material = None, sc_review_outcome = None,
      sc_review_points = None, sc_chain_arguments = None\<rparr>"

definition demo_second :: research_task where
  "demo_second = demo_task\<lparr>rt_id := ''33333333-3333-4333-8333-333333333333'', rt_idempotency_key := Some ''second''\<rparr>"

definition demo_pending :: "task_spec list" where
  "demo_pending = [(demo_task, demo_contract, demo_spec ''collect''), (demo_second, demo_contract, demo_spec ''publish'')]"

definition demo_context :: run_context where
  "demo_context = \<lparr>cx_run = demo_run\<lparr>rr_id := rt_run_id demo_task, rr_state := R_RUNNING, rr_manifest_digest := Some ''digest''\<rparr>,
     cx_trace_id = ''trace'', cx_plan = demo_plan, cx_catalog = demo_catalog, cx_passed = True, cx_direction = None\<rparr>"

definition demo_run_world :: "unit run_world" where
  "demo_run_world = \<lparr>rw_engine = demo_store, rw_budget = \<lparr>ab_closed = False, ab_calls = [], bl_reservations = [], bl_usage = []\<rparr>,
     rw_approvals = \<lparr>ab_closed = False, ab_calls = [], as_rows = []\<rparr>, rw_events = [], rw_step = 0,
     rw_refs = Map.empty, rw_handed = [], rw_waiting = Map.empty, rw_paused = Map.empty, rw_env = ()\<rparr>"

lemma demo_waits:
  "(case execute_with_context demo_service demo_context demo_pending demo_run_world of
     Some (Inr out, w') \<Rightarrow> ro_state out = R_WAITING_FOR_APPROVAL \<and> map to_task (ro_tasks out) = [demo_task] \<and>
       map tr_task_id (wf_tasks (rw_engine w')) = [rt_id demo_task]
   | _ \<Rightarrow> False)"
  by code_simp

definition demo_report_ports :: "(unit, unit) phase_ports" where
  "demo_report_ports = demo_ports
     \<lparr>ph_report_task := Some (\<lambda>t c sc tr. return_act
        \<lparr>te_task = t, te_outcome = ''SUCCEEDED'', te_session = None, te_experiment = None, te_report = Some (),
         te_attempts = 1, te_category = None, te_message = [], te_deferred = False\<rparr>),
      ph_product := (\<lambda>_ _ _. return_act (\<lparr>rg_artifacts = [''report.md''], rg_evidence = [], rg_claims = []\<rparr>,
        \<lparr>sr_session_id = ''report'', sr_status = S_SUCCEEDED, sr_output = JObj []\<rparr>)),
      ph_gate_inputs := (\<lambda>_ _ _ _ _ _. return_act
        \<lparr>ci_structured_output = None, ci_artifacts = [], ci_tests = [], ci_metrics = [],
         ci_evidence_source_count = Some 1, ci_retrieved_source_count = None, ci_tool_evidence_count = Some 2,
         ci_review_score = None, ci_policy_decision = None, ci_human_approved = None,
         ei_schema_check = None, ei_consumption = []\<rparr>)\<rparr>"

definition demo_report_contract :: task_contract where
  "demo_report_contract = demo_contract\<lparr>tc_report := Some \<lparr>rs_declared = True, rs_timeout_seconds = None\<rparr>\<rparr>"

definition demo_phase_context :: phase_context where
  "demo_phase_context = \<lparr>pc_run_id = rt_run_id demo_task, pc_trace_id = ''trace'', pc_manifest_digest = ''digest'',
     pc_human_gated = [], pc_approvals = False\<rparr>"

definition demo_rounds :: "((run_exception + run_outcome) \<times> unit run_world) option" where
  "demo_rounds = execute_phases (\<lambda>_. []) demo_report_ports demo_phase_context [demo_loop]
     [(demo_task, demo_report_contract, demo_spec ''collect'')] [] (return_act []) demo_run_world"

lemma demo_converges:
  "(case demo_rounds of
     Some (Inr out, w') \<Rightarrow> ro_state out = R_SUCCEEDED \<and>
       ro_rounds out = Some (RoundsPayload (rt_run_id demo_task) [] [] [''collect''] 1 STOP_BY_CONCLUSION
         CONVERGED_NO_NEW_IDS 3 [] [])
   | _ \<Rightarrow> False)"
  by code_simp

end
