(* ===== verification/Run_Properties.thy ===== *)
theory Run_Properties
  imports Run_Books Run_Demo
begin

text \<open>
  What the orchestration of runs guarantees: every call of the service returns, a pass accounts
  for every task, a gated phase is not touched before its approval, rounds stop for the declared
  reason, and the books of the service say what is waiting and what is reserved.
\<close>

section \<open>Every call returns\<close>

text \<open>The public methods of \<^verbatim>\<open>RunOrchestrationService\<close>; an outcome is there for those that execute.\<close>

datatype service_call =
    StartRun start_command
  | ResumeRun run_context resume_command "task_spec list"
  | ResumeRebuilt run_context resume_command
  | ResumePaused string research_run
  | ResumeAfterApproval string
  | CancelRun string

fun serve :: "('w, 'x) run_service \<Rightarrow> service_call \<Rightarrow> ('w, run_outcome option) loop_act" where
  "serve sv (StartRun c) = bind_loop (start_run sv c) (\<lambda>out. loop_return (Some out))"
| "serve sv (ResumeRun cx c pending) = bind_loop (resume_run sv cx c pending) (\<lambda>out. loop_return (Some out))"
| "serve sv (ResumeRebuilt cx c) = bind_loop (resume_rebuilt sv cx c) (\<lambda>out. loop_return (Some out))"
| "serve sv (ResumePaused run_id run) = bind_loop (resume_paused sv run_id run) (\<lambda>out. loop_return (Some out))"
| "serve sv (ResumeAfterApproval run_id) = bind_loop (resume_after_approval sv run_id) (\<lambda>out. loop_return (Some out))"
| "serve sv (CancelRun run_id) = bind_loop (loop_of (cancel_run_command sv run_id)) (\<lambda>_. loop_return None)"

fun serve_all :: "('w, 'x) run_service \<Rightarrow> service_call list \<Rightarrow> 'w run_world \<Rightarrow> 'w run_world option" where
  "serve_all sv [] w = Some w"
| "serve_all sv (c # cs) w = (case serve sv c w of None \<Rightarrow> None | Some (_, w') \<Rightarrow> serve_all sv cs w')"

lemma transition_fit: "keeps (fit p) (transition_run p' r e)"
  by (auto simp: keeps_def transition_run_def intro!: fitI split: sum.split)

lemma identities_fit: "keeps (fit p) (engine_call p' (task_identities r))"
  by (auto simp: keeps_def engine_call_def task_identities_def lift_act_def Let_def intro!: fitI
      split: prod.split sum.split)

lemma cancelled_ids_fit: "keeps (fit p) (engine_call p' (cancelled_task_ids r))"
  by (auto simp: keeps_def engine_call_def cancelled_task_ids_def lift_act_def Let_def intro!: fitI
      split: prod.split sum.split)

lemma engine_fit:
  assumes "\<And>clk uid st res st'. f clk uid st = (res, st') \<Longrightarrow> engine_ok st \<Longrightarrow> engine_ok st'"
  shows "keeps (fit p) (engine_call p' f)"
  using assms by (auto simp: keeps_def engine_call_def lift_act_def fit_def split: prod.split sum.split)

lemma recover_fit: "keeps (fit p) (engine_call p' recover_expired_leases)"
  by (rule engine_fit) (rule recover_ok)

lemma cancel_fit: "keeps (fit p) (engine_call p' (cancel_run r))"
  by (rule engine_fit)
    (auto simp: cancel_run_def cancel_run_tasks_def engine_ok_db [OF db_log(3)] dest: cancel_rows_ok
      split: if_splits prod.splits)

lemma frozen_fit:
  assumes "isolated_service sv"
  shows "keeps (fit (sv_ports sv)) (assert_resumable sv cx c)"
  using isolated_serviceD(6) [OF assms]
  by (auto simp: assert_resumable_def assert_semantics_frozen_def Let_def intro!: keeps_intros split: option.split)

lemma cancel_command_fit: "keeps (fit (sv_ports sv)) (cancel_run_command sv run_id)"
proof -
  have "keeps (fit (sv_ports sv)) (\<lambda>w. (Inr (), release_refs (sv_ports sv) run_id w))"
    by (auto simp: keeps_def release_refs_def Let_def intro!: fitI split: prod.split)
  then show ?thesis
    unfolding cancel_run_command_def Let_def by (intro fit.bind_keeps cancel_fit cancelled_ids_fit fit.ledger_keeps)
qed

lemma clock_fit: "keeps (fit p) (clock_call p' f)"
  by (simp add: keeps_def clock_call_def fitI)

lemma started_fit: "keeps (fit (sv_ports sv)) (started_run sv r mf)"
  unfolding started_run_def by (intro fit.bind_keeps clock_fit fit.lift_keeps transition_fit)

lemma reservation_fit: "keeps (fit p) (keep_reservation r ref)"
  by (auto simp: keeps_def keep_reservation_def intro!: fitI split: option.split)

lemma remaining_fit: "keeps (fit (sv_ports sv)) (remaining_act sv cx)"
  unfolding remaining_act_def by (intro fit.bind_keeps identities_fit fit.resolve_keep fit.lift_keeps)

lemma start_returns:
  assumes "isolated_service sv"
  shows "ends (start_run sv c)" and "keeps_loop (fit (sv_ports sv)) (start_run sv c)"
proof -
  note iso = isolated_serviceD [OF assms]
  note act = recover_fit clock_fit fit.lift_keeps transition_fit iso(3-5) started_fit reservation_fit
    fit.emit_keeps fit.fail_keeps [OF refl]
  show "ends (start_run sv c)"
    unfolding start_run_def Let_def
    by (intro ends_bind [OF iso(1)] ends_loop_of fit.loop_of_keeps act)
      (auto intro!: ends_bind [OF iso(1)] ends_loop_of fit.loop_of_keeps act context_ends [OF assms] split: option.split)
  show "keeps_loop (fit (sv_ports sv)) (start_run sv c)"
    unfolding start_run_def Let_def
    by (intro fit.bind_loop_keeps fit.loop_of_keeps act)
      (auto intro!: fit.bind_loop_keeps fit.loop_of_keeps act context_fit [OF assms] split: option.split)
qed

lemma resume_returns:
  assumes "isolated_service sv"
  shows "ends (resume_run sv cx c pending)" and "keeps_loop (fit (sv_ports sv)) (resume_run sv cx c pending)"
    and "ends (resume_rebuilt sv cx c)" and "keeps_loop (fit (sv_ports sv)) (resume_rebuilt sv cx c)"
proof -
  note iso = isolated_serviceD [OF assms]
  note act = frozen_fit [OF assms] transition_fit fit.raise_keeps remaining_fit
  note exec = context_ends [OF assms] context_fit [OF assms]
  show "ends (resume_run sv cx c pending)"
    unfolding resume_run_def
    by (intro ends_bind [OF iso(1)] ends_if ends_loop_of fit.loop_of_keeps act exec)
  show "keeps_loop (fit (sv_ports sv)) (resume_run sv cx c pending)"
    unfolding resume_run_def
    by (intro fit.bind_loop_keeps fit.loop_if_keeps fit.loop_of_keeps act exec)
  show "ends (resume_rebuilt sv cx c)"
    unfolding resume_rebuilt_def
    by (intro ends_bind [OF iso(1)] ends_if ends_loop_of fit.loop_of_keeps act exec)
  show "keeps_loop (fit (sv_ports sv)) (resume_rebuilt sv cx c)"
    unfolding resume_rebuilt_def
    by (intro fit.bind_loop_keeps fit.loop_if_keeps fit.loop_of_keeps act exec)
qed

lemma shelved_returns:
  assumes "isolated_service sv"
  shows "ends (resume_paused sv run_id run)" and "keeps_loop (fit (sv_ports sv)) (resume_paused sv run_id run)"
    and "ends (resume_after_approval sv run_id)" and "keeps_loop (fit (sv_ports sv)) (resume_after_approval sv run_id)"
proof -
  have returned: "execute_with_context sv cx pending w \<noteq> None" if "engine_ok (rw_engine w)" for cx pending and w :: "'a run_world"
    using context_ends [OF assms] that by (simp add: ends_def)
  show "ends (resume_paused sv run_id run)" "ends (resume_after_approval sv run_id)"
    unfolding ends_def resume_paused_def resume_after_approval_def using returned by (auto split: option.split)
  have keep: "fit (sv_ports sv) w w'" if "execute_with_context sv cx pending w0 = Some (res, w')"
    "rw_engine w0 = rw_engine w" for cx pending w0 res w' and w :: "'a run_world"
    using keeps_loopD [OF context_fit [OF assms] that(1)] that(2) by (simp add: fit_def)
  show "keeps_loop (fit (sv_ports sv)) (resume_paused sv run_id run)"
    unfolding keeps_loop_def resume_paused_def by (fastforce intro: keep fit.frame_refl split: option.splits)
  show "keeps_loop (fit (sv_ports sv)) (resume_after_approval sv run_id)"
    unfolding keeps_loop_def resume_after_approval_def by (fastforce intro: keep fit.frame_refl split: option.splits)
qed

lemma serve_returns:
  assumes "isolated_service sv"
  shows "ends (serve sv c)" and "keeps_loop (fit (sv_ports sv)) (serve sv c)"
proof -
  note iso = isolated_serviceD(1) [OF assms]
  note calls = start_returns [OF assms] resume_returns [OF assms] shelved_returns [OF assms]
    fit.loop_of_keeps [OF cancel_command_fit]
  show "ends (serve sv c)" by (cases c) (simp_all add: ends_bind [OF iso] ends_loop_of calls)
  show "keeps_loop (fit (sv_ports sv)) (serve sv c)"
    by (cases c) (simp_all add: fit.bind_loop_keeps fit.loop_return_keeps calls)
qed

text \<open>
  C7: no call of the service hangs. On a fit engine, in any sequence of starts, resumes of every
  kind and cancellations, of the same run or of different ones, each call returns, with an outcome
  or with an exception: the retry loop of a task, the rounds of a declared loop and all that
  contains them end, whatever the agents, tools and stores answer, as long as these leave the
  engine's tables and the books of the service alone; the fuel of the model is never exhausted.
\<close>

theorem every_service_call_returns:
  assumes "isolated_service sv" and "wf_reach dg (issued, rw_engine w)"
  shows "serve_all sv calls w \<noteq> None"
proof -
  have "engine_ok (rw_engine w)" using wf_reach_inv [OF assms(2)] wf_inv_engine_ok by auto
  then show ?thesis
  proof (induction calls arbitrary: w)
    case (Cons c calls)
    obtain res w' where c: "serve sv c w = Some (res, w')"
      using serve_returns(1) [OF assms(1), of c] Cons.prems by (fastforce simp: ends_def)
    have "engine_ok (rw_engine w')"
      using keeps_loopD [OF serve_returns(2) [OF assms(1)] c] isolated_serviceD(1) [OF assms(1)] Cons.prems
      by (simp add: fit_def)
    then show ?case using Cons.IH c by simp
  qed simp
qed

theorem every_service_call_returns_witness:
  "serve_all demo_service [CancelRun ''run-1'', ResumePaused ''run-1'' demo_run, ResumeAfterApproval ''run-1'']
     demo_run_world \<noteq> None"
proof -
  have "wf_reach demo_digest ([], rw_engine demo_run_world)"
    by (rule reach_init) (simp add: empty_store_def demo_run_world_def demo_store_def)
  from every_service_call_returns [OF demo_isolated(1) this] show ?thesis .
qed

section \<open>Gated phases\<close>

definition same_rows :: "string \<Rightarrow> wf_state \<Rightarrow> wf_state \<Rightarrow> bool" where
  "same_rows tid st st' = (task_of tid st' = task_of tid st \<and> lease_of tid st' = lease_of tid st)"

lemma same_rows_db: "db st' = db st \<Longrightarrow> same_rows tid st st'"
  unfolding same_rows_def using task_of_db lease_of_db by blast

lemma same_rows_trans: "same_rows tid a b \<Longrightarrow> same_rows tid b c \<Longrightarrow> same_rows tid a c"
  by (simp add: same_rows_def)

lemma submit_other:
  assumes "submit dg t c clk st = (res, st')" and "x \<noteq> rt_id t"
  shows "same_rows x st st'"
proof (cases "db st' = db st")
  case False
  then have "\<exists>row. tr_task_id row = rt_id t \<and> wf_tasks st' = wf_tasks st @ [row] \<and> wf_leases st' = wf_leases st"
    using assms(1)
    by (auto simp: submit_def Let_def task_exists_def log_defs db_def split: if_splits option.splits)
  then show ?thesis
    using assms(2) by (auto simp: same_rows_def task_of_def lease_of_def row_of_append row_of_Cons split: option.split)
qed (rule same_rows_db)

lemma acquire_other:
  assumes "acquire_lease tid clk uid st = (res, st')"
  shows "x \<noteq> tid \<Longrightarrow> same_rows x st st'" and "res = Inr l \<Longrightarrow> tl_task_id l = tid"
proof -
  have "(x \<noteq> tid \<longrightarrow> same_rows x st st') \<and> (res = Inr l \<longrightarrow> tl_task_id l = tid)"
    using assms
  proof (cases rule: acquire_effect)
    case same
    have "tl_task_id l = tid" if l: "res = Inr l"
    proof -
      obtain r where r: "lease_of tid st = Some r" "lease_from_row r = Inr l" using same(2) [OF l] by blast
      then show ?thesis using lease_of_key [OF r(1)] lease_post_init_InrD by (fastforce simp: lease_from_row_def)
    qed
    with same_rows_db [OF same(1)] show ?thesis by blast
  next
    case (new row m)
    from new(6) obtain ex hb tj run eid oc cr where free: "lease_of tid st = None"
      and db: "db st' = db (deliver m ex hb tj run eid oc cr st)"
      using new(2) by (auto simp: delivered_def)
    have "lease_of (tl_task_id m) st = None" using free new(2) by simp
    then have "same_rows x st (deliver m ex hb tj run eid oc cr st)" if "x \<noteq> tid"
      using that new(2) by (simp add: same_rows_def task_of_deliver lease_of_deliver)
    then show ?thesis using same_rows_db [OF db] same_rows_trans new(1,2) by blast
  qed
  then show "x \<noteq> tid \<Longrightarrow> same_rows x st st'" "res = Inr l \<Longrightarrow> tl_task_id l = tid" by blast+
qed

lemma heartbeat_other:
  assumes "heartbeat l clk uid st = (res, st')"
  shows "x \<noteq> tl_task_id l \<Longrightarrow> same_rows x st st'" and "res = Inr m \<Longrightarrow> tl_task_id m = tl_task_id l"
proof -
  have "(x \<noteq> tl_task_id l \<longrightarrow> same_rows x st st') \<and> (res = Inr m \<longrightarrow> tl_task_id m = tl_task_id l)"
    using assms
  proof (cases rule: heartbeat_effect)
    case (beat r b)
    let ?g = "\<lambda>r. if lr_task_id r = tl_task_id l
          then r\<lparr>lr_lease_id := uid 0, lr_expires_at := clk 0 + wf_lease_ttl st, lr_heartbeat_at := clk 0,
                 lr_worker_id := tl_worker_id l, lr_fence := tl_fence l\<rparr> else r"
    have "lease_of x (st\<lparr>wf_leases := map ?g (wf_leases st)\<rparr>) = map_option ?g (lease_of x st)"
      by (rule lease_of_map) simp
    then have "same_rows x st (st\<lparr>wf_leases := map ?g (wf_leases st)\<rparr>)" if "x \<noteq> tl_task_id l"
      using that lease_of_key [of x st] by (cases "lease_of x st") (auto simp: same_rows_def task_of_def)
    then show ?thesis using same_rows_db [OF beat(5)] same_rows_trans beat(1,4) by auto
  qed (auto simp: same_rows_db)
  then show "x \<noteq> tl_task_id l \<Longrightarrow> same_rows x st st'" "res = Inr m \<Longrightarrow> tl_task_id m = tl_task_id l" by blast+
qed

lemma complete_other:
  assumes "complete l cm clk uid st = (res, st')" and "cm_task_id cm = tl_task_id l" and "x \<noteq> tl_task_id l"
  shows "same_rows x st st'"
  using assms(1,2)
proof (cases rule: complete_effect)
  case (fin row r c ra)
  then obtain g ty p run eid oc cr where db: "db st' = db (settle (tl_task_id l) g ty p run eid oc cr st)"
    and g: "\<And>r. tr_task_id (g r) = tr_task_id r"
    by (auto simp: applied_def Let_def)
  have "same_rows x st (settle (tl_task_id l) g ty p run eid oc cr st)"
    using assms(3) by (simp add: same_rows_def task_of_settle [OF g])
  then show ?thesis using same_rows_db [OF db] same_rows_trans by blast
qed (rule same_rows_db)

definition untouched :: "('w, 'x) phase_ports \<Rightarrow> string set \<Rightarrow> 'w run_world \<Rightarrow> 'w run_world \<Rightarrow> bool" where
  "untouched p G w w' = (isolated_ports p \<longrightarrow> (\<forall>x\<in>G. same_rows x (rw_engine w) (rw_engine w')))"

interpretation row_frame: frame "untouched p G" for p :: "('w, 'x) phase_ports" and G
  by unfold_locales (auto simp: untouched_def same_rows_def)

lemma untouchedI: "db (rw_engine w') = db (rw_engine w) \<Longrightarrow> untouched p G w w'"
  by (simp add: untouched_def same_rows_db)

lemma untouched_ports: "ports_keep (untouched p G) p"
proof (cases "isolated_ports p")
  case True
  then show ?thesis by (rule isolated_ports_keep) (simp add: untouchedI)
qed (simp add: ports_keep_def keeps_def untouched_def)

lemma engine_rows:
  assumes "\<And>x clk uid st res st'. x \<in> G \<Longrightarrow> f clk uid st = (res, st') \<Longrightarrow> same_rows x st st'"
  shows "keeps (untouched p G) (engine_call p' f)"
  using assms by (auto simp: keeps_def untouched_def engine_call_def lift_act_def split: prod.split sum.split)

lemma budget_rows: "keeps (untouched p G) (budget_call p' f)"
  by (auto simp: keeps_def budget_call_def lift_act_def intro!: untouchedI split: prod.split sum.split)

lemma report_rows:
  assumes "tl_task_id l \<notin> G"
  shows "keeps (untouched p G) (report_completion p' l out cat)"
  unfolding report_completion_def
  by (intro row_frame.lift_then_keeps engine_rows, rule complete_other, assumption)
    (use assms in \<open>auto simp: completion_post_init_def split: if_splits\<close>)

lemma failed_rows:
  assumes "tl_task_id l \<notin> G"
  shows "keeps (untouched p G) (attempt_failed p' t c l e)"
  by (cases e) (auto simp: settle_attempt_def intro!: row_frame.bind_keeps row_frame.return_keeps row_frame.raise_keeps budget_rows
      report_rows assms)

lemma acquire_rows:
  assumes "rt_id t \<notin> G"
  shows "keeps (untouched p G) (acquire_or_fail p' t)"
    and "acquire_or_fail p' t w = (Inr (Inr l), w') \<Longrightarrow> tl_task_id l = rt_id t"
proof -
  have "keeps (untouched p G) (engine_call p' (acquire_lease (rt_id t)))"
    using assms by (intro engine_rows) (metis acquire_other(1))
  then show "keeps (untouched p G) (acquire_or_fail p' t)"
    unfolding acquire_or_fail_def
    by (intro row_frame.try_keeps) (auto intro: row_frame.return_keeps row_frame.raise_keeps split: run_exception.split)
  show "tl_task_id l = rt_id t" if "acquire_or_fail p' t w = (Inr (Inr l), w')"
  proof -
    obtain a w1 where call: "engine_call p' (acquire_lease (rt_id t)) w = (a, w1)" by fastforce
    have "a = Inr l"
      using that call by (auto simp: acquire_or_fail_def try_act_def return_act_def raise_act_def
          split: sum.splits run_exception.splits)
    then show ?thesis using engine_call_InrD [of p' _ w l w1] call acquire_other(2) by blast
  qed
qed

lemma once_rows:
  fixes p :: "('w, 'x) phase_ports"
  assumes "tl_task_id l \<notin> G"
  shows "keeps (untouched p G) (attempt_once p t c sc l :: ('w, 'y attempt_end) act)"
proof -
  have beat: "keeps (untouched p G) (engine_call p (heartbeat l))"
    using assms by (intro engine_rows) (metis heartbeat_other(1))
  have same: "tl_task_id m = tl_task_id l" if "engine_call p (heartbeat l) w = (Inr m, w')" for w w' m
    using engine_call_InrD [OF that] heartbeat_other(2) by blast
  have session: "keeps (untouched p G) (run_session p t c sc)"
  proof -
    have "keeps (untouched p G) (assert_frozen_manifest spec sc)" for spec
      by (auto simp: assert_frozen_manifest_def intro: row_frame.return_keeps row_frame.raise_keeps)
    then show ?thesis
      unfolding run_session_def Let_def
      using untouched_ports [where G = G and p = p] by (intro row_frame.bind_keeps) (simp_all add: ports_keep_def)
  qed
  show ?thesis
    unfolding attempt_once_def
    by (rule row_frame.try_keeps_if [OF beat failed_rows [OF assms]])
      (auto simp: same assms intro!: row_frame.try_keeps row_frame.return_keeps session failed_rows report_rows)
qed

lemma task_rows:
  fixes p :: "('w, 'x) phase_ports"
  assumes "rt_id t \<notin> G"
  shows "keeps_loop (untouched p G) (execute_task p t c sc :: ('w, 'x task_result) loop_act)"
proof (rule row_frame.task_keep_if)
  show "keeps (untouched p G) (engine_call p (\<lambda>clk uid. submit (po_request_digest p) t c clk))"
    using assms by (intro engine_rows) (metis submit_other)
  show "keeps (untouched p G) (acquire_or_fail p t)" by (rule acquire_rows(1) [OF assms])
  show "keeps (untouched p G) (attempt_once p t' c sc l :: ('w, 'x attempt_end) act)"
    if "acquire_or_fail p t w = (Inr (Inr l), w')" for w l w' t'
    using acquire_rows(2) [OF assms that] assms by (intro once_rows) simp
qed

interpretation rows: run_frame "untouched p G" run p "\<lambda>t. rt_id t \<notin> G" for p :: "('w, 'x) phase_ports" and G and run
  by unfold_locales (auto simp: untouchedI untouched_ports task_rows)

text \<open>No approval of the run for the phase has been decided.\<close>

definition undecided :: "'w run_world \<Rightarrow> string \<Rightarrow> string \<Rightarrow> bool" where
  "undecided w run ph =
     (\<forall>a\<in>set (as_rows (rw_approvals w)).
        ar_run_id (aw_approval a) = run \<and> ar_context (aw_approval a) = ph \<longrightarrow> ar_status (aw_approval a) = PENDING)"

lemma undecided_is_held:
  assumes "undecided w run ph" and "ph \<in> set declared"
    and "pending_human_gates p True declared run w = (Inr held, w')"
  shows "ph \<in> set held"
  using assms
  by (fastforce simp: pending_human_gates_def undecided_def bind_act_def approval_call_def ap_list_for_run_def
      lift_act_def return_act_def ordered_approvals_def Let_def split: if_splits prod.splits)

lemma hold_rows: "keeps (untouched p G) (hold_specs cx out)"
  by (auto simp: keeps_def hold_specs_def Let_def intro!: untouchedI)

lemma release_if_rows: "keeps (untouched p G) (release_if_terminal p' run s)"
  by (auto simp: keeps_def release_if_terminal_def release_refs_def Let_def intro!: untouchedI split: prod.split)

lemma round_specs_InrD:
  "round_specs p l k prefixes specs w = (Inr xs, w') \<Longrightarrow>
     map_res (\<lambda>(i, s). round_spec l k prefixes (po_uid p (rw_step w) i) s) (zip [0..<length specs] specs) = Inr xs"
  by (auto simp: round_specs_def lift_act_def split: sum.splits)

lemma resolve_act_InrD:
  "resolve_act p cx w = (Inr xs, w') \<Longrightarrow> resolve_sessions cx (po_uid p (rw_step w)) = Inr xs"
  by (auto simp: resolve_act_def lift_act_def split: sum.splits)

lemma executed_round:
  assumes "sv_loops sv = l # ls" and "resolve_sessions cx (po_uid (sv_ports sv) n) = Inr resolved" and "1 \<le> k"
    and "round_specs (sv_ports sv) l k prefixes resolved w = (Inr xs, w')"
  shows "executed_specs sv cx pending xs"
  unfolding executed_specs_def assms(1) list.case
  using assms(2,3) round_specs_InrD [OF assms(4)] by blast

lemma gated_body:
  fixes w :: "'w run_world"
  assumes "undecided w (rr_id (cx_run cx)) ph" and "(ph, HUMAN_GATE) \<in> set (rp_gates (cx_plan cx))" and "ph \<noteq> []"
    and "sv_approvals sv"
    and others: "\<And>specs t. executed_specs sv cx pending specs \<Longrightarrow> t \<in> set specs \<Longrightarrow> phase_of t \<noteq> ph \<Longrightarrow> task_id_of t \<notin> G"
    and run: "run_body sv cx pending w = Some (res, w')"
  shows "untouched (sv_ports sv) G w w'"
proof -
  let ?p = "sv_ports sv"
  let ?run = "rr_id (cx_run cx)"
  let ?phases = "\<lambda>resolved ctx. execute_phases (sv_item_text sv) ?p ctx (sv_loops sv) resolved pending (resolve_act ?p cx)"
  let ?rest = "\<lambda>held. bind_loop (loop_of (resolve_act ?p cx)) (\<lambda>resolved.
     bind_loop (loop_of (lift_act (phase_context_of True cx held))) (?phases resolved))"
  obtain a w1 where gates: "pending_human_gates ?p True (declared_human_gates (cx_plan cx)) ?run w = (a, w1)"
    by fastforce
  have before: "untouched ?p G w w1" by (rule keepsD [OF rows.gates_keep gates])
  show ?thesis
  proof (cases a)
    case (Inl e)
    then have "w' = w1" using run gates assms(4) by (simp add: run_body_def bind_loop_def loop_of_def)
    then show ?thesis using before by simp
  next
    case (Inr held)
    have "ph \<in> set (declared_human_gates (cx_plan cx))"
      using assms(2) by (force simp: declared_human_gates_def)
    then have held: "ph \<in> set held" using undecided_is_held [OF assms(1)] gates Inr by blast
    have phases: "keeps_loop (untouched ?p G) (?phases resolved ctx)"
      if res: "resolve_act ?p cx w0 = (Inr resolved, w2)" and ctx: "phase_context_of True cx held = Inr ctx"
      for ctx resolved and w0 w2 :: "'w run_world"
    proof -
      have fine: "rt_id (fst t) \<notin> G \<or> gated ctx (phase_of t)" if "executed_specs sv cx pending specs" "t \<in> set specs" for t specs
        using others [OF that] held phase_context_of_Inr [OF ctx] assms(3) by (auto simp: gated_def task_id_of_def)
      note resolved = resolve_act_InrD [OF res]
      show ?thesis
      proof (rule rows.phases_keep_if [OF refl])
        show "rt_id (fst s) \<notin> G \<or> gated ctx (phase_of s)"
          if "sv_loops sv = l # ls" "round_specs ?p l k ps resolved w = (Inr xs, w')" "1 \<le> k" "s \<in> set xs"
          for l ls k ps xs s and w w' :: "'w run_world"
          by (rule fine [OF executed_round [OF that(1) resolved that(3,2)] that(4)])
        show "rt_id (fst s) \<notin> G \<or> gated ctx (phase_of s)" if "sv_loops sv = []" "pending \<noteq> []" "s \<in> set pending" for s
          using that fine [of pending] by (simp add: executed_specs_def)
        show "rt_id (fst s) \<notin> G \<or> gated ctx (phase_of s)"
          if "sv_loops sv = []" "pending = []" "resolve_act ?p cx w = (Inr xs, w')" "s \<in> set xs" for xs s and w w' :: "'w run_world"
        proof -
          have "executed_specs sv cx pending xs"
            using that(1,2) resolve_act_InrD [OF that(3)] by (auto simp: executed_specs_def)
          from fine [OF this that(4)] show ?thesis .
        qed
      qed (rule rows.resolve_keep)
    qed
    have "keeps_loop (untouched ?p G) (?rest held)"
      by (intro row_frame.bind_loop_keeps_if [OF row_frame.loop_of_keeps [OF rows.resolve_keep]] rows.lift_bind_keep)
        (auto simp: loop_of_def intro: phases)
    moreover have "?rest held w1 = Some (res, w')"
      using run gates Inr assms(4) by (simp add: run_body_def bind_loop_def [of "loop_of (pending_human_gates _ _ _ _)"] loop_of_def)
    ultimately show ?thesis using before row_frame.frame_trans keeps_loopD by blast
  qed
qed

lemma bound_rows:
  assumes "\<And>r w1. m w = Some (r, w1) \<Longrightarrow> untouched p G w w1" and "\<And>a. keeps_loop (untouched p G) (f a)"
    and "bind_loop m f w = Some (res, w')"
  shows "untouched p G w w'"
  using assms(3) assms(1) keeps_loopD [OF assms(2)]
  by (auto simp: bind_loop_def split: option.splits sum.splits) (meson row_frame.frame_trans)

text \<open>
  C5: on a service with an approval store, a phase the plan puts behind a human gate is not entered
  before somebody has decided. While no approval of the run for that phase is decided, executing the
  run, whether its specs are resolved afresh (a start's first pass), handed over by a resume or
  shelved one, or are those of the rounds of a declared loop, changes the engine's row or lease of a
  task only if the task belongs to a spec of another phase that the execution may run: a task of the
  gated phase is not submitted, not leased, not completed, whatever comes out and whatever the other
  phases do.
\<close>

theorem gated_phase_waits_for_approval:
  assumes "isolated_service sv" and "sv_approvals sv"
    and "(ph, HUMAN_GATE) \<in> set (rp_gates (cx_plan cx))" and "ph \<noteq> []" and "undecided w (rr_id (cx_run cx)) ph"
    and "execute_with_context sv cx pending w = Some (res, w')"
    and "\<not> same_rows x (rw_engine w) (rw_engine w')"
  shows "\<exists>specs t. executed_specs sv cx pending specs \<and> t \<in> set specs \<and> phase_of t \<noteq> ph \<and> task_id_of t = x"
proof (rule ccontr)
  assume none: "\<not> ?thesis"
  let ?R = "untouched (sv_ports sv) {x}"
  have out: "keeps ?R (sv_fingerprint sv r t st)" for r t st
    using assms(1) by (auto simp: isolated_service_def intro!: outside_keeps [of ?R] untouchedI)
  have others: "task_id_of t \<notin> {x}" if "executed_specs sv cx pending specs" "t \<in> set specs" "phase_of t \<noteq> ph" for specs t
    using that none by blast
  have body: "?R (w\<lparr>rw_handed := []\<rparr>) w1" if "run_body sv cx pending (w\<lparr>rw_handed := []\<rparr>) = Some (r, w1)" for r w1
    by (rule gated_body [OF _ assms(3,4,2) others that]) (use assms(5) in \<open>simp_all add: undecided_def\<close>)
  have run: "?R w w1" if run: "execute_run sv cx pending w = Some (r, w1)" for r w1
  proof -
    have "?R (w\<lparr>rw_handed := []\<rparr>) w1"
      by (rule bound_rows [OF body _ run [unfolded execute_run_eq]]) (auto intro: row_frame.loop_of_keeps hold_rows)
    then show ?thesis by (simp add: untouched_def)
  qed
  have "?R w w'"
    by (rule bound_rows [OF run _ assms(6) [unfolded execute_with_context_def]])
      (auto simp: Let_def intro!: row_frame.bind_loop_keeps row_frame.loop_of_keeps row_frame.loop_return_keeps
        release_if_rows out)
  then show False using assms(1,7) by (simp add: untouched_def isolated_service_def)
qed

theorem gated_phase_waits_for_approval_witness:
  "\<exists>out w'. execute_with_context demo_service demo_context demo_pending demo_run_world = Some (Inr out, w') \<and>
     ro_state out = R_WAITING_FOR_APPROVAL \<and> map tr_task_id (wf_tasks (rw_engine w')) = [rt_id demo_task] \<and>
     same_rows (rt_id demo_second) (rw_engine demo_run_world) (rw_engine w') \<and>
     \<not> same_rows (rt_id demo_task) (rw_engine demo_run_world) (rw_engine w')"
proof -
  obtain out w' where run: "execute_with_context demo_service demo_context demo_pending demo_run_world = Some (Inr out, w')"
    and res: "ro_state out = R_WAITING_FOR_APPROVAL" "map tr_task_id (wf_tasks (rw_engine w')) = [rt_id demo_task]"
    using demo_waits by (auto split: option.splits prod.splits sum.splits)
  have changed: "\<exists>specs t. executed_specs demo_service demo_context demo_pending specs \<and> t \<in> set specs \<and>
      phase_of t \<noteq> ''publish'' \<and> task_id_of t = x" if "\<not> same_rows x (rw_engine demo_run_world) (rw_engine w')" for x
    by (rule gated_phase_waits_for_approval [OF demo_isolated(1) _ _ _ _ run that])
      (simp_all add: demo_service_def demo_context_def demo_plan_def undecided_def demo_run_world_def)
  have "specs = demo_pending" if "executed_specs demo_service demo_context demo_pending specs" for specs
    using that by (simp add: executed_specs_def demo_service_def demo_pending_def)
  moreover have "task_id_of t \<noteq> rt_id demo_second" if "t \<in> set demo_pending" "phase_of t \<noteq> ''publish''" for t
    using that by (auto simp: demo_pending_def phase_of_def demo_spec_def task_id_of_def demo_second_def demo_task_def)
  ultimately have "same_rows (rt_id demo_second) (rw_engine demo_run_world) (rw_engine w')"
    using changed by metis
  moreover have "rt_id demo_task \<in> tr_task_id ` set (wf_tasks (rw_engine w'))"
    using res(2) by (metis image_set list.set_intros(1))
  then have "task_of (rt_id demo_task) (rw_engine w') \<noteq> None" by (simp add: task_of_def row_of_None_iff)
  then have "\<not> same_rows (rt_id demo_task) (rw_engine demo_run_world) (rw_engine w')"
    by (simp add: same_rows_def demo_run_world_def demo_store_def task_of_def)
  ultimately show ?thesis using run res by auto
qed

section \<open>What a run leaves behind\<close>

lemma body_accounts:
  fixes w :: "'w run_world"
  assumes "isolated_ports (sv_ports sv)" and "run_body sv cx pending w = Some (Inr out, w')"
  shows "\<exists>specs. executed_specs sv cx pending specs \<and>
    (completes_with specs out \<and> rw_handed w' = rw_handed w \<or> stops_with [] specs out w w')"
proof -
  let ?p = "sv_ports sv"
  let ?phases = "\<lambda>resolved ctx. execute_phases (sv_item_text sv) ?p ctx (sv_loops sv) resolved pending (resolve_act ?p cx)"
  let ?resolve = "\<lambda>held. bind_loop (loop_of (resolve_act ?p cx)) (\<lambda>resolved.
      bind_loop (loop_of (lift_act (phase_context_of (sv_approvals sv) cx held))) (?phases resolved))"
  from assms(2) have "bind_loop (loop_of (pending_human_gates ?p (sv_approvals sv) (declared_human_gates (cx_plan cx))
      (rr_id (cx_run cx)))) ?resolve w = Some (Inr out, w')" by (simp only: run_body_def)
  then obtain held w1 where held: "pending_human_gates ?p (sv_approvals sv) (declared_human_gates (cx_plan cx))
      (rr_id (cx_run cx)) w = (Inr held, w1)" and "?resolve held w1 = Some (Inr out, w')"
    by (rule bind_act_loop_InrE)
  then obtain resolved w2 where w2: "resolve_act ?p cx w1 = (Inr resolved, w2)"
    and "bind_loop (loop_of (lift_act (phase_context_of (sv_approvals sv) cx held))) (?phases resolved) w2 = Some (Inr out, w')"
    by (auto elim: bind_act_loop_InrE)
  then obtain ctx w3 where w3: "lift_act (phase_context_of (sv_approvals sv) cx held) w2 = (Inr ctx, w3)"
    and phases: "?phases resolved ctx w3 = Some (Inr out, w')"
    by (auto elim: bind_act_loop_InrE)
  have "rw_handed w1 = rw_handed w"
    using held by (auto simp: pending_human_gates_def bind_act_def approval_call_def return_act_def lift_act_def
        split: if_splits prod.splits sum.splits)
  moreover have "rw_handed w2 = rw_handed w1" using w2 by (auto simp: resolve_act_def lift_act_def split: sum.splits)
  moreover have "w3 = w2" using w3 by (auto simp: lift_act_def split: sum.splits)
  ultimately have same: "rw_handed w3 = rw_handed w" by simp
  have later: "completes_with specs out \<and> rw_handed w' = rw_handed w \<or> stops_with [] specs out w w'"
    if "completes_with specs out \<and> rw_handed w' = rw_handed v \<or> stops_with [] specs out v w'" "rw_handed v = rw_handed w"
    for specs v using that stops_later [of "[]" "[]" specs out v w' w] by auto
  note resolved = resolve_act_InrD [OF w2]
  show ?thesis
  proof (cases "sv_loops sv")
    case (Cons l ls)
    with phases have "execute_rounds (round_fuel l) (sv_item_text sv) ?p ctx resolved (driver_start l) w3 = Some (Inr out, w')"
      by (simp add: execute_phases_def)
    from rounds_account [OF assms(1) this] obtain k prefixes xs and w0 w4 :: "'w run_world" where
      "1 \<le> k" "round_specs ?p l k prefixes resolved w0 = (Inr xs, w4)"
      "completes_with xs out \<and> rw_handed w' = rw_handed w3 \<or> stops_with [] xs out w3 w'"
      by (auto simp: driver_start_def)
    then show ?thesis using executed_round [OF Cons resolved] later same by blast
  next
    case Nil
    have pass: ?thesis if "execute_one_pass ?p ctx specs v = Some (Inr out, w')" "executed_specs sv cx pending specs"
      "rw_handed v = rw_handed w" for specs v
      using pass_accounts [OF assms(1) that(1)] later [of specs v] that(2,3) by blast
    show ?thesis
    proof (cases "pending = []")
      case True
      with Nil phases obtain xs w4 where "resolve_act ?p cx w3 = (Inr xs, w4)" "execute_one_pass ?p ctx xs w4 = Some (Inr out, w')"
        by (auto simp: execute_phases_def elim: bind_act_loop_InrE)
      moreover from this(1) have "rw_handed w4 = rw_handed w3" by (auto simp: resolve_act_def lift_act_def split: sum.splits)
      ultimately show ?thesis
        using pass [of xs w4] resolve_act_InrD [of ?p cx w3 xs w4] same Nil True by (auto simp: executed_specs_def)
    next
      case False
      with Nil phases have "execute_one_pass ?p ctx pending w3 = Some (Inr out, w')" by (simp add: execute_phases_def)
      then show ?thesis using pass same Nil False by (simp add: executed_specs_def)
    qed
  qed
qed

definition left_behind :: "run_context \<Rightarrow> task_spec list \<Rightarrow> run_outcome \<Rightarrow> 'w run_world \<Rightarrow> bool" where
  "left_behind cx pending out w =
     (let run = rr_id (cx_run cx) in
      (completes_with pending out \<or> ro_state out = R_FAILED) \<and>
        (ro_state out \<noteq> R_DEGRADED \<longrightarrow> rw_refs w run = None) \<or>
      (\<exists>d r. pending = d @ r \<and> r \<noteq> [] \<and> map to_task (ro_tasks out) = map fst d \<and>
         (ro_state out = R_PAUSED \<and> rw_paused w run = Some (cx, r) \<or>
          ro_state out = R_WAITING_FOR_APPROVAL \<and> rw_waiting w run = Some (cx, r))))"

lemma completes_frozen [simp]:
  "completes_with specs (out\<lparr>ro_pricing_version := a, ro_pricing_digest := b, ro_manifest_semantic_digest := c\<rparr>) =
   completes_with specs out"
  by (simp add: completes_with_def)



section \<open>Rounds\<close>

text \<open>
  C8: research in rounds stops for the reason it declares. When a loop ends in success, it made one
  pass after the other over the specs of its rounds, each in the world the one before left and each
  successful. They are at most \<open>max_rounds\<close>, whatever fuel the model's loop is given, so it is the
  guard that stops it; every round but the last brought an identifier no earlier round had; the
  outcome is that of the last pass with the report of the rounds, which says how many rounds there
  were, the identifiers the last one added and all that were seen, and calls the end a conclusion
  exactly when the last round added none, a guard otherwise, and then the limit had been reached.
\<close>

theorem rounds_stop_for_the_declared_reason:
  assumes "round_loop_post_init l = Inr l"
    and "execute_rounds fuel others p ctx specs (driver_start l) w = Some (Inr out, w')"
    and "ro_state out = R_SUCCEEDED"
  shows "\<exists>outs w1 payload. outs \<noteq> [] \<and> round_passes p ctx l specs 1 outs w w1 \<and>
    (\<forall>x\<in>set outs. ro_state x = R_SUCCEEDED) \<and> int (length outs) \<le> rl_max_rounds l \<and>
    (\<forall>i < length outs - 1. round_news others l outs i \<noteq> []) \<and>
    (round_news others l outs (length outs - 1) \<noteq> [] \<longrightarrow> int (length outs) = rl_max_rounds l) \<and>
    out = (last outs)\<lparr>ro_rounds := Some payload\<rparr> \<and> rounds_report others ctx l outs payload"
proof -
  have l: "rl_stop_when l = CONVERGED_NO_NEW_IDS" "2 \<le> rl_max_rounds l"
    using assms(1) by (auto simp: round_loop_post_init_def STOP_CRITERIA_def split: if_splits)
  have "driven others l [] (driver_start l)" by (simp add: driven_def driver_start_def round_facts_def)
  from rounds_through [OF l(1) this _ _ assms(2,3)] l(2) obtain more last w1 payload where
    "round_passes p ctx l specs 1 (more @ [last]) w w1" "\<forall>x\<in>set (more @ [last]). ro_state x = R_SUCCEEDED"
    "int (length (more @ [last])) \<le> rl_max_rounds l"
    "\<forall>i < length (more @ [last]) - 1. round_news others l (more @ [last]) i \<noteq> []"
    "round_news others l (more @ [last]) (length (more @ [last]) - 1) \<noteq> [] \<longrightarrow>
       int (length (more @ [last])) = rl_max_rounds l"
    "out = last\<lparr>ro_rounds := Some payload\<rparr>" "rounds_report others ctx l (more @ [last]) payload"
    by (auto simp: Let_def)
  then show ?thesis by (intro exI [of _ "more @ [last]"] exI [of _ w1] exI [of _ payload]) simp
qed

theorem rounds_stop_for_the_declared_reason_witness:
  "\<exists>out w' outs payload. demo_rounds = Some (Inr out, w') \<and> length outs \<le> 3 \<and>
     ro_rounds out = Some payload \<and> rounds_report (\<lambda>_. []) demo_phase_context demo_loop outs payload"
proof -
  obtain out w' where run: "demo_rounds = Some (Inr out, w')" "ro_state out = R_SUCCEEDED"
    using demo_converges by (auto split: option.splits prod.splits sum.splits)
  have loop: "round_loop_post_init demo_loop = Inr demo_loop" by code_simp
  have "execute_rounds (round_fuel demo_loop) (\<lambda>_. []) demo_report_ports demo_phase_context
      [(demo_task, demo_report_contract, demo_spec ''collect'')] (driver_start demo_loop) demo_run_world = Some (Inr out, w')"
    using run(1) by (simp add: demo_rounds_def execute_phases_def)
  from rounds_stop_for_the_declared_reason [OF loop this run(2)] obtain outs payload where
    "int (length outs) \<le> rl_max_rounds demo_loop" "out = (last outs)\<lparr>ro_rounds := Some payload\<rparr>"
    "rounds_report (\<lambda>_. []) demo_phase_context demo_loop outs payload" by blast
  moreover have "rl_max_rounds demo_loop = 3" by (simp add: demo_loop_def)
  ultimately show ?thesis using run(1) by (intro exI [of _ out] exI [of _ w'] exI [of _ outs] exI [of _ payload]) simp
qed

end
