(* ===== verification/Execution_Properties.thy ===== *)
theory Execution_Properties
  imports Run_Demo
begin

text \<open>
  The executor of a task against the workflow engine: what one call of the executor leaves in the
  engine's rows. The lemmas follow a task through an attempt (\<open>leased_to\<close> while it is held,
  \<open>settled_row\<close> after its completion was applied, \<open>waiting\<close> before it is leased again), and
  \<open>settles\<close> is what the retry loop keeps.
\<close>

section \<open>Calls\<close>

lemma engine_callE:
  assumes "engine_call p f w = (res, w')"
  obtains r st where "f (po_clk p (rw_step w)) (po_uid p (rw_step w)) (rw_engine w) = (r, st)"
    "w' = w\<lparr>rw_engine := st, rw_step := Suc (rw_step w)\<rparr>"
    "\<And>a. res = Inr a \<longleftrightarrow> r = Inr a" "\<And>e. res = Inl e \<longleftrightarrow> (\<exists>x. r = Inl x \<and> e = exception_of x)"
  using assms by (cases "f (po_clk p (rw_step w)) (po_uid p (rw_step w)) (rw_engine w)")
    (auto simp: engine_call_def lift_act_def split: sum.splits)

lemma bind_act_Inr:
  "bind_act m f w = (Inr b, w') \<longleftrightarrow> (\<exists>a w1. m w = (Inr a, w1) \<and> f a w1 = (Inr b, w'))"
  by (auto simp: bind_act_def split: sum.splits prod.splits)

lemma budget_call_engine: "budget_call p f w = (res, w') \<Longrightarrow> rw_engine w' = rw_engine w"
  by (auto simp: budget_call_def lift_act_def split: prod.splits sum.splits)

text \<open>A runtime that leaves the engine alone.\<close>

definition isolated :: "('w, 'p) execution_deps_scheme \<Rightarrow> bool" where
  "isolated p = ((\<forall>spec w. rw_engine (snd (po_create_session p spec w)) = rw_engine w) \<and>
     (\<forall>sid w. rw_engine (snd (po_run_session p sid w)) = rw_engine w))"

lemma run_session_engine:
  assumes "isolated p" and "run_session p t c sc w = (res, w')"
  shows "rw_engine w' = rw_engine w"
proof -
  have "rw_engine (snd (run_session p t c sc w)) = rw_engine w"
    using assms(1) by (simp add: run_session_def bind_act_def Let_def isolated_def assert_frozen_manifest_def
        raise_act_def return_act_def split: prod.split sum.split) (metis snd_conv)
  with assms(2) show ?thesis by simp
qed

section \<open>A task under lease\<close>

definition leased_to :: "task_lease \<Rightarrow> task_row \<Rightarrow> 'w run_world \<Rightarrow> bool" where
  "leased_to l row w =
     (task_of (tl_task_id l) (rw_engine w) = Some row \<and> tr_status row = T_LEASED \<and>
      (\<exists>r. lease_of (tl_task_id l) (rw_engine w) = Some r \<and> lr_lease_id r = tl_lease_id l \<and> lr_fence r = tl_fence l) \<and>
      tr_fence_seq row = tl_fence l \<and> tr_attempt row = tl_fence l \<and> 1 \<le> tl_fence l)"

lemma leased_to_engine: "leased_to l row w \<Longrightarrow> db (rw_engine w') = db (rw_engine w) \<Longrightarrow> leased_to l row w'"
  unfolding leased_to_def by (simp add: task_of_db [of "rw_engine w'" "rw_engine w"] lease_of_db [of "rw_engine w'" "rw_engine w"])

lemma heartbeat_keeps:
  assumes "leased_to l row w" and "engine_call p (heartbeat l) w = (res, w')"
  shows "case res of Inl _ \<Rightarrow> leased_to l row w' | Inr m \<Rightarrow> leased_to m row w' \<and> tl_task_id m = tl_task_id l \<and> tl_fence m = tl_fence l"
  using assms(2)
proof (rule engine_callE)
  fix r st assume h: "heartbeat l (po_clk p (rw_step w)) (po_uid p (rw_step w)) (rw_engine w) = (r, st)"
    and w': "w' = w\<lparr>rw_engine := st, rw_step := Suc (rw_step w)\<rparr>"
    and res: "\<And>a. res = Inr a \<longleftrightarrow> r = Inr a" "\<And>e. res = Inl e \<longleftrightarrow> (\<exists>x. r = Inl x \<and> e = exception_of x)"
  from h show ?thesis
  proof (cases rule: heartbeat_effect)
    case same
    then have "leased_to l row w'" using leased_to_engine [OF assms(1), of w'] w' by simp
    moreover obtain e where "res = Inl e" using same(2) res(1) by (cases res) auto
    ultimately show ?thesis by simp
  next
    case (beat q m)
    let ?g = "\<lambda>r. if lr_task_id r = tl_task_id l
          then r\<lparr>lr_lease_id := po_uid p (rw_step w) 0, lr_expires_at := po_clk p (rw_step w) 0 + wf_lease_ttl (rw_engine w),
                 lr_heartbeat_at := po_clk p (rw_step w) 0, lr_worker_id := tl_worker_id l, lr_fence := tl_fence l\<rparr> else r"
    let ?st = "rw_engine w\<lparr>wf_leases := map ?g (wf_leases (rw_engine w))\<rparr>"
    have "lease_of (tl_task_id l) ?st = map_option ?g (lease_of (tl_task_id l) (rw_engine w))"
      by (rule lease_of_map) simp
    then have "lease_of (tl_task_id l) st = Some (?g q)"
      using lease_of_db [OF beat(5)] beat(2) by simp
    moreover have "task_of (tl_task_id l) st = Some row"
      using task_of_db [OF beat(5)] assms(1) by (simp add: leased_to_def task_of_def)
    ultimately have "leased_to m row w'"
      using assms(1) beat lease_of_key [OF beat(2)] w' by (simp add: leased_to_def)
    moreover have "res = Inr m" using res(1) [of m] beat(1) by simp
    ultimately show ?thesis using beat(4) by simp
  qed
qed

definition settled_row :: "string \<Rightarrow> task_row \<Rightarrow> task_contract \<Rightarrow> string \<Rightarrow> failure_category option \<Rightarrow> 'w run_world \<Rightarrow> bool" where
  "settled_row tid row c out cat w =
     (lease_of tid (rw_engine w) = None \<and>
      (\<exists>ra. task_of tid (rw_engine w) =
              Some (row\<lparr>tr_status := fd_status (disposition c out (tr_attempt row) cat), tr_retry_at := ra\<rparr>) \<and>
            (ra \<noteq> None \<longleftrightarrow> fd_retrying (disposition c out (tr_attempt row) cat) \<and>
               (\<exists>d. retry_delay c (tr_attempt row) = Inr d \<and> d \<noteq> 0))))"

lemma completion_settles:
  assumes "leased_to l row w" and "decode_contract (tr_contract_json row) = Inr c"
    and "report_completion p l out cat w = (Inr (), w')"
  shows "settled_row (tl_task_id l) row c out cat w'"
proof -
  let ?cm = "\<lparr>cm_task_id = tl_task_id l, cm_outcome = out, cm_message = [], cm_failure_category = cat\<rparr>"
  from assms(3) have "engine_call p (complete l ?cm) w = (Inr (), w')"
    by (auto simp: report_completion_def bind_act_def lift_act_def completion_post_init_def first_error_Inr_iff
        split: sum.splits prod.splits if_splits)
  then obtain st where st: "complete l ?cm (po_clk p (rw_step w)) (po_uid p (rw_step w)) (rw_engine w) = (Inr (), st)"
      "w' = w\<lparr>rw_engine := st, rw_step := Suc (rw_step w)\<rparr>" by (rule engine_callE) auto
  have att: "tr_attempt row \<noteq> 0" using assms(1) by (auto simp: leased_to_def)
  have tid: "cm_task_id ?cm = tl_task_id l" by simp
  from st(1) tid show ?thesis
  proof (cases rule: complete_effect)
    case same
    have "\<exists>row'. task_of (tl_task_id l) (rw_engine w) = Some row' \<and> tr_status row' \<in> set COMPLETION_ALREADY_APPLIED"
      using same by auto
    then show ?thesis using assms(1) by (auto simp: leased_to_def COMPLETION_ALREADY_APPLIED_def)
  next
    case (fin row' r c' ra)
    have rc: "row' = row" "c' = c" using fin assms(1,2) by (auto simp: leased_to_def)
    have db: "db st = db (settle (tl_task_id l) (\<lambda>r. r\<lparr>tr_status := fd_status (disposition c out (tr_attempt row) cat), tr_retry_at := ra\<rparr>)
            (if fd_retrying (disposition c out (tr_attempt row) cat) then TASK_RETRY_SCHEDULED else TASK_COMPLETED)
            (completion_payload (disposition c out (tr_attempt row) cat) ?cm (tr_attempt row) ra) (tr_run_id row)
            (po_uid p (rw_step w) 0) (po_clk p (rw_step w) 1) (po_clk p (rw_step w) 2) (rw_engine w))"
      using fin(8) rc att by (simp add: applied_def Let_def)
    have ra: "ra \<noteq> None \<longleftrightarrow> fd_retrying (disposition c out (tr_attempt row) cat) \<and>
               (\<exists>d. retry_delay c (tr_attempt row) = Inr d \<and> d \<noteq> 0)"
      using fin(8) rc att by (auto simp: applied_def Let_def split: if_splits)
    have "task_of (tl_task_id l) (rw_engine w) = Some row" using assms(1) by (simp add: leased_to_def)
    with ra task_of_db [OF db] lease_of_db [OF db] st(2) show ?thesis
      by (auto simp: settled_row_def task_of_settle)
  qed
qed


section \<open>Taking the lease\<close>

definition stored_for :: "task_contract \<Rightarrow> task_row \<Rightarrow> bool" where
  "stored_for c row = (tr_contract_json row = encode_contract c \<and>
     (\<exists>t. valid_task t \<and> tr_task_json row = encode_research_task t))"

lemma attempted_row_stored:
  assumes "stored_for c row" and "valid_contract c"
  shows "with_attempt (tr_task_json row) (tr_contract_json row) l \<noteq> Inl (RetryNotDueError m)"
    and "with_attempt (tr_task_json row) (tr_contract_json row) l = Inr tj \<Longrightarrow>
      stored_for c (row\<lparr>tr_status := s, tr_fence_seq := f, tr_attempt := a, tr_retry_at := ra, tr_task_json := tj\<rparr>)"
proof -
  obtain t where t: "valid_task t" "tr_task_json row = encode_research_task t" "tr_contract_json row = encode_contract c"
    using assms(1) by (auto simp: stored_for_def)
  have eq: "with_attempt (tr_task_json row) (tr_contract_json row) l =
      bind_res (task_post_init (t\<lparr>rt_attempt := tl_fence l, rt_lease_id := Some (tl_lease_id l)\<rparr>))
       (\<lambda>t'. Inr (encode_research_task t'))"
    using decode_task_encode [OF t(1) assms(2)] by (simp add: with_attempt_def encode_task_def t)
  show "with_attempt (tr_task_json row) (tr_contract_json row) l \<noteq> Inl (RetryNotDueError m)"
    by (simp add: eq task_post_init_def split: if_splits)
  assume tj: "with_attempt (tr_task_json row) (tr_contract_json row) l = Inr tj"
  let ?t = "t\<lparr>rt_attempt := tl_fence l, rt_lease_id := Some (tl_lease_id l)\<rparr>"
  obtain t' where t': "task_post_init ?t = Inr t'" "tj = encode_research_task t'"
    using tj by (auto simp: eq bind_res_Inr_iff)
  then have "t' = ?t" unfolding task_post_init_def first_error_Inr_iff by blast
  with t(1) t' have "valid_task t'" by (auto simp: valid_task_def is_ok_def)
  with t(3) t'(2) show "stored_for c (row\<lparr>tr_status := s, tr_fence_seq := f, tr_attempt := a, tr_retry_at := ra, tr_task_json := tj\<rparr>)"
    by (auto simp: stored_for_def)
qed

lemma acquire_not_due:
  assumes "acquire_lease tid clk uid st = (Inl (RetryNotDueError m), st')" and "task_of tid st = Some row"
    and "stored_for c row" and "valid_contract c"
  shows "tr_retry_at row \<noteq> None"
proof
  assume none: "tr_retry_at row = None"
  have new: "new_lease tid a ttl now wid f lid \<noteq> Inl (RetryNotDueError m)" for a ttl now wid f lid
    by (auto simp: new_lease_def time_plus_def lease_post_init_def split: if_splits)
  have "persist_new_lease l run eid oc cr st \<noteq> Inl (RetryNotDueError m)" if "tl_task_id l = tid" for l run eid oc cr
    using attempted_row_stored(1) [OF assms(3,4), of l m] assms(2) that
    by (auto simp: persist_new_lease_def Let_def split: option.splits sum.splits if_splits simp: bind_res_def)
  with new none show False using assms(1,2)
    by (auto simp: acquire_lease_def before_retry_deadline_def closed_error_def lease_from_row_def lease_post_init_def
        dest: new_lease_InrD(1) split: if_splits option.splits sum.splits)
qed

lemma acquire_cases:
  assumes "acquire_or_fail p t w = (res, w')" and "lease_of (rt_id t) (rw_engine w) = None"
    and "task_of (rt_id t) (rw_engine w) = Some row" and "stored_for c row" and "valid_contract c" and "0 \<le> tr_fence_seq row"
  obtains (none) "db (rw_engine w') = db (rw_engine w)" "\<And>l. res \<noteq> Inr (Inr l)"
      "\<And>m. res = Inr (Inl (AcquireFailure m True)) \<Longrightarrow> tr_retry_at row \<noteq> None"
    | (lease) l tj where "res = Inr (Inr l)" "tl_task_id l = rt_id t" "tl_fence l = tr_fence_seq row + 1"
      "\<not> is_terminal (tr_status row) task_terminal"
      "let row' = row\<lparr>tr_status := T_LEASED, tr_fence_seq := tl_fence l, tr_attempt := tl_fence l,
                      tr_retry_at := None, tr_task_json := tj\<rparr>
       in leased_to l row' w' \<and> stored_for c row'"
proof -
  obtain r st where eng: "acquire_lease (rt_id t) (po_clk p (rw_step w)) (po_uid p (rw_step w)) (rw_engine w) = (r, st)"
    by fastforce
  have w': "rw_engine w' = st"
    using assms(1) eng
    by (auto simp: acquire_or_fail_def try_act_def engine_call_def lift_act_def return_act_def raise_act_def
        split: sum.splits run_exception.splits)
  have res_l: "\<And>l. res = Inr (Inr l) \<longleftrightarrow> r = Inr l"
    and res_nd: "\<And>m. res = Inr (Inl (AcquireFailure m True)) \<Longrightarrow> r = Inl (RetryNotDueError m)"
    using assms(1) eng
    by (auto simp: acquire_or_fail_def try_act_def engine_call_def lift_act_def return_act_def raise_act_def
        exception_of_def split: sum.splits run_exception.splits py_error.splits)
  from eng show ?thesis
  proof (cases rule: acquire_effect)
    case same
    then have "res \<noteq> Inr (Inr l)" for l using assms(2) res_l by auto
    then show ?thesis using none same(1) w' res_nd acquire_not_due [OF _ assms(3-5)] eng by blast
  next
    case (new row' l)
    have r': "row' = row" using new(2,6) assms(3) by (simp add: delivered_def)
    from new(6) obtain tj where tj: "with_attempt (tr_task_json row) (tr_contract_json row) l = Inr tj"
      and db: "db st = db (deliver l (po_clk p (rw_step w) 1 + wf_lease_ttl (rw_engine w)) (po_clk p (rw_step w) 1) tj
           (tr_run_id row) (po_uid p (rw_step w) 1) (po_clk p (rw_step w) 2) (po_clk p (rw_step w) 3) (rw_engine w))"
      and fence: "tl_fence l = tr_fence_seq row + 1"
      unfolding delivered_def r' by blast
    let ?row = "row\<lparr>tr_status := T_LEASED, tr_fence_seq := tl_fence l, tr_attempt := tl_fence l,
                      tr_retry_at := None, tr_task_json := tj\<rparr>"
    have "leased_to l ?row w'"
      using task_of_db [OF db] lease_of_db [OF db] assms(2,3,6) new(2) fence w'
      by (simp add: leased_to_def task_of_deliver lease_of_deliver)
    moreover have "stored_for c ?row" by (rule attempted_row_stored(2) [OF assms(4,5) tj])
    ultimately show ?thesis using lease [of l tj] new(1,2,4) res_l fence r' by (simp add: Let_def)
  qed
qed


section \<open>One attempt\<close>

lemma completion_refused:
  assumes "leased_to l row w" and "report_completion p l out cat w = (Inl e, w')"
  shows "leased_to l row w'"
proof (cases "rw_engine w' = rw_engine w")
  case True
  then show ?thesis using leased_to_engine [OF assms(1), of w'] by simp
next
  case False
  let ?cm = "\<lparr>cm_task_id = tl_task_id l, cm_outcome = out, cm_message = [], cm_failure_category = cat\<rparr>"
  from False assms(2) have "engine_call p (complete l ?cm) w = (Inl e, w')"
    by (auto simp: report_completion_def bind_act_def lift_act_def completion_post_init_def first_error_Inr_iff
        split: sum.splits prod.splits if_splits)
  then obtain st x where st: "complete l ?cm (po_clk p (rw_step w)) (po_uid p (rw_step w)) (rw_engine w) = (Inl x, st)"
      "w' = w\<lparr>rw_engine := st, rw_step := Suc (rw_step w)\<rparr>" by (rule engine_callE) auto
  have tid: "cm_task_id ?cm = tl_task_id l" by simp
  from st(1) tid show ?thesis
  proof (cases rule: complete_effect)
    case same
    then show ?thesis using leased_to_engine [OF assms(1), of w'] st(2) by simp
  qed simp
qed

fun attempt_end_ok ::
    "research_task \<Rightarrow> task_contract \<Rightarrow> 'x attempt_end \<Rightarrow> string \<Rightarrow> failure_category option \<Rightarrow> bool" where
  "attempt_end_ok t c (AttemptDone r) out cat =
     (te_outcome r = out \<and> out \<in> {''SUCCEEDED'', ''FAILED''} \<and> te_category r = cat \<and> te_attempts r = rt_attempt t \<and>
      \<not> te_deferred r \<and> (out = ''SUCCEEDED'' \<longrightarrow> cat = None))"
| "attempt_end_ok t c (AttemptRetryable q) out cat =
     (out = ''FAILED'' \<and> q = cat \<and> (\<exists>k. cat = Some k \<and> (retryable_categories (effective_policy c) = [] \<or>
        k \<in> set (retryable_categories (effective_policy c)))))"

lemma settle_attempt_settles:
  assumes "leased_to l row w" and "decode_contract (tr_contract_json row) = Inr c"
    and "settle_attempt p t l cat w = (Inr (), w')"
  shows "settled_row (tl_task_id l) row c ''FAILED'' (Some cat) w'"
proof -
  obtain f w1 where w1: "budget_call p f w = (Inr (), w1)" "report_completion p l ''FAILED'' (Some cat) w1 = (Inr (), w')"
    using assms(3) unfolding settle_attempt_def bind_act_Inr by (elim exE conjE) (rule that; simp)
  note w1(1) [THEN budget_call_engine]
  then have "leased_to l row w1" using leased_to_engine [OF assms(1), of w1] by simp
  then show ?thesis using completion_settles assms(2) w1(2) by blast
qed

lemma attempt_failed_settles:
  assumes "leased_to l row w" and "decode_contract (tr_contract_json row) = Inr c'"
    and "attempt_failed p t c l e w = (Inr x, w')"
  shows "\<exists>cat. settled_row (tl_task_id l) row c' ''FAILED'' cat w' \<and> attempt_end_ok t c x ''FAILED'' cat"
proof -
  have "\<exists>cat. settle_attempt p t l cat w = (Inr (), w') \<and> attempt_end_ok t c x ''FAILED'' (Some cat)"
    using assms(3)
    by (cases "(p, t, c, l, e)" rule: attempt_failed.cases)
      (auto simp: bind_act_def return_act_def raise_act_def task_failed_def split: sum.splits prod.splits if_splits)
  then show ?thesis using settle_attempt_settles [OF assms(1,2), of p t _ w'] by blast
qed

lemma attempt_settles:
  assumes "leased_to l row w" and "decode_contract (tr_contract_json row) = Inr c'" and "isolated p"
    and "attempt_once p t c sc l w = (Inr x, w')"
  shows "\<exists>out cat. settled_row (tl_task_id l) row c' out cat w' \<and> attempt_end_ok t c x out cat"
proof -
  obtain r1 w1 where beat: "engine_call p (heartbeat l) w = (r1, w1)" by fastforce
  note beat' = heartbeat_keeps [OF assms(1) beat]
  show ?thesis
  proof (cases r1)
    case (Inl e)
    then show ?thesis using assms(4) beat beat' attempt_failed_settles [OF _ assms(2), of l w1]
      by (fastforce simp: attempt_once_def try_act_def)
  next
    case (Inr m)
    then have m: "leased_to m row w1" "tl_task_id m = tl_task_id l" using beat' by auto
    obtain r2 w2 where run: "run_session p t c sc w1 = (r2, w2)" by fastforce
    have m2: "leased_to m row w2" using leased_to_engine [OF m(1), of w2] run_session_engine [OF assms(3) run] by simp
    show ?thesis
    proof (cases r2)
      case (Inl e)
      then have "attempt_failed p t c m e w2 = (Inr x, w')"
        using assms(4) beat Inr run by (simp add: attempt_once_def try_act_def)
      then show ?thesis using attempt_failed_settles [OF m2 assms(2)] m(2) by fastforce
    next
      case (Inr r)
      obtain r3 w3 where rep: "report_completion p m (session_outcome r) None w2 = (r3, w3)" by fastforce
      show ?thesis
      proof (cases r3)
        case (Inl e)
        then have "attempt_failed p t c m e w3 = (Inr x, w')"
          using assms(4) beat \<open>r1 = Inr m\<close> run Inr rep by (simp add: attempt_once_def try_act_def)
        then show ?thesis using attempt_failed_settles [OF completion_refused [OF m2] assms(2)] rep Inl m(2) by fastforce
      next
        case (Inr u)
        then show ?thesis
          using assms(4) beat \<open>r1 = Inr m\<close> run \<open>r2 = Inr r\<close> rep completion_settles [OF m2 assms(2), of p "session_outcome r" None w3] m(2)
          by (intro exI [of _ "session_outcome r"] exI [of _ None])
            (auto simp: attempt_once_def try_act_def return_act_def session_outcome_def split: if_splits)
      qed
    qed
  qed
qed


section \<open>The loop\<close>

lemma disposition_persisted [simp]: "disposition (persisted_contract c) out a cat = disposition c out a cat"
  by (simp add: disposition_def decide_failure_def persisted_contract_def)

lemma retry_delay_persisted [simp]: "retry_delay (persisted_contract c) a = retry_delay c a"
  by (simp add: retry_delay_def persisted_contract_def)

lemma valid_policy:
  assumes "valid_contract c"
  shows "1 \<le> max_attempts (effective_policy c)" and "retry_delay c a = Inr d \<Longrightarrow> 0 \<le> d"
proof -
  show "1 \<le> max_attempts (effective_policy c)"
    using assms by (auto simp: valid_contract_def effective_policy_def is_ok_def retry_policy_post_init_def
        split: option.splits if_splits)
  have pol: "\<And>b m. (case tc_retry_policy c of None \<Rightarrow> None | Some p \<Rightarrow> backoff_seconds p) = Some b \<Longrightarrow> 0 \<le> b"
    "\<And>p m. tc_retry_policy c = Some p \<Longrightarrow> max_backoff_seconds p = Some m \<Longrightarrow> 0 \<le> m"
    using assms by (auto simp: valid_contract_def is_ok_def retry_policy_post_init_def split: option.splits if_splits)
  then show "retry_delay c a = Inr d \<Longrightarrow> 0 \<le> d"
    by (auto simp: retry_delay_def timedelta_seconds_def Let_def second_us_def split: option.splits if_splits)
qed

definition waiting :: "research_task \<Rightarrow> task_contract \<Rightarrow> task_row \<Rightarrow> 'w run_world \<Rightarrow> bool" where
  "waiting t c row w =
     (task_of (rt_id t) (rw_engine w) = Some row \<and> lease_of (rt_id t) (rw_engine w) = None \<and> stored_for c row \<and>
      tr_retry_at row = None \<and> tr_status row \<noteq> T_SUCCEEDED)"

definition deferred_row :: "task_contract \<Rightarrow> task_row \<Rightarrow> bool" where
  "deferred_row c row =
     (if retryable_categories (effective_policy c) = [] then tr_status row = T_FAILED
      else tr_status row = T_RETRY_SCHEDULED \<and> tr_retry_at row \<noteq> None)"

definition settled_result :: "research_task \<Rightarrow> task_contract \<Rightarrow> 'x task_result \<Rightarrow> 'w run_world \<Rightarrow> task_row \<Rightarrow> bool" where
  "settled_result t c r w row =
     (task_of (rt_id t) (rw_engine w) = Some row \<and> lease_of (rt_id t) (rw_engine w) = None \<and>
      tr_fence_seq row \<le> max_attempts (effective_policy c) \<and>
      (te_succeeded r \<longleftrightarrow> tr_status row = T_SUCCEEDED) \<and>
      (te_deferred r \<longrightarrow> deferred_row c row) \<and>
      (\<forall>cat. te_category r = Some cat \<longrightarrow>
         tr_status row = fd_status (disposition c ''FAILED'' (te_attempts r) (Some cat))))"

lemma refused_result:
  assumes "waiting t c row w" and "tr_fence_seq row \<le> max_attempts (effective_policy c)"
    and "\<And>m. f \<noteq> AcquireFailure m True"
  shows "settled_result t c (refused t f) w row"
  using assms by (cases "(t, f)" rule: refused.cases)
    (auto simp: waiting_def settled_result_def task_failed_def te_succeeded_def)

lemma fd_status_succeeded: "fd_status (disposition c out a cat) = T_SUCCEEDED \<longleftrightarrow> out = ''SUCCEEDED''"
  by (auto simp: disposition_def failure_status_def Let_def split: failure_action.splits)

lemma executed_as_Inr: "executed_as t a lid = Inr t' \<Longrightarrow> t' = t\<lparr>rt_attempt := a, rt_lease_id := Some lid\<rparr>"
  unfolding executed_as_def task_post_init_def first_error_Inr_iff by blast

lemma stored_decode: "stored_for c row \<Longrightarrow> valid_contract c \<Longrightarrow> decode_contract (tr_contract_json row) = Inr (persisted_contract c)"
  by (auto simp: stored_for_def decode_contract_encode)


lemma done_result:
  assumes row: "settled_row (rt_id t) row (persisted_contract c) out cat w'" and at: "tr_attempt row = rt_attempt t'"
    and end_ok: "attempt_end_ok t' c (AttemptDone r) out cat" and fence: "tr_fence_seq row \<le> max_attempts (effective_policy c)"
  shows "\<exists>row'. settled_result t c r w' row'"
proof -
  obtain ra where ra: "task_of (rt_id t) (rw_engine w') =
      Some (row\<lparr>tr_status := fd_status (disposition c out (tr_attempt row) cat), tr_retry_at := ra\<rparr>)"
    and free: "lease_of (rt_id t) (rw_engine w') = None"
    using row by (auto simp: settled_row_def)
  show ?thesis
    using ra free at end_ok fence
    by (auto simp: settled_result_def te_succeeded_def fd_status_succeeded)
qed

text \<open>What a loop's outcome must satisfy, and the turn after a retryable failure.\<close>

definition settles ::
    "research_task \<Rightarrow> task_contract \<Rightarrow> ((run_exception + 'x task_result) \<times> 'w run_world) option \<Rightarrow> bool" where
  "settles t c out = (\<exists>res w'. out = Some (res, w') \<and>
     (\<forall>r. res = Inr r \<longrightarrow> (\<exists>row. settled_result t c r w' row)))"

lemma settles_simps [simp]:
  "\<not> settles t c None"
  "settles t c (Some (Inl e, w))"
  "settles t c (Some (Inr r, w)) \<longleftrightarrow> (\<exists>row. settled_result t c r w row)"
  by (simp_all add: settles_def)

lemma retryable_settles:
  assumes "valid_contract c"
    and row: "settled_row (rt_id t) row1 (persisted_contract c) out cat w" "attempt_end_ok t' c (AttemptRetryable q) out cat"
    and at: "stored_for c row1" "tr_attempt row1 = f" "tr_fence_seq row1 = f" "1 \<le> f" "f \<le> max_attempts (effective_policy c)"
    and again: "\<And>row. waiting t c row w \<Longrightarrow> tr_fence_seq row = f \<Longrightarrow> f < max_attempts (effective_policy c) \<Longrightarrow> settles t c rest"
  shows "settles t c
    (if max_attempts (effective_policy c) \<le> f
     then Some (Inr (task_failed t' f q ''retry budget exhausted'' False), w)
     else (case retry_delay c f of
             Inl e \<Rightarrow> Some (Inl (exception_of e), w)
           | Inr delay \<Rightarrow>
               (if 0 < delay then Some (Inr (task_failed t' f q ''retry deferred to the dispatcher'' True), w)
                else rest)))"
proof -
  obtain ra where ra: "task_of (rt_id t) (rw_engine w) =
      Some (row1\<lparr>tr_status := fd_status (disposition c out f cat), tr_retry_at := ra\<rparr>)"
    "lease_of (rt_id t) (rw_engine w) = None"
    "ra \<noteq> None \<longleftrightarrow> fd_retrying (disposition c out f cat) \<and> (\<exists>d. retry_delay c f = Inr d \<and> d \<noteq> 0)"
    using row(1) at(2) by (auto simp: settled_row_def)
  obtain k where k: "cat = Some k" "out = ''FAILED''" "q = Some k"
      "retryable_categories (effective_policy c) = [] \<or> k \<in> set (retryable_categories (effective_policy c))"
    using row(2) by auto
  show ?thesis
  proof (cases "max_attempts (effective_policy c) \<le> f")
    case True
    have "settled_result t c (task_failed t' f q ''retry budget exhausted'' False) w
        (row1\<lparr>tr_status := fd_status (disposition c out f cat), tr_retry_at := ra\<rparr>)"
      using ra(1,2) at(3,5) k(1-3) fd_status_succeeded [of c out f cat]
      by (simp add: settled_result_def task_failed_def te_succeeded_def)
    with True show ?thesis by auto
  next
    case False
    then obtain pol where pol: "tc_retry_policy c = Some pol" "f < max_attempts pol"
      using at(4) by (auto simp: effective_policy_def split: option.splits)
    let ?disp = "disposition c out f cat" and ?named = "retryable_categories (effective_policy c) \<noteq> []"
    have disp: "fd_status ?disp = (if ?named then T_RETRY_SCHEDULED else T_FAILED)" "fd_retrying ?disp = ?named"
      using k pol by (auto simp: disposition_def decide_failure_def effective_policy_def failure_status_def)
    let ?row = "row1\<lparr>tr_status := fd_status ?disp, tr_retry_at := ra\<rparr>"
    show ?thesis
    proof (cases "retry_delay c f")
      case (Inr d)
      have late: "settled_result t c (task_failed t' f q ''retry deferred to the dispatcher'' True) w ?row" if "0 < d"
        using that ra disp at(3,5) k(1-3) Inr
        by (simp add: settled_result_def deferred_row_def task_failed_def te_succeeded_def)
      have "waiting t c ?row w" if "\<not> 0 < d"
        using that ra disp at(1) valid_policy(2) [OF assms(1) Inr] Inr
        by (auto simp: waiting_def stored_for_def)
      with late False Inr again [of ?row] at(3) show ?thesis by auto
    qed (use False in simp)
  qed
qed

lemma attempts_settle:
  assumes "isolated p" and "valid_contract c"
    and "waiting t c row w" and "0 \<le> tr_fence_seq row" and "tr_fence_seq row < max_attempts (effective_policy c)"
    and "nat (max_attempts (effective_policy c) - tr_fence_seq row) < n"
  shows "settles t c (execute_attempts n p t c sc w :: ((run_exception + 'x task_result) \<times> 'w run_world) option)"
  using assms(3-6)
proof (induction n arbitrary: row w)
  case 0
  then show ?case by simp
next
  case (Suc n)
  note start = Suc.prems(1) [unfolded waiting_def]
  obtain a w1 where acq: "acquire_or_fail p t w = (a, w1)" by fastforce
  have free: "lease_of (rt_id t) (rw_engine w) = None" "task_of (rt_id t) (rw_engine w) = Some row" "stored_for c row"
    using start by simp_all
  from acq free assms(2) Suc.prems(2) show ?case
  proof (cases rule: acquire_cases)
    case none
    have w1: "waiting t c row w1" using start task_of_db [OF none(1)] lease_of_db [OF none(1)] by (simp add: waiting_def)
    have "settled_result t c (refused t f) w1 row" if "a = Inr (Inl f)" for f
      using none(3) that start Suc.prems(3) by (intro refused_result [OF w1]) auto
    then show ?thesis using acq none(2) by (cases a) (auto split: sum.splits)
  next
    case (lease l tj)
    define row1 where "row1 = row\<lparr>tr_status := T_LEASED, tr_fence_seq := tl_fence l, tr_attempt := tl_fence l,
                      tr_retry_at := None, tr_task_json := tj\<rparr>"
    have row1: "leased_to l row1 w1" "stored_for c row1" using lease(5) by (simp_all add: row1_def Let_def)
    have fence: "max (tl_fence l) 1 = tl_fence l" using lease(3) Suc.prems(2) by simp
    show ?thesis
    proof (cases "executed_as t (tl_fence l) (tl_lease_id l)")
      case (Inl e)
      then show ?thesis using acq lease(1) fence by simp
    next
      case (Inr t')
      have at: "tr_attempt row1 = rt_attempt t'" "rt_attempt t' = tl_fence l" "tr_fence_seq row1 = tl_fence l"
          "1 \<le> tl_fence l" "tl_fence l \<le> max_attempts (effective_policy c)"
        using executed_as_Inr [OF Inr] lease(3) Suc.prems(2,3) by (simp_all add: row1_def)
      obtain x :: "run_exception + 'x attempt_end" and w2 where once: "attempt_once p t' c sc l w1 = (x, w2)" by fastforce
      note run = acq lease(1) fence Inr once
      show ?thesis
      proof (cases x)
        case (Inl e)
        then show ?thesis using run by (simp add: Let_def)
      next
        case (Inr y)
        obtain out cat where fin: "settled_row (rt_id t) row1 (persisted_contract c) out cat w2" "attempt_end_ok t' c y out cat"
          using attempt_settles [OF row1(1) stored_decode [OF row1(2) assms(2)] assms(1), of t' c sc y w2] once Inr lease(2)
          by auto
        show ?thesis
        proof (cases y)
          case (AttemptDone r)
          then show ?thesis using done_result [OF fin(1) at(1), of r] fin(2) at(3,5) run Inr by (simp add: Let_def)
        next
          case (AttemptRetryable q)
          have "settles t c (execute_attempts n p t c sc w2 :: ((run_exception + 'x task_result) \<times> 'w run_world) option)"
            if "waiting t c row' w2" "tr_fence_seq row' = tl_fence l" "tl_fence l < max_attempts (effective_policy c)" for row'
            using Suc.IH [OF that(1)] that(2,3) lease(3) Suc.prems(2,4) by simp
          moreover have "q = cat" using fin(2) AttemptRetryable by simp
          ultimately show ?thesis
            using retryable_settles [OF assms(2) fin(1) _ row1(2) _ at(3-5), where t' = t' and q = cat
                and rest = "execute_attempts n p t c sc w2 :: ((run_exception + 'x task_result) \<times> 'w run_world) option"]
              fin(2) at(1,2) run Inr AttemptRetryable
            by (simp add: Let_def split del: if_split)
        qed
      qed
    qed
  qed
qed


lemma demo_fails:
  "(case execute_task demo_ports demo_task demo_contract (demo_spec ''collect'') demo_run_world ::
      ((run_exception + unit task_result) \<times> unit run_world) option of
     Some (Inr r, w') \<Rightarrow> te_outcome r = ''FAILED'' \<and> \<not> te_deferred r \<and> te_category r = Some FC_VALIDATION_FAILURE
   | _ \<Rightarrow> False)"
  by code_simp


end
