(* ===== verification/Spec2Isabelle.thy ===== *)
theory Spec2Isabelle
  imports Workflow_Properties Worker_Properties Program_Properties Acceptance Circuit_Breaker
    Queue_Properties Artifact_Properties Gateway_Properties Budget_Properties Closure_Properties
    Cost_Properties Read_Properties Run_Properties Execution_Properties
begin

text \<open>
  A verification development for Research OS, a system that runs research protocols as
  durable runs: a run is compiled, passes preflight, is split into tasks, the tasks are handed
  to workers under leases, their results are judged by acceptance criteria, programs chain
  runs into rounds with human gates between them, and what a run uses is recorded in a budget
  ledger and priced. The code is Python; the parts that carry the
  durable state are the domain entities (\<^verbatim>\<open>packages/domain\<close>), the run orchestration
  (\<^verbatim>\<open>packages/application\<close>) and the SQLite adapters (\<^verbatim>\<open>adapters/sqlite\<close>) behind the ports.

  \<^bold>\<open>Conventions.\<close> A dataclass is a record, an enumeration a datatype, \<^verbatim>\<open>__post_init__\<close> a function
  \<open>..._post_init\<close> that returns the value or the first error raised. A fallible function
  returns \<open>'a res\<close>, that is \<open>py_error + 'a\<close>. A table is a list of rows in insertion order with
  \<open>row_of\<close>, \<open>upd_row\<close> and \<open>del_row\<close> for its key (\<open>Prelude\<close>). An adapter operation takes the
  store and returns its result with the new store; a statement block that raises leaves the
  tables as they were. The clock is an argument: a time, or a function that gives the
  successive readings of one call, in microseconds since year 1; so are the random
  identifiers. Python integers are \<open>int\<close>, decimals are coefficient and exponent (\<open>Decimals\<close>),
  stored times are compared as the texts the code stores (\<open>Timestamps\<close>).

  \<^bold>\<open>Theories.\<close>
  \<^item> \<open>Prelude\<close>, \<open>Decimals\<close>, \<open>Timestamps\<close>, \<open>Adapter_Base\<close>: results, texts, tables, decimal
    arithmetic, ISO texts and their order, the call log of the adapters.
  \<^item> \<open>State_Base\<close>, \<open>Lifecycles\<close>, \<open>Research_Run\<close>: the locales \<open>lifecycle\<close> and \<open>closing_lifecycle\<close> of a
    transition table, interpreted for runs, phases, sessions and tasks (\<^verbatim>\<open>*_state.py\<close>), and the
    run entity (\<^verbatim>\<open>run.py\<close>). Terminal states are final and reachable; a run executes only after
    its gates, and no event changes the references a manifest froze.
  \<^item> \<open>Task_Contract\<close>, \<open>Task_Codec\<close>: contracts, retry policies and failure dispositions
    (\<^verbatim>\<open>tasks.py\<close>, \<^verbatim>\<open>failure_policy.py\<close>) and their persisted form (\<^verbatim>\<open>serialization.py\<close>) with its
    round trip.
  \<^item> \<open>Workers\<close>: worker states, registrations, the registry and the reaper (\<^verbatim>\<open>workers.py\<close>,
    \<^verbatim>\<open>worker_registry.py\<close>, \<^verbatim>\<open>scheduler.py\<close>). \<open>Worker_Properties\<close>: histories of the registry, what a
    session token is good for, and the reaper together with the recovery of leases.
  \<^item> \<open>Workflow_Store\<close>, \<open>Workflow_Engine\<close>: the tables and every state-changing call of the engine
    (\<^verbatim>\<open>workflow_ops.py\<close>, \<^verbatim>\<open>workflow_engine.py\<close> and their helpers). \<open>Workflow_Invariants\<close>,
    \<open>Workflow_System\<close>, \<open>Workflow_History\<close>: the invariant of the tables, the calls as commands of
    a transition system and how rows evolve under them; \<open>Workflow_Properties\<close>: what follows for
    every history. \<open>Workflow_Reads\<close>, \<open>Read_Properties\<close>: the projections of the engine
    (\<^verbatim>\<open>projections.py\<close>), above all the dispatch ownership of runs: the rows of the one joint
    statement, how they are dealt to the runs, and that the view complements recovery.
  \<^item> \<open>Program_Domain\<close>, \<open>Program_Store\<close>, \<open>Program_Gates\<close>, \<open>Program_Runner\<close>: declarations of a
    program, its stores, its human gates and one advance (\<^verbatim>\<open>program.py\<close>, \<^verbatim>\<open>program_store.py\<close>,
    \<^verbatim>\<open>program_*.py\<close>); the locale \<open>decision_log\<close> is the port the advance writes to.
    \<open>Program_Lemmas\<close>, \<open>Program_Properties\<close>: bounds on retries, exactness of gates, one decision
    per advance.
  \<^item> \<open>Policy\<close>, \<open>Acceptance\<close>: the policy evaluator with the locale \<open>policy_evaluator\<close> of its port, and
    the acceptance criteria, which may depend on a policy decision.
  \<^item> \<open>Circuit_Breaker\<close>: the breaker of a model endpoint as a machine on timed inputs.
  \<^item> \<open>Experiments\<close>, \<open>Experiment_Queue\<close>: the machines of experiment plans, runs and queue entries,
    the queue table with its claim, and the dispatcher. \<open>Queue_Properties\<close>: the reads and the
    conditional writes of several dispatchers and the API as interleaved steps, in which an entry
    is handed out once while its claim is held, and what a dispatch leaves of a claimed entry.
  \<^item> \<open>Texts\<close>, \<open>Artifact_Store\<close>, \<open>Artifact_Properties\<close>: reading numbers and prefixes from texts;
    artifacts, retention policies and revision chains (\<^verbatim>\<open>artifacts.py\<close>), the content-addressed
    store (\<^verbatim>\<open>artifact_store.py\<close>) and the retention scan (\<^verbatim>\<open>retention.py\<close>). Stored content
    survives until the artifact is deleted, the scan does exactly what the policies say outside
    quarantine and ignores them inside, the chain check ends and is exact; the locale \<open>artifact_port\<close> is what the gateway relies on.
  \<^item> \<open>Execution_Jobs\<close>, \<open>Worker_Gateway\<close>, \<open>Gateway_Properties\<close>: the queue of remote jobs on the task
    and lease tables (\<^verbatim>\<open>execution_job_queue.py\<close>) and the handlers of the gateway
    (\<^verbatim>\<open>services/api/worker_gateway\<close>), which compose registry, engine, job queue and store. A job
    goes to a ready worker within its registration, a result is accepted once and from the
    lease holder only, bundles of different workers are kept apart.
  \<^item> \<open>Budget_Ledger\<close>, \<open>Budget_Properties\<close>: reservations, policies, usage entries and their stored
    form (\<^verbatim>\<open>domain/budget.py\<close>) and the SQLite, PostgreSQL and in-memory ledgers
    (\<^verbatim>\<open>budget_ledger.py\<close>); the locale \<open>usage_port\<close> states what the three promise of recorded usage.
    An entry is stored once, read back as written and never changed.
  \<^item> \<open>Budget_Closure\<close>, \<open>Closure_Properties\<close>: how usage reaches the ledger (\<^verbatim>\<open>budget_entries.py\<close>,
    \<^verbatim>\<open>budget_closure.py\<close>, \<^verbatim>\<open>usage_collection.py\<close>, \<^verbatim>\<open>usage_recording.py\<close>), the adjustment of a
    budget (\<^verbatim>\<open>budget_adjust.py\<close>) and the check before a run (\<^verbatim>\<open>preflight/budget.py\<close>); the locale
    \<open>closing_port\<close> is the port a closure writes to. A closure is refused exactly when its input
    exceeds a checked limit and records all or nothing, the check
    before a run is exact, an adjusted budget is held by SQLite and not always by PostgreSQL.
  \<^item> \<open>Cost\<close>, \<open>Cost_Properties\<close>: price tables, their snapshots and the table a run froze
    (\<^verbatim>\<open>cost/pricing.py\<close>, \<^verbatim>\<open>pricing_snapshot_store.py\<close>, \<^verbatim>\<open>cost/pricing_resolution.py\<close>), the cost of
    entries, dimensions, runs and days and its extrapolation (\<^verbatim>\<open>cost/*.py\<close>). The total does not
    depend on the grouping, the unknown is never counted as zero, each group of a day is priced
    from exactly its entries, frozen prices do not change.
  \<^item> \<open>Run_Plan\<close>, \<open>Run_World\<close>: the compiled plan and the resolution of its sessions
    (\<^verbatim>\<open>session_resolver.py\<close>); the world of a run (engine, ledger, approvals, events, the books of
    the service and the state of foreign systems) and the actions on it.
    \<open>Task_Execution\<close> (\<^verbatim>\<open>task_executor.py\<close>): the attempts of one task against the engine.
    \<open>Evaluation_Gate\<close>, \<open>Task_Gate\<close> (\<^verbatim>\<open>evaluation_gate.py\<close>, \<^verbatim>\<open>task_phase_helpers.py\<close>): the gate on its
    result and what follows from the verdict. \<open>Phase_Runner\<close> (\<^verbatim>\<open>phase_runner.py\<close>): the pass over
    the phases with human gates, pauses and review panels. \<open>Round_Loop\<close>
    (\<^verbatim>\<open>round_loop.py\<close>, \<^verbatim>\<open>round_loop_runner.py\<close>): research in rounds. \<open>Run_Service\<close> (\<^verbatim>\<open>service.py\<close>): start,
    cancel and the four ways to resume. They call engine, ledger, approval store and policy of
    the theories above.
  \<^item> \<open>Run_Frames\<close>: which relations between worlds the actions keep, in the locales \<open>frame\<close>,
    \<open>call_frame\<close>, \<open>pass_frame\<close> and \<open>run_frame\<close>, one per layer of the orchestration; they are
    interpreted for the fitness of the engine (\<open>Run_Totality\<close>), the books of the service
    (\<open>Run_Books\<close>) and the rows of a set of tasks (\<open>Run_Properties\<close>). \<open>Run_Totality\<close>: all loops end.
    \<open>Run_Books\<close>: a pass accounts for its specs, the rounds for their identifiers. \<open>Run_Demo\<close>: a
    concrete service. \<open>Run_Properties\<close>, \<open>Execution_Properties\<close>: every call of the service returns,
    nothing a run was given is lost, a gated phase waits, rounds stop for the declared reason,
    and a result of the executor is what the engine holds.

  \<^bold>\<open>Bounds.\<close> The recursions are structural, except the walk along a revision chain, which ends
  because it visits no artifact twice, and two loops that carry fuel: the attempts of a task
  (\<open>attempt_fuel\<close>, one more than \<^verbatim>\<open>max_attempts\<close>; every attempt takes the next fence of the task)
  and the rounds of a loop (\<open>round_fuel\<close>, its \<^verbatim>\<open>max_rounds\<close>). That the fuel suffices is
  \<open>every_service_call_returns\<close>; that a loop makes at most \<^verbatim>\<open>max_rounds\<close> rounds does not rest on the
  fuel, \<open>rounds_stop_for_the_declared_reason\<close> holds for any. Times are bounded where the code can
  overflow a \<^verbatim>\<open>datetime\<close> (\<open>time_plus\<close> against \<open>max_us\<close>). The mean of a series is
  rounded as the code does it, through a double of 53 bits (\<open>round_div\<close>); totals beyond the range
  of a double are outside the model.

  \<^bold>\<open>Parameters.\<close> The clock, random identifiers, the function that starts a run, the sink of overdue
  notices, the schema check of an acceptance criterion, the digest of a task key, the content
  hash of artifacts and of reservations (\<open>dg\<close>), the digest of a price table (\<open>pd\<close>) and the hash of
  session tokens (\<open>hash\<close>) are arguments of the definitions that use them; of the hashes nothing is
  assumed except, where a run finds its frozen prices, that the digest tells the frozen table
  apart from others of its version. For the orchestration of runs the parameters are the fields
  of \<open>phase_ports\<close> and \<open>run_service\<close> that stand for foreign systems: the agent runtime, the
  capability step, contexts, registration of results and the assembly of the facts a gate judges,
  report and experiment runners, compilation and freezing. Their results are arbitrary; the
  theorems about a run assume only (\<open>isolated_ports\<close>, \<open>isolated_service\<close>, \<open>isolated\<close>) that they
  change neither the tables of the engine nor the approvals, events and books of the service,
  which these systems have no access to.

  \<^bold>\<open>Not modelled.\<close> Telemetry and logging; SQL concurrency between processes beyond what one
  statement block guarantees, except the claims of the experiment queue; the PostgreSQL adapters, which implement the same ports, except the job
  queue, which exists for PostgreSQL only and is modelled on the same tables, and the budget
  ledger; failures injected into the in-memory adapters; agents,
  models, tools and execution back ends, which are calls to other systems; the texts and documents
  a run assembles for agents (contexts, capability chains, registration of results, reports);
  compilation of a protocol, preflight other than the budget check and the hash of a manifest;
  a cancellation that overtakes a call in progress; HTTP routing; the
  web front end; development tools and tests.
\<close>

end
